(* ===== verification/Prelude.thy ===== *)
theory Prelude
  imports Main "HOL-Library.Word" "HOL-Library.Signed_Division" "HOL-Library.AList"
    "HOL-Library.Char_ord" "HOL-Library.List_Lexorder" "HOL-Library.Sublist"
begin

text \<open>
  Shared vocabulary of the development: the parts of the Go language and of its standard
  library that the daemon's packages use (byte strings and package \<^verbatim>\<open>strings\<close>, decimal
  printing, \<^verbatim>\<open>time.Time\<close> and \<^verbatim>\<open>time.Duration\<close>, 64-bit integers, string-keyed maps), the
  type synonyms that name them, and the generic lemmas the component theories share.

  Conventions.  A Go string is a list of bytes, as in Go; \<^typ>\<open>string\<close> is a list of 8-bit
  \<^typ>\<open>char\<close>.  \<^verbatim>\<open>strings.TrimSpace\<close> is modelled on all byte strings (the Unicode space
  characters are recognised by their UTF-8 encodings); \<^verbatim>\<open>ToLower\<close>, \<^verbatim>\<open>ToUpper\<close> and
  \<^verbatim>\<open>EqualFold\<close> are modelled on ASCII letters and leave every other byte alone.  A
  \<^verbatim>\<open>time.Time\<close> is the number of nanoseconds since Go's zero time, so that \<^verbatim>\<open>IsZero\<close> is
  equality with 0; a \<^verbatim>\<open>time.Duration\<close> is its number of nanoseconds.
\<close>

named_theorems go_simps \<open>rewrite rules for the modelled library operations\<close>
named_theorems inv_intros \<open>introduction rules for component invariants\<close>

section \<open>Bytes and strings\<close>

abbreviation byte :: "char \<Rightarrow> nat" where
  "byte c \<equiv> of_char c"

definition space1 :: "char \<Rightarrow> bool" where
  "space1 a \<longleftrightarrow> (9 \<le> byte a \<and> byte a \<le> 13) \<or> byte a = 32"

text \<open>U+0085 and U+00A0.\<close>

definition space2 :: "char \<Rightarrow> char \<Rightarrow> bool" where
  "space2 a b \<longleftrightarrow> byte a = 194 \<and> (byte b = 133 \<or> byte b = 160)"

text \<open>U+1680, U+2000 to U+200A, U+2028, U+2029, U+202F, U+205F and U+3000.\<close>

definition space3 :: "char \<Rightarrow> char \<Rightarrow> char \<Rightarrow> bool" where
  "space3 a b c \<longleftrightarrow>
     (byte a = 225 \<and> byte b = 154 \<and> byte c = 128) \<or>
     (byte a = 226 \<and> byte b = 128 \<and>
        ((128 \<le> byte c \<and> byte c \<le> 138) \<or> byte c = 168 \<or> byte c = 169 \<or> byte c = 175)) \<or>
     (byte a = 226 \<and> byte b = 129 \<and> byte c = 159) \<or>
     (byte a = 227 \<and> byte b = 128 \<and> byte c = 128)"

fun trim_by :: "(char \<Rightarrow> bool) \<Rightarrow> (char \<Rightarrow> char \<Rightarrow> bool) \<Rightarrow> (char \<Rightarrow> char \<Rightarrow> char \<Rightarrow> bool)
    \<Rightarrow> string \<Rightarrow> string" where
  "trim_by p q r [] = []"
| "trim_by p q r [a] = (if p a then [] else [a])"
| "trim_by p q r [a, b] =
     (if p a then trim_by p q r [b] else if q a b then [] else [a, b])"
| "trim_by p q r (a # b # c # s) =
     (if p a then trim_by p q r (b # c # s)
      else if q a b then trim_by p q r (c # s)
      else if r a b c then trim_by p q r s
      else a # b # c # s)"

definition trim_left :: "string \<Rightarrow> string" where
  "trim_left = trim_by space1 space2 space3"

definition trim_right :: "string \<Rightarrow> string" where
  "trim_right s =
     rev (trim_by space1 (\<lambda>a b. space2 b a) (\<lambda>a b c. space3 c b a) (rev s))"

text \<open>\<^verbatim>\<open>strings.TrimSpace\<close>\<close>

definition trim_space :: "string \<Rightarrow> string" where
  "trim_space s = trim_right (trim_left s)"

text \<open>A string is trimmed when no space character starts it.\<close>

fun starts_space :: "(char \<Rightarrow> bool) \<Rightarrow> (char \<Rightarrow> char \<Rightarrow> bool) \<Rightarrow> (char \<Rightarrow> char \<Rightarrow> char \<Rightarrow> bool)
    \<Rightarrow> string \<Rightarrow> bool" where
  "starts_space p q r [] = False"
| "starts_space p q r [a] = p a"
| "starts_space p q r [a, b] = (p a \<or> q a b)"
| "starts_space p q r (a # b # c # s) = (p a \<or> q a b \<or> r a b c)"

lemma trim_by_not_starts: "\<not> starts_space p q r (trim_by p q r s)"
  by (induction p q r s rule: trim_by.induct) auto

lemma trim_by_id: "\<not> starts_space p q r s \<Longrightarrow> trim_by p q r s = s"
  by (induction p q r s rule: trim_by.induct) auto

lemma starts_space_append: "starts_space p q r s \<Longrightarrow> starts_space p q r (s @ t)"
  by (induction p q r s rule: starts_space.induct)
     (auto simp: neq_Nil_conv elim: starts_space.elims split: list.splits
           intro: list.exhaust [of t])

lemma trim_by_suffix: "suffix (trim_by p q r s) s"
  by (induction p q r s rule: trim_by.induct) (auto simp: suffix_ConsI)

lemma trim_right_prefix: "prefix (trim_right s) s"
  using trim_by_suffix [of _ _ _ "rev s"] by (simp add: trim_right_def suffix_to_prefix)

lemma trim_space_idem [simp, go_simps]: "trim_space (trim_space s) = trim_space s"
proof -
  let ?t = "trim_space s"
  obtain u where u: "trim_left s = ?t @ u"
    using trim_right_prefix [of "trim_left s"] by (auto simp: trim_space_def prefix_def)
  have "\<not> starts_space space1 space2 space3 (?t @ u)"
    using u trim_by_not_starts [of space1 space2 space3 s] by (simp add: trim_left_def)
  then have "\<not> starts_space space1 space2 space3 ?t"
    using starts_space_append by blast
  then have left: "trim_left ?t = ?t"
    by (simp add: trim_left_def trim_by_id)
  have "trim_right ?t = ?t"
    by (simp add: trim_space_def trim_right_def trim_by_id trim_by_not_starts)
  then show ?thesis
    using left by (simp add: trim_space_def [of ?t])
qed

lemma trim_space_Nil [simp, go_simps]: "trim_space [] = []"
  by (simp add: trim_space_def trim_left_def trim_right_def)

definition ascii_lower :: "char \<Rightarrow> char" where
  "ascii_lower c = (if 65 \<le> byte c \<and> byte c \<le> 90 then char_of (byte c + 32) else c)"

definition ascii_upper :: "char \<Rightarrow> char" where
  "ascii_upper c = (if 97 \<le> byte c \<and> byte c \<le> 122 then char_of (byte c - 32) else c)"

definition to_lower :: "string \<Rightarrow> string" where
  "to_lower = map ascii_lower"

definition to_upper :: "string \<Rightarrow> string" where
  "to_upper = map ascii_upper"

text \<open>\<^verbatim>\<open>strings.EqualFold\<close>\<close>

definition equal_fold :: "string \<Rightarrow> string \<Rightarrow> bool" where
  "equal_fold s t \<longleftrightarrow> to_lower s = to_lower t"

lemma ascii_upper_idem [simp]: "ascii_upper (ascii_upper c) = ascii_upper c"
  by (auto simp: ascii_upper_def)

lemma ascii_lower_idem [simp]: "ascii_lower (ascii_lower c) = ascii_lower c"
  by (auto simp: ascii_lower_def)

lemma to_upper_idem [simp, go_simps]: "to_upper (to_upper s) = to_upper s"
  by (simp add: to_upper_def)

lemma to_lower_idem [simp, go_simps]: "to_lower (to_lower s) = to_lower s"
  by (simp add: to_lower_def)

text \<open>\<^verbatim>\<open>strings.Contains\<close>, \<^verbatim>\<open>strings.Join\<close>\<close>

fun str_contains :: "string \<Rightarrow> string \<Rightarrow> bool" where
  "str_contains [] sub = (sub = [])"
| "str_contains (c # s) sub = (prefix sub (c # s) \<or> str_contains s sub)"

fun str_join :: "string \<Rightarrow> string list \<Rightarrow> string" where
  "str_join sep [] = []"
| "str_join sep [x] = x"
| "str_join sep (x # y # zs) = x @ sep @ str_join sep (y # zs)"

text \<open>The first non-empty string of a list, without trimming.\<close>

fun first_non_empty :: "string list \<Rightarrow> string" where
  "first_non_empty [] = []"
| "first_non_empty (v # vs) = (if v \<noteq> [] then v else first_non_empty vs)"

section \<open>Decimal printing\<close>

definition digit_char :: "nat \<Rightarrow> char" where
  "digit_char d = char_of (48 + d)"

fun nat_str :: "nat \<Rightarrow> string" where
  "nat_str n = (if n < 10 then [digit_char n] else nat_str (n div 10) @ [digit_char (n mod 10)])"

declare nat_str.simps [simp del]

text \<open>\<^verbatim>\<open>strconv.Itoa\<close>, verb \<^verbatim>\<open>%d\<close>\<close>

definition int_str :: "int \<Rightarrow> string" where
  "int_str i = (if i < 0 then ''-'' @ nat_str (nat (- i)) else nat_str (nat i))"

lemma byte_digit_char: "d < 10 \<Longrightarrow> byte (digit_char d) = 48 + d"
  by (simp add: digit_char_def)

lemma digit_char_inj [simp]:
  "d < 10 \<Longrightarrow> e < 10 \<Longrightarrow> digit_char d = digit_char e \<longleftrightarrow> d = e"
  by (metis add_left_cancel byte_digit_char)

lemma nat_str_ne [simp]: "nat_str n \<noteq> []"
  by (subst nat_str.simps) simp

lemma Nil_ne_nat_str [simp]: "[] \<noteq> nat_str n"
  using nat_str_ne [of n] by metis

lemma nat_str_inj: "nat_str m = nat_str n \<Longrightarrow> m = n"
proof (induction m arbitrary: n rule: nat_str.induct)
  case (1 m)
  show ?case
  proof (cases "m < 10")
    case True
    with 1 show ?thesis
      by (auto simp: nat_str.simps [of m] nat_str.simps [of n] split: if_splits)
  next
    case False
    with "1.prems" have n: "\<not> n < 10"
      by (auto simp: nat_str.simps [of m] nat_str.simps [of n] split: if_splits)
    with False "1.prems" have "nat_str (m div 10) = nat_str (n div 10)" "m mod 10 = n mod 10"
      by (auto simp: nat_str.simps [of m] nat_str.simps [of n])
    with "1.IH" False have "m div 10 = n div 10" "m mod 10 = n mod 10" by auto
    then show ?thesis by (metis div_mult_mod_eq)
  qed
qed

lemma nat_str_eq_iff [simp]: "nat_str m = nat_str n \<longleftrightarrow> m = n"
  using nat_str_inj by blast

lemma nat_str_1 [simp]: "nat_str (Suc 0) = ''1''"
  by code_simp

section \<open>Time and 64-bit integers\<close>

type_synonym gtime = int
type_synonym duration = int
type_synonym int64 = "64 word"
type_synonym uint64 = "64 word"

definition time_is_zero :: "gtime \<Rightarrow> bool" where
  "time_is_zero t \<longleftrightarrow> t = 0"

abbreviation zero_time :: gtime where
  "zero_time \<equiv> 0"

text \<open>\<^verbatim>\<open>t.Sub(u)\<close> saturates at the bounds of a 64-bit duration.\<close>

definition time_sub :: "gtime \<Rightarrow> gtime \<Rightarrow> duration" where
  "time_sub t u = max (- (2 ^ 63)) (min (2 ^ 63 - 1) (t - u))"

abbreviation millisecond :: duration where "millisecond \<equiv> 1000000"
abbreviation second :: duration where "second \<equiv> 1000000000"
abbreviation minute :: duration where "minute \<equiv> 60000000000"

text \<open>Go's integer division truncates towards zero.\<close>

definition millis :: "duration \<Rightarrow> int" where
  "millis d = d sdiv millisecond"

lemma time_is_zero_0 [simp, go_simps]: "time_is_zero 0"
  by (simp add: time_is_zero_def)

lemma time_sub_self [simp, go_simps]: "time_sub t t = 0"
  by (simp add: time_sub_def)

lemma time_sub_mono: "t \<le> t' \<Longrightarrow> time_sub t u \<le> time_sub t' u"
  by (auto simp: time_sub_def)

lemma time_sub_less_iff:
  "- (2 ^ 63) < d \<Longrightarrow> d \<le> 2 ^ 63 - 1 \<Longrightarrow> time_sub t u < d \<longleftrightarrow> t - u < d"
  by (auto simp: time_sub_def)

lemma time_sub_greater_iff:
  "- (2 ^ 63) \<le> d \<Longrightarrow> d < 2 ^ 63 - 1 \<Longrightarrow> d < time_sub t u \<longleftrightarrow> d < t - u"
  by (auto simp: time_sub_def)

section \<open>String-keyed maps\<close>

type_synonym env = "string \<rightharpoonup> string"

text \<open>Indexing a Go map with a missing key yields the zero value.\<close>

definition env_get :: "env \<Rightarrow> string \<Rightarrow> string" where
  "env_get m k = (case m k of None \<Rightarrow> [] | Some v \<Rightarrow> v)"

section \<open>Lists\<close>

text \<open>\<^verbatim>\<open>first p xs\<close> is the first element a range loop with \<^verbatim>\<open>break\<close> would stop at.\<close>

lemma find_eq_SomeD: "find P xs = Some x \<Longrightarrow> x \<in> set xs \<and> P x"
  by (induction xs) (auto split: if_splits)

lemma find_eq_NoneD: "find P xs = None \<Longrightarrow> x \<in> set xs \<Longrightarrow> \<not> P x"
  by (induction xs) (auto split: if_splits)

lemma first_non_empty_ne: "first_non_empty (vs @ [v]) = [] \<longleftrightarrow> v = [] \<and> (\<forall>x \<in> set vs. x = [])"
  by (induction vs) auto

end
