(* ===== verification/RuntimeTypes.thy ===== *)
theory RuntimeTypes
  imports Prelude
begin

text \<open>
  The data model shared by the runtime packages: the types of
  \<^verbatim>\<open>daemon/internal/runtimev2/types.go\<close>, the step reports of
  \<^verbatim>\<open>daemon/internal/core/manager.go\<close> and \<^verbatim>\<open>daemon/internal/netstack/netstack.go\<close>.
  A Go struct is a record whose fields carry a short prefix; \<^verbatim>\<open>Phase\<close> and
  \<^verbatim>\<open>OperationKind\<close> are datatypes with one constructor per constant of the source plus the
  empty string; \<^verbatim>\<open>BackendKind\<close>, \<^verbatim>\<open>FallbackPolicy\<close> and the codes stay strings, because the
  code compares them with values read from configuration.  A pointer field is an option.
\<close>

section \<open>Dynamic values\<close>

text \<open>
  A value of type \<^verbatim>\<open>interface{}\<close>, as far as the orchestrator inspects it by type assertion
  and by package \<^verbatim>\<open>reflect\<close>: strings, generic maps, slices of \<^verbatim>\<open>interface{}\<close>
  (\<^verbatim>\<open>GList\<close>), slices of a concrete element type (\<^verbatim>\<open>GSlice\<close>), structs with their exported
  fields, pointers, and scalars.
\<close>

datatype gval =
    GNil
  | GString string
  | GInt int
  | GBool bool
  | GTime gtime
  | GMap "(string \<times> gval) list"
  | GList "gval list"
  | GSlice "gval list"
  | GStruct "(string \<times> gval) list"
  | GPtr "gval option"

section \<open>Stage reports of the core manager\<close>

record runtime_stage =
  rs_name :: string
  rs_status :: string
  rs_code :: string
  rs_detail :: string
  rs_rollback_applied :: bool
  rs_at :: gtime
  rs_duration_ms :: int

record runtime_stage_report =
  sr_operation :: string
  sr_status :: string
  sr_stages :: "runtime_stage list"
  sr_failed_stage :: string
  sr_last_code :: string
  sr_rollback_applied :: bool
  sr_started_at :: gtime
  sr_finished_at :: gtime
  sr_duration_ms :: int

definition empty_stage_report :: runtime_stage_report where
  "empty_stage_report = \<lparr>sr_operation = [], sr_status = [], sr_stages = [], sr_failed_stage = [],
     sr_last_code = [], sr_rollback_applied = False, sr_started_at = zero_time,
     sr_finished_at = zero_time, sr_duration_ms = 0\<rparr>"

text \<open>What \<^verbatim>\<open>reflect\<close> sees of a report stored in an \<^verbatim>\<open>interface{}\<close>.\<close>

definition stage_value :: "runtime_stage \<Rightarrow> gval" where
  "stage_value st = GStruct
     [(''Name'', GString (rs_name st)), (''Status'', GString (rs_status st)),
      (''Code'', GString (rs_code st)), (''Detail'', GString (rs_detail st)),
      (''RollbackApplied'', GBool (rs_rollback_applied st)), (''At'', GTime (rs_at st)),
      (''DurationMS'', GInt (rs_duration_ms st))]"

definition stage_report_value :: "runtime_stage_report \<Rightarrow> gval" where
  "stage_report_value r = GStruct
     [(''Operation'', GString (sr_operation r)), (''Status'', GString (sr_status r)),
      (''Stages'', GSlice (map stage_value (sr_stages r))),
      (''FailedStage'', GString (sr_failed_stage r)), (''LastCode'', GString (sr_last_code r)),
      (''RollbackApplied'', GBool (sr_rollback_applied r)),
      (''StartedAt'', GTime (sr_started_at r)), (''FinishedAt'', GTime (sr_finished_at r)),
      (''DurationMS'', GInt (sr_duration_ms r))]"

section \<open>Netstack reports\<close>

record net_step =
  ns_name :: string
  ns_status :: string
  ns_detail :: string

record net_report =
  nr_operation :: string
  nr_status :: string
  nr_steps :: "net_step list"
  nr_errors :: "string list"
  nr_warnings :: "string list"
  nr_leftovers :: "string list"
  nr_rollback_applied :: bool

section \<open>Kinds and phases\<close>

type_synonym backend_kind = string

abbreviation backend_root_tproxy :: backend_kind where
  "backend_root_tproxy \<equiv> ''ROOT_TPROXY''"

datatype phase =
    PhaseNone
  | PhaseStopped
  | PhaseApplying
  | PhaseStarting
  | PhaseConfigChecked
  | PhaseCoreSpawned
  | PhaseCoreListening
  | PhaseRulesApplied
  | PhaseDNSApplied
  | PhaseOutboundChecked
  | PhaseStopping
  | PhaseResetting
  | PhaseHealthy
  | PhaseDegraded
  | PhaseFailed

datatype operation_kind =
    OperationNone
  | OperationStart
  | OperationStop
  | OperationRestart
  | OperationReset
  | OperationReload
  | OperationApplyDesiredState
  | OperationConfigMutation
  | OperationProfileApply
  | OperationNetworkChange
  | OperationRescue
  | OperationUpdateInstall

type_synonym fallback_policy = string

abbreviation fallback_offer_reset :: fallback_policy where
  "fallback_offer_reset \<equiv> ''OFFER_RESET''"

section \<open>Desired and applied state\<close>

record app_selection =
  as_proxy_packages :: "string list"
  as_bypass_packages :: "string list"

record dns_policy =
  dp_remote_dns :: string
  dp_direct_dns :: string
  dp_fake_dns :: bool
  dp_ipv6_mode :: string

record desired_state =
  ds_backend_kind :: backend_kind
  ds_active_profile_id :: string
  ds_routing_mode :: string
  ds_app_selection :: app_selection
  ds_dns_policy :: dns_policy
  ds_fallback_policy :: fallback_policy

record applied_state =
  ap_backend_kind :: backend_kind
  ap_phase :: phase
  ap_active_profile_id :: string
  ap_started_at :: gtime
  ap_generation :: int64

section \<open>Operations\<close>

record operation_status =
  os_operation_id :: string
  os_kind :: operation_kind
  os_generation :: int64
  os_phase :: phase
  os_started_at :: gtime
  os_step :: string
  os_step_status :: string
  os_step_code :: string
  os_step_detail :: string
  os_runtime_ms :: int
  os_watchdog_after_ms :: int
  os_stuck :: bool

record reset_step =
  rst_name :: string
  rst_status :: string
  rst_detail :: string

record reset_report =
  rr_backend_kind :: backend_kind
  rr_generation :: int64
  rr_status :: string
  rr_steps :: "reset_step list"
  rr_warnings :: "string list"
  rr_errors :: "string list"
  rr_leftovers :: "string list"
  rr_reboot_required :: bool

record operation_result =
  or_operation_id :: string
  or_kind :: operation_kind
  or_generation :: int64
  or_phase :: phase
  or_started_at :: gtime
  or_finished_at :: gtime
  or_succeeded :: bool
  or_error_code :: string
  or_error_message :: string
  or_reset_report :: "reset_report option"

record update_install_state =
  ui_status :: string
  ui_generation :: int64
  ui_step :: string
  ui_step_status :: string
  ui_code :: string
  ui_detail :: string
  ui_module_path :: string
  ui_apk_path :: string
  ui_apk_installed :: bool
  ui_module_installed :: bool
  ui_started_at :: string
  ui_updated_at :: string

section \<open>Health\<close>

record health_check_snapshot =
  hc_pass :: bool
  hc_code :: string
  hc_detail :: string

text \<open>The \<^verbatim>\<open>Checks\<close> map is an association list with distinct keys.\<close>

record health_snapshot =
  hs_core_ready :: bool
  hs_dns_ready :: bool
  hs_routing_ready :: bool
  hs_egress_ready :: bool
  hs_last_code :: string
  hs_last_error :: string
  hs_last_user_message :: string
  hs_last_debug :: string
  hs_rollback_applied :: bool
  hs_stage_report :: gval
  hs_checked_at :: gtime
  hs_checks :: "(string \<times> health_check_snapshot) list"

definition empty_health :: health_snapshot where
  "empty_health = \<lparr>hs_core_ready = False, hs_dns_ready = False, hs_routing_ready = False,
     hs_egress_ready = False, hs_last_code = [], hs_last_error = [], hs_last_user_message = [],
     hs_last_debug = [], hs_rollback_applied = False, hs_stage_report = GNil,
     hs_checked_at = zero_time, hs_checks = []\<rparr>"

definition healthy :: "health_snapshot \<Rightarrow> bool" where
  "healthy h \<longleftrightarrow> hs_core_ready h \<and> hs_routing_ready h"

definition operational_healthy :: "health_snapshot \<Rightarrow> bool" where
  "operational_healthy h \<longleftrightarrow> healthy h \<and> hs_dns_ready h \<and> hs_egress_ready h"

record traffic_stats =
  ts_tx_bytes :: int64
  ts_rx_bytes :: int64
  ts_tx_rate :: int64
  ts_rx_rate :: int64

record readiness_status =
  rd_ready :: bool
  rd_operational_healthy :: bool
  rd_core_ready :: bool
  rd_routing_ready :: bool
  rd_dns_ready :: bool
  rd_egress_ready :: bool

record canonical_status =
  cs_backend_kind :: backend_kind
  cs_phase :: phase
  cs_active_profile_id :: string
  cs_generation :: int64
  cs_readiness :: readiness_status
  cs_last_code :: string
  cs_last_error :: string
  cs_last_user_message :: string
  cs_last_debug :: string
  cs_rollback_applied :: bool
  cs_checked_at :: gtime

record node_probe_result =
  np_id :: string
  np_name :: string
  np_protocol :: string
  np_server :: string
  np_port :: int
  np_tcp_direct :: "int64 option"
  np_tunnel_delay :: "int64 option"
  np_response_bytes :: "int64 option"
  np_throughput_bps :: "int64 option"
  np_dns_bootstrap :: bool
  np_tcp_status :: string
  np_url_status :: string
  np_throughput_status :: string
  np_verdict :: string
  np_error_class :: string
  np_error_detail :: string

section \<open>Status\<close>

record backend_capability =
  bc_kind :: backend_kind
  bc_supported :: bool
  bc_reason :: string

record operation_policy =
  opol_stages :: "string list"
  opol_error_codes :: "string list"

record method_capability =
  mc_method :: string
  mc_capability :: string
  mc_compatibility :: string
  mc_mutating :: bool
  mc_async :: bool

record compatibility_status =
  co_daemon_version :: string
  co_module_version :: string
  co_current_release_version :: string
  co_current_release_ok :: bool
  co_current_release_error :: string
  co_control_protocol_version :: int
  co_schema_version :: int
  co_ipc_contract_version :: int
  co_contract_hash :: string
  co_compatibility_fingerprint :: string
  co_daemon_pid :: int
  co_socket_inode :: string
  co_panel_min_version :: string
  co_capabilities :: "string list"
  co_supported_methods :: "string list"
  co_apk_required_methods :: "string list"
  co_error_codes :: "string list"
  co_compatibility_policies :: "string list"
  co_operation_policies :: "(string \<times> operation_policy) list"
  co_methods :: "method_capability list"

definition empty_compatibility :: compatibility_status where
  "empty_compatibility = \<lparr>co_daemon_version = [], co_module_version = [],
     co_current_release_version = [], co_current_release_ok = False,
     co_current_release_error = [], co_control_protocol_version = 0, co_schema_version = 0,
     co_ipc_contract_version = 0, co_contract_hash = [], co_compatibility_fingerprint = [],
     co_daemon_pid = 0, co_socket_inode = [], co_panel_min_version = [], co_capabilities = [],
     co_supported_methods = [], co_apk_required_methods = [], co_error_codes = [],
     co_compatibility_policies = [], co_operation_policies = [], co_methods = []\<rparr>"

record status =
  st_desired_state :: desired_state
  st_applied_state :: applied_state
  st_canonical :: canonical_status
  st_health :: health_snapshot
  st_uptime_seconds :: int64
  st_traffic :: traffic_stats
  st_capabilities :: "backend_capability list"
  st_compatibility :: compatibility_status
  st_active_operation :: "operation_status option"
  st_last_operation :: "operation_result option"
  st_update_install :: "update_install_state option"

lemma healthy_empty [simp, go_simps]: "\<not> healthy empty_health"
  by (simp add: healthy_def empty_health_def)

lemma operational_healthyD: "operational_healthy h \<Longrightarrow> healthy h"
  by (simp add: operational_healthy_def)

end
