(* ===== verification/StageReport.thy ===== *)
theory StageReport
  imports RuntimeTypes
begin

text \<open>
  The lifecycle states of the core, and the stage report that \<^verbatim>\<open>core.Start\<close> and the configuration reload build step by step
  (\<^verbatim>\<open>daemon/internal/core/manager.go\<close>): creation, \<^verbatim>\<open>AddStage\<close>, \<^verbatim>\<open>FinishOK\<close> and the
  emptiness test.  The clock reading of each call is the parameter \<^verbatim>\<open>now\<close>.
\<close>

datatype core_state =
    StateStopped
  | StateStarting
  | StateRunning
  | StateDegraded
  | StateRescue
  | StateStopping

definition core_state_str :: "core_state \<Rightarrow> string" where
  "core_state_str s =
     (case s of
        StateStopped \<Rightarrow> ''stopped'' | StateStarting \<Rightarrow> ''starting'' | StateRunning \<Rightarrow> ''running''
      | StateDegraded \<Rightarrow> ''degraded'' | StateRescue \<Rightarrow> ''rescue'' | StateStopping \<Rightarrow> ''stopping'')"

definition new_runtime_stage_report :: "string \<Rightarrow> gtime \<Rightarrow> runtime_stage_report" where
  "new_runtime_stage_report operation now =
     empty_stage_report\<lparr>sr_operation := operation, sr_status := ''running'', sr_started_at := now\<rparr>"

definition elapsed_ms :: "gtime \<Rightarrow> gtime \<Rightarrow> int" where
  "elapsed_ms from now =
     (if \<not> time_is_zero from \<and> \<not> now < from then millis (time_sub now from) else 0)"

definition add_stage ::
  "runtime_stage_report \<Rightarrow> gtime \<Rightarrow> string \<Rightarrow> string \<Rightarrow> string \<Rightarrow> string \<Rightarrow> bool \<Rightarrow> runtime_stage_report"
where
  "add_stage r now name status0 code detail rollback_applied =
     (let status = (if status0 = [] then ''ok'' else status0);
          started_at = (if sr_stages r = [] then sr_started_at r else rs_at (last (sr_stages r)));
          stage = \<lparr>rs_name = name, rs_status = status, rs_code = code, rs_detail = detail,
                   rs_rollback_applied = rollback_applied, rs_at = now,
                   rs_duration_ms = elapsed_ms started_at now\<rparr>;
          r1 = r\<lparr>sr_stages := sr_stages r @ [stage]\<rparr>
      in if status = ''failed''
         then r1\<lparr>sr_status := ''failed'', sr_failed_stage := name, sr_last_code := code,
                 sr_rollback_applied := rollback_applied, sr_finished_at := now,
                 sr_duration_ms :=
                   (if \<not> time_is_zero (sr_started_at r) \<and> \<not> now < sr_started_at r
                    then millis (time_sub now (sr_started_at r)) else sr_duration_ms r)\<rparr>
         else r1)"

definition finish_ok :: "runtime_stage_report \<Rightarrow> gtime \<Rightarrow> runtime_stage_report" where
  "finish_ok r now =
     r\<lparr>sr_status := ''ok'', sr_finished_at := now,
       sr_duration_ms :=
         (if \<not> time_is_zero (sr_started_at r) \<and> \<not> now < sr_started_at r
          then millis (time_sub now (sr_started_at r)) else sr_duration_ms r)\<rparr>"

definition stage_report_empty :: "runtime_stage_report \<Rightarrow> bool" where
  "stage_report_empty r \<longleftrightarrow> sr_operation r = [] \<and> sr_stages r = []"

section \<open>Lemmas\<close>

text \<open>
  A report is \<^emph>\<open>coherent\<close> when its overall status is \<^verbatim>\<open>failed\<close> exactly when a failed stage
  was recorded and its named failed stage is one of its failed stages.
\<close>

definition report_coherent :: "runtime_stage_report \<Rightarrow> bool" where
  "report_coherent r \<longleftrightarrow>
     (sr_status r = ''failed'' \<longrightarrow>
        (\<exists>s \<in> set (sr_stages r). rs_status s = ''failed'' \<and> rs_name s = sr_failed_stage r))"

lemma elapsed_ms_nonneg: "0 \<le> elapsed_ms from now"
proof (cases "time_is_zero from \<or> now < from")
  case True
  then show ?thesis by (auto simp: elapsed_ms_def)
next
  case False
  then have "0 \<le> time_sub now from" by (simp add: time_sub_def)
  then have "0 \<le> time_sub now from div millisecond"
    by (simp add: pos_imp_zdiv_nonneg_iff)
  with False \<open>0 \<le> time_sub now from\<close> show ?thesis
    by (simp add: elapsed_ms_def millis_def signed_divide_int_def sgn_if)
qed

lemma coherent_new [simp, inv_intros]: "report_coherent (new_runtime_stage_report op now)"
  by (simp add: report_coherent_def new_runtime_stage_report_def empty_stage_report_def)

lemma coherent_add_stage [simp, inv_intros]:
  "report_coherent r \<Longrightarrow> report_coherent (add_stage r now n s c d rb)"
  by (auto simp: report_coherent_def add_stage_def Let_def)

lemma add_stage_stages:
  "\<exists>d. sr_stages (add_stage r now n s c dt rb) =
     sr_stages r @ [\<lparr>rs_name = n, rs_status = (if s = [] then ''ok'' else s), rs_code = c,
       rs_detail = dt, rs_rollback_applied = rb, rs_at = now, rs_duration_ms = d\<rparr>]"
  by (simp add: add_stage_def Let_def)

lemma add_stage_failed [simp]:
  "sr_status (add_stage r now n ''failed'' c d rb) = ''failed''"
  "sr_failed_stage (add_stage r now n ''failed'' c d rb) = n"
  "sr_last_code (add_stage r now n ''failed'' c d rb) = c"
  "sr_rollback_applied (add_stage r now n ''failed'' c d rb) = rb"
  by (simp_all add: add_stage_def Let_def)

lemma add_stage_not_failed [simp]:
  "s \<noteq> ''failed'' \<Longrightarrow> sr_status (add_stage r now n s c d rb) = sr_status r"
  "s \<noteq> ''failed'' \<Longrightarrow> sr_failed_stage (add_stage r now n s c d rb) = sr_failed_stage r"
  "s \<noteq> ''failed'' \<Longrightarrow> sr_last_code (add_stage r now n s c d rb) = sr_last_code r"
  by (auto simp: add_stage_def Let_def)

lemma add_stage_names [simp]:
  "map rs_name (sr_stages (add_stage r now n s c d rb)) = map rs_name (sr_stages r) @ [n]"
  by (simp add: add_stage_def Let_def)

lemma finish_ok_sel [simp]:
  "sr_status (finish_ok r now) = ''ok''" "sr_stages (finish_ok r now) = sr_stages r"
  "sr_failed_stage (finish_ok r now) = sr_failed_stage r"
  by (simp_all add: finish_ok_def)

lemma coherent_finish_ok [simp, inv_intros]: "report_coherent (finish_ok r now)"
  by (simp add: report_coherent_def)

definition stage_names :: "runtime_stage_report \<Rightarrow> string list" where
  "stage_names r = map rs_name (sr_stages r)"

text \<open>The report says that its last stage failed, with this name and code.\<close>

definition failed_last :: "runtime_stage_report \<Rightarrow> bool" where
  "failed_last r \<longleftrightarrow> sr_status r = ''failed'' \<and> sr_stages r \<noteq> [] \<and>
     rs_status (last (sr_stages r)) = ''failed'' \<and>
     rs_name (last (sr_stages r)) = sr_failed_stage r \<and>
     rs_code (last (sr_stages r)) = sr_last_code r"

lemma failed_last_add_stage [simp]: "failed_last (add_stage r now n ''failed'' c d b)"
  by (simp add: failed_last_def add_stage_def Let_def)

lemma stage_names_add [simp]: "stage_names (add_stage r now n s c d b) = stage_names r @ [n]"
  by (simp add: stage_names_def)

lemma stage_names_new [simp]: "stage_names (new_runtime_stage_report op now) = []"
  by (simp add: stage_names_def new_runtime_stage_report_def empty_stage_report_def)

lemma stage_names_finish_ok [simp]: "stage_names (finish_ok r now) = stage_names r"
  by (simp add: stage_names_def)

end
