(* ===== verification/Errors.thy ===== *)
theory Errors
  imports StageReport
begin

text \<open>
  Go error values and the packages that inspect them.  \<^verbatim>\<open>errors.New\<close> and \<^verbatim>\<open>fmt.Errorf\<close>
  without \<^verbatim>\<open>%w\<close> give \<^verbatim>\<open>ErrorString\<close>; \<^verbatim>\<open>fmt.Errorf("prefix%w", err)\<close> gives
  \<^verbatim>\<open>WrapError\<close> and \<^verbatim>\<open>fmt.Errorf("%wsuffix", err)\<close> gives \<^verbatim>\<open>WrapSuffix\<close>; the other constructors are the error types the runtime packages declare:
  \<^verbatim>\<open>core.RuntimeError\<close>, \<^verbatim>\<open>runtimev2.OperationBusyError\<close>, \<^verbatim>\<open>netstack.Error\<close>,
  \<^verbatim>\<open>runtimeerr.resetReportError\<close> and \<^verbatim>\<open>applytx.ConfigValidationError\<close>.
  \<^verbatim>\<open>errors.As\<close> walks the chain of \<^verbatim>\<open>Unwrap\<close> results and stops at the first error that
  has the wanted type or method.
\<close>

record busy_error =
  be_code :: string
  be_detail :: string
  be_active :: "operation_status option"

datatype go_error =
    ErrorString string
  | WrapError string go_error
  | WrapSuffix go_error string
  | RuntimeError (re_layer: string) (re_code: string) (re_hard: bool) (re_user_message: string)
      (re_debug: string) (re_rollback_applied: bool) (re_runtime_preserved: bool)
      (re_stage_report: runtime_stage_report) (re_err: go_error)
  | BusyError busy_error
  | NetstackError (ne_operation: string) (ne_code: string) (ne_report: net_report)
  | ResetReportError go_error reset_report
  | ConfigValidationError (cve_stage: string) (cve_err: "go_error option")

section \<open>Messages and wrapping\<close>

definition busy_error_msg :: "busy_error \<Rightarrow> string" where
  "busy_error_msg e =
     (if be_detail e \<noteq> [] then be_detail e else ''runtime operation already in progress'')"

definition netstack_error_msg :: "string \<Rightarrow> net_report \<Rightarrow> string" where
  "netstack_error_msg operation r =
     (if nr_errors r = [] then operation @ '' failed''
      else operation @ '' failed: '' @ str_join ''; '' (nr_errors r))"

text \<open>The \<^verbatim>\<open>Error\<close> methods.\<close>

fun error_msg :: "go_error \<Rightarrow> string" where
  "error_msg (ErrorString m) = m"
| "error_msg (WrapError p e) = p @ error_msg e"
| "error_msg (WrapSuffix e s) = error_msg e @ s"
| "error_msg (RuntimeError layer code hard um dbg rb pres rep e) =
     (if layer \<noteq> [] then ''core: '' @ layer @ '': '' @ error_msg e else ''core: '' @ error_msg e)"
| "error_msg (BusyError b) = busy_error_msg b"
| "error_msg (NetstackError op code r) = netstack_error_msg op r"
| "error_msg (ResetReportError e r) = error_msg e"
| "error_msg (ConfigValidationError stage None) = stage"
| "error_msg (ConfigValidationError stage (Some e)) =
     (if stage = [] then error_msg e else stage @ '': '' @ error_msg e)"

text \<open>The \<^verbatim>\<open>Unwrap\<close> methods.\<close>

fun unwrap :: "go_error \<Rightarrow> go_error option" where
  "unwrap (WrapError p e) = Some e"
| "unwrap (WrapSuffix e s) = Some e"
| "unwrap (RuntimeError layer code hard um dbg rb pres rep e) = Some e"
| "unwrap (ResetReportError e r) = Some e"
| "unwrap (ConfigValidationError stage e) = e"
| "unwrap _ = None"

fun error_chain :: "go_error \<Rightarrow> go_error list" where
  "error_chain (WrapError p e) = WrapError p e # error_chain e"
| "error_chain (WrapSuffix e s) = WrapSuffix e s # error_chain e"
| "error_chain (RuntimeError layer code hard um dbg rb pres rep e) =
     RuntimeError layer code hard um dbg rb pres rep e # error_chain e"
| "error_chain (ResetReportError e r) = ResetReportError e r # error_chain e"
| "error_chain (ConfigValidationError stage (Some e)) =
     ConfigValidationError stage (Some e) # error_chain e"
| "error_chain e = [e]"

lemma error_chain_unwrap:
  "error_chain e = e # (case unwrap e of None \<Rightarrow> [] | Some e' \<Rightarrow> error_chain e')"
proof (cases e)
  case (ConfigValidationError st oe)
  then show ?thesis by (cases oe) auto
qed auto

text \<open>\<^verbatim>\<open>errors.As\<close>: the first value a selector finds along the chain.\<close>

fun first_some :: "('a \<Rightarrow> 'b option) \<Rightarrow> 'a list \<Rightarrow> 'b option" where
  "first_some f [] = None"
| "first_some f (x # xs) = (case f x of Some y \<Rightarrow> Some y | None \<Rightarrow> first_some f xs)"

definition errors_as :: "(go_error \<Rightarrow> 'b option) \<Rightarrow> go_error \<Rightarrow> 'b option" where
  "errors_as f e = first_some f (error_chain e)"

lemma errors_as_unfold:
  "errors_as f e = (case f e of Some y \<Rightarrow> Some y
     | None \<Rightarrow> (case unwrap e of None \<Rightarrow> None | Some e' \<Rightarrow> errors_as f e'))"
  by (subst errors_as_def, subst error_chain_unwrap)
     (auto simp: errors_as_def split: option.splits)

lemma errors_as_wrap [simp, go_simps]:
  "f (WrapError p e) = None \<Longrightarrow> errors_as f (WrapError p e) = errors_as f e"
  by (simp add: errors_as_unfold [of f "WrapError p e"])

section \<open>The coded-error interfaces\<close>

definition config_validation_code :: "string \<Rightarrow> string" where
  "config_validation_code stage =
     (if stage = ''validate'' then ''CONFIG_VALIDATION_FAILED''
      else if stage = ''render'' then ''CONFIG_RENDER_FAILED''
      else ''CONFIG_APPLY_FAILED'')"

fun runtime_code_of :: "go_error \<Rightarrow> string option" where
  "runtime_code_of (RuntimeError layer code hard um dbg rb pres rep e) = Some code"
| "runtime_code_of (ConfigValidationError stage e) = Some (config_validation_code stage)"
| "runtime_code_of _ = None"

fun runtime_user_message_of :: "go_error \<Rightarrow> string option" where
  "runtime_user_message_of (RuntimeError layer code hard um dbg rb pres rep e) = Some um"
| "runtime_user_message_of _ = None"

fun runtime_debug_of :: "go_error \<Rightarrow> string option" where
  "runtime_debug_of (RuntimeError layer code hard um dbg rb pres rep e) = Some dbg"
| "runtime_debug_of _ = None"

fun runtime_rollback_of :: "go_error \<Rightarrow> bool option" where
  "runtime_rollback_of (RuntimeError layer code hard um dbg rb pres rep e) = Some rb"
| "runtime_rollback_of _ = None"

fun runtime_still_running_of :: "go_error \<Rightarrow> bool option" where
  "runtime_still_running_of (RuntimeError layer code hard um dbg rb pres rep e) = Some pres"
| "runtime_still_running_of _ = None"

fun runtime_stage_report_of :: "go_error \<Rightarrow> gval option" where
  "runtime_stage_report_of (RuntimeError layer code hard um dbg rb pres rep e) =
     Some (stage_report_value rep)"
| "runtime_stage_report_of _ = None"

fun runtime_reset_report_of :: "go_error \<Rightarrow> reset_report option" where
  "runtime_reset_report_of (ResetReportError e r) = Some r"
| "runtime_reset_report_of _ = None"

fun busy_of :: "go_error \<Rightarrow> busy_error option" where
  "busy_of (BusyError b) = Some b"
| "busy_of _ = None"

fun netstack_of :: "go_error \<Rightarrow> string option" where
  "netstack_of (NetstackError op code r) = Some code"
| "netstack_of _ = None"

section \<open>Package runtimeerr\<close>

text \<open>\<^verbatim>\<open>WithResetReport\<close> maps the nil error to nil.\<close>

definition with_reset_report :: "go_error option \<Rightarrow> reset_report \<Rightarrow> go_error option" where
  "with_reset_report err report =
     (case err of None \<Rightarrow> None | Some e \<Rightarrow> Some (ResetReportError e report))"

definition reset_report_from_error :: "go_error option \<Rightarrow> reset_report option" where
  "reset_report_from_error err =
     (case err of None \<Rightarrow> None | Some e \<Rightarrow> errors_as runtime_reset_report_of e)"

definition error_code_or :: "go_error \<Rightarrow> string \<Rightarrow> string" where
  "error_code_or err fallback =
     (let coded = (case errors_as runtime_code_of err of
                     Some c \<Rightarrow> trim_space c | None \<Rightarrow> []);
          busy = (case errors_as busy_of err of Some b \<Rightarrow> be_code b | None \<Rightarrow> []);
          net = (case errors_as netstack_of err of Some c \<Rightarrow> c | None \<Rightarrow> [])
      in if coded \<noteq> [] then coded
         else if trim_space busy \<noteq> [] then busy
         else if trim_space net \<noteq> [] then net
         else fallback)"

section \<open>Busy errors\<close>

abbreviation busy_code_runtime_busy :: string where
  "busy_code_runtime_busy \<equiv> ''RUNTIME_BUSY''"

abbreviation busy_code_reset_in_progress :: string where
  "busy_code_reset_in_progress \<equiv> ''RESET_IN_PROGRESS''"

definition new_runtime_busy_error :: "operation_status \<Rightarrow> busy_error" where
  "new_runtime_busy_error active =
     (if os_kind active = OperationReset
      then \<lparr>be_code = busy_code_reset_in_progress, be_detail = ''reset is in progress'',
            be_active = Some active\<rparr>
      else \<lparr>be_code = busy_code_runtime_busy,
            be_detail = ''runtime operation already in progress'', be_active = Some active\<rparr>)"

definition new_reset_in_progress_error :: "string \<Rightarrow> busy_error" where
  "new_reset_in_progress_error detail =
     \<lparr>be_code = busy_code_reset_in_progress,
      be_detail = (if detail = [] then ''reset is in progress'' else detail), be_active = None\<rparr>"

section \<open>Core runtime errors\<close>

definition runtime_user_message :: "string \<Rightarrow> string" where
  "runtime_user_message code =
     (if code = ''CONFIG_RENDER_FAILED'' then ''Generated sing-box config could not be rendered.''
      else if code = ''CONFIG_CHECK_FAILED'' then ''Generated sing-box config did not pass sing-box check.''
      else if code = ''CORE_LOG_OPEN_FAILED'' then ''sing-box log file could not be opened.''
      else if code = ''CORE_SPAWN_FAILED'' then ''sing-box process could not be started.''
      else if code = ''CORE_STOP_FAILED'' then ''previous sing-box process could not be stopped.''
      else if code = ''TPROXY_PORT_DOWN'' then ''sing-box did not open the TPROXY listener.''
      else if code = ''DNS_LISTENER_DOWN'' then ''sing-box did not open the local DNS listener.''
      else if code = ''API_PORT_DOWN'' then ''sing-box did not open the local API listener.''
      else if code = ''RULES_NOT_APPLIED'' then ''RKNnoVPN routing rules could not be applied.''
      else if code = ''DNS_APPLY_FAILED'' then ''RKNnoVPN DNS interception could not be applied.''
      else if code = ''NETSTACK_VERIFY_FAILED''
           then ''RKNnoVPN network rules were applied but did not pass verification.''
      else if code = ''NETSTACK_CLEANUP_FAILED''
           then ''Previous RKNnoVPN network rules could not be cleaned up.''
      else if code = ''LOCAL_PROXY_OWNER_MISMATCH''
           then ''Local proxy port is not owned by the configured app.''
      else ''Runtime stage failed.'')"

definition runtime_error_with_report ::
  "string \<Rightarrow> string \<Rightarrow> go_error option \<Rightarrow> bool \<Rightarrow> runtime_stage_report \<Rightarrow> go_error option" where
  "runtime_error_with_report layer code err rollback_applied report =
     (case err of None \<Rightarrow> None
      | Some e \<Rightarrow> Some (RuntimeError layer code True (runtime_user_message code) (error_msg e)
                    rollback_applied False report e))"

definition runtime_preserved_error_with_report ::
  "string \<Rightarrow> string \<Rightarrow> go_error option \<Rightarrow> runtime_stage_report \<Rightarrow> go_error option" where
  "runtime_preserved_error_with_report layer code err report =
     (case runtime_error_with_report layer code err True report of
        Some (RuntimeError l c h um dbg rb pres rep e) \<Rightarrow>
          Some (RuntimeError l c h um dbg rb True rep e)
      | other \<Rightarrow> other)"

section \<open>Lemmas\<close>

lemma busy_error_msg_new [simp]:
  "busy_error_msg (new_runtime_busy_error a) \<noteq> []"
  "busy_error_msg (new_reset_in_progress_error d) \<noteq> []"
  by (auto simp: busy_error_msg_def new_runtime_busy_error_def new_reset_in_progress_error_def)

lemma reset_report_from_with [simp, go_simps]:
  "reset_report_from_error (with_reset_report (Some e) r) = Some r"
  by (simp add: reset_report_from_error_def with_reset_report_def errors_as_unfold)

lemma errors_as_reset_wrapper [simp]:
  "f (ResetReportError e r) = None \<Longrightarrow> errors_as f (ResetReportError e r) = errors_as f e"
  by (simp add: errors_as_unfold [of f "ResetReportError e r"])

lemma error_code_or_wrap [simp, go_simps]:
  "error_code_or (WrapError p e) fb = error_code_or e fb"
  "error_code_or (ResetReportError e r) fb = error_code_or e fb"
  by (simp_all add: error_code_or_def Let_def)

lemma error_code_or_runtime_error:
  "trim_space code \<noteq> [] \<Longrightarrow>
   error_code_or (RuntimeError layer code hard um dbg rb pres rep e) fb = trim_space code"
  by (simp add: error_code_or_def Let_def errors_as_unfold)

lemma preserved_still_running:
  "runtime_preserved_error_with_report layer code (Some e) rep = Some x \<Longrightarrow>
   errors_as runtime_still_running_of x = Some True"
  by (auto simp: runtime_preserved_error_with_report_def runtime_error_with_report_def
      errors_as_unfold)

lemma error_with_report_Some [simp]:
  "runtime_error_with_report layer code (Some e) b rep =
     Some (RuntimeError layer code True (runtime_user_message code) (error_msg e) b False rep e)"
  "runtime_preserved_error_with_report layer code (Some e) rep =
     Some (RuntimeError layer code True (runtime_user_message code) (error_msg e) True True rep e)"
  by (simp_all add: runtime_error_with_report_def runtime_preserved_error_with_report_def)

end
