(* ===== verification/StatusModel.thy ===== *)
theory StatusModel
  imports Errors
begin

text \<open>
  The pure functions behind the runtime status: the operation step extracted from a stage
  report by type assertion and reflection, the phase derived from a health snapshot, the
  health snapshot derived from an error, the canonical status
  (\<^verbatim>\<open>daemon/internal/runtimev2/orchestrator.go\<close>, \<^verbatim>\<open>status_model.go\<close>) and the contents
  of the runtime state file (\<^verbatim>\<open>state_store.go\<close>).
\<close>

section \<open>Operation steps from stage reports\<close>

record operation_step =
  ost_name :: string
  ost_status :: string
  ost_code :: string
  ost_detail :: string

definition empty_step :: operation_step where
  "empty_step = \<lparr>ost_name = [], ost_status = [], ost_code = [], ost_detail = []\<rparr>"

fun as_string :: "gval option \<Rightarrow> string" where
  "as_string (Some (GString s)) = s"
| "as_string _ = []"

definition string_from_map :: "(string \<times> gval) list \<Rightarrow> string \<Rightarrow> string" where
  "string_from_map obj key = as_string (map_of obj key)"

fun operation_stage_from_map :: "gval \<Rightarrow> operation_step" where
  "operation_stage_from_map (GMap stage) =
     \<lparr>ost_name = string_from_map stage ''name'', ost_status = string_from_map stage ''status'',
      ost_code = string_from_map stage ''code'', ost_detail = string_from_map stage ''detail''\<rparr>"
| "operation_stage_from_map _ = empty_step"

definition pick_failed :: "string \<Rightarrow> operation_step list \<Rightarrow> operation_step" where
  "pick_failed failed stages =
     (case find (\<lambda>s. ost_name s = failed) stages of
        Some s \<Rightarrow> s
      | None \<Rightarrow> empty_step\<lparr>ost_name := failed, ost_status := ''failed''\<rparr>)"

definition pick_last :: "operation_step list \<Rightarrow> operation_step" where
  "pick_last stages =
     (case find (\<lambda>s. ost_name s \<noteq> []) (rev stages) of Some s \<Rightarrow> s | None \<Rightarrow> empty_step)"

fun list_items :: "gval option \<Rightarrow> gval list" where
  "list_items (Some (GList xs)) = xs"
| "list_items _ = []"

fun operation_step_from_map :: "gval \<Rightarrow> operation_step" where
  "operation_step_from_map (GMap obj) =
     (let failed = string_from_map obj ''failedStage'';
          stages = map operation_stage_from_map (list_items (map_of obj ''stages''))
      in if failed \<noteq> [] then pick_failed failed stages else pick_last stages)"
| "operation_step_from_map _ = empty_step"

text \<open>\<^verbatim>\<open>reflect\<close>: one pointer is followed, then the value must be a struct.\<close>

fun struct_fields :: "gval \<Rightarrow> (string \<times> gval) list option" where
  "struct_fields (GStruct fs) = Some fs"
| "struct_fields (GPtr (Some (GStruct fs))) = Some fs"
| "struct_fields _ = None"

definition string_field :: "(string \<times> gval) list \<Rightarrow> string \<Rightarrow> string" where
  "string_field fs name = as_string (map_of fs name)"

definition operation_step_from_stage_value :: "gval \<Rightarrow> operation_step" where
  "operation_step_from_stage_value v =
     (case struct_fields v of
        None \<Rightarrow> empty_step
      | Some fs \<Rightarrow> \<lparr>ost_name = string_field fs ''Name'', ost_status = string_field fs ''Status'',
                     ost_code = string_field fs ''Code'', ost_detail = string_field fs ''Detail''\<rparr>)"

text \<open>
  The elements of a slice field.  An element of a slice of \<^verbatim>\<open>interface{}\<close> has kind
  \<^verbatim>\<open>Interface\<close> under reflection, which is neither a pointer nor a struct: it counts as
  \<^const>\<open>GNil\<close>.
\<close>

fun slice_items :: "gval option \<Rightarrow> gval list option" where
  "slice_items (Some (GSlice xs)) = Some xs"
| "slice_items (Some (GList xs)) = Some (map (\<lambda>_. GNil) xs)"
| "slice_items _ = None"

definition operation_step_from_struct :: "gval \<Rightarrow> operation_step" where
  "operation_step_from_struct v =
     (case struct_fields v of
        None \<Rightarrow> empty_step
      | Some fs \<Rightarrow>
          (let failed = string_field fs ''FailedStage''
           in case slice_items (map_of fs ''Stages'') of
                None \<Rightarrow> empty_step
              | Some items \<Rightarrow>
                  (let stages = map operation_step_from_stage_value items
                   in if failed \<noteq> [] then pick_failed failed stages else pick_last stages)))"

definition operation_step_from_report :: "gval \<Rightarrow> operation_step" where
  "operation_step_from_report report =
     (if report = GNil then empty_step
      else if ost_name (operation_step_from_map report) \<noteq> []
           then operation_step_from_map report
           else operation_step_from_struct report)"

section \<open>Phases, health and errors\<close>

definition phase_from_health :: "health_snapshot \<Rightarrow> phase \<Rightarrow> phase" where
  "phase_from_health health fallback =
     (let code = hs_last_code health in
      if time_is_zero (hs_checked_at health) then fallback
      else if operational_healthy health then PhaseHealthy
      else if code = ''TPROXY_PORT_DOWN'' then PhaseCoreSpawned
      else if code \<in> {''DNS_LISTENER_DOWN'', ''API_PORT_DOWN''} then PhaseCoreListening
      else if code \<in> {''RULES_NOT_APPLIED'', ''NETSTACK_CLEANUP_FAILED'', ''NETSTACK_VERIFY_FAILED'',
             ''ROUTING_CHECK_FAILED'', ''ROUTING_V4_MISSING'', ''ROUTING_V6_MISSING'',
             ''ROUTING_NOT_APPLIED''} then PhaseCoreListening
      else if code = ''DNS_APPLY_FAILED'' then PhaseRulesApplied
      else if code \<in> {''DNS_LOOKUP_TIMEOUT'', ''DNS_EMPTY_RESPONSE'', ''DNS_LOOKUP_FAILED'',
             ''PROXY_DNS_UNAVAILABLE''} then PhaseDNSApplied
      else if code \<in> {''OUTBOUND_URL_FAILED'', ''OPERATIONAL_DEGRADED''} then PhaseOutboundChecked
      else if code \<in> {''CORE_PID_MISSING'', ''CORE_PID_LOOKUP_FAILED'', ''CORE_PROCESS_DEAD'',
             ''CORE_LOG_OPEN_FAILED'', ''CORE_SPAWN_FAILED''} then PhaseFailed
      else if code = ''CONFIG_RENDER_FAILED'' then PhaseStarting
      else if code = ''CONFIG_CHECK_FAILED'' then PhaseConfigChecked
      else if \<not> healthy health then fallback
      else PhaseDegraded)"

definition health_from_error :: "go_error \<Rightarrow> gtime \<Rightarrow> health_snapshot" where
  "health_from_error err now = empty_health
     \<lparr>hs_last_error := error_msg err, hs_checked_at := now,
      hs_last_code := (case errors_as runtime_code_of err of Some c \<Rightarrow> c | None \<Rightarrow> []),
      hs_last_user_message :=
        (case errors_as runtime_user_message_of err of Some m \<Rightarrow> m | None \<Rightarrow> []),
      hs_last_debug := (case errors_as runtime_debug_of err of Some d \<Rightarrow> d | None \<Rightarrow> []),
      hs_rollback_applied :=
        (case errors_as runtime_rollback_of err of Some b \<Rightarrow> b | None \<Rightarrow> False),
      hs_stage_report :=
        (case errors_as runtime_stage_report_of err of Some r \<Rightarrow> r | None \<Rightarrow> GNil)\<rparr>"

definition error_code :: "go_error option \<Rightarrow> string" where
  "error_code err = (case err of None \<Rightarrow> []
     | Some e \<Rightarrow> (case errors_as runtime_code_of e of Some c \<Rightarrow> c | None \<Rightarrow> []))"

fun first_reset_report :: "reset_report option list \<Rightarrow> reset_report option" where
  "first_reset_report [] = None"
| "first_reset_report (r # rs) = (case r of Some x \<Rightarrow> Some x | None \<Rightarrow> first_reset_report rs)"

text \<open>\<^verbatim>\<open>firstError\<close> returns the first non-empty message.\<close>

definition first_error :: "string list \<Rightarrow> string" where
  "first_error errors = first_non_empty errors"

definition operation_health_has_progress :: "health_snapshot \<Rightarrow> bool" where
  "operation_health_has_progress h \<longleftrightarrow>
     hs_stage_report h \<noteq> GNil \<or> hs_last_code h \<noteq> [] \<or> hs_last_error h \<noteq> [] \<or>
     \<not> time_is_zero (hs_checked_at h)"

definition merge_operation_progress :: "health_snapshot \<Rightarrow> health_snapshot \<Rightarrow> health_snapshot" where
  "merge_operation_progress current progress = current
     \<lparr>hs_stage_report := (if hs_stage_report progress \<noteq> GNil then hs_stage_report progress
                          else hs_stage_report current),
      hs_last_code := (if hs_last_code progress \<noteq> [] then hs_last_code progress
                       else hs_last_code current),
      hs_last_error := (if hs_last_error progress \<noteq> [] then hs_last_error progress
                        else hs_last_error current),
      hs_last_user_message := (if hs_last_user_message progress \<noteq> []
                               then hs_last_user_message progress else hs_last_user_message current),
      hs_last_debug := (if hs_last_debug progress \<noteq> [] then hs_last_debug progress
                        else hs_last_debug current),
      hs_rollback_applied := (if hs_rollback_applied progress then True
                              else hs_rollback_applied current),
      hs_checked_at := (if \<not> time_is_zero (hs_checked_at progress) then hs_checked_at progress
                        else hs_checked_at current),
      hs_checks := (if hs_checks progress \<noteq> [] then hs_checks progress else hs_checks current)\<rparr>"

section \<open>The canonical status\<close>

definition canonical_status_from_status :: "status \<Rightarrow> canonical_status" where
  "canonical_status_from_status s =
     (let ap = st_applied_state s; h = st_health s;
          (phase, generation, last_code, last_error) =
            (case st_active_operation s of
               Some op \<Rightarrow>
                 (os_phase op,
                  if 0 < sint (os_generation op) then os_generation op else ap_generation ap,
                  if os_step_code op \<noteq> [] then os_step_code op else hs_last_code h,
                  if os_step_detail op \<noteq> [] then os_step_detail op else hs_last_error h)
             | None \<Rightarrow>
                 (case st_last_operation s of
                    Some r \<Rightarrow>
                      if \<not> or_succeeded r
                      then (ap_phase ap, ap_generation ap,
                            if hs_last_code h = [] then or_error_code r else hs_last_code h,
                            if hs_last_error h = [] then or_error_message r else hs_last_error h)
                      else (ap_phase ap, ap_generation ap, hs_last_code h, hs_last_error h)
                  | None \<Rightarrow> (ap_phase ap, ap_generation ap, hs_last_code h, hs_last_error h)))
      in \<lparr>cs_backend_kind = ap_backend_kind ap, cs_phase = phase,
          cs_active_profile_id = first_non_empty
            [ap_active_profile_id ap, ds_active_profile_id (st_desired_state s)],
          cs_generation = generation,
          cs_readiness = \<lparr>rd_ready = healthy h, rd_operational_healthy = operational_healthy h,
            rd_core_ready = hs_core_ready h, rd_routing_ready = hs_routing_ready h,
            rd_dns_ready = hs_dns_ready h, rd_egress_ready = hs_egress_ready h\<rparr>,
          cs_last_code = last_code, cs_last_error = last_error,
          cs_last_user_message = hs_last_user_message h, cs_last_debug = hs_last_debug h,
          cs_rollback_applied = hs_rollback_applied h, cs_checked_at = hs_checked_at h\<rparr>)"

section \<open>The runtime state file\<close>

text \<open>\<^verbatim>\<open>Format(time.RFC3339)\<close> depends on the time zone of the device, so it is the parameter
  \<^verbatim>\<open>fmt_time\<close>.\<close>

record runtime_state_file =
  sf_desired_generation :: int64
  sf_applied_generation :: int64
  sf_profile_hash :: string
  sf_last_verified_at :: string
  sf_last_health_code :: string
  sf_last_health_message :: string
  sf_desired_state :: desired_state
  sf_applied_state :: applied_state
  sf_canonical :: canonical_status
  sf_health :: health_snapshot
  sf_compatibility :: compatibility_status
  sf_active_operation :: "operation_status option"
  sf_last_operation :: "operation_result option"
  sf_updated_at :: string

definition runtime_state_from_status ::
  "(gtime \<Rightarrow> string) \<Rightarrow> status \<Rightarrow> gtime \<Rightarrow> runtime_state_file" where
  "runtime_state_from_status fmt_time s now =
     (let desired_generation =
            (case st_active_operation s of
               Some op \<Rightarrow> os_generation op
             | None \<Rightarrow>
                 (case st_last_operation s of
                    Some r \<Rightarrow>
                      if sint (ap_generation (st_applied_state s)) < sint (or_generation r)
                      then or_generation r else ap_generation (st_applied_state s)
                  | None \<Rightarrow> ap_generation (st_applied_state s)));
          canonical = (if cs_phase (st_canonical s) = PhaseNone
                       then canonical_status_from_status s else st_canonical s)
      in \<lparr>sf_desired_generation = desired_generation,
          sf_applied_generation = ap_generation (st_applied_state s),
          sf_profile_hash = [],
          sf_last_verified_at = (if time_is_zero (hs_checked_at (st_health s)) then []
                                 else fmt_time (hs_checked_at (st_health s))),
          sf_last_health_code = cs_last_code canonical,
          sf_last_health_message =
            first_non_empty [cs_last_user_message canonical, cs_last_error canonical],
          sf_desired_state = st_desired_state s, sf_applied_state = st_applied_state s,
          sf_canonical = canonical, sf_health = st_health s,
          sf_compatibility = st_compatibility s,
          sf_active_operation = st_active_operation s,
          sf_last_operation = st_last_operation s,
          sf_updated_at = fmt_time now\<rparr>)"

section \<open>Lemmas\<close>

lemma empty_step_sel [simp]: "ost_name empty_step = []"
  by (simp add: empty_step_def)

lemma step_from_GNil [simp, go_simps]: "operation_step_from_report GNil = empty_step"
  by (simp add: operation_step_from_report_def)

definition stage_step :: "runtime_stage \<Rightarrow> operation_step" where
  "stage_step st = \<lparr>ost_name = rs_name st, ost_status = rs_status st, ost_code = rs_code st,
      ost_detail = rs_detail st\<rparr>"

lemma stage_value_step [simp]: "operation_step_from_stage_value (stage_value st) = stage_step st"
  by (simp add: operation_step_from_stage_value_def stage_value_def string_field_def stage_step_def)

lemma step_from_stage_report:
  "operation_step_from_report (stage_report_value r) =
     (if sr_failed_stage r \<noteq> [] then pick_failed (sr_failed_stage r) (map stage_step (sr_stages r))
      else pick_last (map stage_step (sr_stages r)))"
  by (simp add: operation_step_from_report_def stage_report_value_def
        operation_step_from_struct_def string_field_def Let_def comp_def)

lemma phase_from_health_zero [simp, go_simps]:
  "time_is_zero (hs_checked_at h) \<Longrightarrow> phase_from_health h fb = fb"
  by (simp add: phase_from_health_def)

lemma phase_from_health_ok [simp, go_simps]:
  "\<not> time_is_zero (hs_checked_at h) \<Longrightarrow> operational_healthy h \<Longrightarrow>
   phase_from_health h fb = PhaseHealthy"
  by (simp add: phase_from_health_def)

lemma phase_from_health_not_none: "fb \<noteq> PhaseNone \<Longrightarrow> phase_from_health h fb \<noteq> PhaseNone"
  by (simp add: phase_from_health_def Let_def)

lemma health_from_error_sel [simp, go_simps]:
  "hs_checked_at (health_from_error e now) = now"
  "hs_last_error (health_from_error e now) = error_msg e"
  "hs_last_code (health_from_error e now) = error_code (Some e)"
  "\<not> healthy (health_from_error e now)"
  "\<not> operational_healthy (health_from_error e now)"
  by (simp_all add: health_from_error_def error_code_def empty_health_def healthy_def
      operational_healthy_def)

lemma first_reset_report_simps [simp]:
  "first_reset_report [Some r, x] = Some r" "first_reset_report [None, x] = x"
  by (simp_all split: option.split)

end
