(* ===== verification/Orchestrator.thy ===== *)
theory Orchestrator
  imports StatusModel
begin

text \<open>
  The runtime orchestrator (\<^verbatim>\<open>daemon/internal/runtimev2/orchestrator.go\<close>): its state, and
  one definition per method.  A method that holds the mutex throughout is one function from
  the state to its result and the new state.  A method that releases the mutex around a
  backend call is two functions, one per critical section.  Each critical section takes one
  clock reading, \<^verbatim>\<open>now\<close>.

  The \<^verbatim>\<open>Backend\<close> interface appears as what the orchestrator learns from it: the registered
  kinds with the answer of \<^verbatim>\<open>Supported\<close>, and, in the completion functions, the values its
  methods returned.  A submitted operation runs in a goroutine of its own; the closure it
  runs, with the variables it captured, is a value of \<^verbatim>\<open>run_closure\<close>.

  Events sent to the logger and statuses sent to the observer are appended to two traces of
  the state when a logger or an observer is installed.
\<close>

section \<open>State\<close>

record operation_log_event =
  le_operation_id :: string
  le_kind :: operation_kind
  le_generation :: int64
  le_phase :: phase
  le_step :: string
  le_step_status :: string
  le_step_detail :: string
  le_result :: string
  le_error_code :: string
  le_error_message :: string
  le_runtime_ms :: int
  le_stuck :: bool

definition empty_log_event :: operation_log_event where
  "empty_log_event = \<lparr>le_operation_id = [], le_kind = OperationNone, le_generation = 0,
     le_phase = PhaseNone, le_step = [], le_step_status = [], le_step_detail = [], le_result = [],
     le_error_code = [], le_error_message = [], le_runtime_ms = 0, le_stuck = False\<rparr>"

record operation_completion =
  oc_err :: "go_error option"
  oc_health :: health_snapshot
  oc_applied :: applied_state
  oc_reset_report :: "reset_report option"

record orchestrator =
  o_backends :: "backend_kind \<rightharpoonup> bool \<times> string"
  o_desired :: desired_state
  o_applied :: applied_state
  o_health :: health_snapshot
  o_compatibility :: compatibility_status
  o_active :: "operation_status option"
  o_last :: "operation_result option"
  o_op_seq :: uint64
  o_active_stuck_logged :: bool
  o_health_refresh_locked :: bool
  o_watchdog_after :: duration
  o_has_logger :: bool
  o_has_observer :: bool
  o_logged :: "operation_log_event list"
  o_observed :: "status list"

definition empty_applied :: applied_state where
  "empty_applied = \<lparr>ap_backend_kind = [], ap_phase = PhaseNone, ap_active_profile_id = [],
     ap_started_at = zero_time, ap_generation = 0\<rparr>"

definition empty_completion :: operation_completion where
  "empty_completion = \<lparr>oc_err = None, oc_health = empty_health, oc_applied = empty_applied,
     oc_reset_report = None\<rparr>"

definition new_orchestrator ::
  "desired_state \<Rightarrow> (backend_kind \<times> bool \<times> string) list \<Rightarrow> orchestrator" where
  "new_orchestrator desired0 backends =
     (let desired = (if ds_backend_kind desired0 = []
                     then desired0\<lparr>ds_backend_kind := backend_root_tproxy\<rparr> else desired0)
      in \<lparr>o_backends = map_of (rev backends),
          o_desired = desired,
          o_applied = empty_applied\<lparr>ap_backend_kind := ds_backend_kind desired,
                                    ap_phase := PhaseStopped\<rparr>,
          o_health = empty_health, o_compatibility = empty_compatibility,
          o_active = None, o_last = None, o_op_seq = 0, o_active_stuck_logged = False,
          o_health_refresh_locked = False, o_watchdog_after = 2 * minute,
          o_has_logger = False, o_has_observer = False, o_logged = [], o_observed = []\<rparr>)"

definition set_operation_watchdog :: "duration \<Rightarrow> orchestrator \<Rightarrow> orchestrator" where
  "set_operation_watchdog after orch = orch\<lparr>o_watchdog_after := after\<rparr>"

definition set_operation_logger :: "bool \<Rightarrow> orchestrator \<Rightarrow> orchestrator" where
  "set_operation_logger present orch = orch\<lparr>o_has_logger := present\<rparr>"

definition set_status_observer :: "bool \<Rightarrow> orchestrator \<Rightarrow> orchestrator" where
  "set_status_observer present orch = orch\<lparr>o_has_observer := present\<rparr>"

section \<open>Helpers that run under the mutex\<close>

definition log_locked :: "operation_log_event \<Rightarrow> orchestrator \<Rightarrow> orchestrator" where
  "log_locked event orch =
     (if o_has_logger orch then orch\<lparr>o_logged := o_logged orch @ [event]\<rparr> else orch)"

definition notify_observer :: "status \<Rightarrow> orchestrator \<Rightarrow> orchestrator" where
  "notify_observer s orch =
     (if o_has_observer orch then orch\<lparr>o_observed := o_observed orch @ [s]\<rparr> else orch)"

definition duration_millis_ceil :: "duration \<Rightarrow> int" where
  "duration_millis_ceil d =
     (let ms = millis d; ms' = (if d smod millisecond \<noteq> 0 then ms + 1 else ms)
      in if ms' < 1 then 1 else ms')"

definition clone_active_operation_locked :: "orchestrator \<Rightarrow> gtime \<Rightarrow> operation_status option" where
  "clone_active_operation_locked orch now =
     (case o_active orch of None \<Rightarrow> None
      | Some op \<Rightarrow>
          (let op1 = op\<lparr>os_runtime_ms := max 0 (millis (time_sub now (os_started_at op)))\<rparr>;
               op2 = (if 0 < o_watchdog_after orch
                      then op1\<lparr>os_watchdog_after_ms := duration_millis_ceil (o_watchdog_after orch),
                               os_stuck := o_watchdog_after orch < time_sub now (os_started_at op)\<rparr>
                      else op1);
               step = operation_step_from_report (hs_stage_report (o_health orch))
           in Some (if ost_name step \<noteq> []
                    then op2\<lparr>os_step := ost_name step, os_step_status := ost_status step,
                             os_step_code := ost_code step, os_step_detail := ost_detail step\<rparr>
                    else op2)))"

definition busy_locked :: "orchestrator \<Rightarrow> gtime \<Rightarrow> go_error option" where
  "busy_locked orch now =
     (case clone_active_operation_locked orch now of
        None \<Rightarrow> None
      | Some op \<Rightarrow> Some (BusyError (new_runtime_busy_error op)))"

definition backend_for_locked :: "orchestrator \<Rightarrow> backend_kind \<Rightarrow> go_error + bool \<times> string" where
  "backend_for_locked orch kind0 =
     (let kind = (if kind0 = [] then backend_root_tproxy else kind0)
      in case o_backends orch kind of
           None \<Rightarrow> Inl (ErrorString (''backend '' @ kind @ '' is not registered''))
         | Some b \<Rightarrow> Inr b)"

definition validate_desired_locked :: "orchestrator \<Rightarrow> desired_state \<Rightarrow> go_error option" where
  "validate_desired_locked orch desired =
     (case backend_for_locked orch (ds_backend_kind desired) of
        Inl e \<Rightarrow> Some e
      | Inr (supported, reason) \<Rightarrow>
          if \<not> supported \<and> ds_backend_kind desired \<noteq> backend_root_tproxy
          then Some (ErrorString reason) else None)"

definition next_generation_locked :: "orchestrator \<Rightarrow> int64" where
  "next_generation_locked orch =
     (let next = ap_generation (o_applied orch) + 1 in if sint next < 1 then 1 else next)"

definition stuck_event :: "operation_status \<Rightarrow> operation_log_event" where
  "stuck_event op = empty_log_event
     \<lparr>le_operation_id := os_operation_id op, le_kind := os_kind op,
      le_generation := os_generation op, le_phase := os_phase op, le_step := os_step op,
      le_step_status := os_step_status op, le_step_detail := os_step_detail op,
      le_result := ''stuck'', le_error_code := ''OPERATION_STUCK'',
      le_runtime_ms := os_runtime_ms op, le_stuck := True\<rparr>"

definition status_capabilities :: "orchestrator \<Rightarrow> backend_capability list" where
  "status_capabilities orch =
     (case o_backends orch backend_root_tproxy of
        None \<Rightarrow> []
      | Some (supported, reason) \<Rightarrow>
          [\<lparr>bc_kind = backend_root_tproxy, bc_supported = supported, bc_reason = reason\<rparr>])"

definition status_locked_with_stuck_log ::
  "bool \<Rightarrow> orchestrator \<Rightarrow> gtime \<Rightarrow> status \<times> orchestrator" where
  "status_locked_with_stuck_log log_stuck orch now =
     (let active = clone_active_operation_locked orch now;
          orch' = (case active of None \<Rightarrow> orch
             | Some op \<Rightarrow>
                 if log_stuck \<and> os_stuck op \<and> 0 < os_runtime_ms op \<and> os_step op \<noteq> [] \<and>
                    \<not> o_active_stuck_logged orch
                 then log_locked (stuck_event op) (orch\<lparr>o_active_stuck_logged := True\<rparr>)
                 else orch);
          s = \<lparr>st_desired_state = o_desired orch, st_applied_state = o_applied orch,
               st_canonical = \<lparr>cs_backend_kind = [], cs_phase = PhaseNone,
                  cs_active_profile_id = [], cs_generation = 0,
                  cs_readiness = \<lparr>rd_ready = False, rd_operational_healthy = False,
                    rd_core_ready = False, rd_routing_ready = False, rd_dns_ready = False,
                    rd_egress_ready = False\<rparr>,
                  cs_last_code = [], cs_last_error = [], cs_last_user_message = [],
                  cs_last_debug = [], cs_rollback_applied = False, cs_checked_at = zero_time\<rparr>,
               st_health = o_health orch, st_uptime_seconds = 0,
               st_traffic = \<lparr>ts_tx_bytes = 0, ts_rx_bytes = 0, ts_tx_rate = 0, ts_rx_rate = 0\<rparr>,
               st_capabilities = status_capabilities orch,
               st_compatibility = o_compatibility orch, st_active_operation = active,
               st_last_operation = o_last orch, st_update_install = None\<rparr>
      in (s\<lparr>st_canonical := canonical_status_from_status s\<rparr>, orch'))"

definition status_locked :: "orchestrator \<Rightarrow> gtime \<Rightarrow> status \<times> orchestrator" where
  "status_locked orch now = status_locked_with_stuck_log True orch now"

definition status_locked_without_stuck_log :: "orchestrator \<Rightarrow> gtime \<Rightarrow> status" where
  "status_locked_without_stuck_log orch now = fst (status_locked_with_stuck_log False orch now)"

text \<open>\<^verbatim>\<open>HealthSnapshot{LastError: err.Error(), CheckedAt: time.Now()}\<close>\<close>

definition error_only_health :: "go_error \<Rightarrow> gtime \<Rightarrow> health_snapshot" where
  "error_only_health err now = empty_health\<lparr>hs_last_error := error_msg err, hs_checked_at := now\<rparr>"

section \<open>Methods that hold the mutex throughout\<close>

definition orch_set_compatibility :: "compatibility_status \<Rightarrow> gtime \<Rightarrow> orchestrator \<Rightarrow> orchestrator" where
  "orch_set_compatibility c now orch =
     (let orch1 = orch\<lparr>o_compatibility := c\<rparr>
      in notify_observer (status_locked_without_stuck_log orch1 now) orch1)"

definition set_active_operation_step ::
  "int64 \<Rightarrow> string \<Rightarrow> string \<Rightarrow> string \<Rightarrow> string \<Rightarrow> gtime \<Rightarrow> orchestrator \<Rightarrow> bool \<times> orchestrator" where
  "set_active_operation_step generation name status code detail now orch =
     (case o_active orch of
        None \<Rightarrow> (False, orch)
      | Some op \<Rightarrow>
          if os_generation op \<noteq> generation then (False, orch)
          else
            (let op' = op\<lparr>os_step := name, os_step_status := status, os_step_code := code,
                          os_step_detail := detail\<rparr>;
                 orch1 = orch\<lparr>o_active := Some op'\<rparr>;
                 orch2 = log_locked (empty_log_event
                   \<lparr>le_operation_id := os_operation_id op', le_kind := os_kind op',
                    le_generation := os_generation op', le_phase := os_phase op', le_step := name,
                    le_step_status := status, le_step_detail := detail, le_result := ''step'',
                    le_error_code := code,
                    le_runtime_ms := millis (time_sub now (os_started_at op'))\<rparr>) orch1
             in (True, notify_observer (status_locked_without_stuck_log orch2 now) orch2)))"

definition with_default_backend :: "orchestrator \<Rightarrow> desired_state \<Rightarrow> desired_state" where
  "with_default_backend orch desired =
     (if ds_backend_kind desired = []
      then desired\<lparr>ds_backend_kind := ds_backend_kind (o_desired orch)\<rparr> else desired)"

definition apply_desired_state ::
  "desired_state \<Rightarrow> gtime \<Rightarrow> orchestrator \<Rightarrow> go_error option \<times> orchestrator" where
  "apply_desired_state desired0 now orch =
     (case busy_locked orch now of
        Some e \<Rightarrow> (Some e, orch)
      | None \<Rightarrow>
          (let desired = with_default_backend orch desired0
           in case validate_desired_locked orch desired of
                Some e \<Rightarrow> (Some e, orch)
              | None \<Rightarrow>
                  (let orch1 = orch\<lparr>o_desired := desired\<rparr>
                   in (None, notify_observer (status_locked_without_stuck_log orch1 now) orch1))))"

definition validate_desired_state ::
  "desired_state \<Rightarrow> gtime \<Rightarrow> orchestrator \<Rightarrow> go_error option" where
  "validate_desired_state desired0 now orch =
     (case busy_locked orch now of
        Some e \<Rightarrow> Some e
      | None \<Rightarrow> validate_desired_locked orch (with_default_backend orch desired0))"

definition orch_status :: "gtime \<Rightarrow> orchestrator \<Rightarrow> status \<times> orchestrator" where
  "orch_status now orch = status_locked orch now"

definition orch_current_health :: "orchestrator \<Rightarrow> health_snapshot" where
  "orch_current_health orch = o_health orch"

section \<open>Submitting an operation\<close>

text \<open>The closures the methods hand to \<^verbatim>\<open>submitLocked\<close>, with what they capture.\<close>

datatype run_closure =
    RunStart desired_state
  | RunRestart desired_state
  | RunStop backend_kind applied_state
  | RunReset backend_kind applied_state desired_state
  | RunNetworkChange applied_state
  | RunCustom operation_kind applied_state

type_synonym pending = "operation_status \<times> run_closure"
type_synonym submit_result = "status \<times> go_error option \<times> pending option"

definition begin_operation_locked ::
  "operation_kind \<Rightarrow> phase \<Rightarrow> gtime \<Rightarrow> orchestrator \<Rightarrow> operation_status \<times> orchestrator" where
  "begin_operation_locked kind phase now orch =
     (let generation = next_generation_locked orch;
          seq = o_op_seq orch + 1;
          op = \<lparr>os_operation_id = nat_str (unat seq), os_kind = kind, os_generation = generation,
                os_phase = phase, os_started_at = now, os_step = [], os_step_status = [],
                os_step_code = [], os_step_detail = [], os_runtime_ms = 0,
                os_watchdog_after_ms = 0, os_stuck = False\<rparr>
      in (op, orch\<lparr>o_op_seq := seq, o_active := Some op, o_active_stuck_logged := False\<rparr>))"

definition submit_locked ::
  "operation_kind \<Rightarrow> phase \<Rightarrow> (operation_status \<Rightarrow> applied_state \<Rightarrow> applied_state) \<Rightarrow> run_closure
     \<Rightarrow> gtime \<Rightarrow> orchestrator \<Rightarrow> submit_result \<times> orchestrator" where
  "submit_locked kind phase configure run now orch =
     (let (op, orch1) = begin_operation_locked kind phase now orch;
          orch2 = orch1\<lparr>o_applied := configure op (o_applied orch1)\<rparr>;
          s = status_locked_without_stuck_log orch2 now;
          orch3 = log_locked (empty_log_event
            \<lparr>le_operation_id := os_operation_id op, le_kind := os_kind op,
             le_generation := os_generation op, le_phase := os_phase op,
             le_result := ''accepted''\<rparr>) orch2
      in ((s, None, Some (op, run)), notify_observer s orch3))"

text \<open>The early returns of the submitting methods: status and error, nothing spawned.\<close>

definition reject :: "go_error option \<Rightarrow> gtime \<Rightarrow> orchestrator \<Rightarrow> submit_result \<times> orchestrator" where
  "reject err now orch =
     (let (s, orch1) = status_locked orch now in ((s, err, None), orch1))"

definition reject_with_health ::
  "go_error \<Rightarrow> gtime \<Rightarrow> orchestrator \<Rightarrow> submit_result \<times> orchestrator" where
  "reject_with_health err now orch =
     reject (Some err) now (orch\<lparr>o_health := error_only_health err now\<rparr>)"

definition applied_backend_kind :: "orchestrator \<Rightarrow> backend_kind" where
  "applied_backend_kind orch =
     (if ap_backend_kind (o_applied orch) = [] then ds_backend_kind (o_desired orch)
      else ap_backend_kind (o_applied orch))"

definition launch_configure :: "desired_state \<Rightarrow> operation_status \<Rightarrow> applied_state \<Rightarrow> applied_state" where
  "launch_configure desired op old = empty_applied
     \<lparr>ap_backend_kind := ds_backend_kind desired, ap_phase := PhaseStarting,
      ap_active_profile_id := ds_active_profile_id desired, ap_generation := os_generation op\<rparr>"

definition orch_start :: "gtime \<Rightarrow> orchestrator \<Rightarrow> submit_result \<times> orchestrator" where
  "orch_start now orch =
     (case busy_locked orch now of
        Some e \<Rightarrow> reject (Some e) now orch
      | None \<Rightarrow>
          (let desired = o_desired orch
           in case backend_for_locked orch (ds_backend_kind desired) of
                Inl e \<Rightarrow> reject_with_health e now orch
              | Inr (supported, reason) \<Rightarrow>
                  if \<not> supported then reject_with_health (ErrorString reason) now orch
                  else submit_locked OperationStart PhaseStarting (launch_configure desired)
                         (RunStart desired) now orch))"

definition orch_restart :: "gtime \<Rightarrow> orchestrator \<Rightarrow> submit_result \<times> orchestrator" where
  "orch_restart now orch =
     (case busy_locked orch now of
        Some e \<Rightarrow> reject (Some e) now orch
      | None \<Rightarrow>
          (let desired = o_desired orch
           in case backend_for_locked orch (ds_backend_kind desired) of
                Inl e \<Rightarrow> reject_with_health e now orch
              | Inr (supported, reason) \<Rightarrow>
                  if \<not> supported then reject_with_health (ErrorString reason) now orch
                  else submit_locked OperationRestart PhaseStarting (launch_configure desired)
                         (RunRestart desired) now orch))"

definition orch_stop :: "gtime \<Rightarrow> orchestrator \<Rightarrow> submit_result \<times> orchestrator" where
  "orch_stop now orch =
     (case busy_locked orch now of
        Some e \<Rightarrow> reject (Some e) now orch
      | None \<Rightarrow>
          (let kind = applied_backend_kind orch; active = o_applied orch
           in case backend_for_locked orch kind of
                Inl e \<Rightarrow> reject_with_health e now orch
              | Inr b \<Rightarrow>
                  submit_locked OperationStop PhaseStopping
                    (\<lambda>op old. empty_applied\<lparr>ap_backend_kind := kind, ap_phase := PhaseStopping,
                       ap_active_profile_id := ap_active_profile_id active,
                       ap_started_at := ap_started_at active, ap_generation := os_generation op\<rparr>)
                    (RunStop kind active) now orch))"

definition orch_reset :: "gtime \<Rightarrow> orchestrator \<Rightarrow> submit_result \<times> orchestrator" where
  "orch_reset now orch =
     (case busy_locked orch now of
        Some e \<Rightarrow> reject (Some e) now orch
      | None \<Rightarrow>
          (let kind = applied_backend_kind orch; active = o_applied orch; desired = o_desired orch
           in case backend_for_locked orch kind of
                Inl e \<Rightarrow> reject_with_health e now orch
              | Inr b \<Rightarrow>
                  submit_locked OperationReset PhaseResetting
                    (\<lambda>op old. empty_applied\<lparr>ap_backend_kind := kind, ap_phase := PhaseResetting,
                       ap_active_profile_id := ap_active_profile_id active,
                       ap_generation := os_generation op\<rparr>)
                    (RunReset kind active desired) now orch))"

definition keep_configure :: "phase \<Rightarrow> operation_status \<Rightarrow> applied_state \<Rightarrow> applied_state" where
  "keep_configure phase op old = old\<lparr>ap_phase := phase, ap_generation := os_generation op\<rparr>"

definition orch_handle_network_change :: "gtime \<Rightarrow> orchestrator \<Rightarrow> submit_result \<times> orchestrator" where
  "orch_handle_network_change now orch =
     (case busy_locked orch now of
        Some e \<Rightarrow> reject (Some e) now orch
      | None \<Rightarrow>
          if ap_phase (o_applied orch) = PhaseStopped then reject None now orch
          else (case backend_for_locked orch (ap_backend_kind (o_applied orch)) of
                  Inl e \<Rightarrow> reject_with_health e now orch
                | Inr b \<Rightarrow>
                    submit_locked OperationNetworkChange PhaseStarting (keep_configure PhaseStarting)
                      (RunNetworkChange (o_applied orch)) now orch))"

definition orch_run_operation ::
  "operation_kind \<Rightarrow> phase \<Rightarrow> gtime \<Rightarrow> orchestrator \<Rightarrow> submit_result \<times> orchestrator" where
  "orch_run_operation kind phase0 now orch =
     (case busy_locked orch now of
        Some e \<Rightarrow> reject (Some e) now orch
      | None \<Rightarrow>
          (let phase = (if phase0 = PhaseNone then PhaseApplying else phase0)
           in submit_locked kind phase (keep_configure phase)
                (RunCustom kind (o_applied orch)) now orch))"

end
