(* ===== verification/OperationRun.thy ===== *)
theory OperationRun
  imports Orchestrator
begin

text \<open>
  The second half of an orchestrator operation: the closure that runs in its goroutine, as a
  function from the answers of the backend to the completion it returns; the critical
  section that records the completion (\<^verbatim>\<open>finishOperationLocked\<close>), with the panic path of
  \<^verbatim>\<open>runSubmittedOperation\<close>; and the methods that release the mutex around a backend call
  (\<^verbatim>\<open>RefreshHealth\<close>, \<^verbatim>\<open>RefreshActiveProgress\<close>, \<^verbatim>\<open>TestNodes\<close>).
\<close>

section \<open>Completions\<close>

text \<open>
  What the closure got from the backend (or from the function \<^verbatim>\<open>fn\<close> of \<^verbatim>\<open>RunOperation\<close>):
  the report and error of its main call, the report of \<^verbatim>\<open>Reset\<close>, the two health queries, and
  the clock reading it uses.
\<close>

record backend_answers =
  ba_report :: "reset_report option"
  ba_err :: "go_error option"
  ba_reset :: reset_report
  ba_current_health :: health_snapshot
  ba_refreshed_health :: health_snapshot
  ba_now :: gtime

definition launch_completion ::
  "desired_state \<Rightarrow> operation_status \<Rightarrow> backend_answers \<Rightarrow> operation_completion" where
  "launch_completion desired op ans =
     (case ba_err ans of
        Some e \<Rightarrow>
          (let health = health_from_error e (ba_now ans);
               report = (case reset_report_from_error (Some e) of
                           Some r \<Rightarrow> Some r | None \<Rightarrow> ba_report ans)
           in \<lparr>oc_err = Some e, oc_health = health,
               oc_applied = empty_applied\<lparr>ap_backend_kind := ds_backend_kind desired,
                 ap_phase := phase_from_health health PhaseFailed,
                 ap_active_profile_id := ds_active_profile_id desired,
                 ap_generation := os_generation op\<rparr>,
               oc_reset_report = report\<rparr>)
      | None \<Rightarrow>
          (let health = ba_refreshed_health ans
           in \<lparr>oc_err = None, oc_health = health,
               oc_applied = empty_applied\<lparr>ap_backend_kind := ds_backend_kind desired,
                 ap_phase := phase_from_health health PhaseHealthy,
                 ap_active_profile_id := ds_active_profile_id desired,
                 ap_started_at := os_started_at op, ap_generation := os_generation op\<rparr>,
               oc_reset_report = ba_report ans\<rparr>))"

definition stop_completion ::
  "backend_kind \<Rightarrow> applied_state \<Rightarrow> operation_status \<Rightarrow> backend_answers \<Rightarrow> operation_completion" where
  "stop_completion kind active op ans =
     (let stop_err = ba_err ans;
          did_reset = (stop_err \<noteq> None \<and> ap_phase active \<noteq> PhaseStopped);
          report = (if did_reset then Some (ba_reset ans) else None)
      in case stop_err of
           Some e \<Rightarrow>
             if did_reset \<and> rr_status (ba_reset ans) \<noteq> ''ok''
             then \<lparr>oc_err = Some e, oc_health = error_only_health e (ba_now ans),
                   oc_applied = empty_applied\<lparr>ap_backend_kind := ap_backend_kind active,
                     ap_phase := PhaseFailed,
                     ap_active_profile_id := ap_active_profile_id active,
                     ap_started_at := ap_started_at active, ap_generation := os_generation op\<rparr>,
                   oc_reset_report = report\<rparr>
             else \<lparr>oc_err = Some e, oc_health = error_only_health e (ba_now ans),
                   oc_applied = empty_applied\<lparr>ap_backend_kind := kind, ap_phase := PhaseStopped,
                     ap_active_profile_id := ap_active_profile_id active,
                     ap_generation := os_generation op\<rparr>,
                   oc_reset_report = report\<rparr>
         | None \<Rightarrow>
             \<lparr>oc_err = None, oc_health = empty_health\<lparr>hs_checked_at := ba_now ans\<rparr>,
              oc_applied = empty_applied\<lparr>ap_backend_kind := kind, ap_phase := PhaseStopped,
                ap_active_profile_id := ap_active_profile_id active,
                ap_generation := os_generation op\<rparr>,
              oc_reset_report = report\<rparr>)"

definition reset_completion ::
  "backend_kind \<Rightarrow> desired_state \<Rightarrow> operation_status \<Rightarrow> backend_answers \<Rightarrow> operation_completion" where
  "reset_completion kind desired op ans =
     (let report = ba_reset ans;
          failed = (rr_errors report \<noteq> [] \<or> rr_status report = ''partial'' \<or>
                    rr_status report = ''failed'');
          first = first_error (rr_errors report);
          message = (if first = [] then ''reset failed'' else first)
      in \<lparr>oc_err = (if failed then Some (ErrorString message) else None),
          oc_health = empty_health\<lparr>hs_checked_at := ba_now ans,
                        hs_last_error := (if failed then message else [])\<rparr>,
          oc_applied = empty_applied\<lparr>ap_backend_kind := kind, ap_phase := PhaseStopped,
            ap_active_profile_id := ds_active_profile_id desired,
            ap_generation := os_generation op\<rparr>,
          oc_reset_report = Some report\<rparr>)"

definition network_change_completion ::
  "applied_state \<Rightarrow> operation_status \<Rightarrow> backend_answers \<Rightarrow> operation_completion" where
  "network_change_completion active op ans =
     (let err = ba_err ans;
          health = (if time_is_zero (hs_checked_at (ba_current_health ans))
                    then ba_refreshed_health ans else ba_current_health ans);
          health' = (case err of None \<Rightarrow> health
             | Some e \<Rightarrow> health
                 \<lparr>hs_last_error := (if hs_last_error health = [] then error_msg e
                                    else hs_last_error health),
                  hs_checked_at := (if time_is_zero (hs_checked_at health) then ba_now ans
                                    else hs_checked_at health)\<rparr>)
      in \<lparr>oc_err = err, oc_health = health',
          oc_applied = empty_applied\<lparr>ap_backend_kind := ap_backend_kind active,
            ap_phase := (if err \<noteq> None then PhaseDegraded
                         else phase_from_health health PhaseHealthy),
            ap_active_profile_id := ap_active_profile_id active,
            ap_started_at := ap_started_at active, ap_generation := os_generation op\<rparr>,
          oc_reset_report = first_reset_report [ba_report ans, reset_report_from_error err]\<rparr>)"

fun operation_applies_desired_runtime_state :: "operation_kind \<Rightarrow> bool" where
  "operation_applies_desired_runtime_state OperationConfigMutation = True"
| "operation_applies_desired_runtime_state OperationProfileApply = True"
| "operation_applies_desired_runtime_state OperationApplyDesiredState = True"
| "operation_applies_desired_runtime_state OperationReload = True"
| "operation_applies_desired_runtime_state _ = False"

text \<open>
  \<^verbatim>\<open>seen_health\<close> and \<^verbatim>\<open>seen_desired\<close> are the fields the closure of \<^verbatim>\<open>RunOperation\<close> reads
  under the mutex once \<^verbatim>\<open>fn\<close> has returned.
\<close>

definition custom_completion ::
  "operation_kind \<Rightarrow> applied_state \<Rightarrow> operation_status \<Rightarrow> backend_answers
     \<Rightarrow> health_snapshot \<Rightarrow> desired_state \<Rightarrow> operation_completion" where
  "custom_completion kind active op ans seen_health seen_desired =
     (case ba_err ans of
        Some e \<Rightarrow>
          (let health = health_from_error e (ba_now ans)
           in \<lparr>oc_err = Some e, oc_health = health,
               oc_applied = empty_applied\<lparr>ap_backend_kind := ap_backend_kind active,
                 ap_phase := phase_from_health health PhaseFailed,
                 ap_active_profile_id := ap_active_profile_id active,
                 ap_started_at := ap_started_at active, ap_generation := os_generation op\<rparr>,
               oc_reset_report = reset_report_from_error (Some e)\<rparr>)
      | None \<Rightarrow>
          (let applied =
                 (if kind = OperationUpdateInstall then active\<lparr>ap_phase := PhaseStopped\<rparr>
                  else if operation_applies_desired_runtime_state kind
                  then active\<lparr>ap_backend_kind := (if ds_backend_kind seen_desired \<noteq> []
                                 then ds_backend_kind seen_desired else ap_backend_kind active),
                              ap_active_profile_id := ds_active_profile_id seen_desired,
                              ap_started_at := os_started_at op,
                              ap_phase := phase_from_health seen_health PhaseHealthy\<rparr>
                  else if \<not> time_is_zero (hs_checked_at seen_health) \<and>
                          \<not> hs_checked_at seen_health < os_started_at op
                  then active\<lparr>ap_phase := phase_from_health seen_health PhaseHealthy\<rparr>
                  else active)
           in empty_completion\<lparr>oc_applied := applied\<lparr>ap_generation := os_generation op\<rparr>\<rparr>))"

fun run_completion ::
  "run_closure \<Rightarrow> operation_status \<Rightarrow> backend_answers \<Rightarrow> orchestrator \<Rightarrow> operation_completion" where
  "run_completion (RunStart desired) op ans orch = launch_completion desired op ans"
| "run_completion (RunRestart desired) op ans orch = launch_completion desired op ans"
| "run_completion (RunStop kind active) op ans orch = stop_completion kind active op ans"
| "run_completion (RunReset kind active desired) op ans orch = reset_completion kind desired op ans"
| "run_completion (RunNetworkChange active) op ans orch = network_change_completion active op ans"
| "run_completion (RunCustom kind active) op ans orch =
     custom_completion kind active op ans (o_health orch) (o_desired orch)"

section \<open>Finishing\<close>

definition operation_result_of ::
  "operation_status \<Rightarrow> operation_completion \<Rightarrow> gtime \<Rightarrow> operation_result" where
  "operation_result_of op completion finished_at =
     \<lparr>or_operation_id = os_operation_id op, or_kind = os_kind op,
      or_generation = os_generation op, or_phase = os_phase op,
      or_started_at = os_started_at op, or_finished_at = finished_at,
      or_succeeded = (oc_err completion = None),
      or_error_code =
        (case oc_err completion of None \<Rightarrow> []
         | Some e \<Rightarrow> if error_code (Some e) = [] then hs_last_code (oc_health completion)
                     else error_code (Some e)),
      or_error_message = (case oc_err completion of None \<Rightarrow> [] | Some e \<Rightarrow> error_msg e),
      or_reset_report = oc_reset_report completion\<rparr>"

definition finish_log_event ::
  "operation_status \<Rightarrow> operation_completion \<Rightarrow> operation_status option \<Rightarrow> orchestrator \<Rightarrow> gtime
     \<Rightarrow> operation_log_event" where
  "finish_log_event op completion active orch now =
     (let step0 = operation_step_from_report (hs_stage_report (o_health orch));
          step = (case active of
              Some a \<Rightarrow>
                if ost_name step0 = [] \<and> os_operation_id a = os_operation_id op
                then \<lparr>ost_name = os_step a, ost_status = os_step_status a,
                      ost_code = os_step_code a, ost_detail = os_step_detail a\<rparr>
                else step0
            | None \<Rightarrow> step0);
          code = error_code (oc_err completion)
      in \<lparr>le_operation_id = os_operation_id op, le_kind = os_kind op,
          le_generation = os_generation op, le_phase = ap_phase (o_applied orch),
          le_step = ost_name step, le_step_status = ost_status step,
          le_step_detail = ost_detail step,
          le_result = (if oc_err completion \<noteq> None then ''failed'' else ''ok''),
          le_error_code = (if oc_err completion \<noteq> None \<and> code = []
                           then hs_last_code (oc_health completion) else code),
          le_error_message = (case oc_err completion of None \<Rightarrow> [] | Some e \<Rightarrow> error_msg e),
          le_runtime_ms = millis (time_sub now (os_started_at op)),
          le_stuck = (0 < o_watchdog_after orch \<and>
                      o_watchdog_after orch < time_sub now (os_started_at op))\<rparr>)"

definition finish_health :: "operation_completion \<Rightarrow> gtime \<Rightarrow> health_snapshot \<Rightarrow> health_snapshot" where
  "finish_health completion now old =
     (let h = oc_health completion;
          h1 = (if \<not> time_is_zero (hs_checked_at h) \<or> hs_last_error h \<noteq> [] \<or> hs_last_code h \<noteq> []
                then h else old)
      in case oc_err completion of
           Some e \<Rightarrow> if time_is_zero (hs_checked_at h) then health_from_error e now else h1
         | None \<Rightarrow> h1)"

definition finish_operation_locked ::
  "operation_status \<Rightarrow> operation_completion \<Rightarrow> gtime \<Rightarrow> orchestrator \<Rightarrow> orchestrator" where
  "finish_operation_locked op completion now orch =
     (let orch1 = orch
            \<lparr>o_health := finish_health completion now (o_health orch),
             o_applied := (if ap_phase (oc_applied completion) \<noteq> PhaseNone
                           then oc_applied completion else o_applied orch),
             o_last := Some (operation_result_of op completion now)\<rparr>;
          active = o_active orch;
          orch2 = (case active of
              Some a \<Rightarrow> if os_operation_id a = os_operation_id op
                        then orch1\<lparr>o_active := None\<rparr> else orch1
            | None \<Rightarrow> orch1)
      in log_locked (finish_log_event op completion active orch2 now) orch2)"

text \<open>The deferred function of \<^verbatim>\<open>runSubmittedOperation\<close>: normal return and recovered panic.\<close>

definition finish_submitted ::
  "operation_status \<Rightarrow> operation_completion \<Rightarrow> gtime \<Rightarrow> orchestrator \<Rightarrow> orchestrator" where
  "finish_submitted op completion now orch =
     (let orch1 = finish_operation_locked op completion now orch
      in notify_observer (status_locked_without_stuck_log orch1 now) orch1)"

definition panic_completion ::
  "operation_status \<Rightarrow> string \<Rightarrow> gtime \<Rightarrow> orchestrator \<Rightarrow> operation_completion" where
  "panic_completion op recovered now orch =
     \<lparr>oc_err = Some (ErrorString recovered),
      oc_health = empty_health\<lparr>hs_last_code := ''PANIC'', hs_last_error := recovered,
                               hs_checked_at := now\<rparr>,
      oc_applied = empty_applied\<lparr>ap_backend_kind := applied_backend_kind orch,
        ap_phase := PhaseFailed,
        ap_active_profile_id := ap_active_profile_id (o_applied orch),
        ap_started_at := ap_started_at (o_applied orch), ap_generation := os_generation op\<rparr>,
      oc_reset_report = None\<rparr>"

definition finish_panicked ::
  "operation_status \<Rightarrow> string \<Rightarrow> gtime \<Rightarrow> orchestrator \<Rightarrow> orchestrator" where
  "finish_panicked op recovered now orch =
     finish_submitted op (panic_completion op recovered now orch) now orch"

section \<open>Methods that release the mutex around a backend call\<close>

text \<open>
  \<^verbatim>\<open>RefreshHealth\<close>: either it returns at once (another refresh is running, or no backend is
  registered), giving \<^verbatim>\<open>Some\<close> health, or it holds the refresh lock and calls the backend.
\<close>

definition refresh_health_begin ::
  "gtime \<Rightarrow> orchestrator \<Rightarrow> health_snapshot option \<times> orchestrator" where
  "refresh_health_begin now orch =
     (if o_health_refresh_locked orch then (Some (o_health orch), orch)
      else (case backend_for_locked orch (applied_backend_kind orch) of
              Inl e \<Rightarrow>
                (let orch1 = orch\<lparr>o_health := error_only_health e now\<rparr>
                 in (Some (o_health orch1),
                     notify_observer (status_locked_without_stuck_log orch1 now) orch1))
            | Inr b \<Rightarrow> (None, orch\<lparr>o_health_refresh_locked := True\<rparr>)))"

definition refresh_health_end :: "health_snapshot \<Rightarrow> gtime \<Rightarrow> orchestrator \<Rightarrow> orchestrator" where
  "refresh_health_end health now orch =
     (let orch1 = orch\<lparr>o_health := health\<rparr>;
          orch2 = (if o_active orch1 = None \<and> ap_phase (o_applied orch1) \<noteq> PhaseStopped
                   then orch1\<lparr>o_applied := (o_applied orch1)
                          \<lparr>ap_phase := phase_from_health health (ap_phase (o_applied orch1))\<rparr>\<rparr>
                   else orch1);
          orch3 = orch2\<lparr>o_health_refresh_locked := False\<rparr>
      in notify_observer (status_locked_without_stuck_log orch3 now) orch3)"

definition refresh_active_progress_begin ::
  "gtime \<Rightarrow> orchestrator \<Rightarrow> status option \<times> orchestrator" where
  "refresh_active_progress_begin now orch =
     (if o_active orch = None
      then (let (s, orch1) = status_locked orch now in (Some s, orch1))
      else (case backend_for_locked orch (applied_backend_kind orch) of
              Inl e \<Rightarrow>
                (let (s, orch1) = status_locked (orch\<lparr>o_health := error_only_health e now\<rparr>) now
                 in (Some s, orch1))
            | Inr b \<Rightarrow> (None, orch)))"

definition refresh_active_progress_end ::
  "health_snapshot \<Rightarrow> gtime \<Rightarrow> orchestrator \<Rightarrow> status \<times> orchestrator" where
  "refresh_active_progress_end health now orch =
     (let orch1 = (if o_active orch \<noteq> None \<and> operation_health_has_progress health
                   then orch\<lparr>o_health := merge_operation_progress (o_health orch) health\<rparr>
                   else orch)
      in status_locked orch1 now)"

text \<open>\<^verbatim>\<open>TestNodes\<close> passes the desired state it read to the backend's \<^verbatim>\<open>TestNodes\<close>.\<close>

definition orch_test_nodes ::
  "(desired_state \<Rightarrow> go_error option \<times> node_probe_result list) \<Rightarrow> orchestrator
     \<Rightarrow> go_error option \<times> node_probe_result list" where
  "orch_test_nodes backend_test orch =
     (case backend_for_locked orch (ds_backend_kind (o_desired orch)) of
        Inl e \<Rightarrow> (Some e, [])
      | Inr b \<Rightarrow> backend_test (o_desired orch))"

end
