(* ===== verification/OrchestratorSteps.thy ===== *)
theory OrchestratorSteps
  imports OperationRun
begin

text \<open>
  The orchestrator as a concurrent system.  Its methods may be called by any goroutine at any
  time, and each accepted operation runs in a goroutine of its own, so the system is a step
  relation whose steps are the critical sections of \<^verbatim>\<open>orchestrator.go\<close>, in any order.  The
  state adds to the orchestrator the goroutines in flight: those still in their backend call,
  those that have a completion and wait for the mutex, the health refreshes that hold the
  refresh lock, and the progress refreshes under way.  Two history variables, which no step
  reads, list the operations accepted and the results recorded so far.

  The interface of a single-flight coordinator is the locale \<open>single_flight\<close>; the orchestrator
  is an instance of it, and the invariants below rest on its facts.
\<close>

section \<open>The single-flight interface\<close>

text \<open>The running operations agree with the busy slot: none, or exactly the one it names.\<close>

definition in_flight :: "('op \<Rightarrow> 'k) \<Rightarrow> 'k option \<Rightarrow> 'op list \<Rightarrow> bool" where
  "in_flight key slot ops \<longleftrightarrow>
     (case slot of None \<Rightarrow> ops = [] | Some k \<Rightarrow> (\<exists>p. ops = [p] \<and> key p = k))"

lemma in_flight_None [simp]: "in_flight key None ops \<longleftrightarrow> ops = []"
  by (simp add: in_flight_def)

lemma in_flight_Some: "in_flight key (Some k) ops \<longleftrightarrow> (\<exists>p. ops = [p] \<and> key p = k)"
  by (simp add: in_flight_def)

lemma in_flight_length: "in_flight key slot ops \<Longrightarrow> length ops \<le> 1"
  by (auto simp: in_flight_def split: option.splits)

lemma in_flight_mem: "in_flight key slot ops \<Longrightarrow> p \<in> set ops \<Longrightarrow> slot = Some (key p) \<and> ops = [p]"
  by (auto simp: in_flight_def split: option.splits)

locale single_flight =
  fixes slot :: "'s \<Rightarrow> 'k option"
    and key :: "'op \<Rightarrow> 'k"
    and submit :: "'c \<Rightarrow> 's \<Rightarrow> 'op option \<times> 's"
    and finish :: "'op \<Rightarrow> 'r \<Rightarrow> 's \<Rightarrow> 's"
  assumes submit_busy: "slot s \<noteq> None \<Longrightarrow> fst (submit c s) = None"
    and submit_slot: "slot (snd (submit c s)) =
          (case fst (submit c s) of None \<Rightarrow> slot s | Some p \<Rightarrow> Some (key p))"
    and finish_own: "slot s = Some (key p) \<Longrightarrow> slot (finish p r s) = None"
    and finish_other: "slot s \<noteq> Some (key p) \<Longrightarrow> slot (finish p r s) = slot s"
begin

lemma in_flight_submit:
  "in_flight key (slot s) ops \<Longrightarrow>
   in_flight key (slot (snd (submit c s)))
     (ops @ (case fst (submit c s) of None \<Rightarrow> [] | Some p \<Rightarrow> [p]))"
  using submit_busy [of s c]
  by (cases "fst (submit c s)"; cases "slot s")
     (auto simp: submit_slot in_flight_Some)

lemma in_flight_finish:
  "in_flight key (slot s) ops \<Longrightarrow> p \<in> set ops \<Longrightarrow>
   slot (finish p r s) = None \<and> in_flight key (slot (finish p r s)) (remove1 p ops)"
  by (auto dest!: in_flight_mem simp: finish_own)

lemma accepted_when_idle: "fst (submit c s) = Some p \<Longrightarrow> slot s = None"
  using submit_busy [of s c] by (cases "slot s") auto

end

section \<open>What each method does to the fields it does not own\<close>

lemma log_locked_fields [simp]:
  "o_active (log_locked e orch) = o_active orch"
  "o_applied (log_locked e orch) = o_applied orch"
  "o_desired (log_locked e orch) = o_desired orch"
  "o_health (log_locked e orch) = o_health orch"
  "o_last (log_locked e orch) = o_last orch"
  "o_op_seq (log_locked e orch) = o_op_seq orch"
  "o_backends (log_locked e orch) = o_backends orch"
  "o_health_refresh_locked (log_locked e orch) = o_health_refresh_locked orch"
  by (simp_all add: log_locked_def)

lemma notify_observer_fields [simp]:
  "o_active (notify_observer e orch) = o_active orch"
  "o_applied (notify_observer e orch) = o_applied orch"
  "o_desired (notify_observer e orch) = o_desired orch"
  "o_health (notify_observer e orch) = o_health orch"
  "o_last (notify_observer e orch) = o_last orch"
  "o_op_seq (notify_observer e orch) = o_op_seq orch"
  "o_backends (notify_observer e orch) = o_backends orch"
  "o_health_refresh_locked (notify_observer e orch) = o_health_refresh_locked orch"
  by (simp_all add: notify_observer_def)

lemma status_locked_fields [simp]:
  "o_active (snd (status_locked_with_stuck_log b orch now)) = o_active orch"
  "o_applied (snd (status_locked_with_stuck_log b orch now)) = o_applied orch"
  "o_desired (snd (status_locked_with_stuck_log b orch now)) = o_desired orch"
  "o_health (snd (status_locked_with_stuck_log b orch now)) = o_health orch"
  "o_last (snd (status_locked_with_stuck_log b orch now)) = o_last orch"
  "o_op_seq (snd (status_locked_with_stuck_log b orch now)) = o_op_seq orch"
  "o_backends (snd (status_locked_with_stuck_log b orch now)) = o_backends orch"
  "o_health_refresh_locked (snd (status_locked_with_stuck_log b orch now)) =
     o_health_refresh_locked orch"
  by (simp_all add: status_locked_with_stuck_log_def Let_def split: option.splits)

lemma clone_active_None [simp]:
  "clone_active_operation_locked orch now = None \<longleftrightarrow> o_active orch = None"
  by (simp add: clone_active_operation_locked_def Let_def split: option.splits)

lemma clone_active_identity:
  "clone_active_operation_locked orch now = Some op' \<Longrightarrow>
   \<exists>op. o_active orch = Some op \<and> os_operation_id op' = os_operation_id op \<and>
        os_kind op' = os_kind op \<and> os_generation op' = os_generation op \<and>
        os_started_at op' = os_started_at op \<and> os_phase op' = os_phase op"
  by (auto simp: clone_active_operation_locked_def Let_def split: option.splits if_splits)

lemma busy_locked_None [simp]: "busy_locked orch now = None \<longleftrightarrow> o_active orch = None"
  using clone_active_None [of orch now] unfolding busy_locked_def
  by (auto simp del: clone_active_None split: option.splits)

lemma busy_locked_idle [simp]: "o_active orch = None \<Longrightarrow> busy_locked orch now = None"
  by simp

lemma reject_spawns_nothing:
  "reject err now orch = ((s, e, p), orch') \<Longrightarrow>
     e = err \<and> p = None \<and> o_active orch' = o_active orch \<and> o_applied orch' = o_applied orch \<and>
     o_desired orch' = o_desired orch \<and> o_health orch' = o_health orch \<and>
     o_last orch' = o_last orch \<and> o_op_seq orch' = o_op_seq orch \<and>
     o_backends orch' = o_backends orch \<and>
     o_health_refresh_locked orch' = o_health_refresh_locked orch"
  by (auto simp: reject_def status_locked_def split_def Let_def)

lemma reject_with_health_spawns_nothing:
  "reject_with_health err now orch = ((s, e, p), orch') \<Longrightarrow>
     e = Some err \<and> p = None \<and> o_active orch' = o_active orch \<and>
     o_applied orch' = o_applied orch \<and>
     o_desired orch' = o_desired orch \<and> o_health orch' = error_only_health err now \<and>
     o_last orch' = o_last orch \<and> o_op_seq orch' = o_op_seq orch \<and>
     o_backends orch' = o_backends orch \<and>
     o_health_refresh_locked orch' = o_health_refresh_locked orch"
  unfolding reject_with_health_def by (drule reject_spawns_nothing) simp

lemma submit_locked_spawns:
  "submit_locked kind phase configure run now orch = ((s, e, p), orch') \<Longrightarrow>
     \<exists>op. begin_operation_locked kind phase now orch = (op, orch\<lparr>o_op_seq := o_op_seq orch + 1,
            o_active := Some op, o_active_stuck_logged := False\<rparr>) \<and>
        p = Some (op, run) \<and> e = None \<and> o_active orch' = Some op \<and>
        o_applied orch' = configure op (o_applied orch) \<and> o_op_seq orch' = o_op_seq orch + 1 \<and>
        os_operation_id op = nat_str (unat (o_op_seq orch + 1)) \<and> os_kind op = kind \<and>
        os_phase op = phase \<and> os_started_at op = now \<and>
        os_generation op = next_generation_locked orch \<and>
        o_desired orch' = o_desired orch \<and> o_health orch' = o_health orch \<and>
        o_last orch' = o_last orch \<and> o_backends orch' = o_backends orch \<and>
        o_health_refresh_locked orch' = o_health_refresh_locked orch"
  by (auto simp: submit_locked_def begin_operation_locked_def Let_def)

section \<open>The submitting methods as one family\<close>

datatype submit_call =
    CallStart
  | CallRestart
  | CallStop
  | CallReset
  | CallNetworkChange
  | CallRun operation_kind phase

fun submit_via :: "submit_call \<Rightarrow> gtime \<Rightarrow> orchestrator \<Rightarrow> submit_result \<times> orchestrator" where
  "submit_via CallStart = orch_start"
| "submit_via CallRestart = orch_restart"
| "submit_via CallStop = orch_stop"
| "submit_via CallReset = orch_reset"
| "submit_via CallNetworkChange = orch_handle_network_change"
| "submit_via (CallRun kind phase) = orch_run_operation kind phase"

lemmas submit_methods = orch_start_def orch_restart_def orch_stop_def orch_reset_def
  orch_handle_network_change_def orch_run_operation_def

lemma submit_via_busy:
  assumes "o_active orch \<noteq> None"
  shows "submit_via call now orch = reject (busy_locked orch now) now orch"
  using assms busy_locked_None [of orch now]
  by (cases call) (auto simp: submit_methods split: option.splits)

text \<open>The shapes of an accepted operation.\<close>

fun accepted_closure :: "submit_call \<Rightarrow> orchestrator \<Rightarrow> run_closure" where
  "accepted_closure CallStart orch = RunStart (o_desired orch)"
| "accepted_closure CallRestart orch = RunRestart (o_desired orch)"
| "accepted_closure CallStop orch = RunStop (applied_backend_kind orch) (o_applied orch)"
| "accepted_closure CallReset orch =
     RunReset (applied_backend_kind orch) (o_applied orch) (o_desired orch)"
| "accepted_closure CallNetworkChange orch = RunNetworkChange (o_applied orch)"
| "accepted_closure (CallRun kind phase) orch = RunCustom kind (o_applied orch)"

fun accepted_phase :: "submit_call \<Rightarrow> phase" where
  "accepted_phase CallStart = PhaseStarting"
| "accepted_phase CallRestart = PhaseStarting"
| "accepted_phase CallStop = PhaseStopping"
| "accepted_phase CallReset = PhaseResetting"
| "accepted_phase CallNetworkChange = PhaseStarting"
| "accepted_phase (CallRun kind phase) = (if phase = PhaseNone then PhaseApplying else phase)"

lemma accepted_phase_ne [simp]:
  "accepted_phase call \<noteq> PhaseNone" "PhaseNone \<noteq> accepted_phase call"
  by (cases call; auto)+

text \<open>What a rejected and what an accepted submission leave behind.\<close>

definition rejected :: "orchestrator \<Rightarrow> pending option \<Rightarrow> orchestrator \<Rightarrow> bool" where
  "rejected orch p orch' \<longleftrightarrow>
     p = None \<and> o_active orch' = o_active orch \<and> o_applied orch' = o_applied orch \<and>
     o_desired orch' = o_desired orch \<and> o_last orch' = o_last orch \<and>
     o_op_seq orch' = o_op_seq orch \<and>
     o_health_refresh_locked orch' = o_health_refresh_locked orch"

definition accepted ::
  "submit_call \<Rightarrow> orchestrator \<Rightarrow> go_error option \<Rightarrow> pending option \<Rightarrow> orchestrator \<Rightarrow> bool" where
  "accepted call orch e p orch' \<longleftrightarrow>
     (\<exists>op. o_active orch = None \<and> e = None \<and> p = Some (op, accepted_closure call orch) \<and>
        o_active orch' = Some op \<and> o_op_seq orch' = o_op_seq orch + 1 \<and>
        os_operation_id op = nat_str (unat (o_op_seq orch + 1)) \<and>
        os_generation op = next_generation_locked orch \<and> os_phase op = accepted_phase call \<and>
        ap_generation (o_applied orch') = os_generation op \<and>
        ap_phase (o_applied orch') = accepted_phase call \<and>
        o_desired orch' = o_desired orch \<and> o_health orch' = o_health orch \<and>
        o_last orch' = o_last orch \<and>
        o_health_refresh_locked orch' = o_health_refresh_locked orch)"

lemma reject_rejects: "reject err now orch = ((s, e, p), orch') \<Longrightarrow> rejected orch p orch'"
  by (drule reject_spawns_nothing) (simp add: rejected_def)

lemma reject_with_health_rejects:
  "reject_with_health err now orch = ((s, e, p), orch') \<Longrightarrow> rejected orch p orch'"
  by (drule reject_with_health_spawns_nothing) (simp add: rejected_def)

lemma submit_locked_accepts:
  assumes "submit_locked kind (accepted_phase call) conf (accepted_closure call orch) now orch =
             ((s, e, p), orch')"
    and "o_active orch = None"
    and "\<And>op old. ap_generation (conf op old) = os_generation op \<and>
                  ap_phase (conf op old) = accepted_phase call"
  shows "accepted call orch e p orch'"
  using submit_locked_spawns [OF assms(1)] assms(2,3) unfolding accepted_def by auto

lemma launch_configure_fields [simp]:
  "ap_generation (launch_configure desired op old) = os_generation op"
  "ap_phase (launch_configure desired op old) = PhaseStarting"
  by (simp_all add: launch_configure_def)

lemma keep_configure_fields [simp]:
  "ap_generation (keep_configure phase op old) = os_generation op"
  "ap_phase (keep_configure phase op old) = phase"
  by (simp_all add: keep_configure_def)

lemma submit_via_cases:
  assumes "submit_via call now orch = ((s, e, p), orch')"
  shows "rejected orch p orch' \<or> accepted call orch e p orch'"
proof (cases "o_active orch = None")
  case False
  with assms show ?thesis
    by (auto dest!: reject_rejects simp: submit_via_busy)
next
  case idle: True
  then have [simp]: "busy_locked orch now = None"
    by simp
  note accept = submit_locked_accepts [OF _ idle]
  show ?thesis
  proof (cases call)
    case CallStart
    with assms show ?thesis
      by (cases "backend_for_locked orch (ds_backend_kind (o_desired orch))")
         (auto simp: orch_start_def Let_def reject_with_health_rejects
               intro: accept [where call = CallStart, simplified] split: if_splits)
  next
    case CallRestart
    with assms show ?thesis
      by (cases "backend_for_locked orch (ds_backend_kind (o_desired orch))")
         (auto simp: orch_restart_def Let_def reject_with_health_rejects
               intro: accept [where call = CallRestart, simplified] split: if_splits)
  next
    case CallStop
    with assms show ?thesis
      by (cases "backend_for_locked orch (applied_backend_kind orch)")
         (auto simp: orch_stop_def Let_def reject_with_health_rejects
               intro: accept [where call = CallStop, simplified])
  next
    case CallReset
    with assms show ?thesis
      by (cases "backend_for_locked orch (applied_backend_kind orch)")
         (auto simp: orch_reset_def Let_def reject_with_health_rejects
               intro: accept [where call = CallReset, simplified])
  next
    case CallNetworkChange
    with assms show ?thesis
      by (cases "backend_for_locked orch (ap_backend_kind (o_applied orch))")
         (auto simp: orch_handle_network_change_def reject_rejects
                     reject_with_health_rejects
               intro: accept [where call = CallNetworkChange, simplified] split: if_splits)
  next
    case (CallRun kind phase)
    with assms have "submit_locked kind (accepted_phase call) (keep_configure (accepted_phase call))
        (accepted_closure call orch) now orch = ((s, e, p), orch')"
      by (simp add: orch_run_operation_def Let_def split: if_splits)
    from accept [OF this] show ?thesis by simp
  qed
qed

lemma finish_submitted_fields:
  "o_applied (finish_submitted op c now orch) =
     (if ap_phase (oc_applied c) \<noteq> PhaseNone then oc_applied c else o_applied orch)"
  "o_active (finish_submitted op c now orch) =
     (case o_active orch of None \<Rightarrow> None
      | Some a \<Rightarrow> if os_operation_id a = os_operation_id op then None else Some a)"
  "o_last (finish_submitted op c now orch) = Some (operation_result_of op c now)"
  "o_op_seq (finish_submitted op c now orch) = o_op_seq orch"
  "o_desired (finish_submitted op c now orch) = o_desired orch"
  "o_health (finish_submitted op c now orch) = finish_health c now (o_health orch)"
  "o_health_refresh_locked (finish_submitted op c now orch) = o_health_refresh_locked orch"
  by (simp_all add: finish_submitted_def finish_operation_locked_def Let_def split: option.splits)

text \<open>The orchestrator is a single-flight coordinator; an operation's key is its id.\<close>

definition orch_slot :: "orchestrator \<Rightarrow> string option" where
  "orch_slot orch = map_option os_operation_id (o_active orch)"

definition pending_key :: "pending \<Rightarrow> string" where
  "pending_key p = os_operation_id (fst p)"

definition orch_submit :: "submit_call \<times> gtime \<Rightarrow> orchestrator \<Rightarrow> pending option \<times> orchestrator" where
  "orch_submit c orch =
     (let ((s, e, p), orch') = submit_via (fst c) (snd c) orch in (p, orch'))"

definition orch_finish :: "pending \<Rightarrow> operation_completion \<times> gtime \<Rightarrow> orchestrator \<Rightarrow> orchestrator" where
  "orch_finish p r orch = finish_submitted (fst p) (fst r) (snd r) orch"

lemma orch_slot_None [simp]: "orch_slot orch = None \<longleftrightarrow> o_active orch = None"
  by (simp add: orch_slot_def)

lemma orch_submit_cases:
  assumes "orch_submit c orch = (p, orch')"
  obtains s e where "submit_via (fst c) (snd c) orch = ((s, e, p), orch')"
  using assms by (auto simp: orch_submit_def split: prod.splits)

interpretation sf: single_flight orch_slot pending_key orch_submit orch_finish
proof (unfold_locales, goal_cases)
  case (1 orch c)
  then show ?case by (auto simp: orch_submit_def submit_via_busy reject_def split: prod.splits)
next
  case (2 c orch)
  obtain p orch' where sub: "orch_submit c orch = (p, orch')" by fastforce
  then obtain s e where "submit_via (fst c) (snd c) orch = ((s, e, p), orch')"
    by (rule orch_submit_cases)
  from submit_via_cases [OF this] sub show ?case
    by (auto simp: rejected_def accepted_def orch_slot_def pending_key_def)
next
  case (3 orch p r)
  then show ?case by (auto simp: orch_slot_def pending_key_def orch_finish_def finish_submitted_fields)
next
  case (4 orch p r)
  then show ?case
    by (auto simp: orch_slot_def pending_key_def orch_finish_def finish_submitted_fields
             split: option.splits)
qed

section \<open>The system and its steps\<close>

record sys =
  y_orch :: orchestrator
  y_running :: "pending list"
  y_done :: "(pending \<times> operation_completion) list"
  y_refreshing :: nat
  y_progressing :: nat
  y_accepted :: "operation_status list"
  y_finished :: "operation_result list"

definition sys_init :: "orchestrator \<Rightarrow> sys" where
  "sys_init orch = \<lparr>y_orch = orch, y_running = [], y_done = [], y_refreshing = 0, y_progressing = 0,
     y_accepted = [], y_finished = []\<rparr>"

definition spawned :: "pending option \<Rightarrow> pending list" where
  "spawned p = (case p of None \<Rightarrow> [] | Some q \<Rightarrow> [q])"

text \<open>
  One step is one critical section.  \<open>Return\<close> and \<open>Finish\<close> are the end of the backend call
  (with the mutex acquisition of \<^verbatim>\<open>RunOperation\<close>'s closure) and the deferred function;
  \<open>Panic\<close> is the deferred function after a panic.
\<close>

inductive orch_step :: "sys \<Rightarrow> sys \<Rightarrow> bool" where
  Submit: "submit_via call now (y_orch s) = ((st, e, p), orch') \<Longrightarrow>
     orch_step s (s\<lparr>y_orch := orch', y_running := y_running s @ spawned p,
       y_accepted := y_accepted s @ map fst (spawned p)\<rparr>)"
| Return: "p \<in> set (y_running s) \<Longrightarrow>
     orch_step s (s\<lparr>y_running := remove1 p (y_running s),
       y_done := y_done s @ [(p, run_completion (snd p) (fst p) ans (y_orch s))]\<rparr>)"
| Finish: "(p, c) \<in> set (y_done s) \<Longrightarrow>
     orch_step s (s\<lparr>y_orch := finish_submitted (fst p) c now (y_orch s),
       y_done := remove1 (p, c) (y_done s),
       y_finished := y_finished s @ [operation_result_of (fst p) c now]\<rparr>)"
| Panic: "p \<in> set (y_running s) \<Longrightarrow>
     orch_step s (s\<lparr>y_orch := finish_panicked (fst p) msg now (y_orch s),
       y_running := remove1 p (y_running s),
       y_finished := y_finished s @
         [operation_result_of (fst p) (panic_completion (fst p) msg now (y_orch s)) now]\<rparr>)"
| SetStep: "set_active_operation_step gen name status code detail now (y_orch s) = (b, orch') \<Longrightarrow>
     orch_step s (s\<lparr>y_orch := orch'\<rparr>)"
| ApplyDesired: "apply_desired_state desired now (y_orch s) = (e, orch') \<Longrightarrow>
     orch_step s (s\<lparr>y_orch := orch'\<rparr>)"
| SetCompatibility: "orch_step s (s\<lparr>y_orch := orch_set_compatibility c now (y_orch s)\<rparr>)"
| SetWatchdog: "orch_step s (s\<lparr>y_orch := set_operation_watchdog after (y_orch s)\<rparr>)"
| SetLogger: "orch_step s (s\<lparr>y_orch := set_operation_logger present (y_orch s)\<rparr>)"
| SetObserver: "orch_step s (s\<lparr>y_orch := set_status_observer present (y_orch s)\<rparr>)"
| Status: "orch_status now (y_orch s) = (st, orch') \<Longrightarrow> orch_step s (s\<lparr>y_orch := orch'\<rparr>)"
| RefreshBegin: "refresh_health_begin now (y_orch s) = (answer, orch') \<Longrightarrow>
     orch_step s (s\<lparr>y_orch := orch',
       y_refreshing := y_refreshing s + (if answer = None then 1 else 0)\<rparr>)"
| RefreshEnd: "0 < y_refreshing s \<Longrightarrow>
     orch_step s (s\<lparr>y_orch := refresh_health_end health now (y_orch s),
       y_refreshing := y_refreshing s - 1\<rparr>)"
| ProgressBegin: "refresh_active_progress_begin now (y_orch s) = (answer, orch') \<Longrightarrow>
     orch_step s (s\<lparr>y_orch := orch',
       y_progressing := y_progressing s + (if answer = None then 1 else 0)\<rparr>)"
| ProgressEnd: "0 < y_progressing s \<Longrightarrow>
     refresh_active_progress_end health now (y_orch s) = (st, orch') \<Longrightarrow>
     orch_step s (s\<lparr>y_orch := orch', y_progressing := y_progressing s - 1\<rparr>)"

text \<open>What the process can reach from a fresh orchestrator.\<close>

inductive reachable ::
  "desired_state \<Rightarrow> (backend_kind \<times> bool \<times> string) list \<Rightarrow> sys \<Rightarrow> bool"
  for desired :: desired_state and backends :: "(backend_kind \<times> bool \<times> string) list" where
  reach_init: "reachable desired backends (sys_init (new_orchestrator desired backends))"
| reach_step: "reachable desired backends s \<Longrightarrow> orch_step s s' \<Longrightarrow> reachable desired backends s'"

definition sys_ops :: "sys \<Rightarrow> pending list" where
  "sys_ops s = y_running s @ map fst (y_done s)"

section \<open>Invariants\<close>

text \<open>The applied state captured by a closure has a phase.\<close>

fun closure_phase_set :: "run_closure \<Rightarrow> bool" where
  "closure_phase_set (RunStop kind active) = (ap_phase active \<noteq> PhaseNone)"
| "closure_phase_set (RunReset kind active desired) = (ap_phase active \<noteq> PhaseNone)"
| "closure_phase_set (RunNetworkChange active) = (ap_phase active \<noteq> PhaseNone)"
| "closure_phase_set (RunCustom kind active) = (ap_phase active \<noteq> PhaseNone)"
| "closure_phase_set _ = True"

definition completion_ok :: "pending \<times> operation_completion \<Rightarrow> bool" where
  "completion_ok d \<longleftrightarrow>
     ap_generation (oc_applied (snd d)) = os_generation (fst (fst d)) \<and>
     ap_phase (oc_applied (snd d)) \<noteq> PhaseNone"

definition op_matches :: "operation_status \<Rightarrow> orchestrator \<Rightarrow> bool" where
  "op_matches op orch \<longleftrightarrow>
     os_generation op = ap_generation (o_applied orch) \<and>
     os_operation_id op = nat_str (unat (o_op_seq orch))"

definition sys_inv :: "sys \<Rightarrow> bool" where
  "sys_inv s \<longleftrightarrow>
     in_flight pending_key (orch_slot (y_orch s)) (sys_ops s) \<and>
     (\<forall>p \<in> set (sys_ops s). op_matches (fst p) (y_orch s) \<and> closure_phase_set (snd p)) \<and>
     (\<forall>op. o_active (y_orch s) = Some op \<longrightarrow> os_generation op = ap_generation (o_applied (y_orch s))) \<and>
     (\<forall>d \<in> set (y_done s). completion_ok d) \<and>
     ap_phase (o_applied (y_orch s)) \<noteq> PhaseNone"

text \<open>The results recorded so far are those of the accepted operations, in order, but the one running.\<close>

definition history_inv :: "sys \<Rightarrow> bool" where
  "history_inv s \<longleftrightarrow>
     map (\<lambda>op. (os_operation_id op, os_generation op)) (y_accepted s) =
       map (\<lambda>r. (or_operation_id r, or_generation r)) (y_finished s) @
       map (\<lambda>p. (os_operation_id (fst p), os_generation (fst p))) (sys_ops s) \<and>
     o_last (y_orch s) = (if y_finished s = [] then None else Some (last (y_finished s)))"

text \<open>Numbering: before the counters wrap, operation \<open>n\<close> has id and generation \<open>n\<close>.\<close>

definition numbering_inv :: "sys \<Rightarrow> bool" where
  "numbering_inv s \<longleftrightarrow>
     o_op_seq (y_orch s) = of_nat (length (y_accepted s)) \<and>
     (length (y_accepted s) < 2 ^ 63 \<longrightarrow>
        ap_generation (o_applied (y_orch s)) = of_nat (length (y_accepted s)) \<and>
        map os_operation_id (y_accepted s) = map nat_str [1..<Suc (length (y_accepted s))] \<and>
        map os_generation (y_accepted s) = map of_nat [1..<Suc (length (y_accepted s))])"

definition refresh_inv :: "sys \<Rightarrow> bool" where
  "refresh_inv s \<longleftrightarrow> y_refreshing s = (if o_health_refresh_locked (y_orch s) then 1 else 0)"

text \<open>Steps that neither start nor end an operation.\<close>

definition same_flight :: "orchestrator \<Rightarrow> orchestrator \<Rightarrow> bool" where
  "same_flight orch orch' \<longleftrightarrow>
     map_option (\<lambda>op. (os_operation_id op, os_generation op)) (o_active orch') =
       map_option (\<lambda>op. (os_operation_id op, os_generation op)) (o_active orch) \<and>
     o_op_seq orch' = o_op_seq orch \<and> o_last orch' = o_last orch \<and>
     ap_generation (o_applied orch') = ap_generation (o_applied orch) \<and>
     (ap_phase (o_applied orch) \<noteq> PhaseNone \<longrightarrow> ap_phase (o_applied orch') \<noteq> PhaseNone)"

lemma same_flightI [inv_intros]:
  "o_active orch' = o_active orch \<Longrightarrow> o_op_seq orch' = o_op_seq orch \<Longrightarrow>
   o_last orch' = o_last orch \<Longrightarrow> o_applied orch' = o_applied orch \<Longrightarrow> same_flight orch orch'"
  by (simp add: same_flight_def)

lemma same_flight_slot: "same_flight orch orch' \<Longrightarrow> orch_slot orch' = orch_slot orch"
  by (cases "o_active orch"; cases "o_active orch'") (auto simp: same_flight_def orch_slot_def)

lemma same_flight_set_step:
  "set_active_operation_step gen name status code detail now orch = (b, orch') \<Longrightarrow>
   same_flight orch orch'"
  by (auto simp: set_active_operation_step_def same_flight_def Let_def split: option.splits if_splits)

lemma same_flight_apply_desired:
  "apply_desired_state desired now orch = (e, orch') \<Longrightarrow> same_flight orch orch'"
  by (auto simp: apply_desired_state_def Let_def split: option.splits intro!: same_flightI)

lemma same_flight_compatibility: "same_flight orch (orch_set_compatibility c now orch)"
  by (auto simp: orch_set_compatibility_def Let_def intro!: same_flightI)

lemma same_flight_setters:
  "same_flight orch (set_operation_watchdog after orch)"
  "same_flight orch (set_operation_logger present orch)"
  "same_flight orch (set_status_observer present orch)"
  by (auto simp: set_operation_watchdog_def set_operation_logger_def set_status_observer_def
           intro!: same_flightI)

lemma same_flight_status: "orch_status now orch = (st, orch') \<Longrightarrow> same_flight orch orch'"
  using status_locked_fields [of True orch now]
  by (auto simp: orch_status_def status_locked_def intro!: same_flightI)

lemma same_flight_refresh_begin:
  "refresh_health_begin now orch = (answer, orch') \<Longrightarrow> same_flight orch orch'"
  by (auto simp: refresh_health_begin_def Let_def split: sum.splits if_splits intro!: same_flightI)

lemma same_flight_refresh_end: "same_flight orch (refresh_health_end health now orch)"
  by (auto simp: refresh_health_end_def same_flight_def Let_def phase_from_health_not_none)

lemma same_flight_progress_begin:
  "refresh_active_progress_begin now orch = (answer, orch') \<Longrightarrow> same_flight orch orch'"
  by (auto simp: refresh_active_progress_begin_def status_locked_def Let_def
           split: sum.splits if_splits prod.splits intro!: same_flightI
           dest!: arg_cong [of "status_locked_with_stuck_log _ _ _" _ snd])

lemma same_flight_progress_end:
  "refresh_active_progress_end health now orch = (st, orch') \<Longrightarrow> same_flight orch orch'"
  by (auto simp: refresh_active_progress_end_def status_locked_def Let_def
           split: prod.splits if_splits intro!: same_flightI
           dest!: arg_cong [of "status_locked_with_stuck_log _ _ _" _ snd])

lemma same_flight_rejected:
  "rejected orch p orch' \<Longrightarrow> same_flight orch orch'"
  by (auto simp: rejected_def intro!: same_flightI)

lemmas same_flight_steps = same_flight_set_step same_flight_apply_desired
  same_flight_compatibility same_flight_setters same_flight_status same_flight_refresh_begin
  same_flight_refresh_end same_flight_progress_begin same_flight_progress_end

text \<open>
  Every step is a start, the end of a backend call, the end of an operation, or keeps the
  flight.
\<close>

lemma orch_step_flight_cases [consumes 1, case_names start return finish keep]:
  assumes "orch_step s s'"
  obtains (start) call op orch' where "accepted call (y_orch s) None (Some (op, accepted_closure call (y_orch s))) orch'"
      "s' = s\<lparr>y_orch := orch', y_running := y_running s @ [(op, accepted_closure call (y_orch s))],
               y_accepted := y_accepted s @ [op]\<rparr>"
  | (return) p ans where "p \<in> set (y_running s)"
      "s' = s\<lparr>y_running := remove1 p (y_running s),
       y_done := y_done s @ [(p, run_completion (snd p) (fst p) ans (y_orch s))]\<rparr>"
  | (finish) p c now where
      "(p, c) \<in> set (y_done s) \<and> y_running s' = y_running s \<and> y_done s' = remove1 (p, c) (y_done s) \<or>
       p \<in> set (y_running s) \<and> y_done s' = y_done s \<and> y_running s' = remove1 p (y_running s) \<and>
         (\<exists>msg. c = panic_completion (fst p) msg now (y_orch s))"
      "y_orch s' = finish_submitted (fst p) c now (y_orch s)" "y_accepted s' = y_accepted s"
      "y_finished s' = y_finished s @ [operation_result_of (fst p) c now]"
  | (keep) "same_flight (y_orch s) (y_orch s')" "y_running s' = y_running s" "y_done s' = y_done s"
      "y_accepted s' = y_accepted s" "y_finished s' = y_finished s"
  using assms
proof cases
  case (Submit call now st e p orch')
  from submit_via_cases [OF Submit(2)] show thesis
  proof
    assume "rejected (y_orch s) p orch'"
    then show thesis using Submit(1) same_flight_rejected
      by (intro keep) (auto simp: rejected_def spawned_def)
  next
    assume "accepted call (y_orch s) e p orch'"
    then show thesis using Submit(1)
      by (auto simp: accepted_def spawned_def intro!: start [of call])
  qed
next
  case (Return p ans)
  then show thesis by (intro return)
next
  case (Finish p c now)
  then show thesis by (intro finish [of p c now]) auto
next
  case (Panic p msg now)
  then show thesis
    by (intro finish [of p "panic_completion (fst p) msg now (y_orch s)" now])
       (auto simp: finish_panicked_def)
qed (rule keep; auto intro: same_flight_steps)+

lemma run_completion_ok:
  assumes "closure_phase_set (snd p)" and "ap_phase (o_applied orch) \<noteq> PhaseNone"
  shows "completion_ok (p, run_completion (snd p) (fst p) ans orch)"
proof (cases "snd p")
  case (RunCustom kind active)
  with assms show ?thesis
    by (auto simp: completion_ok_def custom_completion_def phase_from_health_not_none Let_def
             split: option.splits)
qed (use assms in \<open>auto simp: completion_ok_def launch_completion_def stop_completion_def
       reset_completion_def network_change_completion_def phase_from_health_not_none Let_def
     split: option.splits\<close>)

lemma panic_completion_ok: "completion_ok (p, panic_completion (fst p) msg now orch)"
  by (simp add: completion_ok_def panic_completion_def)

lemma sys_inv_start:
  assumes "sys_inv s" "accepted call (y_orch s) e (Some p) orch'"
  shows "sys_inv (s\<lparr>y_orch := orch', y_running := y_running s @ [p], y_accepted := acc\<rparr>)"
proof -
  from assms have "sys_ops s = []" and idle: "o_active (y_orch s) = None"
    by (auto simp: sys_inv_def accepted_def orch_slot_def)
  then have "y_running s = []" "y_done s = []" by (auto simp: sys_ops_def)
  moreover have "closure_phase_set (accepted_closure call (y_orch s))"
    using assms(1) by (cases call) (auto simp: sys_inv_def)
  ultimately show ?thesis
    using assms(2)
    by (auto simp: sys_inv_def sys_ops_def accepted_def orch_slot_def in_flight_Some pending_key_def
                   op_matches_def)
qed

lemma op_matches_same_flight:
  "same_flight orch orch' \<Longrightarrow> op_matches op orch' = op_matches op orch"
  by (simp add: op_matches_def same_flight_def)

lemma sys_inv_keep:
  assumes "sys_inv s" "same_flight (y_orch s) (y_orch s')"
    "y_running s' = y_running s" "y_done s' = y_done s"
  shows "sys_inv s'"
proof -
  have "o_active (y_orch s') = Some op \<Longrightarrow> os_generation op = ap_generation (o_applied (y_orch s'))"
    for op
    using assms by (cases "o_active (y_orch s)") (auto simp: same_flight_def sys_inv_def)
  moreover have "ap_phase (o_applied (y_orch s')) \<noteq> PhaseNone"
    using assms by (simp add: sys_inv_def same_flight_def)
  ultimately show ?thesis
    using assms by (simp add: sys_inv_def sys_ops_def same_flight_slot op_matches_same_flight)
qed

lemma sys_inv_single:
  assumes "sys_inv s" "p \<in> set (sys_ops s)"
  shows "sys_ops s = [p] \<and> orch_slot (y_orch s) = Some (pending_key p)"
  using assms by (auto simp: sys_inv_def dest: in_flight_mem)

lemma sys_inv_finish:
  assumes inv: "sys_inv s"
    and p: "p \<in> set (sys_ops s)" and c: "completion_ok (p, c)"
    and s': "y_running s' = []" "y_done s' = []"
            "y_orch s' = finish_submitted (fst p) c now (y_orch s)"
  shows "sys_inv s'" and "o_active (y_orch s') = None"
    and "o_applied (y_orch s') = oc_applied c"
    and "o_last (y_orch s') = Some (operation_result_of (fst p) c now)"
    and "o_op_seq (y_orch s') = o_op_seq (y_orch s)"
proof -
  have slot: "orch_slot (y_orch s) = Some (pending_key p)"
    using sys_inv_single [OF inv p] by simp
  then show act: "o_active (y_orch s') = None"
    using s' by (auto simp: finish_submitted_fields orch_slot_def pending_key_def)
  show app: "o_applied (y_orch s') = oc_applied c"
    using c s' by (auto simp: finish_submitted_fields completion_ok_def)
  show "sys_inv s'"
    using act app c s' by (simp add: sys_inv_def sys_ops_def completion_ok_def orch_slot_def)
qed (simp_all add: s' finish_submitted_fields)

text \<open>How a finishing step ends: the lists in flight become empty.\<close>

lemma finish_step_shape:
  assumes inv: "sys_inv s"
    and fin: "(p, c) \<in> set (y_done s) \<and> y_running s' = y_running s \<and>
               y_done s' = remove1 (p, c) (y_done s) \<or>
             p \<in> set (y_running s) \<and> y_done s' = y_done s \<and> y_running s' = remove1 p (y_running s) \<and>
               (\<exists>msg. c = panic_completion (fst p) msg now (y_orch s))"
  shows "p \<in> set (sys_ops s)" "completion_ok (p, c)" "y_running s' = []" "y_done s' = []"
proof -
  show p: "p \<in> set (sys_ops s)" using fin by (force simp: sys_ops_def)
  show "completion_ok (p, c)" using fin inv by (auto simp: sys_inv_def panic_completion_ok)
  have "sys_ops s = [p]" using sys_inv_single [OF inv p] by simp
  then have "y_running s = [p] \<and> y_done s = [] \<or> y_running s = [] \<and> map fst (y_done s) = [p]"
    by (auto simp: sys_ops_def append_eq_Cons_conv)
  then show "y_running s' = []" "y_done s' = []" using fin by auto
qed

lemma sys_inv_step:
  assumes "orch_step s s'" and inv: "sys_inv s"
  shows "sys_inv s'"
  using assms(1)
proof (cases rule: orch_step_flight_cases)
  case (start call op orch')
  with inv show ?thesis by (simp add: sys_inv_start)
next
  case (return p ans)
  have p: "p \<in> set (sys_ops s)" using return by (simp add: sys_ops_def)
  then have "sys_ops s = [p]" using sys_inv_single [OF inv] by blast
  then have "y_running s = [p] \<and> y_done s = []"
    using return by (auto simp: sys_ops_def append_eq_Cons_conv)
  then show ?thesis
    using inv return by (auto simp: sys_inv_def sys_ops_def run_completion_ok)
next
  case (finish p c now)
  note shape = finish_step_shape [OF inv finish(1)]
  show ?thesis by (rule sys_inv_finish [OF inv shape finish(2)])
next
  case keep
  then show ?thesis by (intro sys_inv_keep [OF inv])
qed

lemma new_orchestrator_fields [simp]:
  "o_active (new_orchestrator desired backends) = None"
  "o_op_seq (new_orchestrator desired backends) = 0"
  "o_last (new_orchestrator desired backends) = None"
  "ap_generation (o_applied (new_orchestrator desired backends)) = 0"
  "ap_phase (o_applied (new_orchestrator desired backends)) = PhaseStopped"
  "o_health_refresh_locked (new_orchestrator desired backends) = False"
  by (simp_all add: new_orchestrator_def empty_applied_def)

lemma sys_init_fields [simp]:
  "y_orch (sys_init orch) = orch" "y_running (sys_init orch) = []" "y_done (sys_init orch) = []"
  "y_refreshing (sys_init orch) = 0" "sys_ops (sys_init orch) = []"
  "y_accepted (sys_init orch) = []" "y_finished (sys_init orch) = []"
  by (simp_all add: sys_init_def sys_ops_def)

lemma reachable_inv: "reachable desired backends s \<Longrightarrow> sys_inv s"
proof (induction rule: reachable.induct)
  case reach_init
  show ?case by (simp add: sys_inv_def orch_slot_def)
next
  case (reach_step s s')
  then show ?case by (blast intro: sys_inv_step)
qed

lemma history_inv_step:
  assumes "orch_step s s'" and inv: "sys_inv s" and hist: "history_inv s"
  shows "history_inv s'"
  using assms(1)
proof (cases rule: orch_step_flight_cases)
  case (start call op orch')
  then have "sys_ops s = []" using inv by (auto simp: sys_inv_def accepted_def orch_slot_def)
  then have "y_running s = []" "y_done s = []" by (auto simp: sys_ops_def)
  with start hist show ?thesis by (auto simp: history_inv_def sys_ops_def accepted_def)
next
  case (return p ans)
  then have "sys_ops s = [p]" using sys_inv_single [OF inv, of p] by (auto simp: sys_ops_def)
  then have "y_running s = [p] \<and> y_done s = []"
    using return by (auto simp: sys_ops_def append_eq_Cons_conv)
  with return hist show ?thesis by (simp add: history_inv_def sys_ops_def)
next
  case (finish p c now)
  note shape = finish_step_shape [OF inv finish(1)]
  have "sys_ops s = [p]" using sys_inv_single [OF inv shape(1)] by blast
  moreover have "sys_ops s' = []" using shape by (simp add: sys_ops_def)
  moreover have "o_last (y_orch s') = Some (operation_result_of (fst p) c now)"
    using finish by (simp add: finish_submitted_fields)
  ultimately show ?thesis
    using finish(3,4) hist by (simp add: history_inv_def operation_result_of_def)
next
  case keep
  with hist show ?thesis by (simp add: history_inv_def sys_ops_def same_flight_def)
qed

lemma next_generation_of_nat:
  assumes "ap_generation (o_applied orch) = of_nat n" "Suc n < 2 ^ 63"
  shows "next_generation_locked orch = of_nat (Suc n)"
proof -
  have "sint (of_nat (Suc n) :: int64) = int (Suc n)"
    using assms(2) by (simp add: signed_of_nat signed_take_bit_int_eq_self del: of_nat_Suc)
  moreover have "(of_nat n :: int64) + 1 = of_nat (Suc n)" by simp
  ultimately show ?thesis
    using assms(1) by (simp add: next_generation_locked_def Let_def del: of_nat_Suc)
qed

lemma unat_of_nat_63: "n < 2 ^ 64 \<Longrightarrow> unat (of_nat n :: int64) = n"
  by (simp add: unat_of_nat)

lemma numbering_inv_step:
  assumes "orch_step s s'" and inv: "sys_inv s" and num: "numbering_inv s"
  shows "numbering_inv s'"
  using assms(1)
proof (cases rule: orch_step_flight_cases)
  case (start call op orch')
  let ?n = "length (y_accepted s)"
  have seq: "o_op_seq (y_orch s') = of_nat (Suc ?n)" "length (y_accepted s') = Suc ?n"
    using start num by (simp_all add: numbering_inv_def accepted_def)
  show ?thesis
  proof (cases "Suc ?n < 2 ^ 63")
    case True
    then have gen: "next_generation_locked (y_orch s) = of_nat (Suc ?n)"
      using num by (intro next_generation_of_nat) (auto simp: numbering_inv_def)
    have "unat (o_op_seq (y_orch s) + 1) = Suc ?n"
      using num True unat_of_nat_63 [of "Suc ?n"] by (simp add: numbering_inv_def add.commute)
    with start num seq True gen show ?thesis
      by (auto simp: numbering_inv_def accepted_def)
  qed (use seq in \<open>simp add: numbering_inv_def\<close>)
next
  case (finish p c now)
  note shape = finish_step_shape [OF inv finish(1)]
  note fin = sys_inv_finish [OF inv shape finish(2)]
  have "op_matches (fst p) (y_orch s)" using inv shape(1) by (auto simp: sys_inv_def)
  then have "ap_generation (o_applied (y_orch s')) = ap_generation (o_applied (y_orch s))"
    using fin shape(2) by (simp add: op_matches_def completion_ok_def)
  with finish fin num show ?thesis by (simp add: numbering_inv_def)
next
  case keep
  with num show ?thesis by (simp add: numbering_inv_def same_flight_def)
qed (use num in \<open>simp_all add: numbering_inv_def\<close>)

lemma reachable_history: "reachable desired backends s \<Longrightarrow> history_inv s"
proof (induction rule: reachable.induct)
  case reach_init
  show ?case by (simp add: history_inv_def)
next
  case (reach_step s s')
  then show ?case by (blast intro: history_inv_step reachable_inv)
qed

lemma reachable_numbering: "reachable desired backends s \<Longrightarrow> numbering_inv s"
proof (induction rule: reachable.induct)
  case reach_init
  show ?case by (simp add: numbering_inv_def)
next
  case (reach_step s s')
  then show ?case by (blast intro: numbering_inv_step reachable_inv)
qed

text \<open>The refresh lock: no other step touches the flag.\<close>

lemma refresh_inv_step: "orch_step s s' \<Longrightarrow> refresh_inv s \<Longrightarrow> refresh_inv s'"
proof (induction rule: orch_step.induct)
  case (Submit call now s st e p orch')
  then show ?case
    using submit_via_cases [OF Submit(1)] by (auto simp: refresh_inv_def rejected_def accepted_def)
next
  case (SetStep gen name status code detail now s b orch')
  then show ?case
    by (auto simp: refresh_inv_def set_active_operation_step_def Let_def split: option.splits if_splits)
next
  case (ApplyDesired desired now s e orch')
  then show ?case
    by (auto simp: refresh_inv_def apply_desired_state_def Let_def split: option.splits)
next
  case (Status now s st orch')
  then show ?case
    using status_locked_fields [of True "y_orch s" now]
    by (auto simp: refresh_inv_def orch_status_def status_locked_def)
next
  case (RefreshBegin now s answer orch')
  then show ?case
    by (auto simp: refresh_inv_def refresh_health_begin_def Let_def split: sum.splits if_splits)
next
  case (ProgressBegin now s answer orch')
  then show ?case
    by (auto simp: refresh_inv_def refresh_active_progress_begin_def status_locked_def Let_def
             split: sum.splits if_splits prod.splits
             dest!: arg_cong [of "status_locked_with_stuck_log _ _ _" _ snd])
next
  case (ProgressEnd s health now st orch')
  then show ?case
    by (auto simp: refresh_inv_def refresh_active_progress_end_def status_locked_def Let_def
             split: if_splits prod.splits
             dest!: arg_cong [of "status_locked_with_stuck_log _ _ _" _ snd])
qed (auto simp: refresh_inv_def finish_submitted_fields finish_panicked_def Let_def
       orch_set_compatibility_def set_operation_watchdog_def set_operation_logger_def
       set_status_observer_def refresh_health_end_def split: if_splits)

lemma reachable_refresh: "reachable desired backends s \<Longrightarrow> refresh_inv s"
proof (induction rule: reachable.induct)
  case reach_init
  show ?case by (simp add: refresh_inv_def)
next
  case (reach_step s s')
  then show ?case by (blast intro: refresh_inv_step)
qed

section \<open>The abstract coordinator\<close>

text \<open>What the orchestrator promises: a counter of accepted operations and a busy bit.\<close>

datatype flight = Idle nat | Busy nat

inductive flight_step :: "flight \<Rightarrow> flight \<Rightarrow> bool" where
  Stay: "flight_step f f"
| Take: "flight_step (Idle n) (Busy (Suc n))"
| Release: "flight_step (Busy n) (Idle n)"

inductive_cases flight_step_IdleE: "flight_step (Idle n) f"
inductive_cases flight_step_BusyE: "flight_step (Busy n) f"
inductive_simps flight_step_Busy_Busy: "flight_step (Busy m) (Busy n)"

definition abs_flight :: "sys \<Rightarrow> flight" where
  "abs_flight s = (if o_active (y_orch s) = None then Idle (length (y_accepted s))
                   else Busy (length (y_accepted s)))"

lemma same_flight_idle: "same_flight orch orch' \<Longrightarrow> o_active orch' = None \<longleftrightarrow> o_active orch = None"
  by (cases "o_active orch"; cases "o_active orch'") (auto simp: same_flight_def)

lemma abs_flight_step:
  assumes inv: "sys_inv s" and step: "orch_step s s'"
  shows "flight_step (abs_flight s) (abs_flight s')"
  using step
proof (cases rule: orch_step_flight_cases)
  case (start call op orch')
  then show ?thesis by (auto simp: abs_flight_def accepted_def flight_step.Take)
next
  case (finish p c now)
  note shape = finish_step_shape [OF inv finish(1)]
  have "o_active (y_orch s') = None" by (rule sys_inv_finish(2) [OF inv shape finish(2)])
  moreover have "o_active (y_orch s) \<noteq> None"
    using sys_inv_single [OF inv shape(1)] by (auto simp: orch_slot_def)
  ultimately show ?thesis
    using finish(3) flight_step.Release [of "length (y_accepted s)"]
    by (auto simp: abs_flight_def)
qed (auto simp: abs_flight_def same_flight_idle flight_step.Stay)

text \<open>An operation in flight and what it may do.\<close>

lemma running_or_done [consumes 2, case_names running returned]:
  assumes "sys_inv s" "o_active (y_orch s) = Some op"
  obtains (running) p where "y_running s = [p]" "y_done s = []"
      "os_operation_id (fst p) = os_operation_id op" "os_generation (fst p) = os_generation op"
  | (returned) p c where "y_running s = []" "y_done s = [(p, c)]"
      "os_operation_id (fst p) = os_operation_id op" "os_generation (fst p) = os_generation op"
proof -
  from assms obtain p where p: "sys_ops s = [p]" "os_operation_id (fst p) = os_operation_id op"
    by (auto simp: sys_inv_def orch_slot_def in_flight_Some pending_key_def)
  moreover have "os_generation (fst p) = os_generation op"
    using assms p by (simp add: sys_inv_def op_matches_def)
  ultimately show thesis
    using running returned
    by (cases "y_running s"; cases "y_done s") (auto simp: sys_ops_def)
qed

section \<open>A concrete run\<close>

definition demo_desired :: desired_state where
  "demo_desired = \<lparr>ds_backend_kind = [], ds_active_profile_id = ''p1'', ds_routing_mode = ''rules'',
     ds_app_selection = \<lparr>as_proxy_packages = [], as_bypass_packages = []\<rparr>,
     ds_dns_policy = \<lparr>dp_remote_dns = [], dp_direct_dns = [], dp_fake_dns = False,
                      dp_ipv6_mode = []\<rparr>,
     ds_fallback_policy = []\<rparr>"

definition demo_backends :: "(backend_kind \<times> bool \<times> string) list" where
  "demo_backends = [(backend_root_tproxy, True, [])]"

definition demo_idle :: sys where
  "demo_idle = sys_init (new_orchestrator demo_desired demo_backends)"

definition demo_busy :: sys where
  "demo_busy =
     (let ((st, e, p), orch') = submit_via CallReset 7 (y_orch demo_idle)
      in demo_idle\<lparr>y_orch := orch', y_running := y_running demo_idle @ spawned p,
           y_accepted := y_accepted demo_idle @ map fst (spawned p)\<rparr>)"

lemma demo_idle_reachable: "reachable demo_desired demo_backends demo_idle"
  unfolding demo_idle_def by (rule reach_init)

lemma demo_busy_reachable: "reachable demo_desired demo_backends demo_busy"
proof -
  obtain st e p orch' where "submit_via CallReset 7 (y_orch demo_idle) = ((st, e, p), orch')"
    by (metis prod.exhaust)
  from reach_step [OF demo_idle_reachable orch_step.Submit [OF this]] this show ?thesis
    by (simp add: demo_busy_def)
qed

lemma demo_submit:
  "\<exists>st op orch'. submit_via CallReset 7 (y_orch demo_idle) =
     ((st, None, Some (op, accepted_closure CallReset (y_orch demo_idle))), orch') \<and>
     o_active orch' = Some op \<and> os_kind op = OperationReset"
  by (simp add: demo_idle_def orch_reset_def Let_def backend_for_locked_def applied_backend_kind_def
      new_orchestrator_def demo_backends_def submit_locked_def begin_operation_locked_def
      demo_desired_def empty_applied_def busy_locked_def clone_active_operation_locked_def)

lemma demo_busy_fields:
  "\<exists>op. o_active (y_orch demo_busy) = Some op \<and> os_kind op = OperationReset \<and>
        y_running demo_busy = [(op, accepted_closure CallReset (y_orch demo_idle))] \<and>
        y_accepted demo_busy = [op]"
  using demo_submit by (auto simp: demo_busy_def spawned_def demo_idle_def)

end
