(* ===== verification/OrchestratorProperties.thy ===== *)
theory OrchestratorProperties
  imports OrchestratorSteps
begin

text \<open>
  What the runtime orchestrator guarantees, stated over all interleavings of its critical
  sections (\<^verbatim>\<open>reachable\<close>) or over one call of a method.
\<close>

section \<open>Single flight\<close>

text \<open>
  C1.  In every state the process can reach, the active-operation slot tells exactly what is
  running: it is empty when no operation goroutine exists, and otherwise there is exactly one
  goroutine, in its backend call or waiting to record its completion, and it carries the id
  and the generation of the slot, which is also the generation of the applied state.
\<close>

theorem single_flight_reachable:
  assumes "reachable desired backends s"
  shows "(o_active (y_orch s) = None \<longleftrightarrow> y_running s = [] \<and> y_done s = []) \<and>
         (case o_active (y_orch s) of None \<Rightarrow> True
          | Some op \<Rightarrow> \<exists>p. y_running s @ map fst (y_done s) = [p] \<and>
              os_operation_id (fst p) = os_operation_id op \<and>
              os_generation (fst p) = os_generation op \<and>
              ap_generation (o_applied (y_orch s)) = os_generation op)"
proof (cases "o_active (y_orch s)")
  case None
  with reachable_inv [OF assms] show ?thesis
    by (auto simp: sys_inv_def orch_slot_def sys_ops_def)
next
  case (Some op)
  note inv = reachable_inv [OF assms]
  from inv Some have gen: "ap_generation (o_applied (y_orch s)) = os_generation op"
    by (simp add: sys_inv_def)
  from inv Some show ?thesis
    by (cases rule: running_or_done) (use gen Some in auto)
qed

theorem single_flight_reachable_witness:
  "length (y_running demo_busy @ map fst (y_done demo_busy)) = 1"
  using single_flight_reachable [OF demo_busy_reachable] demo_busy_fields by auto

text \<open>
  While an operation is active, every submitting method is refused: nothing is spawned,
  the error is a busy error whose code says whether a reset is running and which carries the
  active operation, and desired state, applied state, health, last result, operation counter
  and the active operation are unchanged.
\<close>

theorem submit_refused_while_busy:
  assumes "o_active orch = Some op"
    and "submit_via call now orch = ((st, err, p), orch')"
  shows "p = None \<and>
         (\<exists>b a. err = Some (BusyError b) \<and> be_active b = Some a \<and>
            os_operation_id a = os_operation_id op \<and>
            be_code b = (if os_kind op = OperationReset then ''RESET_IN_PROGRESS'' else ''RUNTIME_BUSY'')) \<and>
         o_active orch' = Some op \<and> o_desired orch' = o_desired orch \<and>
         o_applied orch' = o_applied orch \<and> o_health orch' = o_health orch \<and>
         o_last orch' = o_last orch \<and> o_op_seq orch' = o_op_seq orch"
proof -
  from assms(1) obtain a where a: "clone_active_operation_locked orch now = Some a"
    by (metis clone_active_None option.distinct(1) option.exhaust)
  with clone_active_identity [OF a] assms(1)
  have "os_operation_id a = os_operation_id op" "os_kind a = os_kind op" by auto
  moreover have "reject (Some (BusyError (new_runtime_busy_error a))) now orch = ((st, err, p), orch')"
    using assms a by (simp add: submit_via_busy busy_locked_def)
  ultimately show ?thesis
    using assms(1) by (auto dest!: reject_spawns_nothing simp: new_runtime_busy_error_def)
qed

theorem submit_refused_while_busy_witness:
  "snd (snd (fst (submit_via CallStart 9 (y_orch demo_busy)))) = None \<and>
   (\<exists>b. fst (snd (fst (submit_via CallStart 9 (y_orch demo_busy)))) = Some (BusyError b) \<and>
        be_code b = ''RESET_IN_PROGRESS'')"
proof -
  obtain op where op: "o_active (y_orch demo_busy) = Some op" "os_kind op = OperationReset"
    using demo_busy_fields by blast
  obtain st err p orch' where r: "submit_via CallStart 9 (y_orch demo_busy) = ((st, err, p), orch')"
    by (metis prod.exhaust)
  from submit_refused_while_busy [OF op(1) r] op(2) show ?thesis by (auto simp: r simp del: submit_via.simps)
qed

section \<open>Numbering and history\<close>

text \<open>
  C2.  Operation numbers: as long as fewer than \<open>2 ^ 63\<close> operations were accepted, the n-th
  accepted operation has the id ``n'' (in decimal) and the generation n, so ids are pairwise
  distinct and generations grow strictly, and the applied state carries the generation of
  the last accepted one.
\<close>

theorem operations_are_numbered:
  assumes "reachable desired backends s" and "length (y_accepted s) < 2 ^ 63"
  shows "map os_operation_id (y_accepted s) = map nat_str [1..<Suc (length (y_accepted s))] \<and>
         map os_generation (y_accepted s) = map of_nat [1..<Suc (length (y_accepted s))] \<and>
         distinct (map os_operation_id (y_accepted s)) \<and>
         unat (ap_generation (o_applied (y_orch s))) = length (y_accepted s)"
proof -
  have "distinct (map nat_str [1..<Suc (length (y_accepted s))])"
    by (auto simp: distinct_map inj_on_def)
  then show ?thesis
    using reachable_numbering [OF assms(1)] assms(2)
    by (simp add: numbering_inv_def unat_of_nat_63)
qed

theorem operations_are_numbered_witness:
  "map os_operation_id (y_accepted demo_busy) = [''1'']"
  using operations_are_numbered [OF demo_busy_reachable] demo_busy_fields
  by (auto simp: nat_str_1)

text \<open>
  Every accepted operation is recorded exactly once and in the order of acceptance: the
  recorded results are those of all accepted operations but the one still in flight, and the
  status's last operation is the latest of them.
\<close>

theorem results_in_order:
  assumes "reachable desired backends s"
  shows "map or_operation_id (y_finished s) @ map (\<lambda>p. os_operation_id (fst p)) (sys_ops s) =
           map os_operation_id (y_accepted s) \<and>
         length (sys_ops s) \<le> 1 \<and>
         o_last (y_orch s) = (if y_finished s = [] then None else Some (last (y_finished s)))"
proof -
  have "history_inv s" "sys_inv s" using assms reachable_history reachable_inv by blast+
  then have "map fst (map (\<lambda>op. (os_operation_id op, os_generation op)) (y_accepted s)) =
      map fst (map (\<lambda>r. (or_operation_id r, or_generation r)) (y_finished s) @
        map (\<lambda>p. (os_operation_id (fst p), os_generation (fst p))) (sys_ops s))"
    by (simp only: history_inv_def)
  then show ?thesis
    using \<open>history_inv s\<close> \<open>sys_inv s\<close>
    by (auto simp: history_inv_def sys_inv_def comp_def dest: in_flight_length)
qed

theorem results_in_order_witness:
  "o_last (y_orch demo_busy) = None \<longleftrightarrow> y_finished demo_busy = []"
  using results_in_order [OF demo_busy_reachable] by simp

section \<open>Ends of operations\<close>

text \<open>
  C3.  A panicking operation never wedges the coordinator: after the recovery the slot is
  free, no goroutine is left, the applied state is in the failed phase with the generation of
  the operation, the health shows the code PANIC and the recorded result is a failure; the
  next call of \<^verbatim>\<open>RunOperation\<close> is accepted.
\<close>

theorem panic_frees_the_slot:
  assumes "reachable desired backends s" and "p \<in> set (y_running s)"
    and "now \<noteq> zero_time"
    and "s' = s\<lparr>y_orch := finish_panicked (fst p) msg now (y_orch s),
               y_running := remove1 p (y_running s),
               y_finished := y_finished s @
                 [operation_result_of (fst p) (panic_completion (fst p) msg now (y_orch s)) now]\<rparr>"
  shows "reachable desired backends s' \<and> o_active (y_orch s') = None \<and> sys_ops s' = [] \<and>
         ap_phase (o_applied (y_orch s')) = PhaseFailed \<and>
         ap_generation (o_applied (y_orch s')) = os_generation (fst p) \<and>
         hs_last_code (o_health (y_orch s')) = ''PANIC'' \<and>
         (\<exists>r. o_last (y_orch s') = Some r \<and> \<not> or_succeeded r \<and> or_error_code r = ''PANIC'' \<and>
              or_error_message r = msg \<and> or_operation_id r = os_operation_id (fst p)) \<and>
         fst (snd (fst (submit_via (CallRun kind phase) later (y_orch s')))) = None"
proof -
  let ?c = "panic_completion (fst p) msg now (y_orch s)"
  note inv = reachable_inv [OF assms(1)]
  have fin: "(p, ?c) \<in> set (y_done s) \<and> y_running s' = y_running s \<and> y_done s' = remove1 (p, ?c) (y_done s) \<or>
       p \<in> set (y_running s) \<and> y_done s' = y_done s \<and> y_running s' = remove1 p (y_running s) \<and>
         (\<exists>msg. ?c = panic_completion (fst p) msg now (y_orch s))"
    using assms by auto
  have orch: "y_orch s' = finish_submitted (fst p) ?c now (y_orch s)"
    using assms(4) by (simp add: finish_panicked_def)
  note shape = finish_step_shape [OF inv fin]
  note post = sys_inv_finish [OF inv shape orch]
  have "reachable desired backends s'"
    using reach_step [OF assms(1) orch_step.Panic [OF assms(2)]] assms(4) by simp
  moreover have "fst (snd (fst (submit_via (CallRun kind phase) later (y_orch s')))) = None"
    using post(2) by (simp add: orch_run_operation_def submit_locked_def Let_def split: prod.splits)
  moreover have "hs_last_code (o_health (y_orch s')) = ''PANIC''"
    using assms(3)
    by (simp add: orch finish_submitted_fields finish_health_def panic_completion_def
        time_is_zero_def Let_def)
  ultimately show ?thesis
    using post shape(3,4)
    by (simp add: sys_ops_def panic_completion_def operation_result_of_def error_code_def
        errors_as_unfold)
qed

theorem panic_frees_the_slot_witness:
  "\<exists>p s'. p \<in> set (y_running demo_busy) \<and> o_active (y_orch s') = None \<and>
     ap_phase (o_applied (y_orch s')) = PhaseFailed \<and> reachable demo_desired demo_backends s'"
proof -
  obtain p where p: "p \<in> set (y_running demo_busy)" using demo_busy_fields by auto
  obtain s' where s': "s' = demo_busy\<lparr>y_orch := finish_panicked (fst p) ''boom'' 11 (y_orch demo_busy),
               y_running := remove1 p (y_running demo_busy),
               y_finished := y_finished demo_busy @
                 [operation_result_of (fst p) (panic_completion (fst p) ''boom'' 11 (y_orch demo_busy)) 11]\<rparr>"
    by blast
  have "(11::gtime) \<noteq> zero_time" by simp
  from panic_frees_the_slot [OF demo_busy_reachable p this s'] p show ?thesis by blast
qed

text \<open>
  C4.  Progress: whenever an operation is active, the system can return to idle within two
  steps, the return of the backend call and the recording of its completion.
\<close>

theorem busy_can_finish:
  assumes "reachable desired backends s" and "o_active (y_orch s) = Some op"
  shows "\<exists>s1 s2. (s1 = s \<or> orch_step s s1) \<and> orch_step s1 s2 \<and> o_active (y_orch s2) = None \<and>
           (\<exists>r. o_last (y_orch s2) = Some r \<and> or_operation_id r = os_operation_id op)"
proof -
  have fin: "\<exists>s2. orch_step s1 s2 \<and> o_active (y_orch s2) = None \<and>
          (\<exists>r. o_last (y_orch s2) = Some r \<and> or_operation_id r = os_operation_id op)"
    if "y_done s1 = [(p, c)]" "os_operation_id (fst p) = os_operation_id op"
       "o_active (y_orch s1) = Some op" for s1 p c
  proof -
    from that(1) have step: "orch_step s1 (s1\<lparr>y_orch := finish_submitted (fst p) c 0 (y_orch s1),
        y_done := remove1 (p, c) (y_done s1),
        y_finished := y_finished s1 @ [operation_result_of (fst p) c 0]\<rparr>)"
      by (intro orch_step.Finish) simp
    show ?thesis
      by (rule exI, rule conjI [OF step])
         (use that in \<open>simp add: finish_submitted_fields operation_result_of_def\<close>)
  qed
  from reachable_inv [OF assms(1)] assms(2) show ?thesis
  proof (cases rule: running_or_done)
    case (running p)
    let ?s1 = "s\<lparr>y_running := remove1 p (y_running s),
       y_done := y_done s @ [(p, run_completion (snd p) (fst p) undefined (y_orch s))]\<rparr>"
    have "orch_step s ?s1" using running by (intro orch_step.Return) simp
    moreover have "y_done ?s1 = [(p, run_completion (snd p) (fst p) undefined (y_orch s))]"
      "o_active (y_orch ?s1) = Some op"
      using running assms by simp_all
    ultimately show ?thesis using fin [of ?s1] running(3) by blast
  next
    case (returned p c)
    then show ?thesis using fin [of s] assms(2) by blast
  qed
qed

theorem busy_can_finish_witness:
  "\<exists>s1 s2. (s1 = demo_busy \<or> orch_step demo_busy s1) \<and> orch_step s1 s2 \<and> o_active (y_orch s2) = None"
  using busy_can_finish [OF demo_busy_reachable] demo_busy_fields by blast

text \<open>
  C5.  Refinement: the orchestrator implements a coordinator that is idle or busy with the
  n-th operation.  Every step of every reachable state is, on the abstraction, the start of
  the next operation from idle, the end of the current one, or nothing.
\<close>

theorem orchestrator_refines_flight:
  assumes "reachable desired backends s" and "orch_step s s'"
  shows "flight_step (abs_flight s) (abs_flight s')"
  using abs_flight_step [OF reachable_inv [OF assms(1)] assms(2)] .

theorem orchestrator_refines_flight_witness:
  "flight_step (abs_flight demo_idle) (abs_flight (demo_idle\<lparr>y_orch := set_status_observer True (y_orch demo_idle)\<rparr>))"
  by (rule orchestrator_refines_flight [OF demo_idle_reachable orch_step.SetObserver])

end
