(* ===== verification/GoText.thy ===== *)
theory GoText
  imports Prelude
begin

text \<open>
  More of Go's text library, as the packages below use it: \<^verbatim>\<open>strings.Fields\<close>,
  \<^verbatim>\<open>strings.Trim\<close>, \<^verbatim>\<open>LastIndex\<close>, \<^verbatim>\<open>ReplaceAll\<close> with one byte, the decimal and
  hexadecimal number parsers of \<^verbatim>\<open>strconv\<close> with their range errors, and
  \<^verbatim>\<open>filepath.Clean\<close> and \<^verbatim>\<open>Join\<close> on Unix paths.
\<close>

section \<open>Fields and lines\<close>

text \<open>The width of the space character a string starts with; 0 when it starts with none.\<close>

fun space_width :: "string \<Rightarrow> nat" where
  "space_width [] = 0"
| "space_width [a] = (if space1 a then 1 else 0)"
| "space_width [a, b] = (if space1 a then 1 else if space2 a b then 2 else 0)"
| "space_width (a # b # c # s) =
     (if space1 a then 1 else if space2 a b then 2 else if space3 a b c then 3 else 0)"

definition flush_word :: "string \<Rightarrow> string list" where
  "flush_word w = (if w = [] then [] else [w])"

function fields_from :: "string \<Rightarrow> string \<Rightarrow> string list" where
  "fields_from w [] = flush_word w"
| "fields_from w (c # s) =
     (case space_width (c # s) of
        0 \<Rightarrow> fields_from (w @ [c]) s
      | Suc k \<Rightarrow> flush_word w @ fields_from [] (drop k s))"
  by pat_completeness auto
termination by (relation "measure (\<lambda>(w, s). length s)") auto

text \<open>\<^verbatim>\<open>strings.Fields\<close>\<close>

definition str_fields :: "string \<Rightarrow> string list" where
  "str_fields s = fields_from [] s"

lemma fields_nonempty: "f \<in> set (fields_from w s) \<Longrightarrow> f \<noteq> []"
  by (induction w s rule: fields_from.induct)
     (auto simp: flush_word_def split: if_splits nat.splits)

lemma str_fields_nonempty: "f \<in> set (str_fields s) \<Longrightarrow> f \<noteq> []"
  by (simp add: str_fields_def fields_nonempty)

text \<open>Lines end at a newline; a last line without one counts when it is not empty.\<close>

fun split_lines_from :: "string \<Rightarrow> string \<Rightarrow> string list" where
  "split_lines_from w [] = flush_word w"
| "split_lines_from w (c # s) =
     (if byte c = 10 then w # split_lines_from [] s else split_lines_from (w @ [c]) s)"

definition split_lines :: "string \<Rightarrow> string list" where
  "split_lines s = split_lines_from [] s"

lemma split_lines_newline_free:
  "\<forall>c \<in> set w. byte c \<noteq> 10 \<Longrightarrow> l \<in> set (split_lines_from w s) \<Longrightarrow> c \<in> set l \<Longrightarrow> byte c \<noteq> 10"
  by (induction w s rule: split_lines_from.induct) (auto simp: flush_word_def split: if_splits)

lemma split_lines_from_line:
  "\<forall>c \<in> set l. byte c \<noteq> 10 \<Longrightarrow> byte n = 10 \<Longrightarrow>
   split_lines_from w (l @ n # s) = (w @ l) # split_lines_from [] s"
  by (induction l arbitrary: w) auto

text \<open>Text made of complete lines splits into these lines.\<close>

lemma split_lines_unlines:
  "\<forall>l \<in> set ls. \<forall>c \<in> set l. byte c \<noteq> 10 \<Longrightarrow>
   split_lines (concat (map (\<lambda>l. l @ [char_of (10::nat)]) ls)) = ls"
proof (induction ls)
  case (Cons l ls)
  then show ?case
    using split_lines_from_line [of l "char_of (10::nat)" "[]"] by (simp add: split_lines_def)
qed (simp add: split_lines_def flush_word_def)

section \<open>Searching and trimming\<close>

definition has_prefix :: "string \<Rightarrow> string \<Rightarrow> bool" where
  "has_prefix s p \<longleftrightarrow> prefix p s"

definition has_suffix :: "string \<Rightarrow> string \<Rightarrow> bool" where
  "has_suffix s p \<longleftrightarrow> suffix p s"

text \<open>\<^verbatim>\<open>strings.Trim(s, cutset)\<close> for an ASCII cutset\<close>

definition trim_set :: "string \<Rightarrow> string \<Rightarrow> string" where
  "trim_set cutset s = rev (dropWhile (\<lambda>c. c \<in> set cutset) (rev (dropWhile (\<lambda>c. c \<in> set cutset) s)))"

definition trim_right_set :: "string \<Rightarrow> string \<Rightarrow> string" where
  "trim_right_set cutset s = rev (dropWhile (\<lambda>c. c \<in> set cutset) (rev s))"

text \<open>The parts before and after the last occurrence of a byte (\<^verbatim>\<open>LastIndex\<close> and slicing).\<close>

fun split_last :: "char \<Rightarrow> string \<Rightarrow> (string \<times> string) option" where
  "split_last x [] = None"
| "split_last x (c # s) =
     (case split_last x s of
        Some (a, b) \<Rightarrow> Some (c # a, b)
      | None \<Rightarrow> if c = x then Some ([], s) else None)"

lemma split_last_None: "split_last x s = None \<longleftrightarrow> x \<notin> set s"
  by (induction s) (auto split: option.splits)

lemma split_last_SomeD: "split_last x s = Some (a, b) \<Longrightarrow> s = a @ x # b \<and> x \<notin> set b"
  by (induction s arbitrary: a) (auto simp: split_last_None split: option.splits if_splits)

lemma split_last_append:
  assumes "x \<notin> set b"
  shows "split_last x (a @ x # b) = Some (a, b)"
proof -
  have "split_last x b = None" using assms by (simp add: split_last_None)
  then show ?thesis by (induction a) auto
qed

text \<open>The text after the first occurrence of a substring (\<^verbatim>\<open>Index\<close> and slicing).\<close>

fun after_first :: "string \<Rightarrow> string \<Rightarrow> string option" where
  "after_first sub [] = (if sub = [] then Some [] else None)"
| "after_first sub (c # s) =
     (if prefix sub (c # s) then Some (drop (length sub) (c # s)) else after_first sub s)"

definition replace_char :: "char \<Rightarrow> char \<Rightarrow> string \<Rightarrow> string" where
  "replace_char old new = map (\<lambda>c. if c = old then new else c)"

section \<open>Numbers\<close>

definition is_digit :: "char \<Rightarrow> bool" where
  "is_digit c \<longleftrightarrow> 48 \<le> byte c \<and> byte c \<le> 57"

definition digits_value :: "string \<Rightarrow> nat" where
  "digits_value s = foldl (\<lambda>n c. 10 * n + (byte c - 48)) 0 s"

definition sign_split :: "string \<Rightarrow> bool \<times> string" where
  "sign_split s = (case s of [] \<Rightarrow> (False, [])
     | c # t \<Rightarrow> if c = CHR ''-'' then (True, t) else if c = CHR ''+'' then (False, t) else (False, s))"

text \<open>
  \<^verbatim>\<open>strconv.Atoi\<close>: the value and whether it succeeded.  A syntax error yields 0, a range
  error the nearest 64-bit bound, both with an error.
\<close>

definition signed_clamp :: "nat \<Rightarrow> bool \<Rightarrow> nat \<Rightarrow> int \<times> bool" where
  "signed_clamp bits neg n =
     (if neg then (if n \<le> 2 ^ (bits - 1) then (- int n, True) else (- (2 ^ (bits - 1)), False))
      else (if n < 2 ^ (bits - 1) then (int n, True) else (2 ^ (bits - 1) - 1, False)))"

definition atoi :: "string \<Rightarrow> int \<times> bool" where
  "atoi s = (let (neg, t) = sign_split s
     in if t = [] \<or> \<not> list_all is_digit t then (0, False)
        else signed_clamp 64 neg (digits_value t))"

definition hex_value :: "char \<Rightarrow> nat option" where
  "hex_value c =
     (if is_digit c then Some (byte c - 48)
      else if 97 \<le> byte c \<and> byte c \<le> 102 then Some (byte c - 87)
      else if 65 \<le> byte c \<and> byte c \<le> 70 then Some (byte c - 55) else None)"

definition hex_number :: "string \<Rightarrow> nat option" where
  "hex_number s = foldl (\<lambda>acc c. case acc of None \<Rightarrow> None
     | Some n \<Rightarrow> map_option (\<lambda>d. 16 * n + d) (hex_value c)) (Some 0) s"

text \<open>\<^verbatim>\<open>strconv.ParseInt(s, 16, 32)\<close>\<close>

definition parse_hex32 :: "string \<Rightarrow> int \<times> bool" where
  "parse_hex32 s = (let (neg, t) = sign_split s
     in if t = [] then (0, False)
        else (case hex_number t of None \<Rightarrow> (0, False) | Some n \<Rightarrow> signed_clamp 32 neg n))"

lemma digits_value_snoc [simp]: "digits_value (s @ [c]) = 10 * digits_value s + (byte c - 48)"
  unfolding digits_value_def by simp

lemma is_digit_digit_char: "d < 10 \<Longrightarrow> is_digit (digit_char d)"
  by (simp add: is_digit_def byte_digit_char)

lemma nat_str_digits: "list_all is_digit (nat_str n)"
proof (induction n rule: nat_str.induct)
  case (1 n)
  then show ?case
    by (subst nat_str.simps) (auto simp: is_digit_digit_char)
qed

lemma digits_value_nat_str [simp]: "digits_value (nat_str n) = n"
proof (induction n rule: nat_str.induct)
  case (1 n)
  then show ?case
    by (subst nat_str.simps) (auto simp: byte_digit_char digits_value_def [of "[_]"])
qed

text \<open>\<^verbatim>\<open>Atoi\<close> reads back what \<^verbatim>\<open>Itoa\<close> prints.\<close>

lemma atoi_int_str:
  assumes "- (2 ^ 63) \<le> i" "i < 2 ^ 63"
  shows "atoi (int_str i) = (i, True)"
proof -
  have d: "c \<noteq> CHR ''-'' \<and> c \<noteq> CHR ''+''" if "is_digit c" for c
    using that by (auto simp: is_digit_def)
  obtain c t where c: "nat_str (nat i) = c # t"
    by (cases "nat_str (nat i)") auto
  with nat_str_digits [of "nat i"] have "sign_split (nat_str (nat i)) = (False, nat_str (nat i))"
    using d [of c] by (simp add: sign_split_def)
  then show ?thesis
    using assms nat_str_digits [of "nat i"] nat_str_digits [of "nat (- i)"]
    by (auto simp: atoi_def int_str_def signed_clamp_def sign_split_def)
qed

section \<open>Paths\<close>

fun split_slash :: "string \<Rightarrow> string \<Rightarrow> string list" where
  "split_slash w [] = [w]"
| "split_slash w (c # s) = (if c = CHR ''/'' then w # split_slash [] s else split_slash (w @ [c]) s)"

text \<open>One path element against the elements kept so far, innermost first.\<close>

fun clean_step :: "bool \<Rightarrow> string list \<Rightarrow> string \<Rightarrow> string list" where
  "clean_step rooted stack e =
     (if e = [] \<or> e = ''.'' then stack
      else if e = ''..'' then
        (case stack of
           [] \<Rightarrow> if rooted then [] else [''..'']
         | t # rest \<Rightarrow> if t = ''..'' then ''..'' # stack else rest)
      else e # stack)"

text \<open>\<^verbatim>\<open>filepath.Clean\<close>\<close>

definition path_clean :: "string \<Rightarrow> string" where
  "path_clean p =
     (let rooted = (p \<noteq> [] \<and> hd p = CHR ''/'');
          elems = rev (foldl (clean_step rooted) [] (split_slash [] p));
          body = str_join ''/'' elems
      in if rooted then ''/'' @ body else if body = [] then ''.'' else body)"

text \<open>\<^verbatim>\<open>filepath.Join\<close>\<close>

definition path_join :: "string list \<Rightarrow> string" where
  "path_join ps =
     (let ps' = dropWhile (\<lambda>p. p = []) ps
      in if ps' = [] then [] else path_clean (str_join ''/'' ps'))"

text \<open>\<^verbatim>\<open>filepath.Base\<close>\<close>

definition path_base :: "string \<Rightarrow> string" where
  "path_base p =
     (if p = [] then ''.''
      else (let q = trim_right_set ''/'' p;
                b = (case split_last (CHR ''/'') q of Some (d, e) \<Rightarrow> e | None \<Rightarrow> q)
            in if b = [] then ''/'' else b))"

text \<open>\<^verbatim>\<open>filepath.Dir\<close>\<close>

definition path_dir :: "string \<Rightarrow> string" where
  "path_dir p =
     (case split_last (CHR ''/'') p of Some (d, e) \<Rightarrow> path_clean (d @ ''/'') | None \<Rightarrow> ''.'')"

text \<open>Joining a plain file name: the path ends with it.\<close>

definition plain_name :: "string \<Rightarrow> bool" where
  "plain_name e \<longleftrightarrow> e \<noteq> [] \<and> CHR ''/'' \<notin> set e \<and> e \<noteq> ''.'' \<and> e \<noteq> ''..''"

lemma split_slash_plain: "CHR ''/'' \<notin> set e \<Longrightarrow> split_slash w e = [w @ e]"
  by (induction e arbitrary: w) auto

lemma split_slash_last:
  "CHR ''/'' \<notin> set e \<Longrightarrow> \<exists>es. split_slash w (s @ CHR ''/'' # e) = es @ [e]"
proof (induction s arbitrary: w)
  case Nil
  then show ?case by (auto simp: split_slash_plain)
next
  case (Cons c s)
  from Cons.IH [OF Cons.prems, of "[]"] Cons.IH [OF Cons.prems, of "w @ [c]"] show ?case by auto
qed

lemma last_str_join: "e \<noteq> [] \<Longrightarrow> last (str_join sep (xs @ [e])) = last e \<and> str_join sep (xs @ [e]) \<noteq> []"
proof (induction xs)
  case (Cons x xs)
  then show ?case by (cases xs) auto
qed simp

lemma path_clean_last:
  assumes "plain_name e" "split_slash [] p = es @ [e]"
  shows "last (path_clean p) = last e"
proof -
  from assms(1) have "clean_step r stack e = e # stack" for r stack
    by (simp add: plain_name_def)
  with assms show ?thesis
    using last_str_join [of e "''/''"]
    by (auto simp: path_clean_def Let_def plain_name_def)
qed

lemma path_join_last: "plain_name e \<Longrightarrow> last (path_join [a, e]) = last e"
  using split_slash_last [of e "[]" a] split_slash_plain [of e "[]"]
  by (auto simp: path_join_def plain_name_def intro: path_clean_last [OF _ _, of e "[]"]
      path_clean_last [of e])

lemma path_join_example:
  "path_join [''/data/adb/modules/rknnovpn'', ''run''] = ''/data/adb/modules/rknnovpn/run''"
  by code_simp

section \<open>Quoting\<close>

text \<open>
  The verb \<^verbatim>\<open>%q\<close>.  Quote, backslash and the ASCII control characters are escaped as
  \<^verbatim>\<open>strconv.Quote\<close> does; bytes above 127 are printed as they are, which is what it does for
  printable UTF-8 text.
\<close>

definition hex_digit :: "nat \<Rightarrow> char" where
  "hex_digit d = (if d < 10 then char_of (48 + d) else char_of (87 + d))"

definition quote_char :: "char \<Rightarrow> string" where
  "quote_char c =
     (let b = byte c; bs = char_of (92::nat)
      in if b = 34 \<or> b = 92 then [bs, c]
         else if b = 7 then [bs, CHR ''a''] else if b = 8 then [bs, CHR ''b'']
         else if b = 12 then [bs, CHR ''f''] else if b = 10 then [bs, CHR ''n'']
         else if b = 13 then [bs, CHR ''r''] else if b = 9 then [bs, CHR ''t'']
         else if b = 11 then [bs, CHR ''v'']
         else if b < 32 \<or> b = 127 then [bs, CHR ''x'', hex_digit (b div 16), hex_digit (b mod 16)]
         else [c])"

definition go_quote :: "string \<Rightarrow> string" where
  "go_quote s = char_of (34::nat) # concat (map quote_char s) @ [char_of (34::nat)]"

section \<open>Base64 and query escapes\<close>

text \<open>
  The four decoders of \<^verbatim>\<open>encoding/base64\<close> that the code tries in turn, and \<^verbatim>\<open>url.QueryUnescape\<close>.
  Line breaks are skipped; the padded encodings want whole groups of four, the raw ones no padding at all; left-over
  bits are ignored, as the decoders are not strict.
\<close>

definition b64_digit :: "bool \<Rightarrow> char \<Rightarrow> nat option" where
  "b64_digit url c =
     (let b = byte c
      in if 65 \<le> b \<and> b \<le> 90 then Some (b - 65)
         else if 97 \<le> b \<and> b \<le> 122 then Some (b - 71)
         else if is_digit c then Some (b + 4)
         else if c = (if url then CHR ''-'' else CHR ''+'') then Some 62
         else if c = (if url then CHR ''_'' else CHR ''/'') then Some 63
         else None)"

fun b64_bytes :: "nat list \<Rightarrow> nat list" where
  "b64_bytes (a # b # c # d # ds) =
     [a * 4 + b div 16, b mod 16 * 16 + c div 4, c mod 4 * 64 + d] @ b64_bytes ds"
| "b64_bytes [a, b, c] = [a * 4 + b div 16, b mod 16 * 16 + c div 4]"
| "b64_bytes [a, b] = [a * 4 + b div 16]"
| "b64_bytes _ = []"

definition b64_raw :: "bool \<Rightarrow> string \<Rightarrow> string option" where
  "b64_raw url s =
     (let digits = map (b64_digit url) s
      in if None \<in> set digits \<or> length s mod 4 = 1 then None
         else Some (map char_of (b64_bytes (map the digits))))"

definition b64_decode :: "bool \<Rightarrow> bool \<Rightarrow> string \<Rightarrow> string option" where
  "b64_decode url padded s =
     (let t = filter (\<lambda>c. byte c \<noteq> 10 \<and> byte c \<noteq> 13) s
      in if \<not> padded then b64_raw url t
         else if length t mod 4 \<noteq> 0 then None
         else if has_suffix t ''=='' then b64_raw url (take (length t - 2) t)
         else if has_suffix t ''='' then b64_raw url (butlast t)
         else b64_raw url t)"

text \<open>Raw URL, URL, raw standard, standard: the first that accepts the text.\<close>

definition b64_any :: "string \<Rightarrow> string option" where
  "b64_any s =
     (case filter (\<lambda>d. d \<noteq> None) [b64_decode True False s, b64_decode True True s,
                                  b64_decode False False s, b64_decode False True s] of
        [] \<Rightarrow> None | d # _ \<Rightarrow> d)"

lemma b64_examples:
  "b64_any ''YWVzLTI1Ni1nY206c2VjcmV0'' = Some ''aes-256-gcm:secret''"
  "b64_any ''YTpi'' = Some ''a:b''" "b64_any ''YTo='' = Some ''a:''" "b64_any ''YTo'' = Some ''a:''"
  "b64_any ''a:b'' = None" "b64_any ''YTo=='' = None"
  by code_simp+

fun query_unescape :: "string \<Rightarrow> string option" where
  "query_unescape [] = Some []"
| "query_unescape (c # s) =
     (if c = CHR 0x25
      then (case s of
              a # b # t \<Rightarrow>
                (case (hex_value a, hex_value b) of
                   (Some x, Some y) \<Rightarrow> map_option ((#) (char_of (16 * x + y))) (query_unescape t)
                 | _ \<Rightarrow> None)
            | _ \<Rightarrow> None)
      else map_option ((#) (if c = CHR ''+'' then CHR '' '' else c)) (query_unescape s))"

end
