(* ===== verification/GoLists.thy ===== *)
theory GoLists
  imports GoText
begin

text \<open>
  The loop with a \<^verbatim>\<open>seen\<close> map that several packages use to keep the first of equal values, the
  printed forms of a duration and of a hexadecimal number, and \<^verbatim>\<open>net.JoinHostPort\<close>.
\<close>

section \<open>Keeping the first of equal values\<close>

fun unique_from :: "'a list \<Rightarrow> 'a list \<Rightarrow> 'a list" where
  "unique_from seen [] = []"
| "unique_from seen (x # xs) =
     (if x \<in> set seen then unique_from seen xs else x # unique_from (x # seen) xs)"

abbreviation unique :: "'a list \<Rightarrow> 'a list" where
  "unique \<equiv> unique_from []"

lemma set_unique_from [simp]: "set (unique_from seen xs) = set xs - set seen"
  by (induction seen xs rule: unique_from.induct) auto

lemma distinct_unique_from [simp]: "distinct (unique_from seen xs)"
  by (induction seen xs rule: unique_from.induct) simp_all

lemma subseq_unique_from: "subseq (unique_from seen xs) xs"
  by (induction seen xs rule: unique_from.induct) auto

lemma unique_from_id: "distinct xs \<Longrightarrow> set xs \<inter> set seen = {} \<Longrightarrow> unique_from seen xs = xs"
proof (induction xs arbitrary: seen)
  case (Cons x xs)
  then show ?case by (auto intro!: Cons.IH)
qed simp

lemma unique_unique [simp]: "unique (unique xs) = unique xs"
  by (rule unique_from_id) simp_all

lemma unique_Nil_iff [simp]: "unique xs = [] \<longleftrightarrow> xs = []"
  by (cases xs) simp_all

text \<open>The trimmed, non-empty values, each once.\<close>

definition clean_values :: "string list \<Rightarrow> string list" where
  "clean_values xs = unique (filter (\<lambda>x. x \<noteq> []) (map trim_space xs))"

lemma set_clean_values: "set (clean_values xs) = trim_space ` set xs - {[]}"
  by (auto simp: clean_values_def)

lemma distinct_clean_values [simp]: "distinct (clean_values xs)"
  by (simp add: clean_values_def)

lemma clean_values_idem [simp]: "clean_values (clean_values xs) = clean_values xs"
proof -
  have "map trim_space (clean_values xs) = clean_values xs"
    by (rule map_idI) (auto simp: set_clean_values)
  moreover have "filter (\<lambda>x. x \<noteq> []) (clean_values xs) = clean_values xs"
    by (rule filter_True) (auto simp: set_clean_values)
  ultimately show ?thesis
    by (metis clean_values_def unique_unique)
qed

section \<open>Splitting\<close>

text \<open>\<^verbatim>\<open>strings.Split\<close> with a separator of one character.\<close>

fun split_char :: "char \<Rightarrow> string \<Rightarrow> string list" where
  "split_char c [] = [[]]"
| "split_char c (x # xs) =
     (if x = c then [] # split_char c xs
      else (case split_char c xs of [] \<Rightarrow> [[x]] | w # ws \<Rightarrow> (x # w) # ws))"

lemma split_char_ne [simp]: "split_char c s \<noteq> []"
  by (induction c s rule: split_char.induct) (auto split: list.split)

lemma split_char_plain: "c \<notin> set s \<Longrightarrow> split_char c s = [s]"
  by (induction c s rule: split_char.induct) auto

lemma split_char_append: "c \<notin> set s \<Longrightarrow> split_char c (s @ c # t) = s # split_char c t"
  by (induction s) auto

lemma split_char_join:
  assumes "ws \<noteq> []" "\<forall>w \<in> set ws. c \<notin> set w"
  shows "split_char c (str_join [c] ws) = ws"
  using assms by (induction "[c]" ws rule: str_join.induct) (simp_all add: split_char_plain split_char_append)

section \<open>Printed forms\<close>

text \<open>\<^verbatim>\<open>Duration.String\<close> of a whole number of seconds.\<close>

definition whole_seconds_text :: "int \<Rightarrow> string" where
  "whole_seconds_text s =
     (if s < 60 then int_str s @ ''s''
      else if s < 3600 then int_str (s div 60) @ ''m'' @ int_str (s mod 60) @ ''s''
      else int_str (s div 3600) @ ''h'' @ int_str (s div 60 mod 60) @ ''m'' @ int_str (s mod 60) @ ''s'')"

definition truncated_text :: "duration \<Rightarrow> string" where
  "truncated_text d =
     (if d < 0 \<and> - d div second \<noteq> 0 then ''-'' @ whole_seconds_text (- d div second)
      else whole_seconds_text (d sdiv second))"

text \<open>\<^verbatim>\<open>0x%x\<close>\<close>

fun nat_hex :: "nat \<Rightarrow> string" where
  "nat_hex n = (if n < 16 then [hex_digit n] else nat_hex (n div 16) @ [hex_digit (n mod 16)])"

declare nat_hex.simps [simp del]

definition mark_hex :: "int \<Rightarrow> string" where
  "mark_hex m = (if m < 0 then ''-0x'' @ nat_hex (nat (- m)) else ''0x'' @ nat_hex (nat m))"

definition join_host_port :: "string \<Rightarrow> int \<Rightarrow> string" where
  "join_host_port host port =
     (if CHR '':'' \<in> set host then ''['' @ host @ '']:'' @ int_str port else host @ '':'' @ int_str port)"

end
