(* ===== verification/Packages.thy ===== *)
theory Packages
  imports GoLists Errors
begin

text \<open>
  Package names and Android UIDs (\<^verbatim>\<open>daemon/internal/core/scripts.go\<close>): the parsers of the three
  catalogs, the choice of a catalog, the resolution of packages to UIDs for every Android user, the
  always-direct policy and the routing environment of the firewall scripts.

  A catalog is an association list with distinct keys; the code sorts the keys of its map before
  it uses their order.  The catalog file, the output of the package commands and the entries of the user
  directory are parameters.
\<close>

section \<open>The built-in policy tables\<close>

text \<open>
  The built-in policy tables of \<^verbatim>\<open>daemon/internal/core/scripts.go\<close>: packages that never go through
  the proxy, by exact name, by prefix and by keyword.
\<close>

definition self_test_protected_packages :: "string list" where
  "self_test_protected_packages =
     [''com.notcvnt.rknhardering'', ''com.yourvpndead'']"

definition built_in_exact :: "string list" where
  "built_in_exact =
     [''ru.oneme.app'', ''ru.fourpda.client'', ''ru.aliexpress.buyer'', ''ru.aviasales'',
      ''ru.burgerking'', ''ru.bestprice.fixprice'', ''ru.more.play'', ''ru.pepper'',
      ''ru.kfc.kfc_delivery'', ''com.apegroup.mcdonaldsrussia'', ''ru.rutube.app'',
      ''com.sevensky.app'', ''com.punicapp.whoosh'', ''ru.rt.video.app.mobile'',
      ''ru.gazprombank.android.mobilebank.app'', ''ru.letobank.Prometheus'', ''ru.dodopizza.app'',
      ''ru.ivi.client'', ''com.icemobile.lenta.prod'', ''ru.rzd.pass'', ''club.chizhik'',
      ''ru.yandex.searchplugin'', ''com.yandex.browser'', ''ru.yandex.browser'',
      ''ru.yandex.browser.lite'', ''ru.yandex.yandexmaps'', ''ru.yandex.maps'', ''ru.yandex.music'',
      ''com.vkontakte.android'', ''com.vk.im'', ''com.vk.mail'', ''com.vk.video'',
      ''com.vk.vkvideo'', ''com.uma.musicvk'', ''ru.vk.store'', ''ru.mail.mailapp'',
      ''ru.mail.cloud'', ''ru.ok.android'', ''ru.dublgis.dgismobile'', ''ru.dublgis.mobile'',
      ''ru.nspk.mirpay'', ''com.programmisty.emiasapp'', ''com.allgoritm.youla'',
      ''com.edadeal.android'', ''ru.foodfox.client'', ''ru.sbcs.store'',
      ''ru.vtb24.mobilebanking.android'', ''com.avito.android'', ''ru.ozon.app.android'',
      ''com.ozon.bank.android'', ''com.wildberries.ru'', ''ru.kinopoisk'', ''ru.kinopoisk.tv'',
      ''ru.megamarket.marketplace'', ''rtb.mobile.android'', ''ru.zen.android'',
      ''com.lamoda.lite'', ''ru.filit.mvideo.b2c'', ''ru.dns.shop.android'', ''ru.sportmaster.app'',
      ''ru.perekrestok.app'', ''ru.pyaterochka.app.browser'', ''ru.tander.magnit'', ''ru.vkusvill'',
      ''ru.beru.android'', ''ru.yandex.taxi'', ''ru.yandex.disk'', ''ru.yandex.mail'',
      ''ru.yandex.market'', ''ru.yandex.metro'', ''ru.yandex.weatherplugin'',
      ''ru.yandex.mobile.auth'', ''ru.sberbankmobile'', ''ru.sberbankmobile.arm'',
      ''ru.alfabank.mobile.android'', ''ru.tinkoff.android'', ''ru.tinkoff.investing'',
      ''com.idamob.tinkoff.android'', ''ru.raiffeisennews'', ''ru.rosbank.android'',
      ''ru.psbank.online'', ''ru.mts.bank'', ''ru.rostel'', ''ru.gosuslugi.pos'', ''ru.fns.lkfl'',
      ''ru.nalog.ibr'', ''ru.mos.app'', ''ru.mts.mymts'', ''com.beeline.dc'', ''ru.megafon.mlk'',
      ''ru.tele2.mytele2'', ''com.wireguard.android'', ''org.torproject.android'',
      ''org.torproject.torbrowser'', ''ch.protonvpn.android'', ''net.mullvad.mullvadvpn'',
      ''com.cloudflare.onedotonedotonedotone'', ''org.amnezia.vpn'', ''org.amnezia.awg'',
      ''app.hiddify.com'', ''ang.hiddify.com'', ''com.v2ray.ang'', ''com.v2raytun.android'',
      ''com.agn.v2ray'', ''com.happproxy'', ''io.nekohasekai.sfa'', ''io.nekohasekai.sagernet'',
      ''moe.nb4a'', ''org.outline.android.client'', ''net.openvpn.openvpn'', ''de.blinkt.openvpn'',
      ''com.github.shadowsocks'', ''com.getsurfboard'', ''com.github.kr328.clash'',
      ''com.github.metacubex.clash.meta'', ''com.notcvnt.rknhardering'', ''com.yourvpndead'']"

definition built_in_exclusions :: "string list" where
  "built_in_exclusions =
     [''com.supercell.clashroyale'']"

definition built_in_prefixes :: "string list" where
  "built_in_prefixes =
     [''ru.yandex.'', ''com.yandex.'', ''com.vk.'', ''ru.vk.'', ''ru.mail.'', ''com.mail.ru'',
      ''ru.ok.'', ''ru.dublgis.'', ''ru.nspk.'', ''com.programmisty.emiasapp'',
      ''com.allgoritm.youla'', ''com.edadeal.'', ''ru.foodfox.'', ''ru.sbcs.'', ''ru.ozon.'',
      ''com.ozon.'', ''com.wildberries.'', ''ru.wildberries.'', ''ru.kinopoisk'',
      ''ru.megamarket.'', ''rtb.mobile.android'', ''com.uma.musicvk'', ''ru.vk.store'', ''ru.zen.'',
      ''com.lamoda.'', ''ru.filit.mvideo.'', ''ru.dns.shop.'', ''ru.sportmaster.'',
      ''ru.perekrestok.'', ''ru.pyaterochka.'', ''ru.tander.magnit'', ''ru.vkusvill'', ''ru.vtb'',
      ''ru.sber'', ''ru.alfabank'', ''ru.tinkoff'', ''com.idamob.tinkoff'', ''ru.raiffeisen'',
      ''ru.rosbank'', ''ru.psbank'', ''ru.mts.bank'', ''ru.gosuslugi'', ''ru.fns'', ''ru.nalog'',
      ''ru.mos'', ''com.avito'', ''ru.ozon'', ''com.wildberries'', ''org.amnezia.'',
      ''app.hiddify.'', ''ang.hiddify.'', ''com.v2ray.'', ''com.v2raytun.'', ''com.happproxy'']"

definition built_in_keywords :: "string list" where
  "built_in_keywords =
     [''vpn'', ''proxy'', ''v2ray'', ''xray'', ''hiddify'', ''nekobox'', ''nekoray'', ''amnezia'',
      ''wireguard'', ''outline'', ''openvpn'', ''shadowsocks'', ''clash'', ''singbox'',
      ''sing-box'', ''sagernet'', ''tun2socks'']"

type_synonym catalog = "(string \<times> int) list"

record pkg_env =
  pe_packages_list :: "go_error + string"
  pe_command :: "bool \<Rightarrow> string \<times> go_error option"
  pe_system_command :: "bool \<Rightarrow> string \<times> go_error option"
  pe_user_dirs :: "(string \<times> bool) list option"

section \<open>The parsers\<close>

definition no_entries :: "go_error + catalog" where
  "no_entries = Inl (ErrorString ''no package UID entries found'')"

definition packages_list_line :: "string \<Rightarrow> catalog \<Rightarrow> catalog" where
  "packages_list_line raw uids =
     (let line = trim_space raw
      in if line = [] \<or> hd line = CHR 0x23 then uids
         else (let fields = str_fields line
               in if length fields < 2 then uids
                  else (let (uid, ok) = atoi (fields ! 1)
                        in if ok then AList.update (fields ! 0) uid uids else uids)))"

definition parse_packages_list_uids :: "string \<Rightarrow> go_error + catalog" where
  "parse_packages_list_uids data =
     (let uids = fold packages_list_line (split_char (CHR 0x0A) data) []
      in if uids = [] then no_entries else Inr uids)"

text \<open>\<^verbatim>\<open>strings.Cut\<close>\<close>

fun cut_at :: "char \<Rightarrow> string \<Rightarrow> (string \<times> string) option" where
  "cut_at c [] = None"
| "cut_at c (x # xs) =
     (if x = c then Some ([], xs) else map_option (\<lambda>(a, b). (x # a, b)) (cut_at c xs))"

definition cmd_package_field :: "string \<Rightarrow> string \<times> int option \<Rightarrow> string \<times> int option" where
  "cmd_package_field field acc =
     (case cut_at (CHR '':'') field of
        None \<Rightarrow> acc
      | Some (key, val) \<Rightarrow>
          (let k = to_lower (trim_space key)
           in if k = ''package'' then (trim_space val, snd acc)
              else if k = ''uid'' \<or> k = ''userid''
              then (let (n, ok) = atoi (trim_space val) in if ok then (fst acc, Some n) else acc)
              else acc))"

definition cmd_package_line :: "string \<Rightarrow> catalog \<Rightarrow> catalog" where
  "cmd_package_line raw uids =
     (let line = trim_space raw
      in if line = [] then uids
         else (case fold cmd_package_field (str_fields line) ([], None) of
                 (name, Some uid) \<Rightarrow> if name \<noteq> [] then AList.update name uid uids else uids
               | (name, None) \<Rightarrow> uids))"

definition parse_cmd_package_uids :: "string \<Rightarrow> go_error + catalog" where
  "parse_cmd_package_uids data =
     (let uids = fold cmd_package_line (split_char (CHR 0x0A) data) []
      in if uids = [] then no_entries else Inr uids)"

definition discover_user_ids :: "pkg_env \<Rightarrow> int list" where
  "discover_user_ids env =
     (case pe_user_dirs env of
        None \<Rightarrow> [0]
      | Some entries \<Rightarrow>
          sort (0 # concat (map (\<lambda>(name, is_dir).
                  if \<not> is_dir then []
                  else (let (uid, ok) = atoi name in if ok \<and> 0 < uid then [uid] else [])) entries)))"

section \<open>The catalogs\<close>

record source_status =
  ss_Source :: string
  ss_Available :: bool
  ss_Entries :: nat
  ss_Error :: string

record catalog_result =
  cr_source :: string
  cr_uids :: catalog
  cr_status :: source_status
  cr_errText :: string

definition new_catalog_result :: "string \<Rightarrow> go_error + catalog \<Rightarrow> catalog_result" where
  "new_catalog_result source loaded =
     (case loaded of
        Inl e \<Rightarrow> \<lparr>cr_source = source, cr_uids = [],
                  cr_status = \<lparr>ss_Source = source, ss_Available = False, ss_Entries = 0, ss_Error = error_msg e\<rparr>,
                  cr_errText = error_msg e\<rparr>
      | Inr uids \<Rightarrow> \<lparr>cr_source = source, cr_uids = uids,
                  cr_status = \<lparr>ss_Source = source, ss_Available = True, ss_Entries = length uids, ss_Error = []\<rparr>,
                  cr_errText = []\<rparr>)"

definition load_command_catalog :: "string \<times> go_error option \<Rightarrow> go_error + catalog" where
  "load_command_catalog r = (case snd r of Some e \<Rightarrow> Inl e | None \<Rightarrow> parse_cmd_package_uids (fst r))"

definition catalog_loaders :: "pkg_env \<Rightarrow> (string \<times> (go_error + catalog)) list" where
  "catalog_loaders env =
     [(''packages.list'', case pe_packages_list env of Inl e \<Rightarrow> Inl e | Inr d \<Rightarrow> parse_packages_list_uids d),
      (''cmd_package'', load_command_catalog (pe_command env False)),
      (''cmd_package_shell'', load_command_catalog (pe_command env True))]"

fun load_until :: "bool \<Rightarrow> catalog_result list \<Rightarrow> catalog_result list" where
  "load_until probe_all [] = []"
| "load_until probe_all (r # rs) =
     r # (if \<not> probe_all \<and> ss_Available (cr_status r) then [] else load_until probe_all rs)"

definition all_catalogs :: "pkg_env \<Rightarrow> catalog_result list" where
  "all_catalogs env = map (\<lambda>(source, loaded). new_catalog_result source loaded) (catalog_loaders env)"

definition load_package_uid_catalogs :: "pkg_env \<Rightarrow> bool \<Rightarrow> catalog_result list" where
  "load_package_uid_catalogs env probe_all = load_until probe_all (all_catalogs env)"

definition source_statuses :: "catalog_result list \<Rightarrow> source_status list" where
  "source_statuses cs = map cr_status cs"

definition source_errors :: "catalog_result list \<Rightarrow> string list" where
  "source_errors cs = map (\<lambda>c. cr_source c @ '': '' @ cr_errText c) (filter (\<lambda>c. cr_errText c \<noteq> []) cs)"

section \<open>Resolving packages\<close>

record uid_resolution =
  ur_Source :: string
  ur_UIDs :: "string list"
  ur_UIDString :: string
  ur_RequestedPackages :: "string list"
  ur_UnresolvedPackages :: "string list"
  ur_Errors :: "string list"
  ur_Sources :: "source_status list"

definition empty_resolution :: uid_resolution where
  "empty_resolution = \<lparr>ur_Source = [], ur_UIDs = [], ur_UIDString = [], ur_RequestedPackages = [],
     ur_UnresolvedPackages = [], ur_Errors = [], ur_Sources = []\<rparr>"

definition app_id :: "int \<Rightarrow> int" where
  "app_id uid = uid smod 100000"

text \<open>The UID of an application for one user, in Go's 64-bit integers.\<close>

definition full_uid :: "int \<Rightarrow> int \<Rightarrow> int" where
  "full_uid user uid = sint (word_of_int (user * 100000 + app_id uid) :: int64)"

definition catalog_uids :: "int list \<Rightarrow> catalog \<Rightarrow> (string \<Rightarrow> bool) \<Rightarrow> int list" where
  "catalog_uids users cat match =
     sort (unique (concat (map (\<lambda>name. case map_of cat name of
            None \<Rightarrow> []
          | Some uid \<Rightarrow> map (\<lambda>u. full_uid u uid) users)
        (filter match (sort (map fst cat))))))"

definition resolve_from_catalog ::
  "pkg_env \<Rightarrow> string \<Rightarrow> catalog \<Rightarrow> string list \<Rightarrow> (string \<Rightarrow> bool) \<Rightarrow> uid_resolution" where
  "resolve_from_catalog env source cat requested match =
     (let uids = map int_str (catalog_uids (discover_user_ids env) cat match)
      in empty_resolution\<lparr>ur_Source := source, ur_UIDs := uids, ur_UIDString := str_join '' '' uids,
           ur_RequestedPackages := requested,
           ur_UnresolvedPackages := filter (\<lambda>p. \<not> (p \<in> set (map fst cat) \<and> match p)) requested\<rparr>)"

text \<open>
  The best candidate so far, with its number of resolved packages and of unresolved ones; both
  loops compare and stop the same way.
\<close>

type_synonym best = "uid_resolution \<times> int \<times> int"

definition candidate_rank :: "string list \<Rightarrow> uid_resolution \<Rightarrow> int" where
  "candidate_rank requested c =
     (if requested = [] then int (length (ur_UIDs c))
      else int (length requested) - int (length (ur_UnresolvedPackages c)))"

definition better :: "string list \<Rightarrow> uid_resolution \<Rightarrow> best \<Rightarrow> bool" where
  "better requested c b =
     (let unresolved = int (length (ur_UnresolvedPackages c))
      in ur_Source (fst b) = [] \<or> unresolved < snd (snd b) \<or>
         (unresolved = snd (snd b) \<and> fst (snd b) < candidate_rank requested c))"

definition take_candidate :: "string list \<Rightarrow> uid_resolution \<Rightarrow> best \<Rightarrow> best" where
  "take_candidate requested c b =
     (if better requested c b
      then (c, candidate_rank requested c, int (length (ur_UnresolvedPackages c))) else b)"

definition satisfied :: "string list \<Rightarrow> uid_resolution \<Rightarrow> bool" where
  "satisfied requested c \<longleftrightarrow> requested = [] \<or> ur_UnresolvedPackages c = []"

definition first_best :: "string list \<Rightarrow> best" where
  "first_best requested = (empty_resolution, -1, int (length requested) + 1)"

definition finish_best :: "string list \<Rightarrow> catalog_result list \<Rightarrow> uid_resolution \<Rightarrow> uid_resolution" where
  "finish_best requested catalogs b =
     (let b1 = (if ur_Source b = []
                then b\<lparr>ur_RequestedPackages := requested, ur_UnresolvedPackages := requested\<rparr> else b)
      in b1\<lparr>ur_Sources := source_statuses catalogs, ur_Errors := source_errors catalogs\<rparr>)"

text \<open>The loop that loads while it compares: the catalogs it has loaded, and the best candidate.\<close>

fun probe_sources ::
  "pkg_env \<Rightarrow> bool \<Rightarrow> string list \<Rightarrow> (string \<Rightarrow> bool) \<Rightarrow> catalog_result list \<Rightarrow> catalog_result list \<times> best
     \<Rightarrow> catalog_result list \<times> best" where
  "probe_sources env probe_all requested match [] acc = acc"
| "probe_sources env probe_all requested match (r # rs) (loaded, b) =
     (if cr_uids r = [] then probe_sources env probe_all requested match rs (loaded @ [r], b)
      else (let c = resolve_from_catalog env (cr_source r) (cr_uids r) requested match;
                b1 = take_candidate requested c b
            in if \<not> probe_all \<and> satisfied requested c then (loaded @ [r], b1)
               else probe_sources env probe_all requested match rs (loaded @ [r], b1)))"

definition resolve_from_sources ::
  "pkg_env \<Rightarrow> string list \<Rightarrow> (string \<Rightarrow> bool) \<Rightarrow> bool \<Rightarrow> uid_resolution" where
  "resolve_from_sources env requested match probe_all =
     (let (loaded, b) = probe_sources env probe_all requested match (all_catalogs env) ([], first_best requested)
      in finish_best requested loaded (fst b))"

fun compare_catalogs ::
  "pkg_env \<Rightarrow> string list \<Rightarrow> (string \<Rightarrow> bool) \<Rightarrow> catalog_result list \<Rightarrow> best \<Rightarrow> best" where
  "compare_catalogs env requested match [] b = b"
| "compare_catalogs env requested match (r # rs) b =
     (if cr_uids r = [] then compare_catalogs env requested match rs b
      else (let c = resolve_from_catalog env (cr_source r) (cr_uids r) requested match;
                b1 = take_candidate requested c b
            in if satisfied requested c then b1 else compare_catalogs env requested match rs b1))"

definition resolve_from_catalogs ::
  "pkg_env \<Rightarrow> catalog_result list \<Rightarrow> string list \<Rightarrow> (string \<Rightarrow> bool) \<Rightarrow> uid_resolution" where
  "resolve_from_catalogs env catalogs requested match =
     finish_best requested catalogs (fst (compare_catalogs env requested match catalogs (first_best requested)))"

section \<open>The always-direct policy\<close>

definition is_built_in_always_direct :: "string \<Rightarrow> string list \<Rightarrow> bool" where
  "is_built_in_always_direct name excluded =
     (if name \<in> set excluded \<or> name \<in> set built_in_exclusions then False
      else name \<in> set built_in_exact \<or> (\<exists>p \<in> set built_in_prefixes. has_prefix name p) \<or>
           (\<exists>k \<in> set built_in_keywords. str_contains (to_lower name) k))"

text \<open>A package set is its list of values; \<open>package_values\<close> is \<^verbatim>\<open>values\<close>, sorted.\<close>

definition package_set :: "string list \<Rightarrow> string list" where
  "package_set = clean_values"

definition package_values :: "string list \<Rightarrow> string list" where
  "package_values s = sort s"

definition join_unique_string_slices :: "string list list \<Rightarrow> string list" where
  "join_unique_string_slices slices = sort (clean_values (concat slices))"

definition package_set_from_output :: "string \<Rightarrow> string list \<times> string list" where
  "package_set_from_output out =
     (case parse_cmd_package_uids out of
        Inl e \<Rightarrow> ([], [''cmd_package_system_parse: '' @ error_msg e])
      | Inr uids \<Rightarrow> (map fst uids, []))"

definition load_system_package_set :: "pkg_env \<Rightarrow> bool \<Rightarrow> string list \<times> string list" where
  "load_system_package_set env enabled =
     (if \<not> enabled then ([], [])
      else (case pe_system_command env False of
              (out, None) \<Rightarrow> package_set_from_output out
            | (out, Some e) \<Rightarrow>
                (let errs = [''cmd_package_system: '' @ error_msg e]
                 in case pe_system_command env True of
                      (out2, None) \<Rightarrow>
                        (let (s, parse_errs) = package_set_from_output out2 in (s, errs @ parse_errs))
                    | (out2, Some e2) \<Rightarrow> ([], errs @ [''cmd_package_system_shell: '' @ error_msg e2]))))"

definition always_direct_match :: "string list \<Rightarrow> string list \<Rightarrow> string list \<Rightarrow> string \<Rightarrow> bool" where
  "always_direct_match user excluded system name \<longleftrightarrow>
     name \<in> set user \<or> (name \<notin> set excluded \<and> name \<in> set system) \<or> is_built_in_always_direct name excluded"

definition resolve_package_uids :: "pkg_env \<Rightarrow> string list \<Rightarrow> uid_resolution" where
  "resolve_package_uids env packages =
     (let wanted = package_set packages
      in resolve_from_sources env (package_values wanted) (\<lambda>p. p \<in> set wanted) False)"

definition resolve_always_direct_uids ::
  "pkg_env \<Rightarrow> string list \<Rightarrow> string list \<Rightarrow> bool \<Rightarrow> uid_resolution" where
  "resolve_always_direct_uids env packages excluded_packages include_system =
     (let user = package_set packages; excluded = package_set excluded_packages;
          (system, system_errors) = load_system_package_set env include_system;
          r = resolve_from_sources env
                (join_unique_string_slices [package_values user, package_values system])
                (always_direct_match user excluded system) False
      in r\<lparr>ur_Errors := ur_Errors r @ system_errors\<rparr>)"

definition resolve_always_direct_names ::
  "pkg_env \<Rightarrow> string list \<Rightarrow> string list \<Rightarrow> bool \<Rightarrow> string list" where
  "resolve_always_direct_names env packages excluded_packages include_system =
     (let user = package_set packages; excluded = package_set excluded_packages;
          (system, system_errors) = load_system_package_set env include_system;
          installed = (case filter (\<lambda>c. cr_uids c \<noteq> []) (load_package_uid_catalogs env False) of
                         [] \<Rightarrow> [] | c # cs \<Rightarrow> filter (always_direct_match user excluded system) (map fst (cr_uids c)))
      in sort (clean_values (package_values user @ installed)))"

record routing_resolution =
  pr_Selected :: uid_resolution
  pr_AlwaysDirect :: uid_resolution
  pr_Sources :: "source_status list"
  pr_Errors :: "string list"

definition build_package_routing_resolution ::
  "pkg_env \<Rightarrow> string list \<Rightarrow> string list \<Rightarrow> string list \<Rightarrow> bool \<Rightarrow> routing_resolution" where
  "build_package_routing_resolution env packages always_direct excluded_packages include_system =
     (let catalogs = load_package_uid_catalogs env True;
          selected = package_set packages; always = package_set always_direct;
          excluded = package_set excluded_packages;
          (system, system_errors) = load_system_package_set env include_system
      in \<lparr>pr_Selected = resolve_from_catalogs env catalogs (package_values selected) (\<lambda>p. p \<in> set selected),
          pr_AlwaysDirect = resolve_from_catalogs env catalogs
            (join_unique_string_slices [package_values always, package_values system])
            (always_direct_match always excluded system),
          pr_Sources = source_statuses catalogs,
          pr_Errors = source_errors catalogs @ system_errors\<rparr>)"

section \<open>The routing environment\<close>

definition join_unique_fields :: "string list \<Rightarrow> string" where
  "join_unique_fields vals = str_join '' '' (unique (concat (map str_fields vals)))"

definition map_app_mode :: "string \<Rightarrow> string" where
  "map_app_mode mode =
     (if mode = ''whitelist'' \<or> mode = ''include'' then ''whitelist''
      else if mode = ''blacklist'' \<or> mode = ''exclude'' then ''blacklist''
      else if mode = ''off'' \<or> mode = ''direct'' \<or> mode = ''disabled'' then ''off''
      else ''all'')"

record app_routing_env =
  ar_AppMode :: string
  ar_ProxyUIDs :: string
  ar_DirectUIDs :: string
  ar_BypassUIDs :: string
  ar_DNSScope :: string
  ar_DNSMode :: string

definition network_stack_uid :: string where
  "network_stack_uid = ''1073''"

definition bypass_uids :: "pkg_env \<Rightarrow> string list \<Rightarrow> string list \<Rightarrow> bool \<Rightarrow> string" where
  "bypass_uids env always_direct excluded include_system =
     join_unique_fields [network_stack_uid,
       ur_UIDString (resolve_always_direct_uids env always_direct excluded include_system)]"

definition build_app_routing_env ::
  "pkg_env \<Rightarrow> string \<Rightarrow> string list \<Rightarrow> string list \<Rightarrow> string list \<Rightarrow> bool \<Rightarrow> app_routing_env" where
  "build_app_routing_env env mode packages always_direct excluded include_system =
     (let app_mode = map_app_mode mode;
          base = \<lparr>ar_AppMode = app_mode, ar_ProxyUIDs = [], ar_DirectUIDs = [],
                  ar_BypassUIDs = bypass_uids env always_direct excluded include_system,
                  ar_DNSScope = [], ar_DNSMode = []\<rparr>;
          selected = ur_UIDString (resolve_package_uids env packages)
      in if app_mode = ''whitelist''
         then base\<lparr>ar_ProxyUIDs := selected, ar_DNSScope := ''uids'', ar_DNSMode := ''per_uid''\<rparr>
         else if app_mode = ''blacklist''
         then base\<lparr>ar_DirectUIDs := selected, ar_DNSScope := ''all_except_uids'', ar_DNSMode := ''per_uid''\<rparr>
         else if app_mode = ''off''
         then base\<lparr>ar_DNSScope := ''off'', ar_DNSMode := ''off''\<rparr>
         else base\<lparr>ar_AppMode := ''all'', ar_DNSScope := ''all'', ar_DNSMode := ''all''\<rparr>)"

definition build_runtime_app_routing_env ::
  "pkg_env \<Rightarrow> string \<Rightarrow> string list \<Rightarrow> string list \<Rightarrow> string list \<Rightarrow> bool \<Rightarrow> string \<Rightarrow> app_routing_env" where
  "build_runtime_app_routing_env env app_mode packages always_direct excluded include_system routing_mode =
     (if equal_fold (trim_space routing_mode) ''direct''
      then \<lparr>ar_AppMode = ''off'', ar_ProxyUIDs = [], ar_DirectUIDs = [],
            ar_BypassUIDs = bypass_uids env always_direct excluded include_system,
            ar_DNSScope = ''off'', ar_DNSMode = ''off''\<rparr>
      else build_app_routing_env env app_mode packages always_direct excluded include_system)"

end
