(* ===== verification/IpAddress.thy ===== *)
theory IpAddress
  imports GoLists
begin

text \<open>
  \<^verbatim>\<open>net.ParseIP\<close> with \<^verbatim>\<open>IsLoopback\<close> and \<^verbatim>\<open>IsUnspecified\<close>: dotted quads without leading
  zeros, and IPv6 text with one ellipsis and a trailing dotted quad, as eight 16-bit groups.  An IPv4
  address is kept in its mapped form, as Go does.
\<close>

definition ipv4_field :: "string \<Rightarrow> nat option" where
  "ipv4_field s =
     (if s = [] \<or> 3 < length s \<or> \<not> list_all is_digit s \<or> (1 < length s \<and> hd s = CHR ''0'') then None
      else (let n = digits_value s in if n \<le> 255 then Some n else None))"

definition parse_ipv4 :: "string \<Rightarrow> nat list option" where
  "parse_ipv4 s =
     (let fields = map ipv4_field (split_char (CHR ''.'') s)
      in if length fields = 4 \<and> None \<notin> set fields then Some (map the fields) else None)"

definition group_value :: "string \<Rightarrow> nat" where
  "group_value s = (case hex_number s of None \<Rightarrow> 0 | Some n \<Rightarrow> n)"

definition is_hex :: "char \<Rightarrow> bool" where
  "is_hex c \<longleftrightarrow> hex_value c \<noteq> None"

text \<open>The groups read so far and the position of the ellipsis.\<close>

function ipv6_groups :: "nat list \<Rightarrow> nat option \<Rightarrow> string \<Rightarrow> (nat list \<times> nat option) option" where
  "ipv6_groups gs ell s =
     (if 8 \<le> length gs then (if s = [] then Some (gs, ell) else None)
      else (let hex = takeWhile is_hex s; rest = dropWhile is_hex s; gs1 = gs @ [group_value hex]
            in if hex = [] \<or> 4 < length hex then None
               else (case rest of
                       [] \<Rightarrow> Some (gs1, ell)
                     | c # r \<Rightarrow>
                         if c = CHR ''.''
                         then (if (ell = None \<and> length gs \<noteq> 6) \<or> 6 < length gs then None
                               else (case parse_ipv4 s of
                                       Some [a, b, x, y] \<Rightarrow> Some (gs @ [256 * a + b, 256 * x + y], ell)
                                     | _ \<Rightarrow> None))
                         else if c \<noteq> CHR '':'' then None
                         else (case r of
                                 [] \<Rightarrow> None
                               | d # r' \<Rightarrow>
                                   if d = CHR '':''
                                   then (if ell \<noteq> None then None
                                         else if r' = [] then Some (gs1, Some (length gs1))
                                         else ipv6_groups gs1 (Some (length gs1)) r')
                                   else ipv6_groups gs1 ell r))))"
  by pat_completeness auto

termination
proof (relation "measure (\<lambda>(gs, ell, s). length s)", goal_cases)
  case (2 gs ell s hex rest gs1 c r d r')
  then have "length (c # d # r') \<le> length s" by (metis length_dropWhile_le)
  then show ?case by simp
next
  case (3 gs ell s hex rest gs1 c r d r')
  then have "length (c # d # r') \<le> length s" by (metis length_dropWhile_le)
  with 3 show ?case by simp
qed simp

declare ipv6_groups.simps [simp del]

definition expand_ellipsis :: "nat list \<times> nat option \<Rightarrow> nat list option" where
  "expand_ellipsis p =
     (let (gs, ell) = p
      in case ell of
           None \<Rightarrow> if length gs = 8 then Some gs else None
         | Some k \<Rightarrow> if length gs < 8 then Some (take k gs @ replicate (8 - length gs) 0 @ drop k gs) else None)"

definition parse_ipv6 :: "string \<Rightarrow> nat list option" where
  "parse_ipv6 s =
     (if take 2 s = ''::''
      then (if length s = 2 then Some (replicate 8 0)
            else Option.bind (ipv6_groups [] (Some 0) (drop 2 s)) expand_ellipsis)
      else Option.bind (ipv6_groups [] None s) expand_ellipsis)"

definition parse_ip :: "string \<Rightarrow> nat list option" where
  "parse_ip s =
     (case find (\<lambda>c. c \<in> {CHR ''.'', CHR '':'', CHR 0x25}) s of
        None \<Rightarrow> None
      | Some c \<Rightarrow>
          if c = CHR ''.''
          then (case parse_ipv4 s of
                  Some [a, b, x, y] \<Rightarrow> Some [0, 0, 0, 0, 0, 65535, 256 * a + b, 256 * x + y]
                | _ \<Rightarrow> None)
          else if c = CHR '':'' then parse_ipv6 s else None)"

text \<open>The loopback test looks at an IPv4 address in its mapped form.\<close>

definition is_mapped_v4 :: "nat list \<Rightarrow> bool" where
  "is_mapped_v4 ip \<longleftrightarrow> take 6 ip = [0, 0, 0, 0, 0, 65535]"

definition ip_is_loopback :: "nat list \<Rightarrow> bool" where
  "ip_is_loopback ip =
     (if is_mapped_v4 ip then ip ! 6 div 256 = 127 else ip = [0, 0, 0, 0, 0, 0, 0, 1])"

definition ip_is_unspecified :: "nat list \<Rightarrow> bool" where
  "ip_is_unspecified ip \<longleftrightarrow> ip = [0, 0, 0, 0, 0, 65535, 0, 0] \<or> ip = replicate 8 0"

definition is_local_endpoint :: "string \<Rightarrow> bool" where
  "is_local_endpoint address =
     (let host = trim_set ''[]'' (to_lower (trim_space address))
      in if host = [] then False
         else if host = ''localhost'' \<or> host = ''ip6-localhost'' then True
         else (case parse_ip host of
                 None \<Rightarrow> False
               | Some ip \<Rightarrow> ip_is_loopback ip \<or> ip_is_unspecified ip))"

end
