(* ===== verification/Config.thy ===== *)
theory Config
  imports GoText Errors
begin

text \<open>
  The daemon configuration (\<^verbatim>\<open>daemon/internal/config/config.go\<close>): its sections as records, the
  defaults, validation, the sharing settings of the script environment, and the resolution of the
  active node into a flat profile.  Stored nodes, subscriptions and inbounds are raw JSON, as
  in the code; the decoders of package \<^verbatim>\<open>encoding/json\<close> at the types the code decodes
  them into are a parameter, \<^verbatim>\<open>json_codec\<close>, and so is \<^verbatim>\<open>profileFromStoredNode\<close> of the renderer.
  A missing map is the empty map.
\<close>

section \<open>The sections\<close>

record proxy_config =
  px_Mode :: string
  px_TProxyPort :: int
  px_DNSPort :: int
  px_GID :: int
  px_Mark :: int
  px_APIPort :: int
  px_APISecret :: string

record transport_config =
  tr_Protocol :: string
  tr_TLSServer :: string
  tr_Fingerprint :: string
  tr_Extra :: env

record node_config =
  nc_Address :: string
  nc_Port :: int
  nc_Protocol :: string
  nc_UUID :: string
  nc_Username :: string
  nc_Password :: string
  nc_Flow :: string
  nc_SSMethod :: string
  nc_SSPlugin :: string
  nc_SSPluginOpts :: string
  nc_SocksVersion :: string
  nc_Network :: string
  nc_OwnerPackage :: string
  nc_ServerPorts :: "string list"
  nc_ObfsType :: string
  nc_ObfsPassword :: string
  nc_AlterID :: int
  nc_Security :: string
  nc_RealityPublicKey :: string
  nc_RealityShortID :: string
  nc_WGPrivateKey :: string
  nc_WGPeerPublicKey :: string
  nc_WGPresharedKey :: string
  nc_WGLocalAddress :: "string list"
  nc_WGAllowedIPs :: string
  nc_WGMTU :: int
  nc_WGReserved :: "int list"

record profile_projection =
  pp_ID :: string
  pp_Name :: string
  pp_ActiveNodeID :: string
  pp_Nodes :: "string list"
  pp_Subscriptions :: "string list"
  pp_Tun :: string
  pp_Inbounds :: string
  pp_Extra :: string

record runtime_v2_config =
  rv_BackendKind :: string
  rv_FallbackPolicy :: string

record profile_inbounds =
  pi_SocksPort :: int
  pi_HTTPPort :: int
  pi_AllowLAN :: bool

record node_source =
  so_Type :: string
  so_URL :: string
  so_ProviderKey :: string
  so_LastSeenAt :: int

record profile_subscription =
  su_ProviderKey :: string
  su_URL :: string
  su_Name :: string
  su_LastFetchedAt :: int
  su_LastSeenNodeCount :: int
  su_StaleNodeCount :: int
  su_UploadBytes :: int
  su_DownloadBytes :: int
  su_TotalBytes :: int
  su_ExpireTimestamp :: int
  su_ParseFailures :: int

record validation_node =
  vn_ID :: string
  vn_Protocol :: string
  vn_Server :: string
  vn_Port :: int
  vn_Stale :: bool
  vn_Source :: "node_source option"

record routing_config =
  rt_Mode :: string
  rt_BypassLAN :: bool
  rt_BypassChina :: bool
  rt_BypassRussia :: bool
  rt_BlockAds :: bool
  rt_CustomDirect :: "string list"
  rt_CustomProxy :: "string list"
  rt_CustomBlock :: "string list"
  rt_InactiveAppProxyList :: "string list"
  rt_InactiveAppBypassList :: "string list"
  rt_AlwaysDirectApps :: "string list"
  rt_AlwaysDirectExcludedApps :: "string list"
  rt_AlwaysDirectSystemApps :: bool

record apps_config =
  ap_Mode :: string
  ap_Packages :: "string list"
  ap_AppGroups :: env

record dns_config =
  dn_HijackPerUID :: bool
  dn_ProxyDNS :: string
  dn_DirectDNS :: string
  dn_BootstrapIP :: string
  dn_FakeIP :: bool

record sharing_config =
  sh_Enabled :: bool
  sh_Interfaces :: "string list"

record health_config =
  hc_Enabled :: bool
  hc_IntervalSec :: int
  hc_Threshold :: int
  hc_URL :: string
  hc_TimeoutSec :: int
  hc_DNSProbeDomains :: "string list"
  hc_EgressURLs :: "string list"
  hc_DNSIsHardReadiness :: bool

record rescue_config =
  rc_Enabled :: bool
  rc_MaxAttempts :: int
  rc_CooldownSec :: int

record config =
  cf_SchemaVersion :: int
  cf_Proxy :: proxy_config
  cf_Transport :: transport_config
  cf_Node :: node_config
  cf_Profile :: profile_projection
  cf_RuntimeV2 :: runtime_v2_config
  cf_Routing :: routing_config
  cf_Apps :: apps_config
  cf_DNS :: dns_config
  cf_IPv6_Mode :: string
  cf_Sharing :: sharing_config
  cf_Health :: health_config
  cf_Rescue :: rescue_config
  cf_Autostart :: bool

record node_profile =
  np_ID :: string
  np_Name :: string
  np_Group :: string
  np_Tag :: string
  np_Protocol :: string
  np_Address :: string
  np_Port :: int
  np_UUID :: string
  np_Username :: string
  np_Password :: string
  np_Flow :: string
  np_Transport :: string
  np_TLSServer :: string
  np_Fingerprint :: string
  np_SSMethod :: string
  np_SSPlugin :: string
  np_SSPluginOpts :: string
  np_SocksVersion :: string
  np_Network :: string
  np_OwnerPackage :: string
  np_ServerPorts :: "string list"
  np_ObfsType :: string
  np_ObfsPassword :: string
  np_AlterID :: int
  np_Security :: string
  np_RealityPubKey :: string
  np_RealityShortID :: string
  np_WGPrivateKey :: string
  np_WGPeerPublicKey :: string
  np_WGPresharedKey :: string
  np_WGLocalAddress :: "string list"
  np_WGAllowedIPs :: string
  np_WGMTU :: int
  np_WGReserved :: "int list"
  np_Extra :: env
  np_Stale :: bool
  np_RawOutbound :: string

definition empty_profile :: node_profile where
  "empty_profile = \<lparr>np_ID = [], np_Name = [], np_Group = [], np_Tag = [], np_Protocol = [],
     np_Address = [], np_Port = 0, np_UUID = [], np_Username = [], np_Password = [], np_Flow = [],
     np_Transport = [], np_TLSServer = [], np_Fingerprint = [], np_SSMethod = [], np_SSPlugin = [],
     np_SSPluginOpts = [], np_SocksVersion = [], np_Network = [], np_OwnerPackage = [],
     np_ServerPorts = [], np_ObfsType = [], np_ObfsPassword = [], np_AlterID = 0, np_Security = [],
     np_RealityPubKey = [], np_RealityShortID = [], np_WGPrivateKey = [], np_WGPeerPublicKey = [],
     np_WGPresharedKey = [], np_WGLocalAddress = [], np_WGAllowedIPs = [], np_WGMTU = 0,
     np_WGReserved = [], np_Extra = Map.empty, np_Stale = False, np_RawOutbound = []\<rparr>"

section \<open>Defaults\<close>

definition current_schema_version :: int where
  "current_schema_version = 5"

definition xray_sidecar_socks_port :: int where
  "xray_sidecar_socks_port = 10859"

definition default_clash_api_port :: int where
  "default_clash_api_port = 19090"

definition default_proxy :: proxy_config where
  "default_proxy = \<lparr>px_Mode = ''tproxy'', px_TProxyPort = 10853, px_DNSPort = 10856,
     px_GID = 23333, px_Mark = 8227, px_APIPort = 0, px_APISecret = []\<rparr>"

definition default_transport :: transport_config where
  "default_transport = \<lparr>tr_Protocol = ''reality'', tr_TLSServer = [], tr_Fingerprint = ''chrome'',
     tr_Extra = Map.empty\<rparr>"

definition default_node :: node_config where
  "default_node = \<lparr>nc_Address = [], nc_Port = 443, nc_Protocol = ''vless'', nc_UUID = [],
     nc_Username = [], nc_Password = [], nc_Flow = [], nc_SSMethod = [], nc_SSPlugin = [],
     nc_SSPluginOpts = [], nc_SocksVersion = [], nc_Network = [], nc_OwnerPackage = [],
     nc_ServerPorts = [], nc_ObfsType = [], nc_ObfsPassword = [], nc_AlterID = 0, nc_Security = [],
     nc_RealityPublicKey = [], nc_RealityShortID = [], nc_WGPrivateKey = [],
     nc_WGPeerPublicKey = [], nc_WGPresharedKey = [], nc_WGLocalAddress = [],
     nc_WGAllowedIPs = [], nc_WGMTU = 0, nc_WGReserved = []\<rparr>"

definition default_projection :: profile_projection where
  "default_projection = \<lparr>pp_ID = ''default'', pp_Name = ''Default'', pp_ActiveNodeID = [],
     pp_Nodes = [], pp_Subscriptions = [], pp_Tun = [], pp_Inbounds = [], pp_Extra = []\<rparr>"

definition default_routing :: routing_config where
  "default_routing = \<lparr>rt_Mode = ''all'', rt_BypassLAN = True, rt_BypassChina = False,
     rt_BypassRussia = True, rt_BlockAds = False, rt_CustomDirect = [], rt_CustomProxy = [],
     rt_CustomBlock = [], rt_InactiveAppProxyList = [], rt_InactiveAppBypassList = [],
     rt_AlwaysDirectApps = [], rt_AlwaysDirectExcludedApps = [], rt_AlwaysDirectSystemApps = True\<rparr>"

definition default_health :: health_config where
  "default_health = \<lparr>hc_Enabled = True, hc_IntervalSec = 30, hc_Threshold = 3,
     hc_URL = ''https://www.gstatic.com/generate_204'', hc_TimeoutSec = 5,
     hc_DNSProbeDomains = [''connectivitycheck.gstatic.com'', ''cloudflare.com'', ''example.com''],
     hc_EgressURLs = [''https://www.gstatic.com/generate_204'', ''https://cp.cloudflare.com/generate_204''],
     hc_DNSIsHardReadiness = False\<rparr>"

definition default_config :: config where
  "default_config = \<lparr>cf_SchemaVersion = current_schema_version, cf_Proxy = default_proxy,
     cf_Transport = default_transport, cf_Node = default_node, cf_Profile = default_projection,
     cf_RuntimeV2 = \<lparr>rv_BackendKind = ''ROOT_TPROXY'', rv_FallbackPolicy = ''OFFER_RESET''\<rparr>,
     cf_Routing = default_routing,
     cf_Apps = \<lparr>ap_Mode = ''all'', ap_Packages = [], ap_AppGroups = Map.empty\<rparr>,
     cf_DNS = \<lparr>dn_HijackPerUID = True, dn_ProxyDNS = ''https://1.1.1.1/dns-query'',
               dn_DirectDNS = ''https://dns.google/dns-query'', dn_BootstrapIP = ''1.1.1.1'',
               dn_FakeIP = False\<rparr>,
     cf_IPv6_Mode = ''mirror'', cf_Sharing = \<lparr>sh_Enabled = False, sh_Interfaces = []\<rparr>,
     cf_Health = default_health,
     cf_Rescue = \<lparr>rc_Enabled = True, rc_MaxAttempts = 3, rc_CooldownSec = 60\<rparr>,
     cf_Autostart = False\<rparr>"

section \<open>Sharing and inbounds\<close>

definition sharing_mode_env :: "config option \<Rightarrow> string" where
  "sharing_mode_env c =
     (case c of None \<Rightarrow> ''off''
      | Some cfg \<Rightarrow> if sh_Enabled (cf_Sharing cfg) then ''hotspot'' else ''off'')"

definition sharing_interfaces_env :: "config option \<Rightarrow> string" where
  "sharing_interfaces_env c =
     (case c of None \<Rightarrow> []
      | Some cfg \<Rightarrow>
          str_join '' '' (filter (\<lambda>i. i \<noteq> []) (map trim_space (sh_Interfaces (cf_Sharing cfg)))))"

record json_codec =
  jc_inbounds :: "string \<Rightarrow> go_error + profile_inbounds"
  jc_subscription :: "string \<Rightarrow> go_error + profile_subscription"
  jc_node :: "string \<Rightarrow> go_error + validation_node"
  jc_stored_node :: "string \<Rightarrow> nat \<Rightarrow> go_error + node_profile"

definition resolve_profile_inbounds :: "json_codec \<Rightarrow> config \<Rightarrow> profile_inbounds" where
  "resolve_profile_inbounds codec cfg =
     (let result = \<lparr>pi_SocksPort = 0, pi_HTTPPort = 0, pi_AllowLAN = False\<rparr>
      in if pp_Inbounds (cf_Profile cfg) = [] then result
         else (case jc_inbounds codec (pp_Inbounds (cf_Profile cfg)) of
                 Inl e \<Rightarrow> result
               | Inr decoded \<Rightarrow>
                   \<lparr>pi_SocksPort = (if 0 < pi_SocksPort decoded then pi_SocksPort decoded else 0),
                    pi_HTTPPort = (if 0 < pi_HTTPPort decoded then pi_HTTPPort decoded else 0),
                    pi_AllowLAN = False\<rparr>))"

end
