(* ===== verification/ConfigRules.thy ===== *)
theory ConfigRules
  imports Config
begin

text \<open>
  The rules of the configuration: \<^verbatim>\<open>Validate\<close>, the normalisation of stored nodes' sources, the
  choice of the active profile and its projection into the flat node section
  (\<^verbatim>\<open>daemon/internal/config/config.go\<close>, and \<^verbatim>\<open>ResolveActiveProfile\<close> of
  \<^verbatim>\<open>renderer.go\<close>).
\<close>

section \<open>Validation\<close>

definition fail_with :: "string \<Rightarrow> go_error option" where
  "fail_with m = Some (ErrorString m)"

text \<open>The first error a check reports on a list, with the index of the element.\<close>

fun first_indexed_error :: "(nat \<Rightarrow> 'a \<Rightarrow> go_error option) \<Rightarrow> nat \<Rightarrow> 'a list \<Rightarrow> go_error option" where
  "first_indexed_error check i [] = None"
| "first_indexed_error check i (x # xs) =
     (case check i x of Some e \<Rightarrow> Some e | None \<Rightarrow> first_indexed_error check (Suc i) xs)"

definition indexed :: "string \<Rightarrow> nat \<Rightarrow> string \<Rightarrow> string" where
  "indexed what i rest = ''profile.'' @ what @ ''['' @ nat_str i @ '']'' @ rest"

definition port_in_range :: "int \<Rightarrow> bool" where
  "port_in_range p \<longleftrightarrow> 0 \<le> p \<and> p \<le> 65535"

definition normalized_node_source :: "node_source option \<Rightarrow> node_source" where
  "normalized_node_source s =
     (case s of
        None \<Rightarrow> \<lparr>so_Type = [], so_URL = [], so_ProviderKey = [], so_LastSeenAt = 0\<rparr>
      | Some src \<Rightarrow> src\<lparr>so_Type := to_upper (trim_space (so_Type src)),
                       so_ProviderKey := trim_space (so_ProviderKey src),
                       so_URL := trim_space (so_URL src)\<rparr>)"

definition validate_inbounds :: "json_codec \<Rightarrow> string \<Rightarrow> go_error option" where
  "validate_inbounds codec raw =
     (if raw = [] then None
      else (case jc_inbounds codec raw of
              Inl e \<Rightarrow> Some (WrapError ''profile.inbounds invalid: '' e)
            | Inr i \<Rightarrow>
                if \<not> port_in_range (pi_SocksPort i)
                then fail_with (''profile.inbounds.socksPort must be 0-65535, got '' @ int_str (pi_SocksPort i))
                else if \<not> port_in_range (pi_HTTPPort i)
                then fail_with (''profile.inbounds.httpPort must be 0-65535, got '' @ int_str (pi_HTTPPort i))
                else if pi_AllowLAN i
                then fail_with ''profile.inbounds.allowLan is not supported by root helper inbounds''
                else None))"

definition check_subscription_decodes ::
  "json_codec \<Rightarrow> nat \<Rightarrow> string \<Rightarrow> go_error option" where
  "check_subscription_decodes codec i raw =
     (if trim_space raw = [] then fail_with (indexed ''subscriptions'' i '' is empty'')
      else (case jc_subscription codec raw of
              Inl e \<Rightarrow> Some (WrapError (indexed ''subscriptions'' i '' invalid: '') e)
            | Inr s \<Rightarrow> None))"

text \<open>The provider keys collected by the first loop.\<close>

definition subscription_keys :: "json_codec \<Rightarrow> string list \<Rightarrow> string set" where
  "subscription_keys codec raws =
     set (filter (\<lambda>k. k \<noteq> [])
       (concat (map (\<lambda>raw. case jc_subscription codec raw of Inl e \<Rightarrow> []
                            | Inr s \<Rightarrow> [trim_space (su_ProviderKey s)]) raws)))"

definition check_profile_node ::
  "json_codec \<Rightarrow> string set \<Rightarrow> nat \<Rightarrow> string \<Rightarrow> go_error option" where
  "check_profile_node codec provider_keys i raw =
     (if trim_space raw = [] then fail_with (indexed ''nodes'' i '' is empty'')
      else (case jc_node codec raw of
              Inl e \<Rightarrow> Some (WrapError (indexed ''nodes'' i '' invalid: '') e)
            | Inr node \<Rightarrow>
                if \<not> port_in_range (vn_Port node)
                then fail_with (indexed ''nodes'' i ''.port must be 0-65535, got '' @ int_str (vn_Port node))
                else if vn_Source node = None
                then fail_with (indexed ''nodes'' i ''.source is required'')
                else (let source = normalized_node_source (vn_Source node)
                      in if so_Type source = ''MANUAL''
                         then (if vn_Stale node
                               then fail_with (indexed ''nodes'' i ''.stale requires subscription source'')
                               else None)
                         else if so_Type source = ''SUBSCRIPTION''
                         then (if trim_space (so_ProviderKey source) = []
                               then fail_with (indexed ''nodes'' i
                                      ''.source.providerKey is required for subscription nodes'')
                               else if so_ProviderKey source \<notin> provider_keys
                               then fail_with (indexed ''nodes'' i
                                      (''.source.providerKey '' @ go_quote (so_ProviderKey source) @
                                       '' is missing from profile.subscriptions''))
                               else if so_LastSeenAt source < 0
                               then fail_with (indexed ''nodes'' i ''.source.lastSeenAt must be >= 0'')
                               else None)
                         else fail_with (indexed ''nodes'' i
                                (''.source.type must be MANUAL or SUBSCRIPTION, got '' @
                                 go_quote (so_Type source))))))"

text \<open>The last loop decodes again and ignores the error; the first loop has checked it.\<close>

definition empty_subscription :: profile_subscription where
  "empty_subscription = \<lparr>su_ProviderKey = [], su_URL = [], su_Name = [], su_LastFetchedAt = 0,
     su_LastSeenNodeCount = 0, su_StaleNodeCount = 0, su_UploadBytes = 0, su_DownloadBytes = 0,
     su_TotalBytes = 0, su_ExpireTimestamp = 0, su_ParseFailures = 0\<rparr>"

definition check_subscription_fields ::
  "json_codec \<Rightarrow> nat \<Rightarrow> string \<Rightarrow> go_error option" where
  "check_subscription_fields codec i raw =
     (let s = (case jc_subscription codec raw of Inl e \<Rightarrow> empty_subscription | Inr s \<Rightarrow> s);
          bad = (\<lambda>m. fail_with (indexed ''subscriptions'' i m))
      in if trim_space (su_ProviderKey s) = [] then bad ''.providerKey is required''
         else if trim_space (su_URL s) = [] then bad ''.url is required''
         else if su_LastFetchedAt s < 0 then bad ''.lastFetchedAt must be >= 0''
         else if su_LastSeenNodeCount s < 0 then bad ''.lastSeenNodeCount must be >= 0''
         else if su_StaleNodeCount s < 0 then bad ''.staleNodeCount must be >= 0''
         else if su_UploadBytes s < 0 \<or> su_DownloadBytes s < 0 \<or> su_TotalBytes s < 0
         then bad '' traffic counters must be >= 0''
         else if su_ExpireTimestamp s < 0 then bad ''.expireTimestamp must be >= 0''
         else if su_ParseFailures s < 0 then bad ''.parseFailures must be >= 0''
         else None)"

fun first_of :: "go_error option list \<Rightarrow> go_error option" where
  "first_of [] = None"
| "first_of (None # es) = first_of es"
| "first_of (Some e # es) = Some e"

definition validate_projection :: "json_codec \<Rightarrow> profile_projection \<Rightarrow> go_error option" where
  "validate_projection codec p =
     first_of
       [validate_inbounds codec (pp_Inbounds p),
        first_indexed_error (check_subscription_decodes codec) 0 (pp_Subscriptions p),
        first_indexed_error (check_profile_node codec (subscription_keys codec (pp_Subscriptions p))) 0
          (pp_Nodes p),
        first_indexed_error (check_subscription_fields codec) 0 (pp_Subscriptions p)]"

definition valid_protocols :: "string list" where
  "valid_protocols = [''vless'', ''trojan'', ''vmess'', ''shadowsocks'', ''socks'', ''hysteria2'',
     ''tuic'', ''wireguard'']"

definition validate_proxy :: "proxy_config \<Rightarrow> go_error option" where
  "validate_proxy p =
     (if px_TProxyPort p < 1 \<or> 65535 < px_TProxyPort p
      then fail_with (''proxy.tproxy_port must be 1-65535, got '' @ int_str (px_TProxyPort p))
      else if px_DNSPort p < 1 \<or> 65535 < px_DNSPort p
      then fail_with (''proxy.dns_port must be 1-65535, got '' @ int_str (px_DNSPort p))
      else if px_APIPort p < 0 \<or> 65535 < px_APIPort p
      then fail_with (''proxy.api_port must be 0-65535, got '' @ int_str (px_APIPort p))
      else if 0 < px_APIPort p \<and> trim_space (px_APISecret p) = []
      then fail_with ''proxy.api_secret is required when proxy.api_port is enabled''
      else None)"

definition node_credentials_error :: "node_config \<Rightarrow> go_error option" where
  "node_credentials_error n =
     (let proto = nc_Protocol n
      in if nc_Address n = [] then None
         else if proto = ''vless'' \<or> proto = ''vmess''
         then (if nc_UUID n = [] then fail_with (''node.uuid is required for '' @ proto) else None)
         else if proto = ''trojan'' \<or> proto = ''shadowsocks''
         then (if nc_UUID n = [] \<and> nc_Password n = []
               then fail_with (''node password is required for '' @ proto) else None)
         else if proto = ''hysteria2''
         then (if nc_Password n = [] \<and> nc_UUID n = []
               then fail_with ''node.password is required for hysteria2'' else None)
         else if proto = ''tuic''
         then (if nc_UUID n = [] \<or> nc_Password n = []
               then fail_with ''node.uuid and node.password are required for tuic'' else None)
         else if proto = ''wireguard''
         then (if nc_WGPrivateKey n = [] \<or> nc_WGPeerPublicKey n = [] \<or> nc_WGLocalAddress n = []
               then fail_with ''node.wireguard keys and local address are required for wireguard''
               else None)
         else None)"

definition validate_node :: "node_config \<Rightarrow> go_error option" where
  "validate_node n =
     (if nc_Protocol n \<noteq> [] \<and> nc_Protocol n \<notin> set valid_protocols
      then fail_with (''node.protocol must be one of vless/trojan/vmess/shadowsocks/socks/hysteria2/tuic/wireguard, got '' @
             go_quote (nc_Protocol n))
      else if nc_Address n \<noteq> [] \<and> nc_Protocol n = []
      then fail_with ''node.protocol is required when node.address is set''
      else node_credentials_error n)"

definition valid_transports :: "string list" where
  "valid_transports = [''tcp'', ''reality'', ''ws'', ''grpc'', ''http'', ''h2'', ''quic'',
     ''httpupgrade'', ''xhttp'']"

definition validate_modes :: "config \<Rightarrow> go_error option" where
  "validate_modes c =
     (let transport = tr_Protocol (cf_Transport c); routing = rt_Mode (cf_Routing c);
          apps = ap_Mode (cf_Apps c); backend = rv_BackendKind (cf_RuntimeV2 c);
          fallback = rv_FallbackPolicy (cf_RuntimeV2 c)
      in if transport \<noteq> [] \<and> transport \<notin> set valid_transports
         then fail_with (''transport.protocol '' @ go_quote transport @
                '' is not supported by sing-box V2Ray transport'')
         else if routing \<notin> {''all'', ''whitelist'', ''blacklist'', ''rules'', ''direct''}
         then fail_with (''routing.mode must be all/whitelist/blacklist/rules/direct, got '' @ go_quote routing)
         else if apps \<notin> {''all'', ''whitelist'', ''blacklist'', ''off''}
         then fail_with (''apps.mode must be all/whitelist/blacklist/off, got '' @ go_quote apps)
         else if backend \<noteq> [] \<and> backend \<noteq> ''ROOT_TPROXY''
         then fail_with (''runtime_v2.backend_kind must be ROOT_TPROXY, got '' @ go_quote backend)
         else if fallback \<noteq> [] \<and> fallback \<notin> {''OFFER_RESET'', ''STAY_ON_SELECTED'', ''AUTO_RESET_ROOTED''}
         then fail_with (''runtime_v2.fallback_policy must be OFFER_RESET/STAY_ON_SELECTED/AUTO_RESET_ROOTED, got '' @
                go_quote fallback)
         else None)"

definition validate_health :: "config \<Rightarrow> go_error option" where
  "validate_health c =
     (if hc_IntervalSec (cf_Health c) < 0
      then fail_with (''health.interval_sec must be >= 0, got '' @ int_str (hc_IntervalSec (cf_Health c)))
      else if hc_TimeoutSec (cf_Health c) < 1
      then fail_with (''health.timeout_sec must be >= 1, got '' @ int_str (hc_TimeoutSec (cf_Health c)))
      else if rc_MaxAttempts (cf_Rescue c) < 1
      then fail_with (''rescue.max_attempts must be >= 1, got '' @ int_str (rc_MaxAttempts (cf_Rescue c)))
      else None)"

definition validate_config :: "json_codec \<Rightarrow> config \<Rightarrow> go_error option" where
  "validate_config codec c =
     (if cf_SchemaVersion c \<noteq> current_schema_version
      then fail_with (''schema_version must be '' @ int_str current_schema_version @ '', got '' @
             int_str (cf_SchemaVersion c))
      else first_of [validate_projection codec (cf_Profile c), validate_proxy (cf_Proxy c),
             validate_node (cf_Node c), validate_modes c, validate_health c])"

section \<open>The active profile\<close>

definition requires_xray_sidecar :: "node_profile option \<Rightarrow> bool" where
  "requires_xray_sidecar profile =
     (case profile of None \<Rightarrow> False
      | Some p \<Rightarrow> equal_fold (trim_space (np_Protocol p)) ''vless'' \<and>
                 equal_fold (trim_space (np_Transport p)) ''xhttp'')"

record profile_node_skip =
  pk_Index :: nat
  pk_ID :: string
  pk_Name :: string
  pk_Reason :: string

definition profile_node_skip_of :: "nat \<Rightarrow> node_profile option \<Rightarrow> string \<Rightarrow> profile_node_skip" where
  "profile_node_skip_of i profile reason =
     \<lparr>pk_Index = i, pk_ID = (case profile of None \<Rightarrow> [] | Some p \<Rightarrow> np_ID p),
      pk_Name = (case profile of None \<Rightarrow> [] | Some p \<Rightarrow> np_Name p), pk_Reason = reason\<rparr>"

definition classify_node ::
  "json_codec \<Rightarrow> nat \<Rightarrow> string \<Rightarrow> node_profile + profile_node_skip" where
  "classify_node codec i raw =
     (case jc_stored_node codec raw i of
        Inl e \<Rightarrow> Inr (profile_node_skip_of i None (''cannot decode stored node: '' @ error_msg e))
      | Inr p \<Rightarrow>
          if np_Stale p then Inr (profile_node_skip_of i (Some p) ''node is stale'')
          else if np_Address p = [] then Inr (profile_node_skip_of i (Some p) ''server is empty'')
          else if np_Port p = 0 then Inr (profile_node_skip_of i (Some p) ''port is zero'')
          else if np_Protocol p = [] then Inr (profile_node_skip_of i (Some p) ''protocol is empty'')
          else Inl p)"

fun usable_from ::
  "json_codec \<Rightarrow> nat \<Rightarrow> string list \<Rightarrow> node_profile list \<times> profile_node_skip list" where
  "usable_from codec i [] = ([], [])"
| "usable_from codec i (raw # raws) =
     (let (profiles, skipped) = usable_from codec (Suc i) raws
      in case classify_node codec i raw of
           Inl p \<Rightarrow> (p # profiles, skipped)
         | Inr s \<Rightarrow> (profiles, s # skipped))"

definition usable_profile_nodes ::
  "json_codec \<Rightarrow> config option \<Rightarrow> node_profile list \<times> profile_node_skip list" where
  "usable_profile_nodes codec c =
     (case c of None \<Rightarrow> ([], []) | Some cfg \<Rightarrow> usable_from codec 0 (pp_Nodes (cf_Profile cfg)))"

definition profiles_from_config_nodes :: "json_codec \<Rightarrow> config option \<Rightarrow> node_profile list" where
  "profiles_from_config_nodes codec c = fst (usable_profile_nodes codec c)"

definition resolve_active_profile :: "json_codec \<Rightarrow> config \<Rightarrow> node_profile option" where
  "resolve_active_profile codec cfg =
     (case profiles_from_config_nodes codec (Some cfg) of
        [] \<Rightarrow> None
      | p # ps \<Rightarrow>
          (case find (\<lambda>q. np_ID q = pp_ActiveNodeID (cf_Profile cfg)) (p # ps) of
             Some q \<Rightarrow> Some q | None \<Rightarrow> Some p))"

definition flat_profile :: "config \<Rightarrow> node_profile" where
  "flat_profile c =
     (let n = cf_Node c; t = cf_Transport c
      in empty_profile\<lparr>np_Protocol := nc_Protocol n, np_Address := nc_Address n, np_Port := nc_Port n,
           np_UUID := nc_UUID n, np_Username := nc_Username n, np_Password := nc_Password n,
           np_Flow := nc_Flow n, np_Transport := tr_Protocol t, np_TLSServer := tr_TLSServer t,
           np_Fingerprint := tr_Fingerprint t, np_SSMethod := nc_SSMethod n,
           np_SSPlugin := nc_SSPlugin n, np_SSPluginOpts := nc_SSPluginOpts n,
           np_SocksVersion := nc_SocksVersion n, np_Network := nc_Network n,
           np_OwnerPackage := nc_OwnerPackage n, np_ServerPorts := nc_ServerPorts n,
           np_ObfsType := nc_ObfsType n, np_ObfsPassword := nc_ObfsPassword n,
           np_AlterID := nc_AlterID n, np_Security := nc_Security n,
           np_RealityPubKey := nc_RealityPublicKey n, np_RealityShortID := nc_RealityShortID n,
           np_WGPrivateKey := nc_WGPrivateKey n, np_WGPeerPublicKey := nc_WGPeerPublicKey n,
           np_WGPresharedKey := nc_WGPresharedKey n, np_WGLocalAddress := nc_WGLocalAddress n,
           np_WGAllowedIPs := nc_WGAllowedIPs n, np_WGMTU := nc_WGMTU n,
           np_WGReserved := nc_WGReserved n, np_Extra := tr_Extra t\<rparr>)"

definition resolve_profile :: "json_codec \<Rightarrow> config \<Rightarrow> node_profile" where
  "resolve_profile codec c =
     (case resolve_active_profile codec c of
        Some p \<Rightarrow> if requires_xray_sidecar (Some p) then p else flat_profile c
      | None \<Rightarrow> flat_profile c)"

text \<open>\<^verbatim>\<open>SyncFromProfileProjection\<close>\<close>

definition node_of_profile :: "node_profile \<Rightarrow> node_config" where
  "node_of_profile p = \<lparr>nc_Address = np_Address p, nc_Port = np_Port p, nc_Protocol = np_Protocol p,
     nc_UUID = np_UUID p, nc_Username = np_Username p, nc_Password = np_Password p,
     nc_Flow = np_Flow p, nc_SSMethod = np_SSMethod p, nc_SSPlugin = np_SSPlugin p,
     nc_SSPluginOpts = np_SSPluginOpts p, nc_SocksVersion = np_SocksVersion p,
     nc_Network = np_Network p, nc_OwnerPackage = np_OwnerPackage p,
     nc_ServerPorts = np_ServerPorts p, nc_ObfsType = np_ObfsType p,
     nc_ObfsPassword = np_ObfsPassword p, nc_AlterID = np_AlterID p, nc_Security = np_Security p,
     nc_RealityPublicKey = np_RealityPubKey p, nc_RealityShortID = np_RealityShortID p,
     nc_WGPrivateKey = np_WGPrivateKey p, nc_WGPeerPublicKey = np_WGPeerPublicKey p,
     nc_WGPresharedKey = np_WGPresharedKey p, nc_WGLocalAddress = np_WGLocalAddress p,
     nc_WGAllowedIPs = np_WGAllowedIPs p, nc_WGMTU = np_WGMTU p, nc_WGReserved = np_WGReserved p\<rparr>"

definition sync_from_projection :: "json_codec \<Rightarrow> bool \<Rightarrow> config \<Rightarrow> config" where
  "sync_from_projection codec authoritative c =
     (case resolve_active_profile codec c of
        Some p \<Rightarrow>
          c\<lparr>cf_Node := node_of_profile p,
            cf_Transport := \<lparr>tr_Protocol = np_Transport p, tr_TLSServer = np_TLSServer p,
              tr_Fingerprint = np_Fingerprint p, tr_Extra = np_Extra p\<rparr>\<rparr>
      | None \<Rightarrow>
          if authoritative
          then c\<lparr>cf_Node := cf_Node default_config, cf_Transport := cf_Transport default_config\<rparr>
          else c)"

end
