(* ===== verification/LocalProxy.thy ===== *)
theory LocalProxy
  imports Packages IpAddress ConfigRules
begin

text \<open>
  Local proxies that an outbound is chained through (\<^verbatim>\<open>daemon/internal/core/local_proxy.go\<close>):
  their ports, the owners of the listeners from \<^verbatim>\<open>/proc/net/tcp\<close>, the verification of declared
  owners and the protection rules for the firewall.  Maps from ports to sets are association lists with
  sorted values; the code sorts the keys wherever their order shows.
\<close>

definition reserved_core_ports :: "json_codec \<Rightarrow> config \<Rightarrow> int list" where
  "reserved_core_ports codec cfg =
     (let px = cf_Proxy cfg; i = resolve_profile_inbounds codec cfg
      in filter (\<lambda>p. 0 < p)
           [if px_TProxyPort px = 0 then 10853 else px_TProxyPort px,
            if px_DNSPort px = 0 then 10856 else px_DNSPort px,
            px_APIPort px, pi_SocksPort i, pi_HTTPPort i])"

fun unseen_ports :: "int list \<Rightarrow> node_profile list \<Rightarrow> node_profile list" where
  "unseen_ports seen [] = []"
| "unseen_ports seen (p # ps) =
     (if np_Port p \<in> set seen then unseen_ports seen ps else p # unseen_ports (np_Port p # seen) ps)"

definition local_outbound_proxy_profiles :: "json_codec \<Rightarrow> config option \<Rightarrow> node_profile list" where
  "local_outbound_proxy_profiles codec c =
     (case c of
        None \<Rightarrow> []
      | Some cfg \<Rightarrow>
          (let stored = profiles_from_config_nodes codec (Some cfg);
               profiles = (if stored = [] then [resolve_profile codec cfg] else stored);
               usable = filter (\<lambda>p. 0 < np_Port p \<and> is_local_endpoint (np_Address p)) profiles
           in sort_key np_Port (unseen_ports (reserved_core_ports codec cfg) usable)))"

definition local_outbound_proxy_ports :: "json_codec \<Rightarrow> config option \<Rightarrow> int list" where
  "local_outbound_proxy_ports codec c = map np_Port (local_outbound_proxy_profiles codec c)"

section \<open>Listener owners\<close>

definition parse_proc_net_port :: "string \<Rightarrow> int option" where
  "parse_proc_net_port address =
     (let parts = split_char (CHR '':'') address
      in if length parts < 2 then None
         else (let (port, ok) = parse_hex32 (last parts) in if ok then Some port else None))"

definition listener_line :: "int list \<Rightarrow> string \<Rightarrow> (int \<times> int) list" where
  "listener_line wanted line =
     (let fields = str_fields line
      in if length fields < 10 \<or> fields ! 0 = ''sl'' \<or> fields ! 3 \<noteq> ''0A'' then []
         else (case parse_proc_net_port (fields ! 1) of
                 None \<Rightarrow> []
               | Some port \<Rightarrow>
                   if port \<notin> set wanted then []
                   else (let (uid, ok) = atoi (fields ! 7) in if ok then [(port, uid)] else [])))"

definition parse_proc_net_tcp_listeners :: "string \<Rightarrow> int list \<Rightarrow> (int \<times> int) list" where
  "parse_proc_net_tcp_listeners raw wanted =
     concat (map (listener_line wanted) (split_char (CHR 0x0A) raw))"

text \<open>The files that could be read, in order; the result gives each port its owners, sorted.\<close>

definition tcp_listener_owners :: "string option list \<Rightarrow> int list \<Rightarrow> int \<Rightarrow> int list" where
  "tcp_listener_owners files ports port =
     (let wanted = filter (\<lambda>p. 0 < p) ports;
          found = concat (map (\<lambda>f. case f of None \<Rightarrow> [] | Some raw \<Rightarrow> parse_proc_net_tcp_listeners raw wanted) files)
      in sort (unique (map snd (filter (\<lambda>e. fst e = port) found))))"

definition owner_uids :: "pkg_env \<Rightarrow> string \<Rightarrow> int list" where
  "owner_uids env owner =
     concat (map (\<lambda>uid. let (n, ok) = atoi uid in if ok then [n] else [])
       (ur_UIDs (resolve_package_uids env [owner])))"

section \<open>Verification of the declared owners\<close>

definition owner_problems :: "pkg_env \<Rightarrow> (int \<Rightarrow> int list) \<Rightarrow> node_profile \<Rightarrow> string list" where
  "owner_problems env owners p =
     (let owner = trim_space (np_OwnerPackage p); expected = owner_uids env owner
      in if owner = [] then []
         else if expected = []
         then [''local proxy port '' @ int_str (np_Port p) @ '' owner package '' @ owner @
               '' did not resolve to a UID'']
         else map (\<lambda>uid. ''local proxy port '' @ int_str (np_Port p) @ '' is owned by UID '' @ int_str uid @
                 '', expected package '' @ owner)
                (filter (\<lambda>uid. uid \<notin> set expected) (owners (np_Port p))))"

definition verify_chained_proxy_owners ::
  "json_codec \<Rightarrow> pkg_env \<Rightarrow> string option list \<Rightarrow> config option \<Rightarrow> go_error option" where
  "verify_chained_proxy_owners codec env files c =
     (let profiles = local_outbound_proxy_profiles codec c;
          ports = map np_Port (filter (\<lambda>p. trim_space (np_OwnerPackage p) \<noteq> []) profiles)
      in if ports = [] then None
         else (let problems = concat (map (owner_problems env (tcp_listener_owners files ports)) profiles)
               in if problems = [] then None else Some (ErrorString (str_join ''; '' problems))))"

section \<open>The protection environment\<close>

definition port_uid_pairs :: "pkg_env \<Rightarrow> (int \<Rightarrow> int list) \<Rightarrow> node_profile \<Rightarrow> (int \<times> int) list" where
  "port_uid_pairs env owners p =
     (let owner = trim_space (np_OwnerPackage p);
          uids = (if owner \<noteq> [] then owner_uids env owner else owners (np_Port p))
      in map (Pair (np_Port p)) (filter (\<lambda>uid. 0 \<le> uid \<and> 0 < np_Port p) uids))"

definition join_ints :: "int list \<Rightarrow> string" where
  "join_ints xs = str_join '' '' (map int_str xs)"

definition build_chained_proxy_protection_env ::
  "json_codec \<Rightarrow> pkg_env \<Rightarrow> string option list \<Rightarrow> config option \<Rightarrow> string \<times> string \<times> string" where
  "build_chained_proxy_protection_env codec env files c =
     (let profiles = local_outbound_proxy_profiles codec c;
          ports = map np_Port profiles; owners = tcp_listener_owners files ports;
          pairs = concat (map (port_uid_pairs env owners) profiles);
          protected = sort (unique (filter (\<lambda>p. 0 < p) ports));
          uids = sort (unique (map snd pairs));
          rules = concat (map (\<lambda>port. map (\<lambda>uid. int_str port @ '':'' @ int_str uid)
                    (sort (unique (map snd (filter (\<lambda>e. fst e = port) pairs))))) protected)
      in if protected = [] then ([], [], [])
         else (join_ints protected, join_ints uids, str_join '' '' rules))"

end
