(* ===== verification/RootBackend.thy ===== *)
theory RootBackend
  imports StatusModel Config
begin

text \<open>
  The root TPROXY backend (\<^verbatim>\<open>daemon/internal/runtime/root/backend.go\<close>): the implementation of
  the orchestrator's \<^verbatim>\<open>Backend\<close> interface.  Its dependencies, the interfaces of
  \<^verbatim>\<open>Dependencies\<close>, are functions on a world of any type \<^typ>\<open>'w\<close>: the core manager, the
  lifecycle, the health adapter, the netstack verifier and the reset controller, each with the result
  type of its Go method.
\<close>

section \<open>Dependencies\<close>

record 'w backend_deps =
  bd_get_state :: "'w \<Rightarrow> core_state"
  bd_core_start :: "node_profile \<Rightarrow> 'w \<Rightarrow> go_error option \<times> 'w"
  bd_core_stop :: "'w \<Rightarrow> go_error option \<times> 'w"
  bd_runtime_profile :: "'w \<Rightarrow> node_profile option \<times> bool"
  bd_begin_start :: "'w \<Rightarrow> uint64 \<times> 'w"
  bd_begin_stop :: "'w \<Rightarrow> uint64 \<times> 'w"
  bd_mark_start_failed :: "uint64 \<Rightarrow> 'w \<Rightarrow> 'w"
  bd_reset_rescue_state :: "'w \<Rightarrow> 'w"
  bd_start_subsystems :: "'w \<Rightarrow> 'w"
  bd_stop_subsystems :: "'w \<Rightarrow> 'w"
  bd_current_health :: "'w \<Rightarrow> health_snapshot"
  bd_refresh_health :: "bool \<Rightarrow> 'w \<Rightarrow> health_snapshot \<times> 'w"
  bd_reapply_rules :: "'w \<Rightarrow> go_error option \<times> 'w"
  bd_recover_stale_lock :: "int64 \<Rightarrow> 'w \<Rightarrow> (reset_report option \<times> go_error option) \<times> 'w"
  bd_reset_network_state :: "int64 \<Rightarrow> backend_kind \<Rightarrow> 'w \<Rightarrow> reset_report \<times> 'w"
  bd_should_skip_reconcile :: "'w \<Rightarrow> bool \<times> string"
  bd_test_probes :: "string \<Rightarrow> int \<Rightarrow> string list \<Rightarrow> string \<Rightarrow> 'w \<Rightarrow> node_probe_result list"

type_synonym backend_result = "reset_report option \<times> go_error option"

section \<open>The backend's methods\<close>

definition backend_kind_of :: backend_kind where
  "backend_kind_of = backend_root_tproxy"

definition backend_supported :: "bool \<times> string" where
  "backend_supported = (True, [])"

definition no_node_error :: go_error where
  "no_node_error = ErrorString ''no node configured (address is empty)''"

definition reset_network_state ::
  "'w backend_deps \<Rightarrow> int64 \<Rightarrow> 'w \<Rightarrow> reset_report \<times> 'w" where
  "reset_network_state deps generation w = bd_reset_network_state deps generation backend_root_tproxy w"

definition backend_start ::
  "'w backend_deps \<Rightarrow> desired_state \<Rightarrow> int64 \<Rightarrow> 'w \<Rightarrow> backend_result \<times> 'w" where
  "backend_start deps desired generation w =
     (let ((recovery, err), w1) = bd_recover_stale_lock deps generation w
      in if err \<noteq> None then ((recovery, err), w1)
         else (let (epoch, w2) = bd_begin_start deps w1; state = bd_get_state deps w2
               in if state = StateRunning \<or> state = StateDegraded then ((recovery, None), w2)
                  else (let (profile0, has_nodes) = bd_runtime_profile deps w2;
                            profile = (case profile0 of None \<Rightarrow> empty_profile | Some p \<Rightarrow> p)
                        in if np_Address profile = [] \<and> \<not> has_nodes
                           then ((recovery, Some no_node_error), bd_mark_start_failed deps epoch w2)
                           else (let (start_err, w3) = bd_core_start deps profile w2
                                 in if start_err \<noteq> None
                                    then ((recovery, start_err), bd_mark_start_failed deps epoch w3)
                                    else (let w4 = bd_start_subsystems deps (bd_reset_rescue_state deps w3);
                                              (snapshot, w5) = bd_refresh_health deps True w4
                                          in if \<not> healthy snapshot
                                             then (let (report, w6) = reset_network_state deps generation w5
                                                   in ((Some report,
                                                        with_reset_report (Some (ErrorString
                                                          (''readiness gates failed after start: '' @
                                                           hs_last_error snapshot))) report),
                                                       bd_mark_start_failed deps epoch w6))
                                             else ((recovery, None), w5))))))"

definition backend_stop :: "'w backend_deps \<Rightarrow> 'w \<Rightarrow> go_error option \<times> 'w" where
  "backend_stop deps w =
     bd_core_stop deps (bd_stop_subsystems deps (snd (bd_begin_stop deps w)))"

definition backend_reset :: "'w backend_deps \<Rightarrow> int64 \<Rightarrow> 'w \<Rightarrow> reset_report \<times> 'w" where
  "backend_reset deps generation w = reset_network_state deps generation (snd (bd_begin_stop deps w))"

text \<open>\<^verbatim>\<open>restart\<close>, in two parts: stopping the core, and starting it again.\<close>

definition restart_start ::
  "'w backend_deps \<Rightarrow> int64 \<Rightarrow> 'w \<Rightarrow> go_error option \<times> 'w" where
  "restart_start deps generation w =
     (let (profile0, has_nodes) = bd_runtime_profile deps w;
          profile = (case profile0 of None \<Rightarrow> empty_profile | Some p \<Rightarrow> p)
      in if np_Address profile = [] \<and> \<not> has_nodes then (Some no_node_error, w)
         else (let (start_err, w1) = bd_core_start deps profile w
               in case start_err of
                    Some e \<Rightarrow>
                      (let (report, w2) = reset_network_state deps generation w1
                       in (with_reset_report (Some (WrapError ''restart start failed: '' e)) report, w2))
                  | None \<Rightarrow>
                      (let w2 = bd_start_subsystems deps (bd_reset_rescue_state deps w1);
                           (snapshot, w3) = bd_refresh_health deps False w2
                       in if \<not> healthy snapshot
                          then (let (report, w4) = reset_network_state deps generation w3
                                in (with_reset_report (Some (ErrorString
                                      (''restart readiness gates failed: '' @ hs_last_error snapshot))) report,
                                    w4))
                          else (None, w3))))"

definition backend_do_restart ::
  "'w backend_deps \<Rightarrow> int64 \<Rightarrow> 'w \<Rightarrow> go_error option \<times> 'w" where
  "backend_do_restart deps generation w =
     (let w1 = bd_stop_subsystems deps w
      in if bd_get_state deps w1 \<noteq> StateStopped
         then (let (stop_err, w2) = bd_core_stop deps w1
               in case stop_err of
                    Some e \<Rightarrow>
                      (let (report, w3) = reset_network_state deps generation w2
                       in (with_reset_report (Some (WrapError ''restart stop failed: '' e)) report, w3))
                  | None \<Rightarrow> restart_start deps generation w2)
         else restart_start deps generation w1)"

definition backend_restart ::
  "'w backend_deps \<Rightarrow> desired_state \<Rightarrow> int64 \<Rightarrow> 'w \<Rightarrow> backend_result \<times> 'w" where
  "backend_restart deps desired generation w =
     (let ((recovery, err), w1) = bd_recover_stale_lock deps generation w
      in if err \<noteq> None then ((recovery, err), w1)
         else (let (epoch, w2) = bd_begin_start deps w1;
                   (rerr, w3) = backend_do_restart deps generation w2;
                   w4 = (if rerr \<noteq> None then bd_mark_start_failed deps epoch w3 else w3)
               in if recovery \<noteq> None then ((recovery, rerr), w4)
                  else ((reset_report_from_error rerr, rerr), w4)))"

definition restart_after_config_change ::
  "'w backend_deps \<Rightarrow> int64 \<Rightarrow> 'w \<Rightarrow> go_error option \<times> 'w" where
  "restart_after_config_change deps generation w = backend_do_restart deps generation w"

definition backend_reconcile ::
  "'w backend_deps \<Rightarrow> string \<Rightarrow> int64 \<Rightarrow> 'w \<Rightarrow> go_error option \<times> 'w" where
  "backend_reconcile deps reason generation w =
     (let state = bd_get_state deps w
      in if state \<noteq> StateRunning \<and> state \<noteq> StateDegraded then (None, w)
         else if fst (bd_should_skip_reconcile deps w) then (None, w)
         else (let (err, w1) = bd_reapply_rules deps w
               in case err of
                    Some e \<Rightarrow>
                      (let (report, w2) = reset_network_state deps generation w1
                       in (with_reset_report (Some (WrapError (reason @ '' reapply failed: '') e)) report, w2))
                  | None \<Rightarrow>
                      (let (snapshot, w2) = bd_refresh_health deps False w1
                       in if healthy snapshot then (None, w2)
                          else (let (report, w3) = reset_network_state deps generation w2
                                in (with_reset_report (Some (ErrorString
                                      (reason @ '' readiness gates failed: '' @ hs_last_error snapshot))) report,
                                    w3)))))"

definition backend_handle_network_change ::
  "'w backend_deps \<Rightarrow> int64 \<Rightarrow> 'w \<Rightarrow> backend_result \<times> 'w" where
  "backend_handle_network_change deps generation w =
     (let ((recovery, err), w1) = bd_recover_stale_lock deps generation w
      in if err \<noteq> None then ((recovery, err), w1)
         else (let (rerr, w2) = backend_reconcile deps ''network-change'' generation w1
               in if recovery \<noteq> None then ((recovery, rerr), w2)
                  else ((reset_report_from_error rerr, rerr), w2)))"

definition backend_current_health :: "'w backend_deps \<Rightarrow> 'w \<Rightarrow> health_snapshot" where
  "backend_current_health deps w = bd_current_health deps w"

definition backend_refresh_health :: "'w backend_deps \<Rightarrow> 'w \<Rightarrow> health_snapshot \<times> 'w" where
  "backend_refresh_health deps w = bd_refresh_health deps True w"

definition backend_test_nodes ::
  "'w backend_deps \<Rightarrow> desired_state \<Rightarrow> string \<Rightarrow> int \<Rightarrow> string list \<Rightarrow> 'w
     \<Rightarrow> node_probe_result list \<times> go_error option" where
  "backend_test_nodes deps desired url timeout_ms node_ids w =
     (bd_test_probes deps url timeout_ms node_ids ''fast'' w, None)"

section \<open>Recording the calls\<close>

datatype backend_event =
    EvRecover
  | EvBeginStart
  | EvBeginStop
  | EvCoreStart
  | EvCoreStop
  | EvMarkFailed uint64
  | EvResetRescue
  | EvStartSubsystems
  | EvStopSubsystems
  | EvRefresh bool
  | EvReapply
  | EvReset int64

text \<open>Dependencies that act on the world as before and append each call to a list.\<close>

definition act :: "backend_event \<Rightarrow> ('w \<Rightarrow> 'a \<times> 'w) \<Rightarrow> 'w \<times> backend_event list
    \<Rightarrow> 'a \<times> 'w \<times> backend_event list" where
  "act ev f wt = (fst (f (fst wt)), snd (f (fst wt)), snd wt @ [ev])"

definition touch :: "backend_event \<Rightarrow> ('w \<Rightarrow> 'w) \<Rightarrow> 'w \<times> backend_event list \<Rightarrow> 'w \<times> backend_event list" where
  "touch ev f wt = (f (fst wt), snd wt @ [ev])"

definition traced_deps :: "'w backend_deps \<Rightarrow> ('w \<times> backend_event list) backend_deps" where
  "traced_deps deps =
     \<lparr>bd_get_state = (\<lambda>wt. bd_get_state deps (fst wt)),
      bd_core_start = (\<lambda>p. act EvCoreStart (bd_core_start deps p)),
      bd_core_stop = act EvCoreStop (bd_core_stop deps),
      bd_runtime_profile = (\<lambda>wt. bd_runtime_profile deps (fst wt)),
      bd_begin_start = act EvBeginStart (bd_begin_start deps),
      bd_begin_stop = act EvBeginStop (bd_begin_stop deps),
      bd_mark_start_failed = (\<lambda>epoch. touch (EvMarkFailed epoch) (bd_mark_start_failed deps epoch)),
      bd_reset_rescue_state = touch EvResetRescue (bd_reset_rescue_state deps),
      bd_start_subsystems = touch EvStartSubsystems (bd_start_subsystems deps),
      bd_stop_subsystems = touch EvStopSubsystems (bd_stop_subsystems deps),
      bd_current_health = (\<lambda>wt. bd_current_health deps (fst wt)),
      bd_refresh_health = (\<lambda>egress. act (EvRefresh egress) (bd_refresh_health deps egress)),
      bd_reapply_rules = act EvReapply (bd_reapply_rules deps),
      bd_recover_stale_lock = (\<lambda>g. act EvRecover (bd_recover_stale_lock deps g)),
      bd_reset_network_state = (\<lambda>g kind. act (EvReset g) (bd_reset_network_state deps g kind)),
      bd_should_skip_reconcile = (\<lambda>wt. bd_should_skip_reconcile deps (fst wt)),
      bd_test_probes = (\<lambda>u t ids m wt. bd_test_probes deps u t ids m (fst wt))\<rparr>"

lemma act_eq: "act ev f (w, tr) = (fst (f w), snd (f w), tr @ [ev])"
  by (simp add: act_def)

lemma touch_eq: "touch ev f (w, tr) = (f w, tr @ [ev])"
  by (simp add: touch_def)

lemma traced_fields [simp]:
  "bd_get_state (traced_deps deps) (w, tr) = bd_get_state deps w"
  "bd_core_start (traced_deps deps) p (w, tr) =
     (fst (bd_core_start deps p w), snd (bd_core_start deps p w), tr @ [EvCoreStart])"
  "bd_core_stop (traced_deps deps) (w, tr) =
     (fst (bd_core_stop deps w), snd (bd_core_stop deps w), tr @ [EvCoreStop])"
  "bd_runtime_profile (traced_deps deps) (w, tr) = bd_runtime_profile deps w"
  "bd_begin_start (traced_deps deps) (w, tr) =
     (fst (bd_begin_start deps w), snd (bd_begin_start deps w), tr @ [EvBeginStart])"
  "bd_begin_stop (traced_deps deps) (w, tr) =
     (fst (bd_begin_stop deps w), snd (bd_begin_stop deps w), tr @ [EvBeginStop])"
  "bd_mark_start_failed (traced_deps deps) epoch (w, tr) =
     (bd_mark_start_failed deps epoch w, tr @ [EvMarkFailed epoch])"
  "bd_reset_rescue_state (traced_deps deps) (w, tr) = (bd_reset_rescue_state deps w, tr @ [EvResetRescue])"
  "bd_start_subsystems (traced_deps deps) (w, tr) = (bd_start_subsystems deps w, tr @ [EvStartSubsystems])"
  "bd_stop_subsystems (traced_deps deps) (w, tr) = (bd_stop_subsystems deps w, tr @ [EvStopSubsystems])"
  "bd_refresh_health (traced_deps deps) b (w, tr) =
     (fst (bd_refresh_health deps b w), snd (bd_refresh_health deps b w), tr @ [EvRefresh b])"
  "bd_reapply_rules (traced_deps deps) (w, tr) =
     (fst (bd_reapply_rules deps w), snd (bd_reapply_rules deps w), tr @ [EvReapply])"
  "bd_recover_stale_lock (traced_deps deps) g (w, tr) =
     (fst (bd_recover_stale_lock deps g w), snd (bd_recover_stale_lock deps g w), tr @ [EvRecover])"
  "bd_reset_network_state (traced_deps deps) g k (w, tr) =
     (fst (bd_reset_network_state deps g k w), snd (bd_reset_network_state deps g k w), tr @ [EvReset g])"
  "reset_network_state (traced_deps deps) g (w, tr) =
     (fst (reset_network_state deps g w), snd (reset_network_state deps g w), tr @ [EvReset g])"
  "bd_should_skip_reconcile (traced_deps deps) (w, tr) = bd_should_skip_reconcile deps w"
  by (simp_all add: traced_deps_def act_eq touch_eq reset_network_state_def)

end
