(* ===== verification/ModulePaths.thy ===== *)
theory ModulePaths
  imports GoText
begin

text \<open>
  The on-device layout of the module (\<^verbatim>\<open>daemon/internal/modulecontract/paths.go\<close>): every
  path is a function of the module directory.
\<close>

definition default_module_dir :: string where
  "default_module_dir = ''/data/adb/modules/rknnovpn''"

definition paths_dir :: "string \<Rightarrow> string" where
  "paths_dir d = (if d = [] then default_module_dir else d)"

definition bin_dir :: "string \<Rightarrow> string" where
  "bin_dir d = path_join [paths_dir d, ''bin'']"

definition config_dir :: "string \<Rightarrow> string" where
  "config_dir d = path_join [paths_dir d, ''config'']"

definition rendered_config_dir :: "string \<Rightarrow> string" where
  "rendered_config_dir d = path_join [config_dir d, ''rendered'']"

definition scripts_dir :: "string \<Rightarrow> string" where
  "scripts_dir d = path_join [paths_dir d, ''scripts'']"

definition run_dir :: "string \<Rightarrow> string" where
  "run_dir d = path_join [paths_dir d, ''run'']"

definition log_dir :: "string \<Rightarrow> string" where
  "log_dir d = path_join [paths_dir d, ''logs'']"

definition reset_lock :: "string \<Rightarrow> string" where
  "reset_lock d = path_join [run_dir d, ''reset.lock'']"

definition active_file :: "string \<Rightarrow> string" where
  "active_file d = path_join [run_dir d, ''active'']"

definition manual_flag :: "string \<Rightarrow> string" where
  "manual_flag d = path_join [config_dir d, ''manual'']"

definition daemon_pid_file :: "string \<Rightarrow> string" where
  "daemon_pid_file d = path_join [run_dir d, ''daemon.pid'']"

definition singbox_pid_file :: "string \<Rightarrow> string" where
  "singbox_pid_file d = path_join [run_dir d, ''singbox.pid'']"

definition xray_pid_file :: "string \<Rightarrow> string" where
  "xray_pid_file d = path_join [run_dir d, ''xray.pid'']"

definition daemon_socket :: "string \<Rightarrow> string" where
  "daemon_socket d = path_join [run_dir d, ''daemon.sock'']"

definition rescue_reset_script :: "string \<Rightarrow> string" where
  "rescue_reset_script d = path_join [scripts_dir d, ''rescue_reset.sh'']"

definition dns_script :: "string \<Rightarrow> string" where
  "dns_script d = path_join [scripts_dir d, ''dns.sh'']"

definition iptables_script :: "string \<Rightarrow> string" where
  "iptables_script d = path_join [scripts_dir d, ''iptables.sh'']"

definition privacy_guard_script :: "string \<Rightarrow> string" where
  "privacy_guard_script d = path_join [scripts_dir d, ''privacy_guard.sh'']"

definition runtime_snapshot_files :: "string \<Rightarrow> string list" where
  "runtime_snapshot_files d =
     [singbox_pid_file d, xray_pid_file d, active_file d] @
     map (\<lambda>n. path_join [run_dir d, n])
       [''net_change.lock'', ''iptables.rules'', ''ip6tables.rules'', ''iptables_backup.rules'',
        ''ip6tables_backup.rules'', ''ip_rule.err'', ''ip_route.err'', ''env.sh'']"

definition boot_cleanup_markers :: "string \<Rightarrow> string list" where
  "boot_cleanup_markers d =
     [active_file d, reset_lock d, daemon_pid_file d, singbox_pid_file d, xray_pid_file d,
      daemon_socket d] @ drop 3 (runtime_snapshot_files d)"

definition daemon_runtime_files :: "string \<Rightarrow> string list" where
  "daemon_runtime_files d = [daemon_pid_file d, daemon_socket d]"

definition script_env :: "string \<Rightarrow> env" where
  "script_env d = [''RKNNOVPN_DIR'' \<mapsto> paths_dir d, ''RUN_DIR'' \<mapsto> run_dir d,
     ''CONFIG_DIR'' \<mapsto> config_dir d, ''SCRIPTS_DIR'' \<mapsto> scripts_dir d,
     ''RESET_LOCK'' \<mapsto> reset_lock d, ''ACTIVE_FILE'' \<mapsto> active_file d,
     ''MANUAL_FLAG'' \<mapsto> manual_flag d]"

lemma snapshot_keeps_lock_and_daemon:
  "set (map path_base (runtime_snapshot_files [])) \<inter>
     {path_base (reset_lock []), path_base (daemon_pid_file []), path_base (daemon_socket [])} = {}"
  by code_simp

text \<open>Reset lock, active marker and manual flag are three different files.\<close>

lemma reset_paths_distinct [simp]:
  "active_file d \<noteq> reset_lock d" "reset_lock d \<noteq> active_file d"
  "manual_flag d \<noteq> reset_lock d" "reset_lock d \<noteq> manual_flag d"
  "manual_flag d \<noteq> active_file d" "active_file d \<noteq> manual_flag d"
proof -
  have "last (active_file d) = CHR ''e''" "last (reset_lock d) = CHR ''k''" "last (manual_flag d) = CHR ''l''"
    by (simp_all add: active_file_def reset_lock_def manual_flag_def path_join_last plain_name_def)
  then show "active_file d \<noteq> reset_lock d" "reset_lock d \<noteq> active_file d"
    "manual_flag d \<noteq> reset_lock d" "reset_lock d \<noteq> manual_flag d"
    "manual_flag d \<noteq> active_file d" "active_file d \<noteq> manual_flag d"
    by auto
qed

end
