(* ===== verification/Netstack.thy ===== *)
theory Netstack
  imports ModulePaths Errors
begin

text \<open>
  The network stack manager (\<^verbatim>\<open>daemon/internal/netstack/netstack.go\<close>): it applies, removes and
  verifies the firewall, DNS and privacy-guard rules by running the module's shell scripts,
  and afterwards inspects the system for what is left behind.

  The scripts are code outside this package: \<^verbatim>\<open>ExecScriptFunc\<close> is a parameter that acts on a
  world of any type \<^typ>\<open>'w\<close> and returns an error.  \<^verbatim>\<open>ExecCommandFunc\<close> is used only for
  queries (\<^verbatim>\<open>iptables -S\<close>, \<^verbatim>\<open>ip rule show\<close>, \<^verbatim>\<open>ss\<close>, \<^verbatim>\<open>cat\<close>, \<^verbatim>\<open>readlink\<close>,
  \<^verbatim>\<open>pidof\<close>); it is a function from the command to its output and error, which is the state
  of the system while the inspection runs.
\<close>

type_synonym 'w exec_script = "string \<Rightarrow> string \<Rightarrow> env \<Rightarrow> 'w \<Rightarrow> go_error option \<times> 'w"
type_synonym exec_command = "string \<Rightarrow> string list \<Rightarrow> string \<times> go_error option"

record 'w net_manager =
  nm_data_dir :: string
  nm_env :: env
  nm_exec_script :: "'w exec_script option"
  nm_exec_command :: "exec_command option"

definition new_net_manager :: "string \<Rightarrow> env \<Rightarrow> 'w exec_script option \<Rightarrow> 'w net_manager" where
  "new_net_manager data_dir e script =
     \<lparr>nm_data_dir = data_dir, nm_env = e, nm_exec_script = script, nm_exec_command = None\<rparr>"

definition with_exec_command :: "exec_command option \<Rightarrow> 'w net_manager \<Rightarrow> 'w net_manager" where
  "with_exec_command cmd m = m\<lparr>nm_exec_command := cmd\<rparr>"

section \<open>Building reports\<close>

definition new_net_report :: "string \<Rightarrow> net_report" where
  "new_net_report operation = \<lparr>nr_operation = operation, nr_status = ''ok'', nr_steps = [],
     nr_errors = [], nr_warnings = [], nr_leftovers = [], nr_rollback_applied = False\<rparr>"

definition add_step :: "string \<Rightarrow> string \<Rightarrow> string \<Rightarrow> net_report \<Rightarrow> net_report" where
  "add_step name status detail r =
     r\<lparr>nr_steps := nr_steps r @ [\<lparr>ns_name = name, ns_status = status, ns_detail = detail\<rparr>]\<rparr>"

definition net_add_ok :: "string \<Rightarrow> string \<Rightarrow> net_report \<Rightarrow> net_report" where
  "net_add_ok name detail r = add_step name ''ok'' detail r"

definition net_add_already_clean :: "string \<Rightarrow> string \<Rightarrow> net_report \<Rightarrow> net_report" where
  "net_add_already_clean name detail r = add_step name ''already_clean'' detail r"

definition net_add_failure :: "string \<Rightarrow> go_error option \<Rightarrow> net_report \<Rightarrow> net_report" where
  "net_add_failure name err r =
     (let detail = (case err of None \<Rightarrow> [] | Some e \<Rightarrow> error_msg e)
      in add_step name ''failed'' detail
           (r\<lparr>nr_status := ''failed'', nr_errors := nr_errors r @ [name @ '': '' @ detail]\<rparr>))"

definition net_add_warning :: "string \<Rightarrow> go_error option \<Rightarrow> net_report \<Rightarrow> net_report" where
  "net_add_warning name err r =
     (let detail = (case err of None \<Rightarrow> [] | Some e \<Rightarrow> error_msg e)
      in add_step name ''warning'' detail
           (r\<lparr>nr_warnings := nr_warnings r @ [name @ '': '' @ detail]\<rparr>))"

text \<open>\<^verbatim>\<open>Report.Err\<close>: the code is that of the first failed step.\<close>

definition failed_step_code :: "string \<Rightarrow> string" where
  "failed_step_code name =
     (if name = ''iptables-start'' then ''RULES_NOT_APPLIED''
      else if name = ''dns-start'' then ''DNS_APPLY_FAILED''
      else if name = ''dns-stop'' \<or> name = ''iptables-stop'' then ''NETSTACK_CLEANUP_FAILED''
      else if name = ''dns-status'' \<or> name = ''iptables-status'' then ''NETSTACK_VERIFY_FAILED''
      else ''NETSTACK_FAILED'')"

definition net_report_err :: "net_report \<Rightarrow> go_error option" where
  "net_report_err r =
     (if nr_errors r = [] then None
      else Some (NetstackError (nr_operation r)
             (case find (\<lambda>s. ns_status s = ''failed'') (nr_steps r) of
                None \<Rightarrow> ''NETSTACK_FAILED'' | Some s \<Rightarrow> failed_step_code (ns_name s)) r))"

section \<open>Running the scripts\<close>

definition is_missing_script_error :: "go_error \<Rightarrow> bool" where
  "is_missing_script_error e =
     (let lower = to_lower (error_msg e)
      in str_contains lower ''script not found:'' \<or> str_contains lower ''no such file or directory'')"

definition net_run :: "'w net_manager \<Rightarrow> string \<Rightarrow> string \<Rightarrow> 'w \<Rightarrow> go_error option \<times> 'w" where
  "net_run m name command w =
     (case nm_exec_script m of
        None \<Rightarrow> (Some (ErrorString ''exec script function is nil''), w)
      | Some script \<Rightarrow>
          if name = ''dns'' then script (dns_script (nm_data_dir m)) command (nm_env m) w
          else if name = ''iptables'' then script (iptables_script (nm_data_dir m)) command (nm_env m) w
          else if name = ''privacy_guard''
          then script (privacy_guard_script (nm_data_dir m)) command (nm_env m) w
          else (Some (ErrorString (''unknown netstack script \"'' @ name @ ''\"'')), w))"

definition cleanup_step :: "'w net_manager \<Rightarrow> bool \<Rightarrow> string \<Rightarrow> net_report \<times> 'w \<Rightarrow> net_report \<times> 'w" where
  "cleanup_step m tolerate_missing name rw =
     (let (report, w) = rw; step_name = name @ ''-stop'';
          (err, w') = net_run m name ''stop'' w
      in (case err of
            None \<Rightarrow> (net_add_ok step_name [] report, w')
          | Some e \<Rightarrow>
              if tolerate_missing \<and> is_missing_script_error e
              then (net_add_already_clean step_name (error_msg e) report, w')
              else (net_add_failure step_name err report, w')))"

definition cleanup_into ::
  "'w net_manager \<Rightarrow> bool \<Rightarrow> net_report \<Rightarrow> 'w \<Rightarrow> net_report \<times> 'w" where
  "cleanup_into m tolerate_missing report w =
     fold (cleanup_step m tolerate_missing) [''dns'', ''iptables''] (report, w)"

definition net_apply :: "'w net_manager \<Rightarrow> 'w \<Rightarrow> net_report \<times> 'w" where
  "net_apply m w =
     (let (r0, w0) = cleanup_into m True (new_net_report ''apply'') w
      in if nr_status r0 = ''failed'' then (r0, w0)
         else (let (err1, w1) = net_run m ''iptables'' ''start'' w0
               in case err1 of
                    Some e \<Rightarrow>
                      cleanup_into m True
                        ((net_add_failure ''iptables-start'' err1 r0)\<lparr>nr_rollback_applied := True\<rparr>) w1
                  | None \<Rightarrow>
                      (let r1 = net_add_ok ''iptables-start'' [] r0;
                           (err2, w2) = net_run m ''dns'' ''start'' w1
                       in case err2 of
                            Some e \<Rightarrow>
                              cleanup_into m True
                                ((net_add_failure ''dns-start'' err2 r1)\<lparr>nr_rollback_applied := True\<rparr>) w2
                          | None \<Rightarrow>
                              (let r2 = net_add_ok ''dns-start'' [] r1;
                                   (err3, w3) = net_run m ''privacy_guard'' ''start'' w2
                               in case err3 of
                                    Some e \<Rightarrow> (net_add_warning ''privacy-guard-start'' err3 r2, w3)
                                  | None \<Rightarrow> (net_add_ok ''privacy-guard-start'' [] r2, w3)))))"

definition net_cleanup :: "'w net_manager \<Rightarrow> 'w \<Rightarrow> net_report \<times> 'w" where
  "net_cleanup m w = cleanup_into m True (new_net_report ''cleanup'') w"

definition net_verify :: "'w net_manager \<Rightarrow> 'w \<Rightarrow> net_report \<times> 'w" where
  "net_verify m w =
     (let r0 = new_net_report ''verify'';
          (err1, w1) = net_run m ''iptables'' ''status'' w
      in case err1 of
           Some e \<Rightarrow> (net_add_failure ''iptables-status'' err1 r0, w1)
         | None \<Rightarrow>
             (let r1 = net_add_ok ''iptables-status'' [] r0;
                  (err2, w2) = net_run m ''dns'' ''status'' w1
              in case err2 of
                   Some e \<Rightarrow> (net_add_failure ''dns-status'' err2 r1, w2)
                 | None \<Rightarrow> (net_add_ok ''dns-status'' [] r1, w2)))"

section \<open>Policy rules\<close>

text \<open>
  The loop of \<^verbatim>\<open>RuleLineMatches\<close>, over the suffixes of the field list: \<^verbatim>\<open>i+1 < len(fields)\<close>
  is that a field follows.
\<close>

fun rule_scan :: "string \<Rightarrow> string \<Rightarrow> string list \<Rightarrow> bool \<times> bool \<Rightarrow> bool \<times> bool" where
  "rule_scan mark table [] ok = ok"
| "rule_scan mark table [f] ok = ok"
| "rule_scan mark table (f # g # rest) (mark_ok, table_ok) =
     rule_scan mark table (g # rest)
       (mark_ok \<or> (f = ''fwmark'' \<and> mark \<noteq> [] \<and> (g = mark \<or> has_prefix g (mark @ ''/''))),
        table_ok \<or> ((f = ''lookup'' \<or> f = ''table'') \<and> table \<noteq> [] \<and> g = table))"

definition rule_line_matches :: "string \<Rightarrow> string \<Rightarrow> string \<Rightarrow> bool" where
  "rule_line_matches line mark table =
     (let (mark_ok, table_ok) =
        rule_scan (to_lower (trim_space mark)) (trim_space table) (str_fields (to_lower line))
          (False, False)
      in mark_ok \<and> table_ok)"

text \<open>Neighbouring fields\<close>

definition adjacent :: "'a list \<Rightarrow> 'a \<Rightarrow> 'a \<Rightarrow> bool" where
  "adjacent xs a b \<longleftrightarrow> (\<exists>pre post. xs = pre @ a # b # post)"

lemma adjacent_simps [simp]:
  "\<not> adjacent [] a b" "\<not> adjacent [x] a b"
  "adjacent (x # y # zs) a b \<longleftrightarrow> (a = x \<and> b = y) \<or> adjacent (y # zs) a b"
proof -
  show "adjacent (x # y # zs) a b \<longleftrightarrow> (a = x \<and> b = y) \<or> adjacent (y # zs) a b"
    unfolding adjacent_def by (auto simp: Cons_eq_append_conv)
qed (auto simp: adjacent_def Cons_eq_append_conv)

lemma rule_scan_spec:
  "rule_scan mark table fs (m0, t0) =
     (m0 \<or> (mark \<noteq> [] \<and> (\<exists>g. adjacent fs ''fwmark'' g \<and> (g = mark \<or> has_prefix g (mark @ ''/'')))),
      t0 \<or> (table \<noteq> [] \<and> (adjacent fs ''lookup'' table \<or> adjacent fs ''table'' table)))"
  by (induction mark table fs "(m0, t0)" arbitrary: m0 t0 rule: rule_scan.induct) auto

section \<open>Ports and listeners\<close>

definition env_value :: "env \<Rightarrow> string \<Rightarrow> string" where
  "env_value e key = trim_space (env_get e key)"

definition env_int :: "env \<Rightarrow> string \<Rightarrow> int" where
  "env_int e key = fst (atoi (env_value e key))"

definition value_or_default_int :: "int \<Rightarrow> int \<Rightarrow> int" where
  "value_or_default_int v fallback = (if v = 0 then fallback else v)"

fun dedup_ports :: "int list \<Rightarrow> int list \<Rightarrow> int list" where
  "dedup_ports seen [] = []"
| "dedup_ports seen (p # ps) =
     (if p \<le> 0 \<or> p \<in> set seen then dedup_ports seen ps else p # dedup_ports (p # seen) ps)"

definition chain_proxy_ports :: "env \<Rightarrow> int list" where
  "chain_proxy_ports e = map fst (filter snd (map atoi (str_fields (env_value e ''CHAIN_PROXY_PORTS''))))"

definition effective_local_ports :: "env \<Rightarrow> int list" where
  "effective_local_ports e =
     dedup_ports []
       ([value_or_default_int (env_int e ''TPROXY_PORT'') 10853,
         value_or_default_int (env_int e ''DNS_PORT'') 10856,
         env_int e ''API_PORT'', env_int e ''SOCKS_PORT'', env_int e ''HTTP_PORT''] @
        chain_proxy_ports e)"

record local_listener =
  ll_proto :: string
  ll_address :: string
  ll_port :: int
  ll_pid :: int

definition is_local_listener_address :: "string \<Rightarrow> bool" where
  "is_local_listener_address address =
     (to_lower (trim_set ''[]'' address)
        \<in> {''*'', ''0.0.0.0'', ''::'', '':::'', ''[::]'', ''127.0.0.1'', ''::1'', ''localhost''})"

definition parse_address_port_token :: "string \<Rightarrow> (string \<times> int) option" where
  "parse_address_port_token token0 =
     (let token = trim_set ''[]'' (trim_space token0)
      in if token = [] \<or> has_suffix token '':*'' then None
         else (case split_last (CHR '':'') token of
                 None \<Rightarrow> None
               | Some (host, port_text) \<Rightarrow>
                   if port_text = [] then None
                   else (case atoi port_text of (port, ok) \<Rightarrow>
                           if \<not> ok then None
                           else (let address = trim_set ''[]'' host
                                 in Some (if address = [] then ''*'' else address, port)))))"

definition parse_ss_pid :: "string \<Rightarrow> int" where
  "parse_ss_pid line =
     (case after_first ''pid='' line of
        None \<Rightarrow> 0
      | Some rest \<Rightarrow> fst (atoi (takeWhile is_digit rest)))"

definition parse_ss_listener_line :: "string \<Rightarrow> int \<Rightarrow> local_listener option" where
  "parse_ss_listener_line line port =
     (case str_fields line of
        [] \<Rightarrow> None
      | f # fs \<Rightarrow>
          (let proto = to_lower f
           in if \<not> has_prefix proto ''tcp'' \<and> \<not> has_prefix proto ''udp'' then None
              else (case find (\<lambda>t. case parse_address_port_token t of
                                     Some (a, p) \<Rightarrow> p = port \<and> is_local_listener_address a
                                   | None \<Rightarrow> False) fs of
                      None \<Rightarrow> None
                    | Some t \<Rightarrow>
                        (case parse_address_port_token t of
                           Some (a, p) \<Rightarrow>
                             Some \<lparr>ll_proto = proto, ll_address = a, ll_port = p,
                                   ll_pid = parse_ss_pid line\<rparr>
                         | None \<Rightarrow> None))))"

definition proc_net_local_address :: "string \<Rightarrow> bool \<Rightarrow> string option" where
  "proc_net_local_address hex_address ipv6 =
     (if \<not> ipv6 then
        (if hex_address = ''00000000'' then Some ''0.0.0.0''
         else if hex_address = ''0100007F'' then Some ''127.0.0.1'' else None)
      else if hex_address = ''00000000000000000000000000000000'' then Some ''::''
      else if hex_address = ''00000000000000000000000001000000'' then Some ''::1'' else None)"

definition parse_proc_net_listener_line ::
  "string \<Rightarrow> string \<Rightarrow> bool \<Rightarrow> int \<Rightarrow> local_listener option" where
  "parse_proc_net_listener_line line proto ipv6 port =
     (let fields = str_fields line
      in if length fields < 4 \<or> hd fields = ''sl'' then None
         else (case split_last (CHR '':'') (fields ! 1) of
                 None \<Rightarrow> None
               | Some (addr, port_text) \<Rightarrow>
                   if port_text = [] then None
                   else (case parse_hex32 port_text of (got, ok) \<Rightarrow>
                     if \<not> ok \<or> got \<noteq> port then None
                     else if has_prefix proto ''tcp'' \<and> to_upper (fields ! 3) \<noteq> ''0A'' then None
                     else (case proc_net_local_address (to_upper addr) ipv6 of
                             None \<Rightarrow> None
                           | Some a \<Rightarrow> Some \<lparr>ll_proto = proto, ll_address = a, ll_port = port,
                                            ll_pid = 0\<rparr>))))"

definition option_list :: "'a option \<Rightarrow> 'a list" where
  "option_list x = (case x of None \<Rightarrow> [] | Some y \<Rightarrow> [y])"

definition find_ss_local_listeners :: "exec_command \<Rightarrow> int \<Rightarrow> local_listener list" where
  "find_ss_local_listeners exec port =
     (let first = exec ''ss'' [''-H'', ''-lntup''];
          (out, err) = (if snd first \<noteq> None then exec ''ss'' [''-lntup''] else first)
      in if err \<noteq> None then []
         else concat (map (\<lambda>l. option_list (parse_ss_listener_line l port)) (split_lines out)))"

definition find_proc_net_local_listeners :: "exec_command \<Rightarrow> int \<Rightarrow> local_listener list" where
  "find_proc_net_local_listeners exec port =
     concat (map (\<lambda>(path, proto, ipv6).
         case exec ''cat'' [path] of (out, err) \<Rightarrow>
           if err \<noteq> None then []
           else concat (map (\<lambda>l. option_list (parse_proc_net_listener_line l proto ipv6 port))
                            (split_lines out)))
       [(''/proc/net/tcp'', ''tcp'', False), (''/proc/net/tcp6'', ''tcp6'', True),
        (''/proc/net/udp'', ''udp'', False), (''/proc/net/udp6'', ''udp6'', True)])"

definition find_local_listeners :: "exec_command \<Rightarrow> int \<Rightarrow> local_listener list" where
  "find_local_listeners exec port =
     (let listeners = find_ss_local_listeners exec port
      in if listeners \<noteq> [] then listeners else find_proc_net_local_listeners exec port)"

section \<open>Process ownership\<close>

definition filepath_clean_text :: "string \<Rightarrow> string" where
  "filepath_clean_text path = trim_right_set ''/'' (trim_space path)"

definition nul_to_space :: "string \<Rightarrow> string" where
  "nul_to_space = replace_char (char_of (0::nat)) (CHR '' '')"

definition cleaned_cmdline_tokens :: "string \<Rightarrow> string list" where
  "cleaned_cmdline_tokens cmdline = map filepath_clean_text (str_fields (nul_to_space cmdline))"

definition non_empty :: "string \<Rightarrow> string \<Rightarrow> string" where
  "non_empty v fallback = (if v = [] then fallback else v)"

definition process_is_owned_singbox :: "exec_command \<Rightarrow> string \<Rightarrow> int \<Rightarrow> bool \<times> string" where
  "process_is_owned_singbox exec data_dir pid =
     (let expected_bin = filepath_clean_text (bin_dir data_dir @ ''/sing-box'');
          expected_config = filepath_clean_text (rendered_config_dir data_dir @ ''/singbox.json'');
          hot_swap = filepath_clean_text (rendered_config_dir data_dir @ ''/singbox.hotswap.json'');
          (exe_out, exe_err) = exec ''readlink'' [''/proc/'' @ int_str pid @ ''/exe''];
          (cmd_out, cmd_err) = exec ''cat'' [''/proc/'' @ int_str pid @ ''/cmdline''];
          exe = filepath_clean_text (trim_space exe_out);
          cmdline = filepath_clean_text (nul_to_space cmd_out);
          tokens = cleaned_cmdline_tokens cmd_out;
          bin_ok = (exe = expected_bin \<or> expected_bin \<in> set tokens);
          config_ok = (expected_config \<in> set tokens \<or> hot_swap \<in> set tokens)
      in if bin_ok \<and> config_ok
         then (True, ''exe='' @ non_empty exe ''<unknown>'' @ '' config='' @ expected_config)
         else (let parts = (if exe_err = None \<and> exe \<noteq> [] then [''exe='' @ exe] else []) @
                           (if cmd_err = None \<and> cmdline \<noteq> [] then [''cmdline='' @ cmdline] else [])
               in if parts = [] then (False, ''owner unavailable'') else (False, str_join '' '' parts)))"

section \<open>What is left after a cleanup\<close>

definition first_line_containing :: "string \<Rightarrow> string \<Rightarrow> string" where
  "first_line_containing text needle =
     (case find (\<lambda>l. str_contains l needle) (split_lines text) of
        None \<Rightarrow> [] | Some l \<Rightarrow> trim_space l)"

definition first_line :: "string \<Rightarrow> string" where
  "first_line text =
     (case find (\<lambda>l. l \<noteq> []) (map trim_space (split_lines text)) of None \<Rightarrow> [] | Some l \<Rightarrow> l)"

definition is_missing_kernel_table_output :: "string \<Rightarrow> bool" where
  "is_missing_kernel_table_output output =
     (let lower = to_lower output
      in str_contains lower ''table does not exist'' \<or> str_contains lower (''can'' @ [char_of (39::nat)] @ ''t initialize'') \<or>
         str_contains lower ''does not exist'')"

definition is_missing_command_error :: "go_error \<Rightarrow> bool" where
  "is_missing_command_error e =
     (let lower = to_lower (error_msg e)
      in str_contains lower ''executable file not found'' \<or>
         str_contains lower ''no such file or directory'')"

definition is_missing_route_table_output :: "string \<Rightarrow> bool" where
  "is_missing_route_table_output output =
     (let lower = to_lower output
      in str_contains lower ''fib table does not exist'' \<or> str_contains lower ''no such process'' \<or>
         str_contains lower ''no such file'')"

record cleanup_findings =
  cf_leftovers :: "string list"
  cf_warnings :: "string list"

definition firewall_tables :: "(string \<times> string) list" where
  "firewall_tables = concat (map (\<lambda>bin. map (\<lambda>table. (bin, table)) [''raw'', ''mangle'', ''nat'', ''filter''])
     [''iptables'', ''ip6tables'', ''iptables-legacy'', ''ip6tables-legacy'',
      ''iptables-nft'', ''ip6tables-nft''])"

definition table_leftovers :: "exec_command \<Rightarrow> string \<times> string \<Rightarrow> string list" where
  "table_leftovers exec spec =
     (let (bin, table) = spec; (out, err) = exec bin [''-w'', ''10'', ''-t'', table, ''-S'']
      in case err of
           Some e \<Rightarrow>
             if is_missing_command_error e \<or> is_missing_kernel_table_output out then []
             else if trim_space out \<noteq> []
             then [bin @ '' '' @ table @ '' check failed: '' @ error_msg e @ '': '' @ first_line out]
             else [bin @ '' '' @ table @ '' check failed: '' @ error_msg e]
         | None \<Rightarrow>
             (let line = first_line_containing out ''RKNNOVPN''
              in if line \<noteq> [] then [bin @ '' '' @ table @ '' rule remains: '' @ line] else []))"

definition rule_leftovers :: "exec_command \<Rightarrow> string \<Rightarrow> string \<times> string list \<times> string \<Rightarrow> string list" where
  "rule_leftovers exec mark spec =
     (let (name, args, table) = spec; (out, err) = exec ''ip'' args
      in case err of
           Some e \<Rightarrow> [name @ '' check failed: '' @ error_msg e]
         | None \<Rightarrow>
             (case find (\<lambda>l. rule_line_matches l mark table) (split_lines out) of
                None \<Rightarrow> [] | Some l \<Rightarrow> [name @ '' remains: '' @ trim_space l]))"

definition route_leftovers :: "exec_command \<Rightarrow> string \<times> string list \<Rightarrow> string list" where
  "route_leftovers exec spec =
     (let (name, args) = spec; (out, err) = exec ''ip'' args
      in case err of
           Some e \<Rightarrow>
             if is_missing_route_table_output out then []
             else if trim_space out = [] then [name @ '' check failed: '' @ error_msg e]
             else [name @ '' check failed: '' @ error_msg e @ '': '' @ first_line out]
         | None \<Rightarrow> if trim_space out \<noteq> [] then [name @ '' still has routes: '' @ first_line out] else [])"

text \<open>A finding is a leftover (\<^verbatim>\<open>Inl\<close>) or a warning (\<^verbatim>\<open>Inr\<close>).\<close>

definition pid_finding :: "exec_command \<Rightarrow> string \<Rightarrow> string \<Rightarrow> (string + string) list" where
  "pid_finding exec data_dir raw =
     (let (pid, ok) = atoi raw
      in if \<not> ok \<or> pid \<le> 0 then []
         else (let (owned, detail) = process_is_owned_singbox exec data_dir pid
               in if owned
                  then [Inl (''RKNnoVPN sing-box process still running: pid='' @ int_str pid @ '' '' @ detail)]
                  else [Inr (''other sing-box process detected during cleanup verification: pid='' @
                             int_str pid @ '' '' @ detail)]))"

definition listener_finding :: "exec_command \<Rightarrow> string \<Rightarrow> int \<Rightarrow> local_listener \<Rightarrow> string + string" where
  "listener_finding exec data_dir port l =
     (if 0 < ll_pid l
      then (let (owned, detail) = process_is_owned_singbox exec data_dir (ll_pid l)
            in if owned
               then Inl (''RKNnoVPN '' @ ll_proto l @ '' port '' @ int_str port @ '' still listening on '' @
                         ll_address l @ '': pid='' @ int_str (ll_pid l) @ '' '' @ detail)
               else Inr (''other process owns '' @ ll_proto l @ '' port '' @ int_str port @ '' on '' @
                         ll_address l @ '': pid='' @ int_str (ll_pid l) @ '' '' @ detail))
      else Inl (ll_proto l @ '' port '' @ int_str port @ '' still listening on '' @ ll_address l @
                '' (owner unknown)''))"

definition process_findings :: "exec_command \<Rightarrow> string \<Rightarrow> env \<Rightarrow> (string + string) list" where
  "process_findings exec data_dir e =
     concat (map (pid_finding exec data_dir) (str_fields (fst (exec ''pidof'' [''sing-box''])))) @
     concat (map (\<lambda>port. map (listener_finding exec data_dir port) (find_local_listeners exec port))
       (effective_local_ports e))"

definition lefts :: "('a + 'b) list \<Rightarrow> 'a list" where
  "lefts xs = concat (map (\<lambda>x. case x of Inl a \<Rightarrow> [a] | Inr b \<Rightarrow> []) xs)"

definition rights :: "('a + 'b) list \<Rightarrow> 'b list" where
  "rights xs = concat (map (\<lambda>x. case x of Inl a \<Rightarrow> [] | Inr b \<Rightarrow> [b]) xs)"

text \<open>\<^verbatim>\<open>path_exists\<close> is \<^verbatim>\<open>os.Stat\<close> without an error.\<close>

definition collect_cleanup_findings :: "(string \<Rightarrow> bool) \<Rightarrow> 'w net_manager \<Rightarrow> cleanup_findings" where
  "collect_cleanup_findings path_exists m =
     (case nm_exec_command m of
        None \<Rightarrow> \<lparr>cf_leftovers = [''exec command function is nil''], cf_warnings = []\<rparr>
      | Some exec \<Rightarrow>
          (let e = nm_env m; mark = to_lower (env_value e ''FWMARK'');
               route_table = env_value e ''ROUTE_TABLE'';
               route_table_v6 = env_value e ''ROUTE_TABLE_V6'';
               processes = process_findings exec (nm_data_dir m) e
           in \<lparr>cf_leftovers =
                 concat (map (table_leftovers exec) firewall_tables) @
                 concat (map (rule_leftovers exec mark)
                   [(''ip rule'', [''rule'', ''show''], route_table),
                    (''ip -6 rule'', [''-6'', ''rule'', ''show''], route_table_v6)]) @
                 concat (map (route_leftovers exec)
                   [(''ip route table '' @ route_table, [''route'', ''show'', ''table'', route_table]),
                    (''ip -6 route table '' @ route_table_v6,
                       [''-6'', ''route'', ''show'', ''table'', route_table_v6])]) @
                 lefts processes @
                 map (\<lambda>p. ''stale runtime file remains: '' @ p)
                   (filter path_exists (runtime_snapshot_files (nm_data_dir m))),
               cf_warnings = rights processes\<rparr>))"

definition collect_leftovers :: "(string \<Rightarrow> bool) \<Rightarrow> 'w net_manager \<Rightarrow> string list" where
  "collect_leftovers path_exists m = cf_leftovers (collect_cleanup_findings path_exists m)"

definition net_verify_cleanup :: "(string \<Rightarrow> bool) \<Rightarrow> 'w net_manager \<Rightarrow> net_report" where
  "net_verify_cleanup path_exists m =
     (let findings = collect_cleanup_findings path_exists m;
          leftovers = cf_leftovers findings;
          r = (new_net_report ''verify-cleanup'')
                \<lparr>nr_leftovers := leftovers, nr_warnings := cf_warnings findings\<rparr>
      in if leftovers = [] then net_add_ok ''verify-cleanup'' [] r
         else (let detail = str_join ''; '' leftovers
               in (add_step ''verify-cleanup'' ''failed'' detail r)
                    \<lparr>nr_status := ''failed'', nr_errors := nr_errors r @ [detail]\<rparr>))"

end
