(* ===== verification/RootReload.thy ===== *)
theory RootReload
  imports RootBackend StageReport Netstack
begin

text \<open>
  Reloading the runtime after a configuration change
  (\<^verbatim>\<open>daemon/internal/runtime/root/reload.go\<close>): the plan, the reload with its stage report, and
  the reapplication of the network rules.  The hooks act on a world of type \<^typ>\<open>'w\<close>; a nil hook is
  \<^verbatim>\<open>None\<close>.  The clock is a function of the world.  The configuration type \<^typ>\<open>'c\<close> is
  opaque here: \<^verbatim>\<open>ResolveProfile\<close> and the owner check of package \<^verbatim>\<open>core\<close> are parameters.
\<close>

section \<open>The plan\<close>

record reload_plan =
  pl_full_restart :: bool
  pl_netstack_reapply_after :: bool
  pl_changed_keys :: "string list"

definition reload_full_restart_env_keys :: "string list" where
  "reload_full_restart_env_keys =
     [''CORE_GID'', ''TPROXY_PORT'', ''DNS_PORT'', ''API_PORT'', ''SOCKS_PORT'', ''HTTP_PORT'',
      ''FWMARK'', ''ROUTE_TABLE'', ''ROUTE_TABLE_V6'', ''PROXY_MODE'']"

definition reload_netstack_reapply_env_keys :: "string list" where
  "reload_netstack_reapply_env_keys =
     [''XRAY_SIDECAR_PORT'', ''CHAIN_PROXY_PORTS'', ''CHAIN_PROXY_UIDS'', ''CHAIN_PROXY_RULES'',
      ''APP_MODE'', ''PROXY_UIDS'', ''DIRECT_UIDS'', ''BYPASS_UIDS'', ''DNS_SCOPE'', ''DNS_MODE'',
      ''IPV6_MODE'', ''IPV6_FAIL_CLOSED'', ''SHARING_MODE'', ''SHARING_IFACES'']"

definition env_differs :: "env \<Rightarrow> env \<Rightarrow> string \<Rightarrow> bool" where
  "env_differs old new key \<longleftrightarrow> env_get old key \<noteq> env_get new key"

definition plan_reload :: "env option \<Rightarrow> env option \<Rightarrow> reload_plan" where
  "plan_reload old_env new_env =
     (case (old_env, new_env) of
        (Some old, Some new) \<Rightarrow>
          (let full = filter (env_differs old new) reload_full_restart_env_keys
           in if full \<noteq> []
              then \<lparr>pl_full_restart = True, pl_netstack_reapply_after = False, pl_changed_keys = full\<rparr>
              else (let reapply = filter (env_differs old new) reload_netstack_reapply_env_keys
                    in \<lparr>pl_full_restart = False, pl_netstack_reapply_after = (reapply \<noteq> []),
                        pl_changed_keys = reapply\<rparr>))
      | _ \<Rightarrow> \<lparr>pl_full_restart = True, pl_netstack_reapply_after = False, pl_changed_keys = []\<rparr>)"

definition reload_needs_full_restart :: "env option \<Rightarrow> env option \<Rightarrow> bool" where
  "reload_needs_full_restart old_env new_env = pl_full_restart (plan_reload old_env new_env)"

definition ipv6_fail_closed_env :: "string \<Rightarrow> string" where
  "ipv6_fail_closed_env mode =
     (if mode \<in> {''disable'', ''disabled'', ''off'', ''ipv4_only''} then ''0'' else ''1'')"

section \<open>Reapplying the rules\<close>

definition reapply_runtime_rules ::
  "('c \<Rightarrow> go_error option) \<Rightarrow> 'c \<Rightarrow> string \<Rightarrow> env \<Rightarrow> 'w exec_script option \<Rightarrow> 'w
     \<Rightarrow> (net_report \<times> go_error option) \<times> 'w" where
  "reapply_runtime_rules verify_owners cfg data_dir e script w =
     (case verify_owners cfg of
        Some err \<Rightarrow>
          (let report = \<lparr>nr_operation = ''apply'', nr_status = ''failed'',
                 nr_steps = [\<lparr>ns_name = ''verify-chain-proxy-owners'', ns_status = ''failed'',
                              ns_detail = error_msg err\<rparr>],
                 nr_errors = [error_msg err], nr_warnings = [], nr_leftovers = [],
                 nr_rollback_applied = False\<rparr>
           in ((report, Some (NetstackError ''apply'' ''LOCAL_PROXY_OWNER_MISMATCH'' report)), w))
      | None \<Rightarrow>
          (let manager = new_net_manager data_dir e script; (report, w1) = net_apply manager w
           in case net_report_err report of
                Some err \<Rightarrow> ((report, Some err), w1)
              | None \<Rightarrow> (let (report2, w2) = net_verify manager w1
                         in ((report2, net_report_err report2), w2))))"

section \<open>The reload\<close>

record 'c reload_input =
  ri_config :: "'c option"
  ri_context :: string
  ri_saved_label :: string
  ri_generation :: int64
  ri_full_restart :: bool
  ri_netstack_reapply_after :: bool

record ('c, 'w) reload_deps =
  rd_stop_subsystems :: "('w \<Rightarrow> 'w) option"
  rd_full_restart :: "(int64 \<Rightarrow> 'w \<Rightarrow> go_error option \<times> 'w) option"
  rd_last_runtime_report :: "('w \<Rightarrow> runtime_stage_report) option"
  rd_hot_swap :: "(node_profile \<Rightarrow> 'w \<Rightarrow> go_error option \<times> 'w) option"
  rd_reapply_runtime_rules :: "('c option \<Rightarrow> 'w \<Rightarrow> (net_report \<times> go_error option) \<times> 'w) option"
  rd_reset_network_state :: "(int64 \<Rightarrow> 'w \<Rightarrow> reset_report \<times> 'w) option"
  rd_reset_rescue_state :: "('w \<Rightarrow> 'w) option"
  rd_start_subsystems :: "('w \<Rightarrow> 'w) option"
  rd_refresh_health :: "('w \<Rightarrow> health_snapshot \<times> 'w) option"
  rd_observe_reload_report :: bool
  rd_now :: "'w \<Rightarrow> gtime"
  rd_resolve_profile :: "'c \<Rightarrow> node_profile"

text \<open>The local variable \<^verbatim>\<open>report\<close>, the reports the observer got, and the world.\<close>

type_synonym 'w reload_state = "runtime_stage_report \<times> runtime_stage_report list \<times> 'w"

definition observe_report :: "('c, 'w) reload_deps \<Rightarrow> 'w reload_state \<Rightarrow> 'w reload_state" where
  "observe_report deps s =
     (case s of (r, seen, w) \<Rightarrow> (r, if rd_observe_reload_report deps then seen @ [r] else seen, w))"

definition record_stage ::
  "('c, 'w) reload_deps \<Rightarrow> string \<Rightarrow> string \<Rightarrow> string \<Rightarrow> string \<Rightarrow> bool \<Rightarrow> 'w reload_state \<Rightarrow> 'w reload_state"
where
  "record_stage deps name status code detail rollback_applied s =
     (case s of (r, seen, w) \<Rightarrow>
        observe_report deps (add_stage r (rd_now deps w) name status code detail rollback_applied, seen, w))"

definition fail_stage ::
  "('c, 'w) reload_deps \<Rightarrow> string \<Rightarrow> string \<Rightarrow> go_error \<Rightarrow> bool \<Rightarrow> 'w reload_state \<Rightarrow> 'w reload_state" where
  "fail_stage deps name code err rollback_applied s =
     record_stage deps name ''failed'' code (error_msg err) rollback_applied s"

definition finish_reload :: "('c, 'w) reload_deps \<Rightarrow> 'w reload_state \<Rightarrow> 'w reload_state" where
  "finish_reload deps s = (case s of (r, seen, w) \<Rightarrow> observe_report deps (finish_ok r (rd_now deps w), seen, w))"

definition on_world :: "('w \<Rightarrow> 'w) option \<Rightarrow> 'w reload_state \<Rightarrow> 'w reload_state" where
  "on_world f s = (case s of (r, seen, w) \<Rightarrow> (r, seen, case f of None \<Rightarrow> w | Some g \<Rightarrow> g w))"

definition call_world :: "('w \<Rightarrow> 'a \<times> 'w) \<Rightarrow> 'w reload_state \<Rightarrow> 'a \<times> 'w reload_state" where
  "call_world f s = (case s of (r, seen, w) \<Rightarrow> case f w of (a, w') \<Rightarrow> (a, (r, seen, w')))"

definition runtime_still_running :: "go_error \<Rightarrow> bool" where
  "runtime_still_running err \<longleftrightarrow> errors_as runtime_still_running_of err = Some True"

definition reload_reset_report ::
  "('c, 'w) reload_deps \<Rightarrow> int64 \<Rightarrow> 'w \<Rightarrow> reset_report \<times> 'w" where
  "reload_reset_report deps generation w =
     (case rd_reset_network_state deps of
        None \<Rightarrow> (\<lparr>rr_backend_kind = backend_root_tproxy, rr_generation = generation,
                   rr_status = ''failed'', rr_steps = [], rr_warnings = [],
                   rr_errors = [''reset hook is not configured''], rr_leftovers = [],
                   rr_reboot_required = False\<rparr>, w)
      | Some reset \<Rightarrow> reset generation w)"

definition reset_report_detail :: "reset_report \<Rightarrow> string" where
  "reset_report_detail r = ''errors='' @ nat_str (length (rr_errors r)) @ '' leftovers='' @
     nat_str (length (rr_leftovers r))"

definition last_report_status :: "('c, 'w) reload_deps \<Rightarrow> 'w \<Rightarrow> string" where
  "last_report_status deps w =
     (case rd_last_runtime_report deps of None \<Rightarrow> [] | Some f \<Rightarrow> sr_status (f w))"

definition reload_context :: "'c reload_input \<Rightarrow> string" where
  "reload_context input = first_non_empty [ri_context input, ''apply config'']"

definition reload_saved_label :: "'c reload_input \<Rightarrow> string" where
  "reload_saved_label input = first_non_empty [ri_saved_label input, ''config saved'']"

text \<open>The safety reset after a failed stage: its own stage, then the failed one.\<close>

definition reset_after ::
  "('c, 'w) reload_deps \<Rightarrow> int64 \<Rightarrow> string \<Rightarrow> 'w reload_state \<Rightarrow> reset_report \<times> 'w reload_state" where
  "reset_after deps generation name s =
     (let (report, s1) = call_world (reload_reset_report deps generation) s
      in (report, record_stage deps name (rr_status report) [] (reset_report_detail report)
                    (rr_status report \<noteq> ''ok'') s1))"

definition reload_full ::
  "'c reload_input \<Rightarrow> ('c, 'w) reload_deps \<Rightarrow> 'w reload_state \<Rightarrow> go_error option \<times> 'w reload_state" where
  "reload_full input deps s =
     (let wrap = WrapError (reload_context input @ '' full restart failed; '' @ reload_saved_label input @ '': '')
      in case rd_full_restart deps of
           None \<Rightarrow>
             (let err = ErrorString ''full restart hook is not configured''
              in (Some (wrap err), fail_stage deps ''full-restart'' ''RUNTIME_RESTART_FAILED'' err False s))
         | Some restart \<Rightarrow>
             (let (res, s1) = call_world (restart (ri_generation input)) s
              in case res of
                   Some err \<Rightarrow>
                     (let reset = reset_report_from_error (Some err);
                          s2 = (case reset of None \<Rightarrow> s1
                                | Some r \<Rightarrow> record_stage deps ''reset-after-full-restart-failure'' (rr_status r) []
                                              (reset_report_detail r) (rr_status r \<noteq> ''ok'') s1)
                      in (Some (wrap err),
                          fail_stage deps ''full-restart'' (error_code_or err ''RUNTIME_RESTART_FAILED'') err
                            (reset \<noteq> None) s2))
                 | None \<Rightarrow>
                     (None, finish_reload deps
                        (record_stage deps ''full-restart'' ''ok'' [] (last_report_status deps (snd (snd s1)))
                           False s1))))"

text \<open>After a successful hot swap: the rules, if the environment changed.\<close>

definition reload_reapply ::
  "'c reload_input \<Rightarrow> ('c, 'w) reload_deps \<Rightarrow> 'w reload_state \<Rightarrow> go_error option \<times> 'w reload_state" where
  "reload_reapply input deps s =
     (let wrap = WrapError (reload_context input @ '' netstack reapply failed; '' @ reload_saved_label input @ '': '')
      in if \<not> ri_netstack_reapply_after input
         then (None, record_stage deps ''netstack-reapply'' ''skipped'' [] ''runtime env unchanged'' False s)
         else (case rd_reapply_runtime_rules deps of
                 None \<Rightarrow>
                   (let err = ErrorString ''netstack reapply hook is not configured''
                    in (Some (wrap err), fail_stage deps ''netstack-reapply'' ''RULES_NOT_APPLIED'' err False s))
               | Some reapply \<Rightarrow>
                   (let ((report, res), s1) = call_world (reapply (ri_config input)) s
                    in case res of
                         Some err \<Rightarrow>
                           (let (reset, s2) = reset_after deps (ri_generation input)
                                  ''reset-after-netstack-reapply-failure'' s1
                            in (with_reset_report (Some (wrap err)) reset,
                                fail_stage deps ''netstack-reapply'' (error_code_or err ''RULES_NOT_APPLIED'')
                                  err True s2))
                       | None \<Rightarrow>
                           (None, record_stage deps ''netstack-reapply'' ''ok'' []
                              (''steps='' @ nat_str (length (nr_steps report))) False s1))))"

text \<open>The last part: the subsystems and the readiness gates.\<close>

definition reload_finish ::
  "'c reload_input \<Rightarrow> ('c, 'w) reload_deps \<Rightarrow> 'w reload_state \<Rightarrow> go_error option \<times> 'w reload_state" where
  "reload_finish input deps s =
     (let s1 = record_stage deps ''rescue-reset'' ''ok'' [] [] False (on_world (rd_reset_rescue_state deps) s);
          s2 = record_stage deps ''start-subsystems'' ''ok'' [] [] False (on_world (rd_start_subsystems deps) s1);
          (snapshot, s3) = (case rd_refresh_health deps of
             None \<Rightarrow> (empty_health, s2) | Some refresh \<Rightarrow> call_world refresh s2)
      in if \<not> healthy snapshot
         then (let (reset, s4) = reset_after deps (ri_generation input) ''reset-after-health-failure'' s3;
                   err = ErrorString (first_non_empty [hs_last_error snapshot, ''readiness gates failed''])
               in (with_reset_report (Some (WrapError (reload_context input @ '' readiness gates failed; '' @
                     reload_saved_label input @ '', runtime stopped for safety: '') err)) reset,
                   fail_stage deps ''health-refresh''
                     (first_non_empty [hs_last_code snapshot, ''READINESS_GATE_FAILED'']) err
                     (rr_status reset \<noteq> ''ok'') s4))
         else (None, finish_reload deps
                 (record_stage deps ''health-refresh'' ''ok'' []
                    (first_non_empty [hs_last_code snapshot, ''healthy'']) False s3)))"

definition reload_hot_swap ::
  "'c reload_input \<Rightarrow> ('c, 'w) reload_deps \<Rightarrow> 'w reload_state \<Rightarrow> go_error option \<times> 'w reload_state" where
  "reload_hot_swap input deps s =
     (case rd_hot_swap deps of
        None \<Rightarrow>
          (let err = ErrorString ''hot-swap hook is not configured''
           in (Some err, fail_stage deps ''hot-swap'' ''CORE_SPAWN_FAILED'' err False s))
      | Some swap \<Rightarrow>
          (let profile = (case ri_config input of None \<Rightarrow> empty_profile | Some c \<Rightarrow> rd_resolve_profile deps c);
               (res, s1) = call_world (swap profile) s
           in case res of
                Some err \<Rightarrow>
                  if runtime_still_running err
                  then (Some (WrapError (reload_context input @ '' hot-swap failed; '' @
                          reload_saved_label input @ '', previous runtime restored: '') err),
                        fail_stage deps ''hot-swap'' (error_code_or err ''CORE_SPAWN_FAILED'') err True s1)
                  else (let (reset, s2) = reset_after deps (ri_generation input) ''reset-after-hot-swap-failure'' s1
                        in (with_reset_report (Some (WrapError (reload_context input @ '' hot-swap failed; '' @
                              reload_saved_label input @ '', runtime stopped for safety: '') err)) reset,
                            fail_stage deps ''hot-swap'' (error_code_or err ''CORE_SPAWN_FAILED'') err
                              (rr_status reset \<noteq> ''ok'') s2))
              | None \<Rightarrow>
                  (case reload_reapply input deps
                          (record_stage deps ''hot-swap'' ''ok'' [] (last_report_status deps (snd (snd s1))) False s1) of
                     (Some err, s2) \<Rightarrow> (Some err, s2)
                   | (None, s2) \<Rightarrow> reload_finish input deps s2)))"

definition reload_after_config_change ::
  "'c reload_input \<Rightarrow> ('c, 'w) reload_deps \<Rightarrow> 'w \<Rightarrow> go_error option \<times> 'w reload_state" where
  "reload_after_config_change input deps w =
     (let r0 = new_runtime_stage_report (reload_context input) (rd_now deps w);
          s0 = observe_report deps (r0, [], w);
          s1 = record_stage deps ''stop-subsystems'' ''ok'' [] [] False (on_world (rd_stop_subsystems deps) s0)
      in if ri_full_restart input then reload_full input deps s1 else reload_hot_swap input deps s1)"

end
