(* ===== verification/ScriptEnv.thy ===== *)
theory ScriptEnv
  imports LocalProxy RootReload
begin

text \<open>
  The environments that the daemon gives its shell scripts: \<^verbatim>\<open>CoreManager.scriptEnv\<close>
  (\<^verbatim>\<open>daemon/internal/core/manager.go\<close>) and \<^verbatim>\<open>RescueManager.scriptEnv\<close>
  (\<^verbatim>\<open>daemon/internal/rescue/rescue.go\<close>).  The package catalogs and the listener files of the
  device are parameters.
\<close>

definition or_default :: "int \<Rightarrow> int \<Rightarrow> int" where
  "or_default v d = (if v = 0 then d else v)"

definition core_script_env ::
  "json_codec \<Rightarrow> pkg_env \<Rightarrow> string option list \<Rightarrow> string \<Rightarrow> config \<Rightarrow> env" where
  "core_script_env codec pkgs files data_dir cfg =
     (let px = cf_Proxy cfg; rt = cf_Routing cfg; apps = cf_Apps cfg;
          inbounds = resolve_profile_inbounds codec cfg;
          routing = build_runtime_app_routing_env pkgs (ap_Mode apps) (ap_Packages apps) (rt_AlwaysDirectApps rt)
                      (rt_AlwaysDirectExcludedApps rt) (rt_AlwaysDirectSystemApps rt) (rt_Mode rt);
          guarded = resolve_always_direct_names pkgs (rt_AlwaysDirectApps rt) (rt_AlwaysDirectExcludedApps rt)
                      (rt_AlwaysDirectSystemApps rt);
          (chain_ports, chain_uids, chain_rules) = build_chained_proxy_protection_env codec pkgs files (Some cfg)
      in map_of
        [(''RKNNOVPN_DIR'', data_dir),
         (''CORE_GID'', int_str (or_default (px_GID px) 23333)),
         (''TPROXY_PORT'', int_str (or_default (px_TProxyPort px) 10853)),
         (''DNS_PORT'', int_str (or_default (px_DNSPort px) 10856)),
         (''API_PORT'', int_str (px_APIPort px)),
         (''SOCKS_PORT'', int_str (pi_SocksPort inbounds)),
         (''HTTP_PORT'', int_str (pi_HTTPPort inbounds)),
         (''XRAY_SIDECAR_PORT'', int_str xray_sidecar_socks_port),
         (''CHAIN_PROXY_PORTS'', chain_ports),
         (''CHAIN_PROXY_UIDS'', chain_uids),
         (''CHAIN_PROXY_RULES'', chain_rules),
         (''FWMARK'', mark_hex (or_default (px_Mark px) 8227)),
         (''ROUTE_TABLE'', ''2023''), (''ROUTE_TABLE_V6'', ''2024''),
         (''ROUTE_RULE_PREF'', ''10000''), (''ROUTE_RULE_PREF_V6'', ''10001''),
         (''APP_MODE'', ar_AppMode routing),
         (''PROXY_UIDS'', ar_ProxyUIDs routing),
         (''DIRECT_UIDS'', ar_DirectUIDs routing),
         (''BYPASS_UIDS'', ar_BypassUIDs routing),
         (''PRIVACY_GUARD_PACKAGES'', str_join '' '' guarded),
         (''DNS_SCOPE'', ar_DNSScope routing),
         (''DNS_MODE'', ar_DNSMode routing),
         (''PROXY_MODE'', ''tproxy''),
         (''IPV6_MODE'', cf_IPv6_Mode cfg),
         (''IPV6_FAIL_CLOSED'', ipv6_fail_closed_env (cf_IPv6_Mode cfg)),
         (''SHARING_MODE'', sharing_mode_env (Some cfg)),
         (''SHARING_IFACES'', sharing_interfaces_env (Some cfg))])"

definition rescue_script_env ::
  "json_codec \<Rightarrow> pkg_env \<Rightarrow> string option list \<Rightarrow> string \<Rightarrow> config \<Rightarrow> env" where
  "rescue_script_env codec pkgs files data_dir cfg =
     (let px = cf_Proxy cfg; rt = cf_Routing cfg; apps = cf_Apps cfg;
          inbounds = resolve_profile_inbounds codec cfg;
          routing = build_runtime_app_routing_env pkgs (ap_Mode apps) (ap_Packages apps) (rt_AlwaysDirectApps rt)
                      (rt_AlwaysDirectExcludedApps rt) (rt_AlwaysDirectSystemApps rt) (rt_Mode rt);
          guarded = resolve_always_direct_names pkgs (rt_AlwaysDirectApps rt) (rt_AlwaysDirectExcludedApps rt)
                      (rt_AlwaysDirectSystemApps rt);
          (chain_ports, chain_uids, chain_rules) = build_chained_proxy_protection_env codec pkgs files (Some cfg)
      in map_of
        [(''RKNNOVPN_DIR'', data_dir),
         (''CORE_GID'', int_str (or_default (px_GID px) 23333)),
         (''TPROXY_PORT'', int_str (or_default (px_TProxyPort px) 10853)),
         (''DNS_PORT'', int_str (or_default (px_DNSPort px) 10856)),
         (''API_PORT'', int_str (px_APIPort px)),
         (''SOCKS_PORT'', int_str (pi_SocksPort inbounds)),
         (''HTTP_PORT'', int_str (pi_HTTPPort inbounds)),
         (''CHAIN_PROXY_PORTS'', chain_ports),
         (''CHAIN_PROXY_UIDS'', chain_uids),
         (''CHAIN_PROXY_RULES'', chain_rules),
         (''FWMARK'', mark_hex (or_default (px_Mark px) 8227)),
         (''ROUTE_TABLE'', ''2023''), (''ROUTE_TABLE_V6'', ''2024''),
         (''APP_MODE'', ar_AppMode routing),
         (''PROXY_UIDS'', ar_ProxyUIDs routing),
         (''DIRECT_UIDS'', ar_DirectUIDs routing),
         (''BYPASS_UIDS'', ar_BypassUIDs routing),
         (''PRIVACY_GUARD_PACKAGES'', str_join '' '' guarded),
         (''DNS_SCOPE'', ar_DNSScope routing),
         (''DNS_MODE'', ar_DNSMode routing),
         (''PROXY_MODE'', ''tproxy''),
         (''SHARING_MODE'', sharing_mode_env (Some cfg)),
         (''SHARING_IFACES'', sharing_interfaces_env (Some cfg))])"

end
