(* ===== verification/RoutingProperties.thy ===== *)
theory RoutingProperties
  imports ScriptEnv
begin

text \<open>
  What reaches the firewall scripts: both resolvers of package UIDs agree, always-direct packages are
  always in the bypass list, and the rescue's environment is a part of the core's.
\<close>

section \<open>The two resolvers\<close>

lemma load_until_all [simp]: "load_until True rs = rs"
  by (induction "True" rs rule: load_until.induct) simp_all

lemma probe_compare:
  "snd (probe_sources env False requested match rs (loaded, b)) = compare_catalogs env requested match rs b"
  by (induction rs arbitrary: loaded b) (simp_all add: Let_def)

text \<open>The part of a resolution that names packages and UIDs.\<close>

definition resolved :: "uid_resolution \<Rightarrow> string \<times> string list \<times> string \<times> string list \<times> string list" where
  "resolved r = (ur_Source r, ur_UIDs r, ur_UIDString r, ur_RequestedPackages r, ur_UnresolvedPackages r)"

lemma resolved_finish:
  "fst b = fst b' \<Longrightarrow> resolved (finish_best requested cs (fst b)) = resolved (finish_best requested cs' (fst b'))"
  by (simp add: finish_best_def Let_def resolved_def)

lemma resolvers_agree:
  "resolved (resolve_from_sources env requested match False) =
     resolved (resolve_from_catalogs env (load_package_uid_catalogs env True) requested match)"
  using probe_compare [of env requested match "all_catalogs env" "[]" "first_best requested"]
  by (simp add: resolve_from_sources_def resolve_from_catalogs_def load_package_uid_catalogs_def split_beta
      resolved_finish)

text \<open>
  The diagnostics report shows what the runtime uses: the resolver that probes every source and the one
  that loads sources until it is satisfied choose the same source and give the same UIDs and the same
  unresolved packages, for the selected packages and for the always-direct ones.
\<close>

theorem diagnostics_show_runtime_resolution:
  "resolved (pr_Selected (build_package_routing_resolution env packages always excluded sys)) =
     resolved (resolve_package_uids env packages) \<and>
   resolved (pr_AlwaysDirect (build_package_routing_resolution env packages always excluded sys)) =
     resolved (resolve_always_direct_uids env always excluded sys)"
proof -
  have errors: "resolved (r\<lparr>ur_Errors := e\<rparr>) = resolved r" for r e
    by (simp add: resolved_def)
  show ?thesis
    by (simp add: build_package_routing_resolution_def resolve_package_uids_def resolve_always_direct_uids_def
        Let_def split_beta errors resolvers_agree)
qed

section \<open>The environments\<close>

lemma map_of_filter_keys:
  "map_of (filter (\<lambda>e. fst e \<notin> S) xs) = map_of xs |` (- S)"
  by (induction xs) (auto simp: restrict_map_def fun_eq_iff)

text \<open>
  C24.  The environment in which the rescue reapplies the rules is the core's without five variables: the
  scripts fall back to their defaults for the sidecar port, which they then leave unprotected, for the preferences of
  the routing rules and for both IPv6 settings, whatever the configuration says.
\<close>

theorem rescue_env_lacks_variables:
  "rescue_script_env codec pkgs files d cfg =
     core_script_env codec pkgs files d cfg |`
       (- {''XRAY_SIDECAR_PORT'', ''ROUTE_RULE_PREF'', ''ROUTE_RULE_PREF_V6'', ''IPV6_MODE'', ''IPV6_FAIL_CLOSED''})"
  unfolding rescue_script_env_def core_script_env_def Let_def split_beta map_of_filter_keys [symmetric]
  by simp

section \<open>Fields of printed lists\<close>

definition printable :: "string \<Rightarrow> bool" where
  "printable w \<longleftrightarrow> w \<noteq> [] \<and> (\<forall>c \<in> set w. 32 < byte c \<and> byte c < 127)"

lemma space_width_printable: "32 < byte c \<Longrightarrow> byte c < 127 \<Longrightarrow> space_width (c # s) = 0"
  by (cases "c # s" rule: space_width.cases) (auto simp: space1_def space2_def space3_def)

lemma space_width_blank: "space_width (CHR '' '' # s) = 1"
  by (cases "CHR '' '' # s" rule: space_width.cases) (auto simp: space1_def)

lemma fields_from_printable:
  "\<forall>c \<in> set u. 32 < byte c \<and> byte c < 127 \<Longrightarrow> fields_from w (u @ s) = fields_from (w @ u) s"
  by (induction u arbitrary: w) (simp_all add: space_width_printable)

lemma fields_join:
  "\<forall>w \<in> set ws. printable w \<Longrightarrow> str_fields (str_join '' '' ws) = ws"
proof (induction "'' ''" ws rule: str_join.induct)
  case (2 w)
  with fields_from_printable [of w "[]" "[]"] show ?case by (simp add: str_fields_def printable_def flush_word_def)
next
  case (3 w v vs)
  with fields_from_printable [of w "[]" "CHR '' '' # str_join '' '' (v # vs)"] show ?case
    by (simp add: str_fields_def printable_def flush_word_def space_width_blank)
qed (simp add: str_fields_def flush_word_def)

lemma printable_int_str: "printable (int_str n)"
proof -
  have "32 < byte c \<and> byte c < 127" if "is_digit c" for c
    using that by (simp add: is_digit_def)
  then have "printable (nat_str k)" for k
    using nat_str_digits [of k] by (auto simp: printable_def list_all_iff)
  then show ?thesis
    by (auto simp: int_str_def printable_def)
qed

lemma join_unique_fields_join:
  "printable w \<Longrightarrow> \<forall>v \<in> set ws. printable v \<Longrightarrow>
     str_fields (join_unique_fields [w, str_join '' '' ws]) = unique (w # ws)"
  using fields_join [of "[w]"] fields_join [of ws] fields_join [of "unique (w # ws)"]
  by (simp add: join_unique_fields_def)

lemma printable_network: "printable network_stack_uid"
  by (simp add: printable_def network_stack_uid_def)

section \<open>The bypass list\<close>

lemma compare_catalogs_source:
  "fst (compare_catalogs env requested match rs b) = fst b \<or>
   (\<exists>r \<in> set rs. fst (compare_catalogs env requested match rs b) =
      resolve_from_catalog env (cr_source r) (cr_uids r) requested match)"
proof (induction rs arbitrary: b)
  case (Cons r rs)
  let ?c = "resolve_from_catalog env (cr_source r) (cr_uids r) requested match"
  from Cons [of b] Cons [of "take_candidate requested ?c b"] show ?case
    by (auto simp: Let_def take_candidate_def)
qed simp

lemma new_catalog_source [simp]: "cr_source (new_catalog_result source loaded) = source"
  by (simp add: new_catalog_result_def split: sum.split)

lemma chosen_catalog:
  assumes "cat \<in> set (all_catalogs env)"
    and "cr_source cat = ur_Source (resolve_from_sources env requested match False)"
  shows "ur_UIDs (resolve_from_sources env requested match False) =
           map int_str (catalog_uids (discover_user_ids env) (cr_uids cat) match) \<and>
         ur_UIDString (resolve_from_sources env requested match False) =
           str_join '' '' (ur_UIDs (resolve_from_sources env requested match False))"
proof -
  define b where "b = compare_catalogs env requested match (all_catalogs env) (first_best requested)"
  have res: "resolve_from_sources env requested match False =
      finish_best requested (fst (probe_sources env False requested match (all_catalogs env) ([], first_best requested))) (fst b)"
    using probe_compare [of env requested match "all_catalogs env" "[]" "first_best requested"]
    by (simp add: resolve_from_sources_def split_beta b_def)
  have named: "cr_source c \<noteq> []" "cr_source c = cr_source c' \<longrightarrow> c = c'"
    if "c \<in> set (all_catalogs env)" "c' \<in> set (all_catalogs env)" for c c'
    using that by (auto simp: all_catalogs_def catalog_loaders_def)
  have src: "ur_Source (finish_best requested cs r) = ur_Source r" "ur_UIDs (finish_best requested cs r) = ur_UIDs r"
    "ur_UIDString (finish_best requested cs r) = ur_UIDString r" for cs r
    by (simp_all add: finish_best_def Let_def)
  from assms(2) have chosen: "ur_Source (fst b) = cr_source cat" by (simp add: res src)
  have "fst b = resolve_from_catalog env (cr_source cat) (cr_uids cat) requested match"
  proof -
    have "ur_Source (fst (first_best requested)) = []" by (simp add: first_best_def empty_resolution_def)
    with chosen named(1) [OF assms(1) assms(1)] have "fst b \<noteq> fst (first_best requested)" by metis
    with compare_catalogs_source [of env requested match "all_catalogs env" "first_best requested"]
    obtain r where r: "r \<in> set (all_catalogs env)"
      "fst b = resolve_from_catalog env (cr_source r) (cr_uids r) requested match" by (auto simp: b_def)
    from r(2) have "ur_Source (fst b) = cr_source r" by (simp add: resolve_from_catalog_def Let_def)
    with chosen have "cr_source r = cr_source cat" by simp
    with named(2) [OF r(1) assms(1)] have "r = cat" by (rule mp)
    with r(2) show ?thesis by (simp only:)
  qed
  then show ?thesis
    by (simp add: res src resolve_from_catalog_def Let_def)
qed

lemma catalog_uids_mem:
  assumes "map_of cat name = Some uid" "match name" "u \<in> set users"
  shows "full_uid u uid \<in> set (catalog_uids users cat match)"
proof -
  from assms(1) have "name \<in> set (map fst cat)" by (auto dest: map_of_SomeD simp: rev_image_eqI)
  with assms show ?thesis by (auto simp: catalog_uids_def intro!: bexI [of _ name])
qed

text \<open>
  C25.  An always-direct package never goes through the proxy: for every routing and app mode, a package of the
  chosen catalog that the user listed, or that is a system package the user did not exclude while the system apps are
  included, or that the built-in policy covers with these exclusions, has its UID, for every Android user, in the
  bypass list given to the firewall, and the network stack's UID is there too.
\<close>

theorem always_direct_bypassed:
  assumes "cat \<in> set (all_catalogs pkgs)"
    and "cr_source cat = ur_Source (resolve_always_direct_uids pkgs always excluded sys)"
    and "map_of (cr_uids cat) name = Some uid" and "u \<in> set (discover_user_ids pkgs)"
    and "name \<in> set (package_set always) \<or>
      name \<notin> set (package_set excluded) \<and> name \<in> set (fst (load_system_package_set pkgs sys)) \<or>
      is_built_in_always_direct name (package_set excluded)"
  shows "{network_stack_uid, int_str (full_uid u uid)} \<subseteq>
         set (str_fields (ar_BypassUIDs (build_runtime_app_routing_env pkgs mode packages always excluded sys routing)))"
proof -
  let ?r = "resolve_always_direct_uids pkgs always excluded sys"
  let ?match = "always_direct_match (package_set always) (package_set excluded) (fst (load_system_package_set pkgs sys))"
  have "ur_Source ?r = ur_Source (resolve_from_sources pkgs (join_unique_string_slices [package_values (package_set always),
      package_values (fst (load_system_package_set pkgs sys))]) ?match False)"
    by (simp add: resolve_always_direct_uids_def Let_def split_beta)
  with chosen_catalog [OF assms(1)] assms(2)
  have uids: "ur_UIDs ?r = map int_str (catalog_uids (discover_user_ids pkgs) (cr_uids cat) ?match)"
    and joined: "ur_UIDString ?r = str_join '' '' (ur_UIDs ?r)"
    by (simp_all add: resolve_always_direct_uids_def Let_def split_beta)
  have "?match name" using assms(5) by (auto simp: always_direct_match_def)
  from catalog_uids_mem [of "cr_uids cat" name uid ?match u, OF assms(3) this assms(4)] uids
  have "int_str (full_uid u uid) \<in> set (ur_UIDs ?r)" by simp
  moreover have "str_fields (bypass_uids pkgs always excluded sys) = unique (network_stack_uid # ur_UIDs ?r)"
    unfolding bypass_uids_def joined
    by (rule join_unique_fields_join) (auto simp: uids printable_int_str printable_network)
  ultimately show ?thesis
    by (auto simp: build_runtime_app_routing_env_def build_app_routing_env_def Let_def)
qed

definition demo_pkgs :: pkg_env where
  "demo_pkgs = \<lparr>pe_packages_list = Inr ''com.x 10123'', pe_command = (\<lambda>b. ([], Some (ErrorString ''x''))),
     pe_system_command = (\<lambda>b. ([], Some (ErrorString ''x''))), pe_user_dirs = Some [(''0'', True), (''10'', True)]\<rparr>"

lemma demo_numbers:
  "int_str 10123 = ''10123''" "int_str 1010123 = ''1010123''"
  by (simp_all add: int_str_def nat_str.simps digit_char_def char_of_def bit_Suc_0_iff)

lemma demo_list: "parse_packages_list_uids ''com.x 10123'' = Inr [(''com.x'', 10123)]"
proof -
  have lines: "split_char (CHR 0x0A) ''com.x 10123'' = [''com.x 10123'']"
    and line: "trim_space ''com.x 10123'' = ''com.x 10123''"
    and fields: "str_fields ''com.x 10123'' = [''com.x'', ''10123'']"
    by code_simp+
  have "atoi ''10123'' = (10123, True)" using atoi_int_str [of 10123] by (simp add: demo_numbers)
  then show ?thesis
    unfolding parse_packages_list_uids_def lines by (simp add: packages_list_line_def line fields)
qed

theorem always_direct_bypassed_witness:
  "{''1073'', ''1010123''} \<subseteq> set (str_fields (ar_BypassUIDs
     (build_runtime_app_routing_env demo_pkgs ''all'' [] [''com.x''] [] False ''rules'')))"
proof -
  let ?cat = "new_catalog_result ''packages.list'' (Inr [(''com.x'', 10123)])"
  have cats: "all_catalogs demo_pkgs = [?cat, new_catalog_result ''cmd_package'' (Inl (ErrorString ''x'')),
      new_catalog_result ''cmd_package_shell'' (Inl (ErrorString ''x''))]"
    by (simp add: all_catalogs_def catalog_loaders_def demo_pkgs_def load_command_catalog_def demo_list)
  have source: "''packages.list'' = ur_Source (resolve_always_direct_uids demo_pkgs [''com.x''] [] False)"
    by (simp add: resolve_always_direct_uids_def load_system_package_set_def resolve_from_sources_def cats
        new_catalog_result_def first_best_def take_candidate_def better_def finish_best_def
        resolve_from_catalog_def empty_resolution_def Let_def)
  have users: "10 \<in> set (discover_user_ids demo_pkgs)"
    using atoi_int_str [of 10] atoi_int_str [of 0]
    by (simp add: discover_user_ids_def demo_pkgs_def int_str_def nat_str.simps digit_char_def char_of_def bit_Suc_0_iff)
  have name: "''com.x'' \<in> set (package_set [''com.x''])" by code_simp
  have "map_of (cr_uids ?cat) ''com.x'' = Some 10123" by (simp add: new_catalog_result_def)
  from always_direct_bypassed [OF _ _ this users disjI1 [OF name], of "[]" False "''all''" "[]" "''rules''"] source cats
  have "{network_stack_uid, int_str (full_uid 10 10123)} \<subseteq> set (str_fields (ar_BypassUIDs
     (build_runtime_app_routing_env demo_pkgs ''all'' [] [''com.x''] [] False ''rules'')))" by simp
  moreover have "full_uid 10 10123 = 1010123"
    by (simp add: full_uid_def app_id_def signed_modulo_int_def signed_take_bit_eq_if_positive)
  ultimately show ?thesis by (simp add: network_stack_uid_def demo_numbers)
qed

end
