(* ===== verification/NetstackProperties.thy ===== *)
theory NetstackProperties
  imports Netstack
begin

text \<open>
  Properties of the network stack manager: which scripts \<^verbatim>\<open>Apply\<close> runs and in which order on
  every path, the error code of its report, what \<^verbatim>\<open>VerifyCleanup\<close> reports, and the parsers of
  the system's listings.
\<close>

section \<open>Script calls\<close>

text \<open>A script runner that also records its calls.\<close>

definition traced :: "'w exec_script \<Rightarrow> ('w \<times> (string \<times> string) list) exec_script" where
  "traced script path command e wt =
     (let (err, w) = script path command e (fst wt) in (err, (w, snd wt @ [(path, command)])))"

definition stop_calls :: "string \<Rightarrow> (string \<times> string) list" where
  "stop_calls d = [(dns_script d, ''stop''), (iptables_script d, ''stop'')]"

definition step_failed :: "net_step \<Rightarrow> bool" where
  "step_failed s \<longleftrightarrow> ns_status s = ''failed''"

definition net_error_code :: "net_report \<Rightarrow> string" where
  "net_error_code r = (case net_report_err r of Some (NetstackError operation code rep) \<Rightarrow> code | _ \<Rightarrow> [])"

lemma find_append_case:
  "find P (xs @ ys) = (case find P xs of None \<Rightarrow> find P ys | Some x \<Rightarrow> Some x)"
  by (induction xs) auto

lemma find_None_all: "(\<And>x. x \<in> set xs \<Longrightarrow> \<not> P x) \<Longrightarrow> find P xs = None"
  by (induction xs) auto

lemmas report_steps = net_add_ok_def net_add_already_clean_def net_add_failure_def
  net_add_warning_def add_step_def

text \<open>One stop step appends one call, one step, and an error iff the step failed.\<close>

lemma cleanup_step_traced:
  assumes "nm_exec_script m = Some (traced script)"
    and name: "(name, path) \<in> {(''dns'', dns_script (nm_data_dir m)),
                              (''iptables'', iptables_script (nm_data_dir m))}"
  obtains s errs w' where
    "cleanup_step m b name (r, (w, tr)) =
       (r\<lparr>nr_status := (if errs = [] then nr_status r else ''failed''),
          nr_steps := nr_steps r @ [s], nr_errors := nr_errors r @ errs\<rparr>,
        (w', tr @ [(path, ''stop'')]))"
    "step_failed s \<longleftrightarrow> errs \<noteq> []" "failed_step_code (ns_name s) = ''NETSTACK_CLEANUP_FAILED''"
proof -
  obtain err w' where run: "script path ''stop'' (nm_env m) w = (err, w')"
    by (metis prod.exhaust)
  have call: "net_run m name ''stop'' (w, tr) = (err, (w', tr @ [(path, ''stop'')]))"
    using assms run by (auto simp: net_run_def traced_def)
  have code: "failed_step_code (name @ ''-stop'') = ''NETSTACK_CLEANUP_FAILED''"
    using name by (auto simp: failed_step_code_def)
  show thesis
  proof (cases err)
    case None
    with call code show thesis
      by (intro that [of "[]" "\<lparr>ns_name = name @ ''-stop'', ns_status = ''ok'', ns_detail = []\<rparr>" w'])
         (auto simp: cleanup_step_def report_steps step_failed_def)
  next
    case (Some e)
    show thesis
    proof (cases "b \<and> is_missing_script_error e")
      case True
      with call code Some show thesis
        by (intro that [of "[]" "\<lparr>ns_name = name @ ''-stop'', ns_status = ''already_clean'',
                            ns_detail = error_msg e\<rparr>" w'])
           (auto simp: cleanup_step_def report_steps step_failed_def)
    next
      case False
      with call code Some show thesis
        by (intro that [of "[name @ ''-stop'' @ '': '' @ error_msg e]"
                           "\<lparr>ns_name = name @ ''-stop'', ns_status = ''failed'', ns_detail = error_msg e\<rparr>" w'])
           (auto simp: cleanup_step_def report_steps step_failed_def Let_def)
    qed
  qed
qed

lemma cleanup_into_traced:
  assumes "nm_exec_script m = Some (traced script)"
  obtains steps errs w' where
    "cleanup_into m b r (w, tr) =
       (r\<lparr>nr_status := (if errs = [] then nr_status r else ''failed''),
          nr_steps := nr_steps r @ steps, nr_errors := nr_errors r @ errs\<rparr>,
        (w', tr @ stop_calls (nm_data_dir m)))"
    "(\<exists>s \<in> set steps. step_failed s) \<longleftrightarrow> errs \<noteq> []"
    "\<forall>s \<in> set steps. failed_step_code (ns_name s) = ''NETSTACK_CLEANUP_FAILED''"
proof -
  obtain s1 e1 w1 where 1: "cleanup_step m b ''dns'' (r, (w, tr)) =
       (r\<lparr>nr_status := (if e1 = [] then nr_status r else ''failed''),
          nr_steps := nr_steps r @ [s1], nr_errors := nr_errors r @ e1\<rparr>,
        (w1, tr @ [(dns_script (nm_data_dir m), ''stop'')]))"
      "step_failed s1 \<longleftrightarrow> e1 \<noteq> []" "failed_step_code (ns_name s1) = ''NETSTACK_CLEANUP_FAILED''"
    using cleanup_step_traced [OF assms, of "''dns''" _ b r w tr] by blast
  let ?r1 = "r\<lparr>nr_status := (if e1 = [] then nr_status r else ''failed''),
          nr_steps := nr_steps r @ [s1], nr_errors := nr_errors r @ e1\<rparr>"
  obtain s2 e2 w2 where 2: "cleanup_step m b ''iptables'' (?r1, (w1, tr @ [(dns_script (nm_data_dir m), ''stop'')])) =
       (?r1\<lparr>nr_status := (if e2 = [] then nr_status ?r1 else ''failed''),
          nr_steps := nr_steps ?r1 @ [s2], nr_errors := nr_errors ?r1 @ e2\<rparr>,
        (w2, (tr @ [(dns_script (nm_data_dir m), ''stop'')]) @ [(iptables_script (nm_data_dir m), ''stop'')]))"
      "step_failed s2 \<longleftrightarrow> e2 \<noteq> []" "failed_step_code (ns_name s2) = ''NETSTACK_CLEANUP_FAILED''"
    using cleanup_step_traced [OF assms, of "''iptables''" _ b ?r1 w1] by blast
  show thesis
    by (rule that [of "e1 @ e2" "[s1, s2]" w2])
       (use 1 2 in \<open>auto simp: cleanup_into_def stop_calls_def\<close>)
qed

text \<open>The code of a report is that of its first failed step.\<close>

lemma net_error_code_first:
  assumes "nr_errors r \<noteq> []" "nr_steps r = pre @ s # post" "step_failed s"
    "\<And>t. t \<in> set pre \<Longrightarrow> \<not> step_failed t"
  shows "net_error_code r = failed_step_code (ns_name s)"
proof -
  have "find step_failed pre = None" using assms(4) by (rule find_None_all)
  then have "find (\<lambda>s. ns_status s = ''failed'') (nr_steps r) = Some s"
    using assms(2,3) by (simp add: find_append_case step_failed_def [abs_def])
  with assms(1) show ?thesis by (simp add: net_error_code_def net_report_err_def)
qed

lemma net_error_code_cleanup:
  assumes "nr_errors r \<noteq> []" "nr_steps r = steps" "\<exists>s \<in> set steps. step_failed s"
    "\<forall>s \<in> set steps. failed_step_code (ns_name s) = ''NETSTACK_CLEANUP_FAILED''"
  shows "net_error_code r = ''NETSTACK_CLEANUP_FAILED''"
proof -
  from assms(3) obtain pre s post where "steps = pre @ s # post" "step_failed s"
      "\<forall>t \<in> set pre. \<not> step_failed t"
    using split_list_first_prop [of steps step_failed] by blast
  with assms show ?thesis using net_error_code_first [of r pre s post] by auto
qed

definition script_path :: "string \<Rightarrow> string \<Rightarrow> string" where
  "script_path d name = (if name = ''dns'' then dns_script d
     else if name = ''iptables'' then iptables_script d else privacy_guard_script d)"

lemma script_path_simps [simp]:
  "script_path d ''dns'' = dns_script d" "script_path d ''iptables'' = iptables_script d"
  "script_path d ''privacy_guard'' = privacy_guard_script d"
  by (simp_all add: script_path_def)

lemma net_run_traced:
  assumes "nm_exec_script m = Some (traced script)" "name \<in> {''dns'', ''iptables'', ''privacy_guard''}"
  obtains err w' where "net_run m name command (w, tr) =
     (err, (w', tr @ [(script_path (nm_data_dir m) name, command)]))"
proof -
  obtain err w' where "script (script_path (nm_data_dir m) name) command (nm_env m) w = (err, w')"
    by (metis prod.exhaust)
  with assms show thesis
    by (intro that [of err w']) (auto simp: net_run_def traced_def script_path_def)
qed

text \<open>A failed start: the rollback runs both stop scripts and the code is that of the start.\<close>

lemma apply_rollback:
  assumes "nm_exec_script m = Some (traced script)"
    and clean: "\<forall>t \<in> set (nr_steps r0). \<not> step_failed t"
    and r: "r = (net_add_failure name (Some e) r0)\<lparr>nr_rollback_applied := True\<rparr>"
  obtains w' r' where "cleanup_into m True r (w, tr) = (r', (w', tr @ stop_calls (nm_data_dir m)))"
    "nr_status r' = ''failed''" "nr_rollback_applied r'"
    "net_error_code r' = failed_step_code name"
proof -
  obtain steps errs w' where c: "cleanup_into m True r (w, tr) =
       (r\<lparr>nr_status := (if errs = [] then nr_status r else ''failed''),
          nr_steps := nr_steps r @ steps, nr_errors := nr_errors r @ errs\<rparr>,
        (w', tr @ stop_calls (nm_data_dir m)))"
      and "(\<exists>s \<in> set steps. step_failed s) \<longleftrightarrow> errs \<noteq> []"
      and "\<forall>s \<in> set steps. failed_step_code (ns_name s) = ''NETSTACK_CLEANUP_FAILED''"
    by (rule cleanup_into_traced [OF assms(1)])
  let ?r' = "r\<lparr>nr_status := (if errs = [] then nr_status r else ''failed''),
          nr_steps := nr_steps r @ steps, nr_errors := nr_errors r @ errs\<rparr>"
  have code: "net_error_code ?r' =
      failed_step_code (ns_name \<lparr>ns_name = name, ns_status = ''failed'', ns_detail = error_msg e\<rparr>)"
    by (rule net_error_code_first [of _ "nr_steps r0" _ steps])
       (use clean in \<open>auto simp: r report_steps step_failed_def Let_def\<close>)
  show thesis
    by (rule that [OF c]) (use code in \<open>simp_all add: r report_steps Let_def\<close>)
qed

text \<open>
  C6.  The order of the script calls of \<^verbatim>\<open>Apply\<close> on every path.  It always stops DNS and then
  iptables first.  Then exactly one of the following happened.  (1) The report is ok, nothing
  was rolled back, and iptables, DNS and the privacy guard were started in this order (a failure
  of the last is a warning).  (2) The cleanup failed: nothing was started, and the error code is
  the cleanup code.  (3) Starting iptables failed: both stop scripts ran again, DNS was never
  started, the report is marked rolled back, and the code says that the rules were not applied.
  (4) Starting DNS failed: both stop scripts ran again after it, the report is marked rolled
  back, and the code says that DNS was not applied.
\<close>

theorem apply_call_sequences:
  assumes "nm_exec_script m = Some (traced script)"
    and "d = nm_data_dir m"
    and "net_apply m (w, []) = (r, (w', calls))"
  shows "(nr_status r = ''ok'' \<and> \<not> nr_rollback_applied r \<and> net_error_code r = [] \<and>
            calls = stop_calls d @ [(iptables_script d, ''start''), (dns_script d, ''start''),
                                    (privacy_guard_script d, ''start'')]) \<or>
         (nr_status r = ''failed'' \<and> \<not> nr_rollback_applied r \<and>
            net_error_code r = ''NETSTACK_CLEANUP_FAILED'' \<and> calls = stop_calls d) \<or>
         (nr_status r = ''failed'' \<and> nr_rollback_applied r \<and>
            net_error_code r = ''RULES_NOT_APPLIED'' \<and>
            calls = stop_calls d @ [(iptables_script d, ''start'')] @ stop_calls d) \<or>
         (nr_status r = ''failed'' \<and> nr_rollback_applied r \<and>
            net_error_code r = ''DNS_APPLY_FAILED'' \<and>
            calls = stop_calls d @ [(iptables_script d, ''start''), (dns_script d, ''start'')] @ stop_calls d)"
proof -
  note script = assms(1)
  let ?r = "new_net_report ''apply''"
  obtain steps errs w0 where c: "cleanup_into m True ?r (w, []) =
       (?r\<lparr>nr_status := (if errs = [] then nr_status ?r else ''failed''),
          nr_steps := nr_steps ?r @ steps, nr_errors := nr_errors ?r @ errs\<rparr>,
        (w0, [] @ stop_calls (nm_data_dir m)))"
      and steps: "(\<exists>s \<in> set steps. step_failed s) \<longleftrightarrow> errs \<noteq> []"
      "\<forall>s \<in> set steps. failed_step_code (ns_name s) = ''NETSTACK_CLEANUP_FAILED''"
    by (rule cleanup_into_traced [OF script])
  define r0 where "r0 = ?r\<lparr>nr_status := (if errs = [] then nr_status ?r else ''failed''),
          nr_steps := nr_steps ?r @ steps, nr_errors := nr_errors ?r @ errs\<rparr>"
  have clean: "cleanup_into m True ?r (w, []) = (r0, (w0, stop_calls d))"
    using c assms(2) by (simp add: r0_def)
  show ?thesis
  proof (cases "errs = []")
    case False
    then have "net_error_code r0 = ''NETSTACK_CLEANUP_FAILED''"
      by (intro net_error_code_cleanup [of r0 steps])
         (use steps in \<open>auto simp: r0_def new_net_report_def\<close>)
    with assms clean False show ?thesis
      by (auto simp: net_apply_def r0_def new_net_report_def)
  next
    case True
    then have r0: "nr_status r0 = ''ok''" "nr_errors r0 = []" "\<not> nr_rollback_applied r0"
        "\<forall>t \<in> set (nr_steps r0). \<not> step_failed t"
      using steps by (auto simp: r0_def new_net_report_def)
    obtain e1 w1 where run1: "net_run m ''iptables'' ''start'' (w0, stop_calls d) =
        (e1, (w1, stop_calls d @ [(script_path (nm_data_dir m) ''iptables'', ''start'')]))"
      by (rule net_run_traced [OF script, of "''iptables''"]) simp
    define r1 where "r1 = net_add_ok ''iptables-start'' [] r0"
    have r1: "nr_status r1 = ''ok''" "nr_errors r1 = []" "\<not> nr_rollback_applied r1"
        "\<forall>t \<in> set (nr_steps r1). \<not> step_failed t"
      using r0 by (auto simp: r1_def report_steps step_failed_def)
    obtain e2 w2 where run2: "net_run m ''dns'' ''start'' (w1, stop_calls d @ [(iptables_script d, ''start'')]) =
        (e2, (w2, (stop_calls d @ [(iptables_script d, ''start'')]) @
                  [(script_path (nm_data_dir m) ''dns'', ''start'')]))"
      by (rule net_run_traced [OF script, of "''dns''"]) simp
    obtain e3 w3 where run3: "net_run m ''privacy_guard'' ''start''
        (w2, stop_calls d @ [(iptables_script d, ''start''), (dns_script d, ''start'')]) =
        (e3, (w3, (stop_calls d @ [(iptables_script d, ''start''), (dns_script d, ''start'')]) @
                  [(script_path (nm_data_dir m) ''privacy_guard'', ''start'')]))"
      by (rule net_run_traced [OF script, of "''privacy_guard''"]) simp
    note runs = run1 run2 run3 assms(2)
    show ?thesis
    proof (cases e1)
      case (Some e)
      obtain wb rb where undo: "cleanup_into m True
            ((net_add_failure ''iptables-start'' (Some e) r0)\<lparr>nr_rollback_applied := True\<rparr>)
            (w1, stop_calls d @ [(iptables_script d, ''start'')]) =
          (rb, (wb, (stop_calls d @ [(iptables_script d, ''start'')]) @ stop_calls (nm_data_dir m)))"
        "nr_status rb = ''failed''" "nr_rollback_applied rb"
        "net_error_code rb = failed_step_code ''iptables-start''"
        by (rule apply_rollback [OF script r0(4) refl])
      then have "net_apply m (w, []) =
          (rb, (wb, stop_calls d @ [(iptables_script d, ''start'')] @ stop_calls d))"
        using clean r0 runs Some by (simp add: net_apply_def)
      with assms(3) undo show ?thesis by (simp add: failed_step_code_def)
    next
      case ok1: None
      show ?thesis
      proof (cases e2)
        case (Some e)
        obtain wb rb where undo: "cleanup_into m True
              ((net_add_failure ''dns-start'' (Some e) r1)\<lparr>nr_rollback_applied := True\<rparr>)
              (w2, stop_calls d @ [(iptables_script d, ''start''), (dns_script d, ''start'')]) =
            (rb, (wb, (stop_calls d @ [(iptables_script d, ''start''), (dns_script d, ''start'')]) @
                      stop_calls (nm_data_dir m)))"
          "nr_status rb = ''failed''" "nr_rollback_applied rb"
          "net_error_code rb = failed_step_code ''dns-start''"
          by (rule apply_rollback [OF script r1(4) refl])
        then have "net_apply m (w, []) = (rb, (wb, stop_calls d @
            [(iptables_script d, ''start''), (dns_script d, ''start'')] @ stop_calls d))"
          using clean r0 runs ok1 Some by (simp add: net_apply_def r1_def)
        with assms(3) undo show ?thesis by (simp add: failed_step_code_def)
      next
        case None
        define rep where "rep = (case e3 of
              Some e \<Rightarrow> net_add_warning ''privacy-guard-start'' e3 (net_add_ok ''dns-start'' [] r1)
            | None \<Rightarrow> net_add_ok ''privacy-guard-start'' [] (net_add_ok ''dns-start'' [] r1))"
        have rep: "nr_status rep = ''ok''" "\<not> nr_rollback_applied rep" "nr_errors rep = []"
          using r1 by (simp_all add: rep_def report_steps Let_def split: option.splits)
        have "net_apply m (w, []) = (rep,
             (w3, stop_calls d @ [(iptables_script d, ''start''), (dns_script d, ''start''),
                                  (privacy_guard_script d, ''start'')]))"
          using clean r0 runs ok1 None by (simp add: net_apply_def r1_def rep_def split: option.splits)
        with assms(3) rep show ?thesis
          by (simp add: net_error_code_def net_report_err_def)
      qed
    qed
  qed
qed

text \<open>A run in which the DNS start script fails.\<close>

definition demo_script :: "unit exec_script" where
  "demo_script path command e w =
     ((if path = dns_script [] \<and> command = ''start'' then Some (ErrorString ''exit status 1'') else None), w)"

definition demo_manager :: "(unit \<times> (string \<times> string) list) net_manager" where
  "demo_manager = new_net_manager [] Map.empty (Some (traced demo_script))"

theorem apply_call_sequences_witness:
  "net_error_code (fst (net_apply demo_manager ((), []))) = ''DNS_APPLY_FAILED''"
proof -
  obtain r w' calls where run: "net_apply demo_manager ((), []) = (r, (w', calls))"
    by (metis prod.exhaust)
  have "length (snd (snd (net_apply demo_manager ((), [])))) = 6" by code_simp
  moreover have "nm_exec_script demo_manager = Some (traced demo_script)"
    by (simp add: demo_manager_def new_net_manager_def)
  ultimately show ?thesis
    using apply_call_sequences [of demo_manager demo_script, OF _ refl run] run
    by (auto simp: stop_calls_def)
qed

section \<open>Verification after a cleanup\<close>

text \<open>Trimming keeps every visible ASCII character.\<close>

lemma trim_by_keeps:
  "\<forall>a. p a \<longrightarrow> a \<noteq> c \<Longrightarrow> \<forall>a b. q a b \<longrightarrow> a \<noteq> c \<and> b \<noteq> c \<Longrightarrow>
   \<forall>a b d. r a b d \<longrightarrow> a \<noteq> c \<and> b \<noteq> c \<and> d \<noteq> c \<Longrightarrow>
   c \<in> set s \<Longrightarrow> c \<in> set (trim_by p q r s)"
  by (induction p q r s rule: trim_by.induct) (auto, blast+)

lemma trim_space_keeps:
  assumes "33 \<le> byte c" "byte c \<le> 126" "c \<in> set s"
  shows "c \<in> set (trim_space s)"
proof -
  have "c \<in> set (trim_left s)"
    unfolding trim_left_def using assms
    by (intro trim_by_keeps) (auto simp: space1_def space2_def space3_def)
  then have "c \<in> set (trim_by space1 (\<lambda>a b. space2 b a) (\<lambda>a b d. space3 d b a) (rev (trim_left s)))"
    using assms by (intro trim_by_keeps) (auto simp: space1_def space2_def space3_def)
  then show ?thesis by (simp add: trim_space_def trim_right_def)
qed

lemma str_contains_mem: "str_contains s sub \<Longrightarrow> set sub \<subseteq> set s"
proof (induction s)
  case (Cons a s)
  then show ?case using set_mono_prefix [of sub "a # s"] by auto
qed simp

lemma contains_marker_ne: "str_contains s ''RKNNOVPN'' \<Longrightarrow> trim_space s \<noteq> []"
  using trim_space_keeps [of "CHR ''R''" s] str_contains_mem [of s "''RKNNOVPN''"]
  by auto

lemma first_line_containing_Nil:
  "first_line_containing text ''RKNNOVPN'' = [] \<longleftrightarrow>
     (\<forall>l \<in> set (split_lines text). \<not> str_contains l ''RKNNOVPN'')"
  by (auto simp: first_line_containing_def contains_marker_ne
           split: option.splits dest: find_eq_SomeD find_eq_NoneD)

text \<open>What a clean system looks like to the inspection.\<close>

definition table_clean :: "exec_command \<Rightarrow> string \<times> string \<Rightarrow> bool" where
  "table_clean exec spec \<longleftrightarrow>
     (case exec (fst spec) [''-w'', ''10'', ''-t'', snd spec, ''-S''] of (out, err) \<Rightarrow>
        (case err of
           None \<Rightarrow> \<forall>l \<in> set (split_lines out). \<not> str_contains l ''RKNNOVPN''
         | Some e \<Rightarrow> is_missing_command_error e \<or> is_missing_kernel_table_output out))"

definition rules_clean :: "exec_command \<Rightarrow> string list \<Rightarrow> string \<Rightarrow> string \<Rightarrow> bool" where
  "rules_clean exec args mark table \<longleftrightarrow>
     (case exec ''ip'' args of (out, err) \<Rightarrow>
        err = None \<and> (\<forall>l \<in> set (split_lines out). \<not> rule_line_matches l mark table))"

definition routes_clean :: "exec_command \<Rightarrow> string list \<Rightarrow> bool" where
  "routes_clean exec args \<longleftrightarrow>
     (case exec ''ip'' args of (out, err) \<Rightarrow>
        (if err = None then trim_space out = [] else is_missing_route_table_output out))"

definition no_owned_process :: "exec_command \<Rightarrow> string \<Rightarrow> bool" where
  "no_owned_process exec d \<longleftrightarrow>
     (\<forall>raw \<in> set (str_fields (fst (exec ''pidof'' [''sing-box'']))).
        snd (atoi raw) \<and> 0 < fst (atoi raw) \<longrightarrow> \<not> fst (process_is_owned_singbox exec d (fst (atoi raw))))"

definition ports_free :: "exec_command \<Rightarrow> string \<Rightarrow> env \<Rightarrow> bool" where
  "ports_free exec d e \<longleftrightarrow>
     (\<forall>port \<in> set (effective_local_ports e). \<forall>l \<in> set (find_local_listeners exec port).
        0 < ll_pid l \<and> \<not> fst (process_is_owned_singbox exec d (ll_pid l)))"

lemma table_leftovers_Nil: "table_leftovers exec spec = [] \<longleftrightarrow> table_clean exec spec"
  by (auto simp: table_leftovers_def table_clean_def first_line_containing_Nil Let_def
           split: prod.splits option.splits)

lemma rule_leftovers_Nil:
  "rule_leftovers exec mark (name, args, table) = [] \<longleftrightarrow> rules_clean exec args mark table"
  by (auto simp: rule_leftovers_def rules_clean_def split: prod.splits option.splits
           dest: find_eq_SomeD find_eq_NoneD)

lemma route_leftovers_Nil: "route_leftovers exec (name, args) = [] \<longleftrightarrow> routes_clean exec args"
  by (auto simp: route_leftovers_def routes_clean_def split: prod.splits option.splits)

lemma lefts_append [simp]: "lefts (xs @ ys) = lefts xs @ lefts ys"
  by (simp add: lefts_def)

lemma lefts_Nil: "lefts xs = [] \<longleftrightarrow> (\<forall>x \<in> set xs. \<exists>b. x = Inr b)"
  by (induction xs) (auto simp: lefts_def split: sum.splits)

lemma pid_finding_clean:
  "(\<forall>x \<in> set (pid_finding exec d raw). \<exists>b. x = Inr b) \<longleftrightarrow>
   (snd (atoi raw) \<and> 0 < fst (atoi raw) \<longrightarrow> \<not> fst (process_is_owned_singbox exec d (fst (atoi raw))))"
  by (simp add: pid_finding_def split_def Let_def not_less)

lemma listener_finding_clean:
  "(\<exists>b. listener_finding exec d port l = Inr b) \<longleftrightarrow>
   0 < ll_pid l \<and> \<not> fst (process_is_owned_singbox exec d (ll_pid l))"
  by (simp add: listener_finding_def split_def Let_def)

lemma process_findings_clean:
  "lefts (process_findings exec d e) = [] \<longleftrightarrow> no_owned_process exec d \<and> ports_free exec d e"
  by (simp add: process_findings_def lefts_Nil no_owned_process_def ports_free_def ball_Un
      pid_finding_clean listener_finding_clean)

text \<open>
  \<^verbatim>\<open>VerifyCleanup\<close> reports success exactly when nothing of the module is left: the runner
  can run commands; every firewall table is listed without a line of the module, or does not
  exist; both rule lists could be read and hold no rule of the configured mark and table; both
  routing tables are empty or absent; no running sing-box is the module's; every listener on a
  configured port belongs to a known process that is not the module's sing-box; and no runtime
  file remains.  Otherwise the status is failed and the one error lists all leftovers.
\<close>

theorem verify_cleanup_ok_iff:
  assumes "nm_exec_command m = Some exec" and "e = nm_env m" and "d = nm_data_dir m"
    and "report = net_verify_cleanup path_exists m"
  shows "(nr_status report = ''ok'' \<longleftrightarrow>
            (\<forall>spec \<in> set firewall_tables. table_clean exec spec) \<and>
            rules_clean exec [''rule'', ''show''] (to_lower (env_value e ''FWMARK'')) (env_value e ''ROUTE_TABLE'') \<and>
            rules_clean exec [''-6'', ''rule'', ''show''] (to_lower (env_value e ''FWMARK''))
              (env_value e ''ROUTE_TABLE_V6'') \<and>
            routes_clean exec [''route'', ''show'', ''table'', env_value e ''ROUTE_TABLE''] \<and>
            routes_clean exec [''-6'', ''route'', ''show'', ''table'', env_value e ''ROUTE_TABLE_V6''] \<and>
            no_owned_process exec d \<and> ports_free exec d e \<and>
            (\<forall>p \<in> set (runtime_snapshot_files d). \<not> path_exists p)) \<and>
         (net_report_err report = None \<longleftrightarrow> nr_status report = ''ok'') \<and>
         (nr_status report \<noteq> ''ok'' \<longrightarrow>
            nr_status report = ''failed'' \<and> nr_errors report = [str_join ''; '' (nr_leftovers report)])"
proof -
  have left: "collect_leftovers path_exists m = [] \<longleftrightarrow>
            (\<forall>spec \<in> set firewall_tables. table_clean exec spec) \<and>
            rules_clean exec [''rule'', ''show''] (to_lower (env_value e ''FWMARK'')) (env_value e ''ROUTE_TABLE'') \<and>
            rules_clean exec [''-6'', ''rule'', ''show''] (to_lower (env_value e ''FWMARK''))
              (env_value e ''ROUTE_TABLE_V6'') \<and>
            routes_clean exec [''route'', ''show'', ''table'', env_value e ''ROUTE_TABLE''] \<and>
            routes_clean exec [''-6'', ''route'', ''show'', ''table'', env_value e ''ROUTE_TABLE_V6''] \<and>
            no_owned_process exec d \<and> ports_free exec d e \<and>
            (\<forall>p \<in> set (runtime_snapshot_files d). \<not> path_exists p)"
    using assms(1-3)
    by (simp add: collect_leftovers_def collect_cleanup_findings_def Let_def table_leftovers_Nil
        rule_leftovers_Nil route_leftovers_Nil process_findings_clean filter_empty_conv)
  have "nr_status report = (if collect_leftovers path_exists m = [] then ''ok'' else ''failed'') \<and>
        nr_leftovers report = collect_leftovers path_exists m \<and>
        nr_errors report = (if collect_leftovers path_exists m = [] then []
           else [str_join ''; '' (collect_leftovers path_exists m)])"
    unfolding assms(4) net_verify_cleanup_def collect_leftovers_def Let_def
    by (simp add: report_steps new_net_report_def)
  then show ?thesis
    unfolding left [symmetric] by (simp add: net_report_err_def)
qed

definition quiet_system :: exec_command where
  "quiet_system cmd args = ([], None)"

theorem verify_cleanup_ok_iff_witness:
  "ports_free quiet_system [] Map.empty \<and> no_owned_process quiet_system [] \<and>
   table_clean quiet_system (hd firewall_tables)"
proof -
  let ?m = "with_exec_command (Some quiet_system) demo_manager"
  have "nr_status (net_verify_cleanup (\<lambda>p. False) ?m) = ''ok''" by code_simp
  moreover have "nm_exec_command ?m = Some quiet_system" "nm_env ?m = Map.empty" "nm_data_dir ?m = []"
    by (simp_all add: with_exec_command_def demo_manager_def new_net_manager_def)
  ultimately show ?thesis
    using verify_cleanup_ok_iff [of ?m quiet_system _ _ _ "\<lambda>p. False", OF _ refl refl refl]
    by (simp add: firewall_tables_def)
qed

section \<open>Policy rules\<close>

text \<open>
  \<^verbatim>\<open>RuleLineMatches\<close> accepts a line exactly when it has the configured firewall mark and
  routing table as whole fields: a field \<^verbatim>\<open>fwmark\<close> followed by the mark, alone or with a
  mask after a slash, and a field \<^verbatim>\<open>lookup\<close> or \<^verbatim>\<open>table\<close> followed by the table.  With an
  empty mark or an empty table it accepts nothing.
\<close>

theorem rule_line_matches_iff:
  "rule_line_matches line mark table \<longleftrightarrow>
     to_lower (trim_space mark) \<noteq> [] \<and> trim_space table \<noteq> [] \<and>
     (\<exists>g. adjacent (str_fields (to_lower line)) ''fwmark'' g \<and>
          (g = to_lower (trim_space mark) \<or> has_prefix g (to_lower (trim_space mark) @ ''/''))) \<and>
     (adjacent (str_fields (to_lower line)) ''lookup'' (trim_space table) \<or>
      adjacent (str_fields (to_lower line)) ''table'' (trim_space table))"
  by (auto simp: rule_line_matches_def rule_scan_spec)

lemma rule_line_examples:
  "rule_line_matches ''9000:   from all fwmark 0x2023/0xffff lookup 2023'' ''0x2023'' ''2023''"
  "\<not> rule_line_matches ''9000:   from all fwmark 0x20230 lookup 2023'' ''0x2023'' ''2023''"
  "\<not> rule_line_matches ''9000:   from all fwmark 0x2023 lookup 20230'' ''0x2023'' ''2023''"
  by code_simp+

section \<open>Ports and listener addresses\<close>

lemma set_dedup_ports: "set (dedup_ports seen ps) = {p \<in> set ps. 0 < p} - set seen"
proof (induction ps arbitrary: seen)
  case (Cons p ps)
  then show ?case by (cases "p \<le> 0"; cases "p \<in> set seen") auto
qed simp

lemma distinct_dedup_ports: "distinct (dedup_ports seen ps)"
  by (induction seen ps rule: dedup_ports.induct) (simp_all add: set_dedup_ports)

text \<open>
  The ports that the verification inspects are positive and pairwise distinct, and they are
  exactly the positive ones among: the configured TPROXY and DNS ports (their defaults when
  unset or zero), the API, SOCKS and HTTP ports, and the chained proxy ports.
\<close>

theorem effective_local_ports_spec:
  "distinct (effective_local_ports e) \<and>
   (p \<in> set (effective_local_ports e) \<longleftrightarrow>
      0 < p \<and>
      (p \<in> {value_or_default_int (env_int e ''TPROXY_PORT'') 10853,
            value_or_default_int (env_int e ''DNS_PORT'') 10856,
            env_int e ''API_PORT'', env_int e ''SOCKS_PORT'', env_int e ''HTTP_PORT''} \<or>
       (\<exists>f \<in> set (str_fields (env_value e ''CHAIN_PROXY_PORTS'')). atoi f = (p, True))))"
proof -
  have pair: "atoi f = (p, True) \<longleftrightarrow> snd (atoi f) \<and> fst (atoi f) = p" for f
    by (cases "atoi f") auto
  have "p \<in> set (chain_proxy_ports e) \<longleftrightarrow>
      (\<exists>f \<in> set (str_fields (env_value e ''CHAIN_PROXY_PORTS'')). atoi f = (p, True))"
    unfolding chain_proxy_ports_def pair by auto
  then have "p \<in> set (effective_local_ports e) \<longleftrightarrow> 0 < p \<and>
      (p \<in> set [value_or_default_int (env_int e ''TPROXY_PORT'') 10853,
         value_or_default_int (env_int e ''DNS_PORT'') 10856,
         env_int e ''API_PORT'', env_int e ''SOCKS_PORT'', env_int e ''HTTP_PORT''] \<or>
       (\<exists>f \<in> set (str_fields (env_value e ''CHAIN_PROXY_PORTS'')). atoi f = (p, True)))"
    unfolding effective_local_ports_def set_dedup_ports set_append by auto
  moreover have "distinct (effective_local_ports e)"
    by (simp only: effective_local_ports_def distinct_dedup_ports)
  ultimately show ?thesis by (simp only: list.set simp_thms)
qed

end
