(* ===== verification/FileSystem.thy ===== *)
theory FileSystem
  imports GoText Errors
begin

text \<open>
  The part of package \<^verbatim>\<open>os\<close> that the runtime packages use: \<^verbatim>\<open>Stat\<close>, \<^verbatim>\<open>ReadFile\<close>,
  \<^verbatim>\<open>WriteFile\<close>, \<^verbatim>\<open>Remove\<close> and \<^verbatim>\<open>MkdirAll\<close>.  A device is a map from paths to files
  with a fault table that says which operations on which paths fail for another reason than a
  missing file (permissions, a full disk, a missing directory).  An operation that fails leaves
  the files as they are.  Components that run scripts extend the record with their own state.
\<close>

record os_file =
  fl_data :: string
  fl_mtime :: gtime

datatype fs_op = FsStat | FsRead | FsWrite | FsRemove | FsMkdir

record fs =
  fs_files :: "string \<rightharpoonup> os_file"
  fs_fault :: "fs_op \<Rightarrow> string \<rightharpoonup> string"

datatype fs_error = NotExist string | IoFault string

fun fs_error_msg :: "fs_error \<Rightarrow> string" where
  "fs_error_msg (NotExist p) = p @ '': no such file or directory''"
| "fs_error_msg (IoFault m) = m"

definition go_fs_error :: "fs_error \<Rightarrow> go_error" where
  "go_fs_error e = ErrorString (fs_error_msg e)"

text \<open>\<^verbatim>\<open>os.IsNotExist\<close>\<close>

fun is_not_exist :: "fs_error \<Rightarrow> bool" where
  "is_not_exist (NotExist p) = True"
| "is_not_exist (IoFault m) = False"

definition fs_access :: "fs_op \<Rightarrow> string \<Rightarrow> 'w fs_scheme \<Rightarrow> fs_error + os_file" where
  "fs_access op p w =
     (case fs_fault w op p of
        Some m \<Rightarrow> Inl (IoFault m)
      | None \<Rightarrow> (case fs_files w p of None \<Rightarrow> Inl (NotExist p) | Some f \<Rightarrow> Inr f))"

definition os_stat :: "string \<Rightarrow> 'w fs_scheme \<Rightarrow> fs_error + os_file" where
  "os_stat p w = fs_access FsStat p w"

definition os_read_file :: "string \<Rightarrow> 'w fs_scheme \<Rightarrow> fs_error + string" where
  "os_read_file p w = map_sum id fl_data (fs_access FsRead p w)"

definition os_write_file ::
  "string \<Rightarrow> string \<Rightarrow> gtime \<Rightarrow> 'w fs_scheme \<Rightarrow> fs_error option \<times> 'w fs_scheme" where
  "os_write_file p data now w =
     (case fs_fault w FsWrite p of
        Some m \<Rightarrow> (Some (IoFault m), w)
      | None \<Rightarrow> (None, w\<lparr>fs_files := (fs_files w)(p \<mapsto> \<lparr>fl_data = data, fl_mtime = now\<rparr>)\<rparr>))"

definition os_remove :: "string \<Rightarrow> 'w fs_scheme \<Rightarrow> fs_error option \<times> 'w fs_scheme" where
  "os_remove p w =
     (case fs_access FsRemove p w of
        Inl e \<Rightarrow> (Some e, w)
      | Inr f \<Rightarrow> (None, w\<lparr>fs_files := (fs_files w)(p := None)\<rparr>))"

definition os_mkdir_all :: "string \<Rightarrow> 'w fs_scheme \<Rightarrow> fs_error option \<times> 'w fs_scheme" where
  "os_mkdir_all p w = (map_option IoFault (fs_fault w FsMkdir p), w)"

definition path_exists :: "string \<Rightarrow> 'w fs_scheme \<Rightarrow> bool" where
  "path_exists p w \<longleftrightarrow> \<not> isl (os_stat p w)"

lemma os_remove_None [simp, go_simps]:
  "os_remove p w = (None, w') \<longleftrightarrow>
     fs_fault w FsRemove p = None \<and> (\<exists>f. fs_files w p = Some f) \<and>
     w' = w\<lparr>fs_files := (fs_files w)(p := None)\<rparr>"
  by (auto simp: os_remove_def fs_access_def split: option.splits)

lemma os_remove_Some:
  "os_remove p w = (Some e, w') \<Longrightarrow>
     w' = w \<and> (is_not_exist e \<longrightarrow> fs_files w p = None) \<and>
     (\<not> is_not_exist e \<longrightarrow> (\<exists>m. fs_fault w FsRemove p = Some m))"
  by (auto simp: os_remove_def fs_access_def split: option.splits)

lemma os_write_file_None [simp, go_simps]:
  "os_write_file p data now w = (None, w') \<longleftrightarrow>
     fs_fault w FsWrite p = None \<and>
     w' = w\<lparr>fs_files := (fs_files w)(p \<mapsto> \<lparr>fl_data = data, fl_mtime = now\<rparr>)\<rparr>"
  by (auto simp: os_write_file_def split: option.splits)

lemma os_write_file_Some: "os_write_file p data now w = (Some e, w') \<Longrightarrow> w' = w \<and> \<not> is_not_exist e"
  by (auto simp: os_write_file_def split: option.splits)

lemma os_mkdir_all_world [simp, go_simps]: "snd (os_mkdir_all p w) = w"
  by (simp add: os_mkdir_all_def)

end
