(* ===== verification/ResetController.thy ===== *)
theory ResetController
  imports FileSystem ModulePaths
begin

text \<open>
  The network reset (\<^verbatim>\<open>daemon/internal/resetcontroller\<close>): the step report, the reset lock
  and reset mode, and the controller that runs the steps in order.  The hooks of the controller
  are parameters; they may change the world, which contains the file system.  The step observer
  is a trace of the names it was called with.  \<^verbatim>\<open>time.Format\<close> and \<^verbatim>\<open>time.Parse\<close> in
  the RFC 3339 layout, which depend on the device's time zone, are the parameters
  \<^verbatim>\<open>fmt_time\<close> and \<^verbatim>\<open>parse_time\<close>.
\<close>

section \<open>The step report\<close>

record report_controller =
  rc_generation :: int64
  rc_observed :: "string list"
  rc_report :: reset_report

definition new_report_controller :: "int64 \<Rightarrow> backend_kind \<Rightarrow> report_controller" where
  "new_report_controller generation backend =
     \<lparr>rc_generation = generation, rc_observed = [],
      rc_report = \<lparr>rr_backend_kind = backend, rr_generation = generation, rr_status = ''ok'',
        rr_steps = [], rr_warnings = [], rr_errors = [], rr_leftovers = [], rr_reboot_required = False\<rparr>\<rparr>"

definition rc_record ::
  "string \<Rightarrow> string \<times> string \<times> go_error option \<Rightarrow> report_controller \<Rightarrow> report_controller" where
  "rc_record name result c =
     (let (status0, detail, err) = result; r = rc_report c;
          status = (if status0 = [] then ''ok'' else status0)
      in c\<lparr>rc_report :=
           (case err of
              None \<Rightarrow> r\<lparr>rr_steps := rr_steps r @
                         [\<lparr>rst_name = name, rst_status = status, rst_detail = detail\<rparr>]\<rparr>
            | Some e \<Rightarrow> r\<lparr>rr_steps := rr_steps r @
                           [\<lparr>rst_name = name, rst_status = ''failed'', rst_detail = error_msg e\<rparr>],
                         rr_status := ''partial'',
                         rr_errors := rr_errors r @ [name @ '': '' @ error_msg e]\<rparr>)\<rparr>)"

text \<open>
  \<^verbatim>\<open>ReportController.Run\<close>: the observer, then the step's function on the world and the
  report (which \<^verbatim>\<open>verify-cleanup\<close> also changes), then the step's record.
\<close>

definition rc_run ::
  "string \<Rightarrow> (report_controller \<times> 'w \<Rightarrow> (string \<times> string \<times> go_error option) \<times> report_controller \<times> 'w)
     \<Rightarrow> report_controller \<times> 'w \<Rightarrow> report_controller \<times> 'w" where
  "rc_run name fn cw =
     (let (c, w) = cw; c1 = c\<lparr>rc_observed := rc_observed c @ [name]\<rparr>;
          (result, c2, w2) = fn (c1, w)
      in (rc_record name result c2, w2))"

definition rc_set_leftovers :: "string list \<Rightarrow> report_controller \<Rightarrow> report_controller" where
  "rc_set_leftovers leftovers c =
     (let r = (rc_report c)\<lparr>rr_leftovers := leftovers\<rparr>
      in c\<lparr>rc_report := (if leftovers \<noteq> [] then r\<lparr>rr_reboot_required := True\<rparr> else r)\<rparr>)"

definition rc_add_warning :: "string \<Rightarrow> report_controller \<Rightarrow> report_controller" where
  "rc_add_warning warning c =
     c\<lparr>rc_report := (rc_report c)\<lparr>rr_warnings := rr_warnings (rc_report c) @ [warning]\<rparr>\<rparr>"

definition rc_has_errors :: "report_controller \<Rightarrow> bool" where
  "rc_has_errors c \<longleftrightarrow> rr_errors (rc_report c) \<noteq> []"

definition rc_finish :: "report_controller \<Rightarrow> reset_report" where
  "rc_finish c =
     (let r = rc_report c;
          r1 = (if rr_errors r \<noteq> [] then r\<lparr>rr_status := ''partial''\<rparr>
                else if rr_warnings r \<noteq> [] \<or> rr_leftovers r \<noteq> []
                then r\<lparr>rr_status := ''clean_with_warnings''\<rparr> else r)
      in if rr_leftovers r1 \<noteq> [] then r1\<lparr>rr_reboot_required := True\<rparr> else r1)"

section \<open>Reset mode\<close>

definition enter_reset_mode ::
  "string \<Rightarrow> (gtime \<Rightarrow> string) \<Rightarrow> gtime \<Rightarrow> 'w fs_scheme \<Rightarrow> fs_error option \<times> 'w fs_scheme" where
  "enter_reset_mode d fmt_time now w =
     (case os_mkdir_all (run_dir d) w of
        (Some e, w1) \<Rightarrow> (Some e, w1)
      | (None, w1) \<Rightarrow>
          (case os_mkdir_all (config_dir d) w1 of
             (Some e, w2) \<Rightarrow> (Some e, w2)
           | (None, w2) \<Rightarrow>
               (case os_write_file (reset_lock d) (fmt_time now @ [char_of (10::nat)]) now w2 of
                  (Some e, w3) \<Rightarrow> (Some e, w3)
                | (None, w3) \<Rightarrow>
                    (let w4 = snd (os_remove (active_file d) w3)
                     in os_write_file (manual_flag d) (''network reset'' @ [char_of (10::nat)]) now w4))))"

definition leave_reset_mode :: "string \<Rightarrow> 'w fs_scheme \<Rightarrow> fs_error option \<times> 'w fs_scheme" where
  "leave_reset_mode d w =
     (case os_remove (reset_lock d) w of
        (Some e, w1) \<Rightarrow> (if is_not_exist e then None else Some e, w1)
      | (None, w1) \<Rightarrow> (None, w1))"

fun remove_files :: "string list \<Rightarrow> string list \<times> string list \<times> 'w fs_scheme
    \<Rightarrow> string list \<times> string list \<times> 'w fs_scheme" where
  "remove_files [] acc = acc"
| "remove_files (p # ps) (removed, errs, w) =
     (case os_remove p w of
        (None, w1) \<Rightarrow> remove_files ps (removed @ [path_base p], errs, w1)
      | (Some e, w1) \<Rightarrow>
          remove_files ps (removed,
            if is_not_exist e then errs else errs @ [path_base p @ '': '' @ fs_error_msg e], w1))"

definition remove_stale_runtime_files ::
  "string \<Rightarrow> 'w fs_scheme \<Rightarrow> (string list \<times> go_error option) \<times> 'w fs_scheme" where
  "remove_stale_runtime_files d w =
     (let (removed, errs, w1) = remove_files (runtime_snapshot_files d) ([], [], w)
      in ((removed, if errs \<noteq> [] then Some (ErrorString (str_join ''; '' errs)) else None), w1))"

section \<open>The reset lock\<close>

abbreviation stale_after :: duration where
  "stale_after \<equiv> 10 * minute"

record lock_info =
  li_active :: bool
  li_stale :: bool
  li_detail :: string
  li_started_at :: gtime
  li_age :: duration

definition no_lock :: lock_info where
  "no_lock = \<lparr>li_active = False, li_stale = False, li_detail = [], li_started_at = zero_time, li_age = 0\<rparr>"

text \<open>A duration of whole seconds under \<^verbatim>\<open>%s\<close>\<close>

definition seconds_str :: "duration \<Rightarrow> string" where
  "seconds_str d =
     (let t = d div second; h = t div 3600; m = (t mod 3600) div 60; s = t mod 60
      in (if h > 0 then int_str h @ ''h'' else []) @
         (if h > 0 \<or> m > 0 then int_str m @ ''m'' else []) @ int_str s @ ''s'')"

definition inspect_lock ::
  "string \<Rightarrow> (string \<Rightarrow> gtime option) \<Rightarrow> gtime \<Rightarrow> 'w fs_scheme \<Rightarrow> go_error + lock_info" where
  "inspect_lock d parse_time now w =
     (case os_stat (reset_lock d) w of
        Inl e \<Rightarrow> if is_not_exist e then Inr no_lock
                 else Inl (WrapError ''reset lock is not readable: '' (go_fs_error e))
      | Inr info \<Rightarrow>
          (let started = (case os_read_file (reset_lock d) w of
                  Inl e \<Rightarrow> fl_mtime info
                | Inr data \<Rightarrow> (case parse_time (trim_space data) of
                                 None \<Rightarrow> fl_mtime info | Some t \<Rightarrow> t));
               age = max 0 (time_sub now started)
           in Inr \<lparr>li_active = True, li_stale = stale_after < age,
                   li_detail = ''reset lock is present for '' @ seconds_str age,
                   li_started_at = started, li_age = age\<rparr>))"

record stale_recovery_decision =
  srd_run_cleanup :: bool
  srd_detail :: string

definition decide_stale_recovery ::
  "string \<Rightarrow> (string \<Rightarrow> gtime option) \<Rightarrow> gtime \<Rightarrow> 'w fs_scheme
     \<Rightarrow> stale_recovery_decision \<times> go_error option" where
  "decide_stale_recovery d parse_time now w =
     (let none = \<lparr>srd_run_cleanup = False, srd_detail = []\<rparr>
      in case inspect_lock d parse_time now w of
           Inl e \<Rightarrow> (none, Some e)
         | Inr lock \<Rightarrow>
             if \<not> li_active lock then (none, None)
             else if \<not> li_stale lock
             then (none, Some (BusyError (new_reset_in_progress_error ''reset is in progress'')))
             else (\<lparr>srd_run_cleanup = True, srd_detail = li_detail lock\<rparr>, None))"

definition fail_if_reset_in_progress ::
  "string \<Rightarrow> (string \<Rightarrow> gtime option) \<Rightarrow> gtime \<Rightarrow> 'w fs_scheme \<Rightarrow> go_error option" where
  "fail_if_reset_in_progress d parse_time now w =
     (case inspect_lock d parse_time now w of
        Inl e \<Rightarrow> Some e
      | Inr lock \<Rightarrow>
          if \<not> li_active lock then None
          else if li_stale lock then Some (BusyError (new_reset_in_progress_error (li_detail lock)))
          else Some (BusyError (new_reset_in_progress_error ''reset is in progress'')))"

definition should_skip_root_reconcile :: "string \<Rightarrow> 'w fs_scheme \<Rightarrow> bool \<times> string" where
  "should_skip_root_reconcile d w =
     (if \<not> isl (os_stat (reset_lock d) w) then (True, ''reset lock is present'')
      else if \<not> isl (os_stat (manual_flag d) w) then (True, ''manual mode is enabled'')
      else (case os_stat (active_file d) w of
              Inl e \<Rightarrow> if is_not_exist e then (True, ''runtime is not marked active'')
                       else (True, ''active marker is not readable: '' @ fs_error_msg e)
            | Inr f \<Rightarrow> (False, [])))"

section \<open>The controller\<close>

record 'w reset_hooks =
  rh_stop_subsystems :: "'w \<Rightarrow> 'w"
  rh_rescue_reset_core :: "'w \<Rightarrow> go_error option \<times> 'w"
  rh_script_env :: "'w \<Rightarrow> env"
  rh_exec_rescue_reset :: "string \<Rightarrow> env \<Rightarrow> 'w \<Rightarrow> go_error option \<times> 'w"
  rh_clear_runtime_state :: "'w \<Rightarrow> 'w"
  rh_verify_cleanup :: "'w \<Rightarrow> string list \<times> 'w"

type_synonym 'w reset_step_fn =
  "report_controller \<times> 'w \<Rightarrow> (string \<times> string \<times> go_error option) \<times> report_controller \<times> 'w"

definition ok_step :: "('w \<Rightarrow> 'w) \<Rightarrow> 'w reset_step_fn" where
  "ok_step f cw = (case cw of (c, w) \<Rightarrow> ((''ok'', [], None), c, f w))"

definition err_step :: "('w \<Rightarrow> go_error option \<times> 'w) \<Rightarrow> 'w reset_step_fn" where
  "err_step f cw =
     (case cw of (c, w) \<Rightarrow>
        (case f w of
           (Some e, w1) \<Rightarrow> (([], [], Some e), c, w1)
         | (None, w1) \<Rightarrow> ((''ok'', [], None), c, w1)))"

definition go_fs_result :: "fs_error option \<times> 'w \<Rightarrow> go_error option \<times> 'w" where
  "go_fs_result ew = (map_option go_fs_error (fst ew), snd ew)"

definition remove_stale_step :: "string \<Rightarrow> 'w fs_scheme reset_step_fn" where
  "remove_stale_step d cw =
     (case cw of (c, w) \<Rightarrow>
        (case remove_stale_runtime_files d w of
           ((removed, Some e), w1) \<Rightarrow> (([], [], Some e), c, w1)
         | ((removed, None), w1) \<Rightarrow>
             if removed = [] then ((''already_clean'', [], None), c, w1)
             else ((''ok'', str_join '', '' removed, None), c, w1)))"

definition verify_cleanup_step :: "('w \<Rightarrow> string list \<times> 'w) \<Rightarrow> 'w reset_step_fn" where
  "verify_cleanup_step verify cw =
     (case cw of (c, w) \<Rightarrow>
        (let (leftovers, w1) = verify w; c1 = rc_set_leftovers leftovers c
         in if leftovers = [] then ((''ok'', [], None), c1, w1)
            else ((''warning'', str_join ''; '' leftovers, None),
                  rc_add_warning (''verify-cleanup: '' @ int_str (int (length leftovers)) @
                                  '' leftover(s) after reset'') c1, w1)))"

text \<open>The first four steps, the three that only run when these succeeded, and the last one.\<close>

definition reset_prepare ::
  "string \<Rightarrow> (gtime \<Rightarrow> string) \<Rightarrow> gtime \<Rightarrow> 'w fs_scheme reset_hooks
     \<Rightarrow> report_controller \<times> 'w fs_scheme \<Rightarrow> report_controller \<times> 'w fs_scheme" where
  "reset_prepare d fmt_time now hooks cw =
     rc_run ''rescue-cleanup-script''
       (err_step (\<lambda>w. rh_exec_rescue_reset hooks (rescue_reset_script d) (rh_script_env hooks w) w))
     (rc_run ''stop-core'' (err_step (rh_rescue_reset_core hooks))
     (rc_run ''stop-subsystems'' (ok_step (rh_stop_subsystems hooks))
     (rc_run ''enter-reset-mode''
       (err_step (\<lambda>w. go_fs_result (enter_reset_mode d fmt_time now w))) cw)))"

definition reset_clean ::
  "string \<Rightarrow> 'w fs_scheme reset_hooks \<Rightarrow> report_controller \<times> 'w fs_scheme
     \<Rightarrow> report_controller \<times> 'w fs_scheme" where
  "reset_clean d hooks cw =
     rc_run ''verify-cleanup'' (verify_cleanup_step (rh_verify_cleanup hooks))
     (rc_run ''remove-stale-runtime-files'' (remove_stale_step d)
     (rc_run ''clear-runtime-state'' (ok_step (rh_clear_runtime_state hooks)) cw))"

definition reset_leave ::
  "string \<Rightarrow> report_controller \<times> 'w fs_scheme \<Rightarrow> report_controller \<times> 'w fs_scheme" where
  "reset_leave d cw =
     rc_run ''leave-reset-mode'' (err_step (\<lambda>w. go_fs_result (leave_reset_mode d w))) cw"

definition reset_run ::
  "string \<Rightarrow> backend_kind \<Rightarrow> (gtime \<Rightarrow> string) \<Rightarrow> gtime \<Rightarrow> 'w fs_scheme reset_hooks \<Rightarrow> int64
     \<Rightarrow> 'w fs_scheme \<Rightarrow> report_controller \<times> 'w fs_scheme" where
  "reset_run d backend fmt_time now hooks generation w =
     (let cw = reset_prepare d fmt_time now hooks (new_report_controller generation backend, w)
      in if rc_has_errors (fst cw) then reset_leave d cw
         else reset_leave d (reset_clean d hooks cw))"

definition reset_controller_run ::
  "string \<Rightarrow> backend_kind \<Rightarrow> (gtime \<Rightarrow> string) \<Rightarrow> gtime \<Rightarrow> 'w fs_scheme reset_hooks \<Rightarrow> int64
     \<Rightarrow> 'w fs_scheme \<Rightarrow> reset_report \<times> 'w fs_scheme" where
  "reset_controller_run d backend fmt_time now hooks generation w =
     (let (c, w1) = reset_run d backend fmt_time now hooks generation w in (rc_finish c, w1))"

end
