(* ===== verification/ResetProperties.thy ===== *)
theory ResetProperties
  imports ResetController
begin

text \<open>
  Properties of the network reset: the report is coherent and classified correctly, the steps
  run in the documented order whatever the hooks do, the lock does not survive a reset unless
  the report says so, and the lock inspection agrees with reset mode.
\<close>

section \<open>The report\<close>

definition rst_failed :: "reset_step \<Rightarrow> bool" where
  "rst_failed s \<longleftrightarrow> rst_status s = ''failed''"

text \<open>
  The report under construction: the observer saw the recorded steps, there is an error iff
  some step failed, and the reboot flag is set when something was left over.
\<close>

definition rc_inv :: "report_controller \<Rightarrow> bool" where
  "rc_inv c \<longleftrightarrow>
     rc_observed c = map rst_name (rr_steps (rc_report c)) \<and>
     (rr_errors (rc_report c) = [] \<longleftrightarrow> (\<forall>s \<in> set (rr_steps (rc_report c)). \<not> rst_failed s)) \<and>
     (rr_errors (rc_report c) = [] \<longrightarrow> rr_status (rc_report c) = ''ok'') \<and>
     (rr_warnings (rc_report c) = [] \<longleftrightarrow> rr_leftovers (rc_report c) = []) \<and>
     (rr_reboot_required (rc_report c) \<longleftrightarrow> rr_leftovers (rc_report c) \<noteq> [])"

text \<open>A step function that leaves the report alone, and the one of \<^verbatim>\<open>verify-cleanup\<close>.\<close>

definition plain_step :: "'w reset_step_fn \<Rightarrow> bool" where
  "plain_step fn \<longleftrightarrow>
     (\<forall>c w. \<exists>status detail err w'. fn (c, w) = ((status, detail, err), c, w') \<and> status \<noteq> ''failed'')"

lemma plain_steps [inv_intros]:
  "plain_step (ok_step f)" "plain_step (err_step g)" "plain_step (remove_stale_step d)"
  by (auto simp: plain_step_def ok_step_def err_step_def remove_stale_step_def
           split: prod.splits option.splits)

lemma rc_run_plain:
  assumes "plain_step fn"
  obtains s err where
    "rst_name s = name" "rst_failed s \<longleftrightarrow> err \<noteq> None"
    "rc_run name fn cw =
       ((fst cw)\<lparr>rc_observed := rc_observed (fst cw) @ [name],
          rc_report := (rc_report (fst cw))\<lparr>rr_steps := rr_steps (rc_report (fst cw)) @ [s],
            rr_status := (case err of None \<Rightarrow> rr_status (rc_report (fst cw)) | Some e \<Rightarrow> ''partial''),
            rr_errors := rr_errors (rc_report (fst cw)) @
              (case err of None \<Rightarrow> [] | Some e \<Rightarrow> [name @ '': '' @ error_msg e])\<rparr>\<rparr>,
        snd (snd (fn ((fst cw)\<lparr>rc_observed := rc_observed (fst cw) @ [name]\<rparr>, snd cw))))"
proof -
  let ?c = "(fst cw)\<lparr>rc_observed := rc_observed (fst cw) @ [name]\<rparr>"
  obtain status detail err w' where
      fn: "fn (?c, snd cw) = ((status, detail, err), ?c, w')" "status \<noteq> ''failed''"
    using assms unfolding plain_step_def by blast
  let ?s = "\<lparr>rst_name = name,
     rst_status = (case err of None \<Rightarrow> if status = [] then ''ok'' else status | Some e \<Rightarrow> ''failed''),
     rst_detail = (case err of None \<Rightarrow> detail | Some e \<Rightarrow> error_msg e)\<rparr>"
  show thesis
    by (rule that [where s = ?s and err = err])
       (use fn in \<open>auto simp: rc_run_def rc_record_def rst_failed_def Let_def split_def split: option.splits\<close>)
qed

definition rc_names :: "report_controller \<Rightarrow> string list" where
  "rc_names c = map rst_name (rr_steps (rc_report c))"

lemma rc_inv_run_plain:
  assumes "plain_step fn"
  shows "rc_inv (fst cw) \<Longrightarrow> rc_inv (fst (rc_run name fn cw))"
    and "rc_names (fst (rc_run name fn cw)) = rc_names (fst cw) @ [name]"
    and "rr_warnings (rc_report (fst (rc_run name fn cw))) = rr_warnings (rc_report (fst cw))"
    and "\<exists>s. rr_steps (rc_report (fst (rc_run name fn cw))) = rr_steps (rc_report (fst cw)) @ [s]"
  by (rule rc_run_plain [OF assms, of name cw];
      auto simp: rc_inv_def rc_names_def split: option.splits)+

lemma rc_inv_run_verify:
  assumes "rc_inv (fst cw)" "rr_warnings (rc_report (fst cw)) = []"
  shows "rc_inv (fst (rc_run name (verify_cleanup_step f) cw))"
    "rc_names (fst (rc_run name (verify_cleanup_step f) cw)) = rc_names (fst cw) @ [name]"
  using assms
  by (auto simp: rc_run_def verify_cleanup_step_def rc_record_def rc_inv_def rc_names_def
      rst_failed_def rc_set_leftovers_def rc_add_warning_def Let_def split: prod.splits)

lemma rc_inv_new [simp]: "rc_inv (new_report_controller g b)" "rc_names (new_report_controller g b) = []"
  by (simp_all add: rc_inv_def rc_names_def new_report_controller_def)

lemma new_controller_warnings [simp]: "rr_warnings (rc_report (new_report_controller g b)) = []"
  by (simp add: new_report_controller_def)

definition reset_steps_short :: "string list" where
  "reset_steps_short = [''enter-reset-mode'', ''stop-subsystems'', ''stop-core'',
     ''rescue-cleanup-script'', ''leave-reset-mode'']"

definition reset_steps_full :: "string list" where
  "reset_steps_full = [''enter-reset-mode'', ''stop-subsystems'', ''stop-core'',
     ''rescue-cleanup-script'', ''clear-runtime-state'', ''remove-stale-runtime-files'',
     ''verify-cleanup'', ''leave-reset-mode'']"

lemmas rc_run_facts = rc_inv_run_plain rc_inv_run_verify plain_steps

lemma reset_prepare_inv:
  assumes "cw' = reset_prepare d fmt now hooks (new_report_controller g b, w)"
  shows "rc_inv (fst cw')" "rr_warnings (rc_report (fst cw')) = []"
    "rc_names (fst cw') = [''enter-reset-mode'', ''stop-subsystems'', ''stop-core'', ''rescue-cleanup-script'']"
  by (simp_all add: assms reset_prepare_def rc_run_facts)

lemma reset_clean_inv:
  assumes "rc_inv (fst cw)" "rr_warnings (rc_report (fst cw)) = []"
  shows "rc_inv (fst (reset_clean d hooks cw))"
    "rc_names (fst (reset_clean d hooks cw)) = rc_names (fst cw) @
       [''clear-runtime-state'', ''remove-stale-runtime-files'', ''verify-cleanup'']"
  using assms by (simp_all add: reset_clean_def rc_run_facts)

lemma reset_leave_inv:
  assumes "rc_inv (fst cw)"
  shows "rc_inv (fst (reset_leave d cw))"
    "rc_names (fst (reset_leave d cw)) = rc_names (fst cw) @ [''leave-reset-mode'']"
  using assms by (simp_all add: reset_leave_def rc_run_facts)

text \<open>Steps already recorded stay where they are.\<close>

lemma rc_run_extends:
  assumes "plain_step fn \<or> fn = verify_cleanup_step f"
  shows "prefix (rr_steps (rc_report (fst cw))) (rr_steps (rc_report (fst (rc_run name fn cw))))"
  using assms
proof
  assume "plain_step fn"
  then show ?thesis using rc_inv_run_plain(4) [of fn name cw] by (auto simp: prefix_def)
next
  assume "fn = verify_cleanup_step f"
  then show ?thesis
    by (auto simp: rc_run_def verify_cleanup_step_def rc_record_def rc_set_leftovers_def
        rc_add_warning_def Let_def split: prod.splits)
qed

lemma reset_leave_extends:
  "prefix (rr_steps (rc_report (fst cw))) (rr_steps (rc_report (fst (reset_leave d cw))))"
  by (simp add: reset_leave_def rc_run_extends plain_steps)

lemma reset_clean_extends:
  "prefix (rr_steps (rc_report (fst cw)))
     (rr_steps (rc_report (fst (reset_clean (d::string) hooks cw))))"
  unfolding reset_clean_def
  by (rule prefix_order.order_trans [OF rc_run_extends
           prefix_order.order_trans [OF rc_run_extends rc_run_extends]])
     (auto simp: plain_steps)

lemma rc_finish_steps [simp]: "rr_steps (rc_finish c) = rr_steps (rc_report c)"
  by (simp add: rc_finish_def Let_def)

lemma rc_finish_class:
  "rc_inv c \<Longrightarrow>
   rr_status (rc_finish c) =
     (if \<exists>s \<in> set (rr_steps (rc_report c)). rst_failed s then ''partial''
      else if rr_leftovers (rc_finish c) \<noteq> [] then ''clean_with_warnings'' else ''ok'') \<and>
   (rr_reboot_required (rc_finish c) \<longleftrightarrow> rr_leftovers (rc_finish c) \<noteq> [])"
  by (auto simp: rc_inv_def rc_finish_def Let_def)

text \<open>
  C7.  Whatever the hooks do, a reset runs its steps in the documented order and ends by leaving
  reset mode; the later steps (clearing the state, removing files, verifying) run exactly when none
  of the first four failed.  The status is partial iff a step failed, otherwise clean with warnings
  iff something was left over, otherwise ok, and a reboot is required iff something was left over.
\<close>

theorem reset_report_coherent:
  assumes "reset_controller_run d b fmt now hooks g w = (r, w')"
  shows "map rst_name (rr_steps r) =
           (if \<exists>s \<in> set (take 4 (rr_steps r)). rst_failed s then reset_steps_short else reset_steps_full) \<and>
         rr_status r =
           (if \<exists>s \<in> set (rr_steps r). rst_failed s then ''partial''
            else if rr_leftovers r \<noteq> [] then ''clean_with_warnings'' else ''ok'') \<and>
         (rr_reboot_required r \<longleftrightarrow> rr_leftovers r \<noteq> [])"
proof -
  define cw where "cw = reset_prepare d fmt now hooks (new_report_controller g b, w)"
  note prep = reset_prepare_inv [OF cw_def]
  define cw' where "cw' = (if rc_has_errors (fst cw) then cw else reset_clean d hooks cw)"
  have inv': "rc_inv (fst cw')" using prep by (simp add: cw'_def reset_clean_inv)
  have run: "reset_run d b fmt now hooks g w = reset_leave d cw'"
    by (simp add: reset_run_def cw_def [symmetric] cw'_def Let_def)
  have names: "rc_names (fst (reset_leave d cw')) =
      (if rc_has_errors (fst cw) then reset_steps_short else reset_steps_full)"
    using prep inv'
    by (simp add: reset_leave_inv reset_clean_inv cw'_def reset_steps_short_def reset_steps_full_def)
  have "prefix (rr_steps (rc_report (fst cw))) (rr_steps (rc_report (fst (reset_leave d cw'))))"
  proof (cases "rc_has_errors (fst cw)")
    case True
    then show ?thesis using reset_leave_extends [of cw d] by (simp add: cw'_def)
  next
    case False
    then show ?thesis
      using prefix_order.order_trans
        [OF reset_clean_extends [of cw d hooks] reset_leave_extends [of "reset_clean d hooks cw" d]]
      by (simp add: cw'_def)
  qed
  moreover have "length (rr_steps (rc_report (fst cw))) = 4"
    using arg_cong [OF prep(3), of length] by (simp add: rc_names_def)
  ultimately have "take 4 (rr_steps (rc_report (fst (reset_leave d cw')))) = rr_steps (rc_report (fst cw))"
    by (auto simp: prefix_def)
  moreover have "rc_has_errors (fst cw) \<longleftrightarrow> (\<exists>s \<in> set (rr_steps (rc_report (fst cw))). rst_failed s)"
    using prep(1) by (auto simp: rc_inv_def rc_has_errors_def)
  moreover have "r = rc_finish (fst (reset_leave d cw'))"
    using assms by (simp add: reset_controller_run_def run split_def Let_def)
  ultimately show ?thesis
    using names rc_finish_class [OF reset_leave_inv(1) [OF inv']] by (simp add: rc_names_def)
qed

text \<open>A device on which the rescue script fails: nothing is cleared, the lock is removed.\<close>

definition demo_fs :: fs where
  "demo_fs = \<lparr>fs_files = [reset_lock [] \<mapsto> \<lparr>fl_data = [], fl_mtime = 5\<rparr>,
                          active_file [] \<mapsto> \<lparr>fl_data = [], fl_mtime = 5\<rparr>],
              fs_fault = (\<lambda>op p. None)\<rparr>"

definition demo_hooks :: "fs reset_hooks" where
  "demo_hooks = \<lparr>rh_stop_subsystems = id, rh_rescue_reset_core = (\<lambda>w. (None, w)),
     rh_script_env = (\<lambda>w. script_env []),
     rh_exec_rescue_reset = (\<lambda>p e w. (Some (ErrorString ''exit status 1''), w)),
     rh_clear_runtime_state = id, rh_verify_cleanup = (\<lambda>w. ([], w))\<rparr>"

definition demo_fmt :: "gtime \<Rightarrow> string" where
  "demo_fmt t = int_str t"

lemma demo_reset_failed_step:
  "rst_status (rr_steps (fst (reset_controller_run [] backend_root_tproxy demo_fmt 9 demo_hooks 3 demo_fs)) ! 3)
     = ''failed''"
  by code_simp

theorem reset_report_coherent_witness:
  "rr_status (fst (reset_controller_run [] backend_root_tproxy demo_fmt 9 demo_hooks 3 demo_fs)) = ''partial''"
proof -
  obtain r w' where run: "reset_controller_run [] backend_root_tproxy demo_fmt 9 demo_hooks 3 demo_fs = (r, w')"
    by (metis prod.exhaust)
  have "length (rr_steps r) \<ge> 4"
    using reset_report_coherent [OF run] arg_cong [of "map rst_name (rr_steps r)" _ length]
    by (auto simp: reset_steps_short_def reset_steps_full_def split: if_splits)
  then have "rr_steps r ! 3 \<in> set (rr_steps r)" by simp
  moreover have "rst_failed (rr_steps r ! 3)"
    using demo_reset_failed_step run by (simp add: rst_failed_def)
  ultimately show ?thesis using reset_report_coherent [OF run] run by auto
qed

section \<open>The lock\<close>

lemma leave_reset_mode_cases:
  obtains (left) w1 where "leave_reset_mode d w = (None, w1)"
      "fs_files w1 (reset_lock d) = None" "fs_fault w1 = fs_fault w"
  | (stuck) e m where "leave_reset_mode d w = (Some e, w)" "fs_fault w FsRemove (reset_lock d) = Some m"
  by (cases "fs_fault w FsRemove (reset_lock d)"; cases "fs_files w (reset_lock d)")
     (auto simp: leave_reset_mode_def os_remove_def fs_access_def)

text \<open>
  C8.  A reset never leaves its lock behind silently: when it returns, the reset lock does not
  exist on the device, or removing it failed, the last step of the report says so and the status
  is partial.
\<close>

theorem reset_releases_lock:
  assumes "reset_controller_run d b fmt now hooks g w = (r, w')"
  shows "fs_files w' (reset_lock d) = None \<or>
         (rst_name (last (rr_steps r)) = ''leave-reset-mode'' \<and> rst_failed (last (rr_steps r)) \<and>
          rr_status r = ''partial'' \<and> rr_errors r \<noteq> [] \<and>
          (\<exists>m. fs_fault w' FsRemove (reset_lock d) = Some m))"
proof -
  obtain c0 w0 where cw: "reset_run d b fmt now hooks g w = reset_leave d (c0, w0)"
    unfolding reset_run_def Let_def by (metis (full_types) prod.exhaust)
  have r: "r = rc_finish (fst (reset_leave d (c0, w0)))" and w': "w' = snd (reset_leave d (c0, w0))"
    using assms by (simp_all add: reset_controller_run_def cw split_def Let_def)
  show ?thesis
  proof (cases rule: leave_reset_mode_cases [of d w0])
    case (left w1)
    with w' show ?thesis
      by (simp add: reset_leave_def rc_run_def err_step_def go_fs_result_def Let_def)
  next
    case (stuck e m)
    with w' r show ?thesis
      by (simp add: reset_leave_def rc_run_def err_step_def go_fs_result_def rc_record_def
          rc_finish_def rst_failed_def Let_def)
  qed
qed

theorem reset_releases_lock_witness:
  "fs_files (snd (reset_controller_run [] backend_root_tproxy demo_fmt 9 demo_hooks 3 demo_fs)) (reset_lock []) = None"
proof -
  obtain r w' where run: "reset_controller_run [] backend_root_tproxy demo_fmt 9 demo_hooks 3 demo_fs = (r, w')"
    by (metis prod.exhaust)
  have "fs_fault (snd (reset_controller_run [] backend_root_tproxy demo_fmt 9 demo_hooks 3 demo_fs)) FsRemove
      (reset_lock []) = None"
    by code_simp
  with reset_releases_lock [OF run] run show ?thesis by auto
qed

lemma busy_reset_error [simp]:
  "be_code (new_reset_in_progress_error detail) = ''RESET_IN_PROGRESS''"
  by (simp add: new_reset_in_progress_error_def)

lemma inspect_lock_absent:
  "fs_fault w FsStat (reset_lock d) = None \<Longrightarrow> fs_files w (reset_lock d) = None \<Longrightarrow>
   inspect_lock d parse now w = Inr no_lock"
  by (simp add: inspect_lock_def os_stat_def fs_access_def)

text \<open>The start of the reset that the lock file records.\<close>

definition lock_started :: "string \<Rightarrow> (string \<Rightarrow> gtime option) \<Rightarrow> 'w fs_scheme \<Rightarrow> os_file \<Rightarrow> gtime" where
  "lock_started d parse w f =
     (case (if fs_fault w FsRead (reset_lock d) = None then parse (trim_space (fl_data f)) else None) of
        None \<Rightarrow> fl_mtime f | Some t \<Rightarrow> t)"

lemma inspect_lock_present:
  assumes "fs_fault w FsStat (reset_lock d) = None" "fs_files w (reset_lock d) = Some f"
  shows "\<exists>l. inspect_lock d parse now w = Inr l \<and> li_active l \<and>
     (li_stale l \<longleftrightarrow> stale_after < now - lock_started d parse w f) \<and>
     li_detail l = ''reset lock is present for '' @
       seconds_str (max 0 (time_sub now (lock_started d parse w f)))"
proof -
  have "stale_after < max 0 (time_sub now t) \<longleftrightarrow> stale_after < now - t" for t
    by (auto simp: time_sub_def)
  then show ?thesis
    using assms
    by (auto simp: inspect_lock_def os_stat_def os_read_file_def fs_access_def lock_started_def Let_def
             split: option.splits)
qed

text \<open>
  The lock decides what a starting daemon and an operation may do.  No lock: both may go
  on.  A lock older than ten minutes (by the time it records, else its modification time): the
  daemon runs the cleanup, an operation is refused with the code RESET_IN_PROGRESS.  A younger lock:
  both are refused with this code.
\<close>

theorem lock_decision:
  assumes "fs_fault w FsStat (reset_lock d) = None"
  shows "case fs_files w (reset_lock d) of
      None \<Rightarrow> fail_if_reset_in_progress d parse now w = None \<and>
              decide_stale_recovery d parse now w = (\<lparr>srd_run_cleanup = False, srd_detail = []\<rparr>, None)
    | Some f \<Rightarrow>
        (\<exists>b. fail_if_reset_in_progress d parse now w = Some (BusyError b) \<and> be_code b = ''RESET_IN_PROGRESS'') \<and>
        (if stale_after < now - lock_started d parse w f
         then srd_run_cleanup (fst (decide_stale_recovery d parse now w)) \<and>
              snd (decide_stale_recovery d parse now w) = None
         else \<not> srd_run_cleanup (fst (decide_stale_recovery d parse now w)) \<and>
              (\<exists>b. snd (decide_stale_recovery d parse now w) = Some (BusyError b) \<and>
                   be_code b = ''RESET_IN_PROGRESS''))"
proof (cases "fs_files w (reset_lock d)")
  case None
  with inspect_lock_absent [OF assms None] show ?thesis
    by (simp add: fail_if_reset_in_progress_def decide_stale_recovery_def no_lock_def)
next
  case (Some f)
  with inspect_lock_present [OF assms Some, of parse now] show ?thesis
    by (auto simp: fail_if_reset_in_progress_def decide_stale_recovery_def)
qed

theorem lock_decision_witness:
  "srd_run_cleanup (fst (decide_stale_recovery [] (\<lambda>s. None) (11 * minute) demo_fs)) \<and>
   \<not> srd_run_cleanup (fst (decide_stale_recovery [] (\<lambda>s. None) (9 * minute) demo_fs))"
proof -
  have lock: "fs_fault demo_fs FsStat (reset_lock []) = None"
    "fs_files demo_fs (reset_lock []) = Some \<lparr>fl_data = [], fl_mtime = 5\<rparr>"
    by (simp_all add: demo_fs_def)
  have "lock_started [] (\<lambda>s. None) demo_fs \<lparr>fl_data = [], fl_mtime = 5\<rparr> = 5"
    by (simp add: lock_started_def demo_fs_def)
  with lock_decision [OF lock(1), of "\<lambda>s. None" "11 * minute"]
    lock_decision [OF lock(1), of "\<lambda>s. None" "9 * minute"] lock(2)
  show ?thesis by simp
qed

text \<open>
  Reset mode is visible to every reader.  After it was entered, the lock and the manual
  flag exist, an operation is refused with the code RESET_IN_PROGRESS at any time, the root
  reconcile is skipped and the active marker is gone unless removing it failed; after it was left, the lock
  refuses nothing.
\<close>

theorem reset_mode_roundtrip:
  assumes "enter_reset_mode d fmt now w = (None, w1)"
    and "fs_fault w FsStat (reset_lock d) = None"
  shows "(\<exists>b. fail_if_reset_in_progress d parse later w1 = Some (BusyError b) \<and> be_code b = ''RESET_IN_PROGRESS'') \<and>
         should_skip_root_reconcile d w1 = (True, ''reset lock is present'') \<and>
         fs_files w1 (manual_flag d) \<noteq> None \<and>
         (fs_fault w FsRemove (active_file d) = None \<longrightarrow> fs_files w1 (active_file d) = None) \<and>
         (\<forall>w2. leave_reset_mode d w1 = (None, w2) \<longrightarrow>
            fail_if_reset_in_progress d parse later w2 = None)"
proof -
  let ?lock = "\<lparr>fl_data = fmt now @ [char_of (10::nat)], fl_mtime = now\<rparr>"
  from assms(1) have w1: "fs_files w1 (reset_lock d) = Some ?lock" "fs_fault w1 = fs_fault w"
      "fs_files w1 (manual_flag d) \<noteq> None"
      "fs_fault w FsRemove (active_file d) = None \<longrightarrow> fs_files w1 (active_file d) = None"
    by (auto simp: enter_reset_mode_def os_mkdir_all_def os_remove_def fs_access_def
             split: prod.splits option.splits)
  have "fail_if_reset_in_progress d parse later w2 = None" if "leave_reset_mode d w1 = (None, w2)" for w2
  proof (cases rule: leave_reset_mode_cases [of d w1])
    case (left w3)
    with that w1 assms(2) lock_decision [of w2 d parse later] show ?thesis by simp
  next
    case (stuck e m)
    with that show ?thesis by simp
  qed
  with w1 assms(2) lock_decision [of w1 d parse later] show ?thesis
    by (auto simp: should_skip_root_reconcile_def os_stat_def fs_access_def)
qed

theorem reset_mode_roundtrip_witness:
  "\<exists>w1. enter_reset_mode [] demo_fmt 9 demo_fs = (None, w1) \<and>
        should_skip_root_reconcile [] w1 = (True, ''reset lock is present'')"
proof -
  have "fst (enter_reset_mode [] demo_fmt 9 demo_fs) = None" by code_simp
  then obtain w1 where w1: "enter_reset_mode [] demo_fmt 9 demo_fs = (None, w1)"
    by (metis prod.collapse)
  with reset_mode_roundtrip [OF w1] show ?thesis by (simp add: demo_fs_def)
qed

end
