(* ===== verification/RootBackendProperties.thy ===== *)
theory RootBackendProperties
  imports RootBackend
begin

text \<open>
  What the root backend does on every path, stated over the recorded calls of arbitrary
  dependencies: start, restart and network change either succeed with green readiness gates or leave a
  network state that was reset, with the reset's report in the error.
\<close>

lemma with_reset_report_eq: "with_reset_report (Some e) r = Some (ResetReportError e r)"
  by (simp add: with_reset_report_def)

lemma reset_report_from_ResetReportError [simp]:
  "reset_report_from_error (Some (ResetReportError e r)) = Some r"
  using reset_report_from_with [of e r] by (simp add: with_reset_report_eq)

text \<open>
  C9.  A start leaves no half-started runtime: on every path the calls are exactly one of the six
  sequences of the code.  The subsystems are started only after the core; a start that fails once
  they run (the readiness gates are red) resets the network state and returns that reset's report,
  also inside the error; a failed attempt that had begun is marked failed with its own epoch; and
  success means that the core was already running or that the health refreshed last, with an egress probe, is
  healthy.
\<close>

theorem start_call_sequences:
  assumes recover: "bd_recover_stale_lock deps g w = ((rep0, err0), w1)"
    and begin_start: "bd_begin_start deps w1 = (epoch, w2)"
    and start: "backend_start (traced_deps deps) desired g (w, []) = ((rep, err), (w', events))"
  shows "(events = [EvRecover] \<and> err0 \<noteq> None \<and> err = err0 \<and> rep = rep0) \<or>
         (events = [EvRecover, EvBeginStart] \<and> err = None \<and> rep = rep0 \<and>
            bd_get_state deps w2 \<in> {StateRunning, StateDegraded}) \<or>
         (events = [EvRecover, EvBeginStart, EvMarkFailed epoch] \<and> err = Some no_node_error \<and> rep = rep0) \<or>
         (events = [EvRecover, EvBeginStart, EvCoreStart, EvMarkFailed epoch] \<and> err \<noteq> None \<and> rep = rep0) \<or>
         (events = [EvRecover, EvBeginStart, EvCoreStart, EvResetRescue, EvStartSubsystems, EvRefresh True,
                    EvReset g, EvMarkFailed epoch] \<and> rep \<noteq> None \<and> err \<noteq> None \<and>
            reset_report_from_error err = rep) \<or>
         (events = [EvRecover, EvBeginStart, EvCoreStart, EvResetRescue, EvStartSubsystems, EvRefresh True] \<and>
            err = None \<and> rep = rep0 \<and>
            (\<exists>w4 snapshot. bd_refresh_health deps True w4 = (snapshot, w') \<and> healthy snapshot))"
proof (cases "err0 = None \<and> bd_get_state deps w2 \<notin> {StateRunning, StateDegraded}")
  case False
  with assms show ?thesis by (auto simp: backend_start_def split: if_splits)
next
  case idle: True
  obtain p0 has where prof: "bd_runtime_profile deps w2 = (p0, has)" by fastforce
  define p where "p = (case p0 of None \<Rightarrow> empty_profile | Some p \<Rightarrow> p)"
  obtain serr w3 where core: "bd_core_start deps p w2 = (serr, w3)" by fastforce
  let ?w4 = "bd_start_subsystems deps (bd_reset_rescue_state deps w3)"
  obtain snap w5 where refresh: "bd_refresh_health deps True ?w4 = (snap, w5)" by fastforce
  obtain r w6 where reset: "reset_network_state deps g w5 = (r, w6)" by fastforce
  note path = recover begin_start prof p_def [symmetric] core refresh reset idle
  have "((rep, err), (w', events)) =
      (if np_Address p = [] \<and> \<not> has
       then ((rep0, Some no_node_error), (bd_mark_start_failed deps epoch w2,
              [EvRecover, EvBeginStart, EvMarkFailed epoch]))
       else if serr \<noteq> None
       then ((rep0, serr), (bd_mark_start_failed deps epoch w3,
              [EvRecover, EvBeginStart, EvCoreStart, EvMarkFailed epoch]))
       else if \<not> healthy snap
       then ((Some r, Some (ResetReportError (ErrorString
                (''readiness gates failed after start: '' @ hs_last_error snap)) r)),
             (bd_mark_start_failed deps epoch w6,
              [EvRecover, EvBeginStart, EvCoreStart, EvResetRescue, EvStartSubsystems, EvRefresh True,
               EvReset g, EvMarkFailed epoch]))
       else ((rep0, None), (w5,
              [EvRecover, EvBeginStart, EvCoreStart, EvResetRescue, EvStartSubsystems, EvRefresh True])))"
    using path by (simp add: start [symmetric] backend_start_def with_reset_report_eq Let_def)
  with refresh show ?thesis by (simp split: if_splits) blast
qed

text \<open>A device whose core starts and whose readiness gates stay red.\<close>

definition demo_reset_report :: reset_report where
  "demo_reset_report = \<lparr>rr_backend_kind = backend_root_tproxy, rr_generation = 4, rr_status = ''ok'',
     rr_steps = [], rr_warnings = [], rr_errors = [], rr_leftovers = [], rr_reboot_required = False\<rparr>"

definition demo_deps :: "core_state backend_deps" where
  "demo_deps = \<lparr>bd_get_state = (\<lambda>w. w), bd_core_start = (\<lambda>p w. (None, StateRunning)),
     bd_core_stop = (\<lambda>w. (None, StateStopped)), bd_runtime_profile = (\<lambda>w. (None, True)),
     bd_begin_start = (\<lambda>w. (7, w)), bd_begin_stop = (\<lambda>w. (8, w)),
     bd_mark_start_failed = (\<lambda>e w. w), bd_reset_rescue_state = (\<lambda>w. w),
     bd_start_subsystems = (\<lambda>w. w), bd_stop_subsystems = (\<lambda>w. w),
     bd_current_health = (\<lambda>w. empty_health), bd_refresh_health = (\<lambda>b w. (empty_health, w)),
     bd_reapply_rules = (\<lambda>w. (None, w)), bd_recover_stale_lock = (\<lambda>g w. ((None, None), w)),
     bd_reset_network_state = (\<lambda>g k w. (demo_reset_report, StateStopped)),
     bd_should_skip_reconcile = (\<lambda>w. (False, [])), bd_test_probes = (\<lambda>u t i m w. [])\<rparr>"

definition demo_want :: desired_state where
  "demo_want = \<lparr>ds_backend_kind = backend_root_tproxy, ds_active_profile_id = ''p1'', ds_routing_mode = [],
     ds_app_selection = \<lparr>as_proxy_packages = [], as_bypass_packages = []\<rparr>,
     ds_dns_policy = \<lparr>dp_remote_dns = [], dp_direct_dns = [], dp_fake_dns = False, dp_ipv6_mode = []\<rparr>,
     ds_fallback_policy = []\<rparr>"

lemma demo_unhealthy [simp]: "\<not> healthy empty_health"
  by (simp add: healthy_def empty_health_def)

theorem start_call_sequences_witness:
  "reset_report_from_error (snd (fst (backend_start (traced_deps demo_deps) demo_want 4 (StateStopped, []))))
     = Some demo_reset_report"
proof -
  obtain rep err w' events where run:
      "backend_start (traced_deps demo_deps) demo_want 4 (StateStopped, []) = ((rep, err), (w', events))"
    by (metis prod.exhaust)
  then have "rep = Some demo_reset_report" "length events = 8"
    by (auto simp: backend_start_def demo_deps_def reset_network_state_def)
  moreover have "bd_recover_stale_lock demo_deps 4 StateStopped = ((None, None), StateStopped)"
    "bd_begin_start demo_deps StateStopped = (7, StateStopped)"
    by (simp_all add: demo_deps_def)
  ultimately show ?thesis using start_call_sequences [OF _ _ run] run by auto
qed

text \<open>
  A restart (also the one after a configuration change) first stops the subsystems, and
  stops the core if it is not stopped.  It then ends in one of five ways: stopping failed, starting
  failed, or the readiness gates are red after the start, and in these three cases the network state is reset
  as the last action and the error carries that reset's report; or no node is configured, and nothing was
  started; or it succeeded, and the health refreshed last, without an egress probe, is healthy.
\<close>

theorem restart_call_sequences:
  assumes run: "restart_after_config_change (traced_deps deps) g (w, []) = (err, (w', events))"
    and stop: "stop = EvStopSubsystems #
       (if bd_get_state deps (bd_stop_subsystems deps w) = StateStopped then [] else [EvCoreStop])"
  shows "(events = stop @ [EvReset g] \<and> EvCoreStop \<in> set stop \<and> reset_report_from_error err \<noteq> None) \<or>
         (events = stop \<and> err = Some no_node_error) \<or>
         (events = stop @ [EvCoreStart, EvReset g] \<and> reset_report_from_error err \<noteq> None) \<or>
         (events = stop @ [EvCoreStart, EvResetRescue, EvStartSubsystems, EvRefresh False, EvReset g] \<and>
            reset_report_from_error err \<noteq> None) \<or>
         (events = stop @ [EvCoreStart, EvResetRescue, EvStartSubsystems, EvRefresh False] \<and> err = None \<and>
            (\<exists>w4 snapshot. bd_refresh_health deps False w4 = (snapshot, w') \<and> healthy snapshot))"
proof -
  have start: "(events = tr \<and> err = Some no_node_error) \<or>
         (events = tr @ [EvCoreStart, EvReset g] \<and> reset_report_from_error err \<noteq> None) \<or>
         (events = tr @ [EvCoreStart, EvResetRescue, EvStartSubsystems, EvRefresh False, EvReset g] \<and>
            reset_report_from_error err \<noteq> None) \<or>
         (events = tr @ [EvCoreStart, EvResetRescue, EvStartSubsystems, EvRefresh False] \<and> err = None \<and>
            (\<exists>w4 snapshot. bd_refresh_health deps False w4 = (snapshot, w') \<and> healthy snapshot))"
    if s: "restart_start (traced_deps deps) g (w1, tr) = (err, (w', events))" for w1 tr
  proof -
    obtain p0 has where prof: "bd_runtime_profile deps w1 = (p0, has)" by fastforce
    define p where "p = (case p0 of None \<Rightarrow> empty_profile | Some p \<Rightarrow> p)"
    obtain serr w3 where core: "bd_core_start deps p w1 = (serr, w3)" by fastforce
    obtain snap w5 where refresh:
        "bd_refresh_health deps False (bd_start_subsystems deps (bd_reset_rescue_state deps w3)) = (snap, w5)"
      by fastforce
    show ?thesis
    proof (cases "np_Address p = [] \<and> \<not> has")
      case True
      with s show ?thesis by (simp add: restart_start_def prof p_def [symmetric] Let_def)
    next
      case False
      then have node: "(np_Address p = [] \<and> \<not> has) = False" by simp
      show ?thesis
      proof (cases serr)
        case (Some e)
        with s show ?thesis
          by (auto simp: restart_start_def prof p_def [symmetric] node core with_reset_report_eq split_def
              Let_def)
      next
        case None
        with s refresh show ?thesis
          by (cases "healthy snap")
             (auto simp: restart_start_def prof p_def [symmetric] node core with_reset_report_eq split_def
              Let_def)
      qed
    qed
  qed
  let ?w1 = "bd_stop_subsystems deps w"
  show ?thesis
  proof (cases "bd_get_state deps ?w1 = StateStopped")
    case True
    then have "restart_start (traced_deps deps) g (?w1, stop) = (err, (w', events))"
      using run stop by (simp add: restart_after_config_change_def backend_do_restart_def Let_def)
    from start [OF this] show ?thesis by blast
  next
    case running: False
    obtain serr w2 where core: "bd_core_stop deps ?w1 = (serr, w2)" by fastforce
    show ?thesis
    proof (cases serr)
      case None
      then have "restart_start (traced_deps deps) g (w2, stop) = (err, (w', events))"
        using run stop running core
        by (simp add: restart_after_config_change_def backend_do_restart_def Let_def)
      from start [OF this] show ?thesis by blast
    next
      case (Some e)
      with run stop running core show ?thesis
        by (auto simp: restart_after_config_change_def backend_do_restart_def with_reset_report_eq split_def
            Let_def)
    qed
  qed
qed

theorem restart_call_sequences_witness:
  "reset_report_from_error
     (fst (restart_after_config_change (traced_deps demo_deps) 4 (StateRunning, []))) \<noteq> None"
proof -
  obtain err w' events where
      run: "restart_after_config_change (traced_deps demo_deps) 4 (StateRunning, []) = (err, (w', events))"
    by (metis prod.exhaust)
  then have "length events = 7"
    by (auto simp: restart_after_config_change_def backend_do_restart_def restart_start_def demo_deps_def
        reset_network_state_def)
  moreover have "bd_get_state demo_deps (bd_stop_subsystems demo_deps StateRunning) = StateRunning"
    by (simp add: demo_deps_def)
  ultimately show ?thesis using restart_call_sequences [OF run refl] run by auto
qed

text \<open>
  A network change touches nothing when the core is not running, or when a reset lock, the
  manual flag or a missing active marker forbids the reconcile.  Otherwise the rules are applied again; a
  failure there, or red readiness gates afterwards, resets the network state as the last action, with
  the report in the error; success means that the health refreshed last is healthy.
\<close>

theorem reconcile_call_sequences:
  assumes run: "backend_reconcile (traced_deps deps) reason g (w, []) = (err, (w', events))"
  shows "(events = [] \<and> err = None \<and> w' = w \<and>
            (bd_get_state deps w \<notin> {StateRunning, StateDegraded} \<or> fst (bd_should_skip_reconcile deps w))) \<or>
         (bd_get_state deps w \<in> {StateRunning, StateDegraded} \<and> \<not> fst (bd_should_skip_reconcile deps w) \<and>
            ((events = [EvReapply, EvReset g] \<and> reset_report_from_error err \<noteq> None) \<or>
             (events = [EvReapply, EvRefresh False, EvReset g] \<and> reset_report_from_error err \<noteq> None) \<or>
             (events = [EvReapply, EvRefresh False] \<and> err = None \<and>
                (\<exists>w1 snapshot. bd_refresh_health deps False w1 = (snapshot, w') \<and> healthy snapshot))))"
proof (cases "bd_get_state deps w \<in> {StateRunning, StateDegraded} \<and> \<not> fst (bd_should_skip_reconcile deps w)")
  case False
  with run show ?thesis by (auto simp: backend_reconcile_def split: if_splits)
next
  case True
  obtain rerr w1 where reapply: "bd_reapply_rules deps w = (rerr, w1)" by fastforce
  obtain snap w2 where refresh: "bd_refresh_health deps False w1 = (snap, w2)" by fastforce
  have go: "(bd_get_state deps w \<noteq> StateRunning \<and> bd_get_state deps w \<noteq> StateDegraded) = False"
    "fst (bd_should_skip_reconcile deps w) = False"
    using True by auto
  have "(events = [EvReapply, EvReset g] \<and> reset_report_from_error err \<noteq> None) \<or>
             (events = [EvReapply, EvRefresh False, EvReset g] \<and> reset_report_from_error err \<noteq> None) \<or>
             (events = [EvReapply, EvRefresh False] \<and> err = None \<and>
                (\<exists>w1 snapshot. bd_refresh_health deps False w1 = (snapshot, w') \<and> healthy snapshot))"
  proof (cases rerr)
    case (Some e)
    with run reapply show ?thesis
      by (auto simp: backend_reconcile_def go with_reset_report_eq split_def Let_def)
  next
    case None
    with run reapply refresh show ?thesis
      by (cases "healthy snap")
         (auto simp: backend_reconcile_def go with_reset_report_eq split_def Let_def)
  qed
  with True show ?thesis by simp
qed

theorem reconcile_call_sequences_witness:
  "\<exists>err. fst (backend_reconcile (traced_deps demo_deps) ''network-change'' 4 (StateRunning, [])) = Some err"
proof -
  obtain err w' events where
      run: "backend_reconcile (traced_deps demo_deps) ''network-change'' 4 (StateRunning, []) = (err, (w', events))"
    by (metis prod.exhaust)
  then have "length events = 3"
    by (auto simp: backend_reconcile_def demo_deps_def reset_network_state_def)
  with reconcile_call_sequences [OF run] run show ?thesis
    by (cases err) (auto simp: reset_report_from_error_def)
qed

end
