(* ===== verification/RootReloadProperties.thy ===== *)
theory RootReloadProperties
  imports RootReload RootBackendProperties NetstackProperties
begin

text \<open>
  Properties of the configuration reload: what the plan decides, which stages a successful and a
  failed reload record, and that a reload that fails with the runtime changed has reset the network state.
\<close>

section \<open>The plan\<close>

text \<open>
  The plan is exact: a full restart is planned iff an environment is missing or one of the
  restart keys differs; otherwise the rules are reapplied iff one of the netstack keys differs; the
  changed keys are exactly the differing keys of the list that decided; and equal environments need nothing.
\<close>

theorem plan_reload_exact:
  "(pl_full_restart (plan_reload old new) \<longleftrightarrow>
      old = None \<or> new = None \<or>
      (\<exists>k \<in> set reload_full_restart_env_keys. env_differs (the old) (the new) k)) \<and>
   (pl_netstack_reapply_after (plan_reload old new) \<longleftrightarrow>
      \<not> pl_full_restart (plan_reload old new) \<and>
      (\<exists>k \<in> set reload_netstack_reapply_env_keys. env_differs (the old) (the new) k)) \<and>
   (old \<noteq> None \<and> new \<noteq> None \<longrightarrow>
      set (pl_changed_keys (plan_reload old new)) =
        {k \<in> set (if pl_full_restart (plan_reload old new) then reload_full_restart_env_keys
                  else reload_netstack_reapply_env_keys). env_differs (the old) (the new) k})"
  by (auto simp: plan_reload_def Let_def filter_empty_conv split: option.splits)

theorem plan_reload_exact_witness:
  "pl_changed_keys (plan_reload (Some [''DNS_MODE'' \<mapsto> ''all'']) (Some [''DNS_MODE'' \<mapsto> ''off''])) = [''DNS_MODE''] \<and>
   pl_netstack_reapply_after (plan_reload (Some [''DNS_MODE'' \<mapsto> ''all'']) (Some [''DNS_MODE'' \<mapsto> ''off'']))"
proof -
  define a b :: env where "a = [''DNS_MODE'' \<mapsto> ''all'']" and "b = [''DNS_MODE'' \<mapsto> ''off'']"
  have keys: "pl_changed_keys (plan_reload (Some a) (Some b)) = [''DNS_MODE'']"
    and full: "\<not> pl_full_restart (plan_reload (Some a) (Some b))"
    unfolding a_def b_def by code_simp+
  note exact = plan_reload_exact [of "Some a" "Some b"]
  have "''DNS_MODE'' \<in> set (pl_changed_keys (plan_reload (Some a) (Some b)))" by (simp add: keys)
  then have "\<exists>k \<in> set reload_netstack_reapply_env_keys. env_differs (the (Some a)) (the (Some b)) k"
    using exact full by auto
  with exact full keys show ?thesis unfolding a_def b_def by blast
qed

section \<open>Stages\<close>

lemma observe_report_fst [simp]: "fst (observe_report deps s) = fst s"
  by (simp add: observe_report_def split: prod.splits)

lemma on_world_fst [simp]: "fst (on_world f s) = fst s"
  by (simp add: on_world_def split: prod.splits)

lemma call_world_fst [simp]: "fst (snd (call_world f s)) = fst s"
  by (simp add: call_world_def split: prod.splits)

lemma record_stage_names [simp]:
  "stage_names (fst (record_stage deps n st c d b s)) = stage_names (fst s) @ [n]"
  by (simp add: record_stage_def stage_names_def split: prod.splits)

lemma fail_stage_names [simp]:
  "stage_names (fst (fail_stage deps n c e b s)) = stage_names (fst s) @ [n]"
  by (simp add: fail_stage_def)

lemma fail_stage_failed [simp]: "failed_last (fst (fail_stage deps n c e b s))"
  by (simp add: fail_stage_def record_stage_def failed_last_def add_stage_def Let_def split: prod.splits)

lemma finish_reload_names [simp]:
  "stage_names (fst (finish_reload deps s)) = stage_names (fst s)"
  "sr_status (fst (finish_reload deps s)) = ''ok''"
  by (simp_all add: finish_reload_def stage_names_def split: prod.splits)

lemma reset_after_names [simp]:
  "stage_names (fst (snd (reset_after deps g n s))) = stage_names (fst s) @ [n]"
  by (simp add: reset_after_def split_def Let_def)

text \<open>Outcome of a part of the reload: done with these further stages, or failed in its last stage.\<close>

definition part_outcome ::
  "string list \<Rightarrow> 'w reload_state \<Rightarrow> go_error option \<times> 'w reload_state \<Rightarrow> bool" where
  "part_outcome names s out \<longleftrightarrow>
     (if fst out = None then stage_names (fst (snd out)) = stage_names (fst s) @ names
      else failed_last (fst (snd out)))"

lemma reload_reapply_outcome: "part_outcome [''netstack-reapply''] s (reload_reapply input deps s)"
  by (simp add: reload_reapply_def part_outcome_def with_reset_report_eq split_def Let_def
           split: option.splits)

lemma reload_finish_outcome:
  "part_outcome [''rescue-reset'', ''start-subsystems'', ''health-refresh''] s (reload_finish input deps s) \<and>
   (fst (reload_finish input deps s) = None \<longrightarrow> sr_status (fst (snd (reload_finish input deps s))) = ''ok'')"
  by (simp add: reload_finish_def part_outcome_def with_reset_report_eq split_def Let_def
           split: option.splits)

lemma reload_full_outcome:
  "part_outcome [''full-restart''] s (reload_full input deps s) \<and>
   (fst (reload_full input deps s) = None \<longrightarrow> sr_status (fst (snd (reload_full input deps s))) = ''ok'')"
  by (simp add: reload_full_def part_outcome_def split_def Let_def split: option.splits)

definition swap_stages :: "string list" where
  "swap_stages = [''hot-swap'', ''netstack-reapply'', ''rescue-reset'', ''start-subsystems'', ''health-refresh'']"

lemma reload_hot_swap_outcome:
  "part_outcome swap_stages s (reload_hot_swap input deps s) \<and>
   (fst (reload_hot_swap input deps s) = None \<longrightarrow> sr_status (fst (snd (reload_hot_swap input deps s))) = ''ok'')"
proof (cases "rd_hot_swap deps")
  case None
  then show ?thesis by (simp add: reload_hot_swap_def part_outcome_def Let_def)
next
  case (Some swap)
  define cw where "cw = call_world (swap (case ri_config input of None \<Rightarrow> empty_profile
      | Some c \<Rightarrow> rd_resolve_profile deps c)) s"
  have names: "stage_names (fst (snd cw)) = stage_names (fst s)" by (simp add: cw_def)
  show ?thesis
  proof (cases "fst cw")
    case err: (Some e)
    then show ?thesis
      using Some by (simp add: reload_hot_swap_def cw_def [symmetric] part_outcome_def
          with_reset_report_eq split_def Let_def)
  next
    case None
    define s2 where "s2 = record_stage deps ''hot-swap'' ''ok'' [] (last_report_status deps (snd (snd (snd cw)))) False (snd cw)"
    have hs: "reload_hot_swap input deps s =
        (case reload_reapply input deps s2 of (Some err, s3) \<Rightarrow> (Some err, s3)
         | (None, s3) \<Rightarrow> reload_finish input deps s3)"
      using Some None by (simp add: reload_hot_swap_def cw_def [symmetric] s2_def split_def Let_def)
    obtain res s3 where re: "reload_reapply input deps s2 = (res, s3)" by (metis prod.exhaust)
    have "stage_names (fst s2) = stage_names (fst s) @ [''hot-swap'']" by (simp add: s2_def names)
    with hs re reload_reapply_outcome [of s2 input deps] reload_finish_outcome [of s3 input deps]
    show ?thesis by (cases res) (auto simp: part_outcome_def swap_stages_def split: if_splits)
  qed
qed

text \<open>
  C10.  The reload and its report agree.  A reload that returns no error has recorded exactly the
  stages of its path, in order, and its report is ok; a reload that returns an error ends in a failed
  stage, the report's status is failed, and its failed stage and last code are those of that stage.
\<close>

theorem reload_report_outcome:
  assumes "reload_after_config_change input deps w = (res, (r, seen, w'))"
  shows "(res = None \<longrightarrow> sr_status r = ''ok'' \<and>
            stage_names r = ''stop-subsystems'' #
              (if ri_full_restart input then [''full-restart''] else swap_stages)) \<and>
         (res \<noteq> None \<longrightarrow> failed_last r)"
proof -
  define s1 where "s1 = record_stage deps ''stop-subsystems'' ''ok'' [] [] False
     (on_world (rd_stop_subsystems deps) (observe_report deps
        (new_runtime_stage_report (reload_context input) (rd_now deps w), [], w)))"
  have "stage_names (new_runtime_stage_report c n) = []" for c n
    by (simp add: stage_names_def new_runtime_stage_report_def empty_stage_report_def)
  then have "stage_names (fst s1) = [''stop-subsystems'']" by (simp add: s1_def)
  moreover have "(if ri_full_restart input then reload_full input deps s1
      else reload_hot_swap input deps s1) = (res, (r, seen, w'))"
    using assms by (simp only: reload_after_config_change_def s1_def Let_def)
  ultimately show ?thesis
    using reload_full_outcome [of s1 input deps] reload_hot_swap_outcome [of s1 input deps]
    by (cases "ri_full_restart input"; cases res) (simp_all add: part_outcome_def)
qed

section \<open>Safety\<close>

text \<open>A reload whose hooks are all configured, as the daemon configures them.\<close>

definition hooks_configured :: "('c, 'w) reload_deps \<Rightarrow> bool" where
  "hooks_configured deps \<longleftrightarrow> rd_hot_swap deps \<noteq> None \<and> rd_reapply_runtime_rules deps \<noteq> None \<and>
     rd_reset_network_state deps \<noteq> None"

text \<open>
  How a failed reload left the world: as the hot swap left it, whose error says that the previous runtime runs
  again; or as the reset of the network state left it, with the report of that reset in the error.
\<close>

definition kept_by_swap :: "'c reload_input \<Rightarrow> ('c, 'w) reload_deps \<Rightarrow> go_error \<Rightarrow> 'w \<Rightarrow> bool" where
  "kept_by_swap input deps err w' \<longleftrightarrow>
     (\<exists>swap w1 e p. rd_hot_swap deps = Some swap \<and>
        swap (case ri_config input of None \<Rightarrow> empty_profile | Some c \<Rightarrow> rd_resolve_profile deps c) w1 = (Some e, w') \<and>
        runtime_still_running e \<and> err = WrapError p e)"

definition left_by_reset :: "'c reload_input \<Rightarrow> ('c, 'w) reload_deps \<Rightarrow> go_error \<Rightarrow> 'w \<Rightarrow> bool" where
  "left_by_reset input deps err w' \<longleftrightarrow>
     (\<exists>reset w1 report. rd_reset_network_state deps = Some reset \<and>
        reset (ri_generation input) w1 = (report, w') \<and> reset_report_from_error (Some err) = Some report)"

lemma recorded_world [simp]:
  "snd (snd (record_stage deps name status code detail rollback s)) = snd (snd s)"
  "snd (snd (fail_stage deps name code err rollback s)) = snd (snd s)"
  by (simp_all add: fail_stage_def record_stage_def observe_report_def split_def)

lemma reset_after_world:
  assumes "rd_reset_network_state deps = Some reset"
  shows "reset generation (snd (snd s)) =
    (fst (reset_after deps generation name s), snd (snd (snd (reset_after deps generation name s))))"
  by (simp add: reset_after_def reload_reset_report_def call_world_def assms split_def Let_def)

lemma with_reset_report_Some: "with_reset_report (Some e) r = Some err \<Longrightarrow> reset_report_from_error (Some err) = Some r"
  by (metis reset_report_from_with)

lemma reset_after_left:
  assumes "rd_reset_network_state deps \<noteq> None"
    and "with_reset_report (Some e) (fst (reset_after deps (ri_generation input) name s)) = Some err"
    and "w' = snd (snd (snd (reset_after deps (ri_generation input) name s)))"
  shows "left_by_reset input deps err w'"
proof -
  obtain reset where reset: "rd_reset_network_state deps = Some reset" using assms(1) by blast
  show ?thesis
    unfolding left_by_reset_def
    using reset reset_after_world [OF reset, of "ri_generation input" s name] with_reset_report_Some [OF assms(2)] assms(3) by blast
qed

lemma reload_reapply_safe:
  assumes "hooks_configured deps" "reload_reapply input deps s = (Some err, s')"
  shows "left_by_reset input deps err (snd (snd s'))"
proof -
  obtain reapply where reapply: "rd_reapply_runtime_rules deps = Some reapply" and reset: "rd_reset_network_state deps \<noteq> None"
    using assms(1) by (auto simp: hooks_configured_def)
  define c where "c = call_world (reapply (ri_config input)) s"
  let ?after = "reset_after deps (ri_generation input) ''reset-after-netstack-reapply-failure'' (snd c)"
  have "(\<exists>e. with_reset_report (Some e) (fst ?after) = Some err) \<and> snd (snd s') = snd (snd (snd ?after))"
    using assms(2) by (auto simp: reload_reapply_def reapply c_def [symmetric] split_def Let_def
        split: if_splits option.splits)
  then obtain e where "with_reset_report (Some e) (fst ?after) = Some err" "snd (snd s') = snd (snd (snd ?after))" by blast
  then show ?thesis by (rule reset_after_left [OF reset])
qed

lemma reload_finish_safe:
  assumes "hooks_configured deps" "reload_finish input deps s = (Some err, s')"
  shows "left_by_reset input deps err (snd (snd s'))"
proof -
  have reset: "rd_reset_network_state deps \<noteq> None" using assms(1) by (simp add: hooks_configured_def)
  define refreshed where "refreshed = (case rd_refresh_health deps of
      None \<Rightarrow> (empty_health, record_stage deps ''start-subsystems'' ''ok'' [] [] False (on_world (rd_start_subsystems deps)
        (record_stage deps ''rescue-reset'' ''ok'' [] [] False (on_world (rd_reset_rescue_state deps) s))))
    | Some refresh \<Rightarrow> call_world refresh (record_stage deps ''start-subsystems'' ''ok'' [] [] False (on_world (rd_start_subsystems deps)
        (record_stage deps ''rescue-reset'' ''ok'' [] [] False (on_world (rd_reset_rescue_state deps) s)))))"
  obtain snapshot s3 where pair: "refreshed = (snapshot, s3)" by (meson surj_pair)
  have "(\<exists>e. with_reset_report (Some e) (fst (reset_after deps (ri_generation input) ''reset-after-health-failure'' s3)) = Some err) \<and>
      snd (snd s') = snd (snd (snd (reset_after deps (ri_generation input) ''reset-after-health-failure'' s3)))"
    using assms(2) unfolding reload_finish_def Let_def refreshed_def [symmetric] pair prod.case split_def
    by (auto split: if_splits)
  then obtain e where "with_reset_report (Some e) (fst (reset_after deps (ri_generation input) ''reset-after-health-failure'' s3)) = Some err"
    "snd (snd s') = snd (snd (snd (reset_after deps (ri_generation input) ''reset-after-health-failure'' s3)))" by blast
  then show ?thesis by (rule reset_after_left [OF reset])
qed

text \<open>
  C11.  A hot-swap reload, with the hooks that the daemon configures, never leaves an unknown network
  state: when it returns an error, the last thing that changed the world is either a failed hot swap whose error says
  that the previous runtime is still running, or the hook that resets the network state, and the error carries the
  report of that very reset.
\<close>

theorem reload_fails_closed:
  assumes "hooks_configured deps" and "\<not> ri_full_restart input"
    and "reload_after_config_change input deps w = (Some err, (r, seen, w'))"
  shows "kept_by_swap input deps err w' \<or> left_by_reset input deps err w'"
proof -
  obtain s1 where run: "reload_hot_swap input deps s1 = (Some err, (r, seen, w'))"
    using assms(2,3) by (auto simp: reload_after_config_change_def Let_def)
  obtain swap where swap: "rd_hot_swap deps = Some swap" and reset: "rd_reset_network_state deps \<noteq> None"
    using assms(1) by (auto simp: hooks_configured_def)
  let ?profile = "case ri_config input of None \<Rightarrow> empty_profile | Some c \<Rightarrow> rd_resolve_profile deps c"
  obtain res r2 seen2 w2 where called: "call_world (swap ?profile) s1 = (res, (r2, seen2, w2))" by (metis prod.exhaust)
  then obtain w1 where w1: "swap ?profile w1 = (res, w2)"
    by (cases s1) (auto simp: call_world_def split: prod.splits)
  show ?thesis
  proof (cases res)
    case (Some e)
    show ?thesis
    proof (cases "runtime_still_running e")
      case True
      then have "\<exists>p. err = WrapError p e" "w2 = w'"
        using run recorded_world(2) [of deps "''hot-swap''" "error_code_or e ''CORE_SPAWN_FAILED''" e True "(r2, seen2, w2)"]
        by (auto simp: reload_hot_swap_def swap called Some Let_def)
      then show ?thesis using swap w1 True by (auto simp: kept_by_swap_def Some)
    next
      case False
      let ?after = "reset_after deps (ri_generation input) ''reset-after-hot-swap-failure'' (r2, seen2, w2)"
      have "(\<exists>e. with_reset_report (Some e) (fst ?after) = Some err) \<and>
          fail_stage deps ''hot-swap'' (error_code_or e ''CORE_SPAWN_FAILED'') e (rr_status (fst ?after) \<noteq> ''ok'') (snd ?after)
            = (r, seen, w')"
        using run False by (auto simp: reload_hot_swap_def swap called Some Let_def split_def)
      then obtain e' where made: "with_reset_report (Some e') (fst ?after) = Some err"
        and state: "fail_stage deps ''hot-swap'' (error_code_or e ''CORE_SPAWN_FAILED'') e (rr_status (fst ?after) \<noteq> ''ok'') (snd ?after)
            = (r, seen, w')"
        by blast
      have "w' = snd (snd (snd ?after))" using arg_cong [OF state, of "\<lambda>s. snd (snd s)"] by simp
      then have "left_by_reset input deps err w'" by (rule reset_after_left [OF reset made])
      then show ?thesis ..
    qed
  next
    case None
    then obtain s2 where "(case reload_reapply input deps s2 of (Some err, s3) \<Rightarrow> (Some err, s3)
         | (None, s3) \<Rightarrow> reload_finish input deps s3) = (Some err, (r, seen, w'))"
      using run swap called by (auto simp: reload_hot_swap_def split_def Let_def)
    then have "left_by_reset input deps err w'"
      using reload_reapply_safe [OF assms(1), of input s2 err] reload_finish_safe [OF assms(1), of input _ err "(r, seen, w')"]
      by (cases "reload_reapply input deps s2"; cases "fst (reload_reapply input deps s2)") auto
    then show ?thesis ..
  qed
qed

text \<open>A reload on a device whose hot swap loses the runtime.\<close>

definition demo_reload_deps :: "(unit, core_state) reload_deps" where
  "demo_reload_deps = \<lparr>rd_stop_subsystems = None, rd_full_restart = None,
     rd_last_runtime_report = None,
     rd_hot_swap = Some (\<lambda>p w. (Some (ErrorString ''exit status 1''), StateStopped)),
     rd_reapply_runtime_rules = Some (\<lambda>c w. ((new_net_report ''apply'', None), w)),
     rd_reset_network_state = Some (\<lambda>g w. (demo_reset_report, StateStopped)),
     rd_reset_rescue_state = None, rd_start_subsystems = None, rd_refresh_health = None,
     rd_observe_reload_report = True, rd_now = (\<lambda>w. 3), rd_resolve_profile = (\<lambda>c. empty_profile)\<rparr>"

definition demo_reload_input :: "unit reload_input" where
  "demo_reload_input = \<lparr>ri_config = Some (), ri_context = [], ri_saved_label = [], ri_generation = 2,
     ri_full_restart = False, ri_netstack_reapply_after = True\<rparr>"

lemma demo_reload_fails: "fst (reload_after_config_change demo_reload_input demo_reload_deps StateRunning) \<noteq> None"
  by code_simp

theorem reload_report_outcome_witness:
  "sr_failed_stage (fst (snd (reload_after_config_change demo_reload_input demo_reload_deps StateRunning))) =
   rs_name (last (sr_stages (fst (snd (reload_after_config_change demo_reload_input demo_reload_deps StateRunning)))))"
proof -
  obtain res r seen w' where
      run: "reload_after_config_change demo_reload_input demo_reload_deps StateRunning = (res, (r, seen, w'))"
    by (metis prod.exhaust)
  with reload_report_outcome [OF run] demo_reload_fails show ?thesis by (auto simp: failed_last_def)
qed

theorem reload_fails_closed_witness:
  "\<exists>err. fst (reload_after_config_change demo_reload_input demo_reload_deps StateRunning) = Some err \<and>
     (kept_by_swap demo_reload_input demo_reload_deps err StateStopped \<or>
      left_by_reset demo_reload_input demo_reload_deps err StateStopped)"
proof -
  obtain err r seen w' where run: "reload_after_config_change demo_reload_input demo_reload_deps StateRunning = (Some err, (r, seen, w'))"
    using demo_reload_fails by (metis fst_conv not_None_eq prod.exhaust)
  have "snd (snd (snd (reload_after_config_change demo_reload_input demo_reload_deps StateRunning))) = StateStopped"
    by code_simp
  then have "w' = StateStopped" by (simp add: run)
  moreover have "hooks_configured demo_reload_deps" "\<not> ri_full_restart demo_reload_input"
    by (simp_all add: hooks_configured_def demo_reload_deps_def demo_reload_input_def)
  ultimately show ?thesis using reload_fails_closed [OF _ _ run] run by simp
qed

end
