(* ===== verification/Processes.thy ===== *)
theory Processes
  imports FileSystem
begin

text \<open>
  The operating system as the core manager sees it through packages \<^verbatim>\<open>os\<close>, \<^verbatim>\<open>os/exec\<close>,
  \<^verbatim>\<open>net\<close> and \<^verbatim>\<open>time\<close>: a device (\<^verbatim>\<open>FileSystem\<close>) with a set of live processes and a clock.
  Everything the environment decides is in the plan: the \<open>n\<close>-th call gets the \<open>n\<close>-th choice, which
  says what the clock shows, which processes have exited by then, whether the call
  fails, which process id a spawn gets and whether a connection is accepted.  The plan is
  arbitrary, so what is proved holds for every behaviour of the environment.

  A tracked child has an exit channel of capacity one (\<^verbatim>\<open>watchCommand\<close>): its exit can be received
  once, so received exits are recorded.  A process that got a \<^verbatim>\<open>SIGKILL\<close> is recorded as
  killed; it disappears when the plan says so.
\<close>

record os_choice =
  oc_now :: gtime
  oc_exits :: "int list"
  oc_fault :: "string option"
  oc_pid :: int
  oc_dial :: "string option"
  oc_late :: bool

record device = fs +
  dv_tick :: nat
  dv_plan :: "nat \<Rightarrow> os_choice"
  dv_live :: "int set"
  dv_received :: "int set"
  dv_killed :: "int set"

section \<open>Calls\<close>

definition os_turn :: "'w device_scheme \<Rightarrow> os_choice \<times> 'w device_scheme" where
  "os_turn w =
     (let c = dv_plan w (dv_tick w)
      in (c, w\<lparr>dv_tick := Suc (dv_tick w), dv_live := dv_live w - set (oc_exits c)\<rparr>))"

text \<open>\<^verbatim>\<open>time.Now\<close>\<close>

definition os_now :: "'w device_scheme \<Rightarrow> gtime \<times> 'w device_scheme" where
  "os_now w = (let (c, w1) = os_turn w in (oc_now c, w1))"

text \<open>\<^verbatim>\<open>cmd.Start\<close> and the goroutine of \<^verbatim>\<open>watchCommand\<close>\<close>

definition os_spawn :: "'w device_scheme \<Rightarrow> (go_error + int) \<times> 'w device_scheme" where
  "os_spawn w =
     (let (c, w1) = os_turn w
      in case oc_fault c of
           Some m \<Rightarrow> (Inl (ErrorString m), w1)
         | None \<Rightarrow>
             (Inr (oc_pid c),
              w1\<lparr>dv_live := insert (oc_pid c) (dv_live w1),
                 dv_received := dv_received w1 - {oc_pid c},
                 dv_killed := dv_killed w1 - {oc_pid c}\<rparr>))"

datatype os_signal = Sig0 | SIGTERM | SIGKILL

text \<open>\<^verbatim>\<open>proc.Signal\<close>: fails for a process that has exited.\<close>

definition os_signal_process ::
  "int \<Rightarrow> os_signal \<Rightarrow> 'w device_scheme \<Rightarrow> go_error option \<times> 'w device_scheme" where
  "os_signal_process pid sig w =
     (let (c, w1) = os_turn w
      in if pid \<notin> dv_live w1 then (Some (ErrorString ''os: process already finished''), w1)
         else case oc_fault c of
                Some m \<Rightarrow> (Some (ErrorString m), w1)
              | None \<Rightarrow> (None, if sig = SIGKILL then w1\<lparr>dv_killed := insert pid (dv_killed w1)\<rparr> else w1))"

text \<open>
  \<^verbatim>\<open>select\<close> on the exit channel against a timer: true when the exit was received.  A nil channel
  never delivers.
\<close>

definition exit_ready :: "int option \<Rightarrow> 'w device_scheme \<Rightarrow> bool" where
  "exit_ready ch w =
     (case ch of None \<Rightarrow> False | Some pid \<Rightarrow> pid \<notin> dv_live w \<and> pid \<notin> dv_received w)"

definition receive_exit :: "int option \<Rightarrow> 'w device_scheme \<Rightarrow> 'w device_scheme" where
  "receive_exit ch w =
     (case ch of None \<Rightarrow> w | Some pid \<Rightarrow> w\<lparr>dv_received := insert pid (dv_received w)\<rparr>)"

definition os_await_exit :: "int option \<Rightarrow> 'w device_scheme \<Rightarrow> bool \<times> 'w device_scheme" where
  "os_await_exit ch w =
     (let (c, w1) = os_turn w
      in if exit_ready ch w1 then (True, receive_exit ch w1) else (False, w1))"

text \<open>\<^verbatim>\<open>os.Rename\<close>\<close>

definition os_rename :: "string \<Rightarrow> string \<Rightarrow> 'w fs_scheme \<Rightarrow> fs_error option \<times> 'w fs_scheme" where
  "os_rename old new w =
     (case fs_fault w FsWrite new of
        Some m \<Rightarrow> (Some (IoFault m), w)
      | None \<Rightarrow>
          (case fs_files w old of
             None \<Rightarrow> (Some (NotExist old), w)
           | Some f \<Rightarrow> (None, w\<lparr>fs_files := (fs_files w)(old := None, new \<mapsto> f)\<rparr>)))"

abbreviation remove_quietly :: "string \<Rightarrow> 'w fs_scheme \<Rightarrow> 'w fs_scheme" where
  "remove_quietly p w \<equiv> snd (os_remove p w)"

section \<open>Waiting for a listener\<close>

text \<open>
  \<^verbatim>\<open>waitForPortOrExit\<close>.  The ticker's \<open>k\<close>-th tick comes no earlier than \<open>k\<close> periods after the
  start, whatever the clock of the plan shows; when both channels are ready the plan chooses
  (\<^verbatim>\<open>oc_late\<close>).  The period bounds the number of rounds.
\<close>

abbreviation poll_period :: duration where
  "poll_period \<equiv> 250 * millisecond"

definition tick_time :: "gtime \<Rightarrow> nat \<Rightarrow> os_choice \<Rightarrow> gtime" where
  "tick_time start k c = max (start + int k * poll_period) (oc_now c)"

definition local_target :: "int \<Rightarrow> string" where
  "local_target port = ''127.0.0.1:'' @ int_str port"

definition dial_error :: "int \<Rightarrow> string \<Rightarrow> string" where
  "dial_error port m = local_target port @ '': '' @ m"

definition tail_file :: "string \<Rightarrow> nat \<Rightarrow> 'w fs_scheme \<Rightarrow> string" where
  "tail_file p max_bytes w =
     (case os_read_file p w of
        Inl e \<Rightarrow> []
      | Inr d \<Rightarrow> trim_space (if max_bytes < length d then drop (length d - max_bytes) d else d))"

definition exit_message :: "int \<Rightarrow> string \<Rightarrow> string \<Rightarrow> go_error" where
  "exit_message port exit_err tail_text =
     ErrorString (''sing-box exited before listening on '' @ local_target port @ '': '' @ exit_err @
       (if tail_text \<noteq> [] then ''; log tail: '' @ tail_text else []))"

definition timeout_message :: "int \<Rightarrow> string \<Rightarrow> string \<Rightarrow> string \<Rightarrow> go_error" where
  "timeout_message port timeout_text last_err tail_text =
     ErrorString (''port '' @ local_target port @ '' not listening after '' @ timeout_text @ '': '' @ last_err @
       (if tail_text \<noteq> [] then ''; sing-box log tail: '' @ tail_text else []))"

text \<open>The printed form of the two timeouts the code uses.\<close>

definition duration_text :: "duration \<Rightarrow> string" where
  "duration_text d = int_str (d div second) @ ''s''"

lemma rounds_bound: "\<not> start + timeout < tick_time start k c \<Longrightarrow> int k \<le> timeout div poll_period"
  using zdiv_mono1 [of "int k * poll_period" timeout poll_period] by (simp add: tick_time_def)

function (sequential) wait_rounds ::
  "int \<Rightarrow> int option \<Rightarrow> string \<Rightarrow> gtime \<Rightarrow> duration \<Rightarrow> nat \<Rightarrow> 'w device_scheme
     \<Rightarrow> go_error option \<times> 'w device_scheme" where
  "wait_rounds port ch log_path start timeout k w =
     (let (c, w1) = os_turn w
      in case oc_dial c of
           None \<Rightarrow> (None, w1)
         | Some m \<Rightarrow>
             if exit_ready ch w1 \<and> \<not> oc_late c
             then (Some (exit_message port (case oc_fault c of None \<Rightarrow> ''<nil>'' | Some x \<Rightarrow> x)
                      (tail_file log_path 4096 w1)), receive_exit ch w1)
             else if start + timeout < tick_time start k c
             then (Some (timeout_message port (duration_text timeout) (dial_error port m)
                      (tail_file log_path 4096 w1)), w1)
             else wait_rounds port ch log_path start timeout (Suc k) w1)"
  by pat_completeness auto

termination
  by (relation "measure (\<lambda>(port, ch, log_path, start, timeout, k, w).
        nat (timeout div poll_period + 1 - int k))")
     (auto dest!: rounds_bound)

declare wait_rounds.simps [simp del]

definition wait_for_port_or_exit ::
  "int \<Rightarrow> duration \<Rightarrow> int option \<Rightarrow> string \<Rightarrow> 'w device_scheme
     \<Rightarrow> go_error option \<times> 'w device_scheme" where
  "wait_for_port_or_exit port timeout ch log_path w =
     (let (start, w1) = os_now w in wait_rounds port ch log_path start timeout 1 w1)"

end
