(* ===== verification/Stages.thy ===== *)
theory Stages
  imports Prelude
begin

text \<open>
  Go functions that run one fallible step after the other and return at the first error, as a
  list of steps on a state.  A step returns its error, if any, and the new state.
\<close>

type_synonym ('e, 's) step = "'s \<Rightarrow> 'e option \<times> 's"

fun run_stages :: "('e, 's) step list \<Rightarrow> ('e, 's) step" where
  "run_stages [] s = (None, s)"
| "run_stages (f # fs) s =
     (case f s of (Some e, s1) \<Rightarrow> (Some e, s1) | (None, s1) \<Rightarrow> run_stages fs s1)"

definition when_step :: "bool \<Rightarrow> ('e, 's) step \<Rightarrow> ('e, 's) step" where
  "when_step b f s = (if b then f s else (None, s))"

lemma when_step_simps [simp]:
  "when_step True f = f" "when_step False f s = (None, s)"
  by (auto simp: when_step_def)

lemma run_stages_append:
  "run_stages (fs @ gs) s =
     (case run_stages fs s of (Some e, s1) \<Rightarrow> (Some e, s1) | (None, s1) \<Rightarrow> run_stages gs s1)"
  by (induction fs arbitrary: s) (auto split: prod.splits option.splits)

text \<open>
  A Hoare rule.  Every step keeps \<open>P\<close> on success and establishes \<open>Q\<close> with its error otherwise.
\<close>

definition step_ok :: "('s \<Rightarrow> bool) \<Rightarrow> ('e, 's) step \<Rightarrow> ('s \<Rightarrow> bool) \<Rightarrow> ('e \<Rightarrow> 's \<Rightarrow> bool) \<Rightarrow> bool" where
  "step_ok P f R Q \<longleftrightarrow>
     (\<forall>s. P s \<longrightarrow> (case f s of (None, s') \<Rightarrow> R s' | (Some e, s') \<Rightarrow> Q e s'))"

lemma step_okI:
  "(\<And>s s'. P s \<Longrightarrow> f s = (None, s') \<Longrightarrow> R s') \<Longrightarrow>
   (\<And>s e s'. P s \<Longrightarrow> f s = (Some e, s') \<Longrightarrow> Q e s') \<Longrightarrow> step_ok P f R Q"
  by (auto simp: step_ok_def split: prod.splits option.splits)

lemma step_ok_fstI:
  "(\<And>s. P s \<Longrightarrow> fst (f s) = None \<Longrightarrow> R (snd (f s))) \<Longrightarrow>
   (\<And>s e. P s \<Longrightarrow> fst (f s) = Some e \<Longrightarrow> Q e (snd (f s))) \<Longrightarrow> step_ok P f R Q"
  by (auto simp: step_ok_def split_beta split: option.split)

lemma step_ok_None: "step_ok P f R Q \<Longrightarrow> P s \<Longrightarrow> f s = (None, s') \<Longrightarrow> R s'"
  by (fastforce simp: step_ok_def)

lemma step_ok_Some: "step_ok P f R Q \<Longrightarrow> P s \<Longrightarrow> f s = (Some e, s') \<Longrightarrow> Q e s'"
  by (fastforce simp: step_ok_def)

lemma step_ok_weaken:
  "step_ok P f R Q \<Longrightarrow> (\<And>s. P' s \<Longrightarrow> P s) \<Longrightarrow> (\<And>s. R s \<Longrightarrow> R' s) \<Longrightarrow>
   (\<And>e s. Q e s \<Longrightarrow> Q' e s) \<Longrightarrow> step_ok P' f R' Q'"
  unfolding step_ok_def by (fastforce split: prod.splits option.splits)

lemma step_ok_Nil: "(\<And>s. P s \<Longrightarrow> R s) \<Longrightarrow> step_ok P (run_stages []) R Q"
  by (auto simp: step_ok_def)

lemma step_ok_Cons:
  "step_ok P f M Q \<Longrightarrow> step_ok M (run_stages fs) R Q \<Longrightarrow> step_ok P (run_stages (f # fs)) R Q"
  unfolding step_ok_def by (fastforce split: prod.splits option.splits)

lemma step_ok_append:
  "step_ok P (run_stages fs) M Q \<Longrightarrow> step_ok M (run_stages gs) R Q \<Longrightarrow>
   step_ok P (run_stages (fs @ gs)) R Q"
  unfolding step_ok_def by (fastforce simp: run_stages_append split: prod.splits option.splits)

lemma step_ok_when:
  "(b \<Longrightarrow> step_ok P f R Q) \<Longrightarrow> (\<not> b \<Longrightarrow> \<forall>s. P s \<longrightarrow> R s) \<Longrightarrow> step_ok P (when_step b f) R Q"
  by (cases b) (auto simp: step_ok_def)

lemma step_ok_all:
  "(\<And>f. f \<in> set fs \<Longrightarrow> step_ok P f P Q) \<Longrightarrow> step_ok P (run_stages fs) P Q"
  by (induction fs) (auto intro: step_ok_Nil step_ok_Cons)

lemma step_ok_conj:
  "step_ok P f R Q \<Longrightarrow> step_ok P' f R' Q' \<Longrightarrow>
   step_ok (\<lambda>s. P s \<and> P' s) f (\<lambda>s. R s \<and> R' s) (\<lambda>e s. Q e s \<and> Q' e s)"
  unfolding step_ok_def by (auto split: option.splits prod.splits)

lemma step_ok_snd: "step_ok P f R (\<lambda>e. R) \<Longrightarrow> P s \<Longrightarrow> R (snd (f s))"
  unfolding step_ok_def by (cases "f s"; cases "fst (f s)") fastforce+

lemmas step_ok_rules = step_ok_Nil step_ok_Cons step_ok_when

end
