(* ===== verification/CoreProcess.thy ===== *)
theory CoreProcess
  imports Processes Netstack ConfigRules Stages
begin

text \<open>
  The core manager's record and its process handling (\<^verbatim>\<open>daemon/internal/core/manager.go\<close>,
  \<^verbatim>\<open>xray_sidecar.go\<close>): PID files, stopping a tracked child, finding and stopping an untracked
  one, the log files and the sidecar.  The world is a device (\<^verbatim>\<open>Processes\<close>) together with
  the network state on which the module's scripts act.

  A process handle (\<^verbatim>\<open>*os.Process\<close>) and an exit channel are the process id they belong to.
  Parameters (\<^verbatim>\<open>core_env\<close>): the renderers, the external configuration checks, the owner
  verification of chained proxies, the script runner with the script environment, and the
  contents of \<^verbatim>\<open>/proc\<close>.  Logging is left out.
\<close>

record 'n core_world = device +
  cw_net :: 'n

record 'n core_env =
  ce_codec :: json_codec
  ce_render_xray :: "node_profile \<Rightarrow> int \<Rightarrow> go_error + string"
  ce_render_singbox :: "config \<Rightarrow> node_profile \<Rightarrow> string \<Rightarrow> go_error + string"
  ce_check :: "string \<Rightarrow> string \<Rightarrow> 'n core_world \<Rightarrow> go_error option"
  ce_verify_owners :: "config \<Rightarrow> 'n core_world \<Rightarrow> go_error option"
  ce_script_env :: "string \<Rightarrow> config \<Rightarrow> env"
  ce_exec_script :: "'n exec_script"
  ce_proc_exe :: "int \<Rightarrow> 'n core_world \<Rightarrow> string option"
  ce_proc_cmdline :: "int \<Rightarrow> 'n core_world \<Rightarrow> string option"
  ce_proc_stat :: "int \<Rightarrow> 'n core_world \<Rightarrow> string option"
  ce_self_pid :: int
  ce_time_text :: "gtime \<Rightarrow> string"

record core_manager =
  cm_config :: config
  cm_process :: "int option"
  cm_exit_ch :: "int option"
  cm_pid :: int
  cm_xray_process :: "int option"
  cm_xray_exit_ch :: "int option"
  cm_xray_pid :: int
  cm_state :: core_state
  cm_data_dir :: string
  cm_active_profile :: string
  cm_running_config :: "config option"
  cm_running_profile :: "node_profile option"
  cm_started_at :: gtime
  cm_start_report :: runtime_stage_report
  cm_runtime_report :: runtime_stage_report

definition new_core_manager :: "config \<Rightarrow> string \<Rightarrow> core_manager" where
  "new_core_manager cfg data_dir =
     \<lparr>cm_config = cfg, cm_process = None, cm_exit_ch = None, cm_pid = 0, cm_xray_process = None,
      cm_xray_exit_ch = None, cm_xray_pid = 0, cm_state = StateStopped, cm_data_dir = data_dir,
      cm_active_profile = [], cm_running_config = None, cm_running_profile = None,
      cm_started_at = zero_time, cm_start_report = empty_stage_report,
      cm_runtime_report = empty_stage_report\<rparr>"

type_synonym 'n core_st = "core_manager \<times> 'n core_world"
type_synonym 'n core_step = "(go_error, 'n core_st) step"

section \<open>Locations\<close>

definition singbox_bin :: "string \<Rightarrow> string" where
  "singbox_bin d = path_join [bin_dir d, ''sing-box'']"

definition xray_bin :: "string \<Rightarrow> string" where
  "xray_bin d = path_join [bin_dir d, ''xray'']"

definition singbox_config :: "string \<Rightarrow> string" where
  "singbox_config d = path_join [rendered_config_dir d, ''singbox.json'']"

definition hotswap_config :: "string \<Rightarrow> string" where
  "hotswap_config d = path_join [rendered_config_dir d, ''singbox.hotswap.json'']"

definition xray_config :: "string \<Rightarrow> string" where
  "xray_config d = path_join [rendered_config_dir d, ''xray-xhttp.json'']"

definition singbox_log :: "string \<Rightarrow> string" where
  "singbox_log d = path_join [log_dir d, ''sing-box.log'']"

definition xray_log :: "string \<Rightarrow> string" where
  "xray_log d = path_join [log_dir d, ''xray.log'']"

section \<open>PID files\<close>

text \<open>
  Field 22 of \<^verbatim>\<open>/proc/<pid>/stat\<close>: the text after the last closing parenthesis is cut one
  character later, and needs a character there.
\<close>

definition proc_start_time :: "'n core_env \<Rightarrow> int \<Rightarrow> 'n core_world \<Rightarrow> string option" where
  "proc_start_time env pid w =
     (case ce_proc_stat env pid w of
        None \<Rightarrow> None
      | Some txt \<Rightarrow>
          (case split_last (CHR '')'') txt of
             None \<Rightarrow> None
           | Some (before, rest) \<Rightarrow>
               if length rest \<le> 1 then None
               else (let fields = str_fields (tl rest)
                     in if length fields < 20 then None else Some (fields ! 19))))"

definition write_pid_file ::
  "'n core_env \<Rightarrow> string \<Rightarrow> int \<Rightarrow> 'n core_world \<Rightarrow> 'n core_world" where
  "write_pid_file env p pid w =
     (let (now, w1) = os_now w;
          data = (case proc_start_time env pid w1 of
                    None \<Rightarrow> int_str pid
                  | Some start_time \<Rightarrow> int_str pid @ '' '' @ start_time @ [CHR 0x0A])
      in snd (os_write_file p data now w1))"

definition parse_pid_file :: "string \<Rightarrow> (int \<times> string) option" where
  "parse_pid_file raw =
     (case str_fields raw of
        [] \<Rightarrow> None
      | f # fs \<Rightarrow>
          (let (pid, ok) = atoi f
           in if ok then Some (pid, case fs of [] \<Rightarrow> [] | g # gs \<Rightarrow> g) else None))"

section \<open>Stopping a tracked child\<close>

text \<open>
  \<^verbatim>\<open>killProcessWithWait\<close>.  The grace periods are those of the timers that \<^verbatim>\<open>os_await_exit\<close>
  races against.
\<close>

definition pid_text :: "int \<Rightarrow> string" where
  "pid_text pid = ''pid '' @ int_str pid"

definition kill_with_wait ::
  "int option \<Rightarrow> int \<Rightarrow> int option \<Rightarrow> 'w device_scheme \<Rightarrow> go_error option \<times> 'w device_scheme" where
  "kill_with_wait proc pid ch w =
     (case proc of
        None \<Rightarrow> (None, w)
      | Some p \<Rightarrow>
          if ch = None
          then (Some (ErrorString (pid_text pid @ '' has no tracked process wait channel'')), w)
          else (let (term_err, w1) = os_signal_process p SIGTERM w
                in case term_err of
                     Some err \<Rightarrow>
                       (let (exited, w2) = os_await_exit ch w1
                        in if exited then (None, w2)
                           else (let (alive_err, w3) = os_signal_process p Sig0 w2
                                 in if alive_err = None
                                    then (Some (WrapError (pid_text pid @
                                            '' still appears alive after SIGTERM failed: '') err), w3)
                                    else (None, w3)))
                   | None \<Rightarrow>
                       (let (exited, w2) = os_await_exit ch w1
                        in if exited then (None, w2)
                           else (let (kill_err, w3) = os_signal_process p SIGKILL w2
                                 in case kill_err of
                                      Some err \<Rightarrow> (Some (WrapError (''SIGKILL '' @ pid_text pid @ '': '') err), w3)
                                    | None \<Rightarrow>
                                        (let (exited2, w4) = os_await_exit ch w3
                                         in if exited2 then (None, w4)
                                            else (Some (ErrorString (pid_text pid @
                                                    '' did not exit after SIGKILL'')), w4))))))"

definition kill_process :: "'n core_st \<Rightarrow> go_error option \<times> 'n core_st" where
  "kill_process = (\<lambda>(m, w).
     let (err, w1) = kill_with_wait (cm_process m) (cm_pid m) (cm_exit_ch m) w in (err, (m, w1)))"

section \<open>Stopping an untracked process\<close>

definition pid_looks_owned ::
  "'n core_env \<Rightarrow> string \<Rightarrow> string list \<Rightarrow> int \<Rightarrow> 'n core_world \<Rightarrow> bool" where
  "pid_looks_owned env expected_bin expected_configs pid w =
     (case ce_proc_cmdline env pid w of
        None \<Rightarrow> False
      | Some cmdline \<Rightarrow>
          (let tokens = cleaned_cmdline_tokens cmdline;
               exe = (case ce_proc_exe env pid w of None \<Rightarrow> [] | Some t \<Rightarrow> path_clean t)
           in (exe = path_clean expected_bin \<or> path_clean expected_bin \<in> set tokens) \<and>
              (\<exists>c \<in> set expected_configs. path_clean c \<in> set tokens)))"

text \<open>
  The tracked id, and the one in the PID file, which replaces the entry of the same id.  Go
  iterates over the map in any order; the model takes the order of insertion.
\<close>

definition tracked_pids :: "int \<Rightarrow> string \<Rightarrow> 'n core_world \<Rightarrow> (int \<times> string) list" where
  "tracked_pids pid pid_file w =
     (let own = (if 0 < pid then [(pid, [])] else [])
      in case os_read_file pid_file w of
           Inl e \<Rightarrow> own
         | Inr raw \<Rightarrow>
             (case parse_pid_file raw of
                None \<Rightarrow> own
              | Some (p, start_time) \<Rightarrow> if 0 < p then AList.update p start_time own else own))"

definition kill_untracked ::
  "'n core_env \<Rightarrow> string \<Rightarrow> string list \<Rightarrow> int \<times> string \<Rightarrow> string list \<times> 'n core_world
     \<Rightarrow> string list \<times> 'n core_world" where
  "kill_untracked env bin configs entry acc =
     (let (pid, start_time) = entry; (errs, w) = acc
      in if pid = ce_self_pid env then (errs, w)
         else if start_time \<noteq> [] \<and> proc_start_time env pid w \<noteq> Some start_time then (errs, w)
         else if \<not> pid_looks_owned env bin configs pid w then (errs, w)
         else (let (term_err, w1) = os_signal_process pid SIGTERM w;
                   (alive_err, w2) = os_signal_process pid Sig0 w1
               in if alive_err \<noteq> None then (errs, w2)
                  else (let (kill_err, w3) = os_signal_process pid SIGKILL w2
                        in case kill_err of
                             None \<Rightarrow> (errs, w3)
                           | Some e \<Rightarrow>
                               (errs @ [''SIGKILL '' @ pid_text pid @ '': '' @ error_msg e], w3))))"

definition kill_tracked_pids ::
  "'n core_env \<Rightarrow> string \<Rightarrow> string list \<Rightarrow> (int \<times> string) list \<Rightarrow> 'n core_world
     \<Rightarrow> go_error option \<times> 'n core_world" where
  "kill_tracked_pids env bin configs pids w =
     (let (errs, w1) = fold (kill_untracked env bin configs) pids ([], w)
      in (if errs = [] then None else Some (ErrorString (str_join ''; '' errs)), w1))"

definition kill_tracked_singbox :: "'n core_env \<Rightarrow> 'n core_st \<Rightarrow> go_error option \<times> 'n core_st" where
  "kill_tracked_singbox env = (\<lambda>(m, w).
     let d = cm_data_dir m;
         (err, w1) = kill_tracked_pids env (singbox_bin d) [singbox_config d, hotswap_config d]
                       (tracked_pids (cm_pid m) (singbox_pid_file d) w) w
     in (err, (m, w1)))"

definition kill_tracked_xray :: "'n core_env \<Rightarrow> 'n core_st \<Rightarrow> go_error option \<times> 'n core_st" where
  "kill_tracked_xray env = (\<lambda>(m, w).
     let d = cm_data_dir m;
         (err, w1) = kill_tracked_pids env (xray_bin d) [xray_config d]
                       (tracked_pids (cm_xray_pid m) (xray_pid_file d) w) w
     in (err, (m, w1)))"

section \<open>The Xray sidecar\<close>

definition forget_xray :: "core_manager \<Rightarrow> core_manager" where
  "forget_xray m = m\<lparr>cm_xray_process := None, cm_xray_exit_ch := None, cm_xray_pid := 0\<rparr>"

definition stop_xray_sidecar :: "'n core_env \<Rightarrow> 'n core_st \<Rightarrow> go_error option \<times> 'n core_st" where
  "stop_xray_sidecar env = (\<lambda>(m, w).
     let (err, (m1, w1)) =
           (case cm_xray_process m of
              Some p \<Rightarrow> (let (e, w') = kill_with_wait (Some p) p (cm_xray_exit_ch m) w in (e, (m, w')))
            | None \<Rightarrow> kill_tracked_xray env (m, w))
     in (err, (forget_xray m1, remove_quietly (xray_pid_file (cm_data_dir m)) w1)))"

definition as_go :: "fs_error option \<times> 'w \<Rightarrow> go_error option \<times> 'w" where
  "as_go r = (map_option go_fs_error (fst r), snd r)"

definition prepare_xray_sidecar ::
  "'n core_env \<Rightarrow> node_profile \<Rightarrow> string \<Rightarrow> 'n core_world \<Rightarrow> go_error option \<times> 'n core_world" where
  "prepare_xray_sidecar env profile config_path w =
     (if \<not> requires_xray_sidecar (Some profile) then (None, remove_quietly config_path w)
      else (case ce_render_xray env profile xray_sidecar_socks_port of
              Inl e \<Rightarrow> (Some e, w)
            | Inr data \<Rightarrow>
                (case as_go (os_mkdir_all (path_dir config_path) w) of
                   (Some e, w1) \<Rightarrow> (Some e, w1)
                 | (None, w1) \<Rightarrow>
                     (let (now, w2) = os_now w1 in as_go (os_write_file config_path data now w2)))))"

text \<open>\<^verbatim>\<open>openSingBoxLog\<close> and \<^verbatim>\<open>openXrayLog\<close>: the log is opened for appending.\<close>

definition open_log ::
  "'n core_env \<Rightarrow> string \<Rightarrow> string \<Rightarrow> string \<Rightarrow> 'n core_world \<Rightarrow> go_error option \<times> 'n core_world" where
  "open_log env dir log_path what w =
     (case as_go (os_mkdir_all dir w) of
        (Some e, w1) \<Rightarrow> (Some e, w1)
      | (None, w1) \<Rightarrow>
          (let (now, w2) = os_now w1;
               old = (case fs_files w2 log_path of None \<Rightarrow> [] | Some f \<Rightarrow> fl_data f);
               line = [CHR 0x0A] @ ''--- '' @ what @ '' start '' @ ce_time_text env now @ '' ---'' @ [CHR 0x0A]
           in as_go (os_write_file log_path (old @ line) now w2)))"

text \<open>
  \<^verbatim>\<open>spawnXraySidecar\<close> and \<^verbatim>\<open>spawnSingBox\<close>: the error, and whether the log was
  already open when the spawn failed (the returned log path is empty otherwise).
\<close>

definition spawn_logged ::
  "'n core_env \<Rightarrow> string \<Rightarrow> string \<Rightarrow> string \<Rightarrow> string \<Rightarrow> 'n core_world
     \<Rightarrow> (go_error \<times> bool + int) \<times> 'n core_world" where
  "spawn_logged env d workdir_error log_path what w =
     (case as_go (os_mkdir_all (run_dir d) w) of
        (Some e, w1) \<Rightarrow> (Inl (WrapError (workdir_error @ run_dir d @ '': '') e, False), w1)
      | (None, w1) \<Rightarrow>
          (case open_log env (log_dir d) log_path what w1 of
             (Some e, w2) \<Rightarrow> (Inl (e, False), w2)
           | (None, w2) \<Rightarrow>
               (case os_spawn w2 of
                  (Inl e, w3) \<Rightarrow> (Inl (e, True), w3)
                | (Inr pid, w3) \<Rightarrow> (Inr pid, w3))))"

definition spawn_xray_sidecar ::
  "'n core_env \<Rightarrow> string \<Rightarrow> 'n core_world \<Rightarrow> (go_error \<times> bool + int) \<times> 'n core_world" where
  "spawn_xray_sidecar env d = spawn_logged env d ''mkdir xray workdir '' (xray_log d) ''xray''"

definition spawn_sing_box ::
  "'n core_env \<Rightarrow> string \<Rightarrow> 'n core_world \<Rightarrow> (go_error \<times> bool + int) \<times> 'n core_world" where
  "spawn_sing_box env d = spawn_logged env d ''mkdir sing-box workdir '' (singbox_log d) ''sing-box''"

definition track_xray :: "int \<Rightarrow> core_manager \<Rightarrow> core_manager" where
  "track_xray pid m = m\<lparr>cm_xray_process := Some pid, cm_xray_exit_ch := Some pid, cm_xray_pid := pid\<rparr>"

definition track_core :: "int \<Rightarrow> core_manager \<Rightarrow> core_manager" where
  "track_core pid m = m\<lparr>cm_process := Some pid, cm_pid := pid, cm_exit_ch := Some pid\<rparr>"

definition forget_core :: "core_manager \<Rightarrow> core_manager" where
  "forget_core m = m\<lparr>cm_process := None, cm_exit_ch := None, cm_pid := 0\<rparr>"

definition forget_profile :: "core_manager \<Rightarrow> core_manager" where
  "forget_profile m = m\<lparr>cm_active_profile := [], cm_running_config := None,
     cm_running_profile := None, cm_started_at := zero_time\<rparr>"

end
