(* ===== verification/CoreManager.thy ===== *)
theory CoreManager
  imports CoreProcess
begin

text \<open>
  The lifecycle of the core (\<^verbatim>\<open>daemon/internal/core/manager.go\<close>): \<^verbatim>\<open>Start\<close>, \<^verbatim>\<open>Stop\<close>,
  \<^verbatim>\<open>RescueReset\<close>, \<^verbatim>\<open>HotSwap\<close> with the restoration of the previous runtime, and the small
  operations.  Each method runs under the manager's mutex, so it is one function on the manager
  and the world; its steps are a list that \<^verbatim>\<open>run_stages\<close> runs up to the first error.

  The local stage report of \<^verbatim>\<open>Start\<close> is the manager's last start report and that of
  \<^verbatim>\<open>HotSwap\<close> is the last runtime report: the code copies them at every stage.
\<close>

section \<open>Stage reports and errors\<close>

type_synonym 'n recorder = "string \<Rightarrow> string \<Rightarrow> string \<Rightarrow> string \<Rightarrow> bool \<Rightarrow> 'n core_st \<Rightarrow> 'n core_st"

definition record_start :: "'n recorder" where
  "record_start name status code detail rollback = (\<lambda>(m, w).
     let (now, w1) = os_now w; r = add_stage (cm_start_report m) now name status code detail rollback
     in (m\<lparr>cm_start_report := r, cm_runtime_report := r\<rparr>, w1))"

definition record_runtime :: "'n recorder" where
  "record_runtime name status code detail rollback = (\<lambda>(m, w).
     let (now, w1) = os_now w; r = add_stage (cm_runtime_report m) now name status code detail rollback
     in (m\<lparr>cm_runtime_report := r\<rparr>, w1))"

definition fail_start ::
  "string \<Rightarrow> string \<Rightarrow> string \<Rightarrow> go_error \<Rightarrow> bool \<Rightarrow> 'n core_st \<Rightarrow> go_error option \<times> 'n core_st" where
  "fail_start name layer code err rollback st =
     (let st1 = record_start name ''failed'' code (error_msg err) rollback st
      in (runtime_error_with_report layer code (Some err) rollback (cm_start_report (fst st1)), st1))"

definition fail_runtime ::
  "string \<Rightarrow> string \<Rightarrow> string \<Rightarrow> go_error \<Rightarrow> bool \<Rightarrow> 'n core_st \<Rightarrow> go_error option \<times> 'n core_st" where
  "fail_runtime name layer code err rollback st =
     (let st1 = record_runtime name ''failed'' code (error_msg err) rollback st
      in (runtime_error_with_report layer code (Some err) rollback (cm_runtime_report (fst st1)), st1))"

definition on_manager :: "(core_manager \<Rightarrow> core_manager) \<Rightarrow> 'n core_st \<Rightarrow> 'n core_st" where
  "on_manager f = (\<lambda>(m, w). (f m, w))"

definition on_device :: "('n core_world \<Rightarrow> 'n core_world) \<Rightarrow> 'n core_st \<Rightarrow> 'n core_st" where
  "on_device f = (\<lambda>(m, w). (m, f w))"

definition set_state :: "core_state \<Rightarrow> core_manager \<Rightarrow> core_manager" where
  "set_state s m = m\<lparr>cm_state := s\<rparr>"

section \<open>Runtime listeners\<close>

record listener_spec =
  ls_Stage :: string
  ls_Layer :: string
  ls_Code :: string
  ls_Label :: string
  ls_Port :: int
  ls_Timeout :: duration

definition default_port :: "int \<Rightarrow> int \<Rightarrow> int" where
  "default_port v fallback = (if 0 < v then v else fallback)"

definition runtime_listener_waits :: "json_codec \<Rightarrow> config \<Rightarrow> listener_spec list" where
  "runtime_listener_waits codec cfg =
     (let inbounds = resolve_profile_inbounds codec cfg; px = cf_Proxy cfg
      in [\<lparr>ls_Stage = ''wait-tproxy'', ls_Layer = ''wait tproxy port'', ls_Code = ''TPROXY_PORT_DOWN'',
           ls_Label = ''TPROXY'', ls_Port = default_port (px_TProxyPort px) 10853, ls_Timeout = 30 * second\<rparr>,
          \<lparr>ls_Stage = ''wait-dns'', ls_Layer = ''wait dns port'', ls_Code = ''DNS_LISTENER_DOWN'',
           ls_Label = ''DNS'', ls_Port = default_port (px_DNSPort px) 10856, ls_Timeout = 10 * second\<rparr>] @
         (if 0 < px_APIPort px
          then [\<lparr>ls_Stage = ''wait-api'', ls_Layer = ''wait API port'', ls_Code = ''API_PORT_DOWN'',
                 ls_Label = ''API'', ls_Port = px_APIPort px, ls_Timeout = 10 * second\<rparr>] else []) @
         (if 0 < pi_SocksPort inbounds
          then [\<lparr>ls_Stage = ''wait-socks-helper'', ls_Layer = ''wait SOCKS helper port'',
                 ls_Code = ''SOCKS_HELPER_DOWN'', ls_Label = ''SOCKS helper'',
                 ls_Port = pi_SocksPort inbounds, ls_Timeout = 10 * second\<rparr>] else []) @
         (if 0 < pi_HTTPPort inbounds
          then [\<lparr>ls_Stage = ''wait-http-helper'', ls_Layer = ''wait HTTP helper port'',
                 ls_Code = ''HTTP_HELPER_DOWN'', ls_Label = ''HTTP helper'',
                 ls_Port = pi_HTTPPort inbounds, ls_Timeout = 10 * second\<rparr>] else []))"

fun wait_listeners ::
  "'n recorder \<Rightarrow> string \<Rightarrow> listener_spec list \<Rightarrow> 'n core_st
     \<Rightarrow> (listener_spec \<times> go_error) option \<times> 'n core_st" where
  "wait_listeners rec log_path [] st = (None, st)"
| "wait_listeners rec log_path (spec # specs) (m, w) =
     (case wait_for_port_or_exit (ls_Port spec) (ls_Timeout spec) (cm_exit_ch m) log_path w of
        (Some e, w1) \<Rightarrow> (Some (spec, e), (m, w1))
      | (None, w1) \<Rightarrow>
          wait_listeners rec log_path specs
            (rec (ls_Stage spec) ''ok'' [] (''port='' @ int_str (ls_Port spec)) False (m, w1)))"

definition wait_runtime_listeners ::
  "'n core_env \<Rightarrow> 'n recorder \<Rightarrow> 'n core_st \<Rightarrow> (listener_spec \<times> go_error) option \<times> 'n core_st" where
  "wait_runtime_listeners env rec st =
     wait_listeners rec (singbox_log (cm_data_dir (fst st)))
       (runtime_listener_waits (ce_codec env) (cm_config (fst st))) st"

definition not_ready_prefix :: "listener_spec \<Rightarrow> string" where
  "not_ready_prefix spec = ls_Label spec @ '' port '' @ int_str (ls_Port spec) @ '' not ready: ''"

section \<open>The network stack of the manager\<close>

definition core_netstack :: "'n core_env \<Rightarrow> core_manager \<Rightarrow> 'n net_manager" where
  "core_netstack env m =
     new_net_manager (cm_data_dir m) (ce_script_env env (cm_data_dir m) (cm_config m))
       (Some (ce_exec_script env))"

definition on_net :: "('n \<Rightarrow> net_report \<times> 'n) \<Rightarrow> 'n core_st \<Rightarrow> net_report \<times> 'n core_st" where
  "on_net f = (\<lambda>(m, w). let (r, net) = f (cw_net w) in (r, (m, w\<lparr>cw_net := net\<rparr>)))"

definition core_net_apply :: "'n core_env \<Rightarrow> 'n core_st \<Rightarrow> net_report \<times> 'n core_st" where
  "core_net_apply env st = on_net (net_apply (core_netstack env (fst st))) st"

definition core_net_cleanup :: "'n core_env \<Rightarrow> 'n core_st \<Rightarrow> net_report \<times> 'n core_st" where
  "core_net_cleanup env st = on_net (net_cleanup (core_netstack env (fst st))) st"

definition core_net_verify :: "'n core_env \<Rightarrow> 'n core_st \<Rightarrow> net_report \<times> 'n core_st" where
  "core_net_verify env st = on_net (net_verify (core_netstack env (fst st))) st"

definition net_code :: "string \<Rightarrow> go_error \<Rightarrow> string" where
  "net_code fallback err =
     (case errors_as netstack_of err of Some code \<Rightarrow> if code \<noteq> [] then code else fallback
      | None \<Rightarrow> fallback)"

section \<open>Steps shared by Start and HotSwap\<close>

definition render_config ::
  "'n core_env \<Rightarrow> config \<Rightarrow> node_profile \<Rightarrow> string \<Rightarrow> 'n core_world \<Rightarrow> go_error option \<times> 'n core_world" where
  "render_config env cfg profile p w =
     (case as_go (os_mkdir_all (path_dir p) w) of
        (Some e, w1) \<Rightarrow> (Some (WrapError (''mkdir '' @ path_dir p @ '': '') e), w1)
      | (None, w1) \<Rightarrow>
          (case ce_render_singbox env cfg profile p of
             Inl e \<Rightarrow> (Some (WrapError ''render: '' e), w1)
           | Inr data \<Rightarrow>
               (let (now, w2) = os_now w1 in as_go (os_write_file p (data @ [CHR 0x0A]) now w2))))"

definition check_singbox_config ::
  "'n core_env \<Rightarrow> string \<Rightarrow> string \<Rightarrow> 'n core_world \<Rightarrow> go_error option \<times> 'n core_world" where
  "check_singbox_config env d p w =
     (case as_go (os_mkdir_all (run_dir d) w) of
        (Some e, w1) \<Rightarrow> (Some (WrapError (''mkdir sing-box workdir '' @ run_dir d @ '': '') e), w1)
      | (None, w1) \<Rightarrow> (ce_check env (singbox_bin d) p w1, w1))"

definition mark_active :: "'n core_env \<Rightarrow> string \<Rightarrow> 'n core_world \<Rightarrow> 'n core_world" where
  "mark_active env d w =
     (case os_mkdir_all (run_dir d) w of
        (Some e, w1) \<Rightarrow> w1
      | (None, w1) \<Rightarrow>
          (let (now, w2) = os_now w1
           in snd (os_write_file (active_file d) (ce_time_text env now @ [CHR 0x0A]) now w2)))"

text \<open>
  \<^verbatim>\<open>cloneConfigForRuntime\<close> copies through JSON, and the profile projection has the tag
  \<^verbatim>\<open>json:"-"\<close>: the copy has an empty one.
\<close>

definition zero_projection :: profile_projection where
  "zero_projection = \<lparr>pp_ID = [], pp_Name = [], pp_ActiveNodeID = [], pp_Nodes = [],
     pp_Subscriptions = [], pp_Tun = [], pp_Inbounds = [], pp_Extra = []\<rparr>"

definition clone_config :: "config \<Rightarrow> config" where
  "clone_config c = c\<lparr>cf_Profile := zero_projection\<rparr>"

definition profile_label :: "node_profile \<Rightarrow> string" where
  "profile_label p = np_Protocol p @ ''://'' @ np_Address p"

text \<open>The assignments that make a spawned core the running one.\<close>

definition commit_running ::
  "'n core_env \<Rightarrow> config \<Rightarrow> node_profile \<Rightarrow> 'n core_st \<Rightarrow> 'n core_st" where
  "commit_running env cfg profile = (\<lambda>(m, w).
     let (now, w1) = os_now w
     in (m\<lparr>cm_active_profile := profile_label profile, cm_running_config := Some (clone_config cfg),
           cm_running_profile := Some profile, cm_started_at := now, cm_state := StateRunning\<rparr>,
         mark_active env (cm_data_dir m) w1))"

definition signal_and_wait :: "os_signal \<Rightarrow> 'n core_st \<Rightarrow> 'n core_st" where
  "signal_and_wait sig = (\<lambda>(m, w).
     case cm_process m of
       None \<Rightarrow> (m, w)
     | Some p \<Rightarrow>
         (let (err, w1) = os_signal_process p sig w; (exited, w2) = os_await_exit (cm_exit_ch m) w1
          in (m, w2)))"

section \<open>Start\<close>

definition stopped :: "'n core_st \<Rightarrow> 'n core_st" where
  "stopped = on_manager (set_state StateStopped)"

definition start_xray_config :: "'n core_env \<Rightarrow> node_profile \<Rightarrow> 'n core_step" where
  "start_xray_config env profile = (\<lambda>(m, w).
     let p = xray_config (cm_data_dir m)
     in case prepare_xray_sidecar env profile p w of
          (Some e, w1) \<Rightarrow>
            fail_start ''render-xray-config'' ''render xray config'' ''CONFIG_RENDER_FAILED'' e False
              (stopped (m, w1))
        | (None, w1) \<Rightarrow>
            if \<not> requires_xray_sidecar (Some profile) then (None, (m, w1))
            else (let (m2, w2) = record_start ''render-xray-config'' ''ok'' [] p False (m, w1)
                  in case ce_check env (xray_bin (cm_data_dir m)) p w2 of
                       Some e \<Rightarrow>
                         fail_start ''xray-config-check'' ''xray config check'' ''CONFIG_CHECK_FAILED'' e False
                           (stopped (m2, w2))
                     | None \<Rightarrow> (None, record_start ''xray-config-check'' ''ok'' [] p False (m2, w2))))"

definition start_render_config :: "'n core_env \<Rightarrow> node_profile \<Rightarrow> 'n core_step" where
  "start_render_config env profile = (\<lambda>(m, w).
     let p = singbox_config (cm_data_dir m)
     in case render_config env (cm_config m) profile p w of
          (Some e, w1) \<Rightarrow>
            fail_start ''render-config'' ''render config'' ''CONFIG_RENDER_FAILED'' e False (stopped (m, w1))
        | (None, w1) \<Rightarrow> (None, record_start ''render-config'' ''ok'' [] p False (m, w1)))"

definition start_check_config :: "'n core_env \<Rightarrow> 'n core_step" where
  "start_check_config env = (\<lambda>(m, w).
     let p = singbox_config (cm_data_dir m)
     in case check_singbox_config env (cm_data_dir m) p w of
          (Some e, w1) \<Rightarrow>
            fail_start ''config-check'' ''config check'' ''CONFIG_CHECK_FAILED'' e False (stopped (m, w1))
        | (None, w1) \<Rightarrow> (None, record_start ''config-check'' ''ok'' [] p False (m, w1)))"

definition start_xray :: "'n core_env \<Rightarrow> 'n core_step" where
  "start_xray env = (\<lambda>(m, w).
     let d = cm_data_dir m
     in case spawn_xray_sidecar env d w of
          (Inl (e, opened), w1) \<Rightarrow>
            fail_start ''spawn-xray-sidecar'' ''spawn xray sidecar'' ''XRAY_SIDECAR_SPAWN_FAILED'' e False
              (stopped (m, w1))
        | (Inr pid, w1) \<Rightarrow>
            (let (m2, w2) = record_start ''spawn-xray-sidecar'' ''ok'' [] (''pid='' @ int_str pid) False
                              (track_xray pid m, write_pid_file env (xray_pid_file d) pid w1);
                 (err, w3) = wait_for_port_or_exit xray_sidecar_socks_port (10 * second) (Some pid) (xray_log d) w2
             in case err of
                  Some e \<Rightarrow>
                    fail_start ''wait-xray-sidecar'' ''wait xray sidecar socks port''
                      ''XRAY_SIDECAR_PORT_DOWN'' e True (stopped (snd (stop_xray_sidecar env (m2, w3))))
                | None \<Rightarrow>
                    (None, record_start ''wait-xray-sidecar'' ''ok'' []
                             (''port='' @ int_str xray_sidecar_socks_port) False (m2, w3))))"

definition start_abort ::
  "'n core_env \<Rightarrow> string \<Rightarrow> string \<Rightarrow> string \<Rightarrow> go_error \<Rightarrow> 'n core_st \<Rightarrow> go_error option \<times> 'n core_st" where
  "start_abort env name layer code e st =
     fail_start name layer code e False (stopped (snd (stop_xray_sidecar env st)))"

definition start_spawn :: "'n core_env \<Rightarrow> 'n core_step" where
  "start_spawn env = (\<lambda>(m, w).
     let d = cm_data_dir m
     in case as_go (os_mkdir_all (run_dir d) w) of
          (Some e, w1) \<Rightarrow>
            start_abort env ''spawn-core'' ''prepare sing-box'' ''CORE_SPAWN_FAILED''
              (WrapError (''mkdir sing-box workdir '' @ run_dir d @ '': '') e) (m, w1)
        | (None, w1) \<Rightarrow>
            (case open_log env (log_dir d) (singbox_log d) ''sing-box'' w1 of
               (Some e, w2) \<Rightarrow>
                 start_abort env ''open-core-log'' ''open sing-box log'' ''CORE_LOG_OPEN_FAILED'' e (m, w2)
             | (None, w2) \<Rightarrow>
                 (let (m3, w3) = record_start ''open-core-log'' ''ok'' [] (singbox_log d) False (m, w2)
                  in case os_spawn w3 of
                       (Inl e, w4) \<Rightarrow>
                         start_abort env ''spawn-core'' ''spawn sing-box'' ''CORE_SPAWN_FAILED'' e (m3, w4)
                     | (Inr pid, w4) \<Rightarrow>
                         (let (m5, w5) = record_start ''spawn-core'' ''ok'' [] (''pid='' @ int_str pid) False
                                           (track_core pid m3, w4)
                          in (None, (m5, write_pid_file env (singbox_pid_file d) pid w5))))))"

text \<open>\<^verbatim>\<open>rollbackStarted\<close>\<close>

definition rollback_started :: "'n core_env \<Rightarrow> os_signal \<Rightarrow> bool \<Rightarrow> 'n core_st \<Rightarrow> 'n core_st" where
  "rollback_started env sig cleanup st =
     (let st1 = (if cleanup then snd (core_net_cleanup env st) else st);
          st2 = signal_and_wait sig st1;
          st3 = on_manager (set_state StateStopped \<circ> forget_profile \<circ> forget_core) st2;
          st4 = on_device (remove_quietly (singbox_pid_file (cm_data_dir (fst st3)))) st3
      in snd (stop_xray_sidecar env st4))"

definition start_wait_listeners :: "'n core_env \<Rightarrow> 'n core_step" where
  "start_wait_listeners env st =
     (case wait_runtime_listeners env record_start st of
        (Some (spec, e), st1) \<Rightarrow>
          fail_start (ls_Stage spec) (ls_Layer spec) (ls_Code spec) (WrapError (not_ready_prefix spec) e) True
            (rollback_started env SIGKILL False st1)
      | (None, st1) \<Rightarrow> (None, st1))"

definition start_verify_owners :: "'n core_env \<Rightarrow> 'n core_step" where
  "start_verify_owners env = (\<lambda>(m, w).
     case ce_verify_owners env (cm_config m) w of
       Some e \<Rightarrow>
         fail_start ''verify-chain-proxy-owners'' ''verify local proxy owners''
           ''LOCAL_PROXY_OWNER_MISMATCH'' e True (rollback_started env SIGTERM False (m, w))
     | None \<Rightarrow> (None, record_start ''verify-chain-proxy-owners'' ''ok'' [] [] False (m, w)))"

definition steps_detail :: "net_report \<Rightarrow> string" where
  "steps_detail r = ''steps='' @ nat_str (length (nr_steps r))"

definition start_net_apply :: "'n core_env \<Rightarrow> 'n core_step" where
  "start_net_apply env st =
     (let (r, st1) = core_net_apply env st
      in case net_report_err r of
           Some e \<Rightarrow>
             fail_start ''netstack-apply'' ''netstack apply'' (net_code ''RULES_NOT_APPLIED'' e) e True
               (rollback_started env SIGTERM True st1)
         | None \<Rightarrow> (None, record_start ''netstack-apply'' ''ok'' [] (steps_detail r) False st1))"

definition start_net_verify :: "'n core_env \<Rightarrow> 'n core_step" where
  "start_net_verify env st =
     (let (r, st1) = core_net_verify env st
      in case net_report_err r of
           Some e \<Rightarrow>
             fail_start ''netstack-verify'' ''netstack verify'' (net_code ''NETSTACK_VERIFY_FAILED'' e) e True
               (rollback_started env SIGTERM True st1)
         | None \<Rightarrow> (None, record_start ''netstack-verify'' ''ok'' [] (steps_detail r) False st1))"

definition finish_start_report :: "'n core_st \<Rightarrow> 'n core_st" where
  "finish_start_report = (\<lambda>(m, w).
     let (now, w1) = os_now w; r = finish_ok (cm_start_report m) now
     in (m\<lparr>cm_start_report := r, cm_runtime_report := r\<rparr>, w1))"

definition start_commit :: "'n core_env \<Rightarrow> node_profile \<Rightarrow> 'n core_step" where
  "start_commit env profile st =
     (let st1 = commit_running env (cm_config (fst st)) profile st;
          st2 = on_device (remove_quietly (manual_flag (cm_data_dir (fst st1)))) st1;
          st3 = record_start ''commit-state'' ''ok'' [] (cm_active_profile (fst st2)) False st2
      in (None, finish_start_report st3))"

definition start_stages :: "'n core_env \<Rightarrow> node_profile \<Rightarrow> 'n core_step list" where
  "start_stages env profile =
     [start_xray_config env profile, start_render_config env profile, start_check_config env,
      when_step (requires_xray_sidecar (Some profile)) (start_xray env), start_spawn env,
      start_wait_listeners env, start_verify_owners env, start_net_apply env, start_net_verify env,
      start_commit env profile]"

definition begin_start_report :: "'n core_st \<Rightarrow> 'n core_st" where
  "begin_start_report = (\<lambda>(m, w).
     let (now, w1) = os_now w
     in (m\<lparr>cm_start_report := new_runtime_stage_report ''start'' now, cm_state := StateStarting\<rparr>, w1))"

definition core_start :: "'n core_env \<Rightarrow> node_profile \<Rightarrow> 'n core_step" where
  "core_start env profile st =
     (if cm_state (fst st) = StateRunning \<or> cm_state (fst st) = StateStarting
      then (Some (ErrorString (''core: already '' @ core_state_str (cm_state (fst st)))), st)
      else run_stages (start_stages env profile) (begin_start_report st))"

section \<open>Stop\<close>

definition first_error_of :: "go_error option \<Rightarrow> go_error option \<Rightarrow> go_error option" where
  "first_error_of e1 e2 = (case e1 of Some e \<Rightarrow> Some e | None \<Rightarrow> e2)"

definition stop_core_process :: "'n core_env \<Rightarrow> 'n core_step" where
  "stop_core_process env st =
     (if cm_process (fst st) \<noteq> None then kill_process st else kill_tracked_singbox env st)"

definition stop_with_mode :: "'n core_env \<Rightarrow> bool \<Rightarrow> 'n core_step" where
  "stop_with_mode env force_cleanup st =
     (if cm_state (fst st) = StateStopped \<and> \<not> force_cleanup then (None, st)
      else (let d = cm_data_dir (fst st);
                st1 = on_device (remove_quietly (active_file d)) (on_manager (set_state StateStopping) st);
                (r, st2) = core_net_cleanup env st1;
                (kill_err, st3) = stop_core_process env st2;
                (xray_err, st4) = stop_xray_sidecar env st3;
                st5 = on_device (remove_quietly (xray_pid_file d) \<circ> remove_quietly (singbox_pid_file d)) st4;
                st6 = on_manager (set_state StateStopped \<circ> forget_profile \<circ> forget_xray \<circ> forget_core) st5
            in (first_error_of (net_report_err r) (first_error_of kill_err xray_err), st6)))"

definition core_stop :: "'n core_env \<Rightarrow> 'n core_step" where
  "core_stop env = stop_with_mode env True"

definition rescue_reset :: "'n core_env \<Rightarrow> 'n core_step" where
  "rescue_reset env = stop_with_mode env True"

end
