(* ===== verification/CoreHotSwap.thy ===== *)
theory CoreHotSwap
  imports CoreManager
begin

text \<open>
  \<^verbatim>\<open>HotSwap\<close> (\<^verbatim>\<open>daemon/internal/core/manager.go\<close>): a new core process takes over behind the
  installed network rules.  A failure before the old process was stopped returns at once; a
  later one restores the previous runtime or, when this fails too, removes the network rules and
  leaves the core degraded.  The rendered candidate is removed on every way out (\<^verbatim>\<open>defer\<close>).
\<close>

text \<open>The configuration and profile that \<^verbatim>\<open>HotSwap\<close> saves on entry.\<close>

type_synonym rollback_pair = "config option \<times> node_profile option"

section \<open>Restoring the previous runtime\<close>

definition restore_xray :: "'n core_env \<Rightarrow> node_profile \<Rightarrow> 'n core_step" where
  "restore_xray env profile = (\<lambda>(m, w).
     let d = cm_data_dir m
     in case prepare_xray_sidecar env profile (xray_config d) w of
          (Some e, w1) \<Rightarrow> (Some (WrapError ''render rollback xray config: '' e), (m, w1))
        | (None, w1) \<Rightarrow>
            if \<not> requires_xray_sidecar (Some profile)
            then (None, (m, remove_quietly (xray_pid_file d) w1))
            else (case spawn_xray_sidecar env d w1 of
                    (Inl (e, opened), w2) \<Rightarrow>
                      (Some (WrapError ''spawn rollback xray sidecar: '' e), (m, w2))
                  | (Inr pid, w2) \<Rightarrow>
                      (let m3 = track_xray pid m; w3 = write_pid_file env (xray_pid_file d) pid w2
                       in case wait_for_port_or_exit xray_sidecar_socks_port (10 * second) (Some pid)
                                 (xray_log d) w3 of
                            (Some e, w4) \<Rightarrow>
                              (Some (WrapError ''wait rollback xray sidecar: '' e),
                               snd (stop_xray_sidecar env (m3, w4)))
                          | (None, w4) \<Rightarrow> (None, (m3, w4)))))"

definition restore_core :: "'n core_env \<Rightarrow> 'n core_step" where
  "restore_core env = (\<lambda>(m, w).
     let d = cm_data_dir m
     in case spawn_sing_box env d w of
          (Inl (e, opened), w1) \<Rightarrow>
            (Some (WrapError ''spawn rollback sing-box: '' e), snd (stop_xray_sidecar env (m, w1)))
        | (Inr pid, w1) \<Rightarrow> (None, (track_core pid m, write_pid_file env (singbox_pid_file d) pid w1)))"

definition restore_wait :: "'n core_env \<Rightarrow> 'n core_step" where
  "restore_wait env st =
     (case wait_runtime_listeners env record_runtime st of
        (Some (spec, e), st1) \<Rightarrow>
          (Some (WrapError (''wait rollback '' @ ls_Label spec @ '' port '' @ int_str (ls_Port spec) @ '': '') e),
           snd (stop_xray_sidecar env (snd (kill_process st1))))
      | (None, st1) \<Rightarrow> (None, st1))"

definition restore_commit :: "'n core_env \<Rightarrow> config \<Rightarrow> node_profile \<Rightarrow> 'n core_step" where
  "restore_commit env cfg profile st =
     (let st1 = commit_running env cfg profile st
      in (None, record_runtime ''rollback-old-runtime'' ''ok'' [] (cm_active_profile (fst st1)) True st1))"

definition restore_previous ::
  "'n core_env \<Rightarrow> config \<Rightarrow> node_profile \<Rightarrow> 'n core_step" where
  "restore_previous env cfg profile st =
     (let st1 = signal_and_wait SIGKILL st;
          st2 = snd (stop_xray_sidecar env st1);
          st3 = on_manager (\<lambda>m. (forget_core m)\<lparr>cm_config := cfg\<rparr>) st2
      in run_stages [restore_xray env profile, restore_core env, restore_wait env,
                     restore_commit env cfg profile] st3)"

text \<open>\<^verbatim>\<open>cleanupAndDegrade\<close>: whether the previous runtime is back, the cause and the state.\<close>

definition degrade :: "'n core_env \<Rightarrow> 'n core_st \<Rightarrow> 'n core_st" where
  "degrade env st =
     (let st1 = snd (core_net_cleanup env st);
          st2 = signal_and_wait SIGKILL st1;
          st3 = on_manager (set_state StateDegraded \<circ> forget_profile \<circ> forget_core) st2;
          d = cm_data_dir (fst st3);
          st4 = on_device (remove_quietly (singbox_pid_file d)) st3;
          st5 = snd (stop_xray_sidecar env st4)
      in on_device (remove_quietly (active_file d)) st5)"

definition cleanup_and_degrade ::
  "'n core_env \<Rightarrow> rollback_pair \<Rightarrow> go_error \<Rightarrow> 'n core_st \<Rightarrow> bool \<times> go_error \<times> 'n core_st" where
  "cleanup_and_degrade env rollback cause st =
     (case rollback of
        (Some cfg, Some profile) \<Rightarrow>
          (case restore_previous env cfg profile st of
             (None, st1) \<Rightarrow> (True, cause, st1)
           | (Some e, st1) \<Rightarrow>
               (False, WrapSuffix cause (''; rollback failed: '' @ error_msg e), degrade env st1))
      | _ \<Rightarrow> (False, cause, degrade env st))"

definition swap_failure ::
  "'n core_env \<Rightarrow> rollback_pair \<Rightarrow> string \<Rightarrow> string \<Rightarrow> string \<Rightarrow> go_error \<Rightarrow> 'n core_st
     \<Rightarrow> go_error option \<times> 'n core_st" where
  "swap_failure env rollback name layer code cause st =
     (let (preserved, final, st1) = cleanup_and_degrade env rollback cause st
      in if preserved
         then (runtime_preserved_error_with_report layer code (Some cause) (cm_runtime_report (fst st1)), st1)
         else fail_runtime name layer code final True st1)"

section \<open>The steps\<close>

definition swap_xray_config :: "'n core_env \<Rightarrow> node_profile \<Rightarrow> 'n core_step" where
  "swap_xray_config env profile = (\<lambda>(m, w).
     let p = xray_config (cm_data_dir m)
     in case prepare_xray_sidecar env profile p w of
          (Some e, w1) \<Rightarrow>
            fail_runtime ''render-xray-config'' ''hot-swap render xray config'' ''CONFIG_RENDER_FAILED'' e False
              (m, w1)
        | (None, w1) \<Rightarrow>
            if \<not> requires_xray_sidecar (Some profile) then (None, (m, w1))
            else (let (m2, w2) = record_runtime ''render-xray-config'' ''ok'' [] p False (m, w1)
                  in case ce_check env (xray_bin (cm_data_dir m)) p w2 of
                       Some e \<Rightarrow>
                         fail_runtime ''xray-config-check'' ''hot-swap xray config check''
                           ''CONFIG_CHECK_FAILED'' e False (m2, w2)
                     | None \<Rightarrow> (None, record_runtime ''xray-config-check'' ''ok'' [] p False (m2, w2))))"

definition swap_render_config :: "'n core_env \<Rightarrow> node_profile \<Rightarrow> 'n core_step" where
  "swap_render_config env profile = (\<lambda>(m, w).
     let p = hotswap_config (cm_data_dir m)
     in case render_config env (cm_config m) profile p w of
          (Some e, w1) \<Rightarrow>
            fail_runtime ''render-config'' ''hot-swap render'' ''CONFIG_RENDER_FAILED'' e False (m, w1)
        | (None, w1) \<Rightarrow> (None, record_runtime ''render-config'' ''ok'' [] p False (m, w1)))"

definition swap_check_config :: "'n core_env \<Rightarrow> 'n core_step" where
  "swap_check_config env = (\<lambda>(m, w).
     let p = hotswap_config (cm_data_dir m)
     in case check_singbox_config env (cm_data_dir m) p w of
          (Some e, w1) \<Rightarrow>
            fail_runtime ''config-check'' ''hot-swap config check'' ''CONFIG_CHECK_FAILED'' e False (m, w1)
        | (None, w1) \<Rightarrow> (None, record_runtime ''config-check'' ''ok'' [] p False (m, w1)))"

definition swap_stop_old :: "'n core_step" where
  "swap_stop_old st =
     (if cm_process (fst st) \<noteq> None
      then (case kill_process st of
              (Some e, st1) \<Rightarrow>
                fail_runtime ''stop-old-core'' ''hot-swap kill old'' ''CORE_STOP_FAILED'' e False st1
            | (None, st1) \<Rightarrow>
                (None, on_manager (set_state StateStarting)
                   (record_runtime ''stop-old-core'' ''ok'' [] [] False (on_manager forget_core st1))))
      else (None, on_manager (set_state StateStarting)
             (record_runtime ''stop-old-core'' ''already_clean'' [] ''no tracked process'' False st)))"

definition swap_xray :: "'n core_env \<Rightarrow> rollback_pair \<Rightarrow> node_profile \<Rightarrow> 'n core_step" where
  "swap_xray env rollback profile st =
     (case stop_xray_sidecar env st of
        (Some e, st1) \<Rightarrow>
          swap_failure env rollback ''stop-old-xray-sidecar'' ''hot-swap stop old xray sidecar''
            ''XRAY_SIDECAR_STOP_FAILED'' e st1
      | (None, (m, w)) \<Rightarrow>
          if \<not> requires_xray_sidecar (Some profile) then (None, (m, w))
          else (let d = cm_data_dir m
                in case spawn_xray_sidecar env d w of
                     (Inl (e, opened), w1) \<Rightarrow>
                       swap_failure env rollback ''spawn-xray-sidecar'' ''hot-swap spawn xray sidecar''
                         ''XRAY_SIDECAR_SPAWN_FAILED'' e (m, w1)
                   | (Inr pid, w1) \<Rightarrow>
                       (let (m2, w2) = record_runtime ''spawn-xray-sidecar'' ''ok'' []
                                         (''pid='' @ int_str pid) False
                                         (track_xray pid m, write_pid_file env (xray_pid_file d) pid w1)
                        in case wait_for_port_or_exit xray_sidecar_socks_port (10 * second) (Some pid)
                                  (xray_log d) w2 of
                             (Some e, w3) \<Rightarrow>
                               swap_failure env rollback ''wait-xray-sidecar''
                                 ''hot-swap wait xray sidecar socks port'' ''XRAY_SIDECAR_PORT_DOWN'' e (m2, w3)
                           | (None, w3) \<Rightarrow>
                               (None, record_runtime ''wait-xray-sidecar'' ''ok'' []
                                        (''port='' @ int_str xray_sidecar_socks_port) False (m2, w3)))))"

definition swap_spawn :: "'n core_env \<Rightarrow> rollback_pair \<Rightarrow> 'n core_step" where
  "swap_spawn env rollback = (\<lambda>(m, w).
     let d = cm_data_dir m
     in case spawn_sing_box env d w of
          (Inl (e, opened), w1) \<Rightarrow>
            if opened
            then swap_failure env rollback ''spawn-core'' ''hot-swap spawn'' ''CORE_SPAWN_FAILED'' e (m, w1)
            else swap_failure env rollback ''open-core-log'' ''hot-swap open sing-box log''
                   ''CORE_LOG_OPEN_FAILED'' e (m, w1)
        | (Inr pid, w1) \<Rightarrow>
            (None, on_device (write_pid_file env (singbox_pid_file d) pid)
               (record_runtime ''spawn-core'' ''ok'' [] (''pid='' @ int_str pid) False (track_core pid m, w1))))"

definition swap_wait_listeners :: "'n core_env \<Rightarrow> rollback_pair \<Rightarrow> 'n core_step" where
  "swap_wait_listeners env rollback st =
     (case wait_runtime_listeners env record_runtime st of
        (Some (spec, e), st1) \<Rightarrow>
          swap_failure env rollback (ls_Stage spec) (''hot-swap '' @ ls_Layer spec) (ls_Code spec)
            (WrapError (not_ready_prefix spec) e) st1
      | (None, st1) \<Rightarrow> (None, st1))"

definition swap_commit_config :: "'n core_env \<Rightarrow> rollback_pair \<Rightarrow> 'n core_step" where
  "swap_commit_config env rollback = (\<lambda>(m, w).
     let d = cm_data_dir m
     in case as_go (os_rename (hotswap_config d) (singbox_config d) w) of
          (Some e, w1) \<Rightarrow>
            swap_failure env rollback ''commit-config'' ''hot-swap commit config'' ''CONFIG_RENDER_FAILED'' e (m, w1)
        | (None, w1) \<Rightarrow> (None, record_runtime ''commit-config'' ''ok'' [] (singbox_config d) False (m, w1)))"

definition swap_commit :: "'n core_env \<Rightarrow> node_profile \<Rightarrow> 'n core_step" where
  "swap_commit env profile st =
     (let st1 = commit_running env (cm_config (fst st)) profile st;
          st2 = on_device (remove_quietly (manual_flag (cm_data_dir (fst st1)))) st1;
          (m3, w3) = record_runtime ''commit-state'' ''ok'' [] (cm_active_profile (fst st2)) False st2;
          (now, w4) = os_now w3
      in (None, (m3\<lparr>cm_runtime_report := finish_ok (cm_runtime_report m3) now\<rparr>, w4)))"

definition swap_early :: "'n core_env \<Rightarrow> node_profile \<Rightarrow> 'n core_step list" where
  "swap_early env profile =
     [swap_render_config env profile, swap_check_config env, swap_stop_old]"

definition swap_late :: "'n core_env \<Rightarrow> rollback_pair \<Rightarrow> node_profile \<Rightarrow> 'n core_step list" where
  "swap_late env rollback profile =
     [swap_xray env rollback profile, swap_spawn env rollback, swap_wait_listeners env rollback,
      swap_commit_config env rollback, swap_commit env profile]"

definition begin_swap_report :: "'n core_st \<Rightarrow> 'n core_st" where
  "begin_swap_report = (\<lambda>(m, w).
     let (now, w1) = os_now w
     in (m\<lparr>cm_runtime_report := new_runtime_stage_report ''hot-swap'' now\<rparr>, w1))"

definition hot_swap :: "'n core_env \<Rightarrow> node_profile \<Rightarrow> 'n core_step" where
  "hot_swap env profile st =
     (let rollback = (map_option clone_config (cm_running_config (fst st)), cm_running_profile (fst st));
          candidate = hotswap_config (cm_data_dir (fst st))
      in case swap_xray_config env profile (begin_swap_report st) of
           (Some e, st1) \<Rightarrow> (Some e, st1)
         | (None, st1) \<Rightarrow>
             (let (err, st2) = run_stages (swap_early env profile @ swap_late env rollback profile)
                                 (on_device (remove_quietly candidate) st1)
              in (err, on_device (remove_quietly candidate) st2)))"

section \<open>The small operations\<close>

definition core_set_config :: "config \<Rightarrow> core_manager \<Rightarrow> core_manager" where
  "core_set_config cfg m = m\<lparr>cm_config := cfg\<rparr>"

definition mark_selector_active :: "node_profile option \<Rightarrow> core_manager \<Rightarrow> core_manager" where
  "mark_selector_active profile m =
     (case profile of
        None \<Rightarrow> m
      | Some p \<Rightarrow> m\<lparr>cm_active_profile := profile_label p,
                    cm_running_config := Some (clone_config (cm_config m)),
                    cm_running_profile := Some p\<rparr>)"

definition core_reset_state :: "'n core_st \<Rightarrow> 'n core_st" where
  "core_reset_state = (\<lambda>(m, w).
     let d = cm_data_dir m
     in (set_state StateStopped (forget_profile (forget_xray (forget_core m))),
         remove_quietly (active_file d) (remove_quietly (xray_pid_file d)
           (remove_quietly (singbox_pid_file d) w))))"

record status_info =
  si_State :: string
  si_PID :: int
  si_ActiveProfile :: string
  si_StartedAt :: gtime
  si_StartReport :: runtime_stage_report
  si_RuntimeReport :: runtime_stage_report

definition core_status :: "core_manager \<Rightarrow> status_info" where
  "core_status m =
     \<lparr>si_State = core_state_str (cm_state m), si_PID = cm_pid m,
      si_ActiveProfile = cm_active_profile m, si_StartedAt = cm_started_at m,
      si_StartReport = cm_start_report m, si_RuntimeReport = cm_runtime_report m\<rparr>"

end
