(* ===== verification/CoreFrames.thy ===== *)
theory CoreFrames
  imports CoreHotSwap
begin

text \<open>
  What the helpers of the core manager leave alone: the fields of the manager, and the files of
  the device.
\<close>

section \<open>The manager\<close>

named_theorems core_frame \<open>what an auxiliary operation leaves of the manager\<close>

lemma record_start_fst [core_frame]:
  "fst (record_start n s c d b st) =
     (let r = add_stage (cm_start_report (fst st)) (fst (os_now (snd st))) n s c d b
      in (fst st)\<lparr>cm_start_report := r, cm_runtime_report := r\<rparr>)"
  by (simp add: record_start_def Let_def split_beta)

lemma record_runtime_fst [core_frame]:
  "fst (record_runtime n s c d b st) =
     (fst st)\<lparr>cm_runtime_report :=
        add_stage (cm_runtime_report (fst st)) (fst (os_now (snd st))) n s c d b\<rparr>"
  by (simp add: record_runtime_def Let_def split_beta)

lemma kill_process_fst [core_frame]: "fst (snd (kill_process st)) = fst st"
  by (simp add: kill_process_def Let_def split_beta)

lemma kill_tracked_fst [core_frame]:
  "fst (snd (kill_tracked_singbox env st)) = fst st" "fst (snd (kill_tracked_xray env st)) = fst st"
  by (simp_all add: kill_tracked_singbox_def kill_tracked_xray_def Let_def split_beta)

lemma stop_core_process_fst [core_frame]: "fst (snd (stop_core_process env st)) = fst st"
  by (simp add: stop_core_process_def core_frame)

lemma stop_xray_fst [core_frame]: "fst (snd (stop_xray_sidecar env st)) = forget_xray (fst st)"
  by (cases st; cases "cm_xray_process (fst st)")
     (simp_all add: stop_xray_sidecar_def Let_def split_beta core_frame)

lemma signal_and_wait_fst [core_frame]: "fst (signal_and_wait sig st) = fst st"
  by (cases st; cases "cm_process (fst st)") (simp_all add: signal_and_wait_def Let_def split_beta)

lemma core_net_fst [core_frame]:
  "fst (snd (core_net_apply env st)) = fst st" "fst (snd (core_net_cleanup env st)) = fst st"
  "fst (snd (core_net_verify env st)) = fst st"
  by (simp_all add: core_net_apply_def core_net_cleanup_def core_net_verify_def on_net_def Let_def split_beta)

lemma on_fst [core_frame]:
  "fst (on_manager f st) = f (fst st)" "fst (on_device g st) = fst st"
  "snd (on_manager f st) = snd st" "snd (on_device g st) = g (snd st)"
  by (simp_all add: on_manager_def on_device_def split_beta)

lemmas core_updates = set_state_def forget_core_def forget_xray_def forget_profile_def track_core_def
  track_xray_def

text \<open>
  The process handle, its exit channel and the pid belong together; the pid is 0 without a process.
\<close>

definition core_wf :: "core_manager \<Rightarrow> bool" where
  "core_wf m \<longleftrightarrow> cm_exit_ch m = cm_process m \<and> cm_pid m = (case cm_process m of None \<Rightarrow> 0 | Some p \<Rightarrow> p)"

text \<open>Waiting for the listeners only records stages.\<close>

definition same_core :: "core_manager \<Rightarrow> core_manager \<Rightarrow> bool" where
  "same_core m m' \<longleftrightarrow>
     m'\<lparr>cm_start_report := cm_start_report m, cm_runtime_report := cm_runtime_report m\<rparr> = m"

lemma same_core_refl [simp]: "same_core m m"
  by (simp add: same_core_def)

lemma same_core_iff:
  "same_core m m' \<longleftrightarrow> (\<exists>r s. m' = m\<lparr>cm_start_report := r, cm_runtime_report := s\<rparr>)"
  by (cases m; cases m') (auto simp: same_core_def)

lemma same_core_fields:
  "same_core m m' \<Longrightarrow> cm_process m' = cm_process m \<and> cm_exit_ch m' = cm_exit_ch m \<and> cm_pid m' = cm_pid m \<and>
     cm_config m' = cm_config m \<and> cm_state m' = cm_state m \<and> cm_data_dir m' = cm_data_dir m"
  by (auto simp: same_core_iff)

lemma same_core_trans: "same_core m m1 \<Longrightarrow> same_core m1 m2 \<Longrightarrow> same_core m m2"
  by (cases m; cases m1; cases m2) (auto simp: same_core_def)

lemma same_core_record:
  "same_core (fst st) (fst (record_start n s c d b st))"
  "same_core (fst st) (fst (record_runtime n s c d b st))"
  by (simp_all add: same_core_def core_frame Let_def)

lemma wait_listeners_same:
  assumes rec: "\<And>n s c d b st. same_core (fst st) (fst (rec n s c d b st))"
  shows "same_core (fst st) (fst (snd (wait_listeners rec p specs st)))"
proof (induction specs arbitrary: st)
  case Nil
  show ?case by simp
next
  case (Cons spec specs)
  obtain m w where st: "st = (m, w)" by (cases st)
  obtain e w1 where w: "wait_for_port_or_exit (ls_Port spec) (ls_Timeout spec) (cm_exit_ch m) p w = (e, w1)"
    by fastforce
  show ?case
  proof (cases e)
    case None
    then show ?thesis
      using same_core_trans [OF rec [of "(m, w1)", simplified] Cons.IH] by (simp add: st w)
  qed (simp add: st w)
qed

lemma wait_runtime_listeners_same:
  "same_core (fst st) (fst (snd (wait_runtime_listeners env record_start st)))"
  "same_core (fst st) (fst (snd (wait_runtime_listeners env record_runtime st)))"
  unfolding wait_runtime_listeners_def by (rule wait_listeners_same, rule same_core_record)+

section \<open>Files that are gone\<close>

text \<open>A file is gone when it does not exist, unless removing it fails on this device.\<close>

definition gone :: "string \<Rightarrow> 'w fs_scheme \<Rightarrow> bool" where
  "gone p w \<longleftrightarrow> fs_files w p = None \<or> fs_fault w FsRemove p \<noteq> None"

definition same_files :: "'w fs_scheme \<Rightarrow> 'w fs_scheme \<Rightarrow> bool" where
  "same_files w w' \<longleftrightarrow> fs_files w' = fs_files w \<and> fs_fault w' = fs_fault w"

lemma same_files_trans: "same_files w w1 \<Longrightarrow> same_files w1 w2 \<Longrightarrow> same_files w w2"
  by (simp add: same_files_def)

lemma gone_same: "same_files w w' \<Longrightarrow> gone p w' \<longleftrightarrow> gone p w"
  by (simp add: same_files_def gone_def)

lemma gone_remove: "gone p (remove_quietly p w)"
  by (auto simp: gone_def os_remove_def fs_access_def split: option.splits)

lemma gone_remove_other: "gone p w \<Longrightarrow> gone p (remove_quietly q w)"
  by (auto simp: gone_def os_remove_def fs_access_def split: option.splits)

lemma os_turn_files [simp]:
  "fs_files (snd (os_turn w)) = fs_files w" "fs_fault (snd (os_turn w)) = fs_fault w"
  by (simp_all add: os_turn_def Let_def)

lemma os_now_files [simp]:
  "fs_files (snd (os_now w)) = fs_files w" "fs_fault (snd (os_now w)) = fs_fault w"
  by (simp_all add: os_now_def Let_def split_beta)

lemma os_signal_files [simp]:
  "fs_files (snd (os_signal_process p s w)) = fs_files w"
  "fs_fault (snd (os_signal_process p s w)) = fs_fault w"
  by (simp_all add: os_signal_process_def Let_def split_beta split: option.split)

lemma os_await_files [simp]:
  "fs_files (snd (os_await_exit ch w)) = fs_files w"
  "fs_fault (snd (os_await_exit ch w)) = fs_fault w"
  by (simp_all add: os_await_exit_def receive_exit_def Let_def split_beta split: option.split)

lemma kill_with_wait_files [simp]:
  "fs_files (snd (kill_with_wait p pid ch w)) = fs_files w"
  "fs_fault (snd (kill_with_wait p pid ch w)) = fs_fault w"
  by (simp_all add: kill_with_wait_def Let_def split_beta split: option.split)

lemma kill_untracked_files [simp]:
  "fs_files (snd (kill_untracked env b cs e acc)) = fs_files (snd acc)"
  "fs_fault (snd (kill_untracked env b cs e acc)) = fs_fault (snd acc)"
  by (simp_all add: kill_untracked_def Let_def split_beta split: option.split)

lemma kill_untracked_fold [simp]:
  "fs_files (snd (fold (kill_untracked env b cs) es acc)) = fs_files (snd acc) \<and>
   fs_fault (snd (fold (kill_untracked env b cs) es acc)) = fs_fault (snd acc)"
  by (induction es arbitrary: acc) auto

lemma kill_tracked_files [simp]:
  "fs_files (snd (kill_tracked_pids env b cs es w)) = fs_files w"
  "fs_fault (snd (kill_tracked_pids env b cs es w)) = fs_fault w"
  by (simp_all add: kill_tracked_pids_def Let_def split_beta)

text \<open>Stopping processes and cleaning the network leaves what is gone.\<close>

lemma gone_stop_core: "gone p (snd st) \<Longrightarrow> gone p (snd (snd (stop_core_process env st)))"
  by (simp add: gone_def stop_core_process_def kill_process_def kill_tracked_singbox_def Let_def split_beta)

lemma gone_stop_xray: "gone p (snd st) \<Longrightarrow> gone p (snd (snd (stop_xray_sidecar env st)))"
  by (cases "cm_xray_process (fst st)";
      simp add: stop_xray_sidecar_def kill_tracked_xray_def Let_def split_beta; rule gone_remove_other;
      simp add: gone_def)

lemma gone_net: "gone p (snd (snd (core_net_cleanup env st))) \<longleftrightarrow> gone p (snd st)"
  by (simp add: core_net_cleanup_def on_net_def Let_def split_beta gone_def)

end
