(* ===== verification/CoreStart.thy ===== *)
theory CoreStart
  imports CoreFrames
begin

text \<open>
  Every stage of \<^verbatim>\<open>Start\<close> either goes on with a recorded stage or fails with the core stopped and
  forgotten: one rule per stage, and their chain.
\<close>

definition reports :: "go_error \<Rightarrow> runtime_stage_report \<Rightarrow> bool" where
  "reports e r \<longleftrightarrow> failed_last r \<and>
     (\<exists>layer um dbg b pres e'. e = RuntimeError layer (sr_last_code r) True um dbg b pres r e')"

definition sidecar_untracked :: "core_manager \<Rightarrow> bool" where
  "sidecar_untracked m \<longleftrightarrow> cm_xray_process m = None \<and> cm_xray_exit_ch m = None \<and> cm_xray_pid m = 0"

definition profile_forgotten :: "core_manager \<Rightarrow> bool" where
  "profile_forgotten m \<longleftrightarrow> cm_active_profile m = [] \<and> cm_running_config m = None \<and> cm_running_profile m = None \<and>
     cm_started_at m = zero_time"

definition core_untracked :: "core_manager \<Rightarrow> bool" where
  "core_untracked m \<longleftrightarrow> cm_process m = None \<and> cm_exit_ch m = None \<and> cm_pid m = 0"

text \<open>Neither a core nor a sidecar nor a running profile.\<close>

definition nothing_tracked :: "core_manager \<Rightarrow> bool" where
  "nothing_tracked m \<longleftrightarrow> core_untracked m \<and> sidecar_untracked m \<and> profile_forgotten m"

lemmas tracked_defs = nothing_tracked_def core_untracked_def sidecar_untracked_def profile_forgotten_def

definition start_failed :: "go_error \<Rightarrow> 'n core_st \<Rightarrow> bool" where
  "start_failed e st \<longleftrightarrow> (let m = fst st in
     cm_state m = StateStopped \<and> nothing_tracked m \<and>
     cm_runtime_report m = cm_start_report m \<and> reports e (cm_start_report m))"

text \<open>Between two stages; \<^verbatim>\<open>side\<close> says that a sidecar may be tracked, \<^verbatim>\<open>up\<close> that a core is.\<close>

definition starting :: "config \<Rightarrow> bool \<Rightarrow> bool \<Rightarrow> string list \<Rightarrow> 'n core_st \<Rightarrow> bool" where
  "starting cfg side up names st \<longleftrightarrow> (let m = fst st in
     cm_state m = StateStarting \<and> cm_config m = cfg \<and> stage_names (cm_start_report m) = names \<and>
     cm_exit_ch m = cm_process m \<and> (cm_process m \<noteq> None \<longleftrightarrow> up) \<and>
     cm_pid m = (case cm_process m of None \<Rightarrow> 0 | Some p \<Rightarrow> p) \<and> profile_forgotten m \<and> (\<not> side \<longrightarrow> sidecar_untracked m))"

lemma starting_side: "starting cfg False up names st \<Longrightarrow> starting cfg True up names st"
  by (simp add: starting_def Let_def)

lemma fail_start_failed:
  assumes "cm_state (fst st) = StateStopped" "nothing_tracked (fst st)"
  shows "fst (fail_start n l c e b st) \<noteq> None \<and>
    start_failed (the (fst (fail_start n l c e b st))) (snd (fail_start n l c e b st))"
  using assms by (auto simp: fail_start_def start_failed_def core_frame Let_def reports_def tracked_defs
     runtime_error_with_report_def)

lemma fail_start_step:
  "fail_start n l c e b st = (Some err, st') \<Longrightarrow>
   cm_state (fst st) = StateStopped \<Longrightarrow> nothing_tracked (fst st) \<Longrightarrow> start_failed err st'"
  using fail_start_failed [of st n l c e b] by simp

lemma fail_start_not_None [simp]: "fst (fail_start n l c e b st) \<noteq> None"
  by (simp add: fail_start_def Let_def)

lemma fail_start_Some:
  "fst (fail_start n l c e b st) = Some err \<Longrightarrow>
   cm_state (fst st) = StateStopped \<Longrightarrow> nothing_tracked (fst st) \<Longrightarrow> start_failed err (snd (fail_start n l c e b st))"
  using fail_start_failed [of st n l c e b] by simp

lemma rollback_started_fst [core_frame]:
  "fst (rollback_started env sig cl st) =
     forget_xray (set_state StateStopped (forget_profile (forget_core (fst st))))"
  by (simp add: rollback_started_def core_frame Let_def)

lemma stopped_fst [core_frame]: "fst (stopped st) = set_state StateStopped (fst st)"
  by (simp add: stopped_def core_frame)

abbreviation needs_xray :: "node_profile \<Rightarrow> bool" where
  "needs_xray profile \<equiv> requires_xray_sidecar (Some profile)"

lemmas start_simps = starting_def core_frame core_updates Let_def tracked_defs


lemma start_xray_config_ok:
  "step_ok (starting cfg False False names) (start_xray_config env profile)
     (starting cfg False False (names @ (if needs_xray profile then [''render-xray-config'', ''xray-config-check''] else []))) start_failed"
  by (rule step_ok_fstI)
     (simp_all add: start_xray_config_def start_simps split_beta
           split: option.splits sum.splits if_splits, (auto intro!: fail_start_Some simp: start_simps)?)

lemma start_render_config_ok:
  "step_ok (starting cfg False False names) (start_render_config env profile)
     (starting cfg False False (names @ [''render-config''])) start_failed"
  by (rule step_ok_fstI)
     (simp_all add: start_render_config_def start_simps split_beta
           split: option.splits sum.splits if_splits, (auto intro!: fail_start_Some simp: start_simps)?)

lemma start_check_config_ok:
  "step_ok (starting cfg False False names) (start_check_config env)
     (starting cfg False False (names @ [''config-check''])) start_failed"
  by (rule step_ok_fstI)
     (simp_all add: start_check_config_def start_simps split_beta
           split: option.splits sum.splits if_splits, (auto intro!: fail_start_Some simp: start_simps)?)

lemma start_xray_ok:
  "step_ok (starting cfg False False names) (start_xray env)
     (starting cfg True False (names @ [''spawn-xray-sidecar'', ''wait-xray-sidecar''])) start_failed"
  by (rule step_ok_fstI)
     (simp_all add: start_xray_def start_simps split_beta
           split: option.splits sum.splits if_splits, (auto intro!: fail_start_Some simp: start_simps)?)

lemma start_spawn_ok:
  "step_ok (starting cfg True False names) (start_spawn env)
     (starting cfg True True (names @ [''open-core-log'', ''spawn-core''])) start_failed"
  by (rule step_ok_fstI)
     (simp_all add: start_spawn_def start_simps split_beta start_abort_def
           split: option.splits sum.splits if_splits, (auto intro!: fail_start_Some simp: start_simps)?)

lemma wait_listeners_names:
  "fst (wait_listeners record_start p specs st) = None \<Longrightarrow>
   stage_names (cm_start_report (fst (snd (wait_listeners record_start p specs st)))) =
     stage_names (cm_start_report (fst st)) @ map ls_Stage specs"
proof (induction specs arbitrary: st)
  case (Cons spec specs)
  obtain m w where st: "st = (m, w)" by (cases st)
  from Cons.prems Cons.IH show ?case
    by (auto simp: st core_frame Let_def split: prod.splits option.splits)
qed simp

lemma start_wait_ok:
  "step_ok (starting cfg True True names) (start_wait_listeners env)
     (starting cfg True True (names @ map ls_Stage (runtime_listener_waits (ce_codec env) cfg))) start_failed"
proof (rule step_ok_fstI)
  fix s assume s: "starting cfg True True names s" "fst (start_wait_listeners env s) = None"
  then show "starting cfg True True (names @ map ls_Stage (runtime_listener_waits (ce_codec env) cfg))
      (snd (start_wait_listeners env s))"
    using wait_runtime_listeners_same(1) [of s env]
      wait_listeners_names [of "singbox_log (cm_data_dir (fst s))" "runtime_listener_waits (ce_codec env) cfg" s]
    by (auto simp: start_wait_listeners_def wait_runtime_listeners_def starting_def same_core_iff Let_def tracked_defs
          split_beta split: option.splits)
next
  fix s e assume "starting cfg True True names s" "fst (start_wait_listeners env s) = Some e"
  then show "start_failed e (snd (start_wait_listeners env s))"
    using wait_runtime_listeners_same(1) [of s env]
    by (auto simp: start_wait_listeners_def start_simps same_core_iff split_beta
          split: option.splits intro!: fail_start_Some)
qed

lemma start_verify_owners_ok:
  "step_ok (starting cfg True True names) (start_verify_owners env)
     (starting cfg True True (names @ [''verify-chain-proxy-owners''])) start_failed"
  by (rule step_ok_fstI)
     (simp_all add: start_verify_owners_def start_simps split_beta
           split: option.splits sum.splits if_splits, (auto intro!: fail_start_Some simp: start_simps)?)

lemma start_net_apply_ok:
  "step_ok (starting cfg True True names) (start_net_apply env)
     (starting cfg True True (names @ [''netstack-apply''])) start_failed"
  by (rule step_ok_fstI)
     (simp_all add: start_net_apply_def start_simps split_beta
           split: option.splits sum.splits if_splits, (auto intro!: fail_start_Some simp: start_simps)?)

lemma start_net_verify_ok:
  "step_ok (starting cfg True True names) (start_net_verify env)
     (starting cfg True True (names @ [''netstack-verify''])) start_failed"
  by (rule step_ok_fstI)
     (simp_all add: start_net_verify_def start_simps split_beta
           split: option.splits sum.splits if_splits, (auto intro!: fail_start_Some simp: start_simps)?)

text \<open>A successful start.\<close>

definition start_names :: "json_codec \<Rightarrow> config \<Rightarrow> node_profile \<Rightarrow> string list" where
  "start_names codec cfg profile =
     (if needs_xray profile then [''render-xray-config'', ''xray-config-check''] else []) @
     [''render-config'', ''config-check''] @
     (if needs_xray profile then [''spawn-xray-sidecar'', ''wait-xray-sidecar''] else []) @
     [''open-core-log'', ''spawn-core''] @ map ls_Stage (runtime_listener_waits codec cfg) @
     [''verify-chain-proxy-owners'', ''netstack-apply'', ''netstack-verify'', ''commit-state'']"

definition core_running :: "config \<Rightarrow> node_profile \<Rightarrow> 'n core_st \<Rightarrow> bool" where
  "core_running cfg profile st \<longleftrightarrow> (let m = fst st in
     cm_state m = StateRunning \<and> cm_process m = Some (cm_pid m) \<and> cm_exit_ch m = Some (cm_pid m) \<and>
     cm_config m = cfg \<and> cm_running_config m = Some (clone_config cfg) \<and>
     cm_running_profile m = Some profile \<and> cm_active_profile m = profile_label profile)"

definition start_done :: "config \<Rightarrow> node_profile \<Rightarrow> string list \<Rightarrow> 'n core_st \<Rightarrow> bool" where
  "start_done cfg profile names st \<longleftrightarrow>
     core_running cfg profile st \<and> sr_status (cm_start_report (fst st)) = ''ok'' \<and>
     stage_names (cm_start_report (fst st)) = names \<and> cm_runtime_report (fst st) = cm_start_report (fst st)"

lemma commit_running_fst [core_frame]:
  "fst (commit_running env cfg profile st) = (fst st)
     \<lparr>cm_active_profile := profile_label profile, cm_running_config := Some (clone_config cfg),
      cm_running_profile := Some profile, cm_started_at := fst (os_now (snd st)), cm_state := StateRunning\<rparr>"
  by (simp add: commit_running_def Let_def split_beta)

lemma finish_start_report_fst [core_frame]:
  "fst (finish_start_report st) =
     (let r = finish_ok (cm_start_report (fst st)) (fst (os_now (snd st)))
      in (fst st)\<lparr>cm_start_report := r, cm_runtime_report := r\<rparr>)"
  by (simp add: finish_start_report_def Let_def split_beta)

lemma start_commit_ok:
  "step_ok (starting cfg True True names) (start_commit env profile)
     (start_done cfg profile (names @ [''commit-state''])) start_failed"
  by (rule step_ok_fstI)
     (auto simp: start_commit_def start_done_def core_running_def start_simps core_frame split: option.splits)

lemma start_stages_ok:
  "step_ok (starting cfg False False []) (run_stages (start_stages env profile))
     (start_done cfg profile (start_names (ce_codec env) cfg profile)) start_failed"
proof -
  let ?xr = "when_step (needs_xray profile) (start_xray env)"
  have x: "step_ok (starting cfg False False names) ?xr (starting cfg True False
      (names @ (if needs_xray profile then [''spawn-xray-sidecar'', ''wait-xray-sidecar''] else []))) start_failed"
    for names using start_xray_ok [of cfg names env] by (cases "needs_xray profile") (auto simp: step_ok_def intro: starting_side)
  show ?thesis
    unfolding start_stages_def
    by (rule step_ok_Cons [OF start_xray_config_ok] step_ok_Cons [OF start_render_config_ok]
          step_ok_Cons [OF start_check_config_ok] step_ok_Cons [OF x] step_ok_Cons [OF start_spawn_ok]
          step_ok_Cons [OF start_wait_ok] step_ok_Cons [OF start_verify_owners_ok]
          step_ok_Cons [OF start_net_apply_ok] step_ok_Cons [OF start_net_verify_ok]
          step_ok_Cons [OF start_commit_ok] step_ok_Nil)+ (simp add: start_names_def)
qed

lemma begin_start_starting:
  "nothing_tracked (fst st) \<Longrightarrow> starting (cm_config (fst st)) False False [] (begin_start_report st)"
  by (simp add: begin_start_report_def starting_def Let_def split_beta tracked_defs)

end
