(* ===== verification/CoreSwap.thy ===== *)
theory CoreSwap
  imports CoreStart RootReload
begin

text \<open>
  Every stage of \<^verbatim>\<open>HotSwap\<close> either goes on, refuses with the runtime untouched, or fails with the
  previous runtime restored or the core degraded: one rule per stage, and their chain.
\<close>

section \<open>Stop\<close>

lemma stop_with_mode_fst:
  "force \<Longrightarrow> fst (snd (stop_with_mode env force st)) =
     set_state StateStopped (forget_profile (forget_xray (forget_core (fst st))))"
  by (simp add: stop_with_mode_def Let_def split_beta core_frame core_updates)

section \<open>HotSwap\<close>

definition at_config :: "config \<Rightarrow> bool \<Rightarrow> 'n core_st \<Rightarrow> bool" where
  "at_config cfg up st \<longleftrightarrow> (let m = fst st in
     cm_config m = cfg \<and> cm_exit_ch m = cm_process m \<and> (cm_process m \<noteq> None \<longleftrightarrow> up) \<and>
     cm_pid m = (case cm_process m of None \<Rightarrow> 0 | Some p \<Rightarrow> p))"

definition swapping :: "config \<Rightarrow> bool \<Rightarrow> string list \<Rightarrow> 'n core_st \<Rightarrow> bool" where
  "swapping cfg up names st \<longleftrightarrow>
     at_config cfg up st \<and> cm_state (fst st) = StateStarting \<and>
     stage_names (cm_runtime_report (fst st)) = names"

definition swap_restored :: "rollback_pair \<Rightarrow> go_error \<Rightarrow> 'n core_st \<Rightarrow> bool" where
  "swap_restored rollback e st \<longleftrightarrow> runtime_still_running e \<and>
     (\<exists>cfg profile. rollback = (Some cfg, Some profile) \<and> core_running cfg profile st)"

definition core_degraded :: "'n core_st \<Rightarrow> bool" where
  "core_degraded st \<longleftrightarrow> (let m = fst st in
     cm_state m = StateDegraded \<and> cm_process m = None \<and> cm_exit_ch m = None \<and> cm_pid m = 0 \<and>
     cm_xray_process m = None \<and> cm_running_profile m = None \<and> cm_running_config m = None \<and> cm_active_profile m = [] \<and>
     gone (active_file (cm_data_dir m)) (snd st))"

definition swap_failed :: "rollback_pair \<Rightarrow> go_error \<Rightarrow> 'n core_st \<Rightarrow> bool" where
  "swap_failed rollback e st \<longleftrightarrow>
     swap_restored rollback e st \<or>
     (core_degraded st \<and> \<not> runtime_still_running e \<and> reports e (cm_runtime_report (fst st)))"

lemmas swap_simps = swapping_def at_config_def core_frame core_updates Let_def

lemma degrade_fst [core_frame]:
  "fst (degrade env st) =
     forget_xray (set_state StateDegraded (forget_profile (forget_core (fst st))))"
  by (simp add: degrade_def Let_def core_frame)

lemma restore_previous_ok:
  "step_ok (\<lambda>st. True) (restore_previous env cfg profile) (core_running cfg profile) (\<lambda>e st. True)"
proof -
  have 1: "step_ok (at_config cfg False) (restore_xray env profile) (at_config cfg False) (\<lambda>e st. True)"
    by (rule step_ok_fstI)
       (auto simp: restore_xray_def swap_simps split_beta split: option.splits sum.splits if_splits)
  have 2: "step_ok (at_config cfg False) (restore_core env) (at_config cfg True) (\<lambda>e st. True)"
    by (rule step_ok_fstI)
       (auto simp: restore_core_def swap_simps split_beta split: option.splits sum.splits if_splits)
  have 3: "step_ok (at_config cfg True) (restore_wait env) (at_config cfg True) (\<lambda>e st. True)"
  proof (rule step_ok_fstI)
    fix s assume "at_config cfg True s" "fst (restore_wait env s) = None"
    then show "at_config cfg True (snd (restore_wait env s))"
      using same_core_fields [OF wait_runtime_listeners_same(2) [of s env]]
      by (auto simp: restore_wait_def at_config_def split_beta Let_def split: option.splits)
  qed simp
  have 4: "step_ok (at_config cfg True) (restore_commit env cfg profile) (core_running cfg profile) (\<lambda>e st. True)"
    by (rule step_ok_fstI)
       (auto simp: restore_commit_def core_running_def swap_simps split: option.splits)
  have stages: "step_ok (at_config cfg False)
      (run_stages [restore_xray env profile, restore_core env, restore_wait env, restore_commit env cfg profile])
      (core_running cfg profile) (\<lambda>e st. True)"
    by (rule step_ok_Cons [OF 1 step_ok_Cons [OF 2 step_ok_Cons [OF 3 step_ok_Cons [OF 4 step_ok_Nil]]]])
  have at: "at_config cfg False (on_manager (\<lambda>m. (forget_core m)\<lparr>cm_config := cfg\<rparr>) st)" for st :: "'a core_st"
    by (simp add: swap_simps)
  show ?thesis
  proof (rule step_okI)
    fix s s' :: "'a core_st" assume "restore_previous env cfg profile s = (None, s')"
    then show "core_running cfg profile s'"
      unfolding restore_previous_def Let_def by (rule step_ok_None [OF stages at])
  qed simp
qed

lemma still_running_RuntimeError [simp]:
  "runtime_still_running (RuntimeError layer code hard um dbg b pres r e) \<longleftrightarrow> pres"
  by (simp add: runtime_still_running_def errors_as_unfold)

lemma fail_runtime_reports:
  "fst (fail_runtime n l c e b st) = Some err \<Longrightarrow>
   reports err (cm_runtime_report (fst (snd (fail_runtime n l c e b st)))) \<and> \<not> runtime_still_running err"
  by (auto simp: fail_runtime_def core_frame Let_def reports_def runtime_error_with_report_def)

lemma fail_runtime_fst:
  "same_core (fst st) (fst (snd (fail_runtime n l c e b st)))"
  by (simp add: fail_runtime_def Let_def same_core_record)

lemma fail_runtime_not_None [simp]: "fst (fail_runtime n l c e b st) \<noteq> None"
  by (simp add: fail_runtime_def Let_def)

lemma swap_failure_not_None [simp]: "fst (swap_failure env rollback n l c e st) \<noteq> None"
  by (simp add: swap_failure_def split_beta del: not_None_eq)

lemma same_core_reports [simp]:
  "same_core m (m'\<lparr>cm_runtime_report := r\<rparr>) \<longleftrightarrow> same_core m m'"
  "same_core m (m'\<lparr>cm_start_report := r\<rparr>) \<longleftrightarrow> same_core m m'"
  by (simp_all add: same_core_def)

lemma core_degraded_degrade: "core_degraded (degrade env st)"
  by (simp add: core_degraded_def core_frame core_updates Let_def)
     (simp add: degrade_def Let_def core_frame core_updates gone_remove)

lemma core_degraded_fail: "core_degraded st \<Longrightarrow> core_degraded (snd (fail_runtime n l c e b st))"
  by (simp add: core_degraded_def fail_runtime_def core_frame Let_def gone_def record_runtime_def split_beta)

lemma core_degraded_remove: "core_degraded st \<Longrightarrow> core_degraded (on_device (remove_quietly p) st)"
  by (simp add: core_degraded_def core_frame Let_def gone_remove_other)

lemma swap_failure_failed:
  assumes "fst (swap_failure env rollback n l c e st) = Some err"
  shows "swap_failed rollback err (snd (swap_failure env rollback n l c e st))"
proof -
  obtain preserved final st1 where r: "cleanup_and_degrade env rollback e st = (preserved, final, st1)"
    by (cases "cleanup_and_degrade env rollback e st") auto
  show ?thesis
  proof (cases preserved)
    case True
    with r obtain cfg profile where rb: "rollback = (Some cfg, Some profile)"
      "restore_previous env cfg profile st = (None, st1)"
      by (auto simp: cleanup_and_degrade_def split: prod.splits option.splits)
    then have "core_running cfg profile st1"
      using step_ok_None [OF restore_previous_ok [of env cfg profile]] by blast
    with r True assms rb show ?thesis
      by (auto simp: swap_failure_def swap_failed_def swap_restored_def runtime_preserved_error_with_report_def runtime_error_with_report_def)
  next
    case False
    with r have "core_degraded st1"
      by (auto simp: cleanup_and_degrade_def core_degraded_degrade split: prod.splits option.splits)
    with r False assms show ?thesis
      using fail_runtime_reports [of n l c final True st1 err]
        core_degraded_fail [of st1 n l c final True]
      by (auto simp: swap_failure_def swap_failed_def)
  qed
qed

text \<open>Before the old process is gone, a failure leaves the manager as it was.\<close>

definition untouched :: "core_manager \<Rightarrow> string list \<Rightarrow> 'n core_st \<Rightarrow> bool" where
  "untouched m names st \<longleftrightarrow> same_core m (fst st) \<and> stage_names (cm_runtime_report (fst st)) = names"

definition swap_refused :: "core_manager \<Rightarrow> go_error \<Rightarrow> 'n core_st \<Rightarrow> bool" where
  "swap_refused m e st \<longleftrightarrow> same_core m (fst st) \<and> reports e (cm_runtime_report (fst st)) \<and>
     \<not> runtime_still_running e"

lemma fail_runtime_refused:
  "fst (fail_runtime n l c e b st) = Some err \<Longrightarrow> same_core m (fst st) \<Longrightarrow>
   swap_refused m err (snd (fail_runtime n l c e b st))"
  using fail_runtime_reports [of n l c e b st err] fail_runtime_fst [of st n l c e b]
  by (auto simp: swap_refused_def intro: same_core_trans)

lemma swap_xray_config_ok:
  "step_ok (untouched m names) (swap_xray_config env profile)
     (untouched m (names @ (if needs_xray profile then [''render-xray-config'', ''xray-config-check''] else [])))
     (swap_refused m)"
  by (rule step_ok_fstI)
     (auto simp: swap_xray_config_def split_beta untouched_def core_frame Let_def
        split: option.splits if_splits intro!: fail_runtime_refused)

lemma swap_render_config_ok:
  "step_ok (untouched m names) (swap_render_config env profile)
     (untouched m (names @ [''render-config''])) (swap_refused m)"
  by (rule step_ok_fstI)
     (auto simp: swap_render_config_def split_beta untouched_def core_frame Let_def
        split: option.splits if_splits intro!: fail_runtime_refused)

lemma swap_check_config_ok:
  "step_ok (untouched m names) (swap_check_config env)
     (untouched m (names @ [''config-check''])) (swap_refused m)"
  by (rule step_ok_fstI)
     (auto simp: swap_check_config_def split_beta untouched_def core_frame Let_def
        split: option.splits if_splits intro!: fail_runtime_refused)

lemma swap_stop_old_ok:
  "core_wf m \<Longrightarrow> step_ok (untouched m names) swap_stop_old
     (swapping (cm_config m) False (names @ [''stop-old-core''])) (swap_refused m)"
  by (rule step_ok_fstI)
     (auto simp: swap_stop_old_def untouched_def core_wf_def swap_simps split_beta
        dest: same_core_fields split: option.splits if_splits intro!: fail_runtime_refused)

lemma swap_xray_ok:
  "step_ok (swapping cfg False names) (swap_xray env rollback profile)
     (swapping cfg False (names @ (if needs_xray profile then [''spawn-xray-sidecar'', ''wait-xray-sidecar''] else [])))
     (swap_failed rollback)"
  by (rule step_ok_fstI)
     (auto simp: swap_xray_def swap_simps split_beta
        split: option.splits sum.splits if_splits prod.splits intro!: swap_failure_failed)

lemma swap_spawn_ok:
  "step_ok (swapping cfg False names) (swap_spawn env rollback)
     (swapping cfg True (names @ [''spawn-core''])) (swap_failed rollback)"
  by (rule step_ok_fstI)
     (auto simp: swap_spawn_def swap_simps split_beta
        split: option.splits sum.splits if_splits intro!: swap_failure_failed)

lemma wait_listeners_runtime_names:
  "fst (wait_listeners record_runtime p specs st) = None \<Longrightarrow>
   stage_names (cm_runtime_report (fst (snd (wait_listeners record_runtime p specs st)))) =
     stage_names (cm_runtime_report (fst st)) @ map ls_Stage specs"
proof (induction specs arbitrary: st)
  case (Cons spec specs)
  obtain m w where st: "st = (m, w)" by (cases st)
  from Cons.prems Cons.IH show ?case
    by (auto simp: st core_frame Let_def split: prod.splits option.splits)
qed simp

lemma swap_wait_ok:
  "step_ok (swapping cfg True names) (swap_wait_listeners env rollback)
     (swapping cfg True (names @ map ls_Stage (runtime_listener_waits (ce_codec env) cfg))) (swap_failed rollback)"
proof (rule step_ok_fstI)
  fix s assume s: "swapping cfg True names s" "fst (swap_wait_listeners env rollback s) = None"
  then show "swapping cfg True (names @ map ls_Stage (runtime_listener_waits (ce_codec env) cfg))
      (snd (swap_wait_listeners env rollback s))"
    using wait_runtime_listeners_same(2) [of s env]
      wait_listeners_runtime_names [of "singbox_log (cm_data_dir (fst s))" "runtime_listener_waits (ce_codec env) cfg" s]
    by (auto simp: swap_wait_listeners_def wait_runtime_listeners_def swapping_def at_config_def
          same_core_iff Let_def split_beta split: option.splits)
next
  fix s e assume "swapping cfg True names s" "fst (swap_wait_listeners env rollback s) = Some e"
  then show "swap_failed rollback e (snd (swap_wait_listeners env rollback s))"
    by (auto simp: swap_wait_listeners_def split_beta split: option.splits intro!: swap_failure_failed)
qed

lemma swap_commit_config_ok:
  "step_ok (swapping cfg True names) (swap_commit_config env rollback)
     (swapping cfg True (names @ [''commit-config''])) (swap_failed rollback)"
  by (rule step_ok_fstI)
     (auto simp: swap_commit_config_def swap_simps split_beta
        split: option.splits intro!: swap_failure_failed)

definition swap_done :: "config \<Rightarrow> node_profile \<Rightarrow> string list \<Rightarrow> 'n core_st \<Rightarrow> bool" where
  "swap_done cfg profile names st \<longleftrightarrow>
     core_running cfg profile st \<and> sr_status (cm_runtime_report (fst st)) = ''ok'' \<and>
     stage_names (cm_runtime_report (fst st)) = names"

lemma swap_commit_ok:
  "step_ok (swapping cfg True names) (swap_commit env profile)
     (swap_done cfg profile (names @ [''commit-state''])) (swap_failed rollback)"
  by (rule step_ok_fstI)
     (auto simp: swap_commit_def swap_done_def core_running_def swap_simps split_beta split: option.splits)

definition swap_names :: "json_codec \<Rightarrow> config \<Rightarrow> node_profile \<Rightarrow> string list" where
  "swap_names codec cfg profile =
     (if needs_xray profile then [''render-xray-config'', ''xray-config-check''] else []) @
     [''render-config'', ''config-check'', ''stop-old-core''] @
     (if needs_xray profile then [''spawn-xray-sidecar'', ''wait-xray-sidecar''] else []) @
     [''spawn-core''] @ map ls_Stage (runtime_listener_waits codec cfg) @ [''commit-config'', ''commit-state'']"

definition swap_error :: "core_manager \<Rightarrow> rollback_pair \<Rightarrow> go_error \<Rightarrow> 'n core_st \<Rightarrow> bool" where
  "swap_error m rollback e st \<longleftrightarrow> swap_refused m e st \<or> swap_failed rollback e st"

lemma swap_stages_ok:
  fixes names :: "string list"
  assumes "core_wf m"
  shows "step_ok (untouched m (if needs_xray profile then [''render-xray-config'', ''xray-config-check''] else []))
     (run_stages (swap_early env profile @ swap_late env rollback profile))
     (swap_done (cm_config m) profile (swap_names (ce_codec env) (cm_config m) profile))
     (swap_error m rollback)"
proof -
  have early: "step_ok P f R (swap_refused m) \<Longrightarrow> step_ok P f R (swap_error m rollback)" for P f R
    by (erule step_ok_weaken) (auto simp: swap_error_def)
  have late: "step_ok P f R (swap_failed rollback) \<Longrightarrow> step_ok P f R (swap_error m rollback)" for P f R
    by (erule step_ok_weaken) (auto simp: swap_error_def)
  show ?thesis
    unfolding swap_early_def swap_late_def append.simps
    by (rule step_ok_Cons [OF early [OF swap_render_config_ok]] step_ok_Cons [OF early [OF swap_check_config_ok]]
          step_ok_Cons [OF early [OF swap_stop_old_ok [OF assms]]] step_ok_Cons [OF late [OF swap_xray_ok]]
          step_ok_Cons [OF late [OF swap_spawn_ok]] step_ok_Cons [OF late [OF swap_wait_ok]]
          step_ok_Cons [OF late [OF swap_commit_config_ok]] step_ok_Cons [OF late [OF swap_commit_ok]]
          step_ok_Nil)+ (simp add: swap_names_def)
qed

lemma hot_swap_result:
  assumes "core_wf (fst st)"
    and "rollback = (map_option clone_config (cm_running_config (fst st)), cm_running_profile (fst st))"
    and "hot_swap env profile st = (err, st')"
  shows "case err of
      None \<Rightarrow> swap_done (cm_config (fst st)) profile (swap_names (ce_codec env) (cm_config (fst st)) profile) st'
    | Some e \<Rightarrow> swap_error (fst st) rollback e st'"
proof -
  let ?m = "fst st"
  let ?d = "on_device (remove_quietly (hotswap_config (cm_data_dir ?m)))"
  let ?st0 = "begin_swap_report st"
  have begin_ok: "untouched ?m [] ?st0"
    by (simp add: untouched_def begin_swap_report_def Let_def split_beta)
  have dev: "fst (?d s) = fst s" for s by (simp add: core_frame)
  have keep: "untouched ?m ns (?d s) = untouched ?m ns s" "swap_done c p ns (?d s) = swap_done c p ns s"
    "swap_error ?m r e s \<Longrightarrow> swap_error ?m r e (?d s)" for ns s c p r e
    using core_degraded_remove [of s "hotswap_config (cm_data_dir ?m)"]
    by (auto simp: untouched_def swap_done_def core_running_def swap_error_def swap_refused_def swap_failed_def
         swap_restored_def dev)
  obtain e1 st1 where x: "swap_xray_config env profile ?st0 = (e1, st1)"
    by (metis prod.exhaust)
  show ?thesis
  proof (cases e1)
    case (Some e)
    with x have "swap_refused ?m e st1"
      using step_ok_Some [OF swap_xray_config_ok begin_ok] by blast
    with assms(3) x Some show ?thesis
      by (auto simp: hot_swap_def swap_error_def Let_def)
  next
    case None
    with x have "untouched ?m (if needs_xray profile then [''render-xray-config'', ''xray-config-check''] else []) st1"
      using step_ok_None [OF swap_xray_config_ok begin_ok] by fastforce
    then have u: "untouched ?m (if needs_xray profile then [''render-xray-config'', ''xray-config-check''] else []) (?d st1)"
      by (simp only: keep)
    obtain e2 st2 where r: "run_stages (swap_early env profile @ swap_late env rollback profile) (?d st1) = (e2, st2)"
      by (metis prod.exhaust)
    from x None r assms(2,3) have st': "err = e2" "st' = ?d st2"
      by (auto simp: hot_swap_def Let_def)
    show ?thesis
    proof (cases e2)
      case None
      have "swap_done (cm_config ?m) profile (swap_names (ce_codec env) (cm_config ?m) profile) st2"
        by (rule step_ok_None [OF swap_stages_ok [OF assms(1)] u r [unfolded None]])
      then show ?thesis by (simp add: st' keep None)
    next
      case (Some e)
      have "swap_error ?m rollback e st2"
        by (rule step_ok_Some [OF swap_stages_ok [OF assms(1)] u r [unfolded Some]])
      then show ?thesis by (simp add: st' keep Some)
    qed
  qed
qed

end
