(* ===== verification/CoreInvariant.thy ===== *)
theory CoreInvariant
  imports CoreSwap
begin

text \<open>
  An invariant of the core manager that every operation keeps, from every state that has it:
  also when a start follows a degraded runtime whose process is still tracked.
\<close>

section \<open>The invariant\<close>

text \<open>
  Between two calls the manager is in one of the resting states, and a running core has a process
  and a profile.
\<close>

definition core_inv :: "core_manager \<Rightarrow> bool" where
  "core_inv m \<longleftrightarrow> core_wf m \<and> cm_state m \<noteq> StateStarting \<and> cm_state m \<noteq> StateStopping \<and>
     (cm_state m = StateRunning \<longrightarrow> cm_process m \<noteq> None \<and> cm_running_profile m \<noteq> None)"

definition wf_starting :: "'n core_st \<Rightarrow> bool" where
  "wf_starting st \<longleftrightarrow> core_wf (fst st) \<and> cm_state (fst st) = StateStarting"

definition wf_stopped :: "go_error \<Rightarrow> 'n core_st \<Rightarrow> bool" where
  "wf_stopped e st \<longleftrightarrow> core_wf (fst st) \<and> cm_state (fst st) = StateStopped"

lemma wf_stopped_fail:
  "wf_stopped e st \<Longrightarrow> wf_stopped e' (snd (fail_start n l c err b st))"
  by (simp add: wf_stopped_def fail_start_def core_frame Let_def core_wf_def)

lemmas wf_simps = wf_starting_def wf_stopped_def core_wf_def core_frame core_updates Let_def split_beta

lemma wf_same: "core_wf m \<Longrightarrow> same_core m m' \<Longrightarrow> core_wf m'"
  by (auto simp: core_wf_def same_core_iff)

lemma start_stage_wf:
  "f \<in> set (butlast (start_stages env profile)) \<Longrightarrow> step_ok wf_starting f wf_starting wf_stopped"
proof -
  have a: "step_ok wf_starting (start_xray_config env profile) wf_starting wf_stopped"
    by (rule step_ok_fstI) (auto simp: start_xray_config_def wf_simps fail_start_def split: option.splits if_splits)
  have b: "step_ok wf_starting (start_render_config env profile) wf_starting wf_stopped"
    by (rule step_ok_fstI) (auto simp: start_render_config_def wf_simps fail_start_def split: option.splits if_splits)
  have c: "step_ok wf_starting (start_check_config env) wf_starting wf_stopped"
    by (rule step_ok_fstI) (auto simp: start_check_config_def wf_simps fail_start_def split: option.splits if_splits)
  have d: "step_ok wf_starting (start_xray env) wf_starting wf_stopped"
    by (rule step_ok_fstI) (auto simp: start_xray_def wf_simps fail_start_def split: option.splits sum.splits if_splits)
  have e: "step_ok wf_starting (start_spawn env) wf_starting wf_stopped"
    by (rule step_ok_fstI) (auto simp: start_spawn_def start_abort_def wf_simps fail_start_def split: option.splits sum.splits if_splits)
  have f: "step_ok wf_starting (start_verify_owners env) wf_starting wf_stopped"
    by (rule step_ok_fstI) (auto simp: start_verify_owners_def wf_simps fail_start_def split: option.splits if_splits)
  have g: "step_ok wf_starting (start_net_apply env) wf_starting wf_stopped"
    by (rule step_ok_fstI) (auto simp: start_net_apply_def wf_simps fail_start_def split: option.splits if_splits)
  have h: "step_ok wf_starting (start_net_verify env) wf_starting wf_stopped"
    by (rule step_ok_fstI) (auto simp: start_net_verify_def wf_simps fail_start_def split: option.splits if_splits)
  have i: "step_ok wf_starting (start_wait_listeners env) wf_starting wf_stopped"
  proof (rule step_ok_fstI)
    fix s assume "wf_starting s" "fst (start_wait_listeners env s) = None"
    then show "wf_starting (snd (start_wait_listeners env s))"
      using wf_same [OF _ wait_runtime_listeners_same(1) [of s env]]
        same_core_fields [OF wait_runtime_listeners_same(1) [of s env]]
      by (auto simp: start_wait_listeners_def wf_starting_def split_beta split: option.splits)
  next
    fix s e assume "wf_starting s" "fst (start_wait_listeners env s) = Some e"
    then show "wf_stopped e (snd (start_wait_listeners env s))"
      by (auto simp: start_wait_listeners_def wf_simps fail_start_def split: option.splits)
  qed
  have d': "step_ok wf_starting (when_step b (start_xray env)) wf_starting wf_stopped" for b
    by (rule step_ok_when) (auto intro: d)
  show "f \<in> set (butlast (start_stages env profile)) \<Longrightarrow> step_ok wf_starting f wf_starting wf_stopped"
    using a b c d' e f g h i by (auto simp: start_stages_def)
qed

lemma start_commit_inv: "wf_starting st \<Longrightarrow> cm_process (fst st) \<noteq> None \<Longrightarrow> core_inv (fst (snd (start_commit env profile st)))"
  by (auto simp: start_commit_def wf_simps core_inv_def)

lemma start_commit_fst: "fst (start_commit env profile st) = None"
  by (simp add: start_commit_def Let_def)

lemma start_keeps_process:
  "f \<in> set (drop 5 (butlast (start_stages env profile))) \<Longrightarrow>
   step_ok (\<lambda>st. cm_process (fst st) \<noteq> None) f (\<lambda>st. cm_process (fst st) \<noteq> None) (\<lambda>e st. True)"
proof -
  have i: "step_ok (\<lambda>st. cm_process (fst st) \<noteq> None) (start_wait_listeners env) (\<lambda>st. cm_process (fst st) \<noteq> None) (\<lambda>e st. True)"
  proof (rule step_ok_fstI)
    fix s :: "'a core_st" assume "cm_process (fst s) \<noteq> None" "fst (start_wait_listeners env s) = None"
    then show "cm_process (fst (snd (start_wait_listeners env s))) \<noteq> None"
      using same_core_fields [OF wait_runtime_listeners_same(1) [of s env]]
      by (auto simp: start_wait_listeners_def split_beta split: option.splits)
  qed simp
  have n: "step_ok (\<lambda>st. cm_process (fst st) \<noteq> None) f (\<lambda>st. cm_process (fst st) \<noteq> None) (\<lambda>e st. True)"
    if "f \<in> {start_verify_owners env, start_net_apply env, start_net_verify env}" for f
    using that
    by (auto intro!: step_ok_fstI simp: start_verify_owners_def start_net_apply_def start_net_verify_def
          core_frame Let_def split_beta split: option.splits)
  from i n show "f \<in> set (drop 5 (butlast (start_stages env profile))) \<Longrightarrow>
      step_ok (\<lambda>st. cm_process (fst st) \<noteq> None) f (\<lambda>st. cm_process (fst st) \<noteq> None) (\<lambda>e st. True)"
    by (auto simp: start_stages_def)
qed

lemma start_spawn_process:
  "step_ok wf_starting (start_spawn env) (\<lambda>st. cm_process (fst st) \<noteq> None) (\<lambda>e st. True)"
  by (rule step_ok_fstI)
     (auto simp: start_spawn_def start_abort_def wf_simps split: option.splits sum.splits)

lemma core_start_inv:
  assumes "core_inv (fst st)"
  shows "core_inv (fst (snd (core_start env profile st)))"
proof (cases "cm_state (fst st) = StateRunning \<or> cm_state (fst st) = StateStarting")
  case True
  with assms show ?thesis by (auto simp: core_start_def)
next
  case False
  let ?up = "\<lambda>st. wf_starting st \<and> cm_process (fst st) \<noteq> None"
  let ?Q = "\<lambda>e st. core_inv (fst st)"
  let ?all = "butlast (start_stages env profile)"
  have Q: "wf_stopped e st \<Longrightarrow> core_inv (fst st)" for e and st :: "'a core_st"
    by (simp add: wf_stopped_def core_inv_def)
  have 1: "step_ok wf_starting (run_stages (take 4 ?all)) wf_starting ?Q"
    by (rule step_ok_all, rule step_ok_weaken [OF start_stage_wf])
       (auto dest: in_set_takeD Q)
  have sp: "start_spawn env \<in> set ?all" by (simp add: start_stages_def)
  have 2: "step_ok wf_starting (start_spawn env) ?up ?Q"
    by (rule step_ok_weaken [OF step_ok_conj [OF start_stage_wf [OF sp] start_spawn_process]]) (auto dest: Q)
  have 3: "step_ok ?up (run_stages (drop 5 ?all)) ?up ?Q"
    by (rule step_ok_all, rule step_ok_weaken [OF step_ok_conj [OF start_stage_wf start_keeps_process]])
       (auto dest: in_set_dropD Q)
  have 4: "step_ok ?up (start_commit env profile) (\<lambda>st. core_inv (fst st)) ?Q"
    by (rule step_ok_fstI) (auto simp: start_commit_inv start_commit_fst)
  have "step_ok wf_starting (run_stages (take 4 ?all @ start_spawn env # drop 5 ?all @ [start_commit env profile]))
      (\<lambda>st. core_inv (fst st)) ?Q"
    by (rule step_ok_append [OF 1 step_ok_Cons [OF 2 step_ok_append [OF 3 step_ok_Cons [OF 4 step_ok_Nil]]]])
  moreover have "take 4 ?all @ start_spawn env # drop 5 ?all @ [start_commit env profile] = start_stages env profile"
    by (simp add: start_stages_def)
  ultimately have ok: "step_ok wf_starting (run_stages (start_stages env profile)) (\<lambda>st. core_inv (fst st)) ?Q"
    by (simp only:)
  have "wf_starting (begin_start_report st)"
    using assms by (simp add: begin_start_report_def core_inv_def wf_simps)
  then have "core_inv (fst (snd (run_stages (start_stages env profile) (begin_start_report st))))"
    by (rule step_ok_snd [OF ok])
  with False show ?thesis by (simp add: core_start_def)
qed

lemma core_running_inv: "core_running cfg profile st \<Longrightarrow> core_inv (fst st)"
  unfolding core_running_def core_inv_def core_wf_def Let_def by simp

lemma core_same_inv: "core_inv m \<Longrightarrow> same_core m m' \<Longrightarrow> core_inv m'"
  unfolding same_core_iff by (elim exE) (simp add: core_inv_def core_wf_def)

lemma core_degraded_inv: "core_degraded st \<Longrightarrow> core_inv (fst st)"
  by (simp add: core_degraded_def core_inv_def core_wf_def Let_def)

lemma hot_swap_inv:
  assumes "core_inv (fst st)"
  shows "core_inv (fst (snd (hot_swap env profile st)))"
proof -
  obtain err st' where run: "hot_swap env profile st = (err, st')" by (metis prod.exhaust)
  have wf: "core_wf (fst st)" using assms by (simp add: core_inv_def)
  show ?thesis
  proof (cases err)
    case None
    with hot_swap_result [OF wf refl run] show ?thesis
      by (auto simp: run swap_done_def dest: core_running_inv)
  next
    case (Some e)
    with hot_swap_result [OF wf refl run] show ?thesis
      using assms core_same_inv [of "fst st" "fst st'"]
      by (auto simp: run swap_error_def swap_refused_def swap_failed_def swap_restored_def
            dest: core_running_inv core_degraded_inv)
  qed
qed

lemma core_stop_inv: "core_inv (fst (snd (core_stop env st)))"
  by (simp add: core_stop_def stop_with_mode_fst core_inv_def core_wf_def core_updates)

end
