(* ===== verification/CoreStop.thy ===== *)
theory CoreStop
  imports CoreInvariant
begin

text \<open>
  Stopping the core: what the calls of \<^verbatim>\<open>Processes\<close> do to the live processes, and what is left
  on the device when \<^verbatim>\<open>Stop\<close> returns.  The last section bounds the calls of the listener wait.
\<close>

section \<open>Live processes\<close>

definition no_faults :: "'w device_scheme \<Rightarrow> bool" where
  "no_faults w \<longleftrightarrow> (\<forall>n. oc_fault (dv_plan w n) = None)"

lemma dv_plan_turn [simp]: "dv_plan (snd (os_turn w)) = dv_plan w"
  "dv_killed (snd (os_turn w)) = dv_killed w" "dv_received (snd (os_turn w)) = dv_received w"
  by (simp_all add: os_turn_def Let_def)

lemma dv_live_turn: "dv_live (snd (os_turn w)) \<subseteq> dv_live w"
  by (auto simp: os_turn_def Let_def)

lemma os_signal_world [simp]:
  "dv_plan (snd (os_signal_process p s w)) = dv_plan w"
  "dv_live (snd (os_signal_process p s w)) = dv_live (snd (os_turn w))"
  by (simp_all add: os_signal_process_def Let_def split_beta split: option.split)

lemma os_await_world [simp]:
  "dv_plan (snd (os_await_exit ch w)) = dv_plan w"
  "dv_live (snd (os_await_exit ch w)) = dv_live (snd (os_turn w))"
  by (simp_all add: os_await_exit_def receive_exit_def Let_def split_beta split: option.split)

lemma os_await_dead: "fst (os_await_exit (Some p) w) \<Longrightarrow> p \<notin> dv_live (snd (os_turn w))"
  by (auto simp: os_await_exit_def exit_ready_def Let_def split_beta)

lemma os_signal_dead:
  "no_faults w \<Longrightarrow> fst (os_signal_process p s w) = Some e \<Longrightarrow> p \<notin> dv_live (snd (os_turn w))"
  by (auto simp: os_signal_process_def no_faults_def os_turn_def Let_def split: if_splits)

lemma os_now_world [simp]:
  "dv_plan (snd (os_now w)) = dv_plan w" "dv_live (snd (os_now w)) = dv_live (snd (os_turn w))"
  by (simp_all add: os_now_def Let_def split_beta)

text \<open>A child that was stopped without an error is dead.\<close>

lemma kill_with_wait_dead:
  assumes "no_faults w" "fst (kill_with_wait (Some p) pid (Some p) w) = None"
  shows "p \<notin> dv_live (snd (kill_with_wait (Some p) pid (Some p) w))"
proof -
  have nf: "no_faults (snd (os_signal_process p s w'))" "no_faults (snd (os_await_exit ch w'))"
    if "no_faults w'" for s ch and w' :: "'a device_scheme" using that by (simp_all add: no_faults_def)
  show ?thesis
    using assms os_await_dead [of p] os_signal_dead [OF nf(2) [OF nf(1) [OF assms(1)]], of p]
    by (auto simp: kill_with_wait_def Let_def split_beta split: option.splits if_splits)
qed

text \<open>Stopping things starts nothing.\<close>

definition no_new :: "'w device_scheme \<Rightarrow> 'w device_scheme \<Rightarrow> bool" where
  "no_new w w' \<longleftrightarrow> dv_live w' \<subseteq> dv_live w \<and> dv_plan w' = dv_plan w"

lemma no_new_refl [simp]: "no_new w w"
  by (simp add: no_new_def)

lemma no_new_trans: "no_new w w1 \<Longrightarrow> no_new w1 w2 \<Longrightarrow> no_new w w2"
  by (auto simp: no_new_def)

lemma no_new_signal: "no_new w (snd (os_signal_process p s w))"
  using dv_live_turn [of w] by (simp add: no_new_def)

lemma no_new_await: "no_new w (snd (os_await_exit ch w))"
  using dv_live_turn [of w] by (simp add: no_new_def)

lemma no_new_remove [simp]: "no_new w (remove_quietly p v) \<longleftrightarrow> no_new w v"
  by (simp add: no_new_def os_remove_def split: sum.split)

lemmas no_new_prims = no_new_signal no_new_await no_new_trans [OF _ no_new_signal] no_new_trans [OF _ no_new_await]

lemma no_new_kill: "no_new w (snd (kill_with_wait p pid ch w))"
  by (simp add: kill_with_wait_def Let_def split_beta no_new_prims split: option.split)

lemma no_new_untracked:
  "no_new w (snd (fold (kill_untracked env b cs) es (errs, w)))"
proof (induction es arbitrary: errs w)
  case (Cons e es)
  have "no_new w (snd (kill_untracked env b cs e (errs, w)))"
    by (simp add: kill_untracked_def Let_def split_beta no_new_prims split: option.split)
  moreover have "no_new (snd (kill_untracked env b cs e (errs, w)))
      (snd (fold (kill_untracked env b cs) es (kill_untracked env b cs e (errs, w))))"
    using Cons.IH [of "snd (kill_untracked env b cs e (errs, w))" "fst (kill_untracked env b cs e (errs, w))"]
    by simp
  ultimately show ?case unfolding fold_simps by (rule no_new_trans)
qed simp

lemma no_new_stop_xray: "no_new (snd st) (snd (snd (stop_xray_sidecar env st)))"
  by (cases "cm_xray_process (fst st)")
     (simp_all add: stop_xray_sidecar_def kill_tracked_xray_def kill_tracked_pids_def Let_def split_beta
        no_new_kill no_new_untracked)

lemma core_stop_dead:
  assumes "core_wf (fst st)" "cm_process (fst st) = Some p" "no_faults (snd st)"
    and "core_stop env st = (None, st')"
  shows "p \<notin> dv_live (snd st')"
proof -
  let ?d = "cm_data_dir (fst st)"
  define st2 where "st2 = snd (core_net_cleanup env
    (on_device (remove_quietly (active_file ?d)) (on_manager (set_state StateStopping) st)))"
  define st3 where "st3 = snd (stop_core_process env st2)"
  have m2: "cm_process (fst st2) = Some p" "cm_exit_ch (fst st2) = Some p"
    using assms(1,2) by (simp_all add: st2_def core_frame core_updates core_wf_def)
  have "no_new (snd st) (snd st2)"
    by (simp add: st2_def core_net_cleanup_def on_net_def on_device_def on_manager_def Let_def split_beta
        no_new_def os_remove_def split: sum.split)
  with assms(3) have nf: "no_faults (snd st2)" by (simp add: no_faults_def no_new_def)
  from assms(4) have "fst (stop_core_process env st2) = None"
    by (auto simp: core_stop_def stop_with_mode_def Let_def split_beta st2_def first_error_of_def split: option.splits)
  then have "p \<notin> dv_live (snd st3)"
    using kill_with_wait_dead [OF nf, of p "cm_pid (fst st2)"] m2
    by (simp add: st3_def stop_core_process_def kill_process_def Let_def split_beta)
  moreover have "no_new (snd st3) (snd (snd (stop_xray_sidecar env st3)))" by (rule no_new_stop_xray)
  moreover have "snd st' = remove_quietly (xray_pid_file ?d) (remove_quietly (singbox_pid_file ?d)
      (snd (snd (stop_xray_sidecar env st3))))"
    using assms(4) by (auto simp: core_stop_def stop_with_mode_def Let_def split_beta st2_def st3_def core_frame)
  ultimately show ?thesis by (auto simp: no_new_def os_remove_def split: sum.split)
qed

lemma core_stop_gone:
  assumes "core_stop env st = (err, st')"
  shows "gone (singbox_pid_file (cm_data_dir (fst st))) (snd st') \<and>
         gone (xray_pid_file (cm_data_dir (fst st))) (snd st') \<and>
         gone (active_file (cm_data_dir (fst st))) (snd st')"
proof -
  let ?d = "cm_data_dir (fst st)"
  define st2 where "st2 = snd (core_net_cleanup env
    (on_device (remove_quietly (active_file ?d)) (on_manager (set_state StateStopping) st)))"
  define st4 where "st4 = snd (stop_xray_sidecar env (snd (stop_core_process env st2)))"
  have "gone (active_file ?d) (snd st2)"
    by (simp add: st2_def gone_net core_frame gone_remove)
  then have "gone (active_file ?d) (snd st4)"
    unfolding st4_def by (intro gone_stop_xray gone_stop_core)
  moreover have "snd st' = remove_quietly (xray_pid_file ?d) (remove_quietly (singbox_pid_file ?d) (snd st4))"
    using assms by (auto simp: core_stop_def stop_with_mode_def Let_def split_beta st2_def st4_def core_frame)
  ultimately show ?thesis by (simp add: gone_remove gone_remove_other)
qed

section \<open>Processes that ignore a signal\<close>

lemma dv_live_calm:
  "\<forall>n. oc_exits (dv_plan w n) = [] \<Longrightarrow> dv_live (snd (os_turn w)) = dv_live w"
  by (simp add: os_turn_def Let_def)

lemma signal_term_world:
  assumes "\<forall>n. oc_exits (dv_plan (snd st) n) = []"
  shows "dv_live (snd (signal_and_wait SIGTERM st)) = dv_live (snd st)"
    "dv_killed (snd (signal_and_wait SIGTERM st)) = dv_killed (snd st)"
    "fs_files (snd (signal_and_wait SIGTERM st)) = fs_files (snd st)"
  using assms
  by (auto simp: signal_and_wait_def split_beta Let_def dv_live_calm os_signal_process_def os_await_exit_def
        receive_exit_def split: option.splits)

lemma stop_xray_nothing:
  assumes "cm_xray_process (fst st) = None" "cm_xray_pid (fst st) = 0"
    "fs_files (snd st) (xray_pid_file (cm_data_dir (fst st))) = None"
  shows "snd (snd (stop_xray_sidecar env st)) = remove_quietly (xray_pid_file (cm_data_dir (fst st))) (snd st)"
  using assms
  by (simp add: stop_xray_sidecar_def kill_tracked_xray_def kill_tracked_pids_def tracked_pids_def
        os_read_file_def fs_access_def split_beta Let_def split: option.splits)

section \<open>Rounds of the listener wait\<close>

lemma dv_tick_turn [simp]: "dv_tick (snd (os_turn w)) = Suc (dv_tick w)" "fst (os_turn w) = dv_plan w (dv_tick w)"
  by (simp_all add: os_turn_def Let_def)

lemma receive_exit_tick [simp]: "dv_tick (receive_exit ch w) = dv_tick w"
  by (simp add: receive_exit_def split: option.split)

lemma wait_rounds_bound:
  "let r = wait_rounds port ch lp start timeout k w in
     dv_tick w < dv_tick (snd r) \<and>
     int (dv_tick (snd r)) \<le> int (dv_tick w) + max 1 (timeout div poll_period + 2 - int k) \<and>
     (fst r = None \<longleftrightarrow> oc_dial (dv_plan w (dv_tick (snd r) - 1)) = None)"
proof (induction port ch lp start timeout k w rule: wait_rounds.induct)
  case (1 port ch lp start timeout k w)
  let ?w1 = "snd (os_turn w)" and ?c = "dv_plan w (dv_tick w)"
  show ?case
  proof (cases "oc_dial ?c = None \<or> (exit_ready ch ?w1 \<and> \<not> oc_late ?c) \<or> start + timeout < tick_time start k ?c")
    case True
    then show ?thesis
      by (auto simp: wait_rounds.simps [of port ch lp start timeout k w] split_beta Let_def
            exit_message_def timeout_message_def split: option.splits)
  next
    case False
    then obtain m where m: "oc_dial ?c = Some m" by auto
    let ?r = "wait_rounds port ch lp start timeout (Suc k) ?w1"
    have "wait_rounds port ch lp start timeout k w = ?r"
      using False m by (auto simp: wait_rounds.simps [of port ch lp start timeout k w] split_beta Let_def)
    moreover have "int k \<le> timeout div poll_period"
      using False by (intro rounds_bound [of start timeout k ?c]) simp
    moreover have "let r = ?r in dv_tick ?w1 < dv_tick (snd r) \<and>
        int (dv_tick (snd r)) \<le> int (dv_tick ?w1) + max 1 (timeout div poll_period + 2 - int (Suc k)) \<and>
        (fst r = None \<longleftrightarrow> oc_dial (dv_plan ?w1 (dv_tick (snd r) - 1)) = None)"
      using "1.IH" [of "os_turn w" ?c ?w1 m] False m by (auto simp: prod_eq_iff)
    ultimately show ?thesis by (simp add: Let_def)
  qed
qed

end
