(* ===== verification/CoreProperties.thy ===== *)
theory CoreProperties
  imports CoreStop
begin

text \<open>
  What the core manager guarantees for every behaviour of the device (the plan is arbitrary), of
  the external checks and of the scripts.
\<close>

definition calm :: "nat \<Rightarrow> os_choice" where
  "calm n = \<lparr>oc_now = int n * second, oc_exits = [], oc_fault = None, oc_pid = 100 + int n,
     oc_dial = None, oc_late = False\<rparr>"

definition demo_codec :: json_codec where
  "demo_codec = \<lparr>jc_inbounds = (\<lambda>s. Inl (ErrorString s)), jc_subscription = (\<lambda>s. Inl (ErrorString s)),
     jc_node = (\<lambda>s. Inl (ErrorString s)), jc_stored_node = (\<lambda>s n. Inl (ErrorString s))\<rparr>"

definition demo_core_env :: "(go_error + string) \<Rightarrow> unit core_env" where
  "demo_core_env render =
     \<lparr>ce_codec = demo_codec, ce_render_xray = (\<lambda>p port. Inr ''xray''),
      ce_render_singbox = (\<lambda>c p d. render), ce_check = (\<lambda>b p w. None),
      ce_verify_owners = (\<lambda>c w. None), ce_script_env = (\<lambda>d c. Map.empty),
      ce_exec_script = (\<lambda>p c e w. (None, w)), ce_proc_exe = (\<lambda>p w. None),
      ce_proc_cmdline = (\<lambda>p w. None), ce_proc_stat = (\<lambda>p w. None), ce_self_pid = 1,
      ce_time_text = int_str\<rparr>"

definition demo_device :: "unit core_world" where
  "demo_device = \<lparr>fs_files = Map.empty, fs_fault = (\<lambda>op p. None), dv_tick = 0, dv_plan = calm,
     dv_live = {}, dv_received = {}, dv_killed = {}, cw_net = ()\<rparr>"

definition demo_core :: core_manager where
  "demo_core = new_core_manager default_config ''/d''"

definition demo_node :: node_profile where
  "demo_node = empty_profile\<lparr>np_Protocol := ''vless'', np_Address := ''h'', np_Port := 443\<rparr>"

lemma demo_node_plain: "\<not> needs_xray demo_node"
  by code_simp

definition demo_exiting :: "unit core_world" where
  "demo_exiting = demo_device\<lparr>dv_plan := (\<lambda>n. (calm n)\<lparr>oc_exits := [100]\<rparr>), dv_live := {100}\<rparr>"

definition demo_running :: core_manager where
  "demo_running = (track_core 100 demo_core)\<lparr>cm_state := StateRunning\<rparr>"

lemma demo_core_idle:
  "cm_process demo_core = None" "cm_exit_ch demo_core = None" "cm_pid demo_core = 0"
  "cm_state demo_core = StateStopped" "cm_running_config demo_core = None"
  "cm_running_profile demo_core = None" "core_wf demo_core"
  by (simp_all add: demo_core_def new_core_manager_def core_wf_def)

section \<open>Start\<close>

text \<open>
  C12.  A start of a manager that is not running or starting and tracks nothing either succeeds or leaves
  it tracking nothing.  On success the core runs with a tracked process, the started profile and the current
  configuration, and both reports are ok with exactly the stages of the code in order, one per runtime listener.  On
  failure the state is stopped; no core process, no Xray sidecar (process, exit channel, pid) and no running profile,
  configuration, label or start time is tracked; and the error is a runtime error that carries the report, whose
  last stage failed with the error's code.
\<close>

theorem core_start_outcome:
  assumes idle: "nothing_tracked (fst st)"
    and run: "core_start env profile st = (err, st')"
    and fresh: "cm_state (fst st) \<notin> {StateRunning, StateStarting}"
  shows "case err of
      None \<Rightarrow> start_done (cm_config (fst st)) profile
               (start_names (ce_codec env) (cm_config (fst st)) profile) st'
    | Some e \<Rightarrow> start_failed e st'"
proof -
  from run fresh have run': "run_stages (start_stages env profile) (begin_start_report st) = (err, st')"
    by (simp add: core_start_def)
  show ?thesis
  proof (cases err)
    case None
    with step_ok_None [OF start_stages_ok begin_start_starting [OF idle]] run' show ?thesis by simp
  next
    case (Some e)
    with step_ok_Some [OF start_stages_ok begin_start_starting [OF idle]] run' show ?thesis by simp
  qed
qed

theorem core_start_outcome_witness:
  "\<exists>e. fst (core_start (demo_core_env (Inl (ErrorString ''x''))) demo_node (demo_core, demo_device)) = Some e \<and>
     start_failed e (snd (core_start (demo_core_env (Inl (ErrorString ''x''))) demo_node (demo_core, demo_device)))"
proof -
  let ?env = "demo_core_env (Inl (ErrorString ''x''))"
  obtain err st' where run: "core_start ?env demo_node (demo_core, demo_device) = (err, st')"
    by (metis prod.exhaust)
  have "fst (core_start ?env demo_node (demo_core, demo_device)) \<noteq> None"
    by (simp add: core_start_def demo_core_idle start_stages_def begin_start_report_def split_beta Let_def
        start_xray_config_def prepare_xray_sidecar_def demo_node_plain start_render_config_def
        render_config_def demo_core_env_def as_go_def fail_start_def os_mkdir_all_def demo_device_def
        split: option.splits)
  moreover have "nothing_tracked demo_core" by (simp add: tracked_defs demo_core_def new_core_manager_def)
  ultimately show ?thesis
    using run core_start_outcome [of "(demo_core, demo_device)" ?env demo_node err st'] by (auto simp: demo_core_idle)
qed

section \<open>HotSwap\<close>



section \<open>The invariant\<close>

text \<open>
  C14.  \<^verbatim>\<open>Start\<close>, \<^verbatim>\<open>HotSwap\<close>, \<^verbatim>\<open>Stop\<close>, \<^verbatim>\<open>RescueReset\<close>, \<^verbatim>\<open>ResetState\<close>,
  \<^verbatim>\<open>MarkSelectorActive\<close> and \<^verbatim>\<open>SetConfig\<close> keep the manager's invariant: the process handle, the exit channel
  and the pid belong together, the state between two calls is stopped, running, degraded or rescue, and
  a running core has a tracked process and a profile.  \<^verbatim>\<open>SetState\<close>, by which the health monitor and the rescue
  mark the core, keeps the handles together, and the invariant exactly when the new state is a resting one and, for
  running, a process and a profile are tracked: nothing in it checks that.
\<close>

theorem core_operations_keep_inv:
  assumes "core_inv (fst st)"
  shows "core_inv (fst (snd (core_start env profile st))) \<and> core_inv (fst (snd (hot_swap env profile st))) \<and>
         core_inv (fst (snd (core_stop env st))) \<and> core_inv (fst (snd (rescue_reset env st))) \<and>
         core_inv (fst (core_reset_state st)) \<and> core_inv (mark_selector_active sel (fst st)) \<and>
         core_inv (core_set_config cfg (fst st)) \<and> core_wf (set_state s (fst st)) \<and>
         (core_inv (set_state s (fst st)) \<longleftrightarrow>
            s \<noteq> StateStarting \<and> s \<noteq> StateStopping \<and>
            (s = StateRunning \<longrightarrow> cm_process (fst st) \<noteq> None \<and> cm_running_profile (fst st) \<noteq> None))"
  using core_start_inv [OF assms, of env profile] hot_swap_inv [OF assms, of env profile] core_stop_inv [of env st]
    assms
  by (auto simp: core_stop_def rescue_reset_def core_reset_state_def mark_selector_active_def core_set_config_def
        set_state_def core_inv_def core_wf_def core_updates split_beta Let_def split: option.split)

theorem core_operations_keep_inv_witness:
  "core_inv demo_core \<and>
   core_inv (fst (snd (hot_swap (demo_core_env (Inr ''c'')) demo_node (demo_core, demo_device))))"
proof -
  have "core_inv demo_core" by (simp add: core_inv_def demo_core_idle)
  with core_operations_keep_inv [of "(demo_core, demo_device)" "demo_core_env (Inr ''c'')" demo_node]
  show ?thesis by simp
qed

section \<open>Stop\<close>

text \<open>
  C15.  Stop always leaves the manager stopped with nothing tracked, whatever fails.  Each of its PID files and
  the active marker is gone afterwards unless the operating system refuses to remove that file.  It reports no error
  only if the network rules were cleaned up; and if besides the manager was well-formed and the operating system
  refuses no call, the process it tracked is dead.
\<close>

theorem core_stop_outcome:
  assumes "core_stop env st = (err, st')"
  shows "fst st' = set_state StateStopped (forget_profile (forget_xray (forget_core (fst st)))) \<and>
         gone (singbox_pid_file (cm_data_dir (fst st))) (snd st') \<and>
         gone (xray_pid_file (cm_data_dir (fst st))) (snd st') \<and>
         gone (active_file (cm_data_dir (fst st))) (snd st') \<and>
         (err = None \<longrightarrow> net_report_err (fst (net_cleanup (core_netstack env (fst st)) (cw_net (snd st)))) = None) \<and>
         (err = None \<and> core_wf (fst st) \<and> no_faults (snd st) \<longrightarrow>
            (\<forall>p. cm_process (fst st) = Some p \<longrightarrow> p \<notin> dv_live (snd st')))"
proof -
  have "err = None \<longrightarrow> net_report_err (fst (net_cleanup (core_netstack env (fst st)) (cw_net (snd st)))) = None"
  proof
    assume "err = None"
    moreover have "cw_net (remove_quietly p w) = cw_net w" for p and w :: "'a core_world"
      by (simp add: os_remove_def split: sum.split)
    ultimately show "net_report_err (fst (net_cleanup (core_netstack env (fst st)) (cw_net (snd st)))) = None"
      using assms
      by (auto simp: core_stop_def stop_with_mode_def Let_def split_beta first_error_of_def core_net_cleanup_def
            on_net_def core_netstack_def core_frame core_updates split: option.splits)
  qed
  then show ?thesis
    using stop_with_mode_fst [of True env st] core_stop_gone [OF assms] core_stop_dead [of st _ env st'] assms
    by (auto simp: core_stop_def)
qed

theorem core_stop_outcome_witness:
  "fst (core_stop (demo_core_env (Inr [])) (demo_running, demo_exiting)) = None \<and>
   100 \<notin> dv_live (snd (snd (core_stop (demo_core_env (Inr [])) (demo_running, demo_exiting))))"
proof -
  let ?st = "(demo_running, demo_exiting)"
  obtain err st' where run: "core_stop (demo_core_env (Inr [])) ?st = (err, st')"
    by (metis prod.exhaust)
  have net: "net_report_err (fst (net_cleanup (core_netstack (demo_core_env (Inr [])) m) ())) = None" for m
    by (simp add: core_netstack_def demo_core_env_def net_cleanup_def cleanup_into_def cleanup_step_def
        net_run_def new_net_manager_def net_add_ok_def add_step_def net_report_err_def new_net_report_def)
  have "core_wf demo_running" "cm_process demo_running = Some 100" "no_faults demo_exiting"
    by (simp_all add: demo_running_def demo_exiting_def core_wf_def track_core_def no_faults_def demo_core_def
        new_core_manager_def calm_def)
  moreover have "fst (core_stop (demo_core_env (Inr [])) ?st) = None"
    using net
    by (simp add: core_stop_def stop_with_mode_def split_beta Let_def first_error_of_def core_net_cleanup_def
        on_net_def on_device_def on_manager_def stop_core_process_def kill_process_def kill_with_wait_def
        demo_running_def demo_exiting_def track_core_def os_signal_process_def os_turn_def os_await_exit_def
        exit_ready_def receive_exit_def stop_xray_sidecar_def kill_tracked_xray_def kill_tracked_pids_def tracked_pids_def
        os_remove_def os_read_file_def fs_access_def demo_device_def calm_def demo_core_def
        new_core_manager_def set_state_def)
  ultimately show ?thesis
    using core_stop_outcome [OF run] run by simp
qed

section \<open>The listener wait\<close>

text \<open>
  C16.  Waiting for a listener ends after a number of calls that its timeout bounds, whatever the
  clock and the processes do, and it succeeds exactly when its last connection attempt was accepted.
\<close>

theorem wait_for_port_bounded:
  assumes "0 \<le> timeout" and "wait_for_port_or_exit port timeout ch lp w = (err, w')"
  shows "int (dv_tick w') \<le> int (dv_tick w) + 2 + timeout div poll_period \<and>
         (err = None \<longleftrightarrow> oc_dial (dv_plan w (dv_tick w' - 1)) = None)"
proof -
  have "0 \<le> timeout div poll_period" using assms(1) by (simp add: pos_imp_zdiv_nonneg_iff)
  with assms(2) wait_rounds_bound [of port ch lp "fst (os_now w)" timeout 1 "snd (os_now w)"] show ?thesis
    by (auto simp: wait_for_port_or_exit_def os_now_def split_beta Let_def)
qed

theorem wait_for_port_bounded_witness:
  "fst (wait_for_port_or_exit 10853 (10 * second) (Some 100) ''log'' demo_device) = None \<and>
   dv_tick (snd (wait_for_port_or_exit 10853 (10 * second) (Some 100) ''log'' demo_device)) \<le> 42"
proof -
  obtain err w' where run: "wait_for_port_or_exit 10853 (10 * second) (Some 100) ''log'' demo_device = (err, w')"
    by (metis prod.exhaust)
  show ?thesis
    using wait_for_port_bounded [OF _ run] run
    by (simp add: demo_device_def calm_def)
qed

end
