(* ===== verification/CoreFindings.thy ===== *)
theory CoreFindings
  imports CoreProperties
begin

text \<open>
  Where the core manager does not do what its comments promise: a rollback of \<^verbatim>\<open>Start\<close> that loses
  a live process, and a restored runtime whose configuration has lost its profile.
\<close>

text \<open>
  C19.  When the owner check or the network stack fails during a start, the rollback sends one SIGTERM
  and forgets the process: a core that ignores the signal stays alive without ever getting a SIGKILL, is no
  longer tracked by the manager, and has no PID file from which a later stop could find it.
\<close>

theorem start_rollback_orphans:
  assumes "cm_process (fst st) = Some p" "p \<in> dv_live (snd st)" "p \<notin> dv_killed (snd st)"
    and "\<forall>n. oc_exits (dv_plan (snd st) n) = []"
    and "cm_xray_process (fst st) = None" "cm_xray_pid (fst st) = 0"
    and "fs_files (snd st) (xray_pid_file (cm_data_dir (fst st))) = None"
  shows "p \<in> dv_live (snd (rollback_started env SIGTERM cleanup st)) \<and>
         p \<notin> dv_killed (snd (rollback_started env SIGTERM cleanup st)) \<and>
         cm_process (fst (rollback_started env SIGTERM cleanup st)) = None \<and>
         gone (singbox_pid_file (cm_data_dir (fst st))) (snd (rollback_started env SIGTERM cleanup st))"
proof -
  define st1 where "st1 = (if cleanup then snd (core_net_cleanup env st) else st)"
  have s1: "fst st1 = fst st" "dv_live (snd st1) = dv_live (snd st)" "dv_killed (snd st1) = dv_killed (snd st)"
    "dv_plan (snd st1) = dv_plan (snd st)" "fs_files (snd st1) = fs_files (snd st)"
    by (simp_all add: st1_def core_frame core_net_cleanup_def on_net_def Let_def split_beta)
  define st4 where "st4 = on_device (remove_quietly (singbox_pid_file (cm_data_dir (fst st))))
    (on_manager (set_state StateStopped \<circ> forget_profile \<circ> forget_core) (signal_and_wait SIGTERM st1))"
  have m4: "fst st4 = set_state StateStopped (forget_profile (forget_core (fst st)))"
    by (simp add: st4_def core_frame s1)
  have d4: "dv_live (snd st4) = dv_live (snd st)" "dv_killed (snd st4) = dv_killed (snd st)"
    "fs_files (snd st4) (xray_pid_file (cm_data_dir (fst st))) = None"
    using signal_term_world [of st1] assms(4,7)
    by (auto simp: st4_def core_frame s1 os_remove_def fs_access_def split: sum.split option.splits)
  have g4: "gone (singbox_pid_file (cm_data_dir (fst st))) (snd st4)"
    by (simp add: st4_def core_frame s1 gone_remove)
  have "rollback_started env SIGTERM cleanup st = snd (stop_xray_sidecar env st4)"
    by (simp add: rollback_started_def Let_def st1_def [symmetric] st4_def core_frame s1 core_updates)
  moreover have "snd (snd (stop_xray_sidecar env st4)) =
      remove_quietly (xray_pid_file (cm_data_dir (fst st))) (snd st4)"
    using stop_xray_nothing [of st4 env] m4 d4 assms(5,6) by (simp add: core_updates)
  ultimately show ?thesis
    using assms(2,3) d4 m4 g4
    by (simp add: core_frame core_updates gone_remove_other) (simp add: os_remove_def split: sum.split)
qed

theorem start_rollback_orphans_witness:
  "100 \<in> dv_live (snd (rollback_started (demo_core_env (Inr [])) SIGTERM True
     (demo_running, demo_device\<lparr>dv_live := {100}\<rparr>)))"
proof -
  have "cm_process demo_running = Some 100" "cm_xray_process demo_running = None" "cm_xray_pid demo_running = 0"
    by (simp_all add: demo_running_def track_core_def demo_core_def new_core_manager_def)
  then show ?thesis
    using start_rollback_orphans [of "(demo_running, demo_device\<lparr>dv_live := {100}\<rparr>)" 100 "demo_core_env (Inr [])" True]
    by (simp add: demo_device_def calm_def)
qed

text \<open>
  A hot swap that reports the previous runtime as restored leaves the manager with a configuration whose
  profile projection is empty.
\<close>

lemma hot_swap_restored_projection:
  assumes "core_wf (fst st)" "hot_swap env profile st = (Some e, st')" "runtime_still_running e"
  shows "cf_Profile (cm_config (fst st')) = zero_projection"
  using hot_swap_result [OF assms(1) refl assms(2)] assms(3)
  by (auto simp: swap_error_def swap_refused_def swap_failed_def swap_restored_def core_running_def
        clone_config_def Let_def)

end
