(* ===== verification/ConfigProperties.thy ===== *)
theory ConfigProperties
  imports CoreManager
begin

text \<open>
  What the configuration rules guarantee.  The projection of a stored profile is accepted exactly
  when it satisfies a condition without loops or order; an accepted configuration gives the core only
  usable listener ports; and the flat node section is a copy of the active node.
\<close>

section \<open>The accepted projections\<close>

definition inbounds_ok :: "json_codec \<Rightarrow> string \<Rightarrow> bool" where
  "inbounds_ok codec raw \<longleftrightarrow>
     raw = [] \<or>
     (\<exists>i. jc_inbounds codec raw = Inr i \<and> pi_SocksPort i \<in> {0..65535} \<and> pi_HTTPPort i \<in> {0..65535} \<and>
          \<not> pi_AllowLAN i)"

definition counters :: "profile_subscription \<Rightarrow> int list" where
  "counters s = [su_LastFetchedAt s, su_LastSeenNodeCount s, su_StaleNodeCount s, su_UploadBytes s,
     su_DownloadBytes s, su_TotalBytes s, su_ExpireTimestamp s, su_ParseFailures s]"

definition subscription_ok :: "json_codec \<Rightarrow> string \<Rightarrow> bool" where
  "subscription_ok codec raw \<longleftrightarrow>
     trim_space raw \<noteq> [] \<and>
     (\<exists>s. jc_subscription codec raw = Inr s \<and> trim_space (su_ProviderKey s) \<noteq> [] \<and>
          trim_space (su_URL s) \<noteq> [] \<and> (\<forall>n \<in> set (counters s). 0 \<le> n))"

definition known_provider :: "json_codec \<Rightarrow> string list \<Rightarrow> string \<Rightarrow> bool" where
  "known_provider codec raws key \<longleftrightarrow>
     (\<exists>raw \<in> set raws. \<exists>s. jc_subscription codec raw = Inr s \<and> trim_space (su_ProviderKey s) = key)"

definition source_ok :: "json_codec \<Rightarrow> string list \<Rightarrow> bool \<Rightarrow> node_source \<Rightarrow> bool" where
  "source_ok codec subs stale src \<longleftrightarrow>
     to_upper (trim_space (so_Type src)) = ''MANUAL'' \<and> \<not> stale \<or>
     to_upper (trim_space (so_Type src)) = ''SUBSCRIPTION'' \<and> trim_space (so_ProviderKey src) \<noteq> [] \<and>
       known_provider codec subs (trim_space (so_ProviderKey src)) \<and> 0 \<le> so_LastSeenAt src"

definition node_ok :: "json_codec \<Rightarrow> string list \<Rightarrow> string \<Rightarrow> bool" where
  "node_ok codec subs raw \<longleftrightarrow>
     trim_space raw \<noteq> [] \<and>
     (\<exists>n src. jc_node codec raw = Inr n \<and> vn_Port n \<in> {0..65535} \<and> vn_Source n = Some src \<and>
              source_ok codec subs (vn_Stale n) src)"

definition projection_ok :: "json_codec \<Rightarrow> profile_projection \<Rightarrow> bool" where
  "projection_ok codec p \<longleftrightarrow>
     inbounds_ok codec (pp_Inbounds p) \<and> (\<forall>raw \<in> set (pp_Subscriptions p). subscription_ok codec raw) \<and>
     (\<forall>raw \<in> set (pp_Nodes p). node_ok codec (pp_Subscriptions p) raw)"

declare fail_with_def [simp]

lemma first_of_None: "first_of es = None \<longleftrightarrow> (\<forall>e \<in> set es. e = None)"
  by (induction es rule: first_of.induct) auto

lemma first_indexed_error_None:
  assumes "\<And>i x. check i x = None \<longleftrightarrow> good x"
  shows "first_indexed_error check i xs = None \<longleftrightarrow> (\<forall>x \<in> set xs. good x)"
proof (induction xs arbitrary: i)
  case (Cons x xs)
  show ?case
  proof (cases "check i x")
    case None
    with assms [of i x] Cons.IH [of "Suc i"] show ?thesis by simp
  next
    case (Some e)
    with assms [of i x] show ?thesis by simp
  qed
qed simp

lemma validate_inbounds_None: "validate_inbounds codec raw = None \<longleftrightarrow> inbounds_ok codec raw"
  by (auto simp: validate_inbounds_def inbounds_ok_def port_in_range_def split: sum.split)

lemma subscription_keys_iff:
  "key \<in> subscription_keys codec raws \<longleftrightarrow> key \<noteq> [] \<and> known_provider codec raws key"
proof -
  have "k \<in> set (case d of Inl e \<Rightarrow> [] | Inr s \<Rightarrow> [f s]) \<longleftrightarrow> (\<exists>s. d = Inr s \<and> f s = k)"
    for k :: string and f and d :: "go_error + profile_subscription"
    by (auto split: sum.split)
  then show ?thesis by (auto simp: subscription_keys_def known_provider_def)
qed

lemma check_subscription_decodes_None:
  "check_subscription_decodes codec i raw = None \<longleftrightarrow>
     trim_space raw \<noteq> [] \<and> (\<exists>s. jc_subscription codec raw = Inr s)"
  by (auto simp: check_subscription_decodes_def split: sum.split)

lemma check_subscription_fields_None:
  "check_subscription_fields codec i raw = None \<and> check_subscription_decodes codec j raw = None \<longleftrightarrow>
     subscription_ok codec raw"
  by (auto simp: check_subscription_fields_def check_subscription_decodes_None subscription_ok_def counters_def
        Let_def split: sum.split)

lemma check_profile_node_None:
  "check_profile_node codec (subscription_keys codec subs) i raw = None \<longleftrightarrow> node_ok codec subs raw"
proof (cases "jc_node codec raw")
  case (Inr n)
  then show ?thesis
    by (cases "vn_Source n")
       (auto simp: check_profile_node_def node_ok_def source_ok_def port_in_range_def Let_def
          normalized_node_source_def subscription_keys_iff)
qed (simp add: check_profile_node_def node_ok_def)

text \<open>
  C17.  The stored profile passes validation exactly when its inbounds, its subscriptions and its nodes
  are each acceptable on their own, and every subscription node names a provider among the subscriptions:
  the order of the three loops and of their checks does not matter for acceptance.
\<close>

theorem validate_projection_exact:
  "validate_projection codec p = None \<longleftrightarrow> projection_ok codec p"
proof -
  let ?subs = "pp_Subscriptions p"
  have subs: "first_indexed_error (check_subscription_decodes codec) 0 ?subs = None \<and>
      first_indexed_error (check_subscription_fields codec) 0 ?subs = None \<longleftrightarrow>
      (\<forall>raw \<in> set ?subs. subscription_ok codec raw)"
  proof -
    have "first_indexed_error (check_subscription_decodes codec) 0 ?subs = None \<longleftrightarrow>
        (\<forall>raw \<in> set ?subs. check_subscription_decodes codec 0 raw = None)"
      by (rule first_indexed_error_None) (simp add: check_subscription_decodes_None)
    moreover have "first_indexed_error (check_subscription_fields codec) 0 ?subs = None \<longleftrightarrow>
        (\<forall>raw \<in> set ?subs. check_subscription_fields codec 0 raw = None)"
      by (rule first_indexed_error_None) (simp add: check_subscription_fields_def Let_def)
    ultimately show ?thesis using check_subscription_fields_None [of codec 0 _ 0] by blast
  qed
  have nodes: "first_indexed_error (check_profile_node codec (subscription_keys codec ?subs)) 0 (pp_Nodes p) = None
      \<longleftrightarrow> (\<forall>raw \<in> set (pp_Nodes p). node_ok codec ?subs raw)"
    by (rule first_indexed_error_None) (rule check_profile_node_None)
  show ?thesis
    using subs nodes
    by (auto simp: validate_projection_def first_of_None projection_ok_def validate_inbounds_None)
qed

section \<open>Accepted configurations and the core\<close>

lemma inbounds_ports:
  assumes "inbounds_ok codec (pp_Inbounds (cf_Profile c))"
  shows "pi_SocksPort (resolve_profile_inbounds codec c) \<in> {0..65535}"
    "pi_HTTPPort (resolve_profile_inbounds codec c) \<in> {0..65535}"
  using assms by (auto simp: inbounds_ok_def resolve_profile_inbounds_def Let_def split: sum.split)

text \<open>
  A configuration that passes validation makes the core wait only for valid TCP ports, always
  for the transparent proxy and the DNS listener first, and its management interface has a secret when it is
  enabled.
\<close>

theorem validated_listener_ports:
  assumes "validate_config codec c = None"
  shows "(\<forall>spec \<in> set (runtime_listener_waits codec c). 1 \<le> ls_Port spec \<and> ls_Port spec \<le> 65535) \<and>
         take 2 (map ls_Port (runtime_listener_waits codec c)) = [px_TProxyPort (cf_Proxy c), px_DNSPort (cf_Proxy c)] \<and>
         (0 < px_APIPort (cf_Proxy c) \<longrightarrow> trim_space (px_APISecret (cf_Proxy c)) \<noteq> [])"
proof -
  have parts: "validate_projection codec (cf_Profile c) = None" "validate_proxy (cf_Proxy c) = None"
    using assms by (auto simp: validate_config_def first_of_None split: if_splits)
  have "inbounds_ok codec (pp_Inbounds (cf_Profile c))"
    using parts(1) by (simp add: validate_projection_def first_of_None validate_inbounds_None)
  note ports = inbounds_ports [OF this]
  have proxy: "1 \<le> px_TProxyPort (cf_Proxy c)" "px_TProxyPort (cf_Proxy c) \<le> 65535"
    "1 \<le> px_DNSPort (cf_Proxy c)" "px_DNSPort (cf_Proxy c) \<le> 65535" "px_APIPort (cf_Proxy c) \<le> 65535"
    "0 < px_APIPort (cf_Proxy c) \<longrightarrow> trim_space (px_APISecret (cf_Proxy c)) \<noteq> []"
    using parts(2) by (auto simp: validate_proxy_def split: if_splits)
  from ports proxy show ?thesis
    by (auto simp: runtime_listener_waits_def Let_def default_port_def)
qed

definition stored_codec :: json_codec where
  "stored_codec = \<lparr>jc_inbounds = (\<lambda>s. Inl (ErrorString s)), jc_subscription = (\<lambda>s. Inl (ErrorString s)),
     jc_node = (\<lambda>s. Inl (ErrorString s)),
     jc_stored_node = (\<lambda>s i. Inr (empty_profile\<lparr>np_ID := s, np_Name := ''n'', np_Protocol := ''trojan'',
       np_Address := ''h'', np_Port := 443, np_Password := ''x''\<rparr>))\<rparr>"

theorem validated_listener_ports_witness:
  "map ls_Port (runtime_listener_waits stored_codec default_config) = [10853, 10856] \<and>
   list_all (\<lambda>spec. 1 \<le> ls_Port spec \<and> ls_Port spec \<le> 65535) (runtime_listener_waits stored_codec default_config)"
proof -
  have ok: "validate_config stored_codec default_config = None"
    by (simp add: validate_config_def default_config_def validate_projection_def validate_inbounds_def
        validate_proxy_def validate_node_def validate_modes_def validate_health_def node_credentials_error_def
        default_projection_def default_proxy_def default_node_def default_transport_def default_routing_def
        default_health_def valid_protocols_def valid_transports_def)
  have "map ls_Port (runtime_listener_waits stored_codec default_config) = [10853, 10856]"
    by (simp add: runtime_listener_waits_def default_config_def resolve_profile_inbounds_def
        default_projection_def default_proxy_def default_port_def)
  with validated_listener_ports [OF ok] show ?thesis by (simp add: list_all_iff)
qed

section \<open>The active node\<close>

definition usable_node :: "json_codec \<Rightarrow> nat \<Rightarrow> string \<Rightarrow> node_profile \<Rightarrow> bool" where
  "usable_node codec i raw p \<longleftrightarrow>
     jc_stored_node codec raw i = Inr p \<and> \<not> np_Stale p \<and> np_Address p \<noteq> [] \<and> np_Port p \<noteq> 0 \<and> np_Protocol p \<noteq> []"

lemma classify_node_Inl: "classify_node codec i raw = Inl p \<longleftrightarrow> usable_node codec i raw p"
  by (auto simp: classify_node_def usable_node_def split: sum.split)

lemma classify_node_index: "classify_node codec i raw = Inr k \<Longrightarrow> pk_Index k = i"
  by (auto simp: classify_node_def profile_node_skip_of_def split: sum.splits if_splits)

lemma usable_from_spec:
  "set (fst (usable_from codec n raws)) = {p. \<exists>i < length raws. usable_node codec (n + i) (raws ! i) p} \<and>
   map pk_Index (snd (usable_from codec n raws)) =
     filter (\<lambda>i. \<nexists>p. usable_node codec i (raws ! (i - n)) p) [n..<n + length raws]"
proof (induction raws arbitrary: n)
  case (Cons raw raws)
  have shift: "(\<exists>i < length (raw # raws). usable_node codec (n + i) ((raw # raws) ! i) p) \<longleftrightarrow>
      usable_node codec n raw p \<or> (\<exists>i < length raws. usable_node codec (Suc n + i) (raws ! i) p)" for p
    by (auto simp: less_Suc_eq_0_disj)
  have tail: "filter (\<lambda>i. \<nexists>p. usable_node codec i ((raw # raws) ! (i - n)) p) [Suc n..<Suc n + length raws] =
      filter (\<lambda>i. \<nexists>p. usable_node codec i (raws ! (i - Suc n)) p) [Suc n..<Suc n + length raws]"
  proof (rule filter_cong)
    fix i assume "i \<in> set [Suc n..<Suc n + length raws]"
    then have "i - n = Suc (i - Suc n)" by auto
    then show "(\<nexists>p. usable_node codec i ((raw # raws) ! (i - n)) p) \<longleftrightarrow>
        (\<nexists>p. usable_node codec i (raws ! (i - Suc n)) p)" by (simp only: nth_Cons_Suc)
  qed simp
  have split: "[n..<n + length (raw # raws)] = n # [Suc n..<Suc n + length raws]"
    by (simp add: upt_rec)
  define R where "R = [Suc n..<Suc n + length raws]"
  note tail' = tail [folded R_def] and split' = split [folded R_def] and IH = Cons.IH [of "Suc n", folded R_def]
  show ?case
  proof (cases "classify_node codec n raw")
    case (Inl q)
    then have "usable_node codec n raw p \<longleftrightarrow> p = q" for p by (auto simp: classify_node_Inl [symmetric])
    with Inl IH show ?thesis
      unfolding shift split' using tail' by (auto simp: split_beta Let_def)
  next
    case (Inr k)
    then have "\<not> usable_node codec n raw p" for p by (auto simp: classify_node_Inl [symmetric])
    with Inr IH classify_node_index [OF Inr] show ?thesis
      unfolding shift split' using tail' by (auto simp: split_beta Let_def)
  qed
qed simp

lemma find_or_head:
  fixes P :: "'a \<Rightarrow> bool"
  assumes "xs \<noteq> []" and "r = (case find P xs of Some q \<Rightarrow> q | None \<Rightarrow> hd xs)"
  shows "r \<in> set xs" "P r \<or> (\<forall>x \<in> set xs. \<not> P x) \<and> r = hd xs"
  using assms by (auto simp: find_None_iff find_Some_iff split: option.split)

text \<open>
  The stored nodes are partitioned: every index is either usable or reported as skipped, in order
  and once.  There is an active profile exactly when some node is usable; it is a usable node, the selected one
  when that is usable and the first usable one otherwise.
\<close>

theorem active_profile_choice:
  "map pk_Index (snd (usable_profile_nodes codec (Some c))) =
     filter (\<lambda>i. \<nexists>p. usable_node codec i (pp_Nodes (cf_Profile c) ! i) p) [0..<length (pp_Nodes (cf_Profile c))] \<and>
   (case resolve_active_profile codec c of
      None \<Rightarrow> \<forall>i < length (pp_Nodes (cf_Profile c)). \<nexists>p. usable_node codec i (pp_Nodes (cf_Profile c) ! i) p
    | Some p \<Rightarrow>
        (\<exists>i < length (pp_Nodes (cf_Profile c)). usable_node codec i (pp_Nodes (cf_Profile c) ! i) p) \<and>
        (np_ID p = pp_ActiveNodeID (cf_Profile c) \<or>
         p = hd (profiles_from_config_nodes codec (Some c)) \<and>
         (\<forall>q i. i < length (pp_Nodes (cf_Profile c)) \<and> usable_node codec i (pp_Nodes (cf_Profile c) ! i) q \<longrightarrow>
            np_ID q \<noteq> pp_ActiveNodeID (cf_Profile c))))"
proof -
  let ?nodes = "pp_Nodes (cf_Profile c)" and ?ps = "profiles_from_config_nodes codec (Some c)"
  note spec = usable_from_spec [of codec 0 ?nodes]
  have ps: "set ?ps = {p. \<exists>i < length ?nodes. usable_node codec i (?nodes ! i) p}"
    using spec by (simp add: profiles_from_config_nodes_def usable_profile_nodes_def)
  have skipped: "map pk_Index (snd (usable_profile_nodes codec (Some c))) =
      filter (\<lambda>i. \<nexists>p. usable_node codec i (?nodes ! i) p) [0..<length ?nodes]"
    using spec by (simp add: usable_profile_nodes_def)
  show ?thesis
  proof (cases "?ps = []")
    case True
    with ps skipped show ?thesis by (auto simp: resolve_active_profile_def)
  next
    case False
    let ?P = "\<lambda>q. np_ID q = pp_ActiveNodeID (cf_Profile c)"
    have "resolve_active_profile codec c = Some (case find ?P ?ps of Some q \<Rightarrow> q | None \<Rightarrow> hd ?ps)"
      using False by (cases ?ps) (auto simp: resolve_active_profile_def split: option.split)
    with find_or_head [OF False refl, of ?P] ps skipped show ?thesis by auto
  qed
qed

text \<open>
  C18.  After a synchronisation the flat sections describe the active node: resolving the profile again
  gives the active profile, except for its identity (id, name, group, tag, staleness and raw outbound), which
  the flat sections do not hold; only a profile that needs the Xray sidecar keeps them.  Synchronising twice
  changes nothing more.
\<close>

theorem sync_resolve_roundtrip:
  assumes "resolve_active_profile codec c = Some p"
  shows "resolve_profile codec (sync_from_projection codec authoritative c) =
           (if requires_xray_sidecar (Some p) then p
            else p\<lparr>np_ID := [], np_Name := [], np_Group := [], np_Tag := [], np_Stale := False,
                   np_RawOutbound := []\<rparr>) \<and>
         sync_from_projection codec authoritative' (sync_from_projection codec authoritative c) =
           sync_from_projection codec authoritative c"
proof -
  let ?c = "sync_from_projection codec authoritative c"
  have profile: "cf_Profile ?c = cf_Profile c"
    using assms by (simp add: sync_from_projection_def)
  then have active: "resolve_active_profile codec ?c = Some p"
    using assms unfolding resolve_active_profile_def profiles_from_config_nodes_def usable_profile_nodes_def
    by (simp only: option.case profile)
  have "flat_profile ?c = p\<lparr>np_ID := [], np_Name := [], np_Group := [], np_Tag := [], np_Stale := False,
      np_RawOutbound := []\<rparr>"
    using assms by (cases p) (simp add: sync_from_projection_def flat_profile_def node_of_profile_def
        empty_profile_def Let_def)
  moreover have "sync_from_projection codec authoritative' ?c = ?c"
    using active assms by (simp add: sync_from_projection_def)
  ultimately show ?thesis using active by (simp add: resolve_profile_def)
qed

definition stored_config :: config where
  "stored_config = default_config\<lparr>cf_Profile := default_projection\<lparr>pp_ActiveNodeID := ''b'',
     pp_Nodes := [''a'', ''b'']\<rparr>\<rparr>"

theorem sync_resolve_roundtrip_witness:
  "\<exists>p. resolve_active_profile stored_codec stored_config = Some p \<and> np_ID p = ''b'' \<and>
     resolve_profile stored_codec (sync_from_projection stored_codec False stored_config) = p\<lparr>np_ID := [], np_Name := []\<rparr>"
proof -
  have active: "resolve_active_profile stored_codec stored_config =
      Some (empty_profile\<lparr>np_ID := ''b'', np_Name := ''n'', np_Protocol := ''trojan'', np_Address := ''h'',
        np_Port := 443, np_Password := ''x''\<rparr>)"
    by (simp add: resolve_active_profile_def profiles_from_config_nodes_def usable_profile_nodes_def
        stored_config_def stored_codec_def classify_node_def empty_profile_def)
  have plain: "\<not> requires_xray_sidecar (Some (empty_profile\<lparr>np_ID := ''b'', np_Name := ''n'', np_Protocol := ''trojan'',
      np_Address := ''h'', np_Port := 443, np_Password := ''x''\<rparr>))"
    by code_simp
  show ?thesis
    using sync_resolve_roundtrip [OF active, of False False] active plain by (simp add: empty_profile_def)
qed

theorem active_profile_choice_witness:
  "map pk_Index (snd (usable_profile_nodes stored_codec (Some stored_config))) = [] \<and>
   resolve_active_profile stored_codec stored_config \<noteq> None"
proof -
  have nodes: "pp_Nodes (cf_Profile stored_config) = [''a'', ''b'']" by (simp add: stored_config_def)
  have usable: "\<exists>p. usable_node stored_codec i raw p" for i raw
    by (simp add: usable_node_def stored_codec_def empty_profile_def)
  have "\<not> (\<forall>i < length [''a'', ''b'']. \<nexists>p. usable_node stored_codec i ([''a'', ''b''] ! i) p)"
    using usable [of 0 "''a''"] by (intro notI, drule_tac x = 0 in spec) simp
  with active_profile_choice [of stored_codec stored_config] usable nodes show ?thesis
    by (cases "resolve_active_profile stored_codec stored_config") simp_all
qed

end
