(* ===== verification/Rescue.thy ===== *)
theory Rescue
  imports CoreHotSwap GoLists ResetController
begin

text \<open>
  Automatic recovery (\<^verbatim>\<open>daemon/internal/rescue/rescue.go\<close>) on top of the core manager, the gate
  that the daemon puts before it (\<^verbatim>\<open>cmd/daemon/runtime_v2_operations.go\<close>) and the callbacks that
  connect it to the health monitor (\<^verbatim>\<open>cmd/daemon/rescue_callbacks.go\<close>).

  A gate is a function of the state, so it can depend on everything that changes with the clock of
  the device.  The environment of the scripts is a parameter; it is read from the live
  configuration of the rescue manager, as in the code.
\<close>

datatype strategy = StrategyRestartCore | StrategyReapplyRules | StrategyFullRestart

fun strategy_str :: "strategy \<Rightarrow> string" where
  "strategy_str StrategyRestartCore = ''restart-core''"
| "strategy_str StrategyReapplyRules = ''reapply-rules''"
| "strategy_str StrategyFullRestart = ''full-restart''"

record rescue_manager =
  rm_cfg :: config
  rm_dataDir :: string
  rm_maxAttempts :: int
  rm_attempts :: int
  rm_lastAttempt :: gtime
  rm_cooldown :: duration

record 'n rescue_env =
  re_core :: "'n core_env"
  re_script_env :: "string \<Rightarrow> config \<Rightarrow> env"

type_synonym 'n gate = "('n core_st \<Rightarrow> bool) option"

definition recovery_allowed :: "'n gate \<Rightarrow> 'n core_st \<Rightarrow> bool" where
  "recovery_allowed gate st = (case gate of None \<Rightarrow> True | Some g \<Rightarrow> g st)"

definition new_rescue_manager :: "config \<Rightarrow> string \<Rightarrow> int \<Rightarrow> duration \<Rightarrow> rescue_manager" where
  "new_rescue_manager cfg d max_attempts cooldown =
     \<lparr>rm_cfg = cfg, rm_dataDir = d, rm_maxAttempts = (if max_attempts < 1 then 3 else max_attempts),
      rm_attempts = 0, rm_lastAttempt = zero_time, rm_cooldown = cooldown\<rparr>"

definition rescue_set_config :: "config \<Rightarrow> rescue_manager \<Rightarrow> rescue_manager" where
  "rescue_set_config cfg r =
     r\<lparr>rm_cfg := cfg,
       rm_maxAttempts := (if 1 \<le> rc_MaxAttempts (cf_Rescue cfg) then rc_MaxAttempts (cf_Rescue cfg)
                          else rm_maxAttempts r),
       rm_cooldown := (if 0 < rc_CooldownSec (cf_Rescue cfg) then rc_CooldownSec (cf_Rescue cfg) * second
                       else rm_cooldown r)\<rparr>"

definition rescue_reset_attempts :: "rescue_manager \<Rightarrow> rescue_manager" where
  "rescue_reset_attempts r = r\<lparr>rm_attempts := 0, rm_lastAttempt := zero_time\<rparr>"

definition pick_strategy :: "rescue_manager \<Rightarrow> strategy" where
  "pick_strategy r =
     (if rm_attempts r = 0 then StrategyRestartCore
      else if rm_attempts r = 1 then StrategyReapplyRules
      else StrategyFullRestart)"

section \<open>The strategies\<close>

definition cancelled :: "go_error option" where
  "cancelled = Some (ErrorString ''cancelled'')"

definition restart_core :: "'n rescue_env \<Rightarrow> 'n gate \<Rightarrow> rescue_manager \<Rightarrow> 'n core_step" where
  "restart_core env gate r st =
     (if \<not> recovery_allowed gate st then (cancelled, st)
      else hot_swap (re_core env) (resolve_profile (ce_codec (re_core env)) (rm_cfg r)) st)"

definition run_script ::
  "'n rescue_env \<Rightarrow> rescue_manager \<Rightarrow> string \<Rightarrow> string \<Rightarrow> 'n core_step" where
  "run_script env r path command = (\<lambda>(m, w).
     let (err, net) = ce_exec_script (re_core env) path command
                        (re_script_env env (rm_dataDir r) (rm_cfg r)) (cw_net w)
     in (err, (m, w\<lparr>cw_net := net\<rparr>)))"

definition reapply_rules :: "'n rescue_env \<Rightarrow> 'n gate \<Rightarrow> rescue_manager \<Rightarrow> 'n core_step" where
  "reapply_rules env gate r st =
     (if \<not> recovery_allowed gate st then (cancelled, st)
      else (let ipt = iptables_script (rm_dataDir r); dns = dns_script (rm_dataDir r);
                st1 = snd (run_script env r ipt ''stop'' st)
            in case run_script env r ipt ''start'' st1 of
                 (Some e, st2) \<Rightarrow> (Some (WrapError ''iptables start: '' e), st2)
               | (None, st2) \<Rightarrow>
                   if \<not> recovery_allowed gate st2 then (cancelled, st2)
                   else (let st3 = snd (run_script env r dns ''stop'' st2)
                         in case run_script env r dns ''start'' st3 of
                              (Some e, st4) \<Rightarrow> (Some (WrapError ''dns start: '' e), st4)
                            | (None, st4) \<Rightarrow> (None, st4))))"

definition full_restart :: "'n rescue_env \<Rightarrow> 'n gate \<Rightarrow> rescue_manager \<Rightarrow> 'n core_step" where
  "full_restart env gate r st =
     (if \<not> recovery_allowed gate st then (cancelled, st)
      else (let st1 = snd (rescue_reset (re_core env) st)
            in if \<not> recovery_allowed gate st1 then (cancelled, st1)
               else core_start (re_core env) (resolve_profile (ce_codec (re_core env)) (rm_cfg r)) st1))"

definition run_strategy :: "'n rescue_env \<Rightarrow> 'n gate \<Rightarrow> strategy \<Rightarrow> rescue_manager \<Rightarrow> 'n core_step" where
  "run_strategy env gate s r =
     (case s of StrategyRestartCore \<Rightarrow> restart_core env gate r
      | StrategyReapplyRules \<Rightarrow> reapply_rules env gate r
      | StrategyFullRestart \<Rightarrow> full_restart env gate r)"

section \<open>Attempt and Rollback\<close>

definition cancelled_by_state :: go_error where
  "cancelled_by_state = ErrorString ''rescue: cancelled by desired runtime state''"

text \<open>The clock is read for the comparison, and again for the remaining time in the message.\<close>

definition check_cooldown :: "rescue_manager \<Rightarrow> 'n core_world \<Rightarrow> go_error option \<times> 'n core_world" where
  "check_cooldown r w =
     (if time_is_zero (rm_lastAttempt r) then (None, w)
      else (let (now, w1) = os_now w
            in if time_sub now (rm_lastAttempt r) < rm_cooldown r
               then (let (now2, w2) = os_now w1;
                         remaining = rm_cooldown r - time_sub now2 (rm_lastAttempt r)
                     in (Some (ErrorString (''rescue: cooldown active ('' @ truncated_text remaining @ '' remaining)'')),
                         w2))
               else (None, w1)))"

definition attempt_strategy ::
  "'n rescue_env \<Rightarrow> 'n gate \<Rightarrow> strategy \<Rightarrow> rescue_manager \<Rightarrow> 'n core_step" where
  "attempt_strategy env gate s r st =
     (let st1 = on_manager (set_state StateRescue) st
      in if \<not> recovery_allowed gate st1 then (Some cancelled_by_state, st1)
         else (case run_strategy env gate s r st1 of
                 (Some e, st2) \<Rightarrow>
                   (Some (WrapError (''rescue: '' @ strategy_str s @ '': '') e),
                    if recovery_allowed gate st2 then on_manager (set_state StateDegraded) st2 else st2)
               | (None, st2) \<Rightarrow>
                   if \<not> recovery_allowed gate st2 then (Some cancelled_by_state, st2)
                   else (None, on_manager (set_state StateRunning) st2)))"

definition exhausted :: "rescue_manager \<Rightarrow> go_error" where
  "exhausted r = ErrorString (''rescue: all '' @ int_str (rm_maxAttempts r) @
     '' strategies exhausted '' @ [CHR 0xE2, CHR 0x80, CHR 0x94] @ '' call Rollback'')"

definition rescue_attempt ::
  "'n rescue_env \<Rightarrow> 'n gate \<Rightarrow> rescue_manager \<times> 'n core_st
     \<Rightarrow> go_error option \<times> rescue_manager \<times> 'n core_st" where
  "rescue_attempt env gate = (\<lambda>(r, m, w).
     if \<not> recovery_allowed gate (m, w) then (Some cancelled_by_state, r, m, w)
     else (case check_cooldown r w of
             (Some e, w1) \<Rightarrow> (Some e, r, m, w1)
           | (None, w1) \<Rightarrow>
               if rm_maxAttempts r \<le> rm_attempts r then (Some (exhausted r), r, m, w1)
               else (let (now, w2) = os_now w1;
                         r1 = r\<lparr>rm_attempts := rm_attempts r + 1, rm_lastAttempt := now\<rparr>;
                         (err, st) = attempt_strategy env gate (pick_strategy r) r1 (m, w2)
                     in (err, r1, st))))"

definition rescue_rollback ::
  "'n rescue_env \<Rightarrow> rescue_manager \<times> 'n core_st \<Rightarrow> go_error option \<times> rescue_manager \<times> 'n core_st" where
  "rescue_rollback env = (\<lambda>(r, st).
     case rescue_reset (re_core env) st of
       (Some e, st1) \<Rightarrow> (Some (WrapError ''rescue: rollback stop: '' e), r, st1)
     | (None, st1) \<Rightarrow>
         (let st2 = snd (run_script env r (rescue_reset_script (rm_dataDir r)) ''daemon-reset'' st1);
              st3 = on_device (remove_quietly (reset_lock (rm_dataDir r))) st2
          in (None, r, on_manager (set_state StateStopped) st3)))"

section \<open>The daemon's gate and callbacks\<close>

record runtime_intent =
  ri_epoch :: uint64
  ri_desired :: bool

definition begin_start :: "runtime_intent \<Rightarrow> uint64 \<times> runtime_intent" where
  "begin_start d = (ri_epoch d + 1, d\<lparr>ri_epoch := ri_epoch d + 1, ri_desired := True\<rparr>)"

definition begin_stop :: "runtime_intent \<Rightarrow> uint64 \<times> runtime_intent" where
  "begin_stop d = (ri_epoch d + 1, d\<lparr>ri_epoch := ri_epoch d + 1, ri_desired := False\<rparr>)"

definition mark_start_failed :: "uint64 \<Rightarrow> runtime_intent \<Rightarrow> runtime_intent" where
  "mark_start_failed epoch d = (if ri_epoch d = epoch then d\<lparr>ri_desired := False\<rparr> else d)"

definition can_run_recovery :: "runtime_intent \<Rightarrow> string \<Rightarrow> uint64 \<Rightarrow> 'n core_st \<Rightarrow> bool" where
  "can_run_recovery d data_dir epoch st \<longleftrightarrow>
     ri_desired d \<and> ri_epoch d = epoch \<and>
     \<not> fst (should_skip_root_reconcile data_dir (snd st)) \<and>
     cm_state (fst st) \<in> {StateRunning, StateDegraded, StateRescue}"

text \<open>
  The body of the operation that the degraded callback submits; \<open>intent\<close> gives the daemon's intent
  at each state, \<open>cfg\<close> is the daemon's current configuration.
\<close>

definition degraded_operation ::
  "'n rescue_env \<Rightarrow> ('n core_st \<Rightarrow> runtime_intent) \<Rightarrow> string \<Rightarrow> uint64 \<Rightarrow> config
     \<Rightarrow> rescue_manager \<times> 'n core_st \<Rightarrow> rescue_manager \<times> 'n core_st" where
  "degraded_operation env intent data_dir epoch cfg rst =
     (let gate = (\<lambda>st. can_run_recovery (intent st) data_dir epoch st)
      in if \<not> gate (snd rst) then rst
         else if \<not> rc_Enabled (cf_Rescue cfg) then rst
         else (case rescue_attempt env (Some gate) rst of
                 (None, rst1) \<Rightarrow> rst1
               | (Some e, rst1) \<Rightarrow>
                   (let max_attempts = (if rc_MaxAttempts (cf_Rescue cfg) < 1 then 1
                                        else rc_MaxAttempts (cf_Rescue cfg))
                    in if max_attempts \<le> rm_attempts (fst rst1) \<and> gate (snd rst1)
                       then snd (rescue_rollback env rst1) else rst1)))"

definition restored_callback :: "rescue_manager \<times> 'n core_st \<Rightarrow> rescue_manager \<times> 'n core_st" where
  "restored_callback rst = (rescue_reset_attempts (fst rst), snd rst)"

end
