(* ===== verification/Ports.thy ===== *)
theory Ports
  imports Processes GoLists
begin

text \<open>
  The listener probes of \<^verbatim>\<open>daemon/internal/core/scripts.go\<close>: the hosts to dial, one round of
  dials, and the wait for any of them, over the plan of \<^verbatim>\<open>Processes\<close>.
\<close>

definition normalize_probe_hosts :: "string list \<Rightarrow> string list" where
  "normalize_probe_hosts hosts =
     (let normalized = clean_values hosts in if normalized = [] then [''127.0.0.1''] else normalized)"

definition local_listener_hosts :: "string list" where
  "local_listener_hosts = [''127.0.0.1'']"

definition format_port_targets :: "string list \<Rightarrow> int \<Rightarrow> string" where
  "format_port_targets hosts port =
     str_join '','' (map (\<lambda>h. join_host_port h port) (normalize_probe_hosts hosts))"

fun dial_hosts ::
  "int \<Rightarrow> string list \<Rightarrow> string list \<Rightarrow> 'w device_scheme \<Rightarrow> (string list + string) \<times> 'w device_scheme" where
  "dial_hosts port [] errs w = (Inl errs, w)"
| "dial_hosts port (host # hosts) errs w =
     (let (c, w1) = os_turn w
      in case oc_dial c of
           None \<Rightarrow> (Inr host, w1)
         | Some m \<Rightarrow> dial_hosts port hosts (errs @ [join_host_port host port @ '': '' @ m]) w1)"

definition dial_any_port ::
  "string list \<Rightarrow> int \<Rightarrow> 'w device_scheme \<Rightarrow> (go_error + string) \<times> 'w device_scheme" where
  "dial_any_port hosts port w =
     (case dial_hosts port (normalize_probe_hosts hosts) [] w of
        (Inl errs, w1) \<Rightarrow> (Inl (ErrorString (str_join ''; '' errs)), w1)
      | (Inr host, w1) \<Rightarrow> (Inr host, w1))"

text \<open>
  \<^verbatim>\<open>WaitForAnyPort\<close>.  The \<open>k\<close>-th look at the clock comes after \<open>k\<close> sleeps of one period, so it
  shows at least that much.
\<close>

definition not_listening ::
  "string list \<Rightarrow> int \<Rightarrow> duration \<Rightarrow> go_error option \<Rightarrow> go_error" where
  "not_listening hosts port timeout last_err =
     (let m = ''port '' @ format_port_targets hosts port @ '' not listening after '' @ duration_text timeout
      in case last_err of None \<Rightarrow> ErrorString m | Some e \<Rightarrow> WrapError (m @ '': '') e)"

lemma sleeps_bound: "tick_time start k c < start + timeout \<Longrightarrow> int k \<le> timeout div poll_period"
  using zdiv_mono1 [of "int k * poll_period" timeout poll_period] by (simp add: tick_time_def)

function (sequential) wait_any_rounds ::
  "string list \<Rightarrow> int \<Rightarrow> duration \<Rightarrow> gtime \<Rightarrow> nat \<Rightarrow> go_error option \<Rightarrow> 'w device_scheme
     \<Rightarrow> (go_error + string) \<times> 'w device_scheme" where
  "wait_any_rounds hosts port timeout start k last_err w =
     (let (c, w1) = os_turn w
      in if tick_time start k c < start + timeout
         then (case dial_any_port hosts port w1 of
                 (Inr host, w2) \<Rightarrow> (Inr host, w2)
               | (Inl e, w2) \<Rightarrow> wait_any_rounds hosts port timeout start (Suc k) (Some e) w2)
         else (Inl (not_listening hosts port timeout last_err), w1))"
  by pat_completeness auto

termination
  by (relation "measure (\<lambda>(hosts, port, timeout, start, k, last_err, w). nat (timeout div poll_period + 1 - int k))")
     (auto dest!: sleeps_bound)

declare wait_any_rounds.simps [simp del]

definition wait_for_any_port ::
  "string list \<Rightarrow> int \<Rightarrow> duration \<Rightarrow> 'w device_scheme \<Rightarrow> (go_error + string) \<times> 'w device_scheme" where
  "wait_for_any_port hosts port timeout w =
     (let (start, w1) = os_now w in wait_any_rounds hosts port timeout start 0 None w1)"

definition wait_for_port ::
  "string \<Rightarrow> int \<Rightarrow> duration \<Rightarrow> 'w device_scheme \<Rightarrow> go_error option \<times> 'w device_scheme" where
  "wait_for_port host port timeout w =
     (let (r, w1) = wait_for_any_port [host] port timeout w
      in (case r of Inl e \<Rightarrow> Some e | Inr h \<Rightarrow> None, w1))"

definition wait_for_local_port ::
  "int \<Rightarrow> duration \<Rightarrow> 'w device_scheme \<Rightarrow> (go_error + string) \<times> 'w device_scheme" where
  "wait_for_local_port = wait_for_any_port local_listener_hosts"

section \<open>Lemmas\<close>

text \<open>The targets of the runtime's own listeners.\<close>

lemma local_targets [simp]:
  "normalize_probe_hosts local_listener_hosts = [''127.0.0.1'']"
  "format_port_targets local_listener_hosts port = local_target port"
proof -
  show n: "normalize_probe_hosts local_listener_hosts = [''127.0.0.1'']"
    by (simp add: normalize_probe_hosts_def local_listener_hosts_def clean_values_def) code_simp
  show "format_port_targets local_listener_hosts port = local_target port"
    by (simp add: format_port_targets_def n join_host_port_def local_target_def)
qed

lemma dial_hosts_host: "fst (dial_hosts port hosts errs w) = Inr h \<Longrightarrow> h \<in> set hosts"
  by (induction hosts arbitrary: errs w) (auto simp: Let_def split_beta split: option.splits)

lemma wait_any_rounds_host:
  "fst (wait_any_rounds hosts port timeout start k last_err w) = Inr h \<Longrightarrow> h \<in> set (normalize_probe_hosts hosts)"
proof (induction hosts port timeout start k last_err w rule: wait_any_rounds.induct)
  case (1 hosts port timeout start k last_err w)
  obtain r w2 where d: "dial_any_port hosts port (snd (os_turn w)) = (r, w2)" by (metis prod.exhaust)
  show ?case
  proof (cases r)
    case (Inl e)
    with "1.IH" [OF refl prod.collapse _ d [symmetric] Inl] "1.prems" d show ?thesis
      by (simp add: wait_any_rounds.simps [of hosts port timeout start k last_err w] split_beta Let_def
          split: if_splits)
  next
    case (Inr g)
    with "1.prems" d show ?thesis
      by (auto simp: wait_any_rounds.simps [of hosts port timeout start k last_err w] split_beta Let_def
          dial_any_port_def split: if_splits sum.splits dest!: dial_hosts_host [of port _ "[]"])
  qed
qed

end
