(* ===== verification/HealthMonitor.thy ===== *)
theory HealthMonitor
  imports Ports CoreHotSwap
begin

text \<open>
  The health monitor (\<^verbatim>\<open>daemon/internal/health/monitor.go\<close>) and the configuration the daemon
  gives it (\<^verbatim>\<open>cmd/daemon/health_runtime_config.go\<close>).  The six checks run against the device of
  \<^verbatim>\<open>Processes\<close>; the output of external commands, the DNS resolver and the URL parser are parameters.
  A detail text is localised in the code: here it is the constructor that stands for the sentence,
  with the values printed in it.  The callbacks are the events a tick returns.

  The loop's goroutine only calls \<^verbatim>\<open>tick\<close>.  Other goroutines may run while a tick's checks are
  under way, so the tick is given in two halves: what it reads first, and what it does at the end.
\<close>

section \<open>Results\<close>

datatype check_detail =
    PidMissing | FindProcessFailed string | SignalFailed int go_error | PidAlive int
  | PortDown int go_error | PortOpen int string
  | ChainMissing string | ChainHooked
  | RuleShowFailed go_error | RuleBoth string | RuleV4NoV6Routing string | RuleV6Missing string
  | RuleV4Missing string | RuleMissing string
  | DnsListenerDown int go_error | DnsListenerUp string int
  | DnsResolved int string | DnsLookupFailed int go_error

record check_result =
  ck_Pass :: bool
  ck_Detail :: check_detail
  ck_Code :: string

definition check_ok :: "check_detail \<Rightarrow> check_result" where
  "check_ok d = \<lparr>ck_Pass = True, ck_Detail = d, ck_Code = []\<rparr>"

definition check_fail :: "check_detail \<Rightarrow> string \<Rightarrow> check_result" where
  "check_fail d code = \<lparr>ck_Pass = False, ck_Detail = d, ck_Code = code\<rparr>"

record health_result =
  hr_Timestamp :: gtime
  hr_Overall :: bool
  hr_Checks :: "string \<rightharpoonup> check_result"

record health_monitor =
  hm_interval :: duration
  hm_threshold :: int
  hm_tproxyPort :: int
  hm_dnsPort :: int
  hm_routeMark :: int
  hm_dnsHosts :: "string list"
  hm_dnsHard :: bool
  hm_dnsTimeout :: duration
  hm_failures :: int
  hm_lastResult :: "health_result option"
  hm_started :: bool
  hm_onDegraded :: bool
  hm_onRestored :: bool

record 'n health_env =
  he_find_process :: "int \<Rightarrow> string option"
  he_command :: "string \<Rightarrow> string list \<Rightarrow> 'n core_world \<Rightarrow> string \<times> go_error option"
  he_lookup :: "int \<Rightarrow> duration \<Rightarrow> string \<Rightarrow> 'n core_world \<Rightarrow> go_error + string list"
  he_url_host :: "string \<Rightarrow> string option"

section \<open>Parameters\<close>

definition dns_probe_host :: "(string \<Rightarrow> string option) \<Rightarrow> string \<Rightarrow> string" where
  "dns_probe_host url_host check_url =
     (if check_url = [] then ''dns.google''
      else (case url_host check_url of
              None \<Rightarrow> ''dns.google''
            | Some h \<Rightarrow> if h = [] then ''dns.google'' else h))"

definition normalize_dns_probe_hosts :: "(string \<Rightarrow> string option) \<Rightarrow> string \<Rightarrow> string list \<Rightarrow> string list" where
  "normalize_dns_probe_hosts url_host check_url domains =
     (let hosts = clean_values domains;
          hosts1 = (if hosts = []
                    then (let h = dns_probe_host url_host check_url in if h \<noteq> [] then [h] else [])
                    else hosts)
      in if hosts1 = [] then [''dns.google''] else hosts1)"

definition normalized_dns_timeout :: "duration \<Rightarrow> duration" where
  "normalized_dns_timeout t = (if t \<le> 0 then 3 * second else t)"

definition new_health_monitor ::
  "(string \<Rightarrow> string option) \<Rightarrow> duration \<Rightarrow> int \<Rightarrow> int \<Rightarrow> int \<Rightarrow> int \<Rightarrow> string \<Rightarrow> duration \<Rightarrow> health_monitor" where
  "new_health_monitor url_host interval threshold tproxy_port dns_port route_mark check_url timeout =
     \<lparr>hm_interval = interval, hm_threshold = (if threshold < 1 then 3 else threshold),
      hm_tproxyPort = tproxy_port, hm_dnsPort = dns_port, hm_routeMark = route_mark,
      hm_dnsHosts = normalize_dns_probe_hosts url_host check_url [], hm_dnsHard = False,
      hm_dnsTimeout = normalized_dns_timeout timeout, hm_failures = 0, hm_lastResult = None,
      hm_started = False, hm_onDegraded = False, hm_onRestored = False\<rparr>"

record health_runtime_config =
  hrc_Interval :: duration
  hrc_Threshold :: int
  hrc_TProxyPort :: int
  hrc_DNSPort :: int
  hrc_RouteMark :: int
  hrc_CheckURL :: string
  hrc_DNSProbeDomains :: "string list"
  hrc_DNSIsHardReadiness :: bool
  hrc_Timeout :: duration

definition health_set_config ::
  "(string \<Rightarrow> string option) \<Rightarrow> health_runtime_config \<Rightarrow> health_monitor \<Rightarrow> health_monitor" where
  "health_set_config url_host c h =
     h\<lparr>hm_interval := (if 0 < hrc_Interval c then hrc_Interval c else hm_interval h),
       hm_threshold := (if 1 \<le> hrc_Threshold c then hrc_Threshold c else hm_threshold h),
       hm_tproxyPort := (if 0 < hrc_TProxyPort c then hrc_TProxyPort c else hm_tproxyPort h),
       hm_dnsPort := (if 0 < hrc_DNSPort c then hrc_DNSPort c else hm_dnsPort h),
       hm_routeMark := (if hrc_RouteMark c \<noteq> 0 then hrc_RouteMark c else hm_routeMark h),
       hm_dnsHosts := normalize_dns_probe_hosts url_host (hrc_CheckURL c) (hrc_DNSProbeDomains c),
       hm_dnsHard := hrc_DNSIsHardReadiness c,
       hm_dnsTimeout := normalized_dns_timeout (hrc_Timeout c)\<rparr>"

definition new_health_runtime_config :: "config option \<Rightarrow> health_runtime_config" where
  "new_health_runtime_config c =
     (let cfg = (case c of None \<Rightarrow> default_config | Some x \<Rightarrow> x);
          hc = cf_Health cfg; px = cf_Proxy cfg;
          interval = hc_IntervalSec hc * second; timeout = hc_TimeoutSec hc * second
      in \<lparr>hrc_Interval = (if interval \<le> 0 then 30 * second else interval),
          hrc_Threshold = (if hc_Threshold hc < 1 then 3 else hc_Threshold hc),
          hrc_TProxyPort = (if px_TProxyPort px = 0 then 10853 else px_TProxyPort px),
          hrc_DNSPort = (if px_DNSPort px = 0 then 10856 else px_DNSPort px),
          hrc_RouteMark = (if px_Mark px = 0 then 8227 else px_Mark px),
          hrc_CheckURL = hc_URL hc, hrc_DNSProbeDomains = hc_DNSProbeDomains hc,
          hrc_DNSIsHardReadiness = hc_DNSIsHardReadiness hc,
          hrc_Timeout = (if timeout \<le> 0 then 5 * second else timeout)\<rparr>)"

section \<open>Starting and stopping the loop\<close>

text \<open>The result says whether a loop was launched, and whether one was told to stop.\<close>

definition health_start :: "health_monitor \<Rightarrow> bool \<times> health_monitor" where
  "health_start h =
     (if hm_started h then (False, h) else (True, h\<lparr>hm_failures := 0, hm_started := True\<rparr>))"

definition health_stop :: "health_monitor \<Rightarrow> bool \<times> health_monitor" where
  "health_stop h = (hm_started h, h\<lparr>hm_started := False\<rparr>)"

definition health_clear :: "health_monitor \<Rightarrow> health_monitor" where
  "health_clear h = h\<lparr>hm_failures := 0, hm_lastResult := None\<rparr>"

definition install_callbacks :: "health_monitor \<Rightarrow> health_monitor" where
  "install_callbacks h = h\<lparr>hm_onDegraded := True, hm_onRestored := True\<rparr>"

section \<open>The checks\<close>

definition check_process_alive ::
  "'n health_env \<Rightarrow> int \<Rightarrow> 'n core_world \<Rightarrow> check_result \<times> 'n core_world" where
  "check_process_alive env pid w =
     (if pid \<le> 0 then (check_fail PidMissing ''CORE_PID_MISSING'', w)
      else (case he_find_process env pid of
              Some m \<Rightarrow> (check_fail (FindProcessFailed m) ''CORE_PID_LOOKUP_FAILED'', w)
            | None \<Rightarrow>
                (case os_signal_process pid Sig0 w of
                   (Some e, w1) \<Rightarrow> (check_fail (SignalFailed pid e) ''CORE_PROCESS_DEAD'', w1)
                 | (None, w1) \<Rightarrow> (check_ok (PidAlive pid), w1))))"

definition check_port_listening :: "int \<Rightarrow> 'n core_world \<Rightarrow> check_result \<times> 'n core_world" where
  "check_port_listening port w =
     (case wait_for_local_port port (2 * second) w of
        (Inl e, w1) \<Rightarrow> (check_fail (PortDown port e) ''TPROXY_PORT_DOWN'', w1)
      | (Inr host, w1) \<Rightarrow> (check_ok (PortOpen port host), w1))"

definition run_command ::
  "'n health_env \<Rightarrow> string \<Rightarrow> string list \<Rightarrow> 'n core_world \<Rightarrow> (string \<times> go_error option) \<times> 'n core_world" where
  "run_command env name args w = (let (c, w1) = os_turn w in (he_command env name args w1, w1))"

definition check_iptables_intact ::
  "'n health_env \<Rightarrow> 'n core_world \<Rightarrow> check_result \<times> 'n core_world" where
  "check_iptables_intact env w =
     (case run_command env ''iptables''
             [''-w'', ''5'', ''-t'', ''mangle'', ''-C'', ''PREROUTING'', ''-j'', ''RKNNOVPN_PRE''] w of
        ((out, None), w1) \<Rightarrow> (check_ok ChainHooked, w1)
      | ((out, Some e), w1) \<Rightarrow>
          (check_fail (ChainMissing (if trim_space out \<noteq> [] then trim_space out else error_msg e))
             ''RULES_NOT_APPLIED'', w1))"

definition ip_rule_output_matches :: "string \<Rightarrow> string \<Rightarrow> string \<Rightarrow> string \<Rightarrow> bool" where
  "ip_rule_output_matches output mark_hex_text mark_dec table \<longleftrightarrow>
     (\<exists>line \<in> set (split_char (CHR 0x0A) output).
        rule_line_matches line mark_hex_text table \<or> rule_line_matches line mark_dec table)"

definition routing_verdict :: "string \<Rightarrow> bool \<Rightarrow> bool \<Rightarrow> bool \<Rightarrow> check_result" where
  "routing_verdict mark has_v4 has_v6 v6_available =
     (if has_v4 \<and> has_v6 then check_ok (RuleBoth mark)
      else if has_v4 \<and> \<not> v6_available then check_ok (RuleV4NoV6Routing mark)
      else if has_v4 then check_fail (RuleV6Missing mark) ''ROUTING_V6_MISSING''
      else if has_v6 then check_fail (RuleV4Missing mark) ''ROUTING_V4_MISSING''
      else check_fail (RuleMissing mark) ''ROUTING_NOT_APPLIED'')"

definition check_routing_intact ::
  "'n health_env \<Rightarrow> health_monitor \<Rightarrow> 'n core_world \<Rightarrow> check_result \<times> 'n core_world" where
  "check_routing_intact env h w =
     (let mark = (if hm_routeMark h = 0 then 8227 else hm_routeMark h);
          hex = mark_hex mark; dec = int_str mark
      in case run_command env ''ip'' [''rule'', ''show''] w of
           ((out, Some e), w1) \<Rightarrow> (check_fail (RuleShowFailed e) ''ROUTING_CHECK_FAILED'', w1)
         | ((out, None), w1) \<Rightarrow>
             (let ((out6, err6), w2) = run_command env ''ip'' [''-6'', ''rule'', ''show''] w1;
                  v6 = (err6 = None)
              in (routing_verdict hex (ip_rule_output_matches out hex dec ''2023'')
                    (v6 \<and> ip_rule_output_matches out6 hex dec ''2024'') v6, w2)))"

definition dns_port_or_default :: "health_monitor \<Rightarrow> int" where
  "dns_port_or_default h = (if hm_dnsPort h \<le> 0 then 10856 else hm_dnsPort h)"

definition check_dns_listener :: "health_monitor \<Rightarrow> 'n core_world \<Rightarrow> check_result \<times> 'n core_world" where
  "check_dns_listener h w =
     (let port = dns_port_or_default h
      in case wait_for_local_port port (2 * second) w of
           (Inl e, w1) \<Rightarrow> (check_fail (DnsListenerDown port e) ''DNS_LISTENER_DOWN'', w1)
         | (Inr host, w1) \<Rightarrow> (check_ok (DnsListenerUp host port), w1))"

fun lookup_hosts ::
  "'n health_env \<Rightarrow> int \<Rightarrow> duration \<Rightarrow> string list \<Rightarrow> go_error option \<Rightarrow> 'n core_world
     \<Rightarrow> (go_error option + string) \<times> 'n core_world" where
  "lookup_hosts env port timeout [] last_err w = (Inl last_err, w)"
| "lookup_hosts env port timeout (host # hosts) last_err w =
     (let (c, w1) = os_turn w
      in case he_lookup env port timeout host w1 of
           Inr addrs \<Rightarrow> if addrs \<noteq> [] then (Inr host, w1)
                        else lookup_hosts env port timeout hosts last_err w1
         | Inl e \<Rightarrow> lookup_hosts env port timeout hosts (Some e) w1)"

definition check_dns ::
  "'n health_env \<Rightarrow> health_monitor \<Rightarrow> 'n core_world \<Rightarrow> check_result \<times> 'n core_world" where
  "check_dns env h w =
     (let port = dns_port_or_default h;
          timeout = (if hm_dnsTimeout h \<le> 0 then 3 * second else hm_dnsTimeout h)
      in case lookup_hosts env port timeout (hm_dnsHosts h) None w of
           (Inr host, w1) \<Rightarrow> (check_ok (DnsResolved port host), w1)
         | (Inl last_err, w1) \<Rightarrow>
             (check_fail (DnsLookupFailed port
                (case last_err of None \<Rightarrow> ErrorString ''no DNS probe hosts configured'' | Some e \<Rightarrow> e))
                ''DNS_LOOKUP_TIMEOUT'', w1))"

section \<open>One cycle\<close>

definition passes :: "(string \<rightharpoonup> check_result) \<Rightarrow> string \<Rightarrow> bool" where
  "passes checks name = (case checks name of None \<Rightarrow> False | Some c \<Rightarrow> ck_Pass c)"

definition overall_health :: "bool \<Rightarrow> (string \<rightharpoonup> check_result) \<Rightarrow> bool" where
  "overall_health dns_hard checks \<longleftrightarrow>
     passes checks ''singbox_alive'' \<and> passes checks ''tproxy_port'' \<and> passes checks ''iptables'' \<and>
     passes checks ''routing'' \<and>
     (dns_hard \<longrightarrow> passes checks ''dns_listener'' \<and> passes checks ''dns'')"

definition run_once ::
  "'n health_env \<Rightarrow> health_monitor \<Rightarrow> 'n core_st \<Rightarrow> health_result \<times> health_monitor \<times> 'n core_st" where
  "run_once env h = (\<lambda>(m, w).
     let (now, w0) = os_now w;
         (alive, w1) = check_process_alive env (si_PID (core_status m)) w0;
         (port, w2) = check_port_listening (hm_tproxyPort h) w1;
         (rules, w3) = check_iptables_intact env w2;
         (route, w4) = check_routing_intact env h w3;
         (listener, w5) = check_dns_listener h w4;
         (dns, w6) = check_dns env h w5;
         checks = [''singbox_alive'' \<mapsto> alive, ''tproxy_port'' \<mapsto> port, ''iptables'' \<mapsto> rules,
                   ''routing'' \<mapsto> route, ''dns_listener'' \<mapsto> listener, ''dns'' \<mapsto> dns];
         result = \<lparr>hr_Timestamp = now, hr_Overall = overall_health (hm_dnsHard h) checks,
                   hr_Checks = checks\<rparr>
     in (result, h\<lparr>hm_lastResult := Some result\<rparr>, (m, w6)))"

datatype health_event = CallDegraded | CallRestored

text \<open>The end of a tick: \<open>observed\<close> is the state that was read before the checks ran.\<close>

definition tick_end ::
  "core_state \<Rightarrow> health_result \<Rightarrow> health_monitor \<times> core_manager
     \<Rightarrow> health_event list \<times> health_monitor \<times> core_manager" where
  "tick_end observed result = (\<lambda>(h, m).
     let h1 = h\<lparr>hm_lastResult := Some result\<rparr>
     in if hr_Overall result
        then (if hm_onRestored h1 then [CallRestored] else [], h1\<lparr>hm_failures := 0\<rparr>,
              if observed = StateDegraded then set_state StateRunning m else m)
        else (let failures = hm_failures h1 + 1; h2 = h1\<lparr>hm_failures := failures\<rparr>
              in if hm_threshold h2 \<le> failures \<and> observed \<noteq> StateDegraded
                 then (if hm_onDegraded h2 then [CallDegraded] else [], h2, set_state StateDegraded m)
                 else ([], h2, m)))"

definition tick_applies :: "core_manager \<Rightarrow> bool" where
  "tick_applies m \<longleftrightarrow> cm_state m = StateRunning \<or> cm_state m = StateDegraded"

definition health_tick ::
  "'n health_env \<Rightarrow> health_monitor \<times> 'n core_st \<Rightarrow> health_event list \<times> health_monitor \<times> 'n core_st" where
  "health_tick env = (\<lambda>(h, st).
     if \<not> tick_applies (fst st) then ([], h, st)
     else (let (result, h1, st1) = run_once env h st;
               (events, h2, m2) = tick_end (cm_state (fst st)) result (h1, fst st1)
           in (events, h2, (m2, snd st1))))"

text \<open>\<^verbatim>\<open>summarize\<close>; the printed details are a parameter.\<close>

definition summarize :: "(check_detail \<Rightarrow> string) \<Rightarrow> health_result \<Rightarrow> string" where
  "summarize txt r =
     (let parts = concat (map (\<lambda>name. case hr_Checks r name of
              None \<Rightarrow> []
            | Some c \<Rightarrow> if ck_Pass c then [] else [name @ ''('' @ txt (ck_Detail c) @ '')''])
            [''singbox_alive'', ''tproxy_port'', ''iptables'', ''routing'', ''dns''])
      in if parts = [] then ''all OK'' else str_join ''; '' parts)"

end
