(* ===== verification/RescueProperties.thy ===== *)
theory RescueProperties
  imports Rescue HealthMonitor CoreProperties
begin

text \<open>
  What an automatic recovery does: the outcomes of an attempt and its bounds, what the daemon's gate
  admits, and how far the recovery escalates when the health monitor drives it.
\<close>

section \<open>Attempts\<close>

lemma rescue_reset_fst:
  "fst (snd (rescue_reset env st)) = set_state StateStopped (forget_profile (forget_xray (forget_core (fst st))))"
  using stop_with_mode_fst [of True env st] by (simp add: rescue_reset_def)

lemma check_cooldown_cases:
  "fst (check_cooldown r w) = None \<longleftrightarrow>
     time_is_zero (rm_lastAttempt r) \<or> rm_cooldown r \<le> time_sub (fst (os_now w)) (rm_lastAttempt r)"
  by (auto simp: check_cooldown_def Let_def split_beta)

text \<open>The attempt was made: the counter and the time moved, and the state tells how it ended.\<close>

definition attempt_ran ::
  "'n gate \<Rightarrow> rescue_manager \<Rightarrow> go_error option \<Rightarrow> rescue_manager \<Rightarrow> 'n core_st \<Rightarrow> bool" where
  "attempt_ran gate r err r' st' \<longleftrightarrow>
     rm_attempts r < rm_maxAttempts r \<and> rm_attempts r' = rm_attempts r + 1 \<and>
     rm_maxAttempts r' = rm_maxAttempts r \<and> rm_cooldown r' = rm_cooldown r \<and> rm_cfg r' = rm_cfg r \<and>
     (err = None \<longrightarrow> cm_state (fst st') = StateRunning)"

lemma attempt_strategy_running:
  "fst (attempt_strategy env gate s r st) = None \<Longrightarrow> cm_state (fst (snd (attempt_strategy env gate s r st))) = StateRunning"
  by (auto simp: attempt_strategy_def Let_def on_manager_def set_state_def split: if_splits option.splits prod.splits)

lemma rescue_attempt_result:
  assumes "rescue_attempt env gate (r, st) = (err, r', st')"
  shows "r' = r \<and> fst st' = fst st \<and> err \<noteq> None \<and>
           (\<not> recovery_allowed gate st \<or> fst (check_cooldown r (snd st)) \<noteq> None \<or> rm_maxAttempts r \<le> rm_attempts r) \<or>
         recovery_allowed gate st \<and> fst (check_cooldown r (snd st)) = None \<and> attempt_ran gate r err r' st'"
proof (cases "recovery_allowed gate st \<and> fst (check_cooldown r (snd st)) = None \<and> rm_attempts r < rm_maxAttempts r")
  case True
  let ?w = "snd (check_cooldown r (snd st))"
  let ?r = "r\<lparr>rm_attempts := rm_attempts r + 1, rm_lastAttempt := fst (os_now ?w)\<rparr>"
  let ?a = "attempt_strategy env gate (pick_strategy r) ?r (fst st, snd (os_now ?w))"
  from True assms have "err = fst ?a" "r' = ?r" "st' = snd ?a"
    by (auto simp: rescue_attempt_def Let_def split_beta split: option.splits prod.splits)
  with True attempt_strategy_running [of env gate "pick_strategy r" ?r "(fst st, snd (os_now ?w))"] show ?thesis
    by (simp add: attempt_ran_def)
next
  case False
  with assms show ?thesis
    by (auto simp: rescue_attempt_def Let_def split_beta split: option.splits prod.splits if_splits)
qed

text \<open>
  C21.  An attempt is refused when the gate is closed, during the cooldown after the previous attempt, and
  when the attempts are used up; then the manager and the rescue state are unchanged.  Otherwise it counts, so
  the number of attempts never passes the maximum, and it succeeds only with a running core.
\<close>

theorem rescue_attempt_outcome:
  assumes "rescue_attempt env gate (r, st) = (err, r', st')"
  shows "r' = r \<and> fst st' = fst st \<and> err \<noteq> None \<and>
           (\<not> recovery_allowed gate st \<or> fst (check_cooldown r (snd st)) \<noteq> None \<or> rm_maxAttempts r \<le> rm_attempts r) \<or>
         recovery_allowed gate st \<and> fst (check_cooldown r (snd st)) = None \<and> attempt_ran gate r err r' st'"
  by (rule rescue_attempt_result [OF assms])

definition demo_rescue :: rescue_manager where
  "demo_rescue = new_rescue_manager default_config ''/d'' 3 (60 * second)"

definition demo_rescue_env :: "unit rescue_env" where
  "demo_rescue_env = \<lparr>re_core = demo_core_env (Inr []), re_script_env = (\<lambda>d c. Map.empty)\<rparr>"

theorem rescue_attempt_outcome_witness:
  "fst (rescue_attempt demo_rescue_env None (demo_rescue\<lparr>rm_attempts := 3\<rparr>, demo_core, demo_device)) \<noteq> None \<and>
   fst (snd (rescue_attempt demo_rescue_env None (demo_rescue\<lparr>rm_attempts := 3\<rparr>, demo_core, demo_device))) =
     demo_rescue\<lparr>rm_attempts := 3\<rparr>"
proof -
  obtain err r' st' where
    run: "rescue_attempt demo_rescue_env None (demo_rescue\<lparr>rm_attempts := 3\<rparr>, demo_core, demo_device) = (err, r', st')"
    by (rule prod_cases3)
  have "rm_maxAttempts demo_rescue = 3" by (simp add: demo_rescue_def new_rescue_manager_def)
  with rescue_attempt_outcome [OF run] run show ?thesis by (auto simp: attempt_ran_def)
qed

section \<open>The daemon's gate\<close>

text \<open>
  C22.  Under the daemon's gate the full restart never starts the core.  Whatever the daemon wants, the
  strategy ends with the error that it was cancelled; at most it has torn the core down: the gate requires an
  active runtime, and the teardown that comes before the second look at the gate has just made it inactive.
\<close>

theorem full_restart_never_starts:
  "fst (full_restart env (Some (\<lambda>st. can_run_recovery (intent st) d epoch st)) r st) = cancelled \<and>
   (snd (full_restart env (Some (\<lambda>st. can_run_recovery (intent st) d epoch st)) r st) = st \<or>
    snd (full_restart env (Some (\<lambda>st. can_run_recovery (intent st) d epoch st)) r st) =
      snd (rescue_reset (re_core env) st))"
proof -
  have "\<not> can_run_recovery (intent st1) d epoch st1" if "st1 = snd (rescue_reset (re_core env) st)" for st1
    using rescue_reset_fst [of "re_core env" st] that by (simp add: can_run_recovery_def set_state_def)
  then show ?thesis
    by (simp add: full_restart_def recovery_allowed_def Let_def)
qed

text \<open>
  A recovery that was scheduled before the user's last start or stop does nothing: the operation of the
  degraded callback leaves the rescue state, the manager and the device as they are.
\<close>

theorem stale_recovery_refused:
  "degraded_operation env (\<lambda>st. snd (begin_stop ri)) d epoch cfg rst = rst \<and>
   degraded_operation env (\<lambda>st. snd (begin_start ri)) d (ri_epoch ri) cfg rst = rst"
  by (simp add: degraded_operation_def can_run_recovery_def begin_stop_def begin_start_def)

end
