(* ===== verification/HealthProperties.thy ===== *)
theory HealthProperties
  imports HealthMonitor
begin

text \<open>
  The monitor as a state machine: what a sequence of ticks makes of the counter, the state of the
  manager and the callbacks.
\<close>

definition trailing_failures :: "health_result list \<Rightarrow> nat" where
  "trailing_failures rs = length (takeWhile (\<lambda>r. \<not> hr_Overall r) (rev rs))"

lemma trailing_failures_simps [simp]:
  "trailing_failures [] = 0"
  "trailing_failures (rs @ [r]) = (if hr_Overall r then 0 else Suc (trailing_failures rs))"
  by (simp_all add: trailing_failures_def)

text \<open>The ticks of a loop that nothing else interferes with, given the results of their checks.\<close>

definition tick_with ::
  "health_result \<Rightarrow> health_event list \<times> health_monitor \<times> core_manager
     \<Rightarrow> health_event list \<times> health_monitor \<times> core_manager" where
  "tick_with r = (\<lambda>(evs, h, m).
     if tick_applies m
     then (let (new, h', m') = tick_end (cm_state m) r (h, m) in (evs @ new, h', m'))
     else (evs, h, m))"

definition ticks ::
  "health_result list \<Rightarrow> health_monitor \<times> core_manager \<Rightarrow> health_event list \<times> health_monitor \<times> core_manager" where
  "ticks rs = (\<lambda>(h, m). fold tick_with rs ([], h, m))"

text \<open>The events the results call for: one for a healthy cycle, one when a run of failures becomes long enough.\<close>

definition expected_events :: "int \<Rightarrow> health_result list \<Rightarrow> health_event list" where
  "expected_events threshold rs =
     concat (map (\<lambda>i. if hr_Overall (rs ! i) then [CallRestored]
                       else if int (trailing_failures (take (Suc i) rs)) = threshold then [CallDegraded] else [])
               [0..<length rs])"

lemma expected_events_simps [simp]:
  "expected_events t [] = []"
  "expected_events t (rs @ [r]) = expected_events t rs @
     (if hr_Overall r then [CallRestored]
      else if int (Suc (trailing_failures rs)) = t then [CallDegraded] else [])"
  by (auto simp: expected_events_def nth_append intro!: arg_cong [of _ _ concat] map_cong)

definition machine_state ::
  "health_monitor \<Rightarrow> core_manager \<Rightarrow> health_result list \<Rightarrow> health_event list \<times> health_monitor \<times> core_manager \<Rightarrow> bool"
where
  "machine_state h0 m0 rs = (\<lambda>(evs, h, m).
     hm_failures h = int (trailing_failures rs) \<and>
     m = set_state (if hm_threshold h0 \<le> int (trailing_failures rs) then StateDegraded else StateRunning) m0 \<and>
     evs = expected_events (hm_threshold h0) rs \<and>
     hm_threshold h = hm_threshold h0 \<and> hm_onDegraded h \<and> hm_onRestored h)"

lemma set_state_simps [simp]:
  "set_state s (set_state t m) = set_state s m" "cm_state (set_state s m) = s"
  by (simp_all add: set_state_def)

lemma tick_with_machine:
  assumes "machine_state h0 m0 rs s" "1 \<le> hm_threshold h0"
  shows "machine_state h0 m0 (rs @ [r]) (tick_with r s)"
proof (cases s)
  case (fields evs h m)
  with assms show ?thesis
    by (cases "hm_threshold h0 \<le> int (trailing_failures rs)")
       (auto simp: machine_state_def tick_with_def tick_applies_def tick_end_def Let_def)
qed

lemma ticks_machine:
  assumes "1 \<le> hm_threshold h" "hm_failures h = 0" "cm_state m = StateRunning" "hm_onDegraded h" "hm_onRestored h"
  shows "machine_state h m rs (ticks rs (h, m))"
proof (induction rs rule: rev_induct)
  case Nil
  from assms show ?case by (auto simp: machine_state_def ticks_def set_state_def)
next
  case (snoc r rs)
  from tick_with_machine [OF this assms(1)] show ?case by (simp add: ticks_def)
qed

text \<open>
  C20.  From a running core, the monitor is exactly a counter of the trailing failures: the core is degraded
  when the last results, as many as the threshold, all failed, and running otherwise, and nothing else of the manager
  changes.  The degraded callback fires once per run of failures, when the run reaches the threshold, and the
  restored callback fires for every healthy cycle.
\<close>

theorem health_machine_exact:
  assumes "1 \<le> hm_threshold h" "hm_failures h = 0" "cm_state m = StateRunning" "hm_onDegraded h" "hm_onRestored h"
    and "ticks rs (h, m) = (events, h', m')"
  shows "hm_failures h' = int (trailing_failures rs) \<and>
         m' = set_state (if hm_threshold h \<le> int (trailing_failures rs) then StateDegraded else StateRunning) m \<and>
         events = expected_events (hm_threshold h) rs"
  using ticks_machine [OF assms(1-5), of rs] assms(6) by (simp add: machine_state_def)

definition demo_monitor :: health_monitor where
  "demo_monitor = install_callbacks (new_health_monitor (\<lambda>u. None) (30 * second) 2 10853 10856 8227 [] second)"

definition result_of :: "bool \<Rightarrow> health_result" where
  "result_of ok = \<lparr>hr_Timestamp = 0, hr_Overall = ok, hr_Checks = Map.empty\<rparr>"

theorem health_machine_exact_witness:
  "fst (ticks [result_of False, result_of False, result_of False, result_of True]
     (demo_monitor, set_state StateRunning (new_core_manager default_config []))) = [CallDegraded, CallRestored]"
proof -
  let ?rs = "[result_of False, result_of False, result_of False, result_of True]"
  let ?m = "set_state StateRunning (new_core_manager default_config [])"
  obtain events h' m' where run: "ticks ?rs (demo_monitor, ?m) = (events, h', m')" by (metis prod.exhaust)
  have mon: "1 \<le> hm_threshold demo_monitor" "hm_failures demo_monitor = 0" "hm_onDegraded demo_monitor"
    "hm_onRestored demo_monitor" "hm_threshold demo_monitor = 2"
    by (simp_all add: demo_monitor_def new_health_monitor_def install_callbacks_def)
  have "expected_events 2 ?rs = [CallDegraded, CallRestored]"
    by (simp add: expected_events_def result_of_def trailing_failures_def upt_rec)
  with health_machine_exact [OF mon(1,2) _ mon(3,4) run] run mon(5) show ?thesis by simp
qed

end
