(* ===== verification/RecoveryLoop.thy ===== *)
theory RecoveryLoop
  imports RescueProperties HealthProperties
begin

text \<open>
  The closed loop of health monitor and rescue manager: a tick and then the callbacks it fires, as
  \<^verbatim>\<open>installRescueCallbacks\<close> connects them.  Each callback is a goroutine that submits an operation
  to the orchestrator; here it runs before the next tick, as it does unless it is refused as busy.
\<close>

type_synonym 'n loop_state = "rescue_manager \<times> health_monitor \<times> 'n core_st"

definition run_callback ::
  "'n rescue_env \<Rightarrow> ('n core_st \<Rightarrow> runtime_intent) \<Rightarrow> string \<Rightarrow> config \<Rightarrow> health_event
     \<Rightarrow> rescue_manager \<times> 'n core_st \<Rightarrow> rescue_manager \<times> 'n core_st" where
  "run_callback env intent d cfg event rst =
     (case event of
        CallRestored \<Rightarrow> restored_callback rst
      | CallDegraded \<Rightarrow>
          (let epoch = ri_epoch (intent (snd rst))
           in if can_run_recovery (intent (snd rst)) d epoch (snd rst)
              then degraded_operation env intent d epoch cfg rst else rst))"

definition recovery_round ::
  "'n health_env \<Rightarrow> 'n rescue_env \<Rightarrow> ('n core_st \<Rightarrow> runtime_intent) \<Rightarrow> string \<Rightarrow> config
     \<Rightarrow> 'n loop_state \<Rightarrow> 'n loop_state" where
  "recovery_round henv env intent d cfg = (\<lambda>(r, h, st).
     let (events, h1, st1) = health_tick henv (h, st);
         (r2, st2) = fold (run_callback env intent d cfg) events (r, st1)
     in (r2, h1, st2))"

definition recovery_rounds ::
  "'n health_env \<Rightarrow> 'n rescue_env \<Rightarrow> ('n core_st \<Rightarrow> runtime_intent) \<Rightarrow> string \<Rightarrow> config
     \<Rightarrow> nat \<Rightarrow> 'n loop_state \<Rightarrow> 'n loop_state" where
  "recovery_rounds henv env intent d cfg n = recovery_round henv env intent d cfg ^^ n"

lemma recovery_rounds_simps [simp]:
  "recovery_rounds henv env intent d cfg 0 s = s"
  "recovery_rounds henv env intent d cfg (Suc n) s =
     recovery_round henv env intent d cfg (recovery_rounds henv env intent d cfg n s)"
  by (simp_all add: recovery_rounds_def)




section \<open>The invariant\<close>
















end
