(* ===== verification/ProfileDoc.thy ===== *)
theory ProfileDoc
  imports ConfigRules GoLists IpAddress
begin

text \<open>
  The profile document (\<^verbatim>\<open>daemon/internal/profile/profile.go\<close>): its sections, the endpoints a
  subscription may not name, and its normalisation.  Outbounds and the extra field are raw JSON.  The check
  \<^verbatim>\<open>json.Valid\<close> and the clock are arguments.  \<^verbatim>\<open>Normalize\<close> also returns the document it has
  changed so far beside an error, which every caller drops; here an error has no document.
\<close>

section \<open>The document\<close>

record doc_routing =
  dr_Mode :: string
  dr_BypassRussia :: bool
  dr_AppProxyList :: "string list"
  dr_AppBypassList :: "string list"
  dr_AppGroupRoutes :: env
  dr_DirectDomains :: "string list"
  dr_ProxyDomains :: "string list"
  dr_BlockDomains :: "string list"
  dr_DirectIps :: "string list"
  dr_ProxyIps :: "string list"
  dr_BlockIps :: "string list"
  dr_AlwaysDirectAppList :: "string list"
  dr_AlwaysDirectExcludedAppList :: "string list"
  dr_AlwaysDirectSystemApps :: bool

record doc_dns =
  dd_RemoteDNS :: string
  dd_DirectDNS :: string
  dd_BootstrapIP :: string
  dd_IPv6Mode :: string
  dd_FakeDNS :: bool

record doc_health =
  dh_Enabled :: bool
  dh_IntervalSec :: int
  dh_Threshold :: int
  dh_CheckURL :: string
  dh_TimeoutSec :: int
  dh_DNSProbeDomains :: "string list"
  dh_EgressURLs :: "string list"
  dh_DNSIsHardReadiness :: bool

record doc_tun =
  dt_Enabled :: bool
  dt_MTU :: int
  dt_IPv4Address :: string
  dt_IPv6 :: bool
  dt_AutoRoute :: bool
  dt_StrictRoute :: bool

record profile_node =
  nd_ID :: string
  nd_Name :: string
  nd_Protocol :: string
  nd_Server :: string
  nd_Port :: int
  nd_Link :: string
  nd_Outbound :: string
  nd_Group :: string
  nd_OwnerPackage :: string
  nd_LatencyMS :: "int option"
  nd_ResponseMS :: "int option"
  nd_ThroughputBps :: "int option"
  nd_TestStatus :: string
  nd_CreatedAt :: int
  nd_Stale :: bool
  nd_Source :: node_source
  nd_Extra :: string

record document =
  do_SchemaVersion :: int
  do_ID :: string
  do_Name :: string
  do_ActiveNodeID :: string
  do_Nodes :: "profile_node list"
  do_Subscriptions :: "profile_subscription list"
  do_Runtime :: runtime_v2_config
  do_Routing :: doc_routing
  do_DNS :: doc_dns
  do_Health :: doc_health
  do_Sharing :: sharing_config
  do_Tun :: doc_tun
  do_Inbounds :: profile_inbounds
  do_Extra :: string

record profile_warning =
  pw_Code :: string
  pw_Message :: string

definition document_schema_version :: int where
  "document_schema_version = 2"

text \<open>The package's \<^verbatim>\<open>firstNonEmpty\<close> trims, unlike the one of \<^verbatim>\<open>runtimev2\<close>.\<close>

fun first_trimmed :: "string list \<Rightarrow> string" where
  "first_trimmed [] = []"
| "first_trimmed (v # vs) = (if trim_space v \<noteq> [] then trim_space v else first_trimmed vs)"

section \<open>Endpoints\<close>

definition local_host_suffixes :: "string list" where
  "local_host_suffixes = [''.localhost'', ''.local'', ''.localdomain'', ''.lan'', ''.home.arpa'']"

definition is_local_subscription_hostname :: "string \<Rightarrow> bool" where
  "is_local_subscription_hostname host \<longleftrightarrow>
     host = ''localhost'' \<or> host = ''ip6-localhost'' \<or>
     list_ex (\<lambda>suffix. host = drop 1 suffix \<or> has_suffix host suffix) local_host_suffixes"

text \<open>
  A prefix is the groups of its address, as \<^verbatim>\<open>ParseIP\<close> gives them, and its length in bits; IPv4
  prefixes are written in the mapped form, so their lengths are 96 larger.  An address is unmapped before the
  comparison, so a mapped IPv4 address never matches a true IPv6 prefix.
\<close>

definition ip_value :: "nat list \<Rightarrow> nat" where
  "ip_value = foldl (\<lambda>acc g. acc * 65536 + g) 0"

definition in_prefix :: "nat list \<Rightarrow> nat list \<times> nat \<Rightarrow> bool" where
  "in_prefix ip p \<longleftrightarrow>
     is_mapped_v4 ip = is_mapped_v4 (fst p) \<and>
     ip_value ip div 2 ^ (128 - snd p) = ip_value (fst p) div 2 ^ (128 - snd p)"

definition v4 :: "nat \<Rightarrow> nat \<Rightarrow> nat \<Rightarrow> nat \<Rightarrow> nat \<Rightarrow> nat list \<times> nat" where
  "v4 a b c d len = ([0, 0, 0, 0, 0, 65535, 256 * a + b, 256 * c + d], 96 + len)"

definition v6 :: "nat list \<Rightarrow> nat \<Rightarrow> nat list \<times> nat" where
  "v6 leading len = (leading @ replicate (8 - length leading) 0, len)"

definition reserved_subscription_prefixes :: "(nat list \<times> nat) list" where
  "reserved_subscription_prefixes =
     [v4 0 0 0 0 8, v4 100 64 0 0 10, v4 192 0 0 0 24, v4 192 0 2 0 24, v4 192 88 99 0 24,
      v4 198 18 0 0 15, v4 198 51 100 0 24, v4 203 0 113 0 24, v4 224 0 0 0 4, v4 240 0 0 0 4,
      v6 [] 128, ([0, 0, 0, 0, 0, 0, 0, 1], 128), v6 [0x64, 0xff9b] 96, v6 [0x100] 64,
      v6 [0x2001, 0xdb8] 32, v6 [0xfc00] 7, v6 [0xfe80] 10, v6 [0xff00] 8]"

text \<open>
  \<^verbatim>\<open>IsPrivate\<close>, \<^verbatim>\<open>IsLinkLocalUnicast\<close>, \<^verbatim>\<open>IsLinkLocalMulticast\<close>,
  \<^verbatim>\<open>IsInterfaceLocalMulticast\<close> and \<^verbatim>\<open>IsMulticast\<close> of package \<^verbatim>\<open>net\<close>, as prefixes.
\<close>

definition net_special_prefixes :: "(nat list \<times> nat) list" where
  "net_special_prefixes =
     [v4 10 0 0 0 8, v4 172 16 0 0 12, v4 192 168 0 0 16, v6 [0xfc00] 7,
      v4 169 254 0 0 16, v6 [0xfe80] 10, v4 224 0 0 0 24, v4 224 0 0 0 4, v6 [0xff00] 8]"

definition is_disallowed_subscription_endpoint :: "string \<Rightarrow> bool" where
  "is_disallowed_subscription_endpoint raw =
     (let trimmed = trim_set ''[]'' (to_lower (trim_space raw));
          host = (if has_suffix trimmed ''.'' then butlast trimmed else trimmed)
      in if host = [] \<or> is_local_subscription_hostname host then True
         else (case parse_ip host of
                 None \<Rightarrow> False
               | Some ip \<Rightarrow>
                   ip_is_unspecified ip \<or> ip_is_loopback ip \<or>
                   list_ex (in_prefix ip) net_special_prefixes \<or>
                   list_ex (in_prefix ip) reserved_subscription_prefixes))"

section \<open>Fields of a node\<close>

definition normalize_protocol :: "string \<Rightarrow> string" where
  "normalize_protocol value =
     (let p = to_lower (trim_space value)
      in if p = ''ss'' \<or> p = ''shadowsocks'' then ''shadowsocks''
         else if p = ''socks4'' \<or> p = ''socks4a'' \<or> p = ''socks5'' then ''socks''
         else if p = ''hy2'' then ''hysteria2''
         else if p = ''wg'' then ''wireguard''
         else p)"

definition package_start :: "char \<Rightarrow> bool" where
  "package_start c \<longleftrightarrow> 65 \<le> byte c \<and> byte c \<le> 90 \<or> 97 \<le> byte c \<and> byte c \<le> 122 \<or> c = CHR ''_''"

definition is_valid_android_package_name :: "string \<Rightarrow> bool" where
  "is_valid_android_package_name value =
     (let parts = split_char (CHR ''.'') value
      in 2 \<le> length parts \<and>
         list_all (\<lambda>part. case part of [] \<Rightarrow> False
            | c # cs \<Rightarrow> package_start c \<and> list_all (\<lambda>d. package_start d \<or> is_digit d) cs) parts)"

definition validate_port :: "string \<Rightarrow> int \<Rightarrow> bool \<Rightarrow> go_error option" where
  "validate_port name port zero_allowed =
     (if zero_allowed \<and> port = 0 then None
      else if port < 1 \<or> 65535 < port
      then Some (ErrorString (name @ '' must be 1-65535, got '' @ int_str port))
      else None)"

section \<open>Normalisation\<close>

definition doc_fail :: "string \<Rightarrow> go_error + 'a" where
  "doc_fail m = Inl (ErrorString (''profile.'' @ m))"

definition node_fail :: "nat \<Rightarrow> string \<Rightarrow> go_error + 'a" where
  "node_fail i m = doc_fail (''nodes['' @ nat_str i @ '']'' @ m)"

definition normalize_scalars :: "document \<Rightarrow> document" where
  "normalize_scalars doc =
     doc\<lparr>do_ID := first_trimmed [trim_space (do_ID doc), ''default''],
         do_Name := first_trimmed [trim_space (do_Name doc), ''Default''],
         do_Runtime := \<lparr>rv_BackendKind = first_trimmed [trim_space (rv_BackendKind (do_Runtime doc)), ''ROOT_TPROXY''],
           rv_FallbackPolicy = first_trimmed [trim_space (rv_FallbackPolicy (do_Runtime doc)), ''OFFER_RESET'']\<rparr>,
         do_Routing := (do_Routing doc)\<lparr>dr_Mode := first_trimmed [trim_space (dr_Mode (do_Routing doc)), ''PROXY_ALL'']\<rparr>,
         do_DNS := (do_DNS doc)\<lparr>
           dd_RemoteDNS := first_trimmed [trim_space (dd_RemoteDNS (do_DNS doc)), ''https://1.1.1.1/dns-query''],
           dd_DirectDNS := first_trimmed [trim_space (dd_DirectDNS (do_DNS doc)), ''https://dns.google/dns-query''],
           dd_BootstrapIP := first_trimmed [trim_space (dd_BootstrapIP (do_DNS doc)), ''1.1.1.1''],
           dd_IPv6Mode := first_trimmed [trim_space (dd_IPv6Mode (do_DNS doc)), ''MIRROR'']\<rparr>,
         do_Health := (do_Health doc)\<lparr>
           dh_IntervalSec := (if dh_IntervalSec (do_Health doc) = 0 then 30 else dh_IntervalSec (do_Health doc)),
           dh_Threshold := (if dh_Threshold (do_Health doc) = 0 then 3 else dh_Threshold (do_Health doc)),
           dh_TimeoutSec := (if dh_TimeoutSec (do_Health doc) = 0 then 5 else dh_TimeoutSec (do_Health doc)),
           dh_CheckURL := (if dh_CheckURL (do_Health doc) = [] then ''https://www.gstatic.com/generate_204''
                           else dh_CheckURL (do_Health doc))\<rparr>,
         do_Tun := (do_Tun doc)\<lparr>
           dt_MTU := (if dt_MTU (do_Tun doc) = 0 then 9000 else dt_MTU (do_Tun doc)),
           dt_IPv4Address := (if dt_IPv4Address (do_Tun doc) = [] then ''172.19.0.1/30''
                              else dt_IPv4Address (do_Tun doc))\<rparr>\<rparr>"

text \<open>The body of the loop over the nodes, after the identifier is known to be new.\<close>

definition normalize_source :: "nat \<Rightarrow> profile_node \<Rightarrow> go_error + profile_node" where
  "normalize_source i node =
     (let source = (nd_Source node)\<lparr>so_Type := to_upper (trim_space (so_Type (nd_Source node)))\<rparr>
      in if so_Type source = [] then node_fail i ''.source.type is required''
         else if so_Type source = ''MANUAL''
         then (if nd_Stale node then node_fail i ''.stale requires subscription source''
               else Inr (node\<lparr>nd_Source := source\<rparr>))
         else if so_Type source = ''SUBSCRIPTION''
         then (let trimmed = source\<lparr>so_URL := trim_space (so_URL source),
                                    so_ProviderKey := trim_space (so_ProviderKey source)\<rparr>
               in if so_ProviderKey trimmed = []
                  then node_fail i ''.source.providerKey is required for subscription nodes''
                  else if is_disallowed_subscription_endpoint (nd_Server node)
                  then node_fail i ''.server must not be local, private, or reserved for subscription nodes''
                  else Inr (node\<lparr>nd_Source := trimmed\<rparr>))
         else node_fail i ''.source.type must be MANUAL or SUBSCRIPTION'')"

definition normalize_node ::
  "(string \<Rightarrow> bool) \<Rightarrow> int \<Rightarrow> nat \<Rightarrow> profile_node \<Rightarrow> go_error + profile_node" where
  "normalize_node valid_json now i node =
     (let server = trim_space (nd_Server node);
          owner = trim_space (nd_OwnerPackage node);
          blank = trim_space (nd_Outbound node) = [];
          node1 = node\<lparr>nd_Protocol := normalize_protocol (nd_Protocol node), nd_Server := server,
            nd_Name := first_trimmed [trim_space (nd_Name node), server, nd_ID node],
            nd_Group := first_trimmed [trim_space (nd_Group node), ''Default''], nd_OwnerPackage := owner,
            nd_CreatedAt := (if nd_CreatedAt node = 0 then now else nd_CreatedAt node),
            nd_Outbound := (if blank then ''{}'' else nd_Outbound node)\<rparr>
      in if owner \<noteq> [] \<and> \<not> is_valid_android_package_name owner
         then node_fail i ''.ownerPackage must be an Android package name''
         else if \<not> blank \<and> \<not> valid_json (nd_Outbound node)
         then node_fail i ''.outbound is invalid JSON''
         else (case validate_port (''profile.nodes['' @ nat_str i @ ''].port'') (nd_Port node) False of
                 Some e \<Rightarrow> Inl e
               | None \<Rightarrow> normalize_source i node1))"

definition node_id_or_default :: "nat \<Rightarrow> profile_node \<Rightarrow> string" where
  "node_id_or_default i node =
     (if trim_space (nd_ID node) = [] then ''node-'' @ nat_str (i + 1) else trim_space (nd_ID node))"

fun normalize_nodes ::
  "(string \<Rightarrow> bool) \<Rightarrow> int \<Rightarrow> nat \<Rightarrow> string list \<Rightarrow> profile_node list \<Rightarrow> go_error + profile_node list" where
  "normalize_nodes valid_json now i seen [] = Inr []"
| "normalize_nodes valid_json now i seen (node # nodes) =
     (let node_id = node_id_or_default i node
      in if node_id \<in> set seen then node_fail i (''.id duplicates '' @ go_quote node_id)
         else (case normalize_node valid_json now i (node\<lparr>nd_ID := node_id\<rparr>) of
                 Inl e \<Rightarrow> Inl e
               | Inr node' \<Rightarrow>
                   (case normalize_nodes valid_json now (Suc i) (node_id # seen) nodes of
                      Inl e \<Rightarrow> Inl e | Inr rest \<Rightarrow> Inr (node' # rest))))"

definition trim_subscription :: "profile_subscription \<Rightarrow> profile_subscription" where
  "trim_subscription sub =
     sub\<lparr>su_ProviderKey := trim_space (su_ProviderKey sub), su_URL := trim_space (su_URL sub),
         su_Name := trim_space (su_Name sub)\<rparr>"

fun check_subscriptions :: "nat \<Rightarrow> profile_subscription list \<Rightarrow> go_error option" where
  "check_subscriptions i [] = None"
| "check_subscriptions i (sub # subs) =
     (let what = ''profile.subscriptions['' @ nat_str i @ '']''
      in if su_ProviderKey sub = [] then Some (ErrorString (what @ ''.providerKey is required''))
         else if su_URL sub = [] then Some (ErrorString (what @ ''.url is required''))
         else check_subscriptions (Suc i) subs)"

fun check_provider_keys :: "string set \<Rightarrow> nat \<Rightarrow> profile_node list \<Rightarrow> go_error option" where
  "check_provider_keys keys i [] = None"
| "check_provider_keys keys i (node # nodes) =
     (if so_Type (nd_Source node) = ''SUBSCRIPTION'' \<and> so_ProviderKey (nd_Source node) \<notin> keys
      then Some (ErrorString (''profile.nodes['' @ nat_str i @ ''].source.providerKey '' @
             go_quote (so_ProviderKey (nd_Source node)) @ '' is missing from profile.subscriptions''))
      else check_provider_keys keys (Suc i) nodes)"

text \<open>The first live node.\<close>

definition first_live_id :: "profile_node list \<Rightarrow> string" where
  "first_live_id nodes = (case find (\<lambda>n. \<not> nd_Stale n) nodes of None \<Rightarrow> [] | Some n \<Rightarrow> nd_ID n)"

definition live_ids :: "profile_node list \<Rightarrow> string set" where
  "live_ids nodes = set (map nd_ID (filter (\<lambda>n. \<not> nd_Stale n) nodes))"

definition repair_active :: "document \<Rightarrow> document \<times> profile_warning list" where
  "repair_active doc =
     (if do_ActiveNodeID doc \<noteq> [] \<and> do_ActiveNodeID doc \<notin> live_ids (do_Nodes doc)
      then (let chosen = first_live_id (do_Nodes doc)
            in (doc\<lparr>do_ActiveNodeID := chosen\<rparr>,
                [\<lparr>pw_Code = ''active_node_repaired'',
                  pw_Message = ''active node '' @ go_quote (do_ActiveNodeID doc) @
                    '' was missing or stale; selected '' @ go_quote chosen\<rparr>]))
      else (doc, []))"

text \<open>
  \<^verbatim>\<open>normalizeSubscriptions\<close>: the last subscription of each key, in the order of the keys, with the
  numbers of its live and stale nodes.
\<close>

definition count_nodes :: "string \<Rightarrow> bool \<Rightarrow> profile_node list \<Rightarrow> int" where
  "count_nodes key stale nodes =
     int (length (filter (\<lambda>n. so_Type (nd_Source n) = ''SUBSCRIPTION'' \<and>
        so_ProviderKey (nd_Source n) = key \<and> nd_Stale n = stale) nodes))"

definition normalize_subscriptions ::
  "profile_subscription list \<Rightarrow> profile_node list \<Rightarrow> profile_subscription list" where
  "normalize_subscriptions subs nodes =
     (let trimmed = map (\<lambda>s. s\<lparr>su_ProviderKey := trim_space (su_ProviderKey s), su_URL := trim_space (su_URL s)\<rparr>) subs;
          kept = filter (\<lambda>s. su_ProviderKey s \<noteq> [] \<and> su_URL s \<noteq> []) trimmed;
          by_key = map_of (rev (map (\<lambda>s. (su_ProviderKey s, s)) kept))
      in map (\<lambda>key. (the (by_key key))\<lparr>su_LastSeenNodeCount := count_nodes key False nodes,
                                       su_StaleNodeCount := count_nodes key True nodes\<rparr>)
           (sort (unique (map su_ProviderKey kept))))"

definition normalize_document ::
  "(string \<Rightarrow> bool) \<Rightarrow> int \<Rightarrow> document \<Rightarrow> (go_error + document) \<times> profile_warning list" where
  "normalize_document valid_json now doc0 =
     (let doc1 = (if do_SchemaVersion doc0 = 0 then doc0\<lparr>do_SchemaVersion := document_schema_version\<rparr> else doc0)
      in if document_schema_version < do_SchemaVersion doc1
         then (Inl (ErrorString (''profile schema '' @ int_str (do_SchemaVersion doc1) @
                 '' is newer than daemon supports ('' @ int_str document_schema_version @ '')'')), [])
         else (let doc = normalize_scalars doc1
               in if pi_AllowLAN (do_Inbounds doc)
                  then (doc_fail ''inbounds.allowLan is not supported'', [])
                  else (case first_of
                          [validate_port ''profile.inbounds.socksPort'' (pi_SocksPort (do_Inbounds doc)) True,
                           validate_port ''profile.inbounds.httpPort'' (pi_HTTPPort (do_Inbounds doc)) True] of
                          Some e \<Rightarrow> (Inl e, [])
                        | None \<Rightarrow>
                            (case normalize_nodes valid_json now 0 [] (do_Nodes doc) of
                               Inl e \<Rightarrow> (Inl e, [])
                             | Inr nodes \<Rightarrow>
                                 (let subs = map trim_subscription (do_Subscriptions doc)
                                  in case first_of [check_subscriptions 0 subs,
                                            check_provider_keys (set (map su_ProviderKey subs)) 0 nodes] of
                                       Some e \<Rightarrow> (Inl e, [])
                                     | None \<Rightarrow>
                                         (let (doc2, warnings) =
                                            repair_active (doc\<lparr>do_Nodes := nodes, do_Subscriptions := subs\<rparr>)
                                          in (Inr (doc2\<lparr>do_Subscriptions :=
                                                normalize_subscriptions subs nodes\<rparr>), warnings)))))))"

end
