(* ===== verification/SharedSlice.thy ===== *)
theory SharedSlice
  imports GoLists
begin

text \<open>
  Go slices that share an array.  A function that gets a document by value gets a copy of the header of its
  node slice, so that it writes to the caller's elements until it appends beyond the capacity.  A
  \<^verbatim>\<open>shared\<close> value holds the callee's slice, what the caller's slice of the same array reads, whether
  the two still share it, and the capacity left behind their common start.  A new array has no other reader, so its
  capacity need not be known.  The runes of a string, as \<^verbatim>\<open>range\<close> gives them, follow.
\<close>

record 'a shared =
  sh_items :: "'a list"
  sh_caller :: "'a list"
  sh_aliased :: bool
  sh_spare :: nat

definition share :: "nat \<Rightarrow> 'a list \<Rightarrow> 'a shared" where
  "share spare xs = \<lparr>sh_items = xs, sh_caller = xs, sh_aliased = True, sh_spare = spare\<rparr>"

definition slice_set :: "nat \<Rightarrow> 'a \<Rightarrow> 'a shared \<Rightarrow> 'a shared" where
  "slice_set i x s =
     s\<lparr>sh_items := (sh_items s)[i := x],
       sh_caller := (if sh_aliased s then (sh_caller s)[i := x] else sh_caller s)\<rparr>"

definition slice_append :: "'a \<Rightarrow> 'a shared \<Rightarrow> 'a shared" where
  "slice_append x s =
     (if sh_aliased s \<and> 0 < sh_spare s
      then s\<lparr>sh_items := sh_items s @ [x], sh_spare := sh_spare s - 1\<rparr>
      else s\<lparr>sh_items := sh_items s @ [x], sh_aliased := False\<rparr>)"

text \<open>A fresh slice instead of the shared one.\<close>

definition slice_fresh :: "'a list \<Rightarrow> 'a shared \<Rightarrow> 'a shared" where
  "slice_fresh xs s = s\<lparr>sh_items := xs, sh_aliased := False\<rparr>"

lemma slice_items [simp]:
  "sh_items (share spare xs) = xs"
  "sh_items (slice_set i x s) = (sh_items s)[i := x]"
  "sh_items (slice_append x s) = sh_items s @ [x]"
  "sh_items (slice_fresh xs s) = xs"
  by (simp_all add: share_def slice_set_def slice_append_def slice_fresh_def)

lemma slice_caller [simp]:
  "sh_caller (share spare xs) = xs"
  "sh_caller (slice_append x s) = sh_caller s"
  "sh_caller (slice_fresh xs s) = sh_caller s"
  "length (sh_caller (slice_set i x s)) = length (sh_caller s)"
  by (simp_all add: share_def slice_set_def slice_append_def slice_fresh_def)

section \<open>Runes\<close>

text \<open>Decoding UTF-8; an invalid byte is the replacement character and one byte long.\<close>

definition continuation :: "nat \<Rightarrow> nat \<Rightarrow> char \<Rightarrow> bool" where
  "continuation lo hi c \<longleftrightarrow> lo \<le> byte c \<and> byte c \<le> hi"

definition rune_at :: "string \<Rightarrow> nat \<times> nat" where
  "rune_at s =
     (let b = (\<lambda>i. byte (s ! i)); n = length s;
          cont = (\<lambda>i. i < n \<and> continuation 128 191 (s ! i))
      in if b 0 < 128 then (b 0, 1)
         else if 194 \<le> b 0 \<and> b 0 \<le> 223 \<and> cont 1 then ((b 0 - 192) * 64 + (b 1 - 128), 2)
         else if 224 \<le> b 0 \<and> b 0 \<le> 239 \<and> cont 1 \<and> cont 2 \<and>
              (b 0 = 224 \<longrightarrow> 160 \<le> b 1) \<and> (b 0 = 237 \<longrightarrow> b 1 \<le> 159)
         then ((b 0 - 224) * 4096 + (b 1 - 128) * 64 + (b 2 - 128), 3)
         else if 240 \<le> b 0 \<and> b 0 \<le> 244 \<and> cont 1 \<and> cont 2 \<and> cont 3 \<and>
              (b 0 = 240 \<longrightarrow> 144 \<le> b 1) \<and> (b 0 = 244 \<longrightarrow> b 1 \<le> 143)
         then ((b 0 - 240) * 262144 + (b 1 - 128) * 4096 + (b 2 - 128) * 64 + (b 3 - 128), 4)
         else (65533, 1))"

fun runes :: "string \<Rightarrow> nat list" where
  "runes [] = []"
| "runes (c # s) = fst (rune_at (c # s)) # runes (drop (snd (rune_at (c # s)) - 1) s)"

section \<open>Names with a counter\<close>

text \<open>The loop that counts from a number until a name is free: the used names are finitely many.\<close>

lemma finite_used_counts: "finite {m. n \<le> m \<and> w @ nat_str m \<in> set used}"
proof -
  have "finite ((\<lambda>m. w @ nat_str m) -` set used)" by (rule finite_vimageI) (simp_all add: inj_on_def)
  then show ?thesis by (rule rev_finite_subset) auto
qed

function first_free :: "string \<Rightarrow> string list \<Rightarrow> nat \<Rightarrow> string" where
  "first_free w used n =
     (if w @ nat_str n \<in> set used then first_free w used (Suc n) else w @ nat_str n)"
  by pat_completeness auto
termination
proof (relation "measure (\<lambda>(w, used, n). card {m. n \<le> m \<and> w @ nat_str m \<in> set used})")
  fix w used n
  assume used: "w @ nat_str n \<in> set used"
  then have "n \<in> {m. n \<le> m \<and> w @ nat_str m \<in> set used}" "n \<notin> {m. Suc n \<le> m \<and> w @ nat_str m \<in> set used}"
    by simp_all
  then have "{m. Suc n \<le> m \<and> w @ nat_str m \<in> set used} \<subset> {m. n \<le> m \<and> w @ nat_str m \<in> set used}"
    by fastforce
  with finite_used_counts [of n w used]
  show "((w, used, Suc n), w, used, n) \<in> measure (\<lambda>(w, used, n). card {m. n \<le> m \<and> w @ nat_str m \<in> set used})"
    by (simp add: psubset_card_mono)
qed simp

declare first_free.simps [simp del]

lemma first_free_fresh: "first_free w used n \<notin> set used"
proof (induction w used n rule: first_free.induct)
  case (1 w used n)
  then show ?case by (subst first_free.simps) simp
qed

end
