(* ===== verification/ProfileNodes.thy ===== *)
theory ProfileNodes
  imports ProfileDoc SharedSlice
begin

text \<open>
  The operations on the nodes of a document (\<^verbatim>\<open>daemon/internal/profile/operations.go\<close>, and
  \<^verbatim>\<open>MergeNodes\<close> of \<^verbatim>\<open>profile.go\<close>).  A document passed by value shares its node slice
  with the caller's, so the operations that write to nodes work on shared slices; the caller's document
  after the call is part of their result.
\<close>

section \<open>Selecting, inserting and removing\<close>

definition set_active_node :: "document \<Rightarrow> string \<Rightarrow> go_error + document" where
  "set_active_node current node_id =
     (if list_ex (\<lambda>n. nd_ID n = node_id \<and> \<not> nd_Stale n) (do_Nodes current)
      then Inr (current\<lparr>do_ActiveNodeID := node_id\<rparr>)
      else Inl (ErrorString ''active node is missing or stale''))"

definition clear_active_node :: "document \<Rightarrow> document" where
  "clear_active_node current = current\<lparr>do_ActiveNodeID := []\<rparr>"

text \<open>The index of the first node with an identifier.\<close>

fun index_of :: "('a \<Rightarrow> bool) \<Rightarrow> 'a list \<Rightarrow> nat option" where
  "index_of P [] = None"
| "index_of P (x # xs) = (if P x then Some 0 else map_option Suc (index_of P xs))"

text \<open>
  The result of an upsert: the new document and the slice it shares with the caller's document, whose capacity
  beyond its nodes is \<^verbatim>\<open>spare\<close>.
\<close>

definition upsert_node ::
  "nat \<Rightarrow> document \<Rightarrow> profile_node \<Rightarrow> go_error + document \<times> profile_node shared" where
  "upsert_node spare current node =
     (if nd_ID node = [] then Inl (ErrorString ''node id is required'')
      else (let nodes = share spare (do_Nodes current);
                nodes' = (case index_of (\<lambda>n. nd_ID n = nd_ID node) (do_Nodes current) of
                            Some i \<Rightarrow> slice_set i node nodes
                          | None \<Rightarrow> slice_append node nodes);
                active = (if do_ActiveNodeID current = [] \<and> \<not> nd_Stale node then nd_ID node
                          else do_ActiveNodeID current)
            in Inr (current\<lparr>do_Nodes := sh_items nodes', do_ActiveNodeID := active\<rparr>, nodes')))"

definition remove_node :: "document \<Rightarrow> string \<Rightarrow> go_error + document" where
  "remove_node current node_id =
     (if node_id = [] then Inl (ErrorString ''node id is required'')
      else (let nodes = filter (\<lambda>n. nd_ID n \<noteq> node_id) (do_Nodes current)
            in if nodes = do_Nodes current
               then Inl (ErrorString (''node '' @ go_quote node_id @ '' not found''))
               else Inr (current\<lparr>do_Nodes := nodes,
                      do_ActiveNodeID := (if do_ActiveNodeID current = node_id then first_live_id nodes
                                          else do_ActiveNodeID current)\<rparr>)))"

record profile_intent =
  in_BackendKind :: string
  in_FallbackPolicy :: string
  in_ActiveProfileID :: string

definition apply_runtime_intent :: "document \<Rightarrow> profile_intent \<Rightarrow> document" where
  "apply_runtime_intent current intent =
     current\<lparr>do_Runtime := \<lparr>
          rv_BackendKind = (if in_BackendKind intent \<noteq> [] then in_BackendKind intent
                            else rv_BackendKind (do_Runtime current)),
          rv_FallbackPolicy = (if in_FallbackPolicy intent \<noteq> [] then in_FallbackPolicy intent
                               else rv_FallbackPolicy (do_Runtime current))\<rparr>,
       do_ActiveNodeID := (if in_ActiveProfileID intent \<noteq> [] then in_ActiveProfileID intent
                           else do_ActiveNodeID current)\<rparr>"

section \<open>Merging imported nodes\<close>

definition node_match_key :: "profile_node \<Rightarrow> string" where
  "node_match_key node =
     (let upper = to_upper (trim_space (so_Type (nd_Source node)));
          kind = (if upper = [] then ''MANUAL'' else upper);
          subscribed = (kind = ''SUBSCRIPTION'');
          scope = (if subscribed then kind @ '':'' @ trim_space (so_ProviderKey (nd_Source node)) else kind);
          link = trim_space (nd_Link node);
          node_id = trim_space (nd_ID node);
          server = to_lower (trim_space (nd_Server node))
      in if subscribed \<and> link \<noteq> [] then scope @ ''|link:'' @ link
         else if node_id \<noteq> [] then scope @ ''|id:'' @ node_id
         else if server = [] \<or> nd_Port node = 0 then []
         else str_join ''|'' [scope, normalize_protocol (nd_Protocol node), server, int_str (nd_Port node)])"

text \<open>\<^verbatim>\<open>%05d\<close> of a number below 100000.\<close>

definition five_digits :: "nat \<Rightarrow> string" where
  "five_digits n = replicate (5 - length (nat_str n)) (CHR ''0'') @ nat_str n"

definition node_id_collision_suffix :: "profile_node \<Rightarrow> string" where
  "node_id_collision_suffix node =
     (let seed = str_join ''|'' [nd_Link node, nd_Name node, nd_Protocol node, nd_Server node,
            int_str (nd_Port node), so_Type (nd_Source node), so_ProviderKey (nd_Source node), nd_Outbound node]
      in five_digits (foldl (\<lambda>sum r. (sum * 31 + r) mod 100000) 0 (runes seed)))"

definition unique_imported_node_id :: "profile_node \<Rightarrow> string list \<Rightarrow> string" where
  "unique_imported_node_id node used =
     (let trimmed = trim_space (nd_ID node);
          base = (if trimmed = [] then ''node'' else trimmed);
          candidate = base @ ''-'' @ node_id_collision_suffix node
      in if base \<notin> set used then base
         else if candidate \<notin> set used then candidate
         else first_free (candidate @ ''-'') used 2)"

record merge_stats =
  mst_added :: nat
  mst_updated :: nat
  mst_unchanged :: nat
  mst_stale :: nat

definition no_stats :: merge_stats where
  "no_stats = \<lparr>mst_added = 0, mst_updated = 0, mst_unchanged = 0, mst_stale = 0\<rparr>"

record merge_state =
  mg_nodes :: "profile_node shared"
  mg_used :: "string list"
  mg_seen :: "string list"
  mg_stats :: merge_stats
  mg_first :: string

text \<open>The map \<^verbatim>\<open>byKey\<close>, built before the loop: the last node of each key.\<close>

fun key_index :: "string \<Rightarrow> nat \<Rightarrow> profile_node list \<Rightarrow> nat option" where
  "key_index key i [] = None"
| "key_index key i (n # ns) =
     (case key_index key (Suc i) ns of
        Some j \<Rightarrow> Some j | None \<Rightarrow> if node_match_key n = key then Some i else None)"

definition merged_node :: "profile_node \<Rightarrow> profile_node \<Rightarrow> profile_node" where
  "merged_node existing node =
     node\<lparr>nd_ID := nd_ID existing, nd_Name := first_trimmed [nd_Name existing, nd_Name node],
          nd_Group := first_trimmed [nd_Group existing, nd_Group node], nd_CreatedAt := nd_CreatedAt existing\<rparr>"

definition first_import :: "string \<Rightarrow> profile_node \<Rightarrow> string" where
  "first_import first node = (if first = [] \<and> \<not> nd_Stale node then nd_ID node else first)"

definition merge_node :: "(string \<Rightarrow> nat option) \<Rightarrow> profile_node \<Rightarrow> merge_state \<Rightarrow> merge_state" where
  "merge_node by_key node st =
     (let key = node_match_key node
      in if key = [] \<or> key \<in> set (mg_seen st) then st
         else (let st1 = st\<lparr>mg_seen := key # mg_seen st\<rparr>; stats = mg_stats st
               in case by_key key of
                    Some i \<Rightarrow>
                      (let existing = sh_items (mg_nodes st) ! i; merged = merged_node existing node
                       in st1\<lparr>mg_stats := (if nd_Outbound existing = nd_Outbound node
                                           then stats\<lparr>mst_unchanged := mst_unchanged stats + 1\<rparr>
                                           else stats\<lparr>mst_updated := mst_updated stats + 1\<rparr>),
                              mg_nodes := slice_set i merged (mg_nodes st),
                              mg_first := first_import (mg_first st) merged\<rparr>)
                  | None \<Rightarrow>
                      (let fresh = unique_imported_node_id node (mg_used st); added = node\<lparr>nd_ID := fresh\<rparr>
                       in st1\<lparr>mg_stats := stats\<lparr>mst_added := mst_added stats + 1\<rparr>,
                              mg_used := fresh # mg_used st,
                              mg_nodes := slice_append added (mg_nodes st),
                              mg_first := first_import (mg_first st) added\<rparr>)))"

text \<open>\<^verbatim>\<open>nodeByID\<close>: a node that is there and live.\<close>

definition live_by_id :: "string \<Rightarrow> profile_node list \<Rightarrow> bool" where
  "live_by_id node_id nodes =
     (case find (\<lambda>n. nd_ID n = node_id) nodes of None \<Rightarrow> False | Some n \<Rightarrow> \<not> nd_Stale n)"

definition merge_nodes ::
  "nat \<Rightarrow> document \<Rightarrow> profile_node list \<Rightarrow> (document \<times> merge_stats) \<times> profile_node shared" where
  "merge_nodes spare current incoming =
     (let nodes = do_Nodes current;
          by_key = (\<lambda>key. key_index key 0 nodes);
          used = filter (\<lambda>k. k \<noteq> []) (map (\<lambda>n. trim_space (nd_ID n)) nodes);
          start = \<lparr>mg_nodes = share spare nodes, mg_used = used, mg_seen = [], mg_stats = no_stats, mg_first = []\<rparr>;
          st = fold (merge_node by_key) incoming start;
          next_nodes = sh_items (mg_nodes st);
          active = (if mg_first st \<noteq> [] then mg_first st
                    else if do_ActiveNodeID current = [] \<or> \<not> live_by_id (do_ActiveNodeID current) next_nodes
                    then first_live_id next_nodes
                    else do_ActiveNodeID current)
      in ((current\<lparr>do_Nodes := next_nodes, do_ActiveNodeID := active\<rparr>, mg_stats st), mg_nodes st))"

end
