(* ===== verification/SubscriptionMerge.thy ===== *)
theory SubscriptionMerge
  imports ProfileNodes
begin

text \<open>
  Merging a subscription into a document (\<^verbatim>\<open>daemon/internal/subscription/merge.go\<close>), and the
  preview and refresh results built on it (\<^verbatim>\<open>fetch.go\<close>).  Fetching and parsing the subscription
  are not modelled here: the parsed nodes are an argument.
\<close>

section \<open>Reordering the nodes of a provider\<close>

definition is_provider_node :: "string \<Rightarrow> profile_node \<Rightarrow> bool" where
  "is_provider_node provider_key node \<longleftrightarrow>
     equal_fold (so_Type (nd_Source node)) ''SUBSCRIPTION'' \<and> so_ProviderKey (nd_Source node) = provider_key"

definition ordered_node_match_keys :: "profile_node list \<Rightarrow> string list" where
  "ordered_node_match_keys nodes = unique (filter (\<lambda>k. k \<noteq> []) (map node_match_key nodes))"

fun replace_from :: "bool \<Rightarrow> string \<Rightarrow> profile_node list \<Rightarrow> profile_node list \<Rightarrow> profile_node list" where
  "replace_from inserted provider_key ordered [] = []"
| "replace_from inserted provider_key ordered (node # nodes) =
     (if is_provider_node provider_key node
      then (if inserted then replace_from True provider_key ordered nodes
            else ordered @ replace_from True provider_key ordered nodes)
      else node # replace_from inserted provider_key ordered nodes)"

definition replace_provider_nodes :: "profile_node list \<Rightarrow> string \<Rightarrow> profile_node list \<Rightarrow> profile_node list" where
  "replace_provider_nodes nodes provider_key ordered = replace_from False provider_key ordered nodes"

text \<open>The nodes of the provider: those named by the incoming order first, then the others in place order.\<close>

definition ordered_provider_nodes :: "profile_node list \<Rightarrow> string \<Rightarrow> string list \<Rightarrow> profile_node list" where
  "ordered_provider_nodes nodes provider_key order =
     (let provided = filter (is_provider_node provider_key) nodes;
          by_key = map_of (rev (filter (\<lambda>e. fst e \<noteq> []) (map (\<lambda>n. (node_match_key n, n)) provided)));
          used = filter (\<lambda>k. by_key k \<noteq> None) order
      in concat (map (\<lambda>k. case by_key k of None \<Rightarrow> [] | Some n \<Rightarrow> [n]) order) @
         filter (\<lambda>n. node_match_key n = [] \<or> node_match_key n \<notin> set used) provided)"

definition reorder_provider_nodes :: "profile_node list \<Rightarrow> string \<Rightarrow> string list \<Rightarrow> profile_node list" where
  "reorder_provider_nodes nodes provider_key order =
     (if provider_key = [] \<or> \<not> list_ex (is_provider_node provider_key) nodes then nodes
      else replace_provider_nodes nodes provider_key (ordered_provider_nodes nodes provider_key order))"

section \<open>The merge\<close>

definition subscribe_node :: "profile_subscription \<Rightarrow> profile_node \<Rightarrow> profile_node" where
  "subscribe_node sub node =
     node\<lparr>nd_Source := (nd_Source node)\<lparr>so_Type := ''SUBSCRIPTION'',
            so_ProviderKey := su_ProviderKey sub, so_URL := su_URL sub\<rparr>\<rparr>"

definition trimmed_subscription :: "profile_subscription \<Rightarrow> profile_subscription" where
  "trimmed_subscription sub = sub\<lparr>su_ProviderKey := trim_space (su_ProviderKey sub), su_URL := trim_space (su_URL sub)\<rparr>"

text \<open>The set of the keys of the incoming nodes.\<close>

definition imported_keys :: "profile_node list \<Rightarrow> string set" where
  "imported_keys incoming = set (filter (\<lambda>k. k \<noteq> []) (map node_match_key incoming))"

definition goes_stale :: "string \<Rightarrow> string set \<Rightarrow> profile_node \<Rightarrow> bool" where
  "goes_stale provider_key seen node \<longleftrightarrow>
     is_provider_node provider_key node \<and> node_match_key node \<notin> seen"

text \<open>The loop that marks the vanished nodes; it writes to the merged slice.\<close>

definition mark_stale :: "string \<Rightarrow> string set \<Rightarrow> nat \<Rightarrow> profile_node shared \<times> nat \<Rightarrow> profile_node shared \<times> nat" where
  "mark_stale provider_key seen i st =
     (let node = sh_items (fst st) ! i
      in if goes_stale provider_key seen node
         then (slice_set i (node\<lparr>nd_Stale := True\<rparr>) (fst st), if nd_Stale node then snd st else Suc (snd st))
         else st)"

definition active_node_is_stale_or_missing :: "profile_node list \<Rightarrow> string \<Rightarrow> bool" where
  "active_node_is_stale_or_missing nodes active =
     (active = [] \<or> \<not> live_by_id active nodes)"

text \<open>
  The merged document and its statistics, the slice shared with the caller, and the incoming nodes with the source
  the merge gives them.
\<close>

definition merge_subscription_nodes ::
  "nat \<Rightarrow> document \<Rightarrow> profile_subscription \<Rightarrow> profile_node list
     \<Rightarrow> (document \<times> merge_stats) \<times> profile_node shared \<times> profile_node list" where
  "merge_subscription_nodes spare current sub0 incoming0 =
     (let sub = trimmed_subscription sub0
      in if su_ProviderKey sub = []
         then ((current, no_stats), share spare (do_Nodes current), incoming0)
         else (let incoming = map (subscribe_node sub) incoming0;
                   ((next1, stats), slice) = merge_nodes spare current incoming;
                   seen = imported_keys incoming;
                   (marked, stale) =
                     fold (mark_stale (su_ProviderKey sub) seen) [0..<length (do_Nodes next1)] (slice, 0);
                   nodes = reorder_provider_nodes (sh_items marked) (su_ProviderKey sub)
                             (ordered_node_match_keys incoming);
                   active = (if active_node_is_stale_or_missing nodes (do_ActiveNodeID next1)
                             then first_live_id nodes else do_ActiveNodeID next1)
               in ((next1\<lparr>do_Nodes := nodes, do_ActiveNodeID := active\<rparr>,
                    stats\<lparr>mst_stale := mst_stale stats + stale\<rparr>),
                   (if list_ex (is_provider_node (su_ProviderKey sub)) (sh_items marked)
                    then slice_fresh nodes marked else marked), incoming)))"

section \<open>Previews and refreshes\<close>

record subscription_source =
  sn_ProviderKey :: string
  sn_URL :: string

definition node_source_of :: "subscription_source \<Rightarrow> int \<Rightarrow> node_source" where
  "node_source_of s now =
     \<lparr>so_Type = ''SUBSCRIPTION'', so_URL = sn_URL s, so_ProviderKey = sn_ProviderKey s, so_LastSeenAt = now\<rparr>"

record rejected_node =
  rj_Link :: string
  rj_Name :: string
  rj_Protocol :: string
  rj_Server :: string
  rj_Port :: int
  rj_Code :: string
  rj_Reason :: string

record preview_result =
  pr_PreviewID :: string
  pr_Source :: subscription_source
  pr_Subscription :: profile_subscription
  pr_Nodes :: "profile_node list"
  pr_RejectedNodes :: "rejected_node list"
  pr_Rejected :: nat
  pr_Added :: nat
  pr_Updated :: nat
  pr_Unchanged :: nat
  pr_Stale :: nat
  pr_ParseFailures :: nat
  pr_FetchStatus :: int
  pr_FetchHeaders :: env

record refresh_result =
  rf_Source :: subscription_source
  rf_Profile :: document
  rf_Subscription :: profile_subscription
  rf_Nodes :: "profile_node list"
  rf_RejectedNodes :: "rejected_node list"
  rf_Merge :: merge_stats
  rf_ParseFailures :: nat
  rf_FetchStatus :: int
  rf_FetchHeaders :: env

definition err_no_supported_nodes :: go_error where
  "err_no_supported_nodes = ErrorString ''subscription contains no supported nodes''"

text \<open>
  Beside the error, \<^verbatim>\<open>ApplyPreview\<close> returns fields of the preview, which the caller has.  Replacing the stored subscription of the provider keeps the name it had.
\<close>

definition store_subscription ::
  "profile_subscription \<Rightarrow> profile_subscription list \<Rightarrow> profile_subscription \<times> profile_subscription list" where
  "store_subscription sub subs =
     (case index_of (\<lambda>s. su_ProviderKey s = su_ProviderKey sub) subs of
        Some i \<Rightarrow> (let named = sub\<lparr>su_Name := su_Name (subs ! i)\<rparr> in (named, subs[i := named]))
      | None \<Rightarrow> (sub, subs @ [sub]))"

definition apply_preview ::
  "nat \<Rightarrow> document \<Rightarrow> preview_result \<Rightarrow> go_error + refresh_result \<times> profile_node shared" where
  "apply_preview spare current preview =
     (if pr_Nodes preview = [] \<and> (0 < pr_ParseFailures preview \<or> pr_RejectedNodes preview \<noteq> [])
      then Inl err_no_supported_nodes
      else (let ((next, stats), slice, incoming) =
                  merge_subscription_nodes spare current (pr_Subscription preview) (pr_Nodes preview);
                (sub, subs) = store_subscription (pr_Subscription preview) (do_Subscriptions next)
            in Inr (\<lparr>rf_Source = pr_Source preview, rf_Profile = next\<lparr>do_Subscriptions := subs\<rparr>,
                     rf_Subscription = sub, rf_Nodes = incoming, rf_RejectedNodes = pr_RejectedNodes preview,
                     rf_Merge = stats, rf_ParseFailures = pr_ParseFailures preview,
                     rf_FetchStatus = pr_FetchStatus preview, rf_FetchHeaders = pr_FetchHeaders preview\<rparr>, slice)))"

end
