(* ===== verification/MergeProperties.thy ===== *)
theory MergeProperties
  imports ProfileNodes SubscriptionMerge
begin

text \<open>
  What merging imported nodes and subscriptions guarantees: identifiers stay unique, every node of the
  result is untouched or imported, a provider's vanished nodes are exactly the stale ones, no node of another source
  moves, and the active node is live.
\<close>

section \<open>The loop of \<^verbatim>\<open>MergeNodes\<close>\<close>

text \<open>
  The loop of \<^verbatim>\<open>MergeNodes\<close> keeps an invariant: identifiers stay distinct, every node is an
  untouched one of the document or comes from an imported node, and the statistics count the keys seen.
\<close>

lemma key_index_Some:
  "key_index key i ns = Some j \<Longrightarrow> i \<le> j \<and> j < i + length ns \<and> node_match_key (ns ! (j - i)) = key"
proof (induction ns arbitrary: i)
  case (Cons n ns)
  show ?case
  proof (cases "key_index key (Suc i) ns")
    case None
    with Cons.prems show ?thesis by (auto split: if_splits)
  next
    case (Some k)
    with Cons.prems have "key_index key (Suc i) ns = Some j" by simp
    from Cons.IH [OF this] have "Suc i \<le> j" "j < i + length (n # ns)" "node_match_key (ns ! (j - Suc i)) = key" by auto
    moreover from this(1) have "j - i = Suc (j - Suc i)" by simp
    ultimately show ?thesis by simp
  qed
qed simp

lemma key_index_None: "key_index key i ns = None \<longleftrightarrow> key \<notin> node_match_key ` set ns"
proof (induction ns arbitrary: i)
  case (Cons n ns)
  then show ?case by (cases "key_index key (Suc i) ns") (auto simp flip: Cons.IH [of "Suc i"])
qed simp

lemma key_index_0:
  "key_index key 0 ns = Some j \<Longrightarrow> j < length ns \<and> node_match_key (ns ! j) = key"
  using key_index_Some [of key 0 ns j] by simp

lemma unique_imported_fresh: "unique_imported_node_id node used \<notin> set used"
  by (simp add: unique_imported_node_id_def Let_def first_free_fresh)

text \<open>A node of the result that comes from an imported one keeps what the runtime needs of it.\<close>

definition imported_as :: "profile_node \<Rightarrow> profile_node \<Rightarrow> bool" where
  "imported_as m n \<longleftrightarrow> n = m\<lparr>nd_ID := nd_ID n, nd_Name := nd_Name n, nd_Group := nd_Group n, nd_CreatedAt := nd_CreatedAt n\<rparr>"

lemma imported_as_intros [simp]:
  "imported_as m (merged_node e m)" "imported_as m (m\<lparr>nd_ID := i\<rparr>)"
  by (simp_all add: imported_as_def merged_node_def)

lemma imported_as_fields:
  assumes "imported_as m n"
  shows "nd_Stale n = nd_Stale m" "nd_Source n = nd_Source m" "nd_Link n = nd_Link m" "nd_Server n = nd_Server m"
    "nd_Port n = nd_Port m" "nd_Outbound n = nd_Outbound m" "nd_Protocol n = nd_Protocol m"
proof -
  from assms have "n = m\<lparr>nd_ID := nd_ID n, nd_Name := nd_Name n, nd_Group := nd_Group n, nd_CreatedAt := nd_CreatedAt n\<rparr>"
    by (simp only: imported_as_def)
  note eq = arg_cong [OF this]
  from eq [of nd_Stale] show "nd_Stale n = nd_Stale m" by simp
  from eq [of nd_Source] show "nd_Source n = nd_Source m" by simp
  from eq [of nd_Link] show "nd_Link n = nd_Link m" by simp
  from eq [of nd_Server] show "nd_Server n = nd_Server m" by simp
  from eq [of nd_Port] show "nd_Port n = nd_Port m" by simp
  from eq [of nd_Outbound] show "nd_Outbound n = nd_Outbound m" by simp
  from eq [of nd_Protocol] show "nd_Protocol n = nd_Protocol m" by simp
qed

lemma merged_node_sel [simp]: "nd_ID (merged_node e m) = nd_ID e" "nd_Stale (merged_node e m) = nd_Stale m"
  by (simp_all add: merged_node_def)

text \<open>The three things a step of the loop can do.\<close>

lemma merge_node_cases:
  obtains (skip) "merge_node by_key node st = st" "node_match_key node = [] \<or> node_match_key node \<in> set (mg_seen st)"
  | (update) i st' where "merge_node by_key node st = st'" "by_key (node_match_key node) = Some i"
      "node_match_key node \<noteq> []" "node_match_key node \<notin> set (mg_seen st)"
      "sh_items (mg_nodes st') = (sh_items (mg_nodes st))[i := merged_node (sh_items (mg_nodes st) ! i) node]"
      "mg_seen st' = node_match_key node # mg_seen st" "mg_used st' = mg_used st"
      "mst_added (mg_stats st') = mst_added (mg_stats st)"
      "mst_updated (mg_stats st') + mst_unchanged (mg_stats st') =
         Suc (mst_updated (mg_stats st) + mst_unchanged (mg_stats st))"
      "mst_stale (mg_stats st') = mst_stale (mg_stats st)"
      "mg_first st' = first_import (mg_first st) (merged_node (sh_items (mg_nodes st) ! i) node)"
  | (add) fresh st' where "merge_node by_key node st = st'" "by_key (node_match_key node) = None"
      "node_match_key node \<noteq> []" "node_match_key node \<notin> set (mg_seen st)"
      "fresh \<notin> set (mg_used st)" "sh_items (mg_nodes st') = sh_items (mg_nodes st) @ [node\<lparr>nd_ID := fresh\<rparr>]"
      "mg_seen st' = node_match_key node # mg_seen st" "mg_used st' = fresh # mg_used st"
      "mst_added (mg_stats st') = Suc (mst_added (mg_stats st))"
      "mst_updated (mg_stats st') + mst_unchanged (mg_stats st') =
         mst_updated (mg_stats st) + mst_unchanged (mg_stats st)"
      "mst_stale (mg_stats st') = mst_stale (mg_stats st)"
      "mg_first st' = first_import (mg_first st) (node\<lparr>nd_ID := fresh\<rparr>)"
proof (cases "node_match_key node = [] \<or> node_match_key node \<in> set (mg_seen st)")
  case True
  then show ?thesis by (intro skip) (auto simp: merge_node_def Let_def)
next
  case False
  show ?thesis
  proof (cases "by_key (node_match_key node)")
    case None
    with False unique_imported_fresh [of node "mg_used st"] show ?thesis
      by (intro add [OF refl]) (simp_all add: merge_node_def Let_def)
  next
    case (Some i)
    with False show ?thesis
      by (intro update [OF refl]) (simp_all add: merge_node_def Let_def)
  qed
qed

definition inv_ids :: "profile_node list \<Rightarrow> merge_state \<Rightarrow> bool" where
  "inv_ids nodes0 st \<longleftrightarrow>
     distinct (map nd_ID (sh_items (mg_nodes st))) \<and>
     set (map nd_ID (sh_items (mg_nodes st))) \<subseteq> set (mg_used st) \<and>
     take (length nodes0) (map nd_ID (sh_items (mg_nodes st))) = map nd_ID nodes0"

definition inv_counts :: "profile_node list \<Rightarrow> merge_state \<Rightarrow> bool" where
  "inv_counts nodes0 st \<longleftrightarrow>
     length (sh_items (mg_nodes st)) = length nodes0 + mst_added (mg_stats st) \<and>
     mst_added (mg_stats st) + mst_updated (mg_stats st) + mst_unchanged (mg_stats st) = length (mg_seen st) \<and>
     mst_stale (mg_stats st) = 0 \<and> distinct (mg_seen st) \<and> [] \<notin> set (mg_seen st)"

text \<open>Where the node at an index comes from.\<close>

definition origin :: "profile_node list \<Rightarrow> profile_node set \<Rightarrow> string set \<Rightarrow> nat \<Rightarrow> profile_node \<Rightarrow> bool" where
  "origin nodes0 M seen j n \<longleftrightarrow>
     (if j < length nodes0 \<and> node_match_key (nodes0 ! j) \<notin> seen then n = nodes0 ! j
      else \<exists>m \<in> M. imported_as m n \<and> node_match_key m \<in> seen \<and>
        (j < length nodes0 \<longrightarrow> node_match_key m = node_match_key (nodes0 ! j)))"

definition inv_origin :: "profile_node list \<Rightarrow> profile_node set \<Rightarrow> merge_state \<Rightarrow> bool" where
  "inv_origin nodes0 M st \<longleftrightarrow>
     length nodes0 \<le> length (sh_items (mg_nodes st)) \<and>
     (\<forall>j < length (sh_items (mg_nodes st)).
        origin nodes0 M (set (mg_seen st)) j (sh_items (mg_nodes st) ! j))"

text \<open>The first live import is a node that no later step writes to.\<close>

definition inv_first :: "profile_node list \<Rightarrow> merge_state \<Rightarrow> bool" where
  "inv_first nodes0 st \<longleftrightarrow>
     mg_first st \<noteq> [] \<longrightarrow>
       (\<exists>j < length (sh_items (mg_nodes st)). nd_ID (sh_items (mg_nodes st) ! j) = mg_first st \<and>
          \<not> nd_Stale (sh_items (mg_nodes st) ! j) \<and>
          (j < length nodes0 \<longrightarrow> node_match_key (nodes0 ! j) \<in> set (mg_seen st)))"

lemma map_update_same: "f x = f (xs ! i) \<Longrightarrow> map f (xs[i := x]) = map f xs"
  by (cases "i < length xs") (simp_all add: map_update list_update_same_conv list_update_beyond)

lemma inv_ids_step:
  "inv_ids nodes0 st \<Longrightarrow> inv_ids nodes0 (merge_node by_key node st)"
  by (rule merge_node_cases [of by_key node st])
    (auto simp: inv_ids_def map_update_same take_append simp del: set_map dest!: arg_cong [of "take _ _" _ length])

lemma inv_counts_step:
  "inv_counts nodes0 st \<Longrightarrow> inv_counts nodes0 (merge_node by_key node st)"
  by (rule merge_node_cases [of by_key node st]) (auto simp: inv_counts_def)

lemma origin_mono:
  "origin nodes0 M seen j n \<Longrightarrow> (j < length nodes0 \<Longrightarrow> node_match_key (nodes0 ! j) \<noteq> key) \<Longrightarrow>
     origin nodes0 M (insert key seen) j n"
  by (auto simp: origin_def split: if_splits)

lemma inv_origin_step:
  assumes inv: "inv_origin nodes0 M st" and keys: "distinct (map node_match_key nodes0)" and m: "node \<in> M"
  shows "inv_origin nodes0 M (merge_node (\<lambda>key. key_index key 0 nodes0) node st)"
proof (rule merge_node_cases [of "\<lambda>key. key_index key 0 nodes0" node st])
  assume "merge_node (\<lambda>key. key_index key 0 nodes0) node st = st"
  with inv show ?thesis by simp
next
  fix i st'
  assume step: "merge_node (\<lambda>key. key_index key 0 nodes0) node st = st'"
    and hit: "key_index (node_match_key node) 0 nodes0 = Some i"
    and items: "sh_items (mg_nodes st') = (sh_items (mg_nodes st))[i := merged_node (sh_items (mg_nodes st) ! i) node]"
    and seen: "mg_seen st' = node_match_key node # mg_seen st"
  from key_index_0 [OF hit] have i: "i < length nodes0" "node_match_key (nodes0 ! i) = node_match_key node" by auto
  have other: "node_match_key (nodes0 ! j) \<noteq> node_match_key node" if "j < length nodes0" "j \<noteq> i" for j
    using keys that i by (metis length_map nth_eq_iff_index_eq nth_map)
  have "origin nodes0 M (set (mg_seen st')) j (sh_items (mg_nodes st') ! j)"
    if j: "j < length (sh_items (mg_nodes st))" for j
  proof (cases "j = i")
    case True
    with i j m show ?thesis by (auto simp: origin_def items seen intro!: bexI [of _ node])
  next
    case False
    with inv j other [of j] show ?thesis by (auto simp: inv_origin_def items seen intro!: origin_mono)
  qed
  with inv show ?thesis by (simp add: step inv_origin_def items)
next
  fix fresh st'
  assume step: "merge_node (\<lambda>key. key_index key 0 nodes0) node st = st'"
    and miss: "key_index (node_match_key node) 0 nodes0 = None"
    and items: "sh_items (mg_nodes st') = sh_items (mg_nodes st) @ [node\<lparr>nd_ID := fresh\<rparr>]"
    and seen: "mg_seen st' = node_match_key node # mg_seen st"
  have absent: "node_match_key (nodes0 ! j) \<noteq> node_match_key node" if "j < length nodes0" for j
    using miss that by (metis key_index_None image_eqI nth_mem)
  have "origin nodes0 M (set (mg_seen st')) j (sh_items (mg_nodes st') ! j)"
    if j: "j < length (sh_items (mg_nodes st'))" for j
  proof (cases "j < length (sh_items (mg_nodes st))")
    case True
    with inv absent [of j] show ?thesis by (auto simp: inv_origin_def items seen nth_append intro!: origin_mono)
  next
    case False
    with j inv m show ?thesis
      by (auto simp: inv_origin_def origin_def items seen nth_append less_Suc_eq intro!: bexI [of _ node])
  qed
  with inv show ?thesis by (simp add: step inv_origin_def items)
qed

lemma inv_first_step:
  assumes inv: "inv_first nodes0 st" "inv_origin nodes0 M st"
  shows "inv_first nodes0 (merge_node (\<lambda>key. key_index key 0 nodes0) node st)"
proof (rule merge_node_cases [of "\<lambda>key. key_index key 0 nodes0" node st])
  assume "merge_node (\<lambda>key. key_index key 0 nodes0) node st = st"
  with inv show ?thesis by simp
next
  fix i st'
  assume step: "merge_node (\<lambda>key. key_index key 0 nodes0) node st = st'"
    and hit: "key_index (node_match_key node) 0 nodes0 = Some i"
    and new: "node_match_key node \<notin> set (mg_seen st)"
    and items: "sh_items (mg_nodes st') = (sh_items (mg_nodes st))[i := merged_node (sh_items (mg_nodes st) ! i) node]"
    and seen: "mg_seen st' = node_match_key node # mg_seen st"
    and first: "mg_first st' = first_import (mg_first st) (merged_node (sh_items (mg_nodes st) ! i) node)"
  from key_index_0 [OF hit] have i: "i < length nodes0" "node_match_key (nodes0 ! i) = node_match_key node" by auto
  with inv(2) have "i < length (sh_items (mg_nodes st))" by (simp add: inv_origin_def)
  show ?thesis
  proof (cases "mg_first st = []")
    case True
    with i \<open>i < length (sh_items (mg_nodes st))\<close> show ?thesis
      by (auto simp: inv_first_def step items seen first first_import_def intro!: exI [of _ i])
  next
    case False
    with inv(1) obtain j where "j < length (sh_items (mg_nodes st))" "nd_ID (sh_items (mg_nodes st) ! j) = mg_first st"
      "\<not> nd_Stale (sh_items (mg_nodes st) ! j)" "j < length nodes0 \<longrightarrow> node_match_key (nodes0 ! j) \<in> set (mg_seen st)"
      by (auto simp: inv_first_def)
    moreover from this i new have "j \<noteq> i" by auto
    ultimately show ?thesis using False
      by (auto simp: inv_first_def step items seen first first_import_def intro!: exI [of _ j])
  qed
next
  fix fresh st'
  assume step: "merge_node (\<lambda>key. key_index key 0 nodes0) node st = st'"
    and items: "sh_items (mg_nodes st') = sh_items (mg_nodes st) @ [node\<lparr>nd_ID := fresh\<rparr>]"
    and seen: "mg_seen st' = node_match_key node # mg_seen st"
    and first: "mg_first st' = first_import (mg_first st) (node\<lparr>nd_ID := fresh\<rparr>)"
  from inv(2) have "length nodes0 \<le> length (sh_items (mg_nodes st))" by (simp add: inv_origin_def)
  with inv(1) show ?thesis
    by (cases "mg_first st = []")
      (fastforce simp: inv_first_def step items seen first first_import_def nth_append
        intro: exI [of _ "length (sh_items (mg_nodes st))"])+
qed

section \<open>The merge of imported nodes\<close>

definition stored_ids :: "profile_node list \<Rightarrow> bool" where
  "stored_ids nodes \<longleftrightarrow>
     distinct (map nd_ID nodes) \<and> list_all (\<lambda>n. nd_ID n \<noteq> [] \<and> trim_space (nd_ID n) = nd_ID n) nodes"

lemma first_free_ne: "w \<noteq> [] \<Longrightarrow> first_free w used n \<noteq> []"
proof (induction w used n rule: first_free.induct)
  case (1 w used n)
  then show ?case by (subst first_free.simps) simp
qed

lemma unique_imported_ne: "unique_imported_node_id node used \<noteq> []"
  by (simp add: unique_imported_node_id_def Let_def first_free_ne)

definition inv_names :: "merge_state \<Rightarrow> bool" where
  "inv_names st \<longleftrightarrow> list_all (\<lambda>n. nd_ID n \<noteq> []) (sh_items (mg_nodes st))"

lemma inv_names_step: "inv_names st \<Longrightarrow> inv_names (merge_node by_key node st)"
proof -
  assume inv: "inv_names st"
  have "list_all (\<lambda>n. nd_ID n \<noteq> []) ((sh_items (mg_nodes st))[i := merged_node (sh_items (mg_nodes st) ! i) node])" for i
    using inv by (cases "i < length (sh_items (mg_nodes st))")
      (auto simp: inv_names_def list_all_length list_update_beyond nth_list_update)
  with inv show ?thesis
    by (auto simp: merge_node_def Let_def inv_names_def unique_imported_ne split: option.split)
qed

lemma merge_node_seen:
  "mg_seen (merge_node by_key node st) =
     (if node_match_key node = [] \<or> node_match_key node \<in> set (mg_seen st) then mg_seen st
      else node_match_key node # mg_seen st)"
  by (simp add: merge_node_def Let_def split: option.split)

lemma imported_keys_simps [simp]:
  "imported_keys [] = {}"
  "imported_keys (n # ns) = (if node_match_key n = [] then {} else {node_match_key n}) \<union> imported_keys ns"
  by (auto simp: imported_keys_def)

lemma merge_seen:
  "set (mg_seen (fold (merge_node by_key) incoming st)) = set (mg_seen st) \<union> imported_keys incoming"
  by (induction incoming arbitrary: st) (simp_all add: merge_node_seen insert_absorb)

lemma fold_invariant:
  "P s \<Longrightarrow> (\<And>x s. x \<in> set xs \<Longrightarrow> P s \<Longrightarrow> P (f x s)) \<Longrightarrow> P (fold f xs s)"
  by (induction xs arbitrary: s) auto

definition merge_start :: "nat \<Rightarrow> profile_node list \<Rightarrow> merge_state" where
  "merge_start spare nodes =
     \<lparr>mg_nodes = share spare nodes, mg_used = filter (\<lambda>k. k \<noteq> []) (map (\<lambda>n. trim_space (nd_ID n)) nodes),
      mg_seen = [], mg_stats = no_stats, mg_first = []\<rparr>"

definition merge_end :: "nat \<Rightarrow> profile_node list \<Rightarrow> profile_node list \<Rightarrow> merge_state" where
  "merge_end spare nodes incoming =
     fold (merge_node (\<lambda>key. key_index key 0 nodes)) incoming (merge_start spare nodes)"

lemma merge_end_invariants:
  assumes ids: "stored_ids nodes" and keys: "distinct (map node_match_key nodes)"
  shows "inv_ids nodes (merge_end spare nodes incoming)" "inv_counts nodes (merge_end spare nodes incoming)"
    "inv_origin nodes (set incoming) (merge_end spare nodes incoming)"
    "inv_first nodes (merge_end spare nodes incoming)" "inv_names (merge_end spare nodes incoming)"
proof -
  let ?P = "\<lambda>st. inv_ids nodes st \<and> inv_counts nodes st \<and> inv_origin nodes (set incoming) st \<and> inv_first nodes st \<and> inv_names st"
  have "?P (merge_start spare nodes)"
    using ids by (auto simp: merge_start_def inv_ids_def inv_counts_def inv_origin_def origin_def inv_first_def
        inv_names_def stored_ids_def no_stats_def list_all_iff image_iff)
  then have "?P (merge_end spare nodes incoming)"
    unfolding merge_end_def
    by (rule fold_invariant)
      (blast intro: inv_ids_step inv_counts_step inv_origin_step inv_first_step inv_names_step keys)
  then show "inv_ids nodes (merge_end spare nodes incoming)" "inv_counts nodes (merge_end spare nodes incoming)"
    "inv_origin nodes (set incoming) (merge_end spare nodes incoming)"
    "inv_first nodes (merge_end spare nodes incoming)" "inv_names (merge_end spare nodes incoming)" by blast+
qed

lemma merge_nodes_end:
  "do_Nodes (fst (fst (merge_nodes spare current incoming))) = sh_items (mg_nodes (merge_end spare (do_Nodes current) incoming))"
  "snd (fst (merge_nodes spare current incoming)) = mg_stats (merge_end spare (do_Nodes current) incoming)"
  "snd (merge_nodes spare current incoming) = mg_nodes (merge_end spare (do_Nodes current) incoming)"
  by (simp_all add: merge_nodes_def merge_end_def merge_start_def Let_def)

text \<open>An active identifier that names a live node, or none when no node is live.\<close>

definition active_ok :: "string \<Rightarrow> profile_node list \<Rightarrow> bool" where
  "active_ok active nodes \<longleftrightarrow>
     (if list_ex (\<lambda>n. \<not> nd_Stale n) nodes then live_by_id active nodes else active = [])"

lemma live_by_id_mem:
  "distinct (map nd_ID nodes) \<Longrightarrow> n \<in> set nodes \<Longrightarrow> \<not> nd_Stale n \<Longrightarrow> live_by_id (nd_ID n) nodes"
proof (induction nodes)
  case (Cons m nodes)
  then show ?case by (auto simp: live_by_id_def)
qed simp

lemma live_by_idD: "live_by_id active nodes \<Longrightarrow> list_ex (\<lambda>n. \<not> nd_Stale n) nodes"
  by (auto simp: live_by_id_def list_ex_iff dest: find_eq_SomeD split: option.splits)

lemma first_live_ok: "distinct (map nd_ID nodes) \<Longrightarrow> active_ok (first_live_id nodes) nodes"
  by (auto simp: active_ok_def first_live_id_def list_ex_iff dest: find_eq_NoneD find_eq_SomeD
      intro: live_by_id_mem split: option.split)

lemma merge_active_ok:
  assumes "stored_ids (do_Nodes current)" and "distinct (map node_match_key (do_Nodes current))"
  shows "active_ok (do_ActiveNodeID (fst (fst (merge_nodes spare current incoming))))
           (do_Nodes (fst (fst (merge_nodes spare current incoming))))"
proof -
  let ?st = "merge_end spare (do_Nodes current) incoming" and ?items = "sh_items (mg_nodes (merge_end spare (do_Nodes current) incoming))"
  note inv = merge_end_invariants [OF assms, where spare = spare and incoming = incoming]
  from inv(1) have ids: "distinct (map nd_ID ?items)" by (simp add: inv_ids_def)
  have "active_ok (mg_first ?st) ?items" if "mg_first ?st \<noteq> []"
    using inv(4) that live_by_id_mem [OF ids] live_by_idD
    by (auto simp: inv_first_def active_ok_def) (metis nth_mem)+
  moreover have "active_ok (do_ActiveNodeID current) ?items" if "live_by_id (do_ActiveNodeID current) ?items"
    using that live_by_idD by (auto simp: active_ok_def)
  moreover note first_live_ok [OF ids]
  ultimately show ?thesis
    by (simp add: merge_nodes_end) (simp add: merge_nodes_def merge_end_def merge_start_def Let_def)
qed

lemma merge_counts:
  "inv_counts nodes (merge_end spare nodes incoming) \<Longrightarrow>
     mst_added (mg_stats (merge_end spare nodes incoming)) + mst_updated (mg_stats (merge_end spare nodes incoming)) +
       mst_unchanged (mg_stats (merge_end spare nodes incoming)) = card (imported_keys incoming)"
  using merge_seen [of "\<lambda>key. key_index key 0 nodes" incoming "merge_start spare nodes"]
  by (simp add: inv_counts_def merge_end_def merge_start_def flip: distinct_card)

text \<open>
  The nodes of the result as they should be: a node of the document takes everything of the first import with
  its key but its own identifier, creation time, and name and group unless they are blank; the other imports follow
  in their order, the first one of each key.
\<close>

definition updated_node :: "profile_node list \<Rightarrow> profile_node \<Rightarrow> profile_node" where
  "updated_node incoming e =
     (case find (\<lambda>m. node_match_key m \<noteq> [] \<and> node_match_key m = node_match_key e) incoming of
        None \<Rightarrow> e
      | Some m \<Rightarrow> m\<lparr>nd_ID := nd_ID e, nd_Name := first_trimmed [nd_Name e, nd_Name m],
                    nd_Group := first_trimmed [nd_Group e, nd_Group m], nd_CreatedAt := nd_CreatedAt e\<rparr>)"

fun first_of_keys :: "string list \<Rightarrow> profile_node list \<Rightarrow> profile_node list" where
  "first_of_keys keys [] = []"
| "first_of_keys keys (m # ms) =
     (if node_match_key m = [] \<or> node_match_key m \<in> set keys then first_of_keys keys ms
      else m # first_of_keys (node_match_key m # keys) ms)"

definition without_id :: "profile_node \<Rightarrow> profile_node" where
  "without_id m = m\<lparr>nd_ID := []\<rparr>"

lemma first_of_keys_append:
  "first_of_keys keys (ms @ [m]) = first_of_keys keys ms @
     (if node_match_key m = [] \<or> node_match_key m \<in> set keys \<union> node_match_key ` set ms then [] else [m])"
  by (induction keys ms rule: first_of_keys.induct) auto

lemma find_append:
  "find P (xs @ ys) = (case find P xs of None \<Rightarrow> find P ys | Some x \<Rightarrow> Some x)"
  by (induction xs) auto

definition inv_exact :: "profile_node list \<Rightarrow> profile_node list \<Rightarrow> merge_state \<Rightarrow> bool" where
  "inv_exact nodes0 ms st \<longleftrightarrow>
     take (length nodes0) (sh_items (mg_nodes st)) = map (updated_node ms) nodes0 \<and>
     map without_id (drop (length nodes0) (sh_items (mg_nodes st))) =
       map without_id (first_of_keys (map node_match_key nodes0) ms) \<and>
     set (mg_seen st) = node_match_key ` set ms - {[]}"

lemma updated_node_append:
  "updated_node (ms @ [m]) e =
     (if node_match_key m = [] \<or> node_match_key m \<in> node_match_key ` set ms \<or> node_match_key m \<noteq> node_match_key e
      then updated_node ms e else merged_node e m)"
proof (cases "find (\<lambda>m. node_match_key m \<noteq> [] \<and> node_match_key m = node_match_key e) ms")
  case None
  then have "\<forall>x \<in> set ms. \<not> (node_match_key x \<noteq> [] \<and> node_match_key x = node_match_key e)"
    by (simp add: find_None_iff)
  then show ?thesis using None by (auto simp: updated_node_def find_append merged_node_def)
next
  case (Some x)
  then have "x \<in> set ms" "node_match_key x = node_match_key e"
    by (auto simp: find_Some_iff)
  then have "node_match_key e \<in> node_match_key ` set ms" by (metis image_eqI)
  with Some show ?thesis by (auto simp: updated_node_def find_append)
qed

lemma updated_node_unseen:
  assumes "node_match_key e \<notin> node_match_key ` set ms"
  shows "updated_node ms e = e"
proof -
  have "find (\<lambda>m. node_match_key m \<noteq> [] \<and> node_match_key m = node_match_key e) ms = None"
    using assms by (auto simp: find_None_iff image_iff)
  then show ?thesis by (simp add: updated_node_def)
qed

lemma inv_exact_step:
  assumes inv: "inv_exact nodes0 ms st" and keys: "distinct (map node_match_key nodes0)"
    and long: "length nodes0 \<le> length (sh_items (mg_nodes st))"
  shows "inv_exact nodes0 (ms @ [m]) (merge_node (\<lambda>key. key_index key 0 nodes0) m st)"
proof (rule merge_node_cases [of "\<lambda>key. key_index key 0 nodes0" m st])
  assume "merge_node (\<lambda>key. key_index key 0 nodes0) m st = st" "node_match_key m = [] \<or> node_match_key m \<in> set (mg_seen st)"
  with inv show ?thesis by (auto simp: inv_exact_def updated_node_append first_of_keys_append)
next
  fix i st'
  assume step: "merge_node (\<lambda>key. key_index key 0 nodes0) m st = st'"
    and hit: "key_index (node_match_key m) 0 nodes0 = Some i"
    and new: "node_match_key m \<noteq> []" "node_match_key m \<notin> set (mg_seen st)"
    and items: "sh_items (mg_nodes st') = (sh_items (mg_nodes st))[i := merged_node (sh_items (mg_nodes st) ! i) m]"
    and seen: "mg_seen st' = node_match_key m # mg_seen st"
  from key_index_0 [OF hit] have i: "i < length nodes0" "node_match_key (nodes0 ! i) = node_match_key m" by auto
  have taken: "take (length nodes0) (sh_items (mg_nodes st)) = map (updated_node ms) nodes0"
    using inv by (simp add: inv_exact_def)
  have unseen: "node_match_key m \<notin> node_match_key ` set ms" using inv new by (auto simp: inv_exact_def)
  have "sh_items (mg_nodes st) ! i = updated_node ms (nodes0 ! i)"
    using arg_cong [OF taken, of "\<lambda>xs. xs ! i"] i by simp
  moreover have "updated_node ms (nodes0 ! i) = nodes0 ! i"
    using unseen i by (intro updated_node_unseen) simp
  ultimately have here: "sh_items (mg_nodes st) ! i = nodes0 ! i" by simp
  have other: "node_match_key (nodes0 ! j) \<noteq> node_match_key m" if "j < length nodes0" "j \<noteq> i" for j
    using keys that i by (metis length_map nth_eq_iff_index_eq nth_map)
  have "(map (updated_node ms) nodes0)[i := merged_node (nodes0 ! i) m] = map (updated_node (ms @ [m])) nodes0"
  proof (rule nth_equalityI)
    fix j
    assume "j < length ((map (updated_node ms) nodes0)[i := merged_node (nodes0 ! i) m])"
    then have j: "j < length nodes0" by simp
    show "(map (updated_node ms) nodes0)[i := merged_node (nodes0 ! i) m] ! j = map (updated_node (ms @ [m])) nodes0 ! j"
    proof (cases "j = i")
      case True
      with i new unseen show ?thesis by (simp add: updated_node_append)
    next
      case False
      with other [OF j] have "updated_node (ms @ [m]) (nodes0 ! j) = updated_node ms (nodes0 ! j)"
        by (simp add: updated_node_append)
      with False j show ?thesis by simp
    qed
  qed simp
  with i here taken
  have "take (length nodes0) (sh_items (mg_nodes st')) = map (updated_node (ms @ [m])) nodes0"
    by (simp only: items take_update_swap)
  moreover have "drop (length nodes0) (sh_items (mg_nodes st')) = drop (length nodes0) (sh_items (mg_nodes st))"
    using i by (simp add: items)
  moreover have "node_match_key m \<in> set (map node_match_key nodes0)" using i by (metis length_map nth_map nth_mem)
  moreover from inv new have "set (mg_seen st') = node_match_key ` set (ms @ [m]) - {[]}"
    by (auto simp: inv_exact_def seen)
  ultimately show ?thesis using inv
    unfolding inv_exact_def step first_of_keys_append by simp
next
  fix fresh st'
  assume step: "merge_node (\<lambda>key. key_index key 0 nodes0) m st = st'"
    and miss: "key_index (node_match_key m) 0 nodes0 = None"
    and new: "node_match_key m \<noteq> []" "node_match_key m \<notin> set (mg_seen st)"
    and items: "sh_items (mg_nodes st') = sh_items (mg_nodes st) @ [m\<lparr>nd_ID := fresh\<rparr>]"
    and seen: "mg_seen st' = node_match_key m # mg_seen st"
  have absent: "node_match_key m \<notin> node_match_key ` set nodes0" using miss by (simp add: key_index_None)
  have unseen: "node_match_key m \<notin> node_match_key ` set ms" using inv new by (auto simp: inv_exact_def)
  have "updated_node (ms @ [m]) e = updated_node ms e" if "e \<in> set nodes0" for e
    using absent that by (auto simp: updated_node_append)
  with inv long new absent unseen show ?thesis
    by (auto simp: inv_exact_def step items seen first_of_keys_append without_id_def)
qed

lemma merge_exact:
  assumes keys: "distinct (map node_match_key nodes0)"
  shows "inv_exact nodes0 incoming (merge_end spare nodes0 incoming)"
proof (induction incoming rule: rev_induct)
  case Nil
  show ?case by (auto simp: inv_exact_def merge_end_def merge_start_def updated_node_unseen intro!: map_idI [symmetric])
next
  case (snoc m ms)
  let ?st = "merge_end spare nodes0 ms"
  from snoc have "length (take (length nodes0) (sh_items (mg_nodes ?st))) = length nodes0"
    by (simp add: inv_exact_def)
  then have "length nodes0 \<le> length (sh_items (mg_nodes ?st))" by (simp add: min_def split: if_splits)
  from inv_exact_step [OF snoc keys this, of m] show ?case by (simp add: merge_end_def)
qed

text \<open>
  C26.  Importing nodes into a document whose identifiers are distinct and trimmed and whose match keys
  differ: every node of the document stays at its place, unchanged when no import has its key; otherwise it takes the
  first import with its key and keeps its own identifier, its creation time, and its name and group unless they are
  blank.  The first import of every other key follows in the order of the imports under a new identifier, so that all
  identifiers are distinct; the statistics count every imported key once; and the active node is live, or there is
  none because no node is.
\<close>

theorem merge_nodes_outcome:
  assumes "stored_ids (do_Nodes current)" and "distinct (map node_match_key (do_Nodes current))"
    and "merge_nodes spare current incoming = ((doc, stats), buf)"
  shows "distinct (map nd_ID (do_Nodes doc)) \<and>
         take (length (do_Nodes current)) (do_Nodes doc) = map (updated_node incoming) (do_Nodes current) \<and>
         map without_id (drop (length (do_Nodes current)) (do_Nodes doc)) =
           map without_id (first_of_keys (map node_match_key (do_Nodes current)) incoming) \<and>
         length (do_Nodes doc) = length (do_Nodes current) + mst_added stats \<and>
         mst_added stats + mst_updated stats + mst_unchanged stats = card (imported_keys incoming) \<and>
         active_ok (do_ActiveNodeID doc) (do_Nodes doc)"
proof -
  let ?st = "merge_end spare (do_Nodes current) incoming"
  from assms(3) merge_nodes_end [of spare current incoming]
  have out: "do_Nodes doc = sh_items (mg_nodes ?st)" "stats = mg_stats ?st" by simp_all
  note inv = merge_end_invariants [OF assms(1,2), where spare = spare and incoming = incoming]
  from merge_active_ok [OF assms(1,2), of spare incoming] assms(3)
  have "active_ok (do_ActiveNodeID doc) (do_Nodes doc)" by simp
  with inv merge_counts [OF inv(2)] merge_exact [OF assms(2), of incoming spare] show ?thesis
    by (simp add: out inv_ids_def inv_counts_def inv_exact_def)
qed

definition demo_source :: "string \<Rightarrow> string \<Rightarrow> node_source" where
  "demo_source t key = \<lparr>so_Type = t, so_URL = key, so_ProviderKey = key, so_LastSeenAt = 0\<rparr>"

definition demo_profile_node :: "string \<Rightarrow> string \<Rightarrow> node_source \<Rightarrow> profile_node" where
  "demo_profile_node node_id link source =
     \<lparr>nd_ID = node_id, nd_Name = node_id, nd_Protocol = ''trojan'', nd_Server = ''h.example'', nd_Port = 443,
      nd_Link = link, nd_Outbound = link, nd_Group = ''Default'', nd_OwnerPackage = [], nd_LatencyMS = None,
      nd_ResponseMS = None, nd_ThroughputBps = None, nd_TestStatus = [], nd_CreatedAt = 1, nd_Stale = False,
      nd_Source = source, nd_Extra = []\<rparr>"

definition demo_document :: "profile_node list \<Rightarrow> document" where
  "demo_document nodes =
     \<lparr>do_SchemaVersion = 2, do_ID = ''d'', do_Name = ''d'', do_ActiveNodeID = ''a'', do_Nodes = nodes,
      do_Subscriptions = [], do_Runtime = \<lparr>rv_BackendKind = [], rv_FallbackPolicy = []\<rparr>,
      do_Routing = \<lparr>dr_Mode = ''RULES'', dr_BypassRussia = False, dr_AppProxyList = [], dr_AppBypassList = [],
        dr_AppGroupRoutes = Map.empty, dr_DirectDomains = [], dr_ProxyDomains = [], dr_BlockDomains = [],
        dr_DirectIps = [], dr_ProxyIps = [], dr_BlockIps = [], dr_AlwaysDirectAppList = [],
        dr_AlwaysDirectExcludedAppList = [], dr_AlwaysDirectSystemApps = False\<rparr>,
      do_DNS = \<lparr>dd_RemoteDNS = [], dd_DirectDNS = [], dd_BootstrapIP = [], dd_IPv6Mode = [], dd_FakeDNS = False\<rparr>,
      do_Health = \<lparr>dh_Enabled = True, dh_IntervalSec = 30, dh_Threshold = 3, dh_CheckURL = ''u'', dh_TimeoutSec = 5,
        dh_DNSProbeDomains = [], dh_EgressURLs = [], dh_DNSIsHardReadiness = False\<rparr>,
      do_Sharing = \<lparr>sh_Enabled = False, sh_Interfaces = []\<rparr>,
      do_Tun = \<lparr>dt_Enabled = False, dt_MTU = 9000, dt_IPv4Address = ''x'', dt_IPv6 = False, dt_AutoRoute = True,
        dt_StrictRoute = True\<rparr>,
      do_Inbounds = \<lparr>pi_SocksPort = 0, pi_HTTPPort = 0, pi_AllowLAN = False\<rparr>, do_Extra = []\<rparr>"

definition demo_manual :: "string \<Rightarrow> string \<Rightarrow> profile_node" where
  "demo_manual node_id link = demo_profile_node node_id link (demo_source ''MANUAL'' [])"

definition demo_stored :: document where
  "demo_stored = demo_document [demo_manual ''a'' ''x'', demo_manual ''b'' ''y'']"

theorem merge_nodes_outcome_witness:
  "map nd_ID (do_Nodes (fst (fst (merge_nodes 0 demo_stored [demo_manual ''b'' ''z''])))) =
     [''a'', ''b''] \<and>
   take 2 (do_Nodes (fst (fst (merge_nodes 0 demo_stored [demo_manual ''b'' ''z''])))) =
     map (updated_node [demo_manual ''b'' ''z'']) (do_Nodes demo_stored) \<and>
   active_ok ''b'' (do_Nodes (fst (fst (merge_nodes 0 demo_stored [demo_manual ''b'' ''z'']))))"
proof -
  let ?in = "[demo_manual ''b'' ''z'']"
  obtain doc stats buf where eq: "merge_nodes 0 demo_stored ?in = ((doc, stats), buf)"
    by (metis prod.collapse)
  have run: "map nd_ID (do_Nodes (fst (fst (merge_nodes 0 demo_stored ?in)))) = [''a'', ''b'']"
    "do_ActiveNodeID (fst (fst (merge_nodes 0 demo_stored ?in))) = ''b''"
    by (code_simp, code_simp)
  have "stored_ids (do_Nodes demo_stored)" "distinct (map node_match_key (do_Nodes demo_stored))" by code_simp+
  moreover have "length (do_Nodes demo_stored) = 2" by code_simp
  ultimately show ?thesis using merge_nodes_outcome [OF _ _ eq] run eq by simp
qed

end
