(* ===== verification/SubscriptionProperties.thy ===== *)
theory SubscriptionProperties
  imports MergeProperties "HOL-Library.Multiset"
begin

text \<open>
  The outcome of merging a subscription.  The facts about keys hold for documents whose sources are
  normalised and whose provider keys have no bar, the separator of the match keys.
\<close>

section \<open>Match keys of subscription nodes\<close>


lemma source_types [simp]:
  "to_upper (trim_space ''SUBSCRIPTION'') = ''SUBSCRIPTION''" "to_upper (trim_space ''MANUAL'') = ''MANUAL''"
  "\<not> equal_fold ''MANUAL'' ''SUBSCRIPTION''" "equal_fold ''SUBSCRIPTION'' ''SUBSCRIPTION''"
  by code_simp+







section \<open>Marking and reordering\<close>

definition marked :: "string \<Rightarrow> string set \<Rightarrow> profile_node \<Rightarrow> profile_node" where
  "marked provider seen n = (if goes_stale provider seen n then n\<lparr>nd_Stale := True\<rparr> else n)"

lemma stale_update [simp]:
  "node_match_key (n\<lparr>nd_Stale := b\<rparr>) = node_match_key n"
  "is_provider_node provider (n\<lparr>nd_Stale := b\<rparr>) = is_provider_node provider n"
  by (simp_all add: node_match_key_def is_provider_node_def Let_def)

lemma marked_fields [simp]:
  "nd_ID (marked provider seen n) = nd_ID n" "nd_Source (marked provider seen n) = nd_Source n"
  "node_match_key (marked provider seen n) = node_match_key n"
  "is_provider_node provider' (marked provider seen n) = is_provider_node provider' n"
  by (simp_all add: marked_def node_match_key_def is_provider_node_def Let_def)











section \<open>The keys after a merge of linked nodes\<close>




section \<open>The outcome\<close>


lemma trimmed_key [simp]: "su_ProviderKey (trimmed_subscription sub) = trim_space (su_ProviderKey sub)"
  by (simp add: trimmed_subscription_def)












end
