(* ===== verification/Contract.thy ===== *)
theory Contract
  imports GoText Errors
begin

text \<open>
  The contract of the control socket (\<^verbatim>\<open>daemon/internal/ipc/contract.go\<close>): the manifest of
  methods, capabilities, error codes and operation policies, its completion and its validation, and the
  lookups the control plane uses.  The manifest is read from the embedded file
  \<^verbatim>\<open>contract_manifest.json\<close>, whose decoded value is an argument; its operation policies for the
  mutations are written out.  The maps of the manifest are association lists in an arbitrary order.
\<close>

record operation_contract =
  oc_Type :: string
  oc_AsyncResultVia :: string
  oc_Stages :: "string list"

record method_contract =
  mt_Method :: string
  mt_Capability :: string
  mt_Mutating :: bool
  mt_Async :: bool
  mt_Request :: string
  mt_Result :: string
  mt_ErrorCodes :: "string list"
  mt_Operation :: "operation_contract option"
  mt_Compatibility :: string

record ipc_policy =
  ip_Stages :: "string list"
  ip_ErrorCodes :: "string list"

record contract =
  co_Version :: int
  co_ErrorCodes :: "string list"
  co_CompatibilityPolicies :: "string list"
  co_RequestExamples :: "(string \<times> string) list"
  co_OperationPolicies :: "(string \<times> ipc_policy) list"
  co_Capabilities :: "string list"
  co_APKRequiredMethods :: "string list"
  co_Methods :: "method_contract list"

section \<open>Lookups\<close>

definition operation_policy_for_type :: "contract \<Rightarrow> string \<Rightarrow> ipc_policy option" where
  "operation_policy_for_type manifest operation_type =
     (if operation_type = [] then None else map_of (co_OperationPolicies manifest) operation_type)"

text \<open>The stages of a policy that may be missing: the zero policy has none.\<close>

definition policy_stages :: "contract \<Rightarrow> string \<Rightarrow> string list" where
  "policy_stages manifest operation_type =
     (case operation_policy_for_type manifest operation_type of None \<Rightarrow> [] | Some p \<Rightarrow> ip_Stages p)"

definition method_operation_type :: "contract \<Rightarrow> string \<Rightarrow> string option" where
  "method_operation_type manifest name =
     (if name = [] then None
      else (case find (\<lambda>m. mt_Method m = name) (co_Methods manifest) of
              None \<Rightarrow> None
            | Some m \<Rightarrow>
                (case mt_Operation m of
                   None \<Rightarrow> None
                 | Some operation \<Rightarrow> if oc_Type operation = [] then None else Some (oc_Type operation))))"

definition public_error_code_names :: "string list" where
  "public_error_code_names =
     [''INVALID_PARAMS'', ''INTERNAL_ERROR'', ''CONFIG_ERROR'', ''RUNTIME_BUSY'', ''RESET_IN_PROGRESS'']"

section \<open>Completion\<close>

definition contract_fail :: "string \<Rightarrow> go_error" where
  "contract_fail m = ErrorString (''ipc contract '' @ m)"

text \<open>\<^verbatim>\<open>%v\<close> of a list of strings.\<close>

definition go_list :: "string list \<Rightarrow> string" where
  "go_list xs = ''['' @ str_join '' '' xs @ '']''"

definition drifted :: "string \<Rightarrow> string \<Rightarrow> string list \<Rightarrow> string list \<Rightarrow> go_error" where
  "drifted name what got expected =
     contract_fail (''method '' @ name @ '' '' @ what @ '' drifted: got '' @ go_list got @
       '', expected '' @ go_list expected)"

definition complete_method ::
  "(string \<times> ipc_policy) list \<Rightarrow> method_contract \<Rightarrow> go_error + method_contract" where
  "complete_method policies m =
     (case mt_Operation m of
        None \<Rightarrow> Inr m
      | Some operation \<Rightarrow>
          (case map_of policies (oc_Type operation) of
             None \<Rightarrow> Inr m
           | Some policy \<Rightarrow>
               if mt_ErrorCodes m \<noteq> [] \<and> mt_ErrorCodes m \<noteq> ip_ErrorCodes policy
               then Inl (drifted (mt_Method m) ''error codes'' (mt_ErrorCodes m) (ip_ErrorCodes policy))
               else if oc_Stages operation \<noteq> [] \<and> oc_Stages operation \<noteq> ip_Stages policy
               then Inl (drifted (mt_Method m) ''operation stages'' (oc_Stages operation) (ip_Stages policy))
               else Inr (m\<lparr>mt_ErrorCodes := ip_ErrorCodes policy,
                           mt_Operation := Some (operation\<lparr>oc_Stages := ip_Stages policy\<rparr>)\<rparr>)))"

fun complete_methods ::
  "(string \<times> ipc_policy) list \<Rightarrow> method_contract list \<Rightarrow> go_error + method_contract list" where
  "complete_methods policies [] = Inr []"
| "complete_methods policies (m # ms) =
     (case complete_method policies m of
        Inl e \<Rightarrow> Inl e
      | Inr m' \<Rightarrow> (case complete_methods policies ms of Inl e \<Rightarrow> Inl e | Inr ms' \<Rightarrow> Inr (m' # ms')))"

definition complete_contract_manifest :: "contract \<Rightarrow> go_error + contract" where
  "complete_contract_manifest manifest =
     (case complete_methods (co_OperationPolicies manifest) (co_Methods manifest) of
        Inl e \<Rightarrow> Inl e
      | Inr ms \<Rightarrow> Inr (manifest\<lparr>co_Methods := ms\<rparr>))"

section \<open>Validation\<close>

text \<open>The loops that check a list of names: none is empty and none is repeated.\<close>

fun check_names :: "string \<Rightarrow> string list \<Rightarrow> string list \<Rightarrow> go_error option" where
  "check_names what seen [] = None"
| "check_names what seen (x # xs) =
     (if x = [] then Some (contract_fail (''manifest contains an empty '' @ what))
      else if x \<in> set seen
      then Some (contract_fail (''manifest contains duplicate '' @ what @ '' '' @ go_quote x))
      else check_names what (x # seen) xs)"

definition has_duplicates :: "string list \<Rightarrow> bool" where
  "has_duplicates xs \<longleftrightarrow> \<not> distinct xs"

fun first_failure :: "('a \<Rightarrow> go_error option) \<Rightarrow> 'a list \<Rightarrow> go_error option" where
  "first_failure check [] = None"
| "first_failure check (x # xs) = (case check x of Some e \<Rightarrow> Some e | None \<Rightarrow> first_failure check xs)"

definition check_example :: "(string \<Rightarrow> bool) \<Rightarrow> string list \<Rightarrow> string \<times> string \<Rightarrow> go_error option" where
  "check_example valid_json schemas e =
     (if fst e = [] then Some (contract_fail ''manifest contains an empty request example key'')
      else if fst e \<notin> set schemas
      then Some (contract_fail (''request example '' @ fst e @ '' does not match any request schema''))
      else if \<not> valid_json (snd e)
      then Some (contract_fail (''request example '' @ fst e @ '' is not valid JSON''))
      else None)"

definition check_policy :: "string list \<Rightarrow> string \<times> ipc_policy \<Rightarrow> go_error option" where
  "check_policy codes entry =
     (let t = fst entry; p = snd entry;
          bad = (\<lambda>m. Some (contract_fail (''operation policy '' @ t @ m)))
      in if t = [] then Some (contract_fail ''manifest contains an operation policy without type'')
         else if ip_Stages p = [] then bad '' has no stages''
         else if has_duplicates (ip_Stages p) then bad '' contains duplicate stages''
         else if ip_ErrorCodes p = [] then bad '' has no error codes''
         else if has_duplicates (ip_ErrorCodes p) then bad '' contains duplicate error codes''
         else (case find (\<lambda>c. c \<notin> set codes) (ip_ErrorCodes p) of
                 Some c \<Rightarrow> bad ('' references undeclared error code '' @ c)
               | None \<Rightarrow> None))"

definition check_operation :: "(string \<times> ipc_policy) list \<Rightarrow> method_contract \<Rightarrow> go_error option" where
  "check_operation policies m =
     (let bad = (\<lambda>x. Some (contract_fail (''method '' @ mt_Method m @ x)))
      in case mt_Operation m of
           None \<Rightarrow> None
         | Some operation \<Rightarrow>
             if oc_Type operation = [] then bad '' has operation metadata without type''
             else if oc_Stages operation = [] then bad '' has operation metadata without stages''
             else (case map_of policies (oc_Type operation) of
                     None \<Rightarrow> bad ('' uses operation type '' @ oc_Type operation @ '' without stage policy'')
                   | Some policy \<Rightarrow>
                       if oc_Stages operation \<noteq> ip_Stages policy
                       then Some (drifted (mt_Method m) ''operation stages'' (oc_Stages operation) (ip_Stages policy))
                       else if mt_ErrorCodes m \<noteq> ip_ErrorCodes policy
                       then Some (drifted (mt_Method m) ''error codes'' (mt_ErrorCodes m) (ip_ErrorCodes policy))
                       else None))"

definition check_method :: "contract \<Rightarrow> method_contract \<Rightarrow> go_error option" where
  "check_method manifest m =
     (let bad = (\<lambda>x. Some (contract_fail (''method '' @ mt_Method m @ x)))
      in if mt_Capability m = [] then bad '' has no capability''
         else if mt_Capability m \<notin> set (co_Capabilities manifest)
         then bad ('' references undeclared capability '' @ mt_Capability m)
         else if mt_Compatibility m \<noteq> [] \<and> mt_Compatibility m \<notin> set (co_CompatibilityPolicies manifest)
         then bad ('' uses unknown compatibility policy '' @ mt_Compatibility m)
         else if mt_Request m = [] then bad '' has no request schema''
         else if mt_Result m = [] then bad '' has no result schema''
         else if mt_ErrorCodes m = [] then bad '' has no error codes''
         else (case find (\<lambda>c. c \<notin> set (co_ErrorCodes manifest)) (mt_ErrorCodes m) of
                 Some c \<Rightarrow> bad ('' declares unknown error code '' @ c)
               | None \<Rightarrow>
                   if mt_Mutating m \<and> mt_Operation m = None
                   then Some (contract_fail (''mutating method '' @ mt_Method m @ '' has no operation metadata''))
                   else if mt_Async m \<and> (case mt_Operation m of None \<Rightarrow> True | Some operation \<Rightarrow> oc_AsyncResultVia operation = [])
                   then Some (contract_fail (''async method '' @ mt_Method m @ '' has no async result surface''))
                   else check_operation (co_OperationPolicies manifest) m))"

fun check_methods :: "contract \<Rightarrow> string list \<Rightarrow> method_contract list \<Rightarrow> go_error option" where
  "check_methods manifest seen [] = None"
| "check_methods manifest seen (m # ms) =
     (if mt_Method m = [] then Some (contract_fail ''manifest contains a method without a name'')
      else if mt_Method m \<in> set seen
      then Some (contract_fail (''manifest contains duplicate method '' @ go_quote (mt_Method m)))
      else (case check_method manifest m of
              Some e \<Rightarrow> Some e
            | None \<Rightarrow> check_methods manifest (mt_Method m # seen) ms))"

definition used_policies :: "method_contract list \<Rightarrow> string list" where
  "used_policies ms = map oc_Type (concat (map (\<lambda>m. case mt_Operation m of None \<Rightarrow> [] | Some operation \<Rightarrow> [operation]) ms))"

fun check_required :: "string list \<Rightarrow> string list \<Rightarrow> string list \<Rightarrow> go_error option" where
  "check_required methods seen [] = None"
| "check_required methods seen (m # ms) =
     (if m = [] then Some (contract_fail ''apk required methods contain an empty method'')
      else if m \<in> set seen
      then Some (contract_fail (''apk required methods contain duplicate method '' @ go_quote m))
      else if m \<notin> set methods
      then Some (contract_fail (''apk required method '' @ m @ '' is not declared''))
      else check_required methods (m # seen) ms)"

fun first_error_in :: "go_error option list \<Rightarrow> go_error option" where
  "first_error_in [] = None"
| "first_error_in (None # es) = first_error_in es"
| "first_error_in (Some e # es) = Some e"

definition validate_contract_manifest :: "(string \<Rightarrow> bool) \<Rightarrow> contract \<Rightarrow> go_error option" where
  "validate_contract_manifest valid_json manifest =
     (if co_Version manifest < 1 then Some (contract_fail ''manifest version must be positive'')
      else if co_Methods manifest = [] then Some (contract_fail ''manifest must declare methods'')
      else first_error_in
        [check_names ''error code'' [] (co_ErrorCodes manifest),
         (if co_ErrorCodes manifest = [] then Some (contract_fail ''manifest must declare error codes'') else None),
         (if co_ErrorCodes manifest \<noteq> public_error_code_names
          then Some (contract_fail (''manifest error codes drifted: got '' @ go_list (co_ErrorCodes manifest) @
                 '', expected '' @ go_list public_error_code_names)) else None),
         check_names ''compatibility policy'' [] (co_CompatibilityPolicies manifest),
         (if co_CompatibilityPolicies manifest = []
          then Some (contract_fail ''manifest must declare compatibility policies'') else None),
         check_names ''capability'' [] (co_Capabilities manifest),
         first_failure (check_example valid_json (''empty'' # map mt_Request (co_Methods manifest)))
           (co_RequestExamples manifest),
         first_failure (check_policy (co_ErrorCodes manifest)) (co_OperationPolicies manifest),
         check_methods manifest [] (co_Methods manifest),
         first_failure (\<lambda>entry. if fst entry \<in> set (used_policies (co_Methods manifest)) then None
             else Some (contract_fail (''operation policy '' @ fst entry @ '' is not used by any method'')))
           (co_OperationPolicies manifest),
         check_required (map mt_Method (co_Methods manifest)) [] (co_APKRequiredMethods manifest)])"

text \<open>
  \<^verbatim>\<open>contractManifest\<close>: the version defaults to 1, and a manifest that cannot be completed or
  validated is a panic.
\<close>

definition contract_manifest :: "(string \<Rightarrow> bool) \<Rightarrow> go_error + contract \<Rightarrow> go_error + contract" where
  "contract_manifest valid_json decoded =
     (case decoded of
        Inl e \<Rightarrow> Inl e
      | Inr raw \<Rightarrow>
          (case complete_contract_manifest (if co_Version raw = 0 then raw\<lparr>co_Version := 1\<rparr> else raw) of
             Inl e \<Rightarrow> Inl e
           | Inr m \<Rightarrow> (case validate_contract_manifest valid_json m of Some e \<Rightarrow> Inl e | None \<Rightarrow> Inr m)))"

section \<open>Lemmas\<close>

lemma first_error_in_None [simp]: "first_error_in es = None \<longleftrightarrow> list_all (\<lambda>e. e = None) es"
  by (induction es rule: first_error_in.induct) auto

lemma first_failure_None [simp]: "first_failure check xs = None \<longleftrightarrow> list_all (\<lambda>x. check x = None) xs"
  by (induction xs) (auto split: option.splits)

lemma check_methods_all:
  "check_methods manifest seen ms = None \<Longrightarrow>
     list_all (\<lambda>m. mt_Method m \<noteq> [] \<and> check_method manifest m = None) ms \<and>
     distinct (map mt_Method ms) \<and> set (map mt_Method ms) \<inter> set seen = {}"
proof (induction ms arbitrary: seen)
  case (Cons m ms)
  from Cons.prems have "check_methods manifest (mt_Method m # seen) ms = None" "check_method manifest m = None"
    "mt_Method m \<noteq> []" "mt_Method m \<notin> set seen"
    by (auto split: if_splits option.splits)
  with Cons.IH [of "mt_Method m # seen"] show ?case by auto
qed simp

text \<open>In a valid manifest the operation type of a method has a policy with stages.\<close>

lemma valid_manifest_policy:
  assumes "validate_contract_manifest valid_json manifest = None"
    and "method_operation_type manifest name = Some t"
  shows "\<exists>p. operation_policy_for_type manifest t = Some p \<and> ip_Stages p \<noteq> [] \<and> distinct (ip_Stages p)"
proof -
  from assms(2) obtain m operation where m: "m \<in> set (co_Methods manifest)" "mt_Operation m = Some operation"
    and t: "oc_Type operation = t" "t \<noteq> []"
    by (auto simp: method_operation_type_def dest: find_eq_SomeD split: if_splits option.splits)
  from assms(1) have all: "check_methods manifest [] (co_Methods manifest) = None"
    and policies: "list_all (\<lambda>e. check_policy (co_ErrorCodes manifest) e = None) (co_OperationPolicies manifest)"
    by (auto simp: validate_contract_manifest_def split: if_splits)
  from check_methods_all [OF all] m have "check_method manifest m = None" by (auto simp: list_all_iff)
  with m t obtain p where p: "map_of (co_OperationPolicies manifest) t = Some p"
    by (auto simp: check_method_def check_operation_def Let_def split: if_splits option.splits)
  with policies have "check_policy (co_ErrorCodes manifest) (t, p) = None"
    by (auto simp: list_all_iff dest: map_of_SomeD)
  with p t show ?thesis
    by (auto simp: operation_policy_for_type_def check_policy_def has_duplicates_def Let_def split: if_splits)
qed

end
