(* ===== verification/ConfigTransaction.thy ===== *)
theory ConfigTransaction
  imports Contract ConfigRules
begin

text \<open>
  The configuration transaction (\<^verbatim>\<open>daemon/internal/apply/transaction.go\<close>) and the application of
  a saved configuration to the runtime (\<^verbatim>\<open>runtime_config.go\<close>).  Both take their effects as hooks
  that may be missing; a hook maps the world to its result and the next world, so that the order of the calls is
  the order in which the world is passed.
\<close>

section \<open>The transaction\<close>

record transaction_result =
  tr_Action :: string
  tr_ConfigSaved :: bool
  tr_RuntimeWasRunning :: bool
  tr_RuntimeOperation :: operation_kind
  tr_RuntimeApply :: string
  tr_RuntimeApplied :: bool
  tr_RuntimeApplyMode :: string
  tr_RuntimeApplyReason :: string
  tr_RequiresHotSwap :: bool

record config_apply_result =
  ca_RuntimeApply :: string
  ca_RuntimeApplied :: bool
  ca_RuntimeApplyMode :: string
  ca_RuntimeApplyReason :: string
  ca_RequiresHotSwap :: bool

definition empty_transaction_result :: transaction_result where
  "empty_transaction_result = \<lparr>tr_Action = [], tr_ConfigSaved = False, tr_RuntimeWasRunning = False,
     tr_RuntimeOperation = OperationNone, tr_RuntimeApply = [], tr_RuntimeApplied = False,
     tr_RuntimeApplyMode = [], tr_RuntimeApplyReason = [], tr_RequiresHotSwap = False\<rparr>"

type_synonym ('c, 'w) config_hook = "'c \<Rightarrow> 'w \<Rightarrow> go_error option \<times> 'w"

record ('c, 'w) transaction =
  ct_Action :: string
  ct_ValidateConfig :: "('c, 'w) config_hook option"
  ct_CheckRuntimeProjection :: "('c, 'w) config_hook option"
  ct_EnsureIdle :: "('w \<Rightarrow> go_error option \<times> 'w) option"
  ct_SaveProfile :: "('c, 'w) config_hook option"
  ct_ApplyConfig :: "('c \<Rightarrow> bool \<Rightarrow> operation_kind \<Rightarrow> 'w \<Rightarrow> go_error option \<times> 'w) option"
  ct_ApplyConfigWithResult ::
    "('c \<Rightarrow> bool \<Rightarrow> operation_kind \<Rightarrow> 'w \<Rightarrow> (go_error + config_apply_result) \<times> 'w) option"
  ct_RuntimeRunning :: "('w \<Rightarrow> bool \<times> 'w) option"

definition runtime_operation_for_type :: "string \<Rightarrow> operation_kind option" where
  "runtime_operation_for_type operation_type =
     (if operation_type = ''config-mutation'' then Some OperationConfigMutation
      else if operation_type = ''profile-apply'' then Some OperationProfileApply
      else if operation_type = ''applyDesiredState'' then Some OperationApplyDesiredState
      else None)"

definition runtime_operation_for_action :: "contract \<Rightarrow> string \<Rightarrow> operation_kind option" where
  "runtime_operation_for_action manifest action =
     (case method_operation_type manifest action of
        None \<Rightarrow> None | Some t \<Rightarrow> runtime_operation_for_type t)"

text \<open>A missing hook does nothing.\<close>

definition optional_hook :: "('w \<Rightarrow> go_error option \<times> 'w) option \<Rightarrow> 'w \<Rightarrow> go_error option \<times> 'w" where
  "optional_hook hook w = (case hook of None \<Rightarrow> (None, w) | Some f \<Rightarrow> f w)"

definition with_apply_result :: "config_apply_result \<Rightarrow> transaction_result \<Rightarrow> transaction_result" where
  "with_apply_result a r =
     r\<lparr>tr_RuntimeApply := ca_RuntimeApply a, tr_RuntimeApplied := ca_RuntimeApplied a,
       tr_RuntimeApplyMode := ca_RuntimeApplyMode a, tr_RuntimeApplyReason := ca_RuntimeApplyReason a,
       tr_RequiresHotSwap := ca_RequiresHotSwap a\<rparr>"

text \<open>The end of the transaction, once the profile is saved.\<close>

definition apply_saved ::
  "('c, 'w) transaction \<Rightarrow> 'c \<Rightarrow> bool \<Rightarrow> operation_kind \<Rightarrow> transaction_result \<Rightarrow> 'w
     \<Rightarrow> (transaction_result \<times> go_error option) \<times> 'w" where
  "apply_saved tx cfg reload operation r w =
     (case ct_ApplyConfigWithResult tx of
        Some apply \<Rightarrow>
          (case apply cfg reload operation w of
             (Inl e, w1) \<Rightarrow> ((r, Some e), w1)
           | (Inr a, w1) \<Rightarrow> ((with_apply_result a r, None), w1))
      | None \<Rightarrow>
          (case ct_ApplyConfig tx of
             None \<Rightarrow> ((r, Some (ErrorString ''config apply is not configured'')), w)
           | Some apply \<Rightarrow> (let (err, w1) = apply cfg reload operation w in ((r, err), w1))))"

definition save_and_apply ::
  "('c, 'w) transaction \<Rightarrow> 'c \<Rightarrow> bool \<Rightarrow> operation_kind \<Rightarrow> transaction_result \<Rightarrow> 'w
     \<Rightarrow> (transaction_result \<times> go_error option) \<times> 'w" where
  "save_and_apply tx cfg reload operation r w =
     (case ct_SaveProfile tx of
        None \<Rightarrow> ((r, Some (ErrorString ''profile persistence is not configured'')), w)
      | Some save \<Rightarrow>
          (case save cfg w of
             (Some e, w1) \<Rightarrow> ((r, Some (WrapError ''persist profile: '' e)), w1)
           | (None, w1) \<Rightarrow>
               (let (running, w2) = (case ct_RuntimeRunning tx of None \<Rightarrow> (False, w1) | Some f \<Rightarrow> f w1)
                in apply_saved tx cfg reload operation
                     (r\<lparr>tr_ConfigSaved := True, tr_RuntimeWasRunning := running\<rparr>) w2)))"

definition run_transaction ::
  "contract \<Rightarrow> ('c, 'w) transaction \<Rightarrow> 'c option \<Rightarrow> bool \<Rightarrow> 'w
     \<Rightarrow> (transaction_result \<times> go_error option) \<times> 'w" where
  "run_transaction manifest tx next_cfg reload w =
     (case next_cfg of
        None \<Rightarrow> ((empty_transaction_result, Some (ErrorString ''config is nil'')), w)
      | Some cfg \<Rightarrow>
          if ct_Action tx = []
          then ((empty_transaction_result, Some (ErrorString ''mutation action is not configured'')), w)
          else (let r = empty_transaction_result\<lparr>tr_Action := ct_Action tx\<rparr>
                in case runtime_operation_for_action manifest (ct_Action tx) of
                     None \<Rightarrow> ((r, Some (ErrorString (''unknown config mutation action '' @ go_quote (ct_Action tx)))), w)
                   | Some operation \<Rightarrow>
                       (let r1 = r\<lparr>tr_RuntimeOperation := operation\<rparr>
                        in case optional_hook (map_option (\<lambda>f. f cfg) (ct_ValidateConfig tx)) w of
                             (Some e, w1) \<Rightarrow> ((r1, Some (ConfigValidationError ''validate'' (Some e))), w1)
                           | (None, w1) \<Rightarrow>
                               (case optional_hook (map_option (\<lambda>f. f cfg) (ct_CheckRuntimeProjection tx)) w1 of
                                  (Some e, w2) \<Rightarrow> ((r1, Some (ConfigValidationError ''render'' (Some e))), w2)
                                | (None, w2) \<Rightarrow>
                                    (case optional_hook (ct_EnsureIdle tx) w2 of
                                       (Some e, w3) \<Rightarrow> ((r1, Some e), w3)
                                     | (None, w3) \<Rightarrow> save_and_apply tx cfg reload operation r1 w3)))))"

section \<open>Applying a saved configuration\<close>

record 'c runtime_apply_input =
  ri_NewConfig :: "'c option"
  ri_Reload :: bool
  ri_Operation :: operation_kind
  ri_WasRunning :: bool
  ri_NeedsFullRestart :: bool
  ri_NeedsNetstackReapply :: bool

text \<open>
  \<^verbatim>\<open>ra_Save\<close> is the method \<^verbatim>\<open>Save\<close> of the configuration at the configured path; the body given to
  \<^verbatim>\<open>RunOperation\<close> gets the operation's generation.
\<close>

record ('c, 'w) runtime_apply_deps =
  ra_Save :: "('c, 'w) config_hook"
  ra_EnsureIdle :: "('w \<Rightarrow> go_error option \<times> 'w) option"
  ra_CommitConfig :: "('c \<Rightarrow> 'w \<Rightarrow> 'w) option"
  ra_SyncDesiredState :: "('w \<Rightarrow> go_error option \<times> 'w) option"
  ra_RunOperation ::
    "(operation_kind \<Rightarrow> phase \<Rightarrow> (int64 \<Rightarrow> 'w \<Rightarrow> go_error option \<times> 'w) \<Rightarrow> 'w \<Rightarrow> go_error option \<times> 'w) option"
  ra_ReloadRuntime :: "('c \<Rightarrow> int64 \<Rightarrow> bool \<Rightarrow> bool \<Rightarrow> 'w \<Rightarrow> go_error option \<times> 'w) option"

definition saved_error :: "go_error option \<Rightarrow> go_error option" where
  "saved_error e = map_option (WrapError ''config saved: '') e"

definition reload_saved ::
  "'c runtime_apply_input \<Rightarrow> ('c, 'w) runtime_apply_deps \<Rightarrow> 'c \<Rightarrow> 'w \<Rightarrow> go_error option \<times> 'w" where
  "reload_saved input deps cfg w =
     (if \<not> ri_Reload input \<or> \<not> ri_WasRunning input then (None, w)
      else (case ra_RunOperation deps of
              None \<Rightarrow> (Some (ErrorString ''config saved: runtime operation runner is not configured''), w)
            | Some run \<Rightarrow>
                (case ra_ReloadRuntime deps of
                   None \<Rightarrow> (Some (ErrorString ''config saved: runtime reload hook is not configured''), w)
                 | Some reload \<Rightarrow>
                     (let (err, w1) = run (if ri_Operation input = OperationNone then OperationReload else ri_Operation input) PhaseStarting
                            (\<lambda>generation. reload cfg generation (ri_NeedsFullRestart input) (ri_NeedsNetstackReapply input)) w
                      in (saved_error err, w1)))))"

definition apply_runtime_config ::
  "'c runtime_apply_input \<Rightarrow> ('c, 'w) runtime_apply_deps \<Rightarrow> 'w \<Rightarrow> go_error option \<times> 'w" where
  "apply_runtime_config input deps w =
     (case ri_NewConfig input of
        None \<Rightarrow> (Some (ErrorString ''config is nil''), w)
      | Some cfg \<Rightarrow>
          (case optional_hook (ra_EnsureIdle deps) w of
             (Some e, w1) \<Rightarrow> (Some e, w1)
           | (None, w1) \<Rightarrow>
               (case ra_Save deps cfg w1 of
                  (Some e, w2) \<Rightarrow> (Some (WrapError ''persist config: '' e), w2)
                | (None, w2) \<Rightarrow>
                    (let w3 = (case ra_CommitConfig deps of None \<Rightarrow> w2 | Some commit \<Rightarrow> commit cfg w2)
                     in case optional_hook (ra_SyncDesiredState deps) w3 of
                          (Some e, w4) \<Rightarrow>
                            (Some (WrapError ''config saved: sync runtime desired state: '' e), w4)
                        | (None, w4) \<Rightarrow> reload_saved input deps cfg w4))))"

end
