(* ===== verification/MutationEnvelope.thy ===== *)
theory MutationEnvelope
  imports ConfigTransaction SubscriptionMerge "HOL-Library.AList"
begin

text \<open>
  The replies to mutations (\<^verbatim>\<open>daemon/internal/control/mutation_envelope.go\<close>): what the panel is
  told of the transaction's stages, of what was saved and applied, and of the generations.  A
  \<^verbatim>\<open>map[string]interface\<close> is an association list of replies with distinct keys; Go values that are
  put in it as they are have constructors of their own.  The manifest of the contract gives the names of the stages.
\<close>

section \<open>Reply values\<close>

datatype reply =
    RStr string
  | RInt int
  | RGen int64
  | RBool bool
  | RMap "(string \<times> reply) list"
  | RList "reply list"
  | RStatus status
  | RReset "reset_report option"
  | ROperation operation_status
  | RPhase phase
  | RTime gtime
  | RDocument document
  | RStats merge_stats
  | RSubscription profile_subscription
  | RSource subscription_source
  | RRejected "rejected_node list"
  | RStrings env

type_synonym reply_map = "(string \<times> reply) list"

text \<open>Setting a key, and a key set under a condition.\<close>

definition put :: "string \<Rightarrow> reply \<Rightarrow> reply_map \<Rightarrow> reply_map" where
  "put k v m = AList.update k v m"

definition put_if :: "bool \<Rightarrow> string \<Rightarrow> reply \<Rightarrow> reply_map \<Rightarrow> reply_map" where
  "put_if b k v m = (if b then put k v m else m)"

text \<open>Changing the map stored under a key, in place.\<close>

definition put_in :: "string \<Rightarrow> (reply_map \<Rightarrow> reply_map) \<Rightarrow> reply_map \<Rightarrow> reply_map" where
  "put_in k f m = (case map_of m k of Some (RMap inner) \<Rightarrow> put k (RMap (f inner)) m | _ \<Rightarrow> m)"

record rpc_error =
  rpc_Code :: int
  rpc_Message :: string
  rpc_Data :: "reply option"

definition code_invalid_params :: int where "code_invalid_params = -32602"
definition code_internal_error :: int where "code_internal_error = -32603"
definition code_config_error :: int where "code_config_error = -32003"
definition code_runtime_busy :: int where "code_runtime_busy = -32004"

definition rpc_error_of :: "int \<Rightarrow> string \<Rightarrow> rpc_error" where
  "rpc_error_of code m = \<lparr>rpc_Code = code, rpc_Message = m, rpc_Data = None\<rparr>"

definition busy_data :: "busy_error \<Rightarrow> reply" where
  "busy_data e = RMap
     ([(''code'', RStr (be_code e))] @
      (if be_detail e \<noteq> [] then [(''detail'', RStr (be_detail e))] else []) @
      (case be_active e of
         None \<Rightarrow> []
       | Some a \<Rightarrow>
           [(''activeOperation'', ROperation a), (''phase'', RPhase (os_phase a)),
            (''generation'', RGen (os_generation a)), (''startedAt'', RTime (os_started_at a)),
            (''step'', RStr (os_step a)), (''stepStatus'', RStr (os_step_status a)),
            (''stepCode'', RStr (os_step_code a)), (''stepDetail'', RStr (os_step_detail a)),
            (''runtimeMs'', RInt (os_runtime_ms a)), (''watchdogAfterMs'', RInt (os_watchdog_after_ms a)),
            (''stuck'', RBool (os_stuck a))]))"

section \<open>The status of each stage\<close>

text \<open>
  A reset report is passed as an interface: the nil interface, or a pointer, which may be nil in its turn.
  \<^verbatim>\<open>ResetReportFromError\<close> returns a pointer, so that an error without a report is passed as
  an interface that holds a nil pointer and is not the nil interface.
\<close>

type_synonym reset_arg = "reset_report option option"

definition reset_report_status :: "reset_report option \<Rightarrow> string" where
  "reset_report_status p = (case p of None \<Rightarrow> [] | Some r \<Rightarrow> rr_status r)"

definition validation_stage_statuses :: "string \<Rightarrow> bool \<Rightarrow> string \<Rightarrow> string \<times> string" where
  "validation_stage_statuses status saved code =
     (if status \<noteq> ''failed'' \<or> saved then (''ok'', ''ok'')
      else if code = ''CONFIG_VALIDATION_FAILED'' then (''failed'', ''not_started'')
      else if code = ''CONFIG_RENDER_FAILED'' then (''ok'', ''failed'')
      else (''ok'', ''ok''))"

definition runtime_idle_failed :: "string \<Rightarrow> bool" where
  "runtime_idle_failed code \<longleftrightarrow> code = ''RUNTIME_BUSY'' \<or> code = ''RESET_IN_PROGRESS''"

definition runtime_idle_stage :: "string \<Rightarrow> bool \<Rightarrow> string \<Rightarrow> string" where
  "runtime_idle_stage status saved code =
     (if status \<noteq> ''failed'' \<or> saved then ''ok''
      else if runtime_idle_failed code then ''failed'' else ''not_started'')"

definition stage_status :: "bool \<Rightarrow> bool \<Rightarrow> string" where
  "stage_status done_ok failed = (if done_ok then ''ok'' else if failed then ''failed'' else ''not_started'')"

definition persist_draft_stage :: "string \<Rightarrow> bool \<Rightarrow> string \<Rightarrow> string" where
  "persist_draft_stage status saved code =
     (if status = ''failed'' \<and> \<not> saved \<and>
         (code = ''CONFIG_VALIDATION_FAILED'' \<or> code = ''CONFIG_RENDER_FAILED'' \<or> runtime_idle_failed code)
      then ''not_started'' else stage_status saved (status = ''failed''))"

definition runtime_apply_stage :: "bool \<Rightarrow> string \<Rightarrow> string" where
  "runtime_apply_stage reload runtime_apply =
     (if runtime_apply = ''not_started'' then ''not_started''
      else if reload then runtime_apply else ''not_requested'')"

definition verify_stage :: "string \<Rightarrow> string \<Rightarrow> reset_arg \<Rightarrow> string" where
  "verify_stage status runtime_apply report =
     (if report \<noteq> None then ''failed''
      else if status = ''failed'' \<or> status = ''saved_not_applied'' then ''not_started''
      else if runtime_apply = ''accepted'' then ''accepted''
      else if runtime_apply = ''skipped_runtime_stopped'' \<or> runtime_apply = ''not_requested'' then ''skipped''
      else ''ok'')"

definition commit_stage :: "string \<Rightarrow> string \<Rightarrow> bool \<Rightarrow> string" where
  "commit_stage status runtime_apply saved =
     (if \<not> saved \<or> status = ''failed'' \<or> status = ''saved_not_applied'' then ''not_started''
      else if runtime_apply = ''accepted'' then ''accepted'' else ''ok'')"

definition cleanup_stage :: "reset_arg \<Rightarrow> string" where
  "cleanup_stage report =
     (case report of None \<Rightarrow> ''skipped''
      | Some p \<Rightarrow> if reset_report_status p \<noteq> [] then reset_report_status p else ''failed'')"

definition rollback_status :: "bool \<Rightarrow> string \<Rightarrow> reset_arg \<Rightarrow> string" where
  "rollback_status saved status report =
     (case report of
        Some p \<Rightarrow> if reset_report_status p = ''ok'' then ''cleanup_succeeded'' else ''cleanup_incomplete''
      | None \<Rightarrow> if saved \<and> status = ''failed'' then ''unknown'' else ''not_needed'')"

text \<open>A map that lacks the name gives the empty status.\<close>

definition stages_in_order :: "string list \<Rightarrow> (string \<times> string) list \<Rightarrow> (string \<times> string) list" where
  "stages_in_order names statuses =
     map (\<lambda>name. (name, case map_of statuses name of
            None \<Rightarrow> ''not_started'' | Some s \<Rightarrow> if s = [] then ''not_started'' else s)) names"

definition mutation_stages ::
  "contract \<Rightarrow> string \<Rightarrow> string \<Rightarrow> bool \<Rightarrow> string \<Rightarrow> string \<Rightarrow> string \<Rightarrow> reset_arg
     \<Rightarrow> (string \<times> string) list" where
  "mutation_stages manifest operation_type status saved apply_stage runtime_apply code report =
     (let (validate, render) = validation_stage_statuses status saved code
      in stages_in_order (policy_stages manifest operation_type)
           [(''validate'', validate), (''render'', render),
            (''runtime-idle'', runtime_idle_stage status saved code),
            (''persist-draft'', persist_draft_stage status saved code),
            (''runtime-apply'', apply_stage),
            (''verify'', verify_stage status runtime_apply report),
            (''commit-generation'', commit_stage status runtime_apply saved),
            (''cleanup'', cleanup_stage report)])"

definition stages_reply :: "(string \<times> string) list \<Rightarrow> reply" where
  "stages_reply stages = RList (map (\<lambda>(name, s). RMap [(''name'', RStr name), (''status'', RStr s)]) stages)"

section \<open>Configuration mutations\<close>

definition runtime_apply_status :: "bool \<Rightarrow> bool \<Rightarrow> string" where
  "runtime_apply_status reload running =
     (if reload \<and> running then ''accepted'' else if reload then ''skipped_runtime_stopped'' else ''not_requested'')"

definition config_mutation_operation ::
  "contract \<Rightarrow> string \<Rightarrow> string \<Rightarrow> bool \<Rightarrow> bool \<Rightarrow> bool \<Rightarrow> string \<Rightarrow> int \<Rightarrow> string \<Rightarrow> string \<Rightarrow> reset_arg
     \<Rightarrow> reply_map" where
  "config_mutation_operation manifest action status saved reload applied runtime_apply updated code message report =
     (let stages = mutation_stages manifest ''config-mutation'' status saved
            (runtime_apply_stage reload runtime_apply) runtime_apply code report
      in put_if (message \<noteq> []) ''message'' (RStr message)
         (put_if (code \<noteq> []) ''code'' (RStr code)
         (put_if (0 \<le> updated) ''updated'' (RInt updated)
           [(''type'', RStr ''config-mutation''), (''action'', RStr action), (''status'', RStr status),
            (''configSaved'', RBool saved), (''runtimeApplied'', RBool applied),
            (''runtimeApply'', RStr runtime_apply), (''accepted'', RBool (runtime_apply = ''accepted'')),
            (''operationActive'', RBool (runtime_apply = ''accepted'')),
            (''rollback'', RStr (rollback_status saved status report)), (''stages'', stages_reply stages)])))"

definition attach_generations :: "reply_map \<Rightarrow> status \<Rightarrow> reply_map" where
  "attach_generations result st =
     (let applied = ap_generation (st_applied_state st);
          saved = (map_of result ''config_saved'' = Some (RBool True) \<or> map_of result ''configSaved'' = Some (RBool True));
          desired = (case st_active_operation st of
                       Some a \<Rightarrow> os_generation a
                     | None \<Rightarrow> if saved then applied + 1 else applied);
          both = (\<lambda>m. put ''appliedGeneration'' (RGen applied) (put ''desiredGeneration'' (RGen desired) m))
      in put_in ''operation'' both (both result))"

definition attach_status :: "(status \<times> bool) option \<Rightarrow> reply_map \<Rightarrow> reply_map" where
  "attach_status runtime_status result =
     (case runtime_status of
        Some (st, True) \<Rightarrow> put ''runtimeStatus'' (RStatus st) (attach_generations result st)
      | _ \<Rightarrow> result)"

definition mutation_success ::
  "contract \<Rightarrow> string \<Rightarrow> string \<Rightarrow> bool \<Rightarrow> bool \<Rightarrow> int \<Rightarrow> (status \<times> bool) option \<Rightarrow> reply_map" where
  "mutation_success manifest action status0 reload running updated runtime_status =
     (let runtime_apply = runtime_apply_status reload running;
          applied = (runtime_apply = ''applied''); accepted = (runtime_apply = ''accepted'');
          status = (if accepted then ''accepted'' else status0);
          operation = config_mutation_operation manifest action status True reload applied runtime_apply updated [] [] None
      in attach_status runtime_status
           (put_if (0 \<le> updated) ''updated'' (RInt updated)
             [(''ok'', RBool True), (''status'', RStr status), (''reload'', RBool reload),
              (''config_saved'', RBool True), (''runtime_applied'', RBool applied),
              (''runtime_apply'', RStr runtime_apply), (''accepted'', RBool accepted),
              (''operation_active'', RBool accepted), (''operation'', RMap operation)]))"

definition error_status :: "bool \<Rightarrow> string \<times> string" where
  "error_status saved = (if saved then (''saved_not_applied'', ''failed'') else (''failed'', ''not_started''))"

definition mutation_error_data ::
  "contract \<Rightarrow> string \<Rightarrow> go_error \<Rightarrow> bool \<Rightarrow> (status \<times> bool) option \<Rightarrow> reply_map" where
  "mutation_error_data manifest action err saved runtime_status =
     (let code = error_code_or err ''CONFIG_APPLY_FAILED''; report = Some (reset_report_from_error (Some err));
          (status, runtime_apply) = error_status saved; message = error_msg err;
          operation = config_mutation_operation manifest action status saved saved False runtime_apply (-1) code message report
      in attach_status runtime_status
           (put_if (report \<noteq> None) ''resetReport'' (RReset (the report))
             [(''ok'', RBool False), (''status'', RStr status), (''config_saved'', RBool saved),
              (''runtime_applied'', RBool False), (''message'', RStr message), (''code'', RStr code),
              (''runtime_apply'', RStr runtime_apply), (''operation'', RMap operation)]))"

text \<open>The classification of an error: the code and message of the reply, and its data with the busy details.\<close>

definition error_reply :: "go_error \<Rightarrow> reply_map \<Rightarrow> rpc_error" where
  "error_reply err data =
     (case errors_as busy_of err of
        Some b \<Rightarrow> \<lparr>rpc_Code = code_runtime_busy, rpc_Message = busy_error_msg b,
                   rpc_Data = Some (RMap (put ''busy'' (busy_data b) data))\<rparr>
      | None \<Rightarrow>
          \<lparr>rpc_Code = (if list_ex is_ConfigValidationError (error_chain err) then code_config_error
                       else code_internal_error),
           rpc_Message = error_msg err, rpc_Data = Some (RMap data)\<rparr>)"

definition mutation_rpc_error ::
  "contract \<Rightarrow> string \<Rightarrow> go_error \<Rightarrow> bool \<Rightarrow> (status \<times> bool) option \<Rightarrow> rpc_error" where
  "mutation_rpc_error manifest action err saved runtime_status =
     error_reply err (mutation_error_data manifest action err saved runtime_status)"

section \<open>Profile mutations\<close>

definition warnings_reply :: "profile_warning list \<Rightarrow> reply" where
  "warnings_reply ws = RList (map (\<lambda>w. RMap [(''code'', RStr (pw_Code w)), (''message'', RStr (pw_Message w))]) ws)"

text \<open>A value set both in the reply and in its operation.\<close>

definition put_both :: "bool \<Rightarrow> string \<Rightarrow> reply \<Rightarrow> reply_map \<Rightarrow> reply_map" where
  "put_both b k v m = (if b then put_in ''operation'' (put k v) (put k v m) else m)"

definition profile_operation ::
  "contract \<Rightarrow> string \<Rightarrow> string \<Rightarrow> bool \<Rightarrow> bool \<Rightarrow> string \<Rightarrow> int64 \<Rightarrow> int64 \<Rightarrow> string \<Rightarrow> string
     \<Rightarrow> reset_arg \<Rightarrow> profile_warning list \<Rightarrow> int \<Rightarrow> reply_map" where
  "profile_operation manifest action status saved applied runtime_apply desired_gen applied_gen code message report warnings updated =
     (let rollback = RStr (rollback_status saved status report);
          stages = stages_reply (mutation_stages manifest ''profile-apply'' status saved runtime_apply runtime_apply code report);
          items = warnings_reply warnings;
          operation = [(''type'', RStr ''profile-apply''), (''action'', RStr action), (''status'', RStr status),
            (''configSaved'', RBool saved), (''runtimeApplied'', RBool applied), (''runtimeApply'', RStr runtime_apply),
            (''desiredGeneration'', RGen desired_gen), (''appliedGeneration'', RGen applied_gen),
            (''rollback'', rollback), (''stages'', stages), (''warnings'', items)];
          result = [(''status'', RStr status), (''configSaved'', RBool saved), (''config_saved'', RBool saved),
            (''runtimeApplied'', RBool applied), (''runtime_applied'', RBool applied),
            (''runtimeApply'', RStr runtime_apply), (''runtime_apply'', RStr runtime_apply),
            (''desiredGeneration'', RGen desired_gen), (''appliedGeneration'', RGen applied_gen),
            (''rollback'', rollback), (''stages'', stages), (''warnings'', items), (''operation'', RMap operation)]
      in put_if (report \<noteq> None) ''resetReport'' (RReset (the report))
         (put_both (message \<noteq> []) ''message'' (RStr message)
         (put_both (code \<noteq> []) ''code'' (RStr code)
         (put_both (0 \<le> updated) ''updated'' (RInt updated) result))))"

definition profile_desired_generation :: "status \<Rightarrow> status \<Rightarrow> int64" where
  "profile_desired_generation st before =
     (case st_active_operation st of
        Some a \<Rightarrow> os_generation a
      | None \<Rightarrow>
          if sint (ap_generation (st_applied_state before)) < sint (ap_generation (st_applied_state st))
          then ap_generation (st_applied_state st)
          else ap_generation (st_applied_state before) + 1)"

definition profile_validation_rpc_error ::
  "contract \<Rightarrow> string \<Rightarrow> status \<Rightarrow> go_error \<Rightarrow> profile_warning list \<Rightarrow> int \<Rightarrow> rpc_error" where
  "profile_validation_rpc_error manifest action before err warnings updated =
     \<lparr>rpc_Code = code_config_error, rpc_Message = ''profile validation failed: '' @ error_msg err,
      rpc_Data = Some (RMap (profile_operation manifest action ''failed'' False False ''not_started''
        (profile_desired_generation before before) (ap_generation (st_applied_state before))
        ''CONFIG_VALIDATION_FAILED'' (error_msg err) None warnings updated))\<rparr>"

definition profile_rpc_error ::
  "contract \<Rightarrow> string \<Rightarrow> go_error \<Rightarrow> bool \<Rightarrow> status \<Rightarrow> status \<Rightarrow> profile_warning list \<Rightarrow> int \<Rightarrow> rpc_error" where
  "profile_rpc_error manifest action err saved st before warnings updated =
     (let (result_status, runtime_apply) = error_status saved
      in error_reply err
           (profile_operation manifest action result_status saved False runtime_apply
              (profile_desired_generation st before) (ap_generation (st_applied_state st))
              (error_code_or err ''PROFILE_APPLY_FAILED'') (error_msg err)
              (Some (reset_report_from_error (Some err))) warnings updated))"

definition profile_success ::
  "contract \<Rightarrow> string \<Rightarrow> bool \<Rightarrow> bool \<Rightarrow> status \<Rightarrow> status \<Rightarrow> profile_warning list \<Rightarrow> int \<Rightarrow> transaction_result
     \<Rightarrow> reply_map" where
  "profile_success manifest action reload running st before warnings updated mutation =
     (let runtime_apply = (if tr_RuntimeApply mutation \<noteq> [] then tr_RuntimeApply mutation
                           else runtime_apply_status reload running);
          applied = (runtime_apply = ''applied'');
          result_status = (if runtime_apply = ''skipped_runtime_stopped'' then ''saved'' else ''ok'')
      in put_both (tr_RequiresHotSwap mutation) ''requiresHotSwap'' (RBool True)
         (put_both (tr_RuntimeApplyReason mutation \<noteq> []) ''runtimeApplyReason'' (RStr (tr_RuntimeApplyReason mutation))
         (put_both (tr_RuntimeApplyMode mutation \<noteq> []) ''runtimeApplyMode'' (RStr (tr_RuntimeApplyMode mutation))
         (put ''runtimeStatus'' (RStatus st) (put ''ok'' (RBool True)
           (profile_operation manifest action result_status True applied runtime_apply
              (profile_desired_generation st before) (ap_generation (st_applied_state st)) [] [] None warnings updated))))))"

section \<open>Downloading an update\<close>

definition update_download_failed_stage :: "string \<Rightarrow> string" where
  "update_download_failed_stage code =
     (if code = ''UPDATE_CHECK_FAILED'' \<or> code = ''UPDATE_NOT_AVAILABLE'' then ''update-check''
      else if code = ''UPDATE_DOWNLOAD_FAILED'' then ''update-download''
      else if code = ''UPDATE_VERIFY_FAILED'' then ''update-verify''
      else ''persist-artifacts'')"

text \<open>The loop over the policy's stages up to the failed one.\<close>

fun mark_until_failed :: "string \<Rightarrow> string list \<Rightarrow> (string \<times> string) list \<Rightarrow> (string \<times> string) list" where
  "mark_until_failed failed [] statuses = statuses"
| "mark_until_failed failed (name # names) statuses =
     (if name = failed then AList.update name ''failed'' statuses
      else mark_until_failed failed names (AList.update name ''ok'' statuses))"

definition update_download_operation :: "contract \<Rightarrow> string \<Rightarrow> string \<Rightarrow> string \<Rightarrow> reply_map" where
  "update_download_operation manifest status code message =
     (let names = [''update-check'', ''update-download'', ''update-verify'', ''persist-artifacts''];
          policy = policy_stages manifest ''update-download'';
          statuses = (if status = ''failed''
                      then mark_until_failed (update_download_failed_stage code) policy
                             (map (\<lambda>n. (n, ''not_started'')) names)
                      else map (\<lambda>n. (n, ''ok'')) names)
      in put_if (message \<noteq> []) ''message'' (RStr message)
         (put_if (code \<noteq> []) ''code'' (RStr code)
           [(''type'', RStr ''update-download''), (''action'', RStr ''update-download''), (''status'', RStr status),
            (''stages'', stages_reply (stages_in_order policy statuses))]))"

end
