(* ===== verification/EnvelopeProperties.thy ===== *)
theory EnvelopeProperties
  imports MutationEnvelope
begin

text \<open>
  What the replies to a configuration import say of the transaction: the calls it makes, and the stages that the
  reply reports for each point at which it can stop.
\<close>

section \<open>A traced transaction\<close>

datatype tx_call = CallValidate | CallRender | CallIdle | CallSave | CallRunning | CallApply bool operation_kind

text \<open>The answers of the hooks; each call is recorded.\<close>

record tx_answers =
  an_validate :: "go_error option"
  an_render :: "go_error option"
  an_idle :: "go_error option"
  an_save :: "go_error option"
  an_running :: bool
  an_apply :: "go_error + config_apply_result"

definition traced_transaction :: "string \<Rightarrow> tx_answers \<Rightarrow> ('c, tx_call list) transaction" where
  "traced_transaction action a =
     \<lparr>ct_Action = action,
      ct_ValidateConfig = Some (\<lambda>c w. (an_validate a, w @ [CallValidate])),
      ct_CheckRuntimeProjection = Some (\<lambda>c w. (an_render a, w @ [CallRender])),
      ct_EnsureIdle = Some (\<lambda>w. (an_idle a, w @ [CallIdle])),
      ct_SaveProfile = Some (\<lambda>c w. (an_save a, w @ [CallSave])),
      ct_ApplyConfig = None,
      ct_ApplyConfigWithResult = Some (\<lambda>c reload k w. (an_apply a, w @ [CallApply reload k])),
      ct_RuntimeRunning = Some (\<lambda>w. (an_running a, w @ [CallRunning]))\<rparr>"

text \<open>The stages that a reply reports.\<close>

definition reply_items :: "reply option \<Rightarrow> reply list" where
  "reply_items r = (case r of Some (RList xs) \<Rightarrow> xs | _ \<Rightarrow> [])"

definition reply_fields :: "reply option \<Rightarrow> reply_map" where
  "reply_fields r = (case r of Some (RMap m) \<Rightarrow> m | _ \<Rightarrow> [])"

definition reported_operation :: "rpc_error \<Rightarrow> reply_map" where
  "reported_operation e = reply_fields (map_of (reply_fields (rpc_Data e)) ''operation'')"

definition reported_stages :: "rpc_error \<Rightarrow> reply list" where
  "reported_stages e =
     map (\<lambda>s. the (map_of (reply_fields (Some s)) ''status'')) (reply_items (map_of (reported_operation e) ''stages''))"

definition mutation_stage_names :: "string list" where
  "mutation_stage_names = [''validate'', ''render'', ''runtime-idle'', ''persist-draft'', ''runtime-apply'',
     ''verify'', ''commit-generation'', ''cleanup'']"

lemma map_of_put [simp]: "map_of (put k v m) k' = (if k' = k then Some v else map_of m k')"
  by (simp add: put_def update_conv')

lemma map_of_put_if [simp]: "map_of (put_if b k v m) k' = (if b \<and> k' = k then Some v else map_of m k')"
  by (simp add: put_if_def)

lemma map_of_put_in [simp]:
  "map_of (put_in k f m) k' = (if k' = k then map_option (\<lambda>r. case r of RMap i \<Rightarrow> RMap (f i) | _ \<Rightarrow> r) (map_of m k) else map_of m k')"
  by (auto simp: put_in_def split: option.split reply.split)

text \<open>The error data: its operation has the stages of the mutation, whatever status is attached.\<close>

lemma attach_generations_operation:
  "map_of m ''operation'' = Some (RMap i) \<Longrightarrow>
     \<exists>j. map_of (attach_generations m st) ''operation'' = Some (RMap j) \<and> map_of j ''stages'' = map_of i ''stages'' \<and>
         map_of j ''rollback'' = map_of i ''rollback''"
  by (simp add: attach_generations_def Let_def)

lemma attach_status_operation:
  assumes "map_of m ''operation'' = Some (RMap i)"
  shows "\<exists>j. map_of (attach_status st m) ''operation'' = Some (RMap j) \<and> map_of j ''stages'' = map_of i ''stages'' \<and>
         map_of j ''rollback'' = map_of i ''rollback''"
proof (cases "\<exists>x. st = Some (x, True)")
  case True
  with attach_generations_operation [OF assms] show ?thesis by (auto simp: attach_status_def)
next
  case False
  with assms show ?thesis by (auto simp: attach_status_def split: option.split bool.split)
qed

lemma operation_of_error_data:
  "\<exists>j. map_of (mutation_error_data manifest action err saved st) ''operation'' = Some (RMap j) \<and>
     map_of j ''stages'' = Some (stages_reply (mutation_stages manifest ''config-mutation'' (fst (error_status saved)) saved
       (runtime_apply_stage saved (snd (error_status saved))) (snd (error_status saved))
       (error_code_or err ''CONFIG_APPLY_FAILED'') (Some (reset_report_from_error (Some err))))) \<and>
     map_of j ''rollback'' = Some (RStr (rollback_status saved (fst (error_status saved))
       (Some (reset_report_from_error (Some err)))))"
proof -
  let ?op = "config_mutation_operation manifest action (fst (error_status saved)) saved saved False
      (snd (error_status saved)) (-1) (error_code_or err ''CONFIG_APPLY_FAILED'') (error_msg err)
      (Some (reset_report_from_error (Some err)))"
  have op: "map_of ?op ''stages'' = Some (stages_reply (mutation_stages manifest ''config-mutation'' (fst (error_status saved)) saved
       (runtime_apply_stage saved (snd (error_status saved))) (snd (error_status saved))
       (error_code_or err ''CONFIG_APPLY_FAILED'') (Some (reset_report_from_error (Some err)))))"
    "map_of ?op ''rollback'' = Some (RStr (rollback_status saved (fst (error_status saved))
       (Some (reset_report_from_error (Some err)))))"
    by (simp_all add: config_mutation_operation_def Let_def)
  obtain m where "mutation_error_data manifest action err saved st = attach_status st m"
    "map_of m ''operation'' = Some (RMap ?op)"
    by (simp add: mutation_error_data_def Let_def split_beta)
  with attach_status_operation [of m ?op st] show ?thesis by (simp add: op)
qed

lemma stages_reply_statuses:
  "map (\<lambda>s. the (map_of (reply_fields (Some s)) ''status'')) (reply_items (Some (stages_reply stages))) = map (RStr \<circ> snd) stages"
  by (simp add: stages_reply_def reply_items_def reply_fields_def split_beta comp_def)

lemma reported_error:
  "reported_stages (mutation_rpc_error manifest action err saved st) =
     map (RStr \<circ> snd) (mutation_stages manifest ''config-mutation'' (fst (error_status saved)) saved
       (runtime_apply_stage saved (snd (error_status saved))) (snd (error_status saved))
       (error_code_or err ''CONFIG_APPLY_FAILED'') (Some (reset_report_from_error (Some err))))"
  "map_of (reported_operation (mutation_rpc_error manifest action err saved st)) ''rollback'' =
     Some (RStr (rollback_status saved (fst (error_status saved)) (Some (reset_report_from_error (Some err)))))"
proof -
  have "reported_operation (mutation_rpc_error manifest action err saved st) =
      reply_fields (map_of (mutation_error_data manifest action err saved st) ''operation'')"
    by (simp add: reported_operation_def mutation_rpc_error_def error_reply_def reply_fields_def split: option.split)
  with operation_of_error_data [of manifest action err saved st] obtain j where
    "reported_operation (mutation_rpc_error manifest action err saved st) = j"
    "map_of j ''stages'' = Some (stages_reply (mutation_stages manifest ''config-mutation'' (fst (error_status saved)) saved
       (runtime_apply_stage saved (snd (error_status saved))) (snd (error_status saved))
       (error_code_or err ''CONFIG_APPLY_FAILED'') (Some (reset_report_from_error (Some err)))))"
    "map_of j ''rollback'' = Some (RStr (rollback_status saved (fst (error_status saved))
       (Some (reset_report_from_error (Some err)))))"
    by (auto simp: reply_fields_def)
  then show "reported_stages (mutation_rpc_error manifest action err saved st) =
     map (RStr \<circ> snd) (mutation_stages manifest ''config-mutation'' (fst (error_status saved)) saved
       (runtime_apply_stage saved (snd (error_status saved))) (snd (error_status saved))
       (error_code_or err ''CONFIG_APPLY_FAILED'') (Some (reset_report_from_error (Some err))))"
    "map_of (reported_operation (mutation_rpc_error manifest action err saved st)) ''rollback'' =
     Some (RStr (rollback_status saved (fst (error_status saved)) (Some (reset_report_from_error (Some err)))))"
    by (simp_all only: reported_stages_def stages_reply_statuses)
qed

lemma mutation_stages_by_name:
  assumes "policy_stages manifest operation_type = mutation_stage_names"
  shows "map snd (mutation_stages manifest operation_type status saved apply_stage runtime_apply code report) =
    map (\<lambda>s. if s = [] then ''not_started'' else s)
      [fst (validation_stage_statuses status saved code), snd (validation_stage_statuses status saved code),
       runtime_idle_stage status saved code, persist_draft_stage status saved code, apply_stage,
       verify_stage status runtime_apply report, commit_stage status runtime_apply saved, cleanup_stage report]"
  by (simp add: mutation_stages_def stages_in_order_def assms mutation_stage_names_def split_beta)

section \<open>Where the transaction stops\<close>

text \<open>The number of calls made before a failure, and the first five stages that the reply should name.\<close>

definition failing_report :: "tx_answers \<Rightarrow> (nat \<times> string list) option" where
  "failing_report a =
     (if an_validate a \<noteq> None
      then Some (1, [''failed'', ''not_started'', ''not_started'', ''not_started'', ''not_started''])
      else if an_render a \<noteq> None
      then Some (2, [''ok'', ''failed'', ''not_started'', ''not_started'', ''not_started''])
      else if an_idle a \<noteq> None
      then Some (3, [''ok'', ''ok'', ''failed'', ''not_started'', ''not_started''])
      else if an_save a \<noteq> None
      then Some (4, [''ok'', ''ok'', ''not_started'', ''failed'', ''not_started''])
      else (case an_apply a of
              Inl e \<Rightarrow> Some (6, [''ok'', ''ok'', ''ok'', ''ok'', ''failed''])
            | Inr r \<Rightarrow> None))"

definition plain_answers :: "tx_answers \<Rightarrow> bool" where
  "plain_answers a \<longleftrightarrow>
     (case an_idle a of None \<Rightarrow> True | Some e \<Rightarrow> runtime_idle_failed (error_code_or e ''CONFIG_APPLY_FAILED'')) \<and>
     (case an_save a of None \<Rightarrow> True | Some e \<Rightarrow> error_code_or e ''CONFIG_APPLY_FAILED'' = ''CONFIG_APPLY_FAILED'')"

lemma validation_code:
  "error_code_or (ConfigValidationError ''validate'' (Some e)) fb = ''CONFIG_VALIDATION_FAILED''"
  "error_code_or (ConfigValidationError ''render'' (Some e)) fb = ''CONFIG_RENDER_FAILED''"
proof -
  have "trim_space ''CONFIG_VALIDATION_FAILED'' = ''CONFIG_VALIDATION_FAILED''"
    "trim_space ''CONFIG_RENDER_FAILED'' = ''CONFIG_RENDER_FAILED''" by code_simp+
  then show "error_code_or (ConfigValidationError ''validate'' (Some e)) fb = ''CONFIG_VALIDATION_FAILED''"
    "error_code_or (ConfigValidationError ''render'' (Some e)) fb = ''CONFIG_RENDER_FAILED''"
    by (simp_all add: error_code_or_def errors_as_unfold config_validation_code_def Let_def)
qed

definition saved_result :: "string \<Rightarrow> operation_kind \<Rightarrow> bool \<Rightarrow> bool \<Rightarrow> transaction_result" where
  "saved_result action k saved running =
     empty_transaction_result\<lparr>tr_Action := action, tr_RuntimeOperation := k, tr_ConfigSaved := saved,
       tr_RuntimeWasRunning := running\<rparr>"

text \<open>The run of the traced transaction.\<close>

lemma run_traced:
  assumes "runtime_operation_for_action manifest action = Some k"
  shows "run_transaction manifest (traced_transaction action a) (Some cfg) reload [] =
    (case an_validate a of
       Some e \<Rightarrow> ((saved_result action k False False, Some (ConfigValidationError ''validate'' (Some e))), [CallValidate])
     | None \<Rightarrow>
    (case an_render a of
       Some e \<Rightarrow> ((saved_result action k False False, Some (ConfigValidationError ''render'' (Some e))), [CallValidate, CallRender])
     | None \<Rightarrow>
    (case an_idle a of
       Some e \<Rightarrow> ((saved_result action k False False, Some e), [CallValidate, CallRender, CallIdle])
     | None \<Rightarrow>
    (case an_save a of
       Some e \<Rightarrow> ((saved_result action k False False, Some (WrapError ''persist profile: '' e)),
                 [CallValidate, CallRender, CallIdle, CallSave])
     | None \<Rightarrow>
    (case an_apply a of
       Inl e \<Rightarrow> ((saved_result action k True (an_running a), Some e),
                 [CallValidate, CallRender, CallIdle, CallSave, CallRunning, CallApply reload k])
     | Inr r \<Rightarrow> ((with_apply_result r (saved_result action k True (an_running a)), None),
                 [CallValidate, CallRender, CallIdle, CallSave, CallRunning, CallApply reload k]))))))"
proof -
  have "action \<noteq> []"
    using assms by (auto simp: runtime_operation_for_action_def method_operation_type_def)
  with assms show ?thesis
    by (simp add: run_transaction_def traced_transaction_def optional_hook_def save_and_apply_def apply_saved_def
        saved_result_def empty_transaction_result_def Let_def split: option.split sum.split)
qed

lemma reported_names:
  assumes "policy_stages manifest ''config-mutation'' = mutation_stage_names"
  shows "reported_stages (mutation_rpc_error manifest action err saved st) =
     map RStr (map (\<lambda>s. if s = [] then ''not_started'' else s)
       (let code = error_code_or err ''CONFIG_APPLY_FAILED''; report = Some (reset_report_from_error (Some err));
            status = fst (error_status saved); runtime_apply = snd (error_status saved)
        in [fst (validation_stage_statuses status saved code), snd (validation_stage_statuses status saved code),
            runtime_idle_stage status saved code, persist_draft_stage status saved code,
            runtime_apply_stage saved runtime_apply, verify_stage status runtime_apply report,
            commit_stage status runtime_apply saved, cleanup_stage report]))"
  unfolding reported_error(1) map_map [symmetric] mutation_stages_by_name [OF assms] Let_def ..

lemmas stage_defs = error_status_def validation_stage_statuses_def runtime_idle_stage_def persist_draft_stage_def
  runtime_apply_stage_def stage_status_def

lemma reported_unsaved:
  assumes "policy_stages manifest ''config-mutation'' = mutation_stage_names"
    and "error_code_or err ''CONFIG_APPLY_FAILED'' = code"
  shows "take 5 (reported_stages (mutation_rpc_error manifest action err False st)) = map RStr
     (if code = ''CONFIG_VALIDATION_FAILED'' then [''failed'', ''not_started'', ''not_started'', ''not_started'', ''not_started'']
      else if code = ''CONFIG_RENDER_FAILED'' then [''ok'', ''failed'', ''not_started'', ''not_started'', ''not_started'']
      else if runtime_idle_failed code then [''ok'', ''ok'', ''failed'', ''not_started'', ''not_started'']
      else [''ok'', ''ok'', ''not_started'', ''failed'', ''not_started''])"
  unfolding reported_names [OF assms(1)] assms(2) by (simp add: stage_defs Let_def runtime_idle_failed_def)

lemma reported_saved:
  assumes "policy_stages manifest ''config-mutation'' = mutation_stage_names"
  shows "take 5 (reported_stages (mutation_rpc_error manifest action err True st)) =
     map RStr [''ok'', ''ok'', ''ok'', ''ok'', ''failed'']"
  unfolding reported_names [OF assms] by (simp add: stage_defs Let_def)

lemma idle_codes: "runtime_idle_failed code \<Longrightarrow> code \<noteq> ''CONFIG_VALIDATION_FAILED'' \<and> code \<noteq> ''CONFIG_RENDER_FAILED''"
  by (auto simp: runtime_idle_failed_def)

text \<open>
  C28.  A configuration import calls its hooks in the order validate, render, idle check, save, running, apply and
  stops at the first failure, so the profile is written only after the three checks passed; it says that the
  configuration was saved exactly when it was; and the first five stages of the error reply name the stage that
  failed and no other.
\<close>

theorem failing_step_reported:
  assumes policy: "policy_stages manifest ''config-mutation'' = mutation_stage_names"
    and known: "runtime_operation_for_action manifest action = Some k" and plain: "plain_answers a"
    and run: "run_transaction manifest (traced_transaction action a) (Some cfg) reload [] = ((r, err), calls)"
  shows "(case failing_report a of
            None \<Rightarrow> err = None \<and> length calls = 6
          | Some (n, stages) \<Rightarrow>
              \<exists>e. err = Some e \<and> length calls = n \<and>
                take 5 (reported_stages (mutation_rpc_error manifest action e (tr_ConfigSaved r) st)) = map RStr stages) \<and>
         calls = take (length calls) [CallValidate, CallRender, CallIdle, CallSave, CallRunning, CallApply reload k] \<and>
         tr_ConfigSaved r = (CallRunning \<in> set calls)"
proof -
  note out = run [unfolded run_traced [OF known]]
  have unsaved: "tr_ConfigSaved (saved_result action k b w) = b" for b w by (simp add: saved_result_def)
  have applied: "tr_ConfigSaved (with_apply_result x (saved_result action k b w)) = b" for x b w
    by (simp add: saved_result_def with_apply_result_def)
  note shown = reported_unsaved [OF policy refl] reported_saved [OF policy] validation_code unsaved applied
  show ?thesis
  proof (cases "an_validate a")
    case (Some e)
    with out show ?thesis by (auto simp: failing_report_def shown)
  next
    case None
    note validated = this
    show ?thesis
    proof (cases "an_render a")
      case (Some e)
      with validated out show ?thesis by (auto simp: failing_report_def shown)
    next
      case None
      note rendered = this
      show ?thesis
      proof (cases "an_idle a")
        case (Some e)
        with plain have "runtime_idle_failed (error_code_or e ''CONFIG_APPLY_FAILED'')" by (simp add: plain_answers_def)
        moreover from validated rendered Some out
        have "err = Some e" "r = saved_result action k False False" "calls = [CallValidate, CallRender, CallIdle]"
          by simp_all
        ultimately show ?thesis using validated rendered Some idle_codes
          by (simp add: failing_report_def shown)
      next
        case None
        with validated rendered out plain show ?thesis
          by (cases "an_save a"; cases "an_apply a")
            (auto simp: failing_report_def shown plain_answers_def runtime_idle_failed_def)
      qed
    qed
  qed
qed

definition demo_contract :: contract where
  "demo_contract = \<lparr>co_Version = 1, co_ErrorCodes = [], co_CompatibilityPolicies = [], co_RequestExamples = [],
     co_OperationPolicies = [(''config-mutation'', \<lparr>ip_Stages = mutation_stage_names, ip_ErrorCodes = []\<rparr>)],
     co_Capabilities = [], co_APKRequiredMethods = [],
     co_Methods = [\<lparr>mt_Method = ''config-import'', mt_Capability = [], mt_Mutating = True, mt_Async = False,
       mt_Request = [], mt_Result = [], mt_ErrorCodes = [],
       mt_Operation = Some \<lparr>oc_Type = ''config-mutation'', oc_AsyncResultVia = [], oc_Stages = []\<rparr>,
       mt_Compatibility = []\<rparr>]\<rparr>"

definition demo_full_disk :: tx_answers where
  "demo_full_disk = \<lparr>an_validate = None, an_render = None, an_idle = None, an_save = Some (ErrorString ''disk full''),
     an_running = True, an_apply = Inl (ErrorString ''x'')\<rparr>"

lemma demo_contract_facts:
  "policy_stages demo_contract ''config-mutation'' = mutation_stage_names"
  "runtime_operation_for_action demo_contract ''config-import'' = Some OperationConfigMutation"
  by (simp_all add: policy_stages_def operation_policy_for_type_def demo_contract_def runtime_operation_for_action_def
      method_operation_type_def runtime_operation_for_type_def)

theorem failing_step_reported_witness:
  "snd (run_transaction demo_contract (traced_transaction ''config-import'' demo_full_disk) (Some ()) True []) =
     [CallValidate, CallRender, CallIdle, CallSave] \<and>
   take 5 (reported_stages (mutation_rpc_error demo_contract ''config-import''
     (WrapError ''persist profile: '' (ErrorString ''disk full'')) False None)) =
     [RStr ''ok'', RStr ''ok'', RStr ''not_started'', RStr ''failed'', RStr ''not_started'']"
proof -
  have plain: "plain_answers demo_full_disk"
    by (simp add: plain_answers_def demo_full_disk_def error_code_or_def errors_as_unfold Let_def)
  note run = run_traced [OF demo_contract_facts(2), of demo_full_disk "()" True]
  from failing_step_reported [OF demo_contract_facts plain run [unfolded demo_full_disk_def, simplified, folded demo_full_disk_def], of None]
  show ?thesis using run
    by (simp add: demo_full_disk_def failing_report_def saved_result_def empty_transaction_result_def)
qed

section \<open>The clean-up that was not done\<close>

text \<open>
  C29.  Every error without a reset report, whatever its cause and whether or not anything was saved or touched,
  is reported to the panel with a failed verification, a failed clean-up and an incomplete roll-back: the nil
  pointer of the missing report is not the nil interface that the stages test for.
\<close>

theorem failure_claims_cleanup:
  assumes "policy_stages manifest ''config-mutation'' = mutation_stage_names"
    and "reset_report_from_error (Some err) = None"
  shows "drop 5 (reported_stages (mutation_rpc_error manifest action err saved st)) =
           map RStr [''failed'', ''not_started'', ''failed''] \<and>
         map_of (reported_operation (mutation_rpc_error manifest action err saved st)) ''rollback'' =
           Some (RStr ''cleanup_incomplete'')"
  unfolding reported_names [OF assms(1)] reported_error(2) assms(2)
  by (cases saved) (simp_all add: error_status_def verify_stage_def commit_stage_def cleanup_stage_def
      reset_report_status_def rollback_status_def Let_def)

theorem failure_claims_cleanup_witness:
  "drop 5 (reported_stages (mutation_rpc_error demo_contract ''config-import''
     (ConfigValidationError ''validate'' (Some (ErrorString ''x''))) False None)) =
   [RStr ''failed'', RStr ''not_started'', RStr ''failed'']"
  using failure_claims_cleanup [OF demo_contract_facts(1), of "ConfigValidationError ''validate'' (Some (ErrorString ''x''))"]
  by (simp add: reset_report_from_error_def errors_as_unfold)

end
