(* ===== verification/Json.thy ===== *)
theory Json
  imports IpAddress
begin

text \<open>
  Decoded JSON values as \<^verbatim>\<open>encoding/json\<close> gives them to the renderer, and the accessors at the end of
  \<^verbatim>\<open>config/renderer.go\<close>.  A number is a 64-bit float in Go; the code only ever converts it to an
  \<^verbatim>\<open>int\<close>, so \<^verbatim>\<open>JInt\<close> carries that integer.  A map has each key once; the empty map stands for the nil map
  as well, which the accessors cannot tell apart.
\<close>

datatype json =
    JNull
  | JBool bool
  | JInt int
  | JStr string
  | JList "json list"
  | JObj "(string \<times> json) list"

type_synonym json_map = "(string \<times> json) list"

definition json_field :: "json_map \<Rightarrow> string \<Rightarrow> json" where
  "json_field m key = (case map_of m key of None \<Rightarrow> JNull | Some v \<Rightarrow> v)"

text \<open>Fields that are set under a condition, and lists of strings.\<close>

definition jwhen :: "bool \<Rightarrow> json_map \<Rightarrow> json_map" where
  "jwhen b fields = (if b then fields else [])"

definition jstrs :: "string list \<Rightarrow> json" where
  "jstrs xs = JList (map JStr xs)"

definition jtext :: "string \<Rightarrow> string \<Rightarrow> json_map" where
  "jtext key v = jwhen (v \<noteq> []) [(key, JStr v)]"

section \<open>Reading values\<close>

definition parse_bool :: "string \<Rightarrow> bool" where
  "parse_bool s = (to_lower (trim_space s) \<in> {''1'', ''true'', ''yes'', ''on''})"

definition map_from_map :: "json_map \<Rightarrow> string \<Rightarrow> json_map" where
  "map_from_map m key = (case json_field m key of JObj fields \<Rightarrow> fields | _ \<Rightarrow> [])"

definition first_map_from_array :: "json_map \<Rightarrow> string \<Rightarrow> json_map" where
  "first_map_from_array m key =
     (case json_field m key of
        JList (v # _) \<Rightarrow> (case v of JObj fields \<Rightarrow> fields | _ \<Rightarrow> [])
      | _ \<Rightarrow> [])"

definition json_string_from_map :: "json_map \<Rightarrow> string \<Rightarrow> string" where
  "json_string_from_map m key =
     (case json_field m key of JStr s \<Rightarrow> s | JInt i \<Rightarrow> int_str i | _ \<Rightarrow> [])"

definition int_from_map :: "json_map \<Rightarrow> string \<Rightarrow> int" where
  "int_from_map m key =
     (case json_field m key of JInt i \<Rightarrow> i | JStr s \<Rightarrow> fst (atoi s) | _ \<Rightarrow> 0)"

definition bool_from_map :: "json_map \<Rightarrow> string \<Rightarrow> bool" where
  "bool_from_map m key =
     (case json_field m key of JBool b \<Rightarrow> b | JStr s \<Rightarrow> parse_bool s | _ \<Rightarrow> False)"

definition slice_string :: "json \<Rightarrow> string list" where
  "slice_string v = (case v of JStr s \<Rightarrow> if s \<noteq> [] then [s] else [] | _ \<Rightarrow> [])"

definition string_slice_from_map :: "json_map \<Rightarrow> string \<Rightarrow> string list" where
  "string_slice_from_map m key =
     (case json_field m key of
        JList values \<Rightarrow> concat (map slice_string values)
      | _ \<Rightarrow> (let s = json_string_from_map m key in if s \<noteq> [] then [s] else []))"

definition slice_int :: "json \<Rightarrow> int list" where
  "slice_int v =
     (case v of
        JInt i \<Rightarrow> [i]
      | JStr s \<Rightarrow> (let (i, ok) = atoi (trim_space s) in if ok then [i] else [])
      | _ \<Rightarrow> [])"

definition int_slice_from_map :: "json_map \<Rightarrow> string \<Rightarrow> int list" where
  "int_slice_from_map m key =
     (case json_field m key of
        JList values \<Rightarrow> concat (map slice_int values)
      | _ \<Rightarrow> (let i = int_from_map m key in if i \<noteq> 0 then [i] else []))"

definition copy_string_extra :: "json_map \<Rightarrow> string \<Rightarrow> env \<Rightarrow> env" where
  "copy_string_extra m key extra =
     (let v = json_string_from_map m key in if v \<noteq> [] then extra(key \<mapsto> v) else extra)"

definition value_or_default :: "string \<Rightarrow> string \<Rightarrow> string" where
  "value_or_default v fallback = (if v \<noteq> [] then v else fallback)"

text \<open>The trimmed, non-empty parts between commas.\<close>

definition split_csv :: "string \<Rightarrow> string list" where
  "split_csv s = filter (\<lambda>x. x \<noteq> []) (map trim_space (split_char (CHR '','') s))"

section \<open>Hosts and ports\<close>

text \<open>\<^verbatim>\<open>net.SplitHostPort\<close>; \<^verbatim>\<open>None\<close> for every error.\<close>

definition split_host_port :: "string \<Rightarrow> (string \<times> string) option" where
  "split_host_port s =
     (case split_last (CHR '':'') s of
        None \<Rightarrow> None
      | Some (before, port) \<Rightarrow>
          if hd s = CHR ''[''
          then (let inner = takeWhile (\<lambda>c. c \<noteq> CHR '']'') (tl s)
                in if CHR '']'' \<in> set s \<and> Suc (Suc (length inner)) = length before \<and>
                      CHR ''['' \<notin> set (tl s) \<and> CHR '']'' \<notin> set (drop (Suc (Suc (length inner))) s)
                   then Some (inner, port) else None)
          else if CHR '':'' \<in> set before \<or> CHR ''['' \<in> set s \<or> CHR '']'' \<in> set s then None
          else Some (before, port))"

text \<open>
  What the code reads of \<^verbatim>\<open>net/url\<close>: the parsed fields, with \<^verbatim>\<open>Get\<close> of the query; of the
  user information its name, its password and its escaped text; \<^verbatim>\<open>Hostname\<close> and \<^verbatim>\<open>Port\<close> split the host at its last colon when digits follow it.
\<close>

record url_user =
  uu_Name :: string
  uu_Password :: "string option"
  uu_Text :: string

record parsed_url =
  pu_Scheme :: string
  pu_Host :: string
  pu_Path :: string
  pu_User :: "url_user option"
  pu_Query :: env
  pu_Fragment :: string

definition url_split :: "string \<Rightarrow> string \<times> string" where
  "url_split host =
     (case split_last (CHR '':'') host of
        Some (before, port) \<Rightarrow> if list_all is_digit port then (before, port) else (host, [])
      | None \<Rightarrow> (host, []))"

definition url_hostname :: "parsed_url \<Rightarrow> string" where
  "url_hostname u =
     (let host = fst (url_split (pu_Host u))
      in if has_prefix host ''['' \<and> has_suffix host '']'' then butlast (tl host) else host)"

definition url_port :: "parsed_url \<Rightarrow> string" where
  "url_port u = snd (url_split (pu_Host u))"

definition query_get :: "parsed_url \<Rightarrow> string \<Rightarrow> string" where
  "query_get u key = env_get (pu_Query u) key"

definition first_query_value :: "parsed_url \<Rightarrow> string list \<Rightarrow> string" where
  "first_query_value u keys = first_non_empty (map (query_get u) keys)"

section \<open>Printed addresses\<close>

text \<open>
  \<^verbatim>\<open>IP.String\<close>: a dotted quad, or hexadecimal groups with the first of the longest runs of at least two
  zero groups as an ellipsis.
\<close>

definition zero_run :: "nat list \<Rightarrow> nat \<Rightarrow> nat" where
  "zero_run ip i = length (takeWhile (\<lambda>g. g = 0) (drop i ip))"

definition longest_zero_run :: "nat list \<Rightarrow> (nat \<times> nat) option" where
  "longest_zero_run ip =
     (let best = Max (set (map (zero_run ip) [0..<length ip]))
      in if best < 2 then None
         else map_option (\<lambda>i. (i, best)) (find (\<lambda>i. zero_run ip i = best) [0..<length ip]))"

definition ip_string :: "nat list \<Rightarrow> string" where
  "ip_string ip =
     (if is_mapped_v4 ip
      then str_join ''.'' (map nat_str [ip ! 6 div 256, ip ! 6 mod 256, ip ! 7 div 256, ip ! 7 mod 256])
      else (case longest_zero_run ip of
              None \<Rightarrow> str_join '':'' (map nat_hex ip)
            | Some (i, n) \<Rightarrow> str_join '':'' (map nat_hex (take i ip)) @ ''::'' @
                             str_join '':'' (map nat_hex (drop (i + n) ip))))"

end
