(* ===== verification/StoredNode.thy ===== *)
theory StoredNode
  imports Json Config
begin

text \<open>
  How the renderer reads a stored profile node, \<^verbatim>\<open>profileFromStoredNode\<close> of
  \<^verbatim>\<open>config/renderer.go\<close>: the fields of the node, its Xray outbound with the settings of each protocol and
  the stream settings, and the share link as a fallback.  What the standard library decodes for the renderer (JSON
  text and URLs) is collected in \<^verbatim>\<open>render_env\<close>, with the embedded list of direct networks.
\<close>

record stored_node =
  sd_ID :: string
  sd_Name :: string
  sd_Group :: string
  sd_Protocol :: string
  sd_Server :: string
  sd_Port :: int
  sd_Link :: string
  sd_Outbound :: string
  sd_OwnerPackage :: string
  sd_Stale :: bool

record render_env =
  re_stored :: "string \<Rightarrow> go_error + stored_node"
  re_object :: "string \<Rightarrow> json_map"
  re_url :: "string \<Rightarrow> parsed_url option"
  re_direct_cidrs :: string

section \<open>Protocols and tags\<close>

text \<open>\<^verbatim>\<open>normalizeProtocol\<close> of the package \<^verbatim>\<open>config\<close>, which does not trim.\<close>

definition stored_protocol :: "string \<Rightarrow> string" where
  "stored_protocol v =
     (let p = to_lower v
      in if p \<in> {''ss'', ''shadowsocks''} then ''shadowsocks''
         else if p \<in> {''socks'', ''socks4'', ''socks4a'', ''socks5''} then ''socks''
         else if p \<in> {''hy2'', ''hysteria2''} then ''hysteria2''
         else if p \<in> {''wg'', ''wireguard''} then ''wireguard'' else p)"

text \<open>Every run of other characters becomes one dash.\<close>

definition tag_char :: "char \<Rightarrow> bool" where
  "tag_char c \<longleftrightarrow> (97 \<le> byte c \<and> byte c \<le> 122) \<or> is_digit c \<or> c = CHR ''_'' \<or> c = CHR ''-''"

fun dash_runs :: "bool \<Rightarrow> string \<Rightarrow> string" where
  "dash_runs dashed [] = []"
| "dash_runs dashed (c # s) =
     (if tag_char c then c # dash_runs False s
      else if dashed then dash_runs True s else CHR ''-'' # dash_runs True s)"

definition tag_text :: "string \<Rightarrow> string" where
  "tag_text s = trim_set ''-'' (dash_runs False (to_lower s))"

definition sanitize_outbound_tag_suffix :: "string \<Rightarrow> string" where
  "sanitize_outbound_tag_suffix v = tag_text (trim_space v)"

definition profile_outbound_tag :: "stored_node \<Rightarrow> nat \<Rightarrow> string" where
  "profile_outbound_tag node i =
     (let numbered = ''node-'' @ nat_str (i + 1);
          base = tag_text (first_non_empty [sd_ID node, sd_Name node, numbered])
      in ''node-'' @ (if base = [] then numbered else base))"

section \<open>Stream settings\<close>

definition put_extra :: "string \<Rightarrow> string \<Rightarrow> node_profile \<Rightarrow> node_profile" where
  "put_extra key v p = p\<lparr>np_Extra := (np_Extra p)(key \<mapsto> v)\<rparr>"

definition apply_tls_settings :: "json_map \<Rightarrow> node_profile \<Rightarrow> node_profile" where
  "apply_tls_settings tls p =
     (let p1 = p\<lparr>np_TLSServer := first_non_empty [json_string_from_map tls ''serverName'', json_string_from_map tls ''server_name''],
                 np_Fingerprint := first_non_empty [json_string_from_map tls ''fingerprint'', np_Fingerprint p]\<rparr>;
          alpn = string_slice_from_map tls ''alpn'';
          p2 = (if alpn \<noteq> [] then put_extra ''alpn'' (str_join '','' alpn) p1 else p1)
      in if bool_from_map tls ''allowInsecure'' then put_extra ''insecure'' ''true'' p2 else p2)"

definition apply_reality_settings :: "json_map \<Rightarrow> node_profile \<Rightarrow> node_profile" where
  "apply_reality_settings reality p =
     (let p1 = (apply_tls_settings reality p)\<lparr>np_RealityPubKey := json_string_from_map reality ''publicKey'',
                 np_RealityShortID := json_string_from_map reality ''shortId''\<rparr>
      in put_extra ''short_id'' (np_RealityShortID p1) (put_extra ''public_key'' (np_RealityPubKey p1) p1))"

definition apply_network_settings :: "string \<Rightarrow> json_map \<Rightarrow> node_profile \<Rightarrow> node_profile" where
  "apply_network_settings network stream p =
     (if network = ''tcp''
      then put_extra ''header_type'' (json_string_from_map (map_from_map (map_from_map stream ''tcpSettings'') ''header'') ''type'') p
      else if network = ''ws''
      then (let ws = map_from_map stream ''wsSettings''
            in put_extra ''host'' (json_string_from_map (map_from_map ws ''headers'') ''Host'')
                 (put_extra ''path'' (json_string_from_map ws ''path'') p))
      else if network = ''grpc''
      then (let grpc = map_from_map stream ''grpcSettings''
            in put_extra ''authority'' (json_string_from_map grpc ''authority'')
                 (put_extra ''mode'' (json_string_from_map grpc ''mode'')
                 (put_extra ''service_name'' (json_string_from_map grpc ''serviceName'') p)))
      else if network = ''http'' \<or> network = ''h2''
      then (let settings = map_from_map stream ''httpSettings''
            in put_extra ''host'' (str_join '','' (string_slice_from_map settings ''host''))
                 (put_extra ''path'' (json_string_from_map settings ''path'') p))
      else if network = ''httpupgrade''
      then (let settings = map_from_map stream ''httpupgradeSettings''
            in put_extra ''host'' (json_string_from_map settings ''host'')
                 (put_extra ''path'' (json_string_from_map settings ''path'') p))
      else if network = ''xhttp''
      then (let settings = map_from_map stream ''xhttpSettings''
            in put_extra ''mode'' (json_string_from_map settings ''mode'')
                 (put_extra ''host'' (json_string_from_map settings ''host'')
                 (put_extra ''path'' (json_string_from_map settings ''path'') p)))
      else if network = ''quic''
      then (let quic = map_from_map stream ''quicSettings''
            in put_extra ''header_type'' (json_string_from_map quic ''header_type'')
                 (put_extra ''key'' (json_string_from_map quic ''key'')
                 (put_extra ''quic_security'' (json_string_from_map quic ''security'') p)))
      else p)"

definition apply_stream_settings :: "json_map \<Rightarrow> node_profile \<Rightarrow> node_profile" where
  "apply_stream_settings stream p =
     (if stream = [] \<or> np_Protocol p = ''socks'' then p
      else (let network = value_or_default (json_string_from_map stream ''network'') ''tcp'';
                security = json_string_from_map stream ''security'';
                p1 = p\<lparr>np_Transport := network\<rparr>;
                p2 = (if security = ''tls'' \<or> security = ''reality'' then put_extra ''security'' security p1 else p1);
                tls = map_from_map stream ''tlsSettings'';
                p3 = (if tls \<noteq> [] then apply_tls_settings tls p2 else p2);
                reality = map_from_map stream ''realitySettings'';
                p4 = (if reality \<noteq> [] then apply_reality_settings reality p3 else p3);
                p5 = apply_network_settings network stream p4
            in if np_Protocol p = ''hysteria2'' \<or> np_Protocol p = ''tuic''
               then put_extra ''network'' network p5 else p5))"

definition normalize_vless_profile_flow :: "node_profile \<Rightarrow> node_profile" where
  "normalize_vless_profile_flow p =
     (if np_Protocol p \<noteq> ''vless'' then p
      else (let flow = trim_space (np_Flow p); lower = to_lower flow;
                p1 = (if lower = [] then p\<lparr>np_Flow := []\<rparr>
                      else if lower = ''xtls-rprx-vision'' then p\<lparr>np_Flow := ''xtls-rprx-vision''\<rparr>
                      else if lower = ''xtls-rprx-vision-udp443''
                      then (let p' = p\<lparr>np_Flow := ''xtls-rprx-vision''\<rparr>
                            in if trim_space (env_get (np_Extra p) ''packet_encoding'') = []
                               then put_extra ''packet_encoding'' ''xudp'' p' else p')
                      else p\<lparr>np_Flow := flow\<rparr>)
            in if equal_fold (trim_space (np_Transport p1)) ''xhttp'' \<and>
                  has_prefix (to_lower (np_Flow p1)) ''xtls-rprx-vision''
               then p1\<lparr>np_Flow := []\<rparr> else p1))"

section \<open>The settings of a protocol\<close>

definition fill_endpoint :: "string \<Rightarrow> int \<Rightarrow> node_profile \<Rightarrow> node_profile" where
  "fill_endpoint address port p =
     p\<lparr>np_Address := (if np_Address p = [] then address else np_Address p),
       np_Port := (if np_Port p = 0 then port else np_Port p)\<rparr>"

definition endpoint_from :: "json_map \<Rightarrow> node_profile \<Rightarrow> node_profile" where
  "endpoint_from m = fill_endpoint (json_string_from_map m ''address'') (int_from_map m ''port'')"

definition read_user :: "json_map \<Rightarrow> node_profile \<Rightarrow> node_profile" where
  "read_user settings p =
     (let vnext = first_map_from_array settings ''vnext''; user = first_map_from_array vnext ''users'';
          p1 = (endpoint_from vnext p)\<lparr>np_UUID := json_string_from_map user ''id'', np_Flow := json_string_from_map user ''flow''\<rparr>
      in if np_Protocol p = ''vless''
         then p1\<lparr>np_Extra := copy_string_extra user ''packet_encoding'' (np_Extra p1)\<rparr>
         else p1\<lparr>np_AlterID := int_from_map user ''alterId'',
                 np_Security := value_or_default (json_string_from_map user ''security'') ''auto''\<rparr>)"

definition read_server :: "json_map \<Rightarrow> node_profile \<Rightarrow> node_profile" where
  "read_server settings p =
     (let server = first_map_from_array settings ''servers'';
          p1 = (endpoint_from server p)\<lparr>np_Password := json_string_from_map server ''password'',
                                        np_UUID := json_string_from_map server ''password''\<rparr>
      in if np_Protocol p = ''shadowsocks''
         then p1\<lparr>np_SSMethod := json_string_from_map server ''method'', np_SSPlugin := json_string_from_map server ''plugin'',
                 np_SSPluginOpts := json_string_from_map server ''plugin_opts''\<rparr>
         else p1)"

definition read_socks :: "json_map \<Rightarrow> node_profile \<Rightarrow> node_profile" where
  "read_socks settings p =
     (endpoint_from settings p)\<lparr>np_Username := json_string_from_map settings ''username'',
        np_Password := json_string_from_map settings ''password'',
        np_SocksVersion := value_or_default (json_string_from_map settings ''version'') ''5'',
        np_Network := json_string_from_map settings ''network''\<rparr>"

definition read_hysteria2 :: "json_map \<Rightarrow> node_profile \<Rightarrow> node_profile" where
  "read_hysteria2 settings p =
     (let obfs = map_from_map settings ''obfs''
      in (endpoint_from settings p)\<lparr>np_Password := json_string_from_map settings ''password'',
           np_UUID := json_string_from_map settings ''password'',
           np_ServerPorts := string_slice_from_map settings ''server_ports'',
           np_ObfsType := json_string_from_map obfs ''type'', np_ObfsPassword := json_string_from_map obfs ''password''\<rparr>)"

definition read_tuic :: "json_map \<Rightarrow> node_profile \<Rightarrow> node_profile" where
  "read_tuic settings p =
     (let p1 = (endpoint_from settings p)\<lparr>np_UUID := json_string_from_map settings ''uuid'',
                 np_Password := json_string_from_map settings ''password''\<rparr>
      in p1\<lparr>np_Extra := fold (copy_string_extra settings)
              [''congestion_control'', ''udp_relay_mode'', ''udp_over_stream'', ''zero_rtt_handshake'', ''heartbeat'']
              (np_Extra p1)\<rparr>)"

definition read_wireguard :: "json_map \<Rightarrow> node_profile \<Rightarrow> node_profile" where
  "read_wireguard settings p =
     (endpoint_from settings p)\<lparr>np_WGPrivateKey := json_string_from_map settings ''private_key'',
        np_WGPeerPublicKey := json_string_from_map settings ''peer_public_key'',
        np_WGPresharedKey := json_string_from_map settings ''pre_shared_key'',
        np_WGLocalAddress := string_slice_from_map settings ''local_address'',
        np_WGAllowedIPs := json_string_from_map settings ''allowed_ips'',
        np_WGMTU := int_from_map settings ''mtu'', np_WGReserved := int_slice_from_map settings ''reserved''\<rparr>"

definition read_settings :: "json_map \<Rightarrow> node_profile \<Rightarrow> node_profile" where
  "read_settings settings p =
     (let protocol = np_Protocol p
      in if protocol = ''vless'' \<or> protocol = ''vmess'' then read_user settings p
         else if protocol = ''trojan'' \<or> protocol = ''shadowsocks'' then read_server settings p
         else if protocol = ''socks'' then read_socks settings p
         else if protocol = ''hysteria2'' then read_hysteria2 settings p
         else if protocol = ''tuic'' then read_tuic settings p
         else if protocol = ''wireguard'' then read_wireguard settings p
         else p)"

end
