(* ===== verification/NodeLinks.thy ===== *)
theory NodeLinks
  imports StoredNode GoText
begin

text \<open>
  The share link of a stored node, from which the renderer takes what the outbound leaves out:
  \<^verbatim>\<open>applyProfileLinkFallback\<close> with its parsers, and \<^verbatim>\<open>profileFromStoredNode\<close> as a whole.
\<close>

section \<open>Shadowsocks methods\<close>

definition normalize_shadowsocks_method :: "string \<Rightarrow> string" where
  "normalize_shadowsocks_method m = to_lower (trim_space m)"

definition shadowsocks_methods :: "string list" where
  "shadowsocks_methods =
     [''2022-blake3-aes-128-gcm'', ''2022-blake3-aes-256-gcm'', ''2022-blake3-chacha20-poly1305'', ''none'',
      ''aes-128-gcm'', ''aes-192-gcm'', ''aes-256-gcm'', ''chacha20-ietf-poly1305'', ''xchacha20-ietf-poly1305'',
      ''aes-128-ctr'', ''aes-192-ctr'', ''aes-256-ctr'', ''aes-128-cfb'', ''aes-192-cfb'', ''aes-256-cfb'',
      ''rc4-md5'', ''chacha20-ietf'', ''xchacha20'']"

definition is_supported_shadowsocks_method :: "string \<Rightarrow> bool" where
  "is_supported_shadowsocks_method m \<longleftrightarrow> normalize_shadowsocks_method m \<in> set shadowsocks_methods"

section \<open>Links\<close>

definition split_method_password :: "string \<Rightarrow> (string \<times> string) option" where
  "split_method_password v =
     (let method = takeWhile (\<lambda>c. c \<noteq> CHR '':'') v; password = drop (Suc (length method)) v
      in if method = [] \<or> password = [] then None else Some (method, password))"

definition parse_host_port_value :: "string \<Rightarrow> (string \<times> int) option" where
  "parse_host_port_value v =
     (let parts = (case split_host_port v of
                     Some hp \<Rightarrow> Some hp
                   | None \<Rightarrow>
                       (case split_last (CHR '':'') v of
                          None \<Rightarrow> None
                        | Some (before, after) \<Rightarrow>
                            if before = [] \<or> after = [] then None else Some (trim_set ''[]'' before, after)))
      in case parts of
           None \<Rightarrow> None
         | Some (host, port_text) \<Rightarrow>
             (let (port, ok) = atoi port_text
              in if \<not> ok \<or> port \<le> 0 \<or> 65535 < port \<or> host = [] then None else Some (host, port)))"

definition decode_shadowsocks_user_info :: "string \<Rightarrow> string" where
  "decode_shadowsocks_user_info v =
     (let t = trim_space v in if t = [] then [] else (case b64_any t of None \<Rightarrow> [] | Some d \<Rightarrow> d))"

text \<open>The method and password of a text, when the method is supported.\<close>

definition supported_credentials :: "string \<Rightarrow> (string \<times> string) option" where
  "supported_credentials v =
     (case split_method_password v of
        None \<Rightarrow> None
      | Some (method, password) \<Rightarrow>
          if is_supported_shadowsocks_method method then Some (normalize_shadowsocks_method method, password) else None)"

definition parse_shadowsocks_link :: "string \<Rightarrow> (string \<times> string \<times> string \<times> int) option" where
  "parse_shadowsocks_link link =
     (let trimmed = trim_space link
      in if \<not> has_prefix trimmed ''ss://'' then None
         else (let body = takeWhile (\<lambda>c. c \<noteq> CHR ''#'') (drop 5 trimmed)
               in case split_last (CHR ''@'') body of
                    Some (user_info, rest) \<Rightarrow>
                      (case parse_host_port_value (takeWhile (\<lambda>c. c \<noteq> CHR ''?'') rest) of
                         None \<Rightarrow> None
                       | Some (host, port) \<Rightarrow>
                           (case supported_credentials (decode_shadowsocks_user_info user_info) of
                              Some (method, password) \<Rightarrow> Some (method, password, host, port)
                            | None \<Rightarrow>
                                (case supported_credentials
                                        (case query_unescape user_info of None \<Rightarrow> [] | Some u \<Rightarrow> u) of
                                   Some (method, password) \<Rightarrow> Some (method, password, host, port)
                                 | None \<Rightarrow> None)))
                  | None \<Rightarrow>
                      (case split_last (CHR ''@'')
                              (decode_shadowsocks_user_info (takeWhile (\<lambda>c. c \<noteq> CHR ''?'') body)) of
                         None \<Rightarrow> None
                       | Some (user_info, rest) \<Rightarrow>
                           (case (supported_credentials user_info, parse_host_port_value rest) of
                              (Some (method, password), Some (host, port)) \<Rightarrow> Some (method, password, host, port)
                            | _ \<Rightarrow> None))))"

definition parse_user_info_proxy_link :: "render_env \<Rightarrow> string \<Rightarrow> string \<Rightarrow> (string \<times> string \<times> int) option" where
  "parse_user_info_proxy_link e link scheme =
     (case re_url e link of
        None \<Rightarrow> None
      | Some u \<Rightarrow>
          if \<not> equal_fold (pu_Scheme u) scheme then None
          else (case pu_User u of
                  None \<Rightarrow> None
                | Some user \<Rightarrow>
                    (let (port, ok) = atoi (url_port u); secret = uu_Name user
                     in if secret = [] \<or> \<not> ok \<or> port \<le> 0 \<or> url_hostname u = [] then None
                        else Some (secret, url_hostname u, port))))"

section \<open>Stream settings of a link\<close>

text \<open>The trimmed value of the first of some query keys, as a field when it is not empty.\<close>

definition query_field :: "parsed_url \<Rightarrow> string list \<Rightarrow> string \<Rightarrow> json_map" where
  "query_field u keys name = jtext name (trim_space (first_query_value u keys))"

definition tls_settings_from_link :: "parsed_url \<Rightarrow> json_map" where
  "tls_settings_from_link u =
     query_field u [''sni'', ''servername''] ''serverName'' @ query_field u [''fp'', ''fingerprint''] ''fingerprint''"

definition security_from_link :: "parsed_url \<Rightarrow> json_map" where
  "security_from_link u =
     (let security = to_lower (trim_space (query_get u ''security'')); tls = tls_settings_from_link u
      in if security = ''tls''
         then (''security'', JStr security) # jwhen (tls \<noteq> []) [(''tlsSettings'', JObj tls)]
         else if security = ''reality''
         then [(''security'', JStr security),
               (''realitySettings'', JObj (tls @ query_field u [''pbk'', ''publicKey''] ''publicKey'' @
                                           query_field u [''sid'', ''shortId''] ''shortId''))]
         else [])"

definition network_from_link :: "parsed_url \<Rightarrow> string \<Rightarrow> json_map" where
  "network_from_link u network =
     (let plain = (\<lambda>key. query_field u [key] key);
          host = trim_space (query_get u ''host'')
      in if network = ''ws''
         then [(''wsSettings'', JObj (plain ''path'' @
                 jwhen (host \<noteq> []) [(''headers'', JObj [(''Host'', JStr host)])]))]
         else if network = ''grpc''
         then [(''grpcSettings'', JObj (query_field u [''serviceName'', ''service_name''] ''serviceName'' @
                 plain ''mode'' @ plain ''authority''))]
         else if network = ''http'' \<or> network = ''h2''
         then [(''httpSettings'', JObj (plain ''path'' @ jwhen (host \<noteq> []) [(''host'', jstrs (split_csv host))]))]
         else if network = ''httpupgrade''
         then [(''httpupgradeSettings'', JObj (plain ''path'' @ plain ''host''))]
         else if network = ''xhttp''
         then [(''xhttpSettings'', JObj (plain ''path'' @ plain ''host'' @ plain ''mode''))]
         else [])"

definition stream_settings_from_link_query :: "parsed_url \<Rightarrow> json_map" where
  "stream_settings_from_link_query u =
     (let network = to_lower (trim_space (query_get u ''type''))
      in if network = [] then []
         else (''network'', JStr network) # security_from_link u @ network_from_link u network)"

definition transport_extras_missing :: "node_profile \<Rightarrow> bool" where
  "transport_extras_missing p =
     (let missing = (\<lambda>key. trim_space (env_get (np_Extra p) key) = [])
      in if np_Transport p \<in> {''ws'', ''http'', ''h2'', ''httpupgrade'', ''xhttp''}
         then missing ''path'' \<and> missing ''host''
         else np_Transport p = ''grpc'' \<and> missing ''service_name'')"

definition user_link_fallback :: "parsed_url \<Rightarrow> node_profile \<Rightarrow> node_profile" where
  "user_link_fallback u p =
     (let (port, ok) = atoi (url_port u);
          p1 = fill_endpoint (url_hostname u) (if ok then port else 0) p;
          p2 = (case pu_User u of
                  Some user \<Rightarrow> if np_UUID p1 = [] then p1\<lparr>np_UUID := uu_Name user\<rparr> else p1
                | None \<Rightarrow> p1)
      in if np_Transport p2 = [] \<or> np_Transport p2 = ''tcp'' \<or> transport_extras_missing p2
         then apply_stream_settings (stream_settings_from_link_query u) p2 else p2)"

definition apply_profile_link_fallback :: "render_env \<Rightarrow> string \<Rightarrow> node_profile \<Rightarrow> node_profile" where
  "apply_profile_link_fallback e raw p =
     (let link = trim_space raw; protocol = np_Protocol p
      in if link = [] then p
         else if protocol = ''vless'' \<or> protocol = ''vmess''
         then (case re_url e link of
                 None \<Rightarrow> p
               | Some u \<Rightarrow>
                   if equal_fold (stored_protocol (pu_Scheme u)) protocol then user_link_fallback u p else p)
         else if protocol = ''shadowsocks''
         then (case parse_shadowsocks_link link of
                 None \<Rightarrow> p
               | Some (method, password, host, port) \<Rightarrow>
                   (let p1 = fill_endpoint host port p;
                        p2 = (if np_Password p1 = [] then p1\<lparr>np_Password := password, np_UUID := password\<rparr> else p1)
                    in if np_SSMethod p2 = [] then p2\<lparr>np_SSMethod := method\<rparr> else p2))
         else if protocol = ''trojan''
         then (case parse_user_info_proxy_link e link ''trojan'' of
                 None \<Rightarrow> p
               | Some (password, host, port) \<Rightarrow>
                   (let p1 = fill_endpoint host port p
                    in if np_Password p1 = [] \<and> np_UUID p1 = []
                       then p1\<lparr>np_Password := password, np_UUID := password\<rparr> else p1))
         else p)"

section \<open>The profile of a stored node\<close>

definition stored_profile :: "stored_node \<Rightarrow> json_map \<Rightarrow> nat \<Rightarrow> node_profile" where
  "stored_profile node outbound i =
     (let named = stored_protocol (sd_Protocol node); v = json_string_from_map outbound ''protocol'';
          protocol = (if named = [] \<and> v \<noteq> [] then stored_protocol v else named)
      in empty_profile\<lparr>np_ID := sd_ID node, np_Name := sd_Name node, np_Group := trim_space (sd_Group node),
           np_Tag := profile_outbound_tag node i, np_Protocol := protocol, np_Address := sd_Server node,
           np_Port := sd_Port node, np_OwnerPackage := trim_space (sd_OwnerPackage node), np_Transport := ''tcp'',
           np_Fingerprint := ''chrome'', np_Stale := sd_Stale node, np_RawOutbound := sd_Outbound node\<rparr>)"

definition profile_from_stored_node :: "render_env \<Rightarrow> string \<Rightarrow> nat \<Rightarrow> go_error + node_profile" where
  "profile_from_stored_node e raw i =
     (case re_stored e raw of
        Inl err \<Rightarrow> Inl err
      | Inr node \<Rightarrow>
          (let outbound = (if sd_Outbound node = [] then [] else re_object e (sd_Outbound node));
               p1 = read_settings (map_from_map outbound ''settings'') (stored_profile node outbound i);
               p2 = apply_stream_settings (map_from_map outbound ''streamSettings'') p1
           in Inr (apply_profile_link_fallback e (sd_Link node) (normalize_vless_profile_flow p2))))"

text \<open>The codec of a configuration whose stored nodes are read by the renderer.\<close>

definition renderer_codec :: "render_env \<Rightarrow> json_codec \<Rightarrow> json_codec" where
  "renderer_codec e codec = codec\<lparr>jc_stored_node := profile_from_stored_node e\<rparr>"

end
