(* ===== verification/ProxyOutbound.thy ===== *)
theory ProxyOutbound
  imports NodeLinks ConfigRules
begin

text \<open>
  The sing-box outbound of one profile: \<^verbatim>\<open>buildProxyOutbound\<close>, \<^verbatim>\<open>buildTLS\<close> and
  \<^verbatim>\<open>buildTransport\<close> of \<^verbatim>\<open>config/renderer.go\<close>.  The maps that the code builds are the fields in the
  order in which they are set; each is set once.
\<close>

section \<open>TLS and transport\<close>

definition jflag :: "string \<Rightarrow> bool \<Rightarrow> json_map" where
  "jflag key b = jwhen b [(key, JBool True)]"

definition jslice :: "string \<Rightarrow> string list \<Rightarrow> json_map" where
  "jslice key xs = jwhen (xs \<noteq> []) [(key, jstrs xs)]"

definition uses_reality :: "node_profile \<Rightarrow> bool" where
  "uses_reality p \<longleftrightarrow>
     np_Transport p = ''reality'' \<or> np_RealityPubKey p \<noteq> [] \<or> env_get (np_Extra p) ''security'' = ''reality''"

definition tls_enabled :: "node_profile \<Rightarrow> bool \<Rightarrow> bool" where
  "tls_enabled p force \<longleftrightarrow> force \<or> uses_reality p \<or> env_get (np_Extra p) ''security'' = ''tls''"

definition build_tls :: "node_profile \<Rightarrow> bool \<Rightarrow> json_map" where
  "build_tls p force =
     (let extra = env_get (np_Extra p)
      in if \<not> tls_enabled p force then []
         else (''enabled'', JBool True) # jtext ''server_name'' (np_TLSServer p) @
              jflag ''insecure'' (parse_bool (extra ''insecure'')) @
              jslice ''alpn'' (split_csv (extra ''alpn'')) @
              jslice ''certificate_public_key_sha256'' (split_csv (extra ''pin_sha256'')) @
              [(''utls'', JObj [(''enabled'', JBool True),
                              (''fingerprint'', JStr (value_or_default (np_Fingerprint p) ''chrome''))])] @
              jwhen (uses_reality p)
                [(''reality'', JObj [(''enabled'', JBool True),
                   (''public_key'', JStr (value_or_default (np_RealityPubKey p) (extra ''public_key''))),
                   (''short_id'', JStr (value_or_default (np_RealityShortID p) (extra ''short_id'')))])])"

text \<open>The field \<^verbatim>\<open>tls\<close>, left out when no map is built.\<close>

definition tls_field :: "node_profile \<Rightarrow> bool \<Rightarrow> json_map" where
  "tls_field p force = jwhen (tls_enabled p force) [(''tls'', JObj (build_tls p force))]"

definition render_fail :: "string \<Rightarrow> go_error + 'a" where
  "render_fail m = Inl (ErrorString (''renderer: '' @ m))"

text \<open>An extra that is set, even to the empty text.\<close>

definition jextra :: "(string \<rightharpoonup> string) \<Rightarrow> string \<Rightarrow> json_map" where
  "jextra extra key = (case extra key of None \<Rightarrow> [] | Some v \<Rightarrow> [(key, JStr v)])"

definition build_transport :: "node_profile \<Rightarrow> go_error + json_map option" where
  "build_transport p =
     (let transport = np_Transport p; extra = np_Extra p; value = (\<lambda>k. trim_space (env_get extra k))
      in if transport = ''ws''
         then Inr (Some ((''type'', JStr ''ws'') # jextra extra ''path'' @
                (case extra ''host'' of None \<Rightarrow> [] | Some h \<Rightarrow> [(''headers'', JObj [(''Host'', JStr h)])])))
         else if transport = ''grpc''
         then Inr (Some ((''type'', JStr ''grpc'') # jtext ''service_name'' (env_get extra ''service_name'')))
         else if transport = ''http'' \<or> transport = ''h2''
         then Inr (Some ((''type'', JStr ''http'') #
                (case extra ''host'' of None \<Rightarrow> [] | Some h \<Rightarrow> jslice ''host'' (split_csv h)) @ jextra extra ''path''))
         else if transport = ''tcp''
         then (if env_get extra ''header_type'' \<noteq> [] \<and> env_get extra ''header_type'' \<noteq> ''none''
               then render_fail ''sing-box does not support V2Ray TCP header transport'' else Inr None)
         else if transport = ''quic''
         then (if value ''quic_security'' \<noteq> [] \<and> value ''quic_security'' \<noteq> ''none''
               then render_fail (''sing-box QUIC transport does not support V2Ray QUIC security '' @
                      go_quote (value ''quic_security''))
               else if value ''key'' \<noteq> []
               then render_fail ''sing-box QUIC transport does not support V2Ray QUIC key''
               else if value ''header_type'' \<noteq> [] \<and> value ''header_type'' \<noteq> ''none''
               then render_fail (''sing-box QUIC transport does not support V2Ray QUIC header type '' @
                      go_quote (value ''header_type''))
               else Inr (Some [(''type'', JStr ''quic'')]))
         else if transport = ''httpupgrade''
         then Inr (Some ((''type'', JStr ''httpupgrade'') # jtext ''host'' (env_get extra ''host'') @
                jtext ''path'' (env_get extra ''path'')))
         else if transport = ''reality'' \<or> transport = [] then Inr None
         else render_fail (''sing-box does not support V2Ray '' @ transport @ '' transport''))"

section \<open>Protocols\<close>

definition sing_box_vless_flow :: "string \<Rightarrow> string" where
  "sing_box_vless_flow flow =
     (if to_lower (trim_space flow) \<in> {''xtls-rprx-vision'', ''xtls-rprx-vision-udp443''}
      then ''xtls-rprx-vision'' else trim_space flow)"

definition vless_packet_encoding :: "node_profile \<Rightarrow> string" where
  "vless_packet_encoding p =
     (let v = to_lower (trim_space (env_get (np_Extra p) ''packet_encoding''))
      in if np_Protocol p = ''vless'' \<and> v \<in> {''xudp'', ''packetaddr''} then v else [])"

definition password_or_uuid :: "node_profile \<Rightarrow> string" where
  "password_or_uuid p = value_or_default (np_Password p) (np_UUID p)"

definition vless_fields :: "node_profile \<Rightarrow> go_error + json_map" where
  "vless_fields p =
     (if np_UUID p = [] then render_fail ''vless uuid is empty''
      else Inr ([(''type'', JStr ''vless''), (''uuid'', JStr (np_UUID p))] @
             jtext ''flow'' (sing_box_vless_flow (np_Flow p)) @
             jtext ''packet_encoding'' (vless_packet_encoding p) @ tls_field p False))"

definition trojan_fields :: "node_profile \<Rightarrow> go_error + json_map" where
  "trojan_fields p =
     (if password_or_uuid p = [] then render_fail ''trojan password is empty''
      else Inr ([(''type'', JStr ''trojan''), (''password'', JStr (password_or_uuid p))] @ tls_field p True))"

definition vmess_fields :: "node_profile \<Rightarrow> go_error + json_map" where
  "vmess_fields p =
     (if np_UUID p = [] then render_fail ''vmess uuid is empty''
      else Inr ([(''type'', JStr ''vmess''), (''uuid'', JStr (np_UUID p)), (''alter_id'', JInt (np_AlterID p)),
             (''security'', JStr (value_or_default (np_Security p) ''auto''))] @ tls_field p False))"

definition shadowsocks_fields :: "node_profile \<Rightarrow> go_error + json_map" where
  "shadowsocks_fields p =
     (let method = normalize_shadowsocks_method (value_or_default (np_SSMethod p) ''2022-blake3-aes-128-gcm'')
      in if password_or_uuid p = [] then render_fail ''shadowsocks password is empty''
         else if \<not> is_supported_shadowsocks_method method
         then render_fail (''shadowsocks method '' @ go_quote (np_SSMethod p) @ '' is not supported by sing-box'')
         else Inr ([(''type'', JStr ''shadowsocks''), (''password'', JStr (password_or_uuid p)), (''method'', JStr method)] @
                jtext ''plugin'' (np_SSPlugin p) @ jtext ''plugin_opts'' (np_SSPluginOpts p)))"

definition socks_fields :: "node_profile \<Rightarrow> go_error + json_map" where
  "socks_fields p =
     Inr ([(''type'', JStr ''socks''), (''version'', JStr (value_or_default (np_SocksVersion p) ''5''))] @
       jtext ''username'' (np_Username p) @ jtext ''password'' (np_Password p) @ jtext ''network'' (np_Network p))"

definition hysteria2_fields :: "node_profile \<Rightarrow> go_error + json_map" where
  "hysteria2_fields p =
     (if password_or_uuid p = [] then render_fail ''hysteria2 password is empty''
      else Inr ([(''type'', JStr ''hysteria2''), (''password'', JStr (password_or_uuid p))] @
             jslice ''server_ports'' (np_ServerPorts p) @
             jwhen (np_ObfsType p \<noteq> [] \<or> np_ObfsPassword p \<noteq> [])
               [(''obfs'', JObj [(''type'', JStr (value_or_default (np_ObfsType p) ''salamander'')),
                               (''password'', JStr (np_ObfsPassword p))])] @
             tls_field p True @ jtext ''network'' (env_get (np_Extra p) ''network'')))"

definition tuic_fields :: "node_profile \<Rightarrow> go_error + json_map" where
  "tuic_fields p =
     (let extra = env_get (np_Extra p);
          text = (\<lambda>k. jtext k (extra k));
          flag = (\<lambda>k. jwhen (extra k \<noteq> []) [(k, JBool (parse_bool (extra k)))])
      in if np_UUID p = [] \<or> np_Password p = [] then render_fail ''tuic uuid/password is empty''
         else Inr ([(''type'', JStr ''tuic''), (''uuid'', JStr (np_UUID p)), (''password'', JStr (np_Password p))] @
                text ''congestion_control'' @ text ''udp_relay_mode'' @ flag ''udp_over_stream'' @
                flag ''zero_rtt_handshake'' @ text ''heartbeat'' @ tls_field p True @ text ''network''))"

definition wireguard_fields :: "node_profile \<Rightarrow> go_error + json_map" where
  "wireguard_fields p =
     (if np_WGPrivateKey p = [] then render_fail ''wireguard private key is empty''
      else if np_WGPeerPublicKey p = [] then render_fail ''wireguard peer public key is empty''
      else if np_WGLocalAddress p = [] then render_fail ''wireguard local address is empty''
      else Inr ([(''type'', JStr ''wireguard''), (''private_key'', JStr (np_WGPrivateKey p)),
             (''peer_public_key'', JStr (np_WGPeerPublicKey p)), (''local_address'', jstrs (np_WGLocalAddress p))] @
             jtext ''pre_shared_key'' (np_WGPresharedKey p) @
             jwhen (0 < np_WGMTU p) [(''mtu'', JInt (np_WGMTU p))] @
             jwhen (np_WGReserved p \<noteq> []) [(''reserved'', JList (map JInt (np_WGReserved p)))]))"

definition protocol_fields :: "node_profile \<Rightarrow> go_error + json_map" where
  "protocol_fields p =
     (let protocol = np_Protocol p
      in if protocol = ''vless'' then vless_fields p
         else if protocol = ''trojan'' then trojan_fields p
         else if protocol = ''vmess'' then vmess_fields p
         else if protocol = ''shadowsocks'' then shadowsocks_fields p
         else if protocol = ''socks'' then socks_fields p
         else if protocol = ''hysteria2'' then hysteria2_fields p
         else if protocol = ''tuic'' then tuic_fields p
         else if protocol = ''wireguard'' then wireguard_fields p
         else render_fail (''unsupported protocol '' @ go_quote protocol))"

section \<open>The outbound\<close>

definition is_domain_address :: "string \<Rightarrow> bool" where
  "is_domain_address address =
     (let host = trim_set ''[]'' address in host \<noteq> [] \<and> parse_ip host = None)"

text \<open>What the proxied core connects to instead when the Xray sidecar carries the profile.\<close>

definition sidecar_profile :: "node_profile \<Rightarrow> node_profile" where
  "sidecar_profile p =
     p\<lparr>np_Protocol := ''socks'', np_Address := ''127.0.0.1'', np_Port := xray_sidecar_socks_port,
       np_Transport := ''tcp'', np_TLSServer := [], np_RealityPubKey := [], np_RealityShortID := [],
       np_Extra := Map.empty\<rparr>"

definition direct_proxy_outbound :: "node_profile \<Rightarrow> go_error + json_map" where
  "direct_proxy_outbound p =
     (let common = [(''tag'', JStr (value_or_default (np_Tag p) ''proxy'')), (''server'', JStr (np_Address p)),
                    (''server_port'', JInt (np_Port p))] @
                   jwhen (is_domain_address (np_Address p)) [(''domain_resolver'', JStr ''direct-dns'')]
      in case protocol_fields p of
           Inl err \<Rightarrow> Inl err
         | Inr fs \<Rightarrow>
             if np_Protocol p = ''socks'' \<or> np_Protocol p = ''wireguard'' then Inr (common @ fs)
             else (case build_transport p of
                     Inl err \<Rightarrow> Inl err
                   | Inr None \<Rightarrow> Inr (common @ fs)
                   | Inr (Some tp) \<Rightarrow> Inr (common @ fs @ [(''transport'', JObj tp)])))"

definition build_proxy_outbound :: "node_profile \<Rightarrow> go_error + json_map" where
  "build_proxy_outbound p =
     direct_proxy_outbound (if requires_xray_sidecar (Some p) then sidecar_profile p else p)"

end
