(* ===== verification/Outbounds.thy ===== *)
theory Outbounds
  imports ProxyOutbound ProfileNodes
begin

text \<open>
  The outbounds of a rendered configuration: which profile nodes can be rendered, the groups they form, and
  \<^verbatim>\<open>buildOutbounds\<close>; with the report on the nodes and \<^verbatim>\<open>EnsureLocalClashAPIForMultiNode\<close>, which
  depend on the same selection.
\<close>

section \<open>Renderable nodes\<close>

type_synonym rendered_nodes = "node_profile list \<times> profile_node_skip list \<times> go_error option"

definition keep_node :: "node_profile \<Rightarrow> rendered_nodes \<Rightarrow> rendered_nodes" where
  "keep_node p r = (let (ps, skipped, err) = r in if err = None then (p # ps, skipped, None) else r)"

definition skip_node :: "profile_node_skip \<Rightarrow> rendered_nodes \<Rightarrow> rendered_nodes" where
  "skip_node s r = (let (ps, skipped, err) = r in if err = None then (ps, s # skipped, None) else r)"

definition active_node_error :: "node_profile \<Rightarrow> go_error \<Rightarrow> go_error" where
  "active_node_error p err =
     WrapError (''renderer: active node '' @
       go_quote (first_non_empty [np_Name p, np_ID p, np_Address p, np_Tag p]) @ '' is invalid: '') err"

fun renderable_from :: "string \<Rightarrow> string \<Rightarrow> nat \<Rightarrow> node_profile list \<Rightarrow> rendered_nodes" where
  "renderable_from active_id xhttp_id i [] = ([], [], None)"
| "renderable_from active_id xhttp_id i (p # ps) =
     (let rest = renderable_from active_id xhttp_id (Suc i) ps
      in if requires_xray_sidecar (Some p) \<and> np_ID p \<noteq> xhttp_id
         then skip_node (profile_node_skip_of i (Some p) ''xhttp sidecar nodes render only when active'') rest
         else (case build_proxy_outbound p of
                 Inr _ \<Rightarrow> keep_node p rest
               | Inl err \<Rightarrow>
                   if active_id \<noteq> [] \<and> np_ID p = active_id
                   then ([], [profile_node_skip_of i (Some p) (''active node is invalid: '' @ error_msg err)],
                         Some (active_node_error p err))
                   else skip_node (profile_node_skip_of i (Some p)
                          (''invalid sing-box outbound: '' @ error_msg err)) rest))"

definition active_xhttp_id :: "json_codec \<Rightarrow> config \<Rightarrow> string" where
  "active_xhttp_id codec cfg =
     (case resolve_active_profile codec cfg of
        Some p \<Rightarrow> if requires_xray_sidecar (Some p) then np_ID p else []
      | None \<Rightarrow> [])"

definition renderable_profile_nodes_with_skips :: "json_codec \<Rightarrow> config \<Rightarrow> node_profile list \<Rightarrow> rendered_nodes" where
  "renderable_profile_nodes_with_skips codec cfg profiles =
     renderable_from (trim_space (pp_ActiveNodeID (cf_Profile cfg))) (active_xhttp_id codec cfg) 0 profiles"

definition renderable_profile_nodes :: "json_codec \<Rightarrow> config \<Rightarrow> node_profile list \<Rightarrow> go_error + node_profile list" where
  "renderable_profile_nodes codec cfg profiles =
     (case renderable_profile_nodes_with_skips codec cfg profiles of
        (ps, skipped, Some err) \<Rightarrow> Inl err
      | (ps, skipped, None) \<Rightarrow>
          if ps = [] \<and> profiles \<noteq> []
          then render_fail (''no usable profile nodes; skipped '' @ nat_str (length skipped) @ '' invalid node(s)'')
          else Inr ps)"

record node_report =
  nrp_Total :: nat
  nrp_Usable :: nat
  nrp_Renderable :: nat
  nrp_Skipped :: "profile_node_skip list"

definition runtime_profile_node_diagnostics :: "json_codec \<Rightarrow> config option \<Rightarrow> node_report" where
  "runtime_profile_node_diagnostics codec c =
     (case c of
        None \<Rightarrow> \<lparr>nrp_Total = 0, nrp_Usable = 0, nrp_Renderable = 0, nrp_Skipped = []\<rparr>
      | Some cfg \<Rightarrow>
          (let (profiles, skipped) = usable_profile_nodes codec (Some cfg);
               (renderable, render_skipped, err) = renderable_profile_nodes_with_skips codec cfg profiles
           in \<lparr>nrp_Total = length (pp_Nodes (cf_Profile cfg)), nrp_Usable = length profiles,
               nrp_Renderable = length renderable, nrp_Skipped = skipped @ render_skipped\<rparr>))"

text \<open>\<^verbatim>\<open>secret\<close> is the outcome of drawing a random secret.\<close>

definition ensure_local_clash_api ::
  "json_codec \<Rightarrow> go_error + string \<Rightarrow> config \<Rightarrow> go_error + config \<times> bool" where
  "ensure_local_clash_api codec secret cfg =
     (let (renderable, _, err) =
            renderable_profile_nodes_with_skips codec cfg (profiles_from_config_nodes codec (Some cfg))
      in if err \<noteq> None \<or> length renderable \<le> 1 then Inr (cfg, False)
         else (let proxy = cf_Proxy cfg; no_port = (px_APIPort proxy \<le> 0);
                   proxy1 = (if no_port then proxy\<lparr>px_APIPort := default_clash_api_port\<rparr> else proxy)
               in if trim_space (px_APISecret proxy) = []
                  then (case secret of
                          Inl e \<Rightarrow> Inl e
                        | Inr s \<Rightarrow> Inr (cfg\<lparr>cf_Proxy := proxy1\<lparr>px_APISecret := s\<rparr>\<rparr>, True))
                  else Inr (cfg\<lparr>cf_Proxy := proxy1\<rparr>, no_port)))"

section \<open>Groups\<close>

record group_plan =
  gp_name :: string
  gp_base :: string
  gp_tags :: "string list"

definition group_base :: "group_plan list \<Rightarrow> string \<Rightarrow> string" where
  "group_base plans grp =
     (let base = value_or_default (sanitize_outbound_tag_suffix grp) ''default'';
          used = length (filter (\<lambda>g. gp_base g = base) plans)
      in if 0 < used then base @ ''-'' @ nat_str (used + 1) else base)"

definition plan_node :: "node_profile \<Rightarrow> group_plan list \<Rightarrow> group_plan list" where
  "plan_node p plans =
     (let grp = trim_space (np_Group p)
      in if grp = [] \<or> np_Tag p = [] then plans
         else (case index_of (\<lambda>g. gp_name g = grp) plans of
                 Some i \<Rightarrow> plans[i := (plans ! i)\<lparr>gp_tags := gp_tags (plans ! i) @ [np_Tag p]\<rparr>]
               | None \<Rightarrow> plans @ [\<lparr>gp_name = grp, gp_base = group_base plans grp, gp_tags = [np_Tag p]\<rparr>]))"

definition build_group_outbound_plans :: "node_profile list \<Rightarrow> group_plan list" where
  "build_group_outbound_plans profiles = fold plan_node profiles []"

definition group_tag :: "group_plan \<Rightarrow> string" where
  "group_tag plan = ''group-'' @ gp_base plan"

section \<open>Outbounds\<close>

definition urltest_outbound :: "config \<Rightarrow> string \<Rightarrow> string list \<Rightarrow> json_map" where
  "urltest_outbound cfg tag members =
     [(''type'', JStr ''urltest''), (''tag'', JStr tag), (''outbounds'', jstrs members),
      (''url'', JStr (value_or_default (hc_URL (cf_Health cfg)) ''https://www.gstatic.com/generate_204'')),
      (''interval'', JStr ''3m''), (''tolerance'', JInt 50), (''interrupt_exist_connections'', JBool True)]"

definition selector_outbound :: "string \<Rightarrow> string list \<Rightarrow> string \<Rightarrow> json_map" where
  "selector_outbound tag members chosen =
     [(''type'', JStr ''selector''), (''tag'', JStr tag), (''outbounds'', jstrs members),
      (''default'', JStr chosen), (''interrupt_exist_connections'', JBool True)]"

definition group_outbounds :: "config \<Rightarrow> group_plan \<Rightarrow> json_map list" where
  "group_outbounds cfg plan =
     (let tags = gp_tags plan; auto_tag = group_tag plan @ ''-auto''
      in if tags = [] then []
         else if 1 < length tags
         then [urltest_outbound cfg auto_tag tags, selector_outbound (group_tag plan) (auto_tag # tags) auto_tag]
         else [selector_outbound (group_tag plan) tags (hd tags)])"

definition build_group_outbounds :: "config \<Rightarrow> group_plan list \<Rightarrow> json_map list" where
  "build_group_outbounds cfg plans = concat (map (group_outbounds cfg) plans)"

definition active_profile_node_tag :: "config \<Rightarrow> node_profile list \<Rightarrow> string" where
  "active_profile_node_tag cfg profiles =
     (let active_id = trim_space (pp_ActiveNodeID (cf_Profile cfg))
      in if active_id = [] then []
         else (case find (\<lambda>p. np_ID p = active_id \<and> np_Tag p \<noteq> []) profiles of
                 None \<Rightarrow> [] | Some p \<Rightarrow> np_Tag p))"

text \<open>A single node is the outbound \<^verbatim>\<open>proxy\<close> itself.\<close>

definition tag_nodes :: "node_profile list \<Rightarrow> node_profile list" where
  "tag_nodes ps =
     (if length ps = 1 then map (\<lambda>p. p\<lparr>np_Tag := ''proxy''\<rparr>) ps
      else map (\<lambda>(i, p). if np_Tag p = [] then p\<lparr>np_Tag := ''node-'' @ nat_str (i + 1)\<rparr> else p)
             (List.enumerate 0 ps))"

fun render_all :: "('a \<Rightarrow> go_error + 'b) \<Rightarrow> 'a list \<Rightarrow> go_error + 'b list" where
  "render_all f [] = Inr []"
| "render_all f (x # xs) =
     (case f x of
        Inl e \<Rightarrow> Inl e
      | Inr y \<Rightarrow> (case render_all f xs of Inl e \<Rightarrow> Inl e | Inr ys \<Rightarrow> Inr (y # ys)))"

definition selected_nodes :: "json_codec \<Rightarrow> config \<Rightarrow> node_profile \<Rightarrow> go_error + node_profile list" where
  "selected_nodes codec cfg profile =
     (let stored = profiles_from_config_nodes codec (Some cfg)
      in if stored \<noteq> [] then renderable_profile_nodes codec cfg stored
         else if np_Address profile = [] then render_fail ''node address is empty''
         else if np_Port profile = 0 then render_fail ''node port is zero''
         else Inr [profile\<lparr>np_Tag := ''proxy''\<rparr>])"

definition choice_outbounds :: "config \<Rightarrow> node_profile list \<Rightarrow> group_plan list \<Rightarrow> json_map list" where
  "choice_outbounds cfg nodes plans =
     (let tags = map np_Tag nodes; active_tag = active_profile_node_tag cfg nodes
      in if length tags \<le> 1 then []
         else [urltest_outbound cfg ''auto'' tags,
               selector_outbound ''proxy'' (''auto'' # tags @ map group_tag plans) (value_or_default active_tag ''auto'')])"

definition build_outbounds :: "json_codec \<Rightarrow> config \<Rightarrow> node_profile \<Rightarrow> go_error + json_map list" where
  "build_outbounds codec cfg profile =
     (case selected_nodes codec cfg profile of
        Inl e \<Rightarrow> Inl e
      | Inr selected \<Rightarrow>
          (let nodes = tag_nodes selected; plans = build_group_outbound_plans nodes
           in case render_all build_proxy_outbound nodes of
                Inl e \<Rightarrow> Inl e
              | Inr proxies \<Rightarrow>
                  Inr (proxies @ choice_outbounds cfg nodes plans @ build_group_outbounds cfg plans @
                       [[(''type'', JStr ''direct''), (''tag'', JStr ''direct'')]])))"

end
