(* ===== verification/Renderer.thy ===== *)
theory Renderer
  imports Outbounds
begin

text \<open>
  The rest of the sing-box configuration: DNS, inbounds, route and rule sets, and \<^verbatim>\<open>renderSingboxConfig\<close>
  of \<^verbatim>\<open>config/renderer.go\<close>.  The result is the value handed to \<^verbatim>\<open>json.MarshalIndent\<close>, which
  cannot fail on it.  Go maps are read in an arbitrary order, but the code sorts what it collects from them.
\<close>

section \<open>Rule inputs\<close>

definition rule_values :: "string list \<Rightarrow> string list" where
  "rule_values vs = filter (\<lambda>v. v \<noteq> []) (map trim_space vs)"

definition rule_domains :: "string list \<Rightarrow> string list" where
  "rule_domains vs = filter (\<lambda>v. CHR ''/'' \<notin> set v) (rule_values vs)"

definition rule_cidrs :: "string list \<Rightarrow> string list" where
  "rule_cidrs vs = filter (\<lambda>v. CHR ''/'' \<in> set v) (rule_values vs)"

definition endpoint_host :: "render_env \<Rightarrow> string \<Rightarrow> string" where
  "endpoint_host e raw =
     (let address = trim_space raw;
          host = (if str_contains address ''://''
                  then (case re_url e address of Some u \<Rightarrow> pu_Host u | None \<Rightarrow> address) else address);
          bare = (case split_host_port host of Some (h, _) \<Rightarrow> h | None \<Rightarrow> host)
      in if address = [] then [] else trim_set ''[]'' (trim_space bare))"

text \<open>The domains and the networks of the proxy servers, sorted.\<close>

definition endpoint_domain :: "string \<Rightarrow> string list" where
  "endpoint_domain host = (if host = [] \<or> parse_ip host \<noteq> None then [] else [to_lower host])"

definition endpoint_cidr :: "string \<Rightarrow> string list" where
  "endpoint_cidr host =
     (if host = [] then []
      else (case parse_ip host of
              None \<Rightarrow> []
            | Some ip \<Rightarrow> [ip_string ip @ ''/'' @ (if is_mapped_v4 ip then ''32'' else ''128'')]))"

definition proxy_endpoint_rules :: "render_env \<Rightarrow> json_codec \<Rightarrow> config \<Rightarrow> string list \<times> string list" where
  "proxy_endpoint_rules e codec cfg =
     (let hosts = map (\<lambda>p. endpoint_host e (np_Address p)) (profiles_from_config_nodes codec (Some cfg));
          collect = (\<lambda>hs. (sort (unique (concat (map endpoint_domain hs))), sort (unique (concat (map endpoint_cidr hs)))));
          found = collect hosts
      in if found = ([], []) then collect [endpoint_host e (np_Address (resolve_profile codec cfg))] else found)"

definition russian_domain_suffixes :: "string list" where
  "russian_domain_suffixes = [''.ru'', ''.su'', ''.xn--p1ai'']"

definition russian_service_direct_cidrs :: "render_env \<Rightarrow> string list" where
  "russian_service_direct_cidrs e =
     filter (\<lambda>l. l \<noteq> [] \<and> \<not> has_prefix l ''#'') (map trim_space (split_char (char_of (10::nat)) (re_direct_cidrs e)))"

section \<open>DNS\<close>

definition server_port :: "parsed_url \<Rightarrow> json_map" where
  "server_port u =
     (let (port, ok) = atoi (url_port u) in jwhen (url_port u \<noteq> [] \<and> ok) [(''server_port'', JInt port)])"

definition build_dns_server :: "render_env \<Rightarrow> string \<Rightarrow> string \<Rightarrow> string \<Rightarrow> json_map" where
  "build_dns_server e tag address detour =
     (let common = (''tag'', JStr tag) # jwhen (detour \<noteq> [] \<and> detour \<noteq> ''direct'') [(''detour'', JStr detour)];
          plain = common @ [(''type'', JStr ''udp''), (''server'', JStr address)]
      in case re_url e address of
           None \<Rightarrow> plain
         | Some u \<Rightarrow>
             (let scheme = pu_Scheme u; host = value_or_default (url_hostname u) (pu_Host u);
                  addressed = common @ [(''type'', JStr scheme), (''server'', JStr host)] @ server_port u;
                  resolved = jwhen (parse_ip host = None) [(''domain_resolver'', JStr ''bootstrap-dns'')]
              in if scheme = ''https'' \<or> scheme = ''h3''
                 then addressed @ jwhen (pu_Path u \<noteq> [] \<and> pu_Path u \<noteq> ''/dns-query'') [(''path'', JStr (pu_Path u))] @ resolved
                 else if scheme = ''tls'' \<or> scheme = ''quic'' then addressed @ resolved
                 else if scheme = ''tcp'' \<or> scheme = ''udp'' then addressed
                 else plain))"

definition dns_route_rule :: "string \<Rightarrow> string list \<Rightarrow> json_map" where
  "dns_route_rule key values = [(key, jstrs values), (''action'', JStr ''route''), (''server'', JStr ''direct-dns'')]"

definition dns_block_rule :: "string \<Rightarrow> string list \<Rightarrow> json_map" where
  "dns_block_rule key values = [(key, jstrs values), (''action'', JStr ''predefined''), (''rcode'', JStr ''NOERROR'')]"

definition rule_when :: "bool \<Rightarrow> json_map \<Rightarrow> json_map list" where
  "rule_when b rule = (if b then [rule] else [])"

definition dns_rules :: "render_env \<Rightarrow> json_codec \<Rightarrow> config \<Rightarrow> json_map list" where
  "dns_rules e codec cfg =
     (let routing = cf_Routing cfg; endpoints = fst (proxy_endpoint_rules e codec cfg);
          direct = rule_domains (rt_CustomDirect routing); block = rule_domains (rt_CustomBlock routing)
      in rule_when (endpoints \<noteq> []) (dns_route_rule ''domain'' endpoints) @
         rule_when (rt_BlockAds routing) (dns_block_rule ''rule_set'' [''geosite-category-ads-all'']) @
         rule_when (rt_BypassRussia routing) (dns_route_rule ''domain_suffix'' russian_domain_suffixes) @
         rule_when (rt_BypassChina routing) (dns_route_rule ''rule_set'' [''geosite-cn'']) @
         rule_when (direct \<noteq> []) (dns_route_rule ''domain'' direct) @
         rule_when (block \<noteq> []) (dns_block_rule ''domain'' block) @
         rule_when (dn_FakeIP (cf_DNS cfg)) [(''query_type'', jstrs [''A'', ''AAAA'']), (''server'', JStr ''fakeip'')])"

definition dns_servers :: "render_env \<Rightarrow> config \<Rightarrow> node_profile \<Rightarrow> json_map list" where
  "dns_servers e cfg profile =
     (let dns = cf_DNS cfg; detour = (if requires_xray_sidecar (Some profile) then ''direct'' else ''proxy'')
      in [build_dns_server e ''remote-dns'' (dn_ProxyDNS dns) detour,
          build_dns_server e ''direct-dns'' (dn_DirectDNS dns) ''direct'',
          [(''type'', JStr ''udp''), (''tag'', JStr ''bootstrap-dns''), (''server'', JStr (dn_BootstrapIP dns))]] @
         rule_when (dn_FakeIP dns)
           [(''type'', JStr ''fakeip''), (''tag'', JStr ''fakeip''), (''inet4_range'', JStr ''198.18.0.0/15''),
            (''inet6_range'', JStr ''fc00::/18'')])"

text \<open>\<^verbatim>\<open>applyDNSIPv6Mode\<close>: the strategy, and whether a rule that answers AAAA queries comes first.\<close>

definition dns_ipv6_mode :: "string \<Rightarrow> string \<times> bool" where
  "dns_ipv6_mode mode =
     (let m = to_lower (trim_space mode)
      in if m \<in> {''prefer_ipv4'', ''prefer_ipv6'', ''ipv6_only''} then (m, False)
         else if m \<in> {''disable'', ''disabled'', ''off'', ''ipv4_only''} then (''ipv4_only'', True)
         else ([], False))"

definition build_dns :: "render_env \<Rightarrow> json_codec \<Rightarrow> config \<Rightarrow> node_profile \<Rightarrow> json_map" where
  "build_dns e codec cfg profile =
     (let (strategy, no_v6) = dns_ipv6_mode (cf_IPv6_Mode cfg);
          rules = rule_when no_v6 (dns_block_rule ''query_type'' [''AAAA'']) @ dns_rules e codec cfg
      in [(''servers'', JList (map JObj (dns_servers e cfg profile))), (''rules'', JList (map JObj rules)),
          (''final'', JStr ''remote-dns'')] @ jtext ''strategy'' strategy)"

section \<open>Inbounds\<close>

definition listen_inbound :: "string \<Rightarrow> string \<Rightarrow> string \<Rightarrow> int \<Rightarrow> json_map" where
  "listen_inbound kind tag host port =
     [(''type'', JStr kind), (''tag'', JStr tag), (''listen'', JStr host), (''listen_port'', JInt port)]"

definition build_inbounds :: "json_codec \<Rightarrow> config \<Rightarrow> json_map list" where
  "build_inbounds codec cfg =
     (let helpers = resolve_profile_inbounds codec cfg;
          host = (if pi_AllowLAN helpers then ''0.0.0.0'' else ''127.0.0.1'')
      in [listen_inbound ''tproxy'' ''tproxy-in'' ''::'' (px_TProxyPort (cf_Proxy cfg)),
          listen_inbound ''direct'' ''dns-in'' ''::'' (px_DNSPort (cf_Proxy cfg)) @
            [(''override_address'', JStr (first_non_empty [dn_BootstrapIP (cf_DNS cfg), ''1.1.1.1''])),
             (''override_port'', JInt 53)]] @
         rule_when (0 < pi_HTTPPort helpers) (listen_inbound ''http'' ''status-http-in'' host (pi_HTTPPort helpers)) @
         rule_when (0 < pi_SocksPort helpers) (listen_inbound ''socks'' ''status-socks-in'' host (pi_SocksPort helpers)))"

section \<open>Application rules\<close>

definition route_rule :: "string \<Rightarrow> json \<Rightarrow> string \<Rightarrow> json_map" where
  "route_rule key v outbound = [(key, v), (''action'', JStr ''route''), (''outbound'', JStr outbound)]"

definition reject_rule :: "string \<Rightarrow> string list \<Rightarrow> json_map" where
  "reject_rule key values = [(key, jstrs values), (''action'', JStr ''reject'')]"

definition always_direct_names :: "config \<Rightarrow> string list" where
  "always_direct_names cfg = rule_values (rt_AlwaysDirectApps (cf_Routing cfg))"

text \<open>
  The entries of a map in the order of the range loop, which Go leaves open: \<^verbatim>\<open>order\<close> lists its keys.
\<close>

definition map_entries :: "env \<Rightarrow> string list \<Rightarrow> (string \<times> string) list" where
  "map_entries m order = map (\<lambda>k. (k, env_get m k)) order"

definition clean_entries :: "(string \<times> string) list \<Rightarrow> (string \<times> string) list" where
  "clean_entries es = filter (\<lambda>(p, g). p \<noteq> [] \<and> g \<noteq> []) (map (\<lambda>(p, g). (trim_space p, trim_space g)) es)"

definition build_forced_proxy_package_rule :: "config \<Rightarrow> string list \<Rightarrow> json_map list" where
  "build_forced_proxy_package_rule cfg order =
     (let routed = map fst (clean_entries (map_entries (ap_AppGroups (cf_Apps cfg)) order));
          packages = sort (unique (filter (\<lambda>v. v \<notin> set (always_direct_names cfg) \<and> v \<notin> set routed)
                       (rule_values (ap_Packages (cf_Apps cfg)))))
      in if rt_Mode (cf_Routing cfg) \<noteq> ''rules'' \<or> ap_Mode (cf_Apps cfg) \<noteq> ''all'' then []
         else rule_when (packages \<noteq> []) (route_rule ''package_name'' (jstrs packages) ''proxy''))"

text \<open>The outbound of a group: the plans have distinct names, so the first is the only one.\<close>

definition plan_outbound :: "group_plan list \<Rightarrow> string \<Rightarrow> string" where
  "plan_outbound plans grp =
     (case find (\<lambda>g. gp_name g = grp) plans of None \<Rightarrow> [] | Some g \<Rightarrow> group_tag g)"

definition routed_packages :: "config \<Rightarrow> group_plan list \<Rightarrow> string list \<Rightarrow> (string \<times> string) list" where
  "routed_packages cfg plans order =
     filter (\<lambda>(p, outbound). outbound \<noteq> [])
       (map (\<lambda>(p, g). (p, plan_outbound plans g))
         (filter (\<lambda>(p, g). p \<notin> set (always_direct_names cfg))
           (clean_entries (map_entries (ap_AppGroups (cf_Apps cfg)) order))))"

definition build_app_group_route_rules :: "json_codec \<Rightarrow> config \<Rightarrow> string list \<Rightarrow> json_map list" where
  "build_app_group_route_rules codec cfg order =
     (let plans = build_group_outbound_plans (profiles_from_config_nodes codec (Some cfg));
          routed = routed_packages cfg plans order
      in map (\<lambda>o'. route_rule ''package_name'' (jstrs (sort (map fst (filter (\<lambda>e. snd e = o') routed)))) o')
           (sort (unique (map snd routed))))"

section \<open>Route\<close>

definition remote_rule_set :: "string \<Rightarrow> string \<Rightarrow> string \<Rightarrow> json_map" where
  "remote_rule_set tag repository detour =
     [(''type'', JStr ''remote''), (''tag'', JStr tag), (''format'', JStr ''binary''),
      (''url'', JStr (''https://raw.githubusercontent.com/'' @ repository @ ''/rule-set/'' @ tag @ ''.srs'')),
      (''download_detour'', JStr detour), (''update_interval'', JStr ''24h'')]"

definition build_rule_sets :: "config \<Rightarrow> json_map list" where
  "build_rule_sets cfg =
     (if rt_BypassChina (cf_Routing cfg)
      then [remote_rule_set ''geoip-cn'' ''SagerNet/sing-geoip'' ''direct'',
            remote_rule_set ''geosite-cn'' ''SagerNet/sing-geosite'' ''direct''] else []) @
     rule_when (rt_BlockAds (cf_Routing cfg))
       (remote_rule_set ''geosite-category-ads-all'' ''SagerNet/sing-geosite'' ''direct'')"

definition base_rules :: "json_map list" where
  "base_rules =
     [[(''inbound'', jstrs [''dns-in'']), (''action'', JStr ''hijack-dns'')],
      [(''network'', jstrs [''udp'', ''tcp'']), (''port'', JInt 53), (''action'', JStr ''hijack-dns'')],
      [(''inbound'', jstrs [''tproxy-in'']), (''action'', JStr ''sniff'')],
      [(''protocol'', jstrs [''dns'']), (''action'', JStr ''hijack-dns'')],
      [(''inbound'', jstrs [''tproxy-in'']), (''ip_cidr'', jstrs [''127.0.0.0/8'', ''::1/128'']), (''action'', JStr ''reject'')]]"

definition values_rule :: "string \<Rightarrow> string list \<Rightarrow> string \<Rightarrow> json_map list" where
  "values_rule key values outbound = rule_when (values \<noteq> []) (route_rule key (jstrs values) outbound)"

definition russian_rule :: "render_env \<Rightarrow> json_map" where
  "russian_rule e =
     [(''type'', JStr ''logical''), (''mode'', JStr ''or''), (''action'', JStr ''route''), (''outbound'', JStr ''direct''),
      (''rules'', JList [JObj [(''ip_cidr'', jstrs (russian_service_direct_cidrs e))],
                       JObj [(''domain_suffix'', jstrs russian_domain_suffixes)]])]"

definition custom_rules :: "routing_config \<Rightarrow> json_map list" where
  "custom_rules r =
     values_rule ''domain'' (rule_domains (rt_CustomDirect r)) ''direct'' @
     values_rule ''ip_cidr'' (rule_cidrs (rt_CustomDirect r)) ''direct'' @
     values_rule ''domain'' (rule_domains (rt_CustomProxy r)) ''proxy'' @
     values_rule ''ip_cidr'' (rule_cidrs (rt_CustomProxy r)) ''proxy'' @
     rule_when (rule_domains (rt_CustomBlock r) \<noteq> []) (reject_rule ''domain'' (rule_domains (rt_CustomBlock r))) @
     rule_when (rule_cidrs (rt_CustomBlock r) \<noteq> []) (reject_rule ''ip_cidr'' (rule_cidrs (rt_CustomBlock r)))"

definition route_rules :: "render_env \<Rightarrow> json_codec \<Rightarrow> config \<Rightarrow> string list \<Rightarrow> json_map list" where
  "route_rules e codec cfg order =
     (let routing = cf_Routing cfg; (domains, cidrs) = proxy_endpoint_rules e codec cfg
      in base_rules @ values_rule ''domain'' domains ''direct'' @ values_rule ''ip_cidr'' cidrs ''direct'' @
         build_forced_proxy_package_rule cfg order @ build_app_group_route_rules codec cfg order @
         rule_when (rt_BypassLAN routing) (route_rule ''ip_is_private'' (JBool True) ''direct'') @
         rule_when (rt_BlockAds routing) (reject_rule ''rule_set'' [''geosite-category-ads-all'']) @
         rule_when (rt_BypassRussia routing) (russian_rule e) @
         rule_when (rt_BypassChina routing) (route_rule ''rule_set'' (jstrs [''geoip-cn'', ''geosite-cn'']) ''direct'') @
         custom_rules routing @
         values_rule ''package_name'' (rt_AlwaysDirectApps routing) ''direct'')"

definition build_route :: "render_env \<Rightarrow> json_codec \<Rightarrow> config \<Rightarrow> string list \<Rightarrow> json_map" where
  "build_route e codec cfg order =
     [(''rules'', JList (map JObj (route_rules e codec cfg order))),
      (''final'', JStr (if rt_Mode (cf_Routing cfg) = ''direct'' then ''direct'' else ''proxy'')),
      (''default_domain_resolver'', JStr ''direct-dns'')] @
     jwhen (build_rule_sets cfg \<noteq> []) [(''rule_set'', JList (map JObj (build_rule_sets cfg)))]"

section \<open>The configuration\<close>

definition cache_file :: "config \<Rightarrow> string \<Rightarrow> json_map" where
  "cache_file cfg path =
     jwhen (build_rule_sets cfg \<noteq> [])
       [(''cache_file'', JObj ((''enabled'', JBool True) # jwhen (trim_space path \<noteq> []) [(''path'', JStr path)]))]"

definition clash_api :: "config \<Rightarrow> json_map" where
  "clash_api cfg =
     jwhen (0 < px_APIPort (cf_Proxy cfg))
       [(''clash_api'', JObj [(''external_controller'', JStr (''127.0.0.1:'' @ int_str (px_APIPort (cf_Proxy cfg)))),
                            (''secret'', JStr (trim_space (px_APISecret (cf_Proxy cfg))))])]"

definition render_singbox_config ::
  "render_env \<Rightarrow> json_codec \<Rightarrow> config \<Rightarrow> string list \<Rightarrow> node_profile \<Rightarrow> string \<Rightarrow> go_error + json_map" where
  "render_singbox_config e codec cfg order profile cache_path =
     (let experimental = cache_file cfg cache_path @ clash_api cfg
      in if 0 < px_APIPort (cf_Proxy cfg) \<and> trim_space (px_APISecret (cf_Proxy cfg)) = []
         then render_fail ''proxy.api_secret is required when proxy.api_port is enabled''
         else (case build_outbounds codec cfg profile of
                 Inl err \<Rightarrow> Inl err
               | Inr outbounds \<Rightarrow>
                   Inr ([(''log'', JObj [(''level'', JStr ''info''), (''timestamp'', JBool True)]),
                         (''dns'', JObj (build_dns e codec cfg profile)),
                         (''inbounds'', JList (map JObj (build_inbounds codec cfg))),
                         (''route'', JObj (build_route e codec cfg order))] @
                        jwhen (experimental \<noteq> []) [(''experimental'', JObj experimental)] @
                        [(''outbounds'', JList (map JObj outbounds))])))"

definition render_singbox_config_for_data_dir ::
  "render_env \<Rightarrow> json_codec \<Rightarrow> config \<Rightarrow> string list \<Rightarrow> node_profile \<Rightarrow> string \<Rightarrow> go_error + json_map" where
  "render_singbox_config_for_data_dir e codec cfg order profile data_dir =
     render_singbox_config e codec cfg order profile
       (if trim_space data_dir = [] then [] else path_join [data_dir, ''data'', ''cache.db''])"

end
