(* ===== verification/ProfileConfig.thy ===== *)
theory ProfileConfig
  imports Renderer ProfileDoc
begin

text \<open>
  The conversion between the profile document and the daemon's configuration: \<^verbatim>\<open>FromConfig\<close> and
  \<^verbatim>\<open>ApplyToConfig\<close> of \<^verbatim>\<open>profile/profile.go\<close>.  What \<^verbatim>\<open>encoding/json\<close> makes of nodes,
  subscriptions and sections is the parameter \<^verbatim>\<open>doc_codec\<close>; the clock, the random secret and the order in
  which a map is read are given too.
\<close>

record doc_codec =
  dc_node :: "string \<Rightarrow> go_error + profile_node"
  dc_subscription :: "string \<Rightarrow> go_error + profile_subscription"
  dc_tun :: "string \<Rightarrow> doc_tun"
  dc_inbounds :: "string \<Rightarrow> profile_inbounds"
  dc_put_node :: "profile_node \<Rightarrow> string"
  dc_put_subscription :: "profile_subscription \<Rightarrow> string"
  dc_put_tun :: "doc_tun \<Rightarrow> string"
  dc_put_inbounds :: "profile_inbounds \<Rightarrow> string"

record profile_env =
  pe_doc :: doc_codec
  pe_codec :: json_codec
  pe_render :: render_env
  pe_valid_json :: "string \<Rightarrow> bool"
  pe_now :: int
  pe_secret :: "go_error + string"
  pe_order :: "string list"

section \<open>From the configuration\<close>

definition decoded :: "(go_error + 'a) list \<Rightarrow> 'a list" where
  "decoded rs = concat (map (\<lambda>r. case r of Inl _ \<Rightarrow> [] | Inr x \<Rightarrow> [x]) rs)"

definition routing_from_config :: "config \<Rightarrow> doc_routing" where
  "routing_from_config cfg =
     (let r = cf_Routing cfg; packages = ap_Packages (cf_Apps cfg); mode = rt_Mode r;
          base = \<lparr>dr_Mode = [], dr_BypassRussia = rt_BypassRussia r, dr_AppProxyList = rt_InactiveAppProxyList r,
            dr_AppBypassList = rt_InactiveAppBypassList r, dr_AppGroupRoutes = ap_AppGroups (cf_Apps cfg),
            dr_DirectDomains = rule_domains (rt_CustomDirect r), dr_ProxyDomains = rule_domains (rt_CustomProxy r),
            dr_BlockDomains = rule_domains (rt_CustomBlock r), dr_DirectIps = rule_cidrs (rt_CustomDirect r),
            dr_ProxyIps = rule_cidrs (rt_CustomProxy r), dr_BlockIps = rule_cidrs (rt_CustomBlock r),
            dr_AlwaysDirectAppList = rt_AlwaysDirectApps r, dr_AlwaysDirectExcludedAppList = rt_AlwaysDirectExcludedApps r,
            dr_AlwaysDirectSystemApps = rt_AlwaysDirectSystemApps r\<rparr>
      in if mode = ''all'' then base\<lparr>dr_Mode := ''PROXY_ALL''\<rparr>
         else if mode = ''blacklist'' then base\<lparr>dr_Mode := ''PER_APP_BYPASS'', dr_AppBypassList := packages\<rparr>
         else if mode = ''direct'' then base\<lparr>dr_Mode := ''DIRECT''\<rparr>
         else if mode = ''rules'' then base\<lparr>dr_Mode := ''RULES'', dr_AppProxyList := packages\<rparr>
         else base\<lparr>dr_Mode := ''PER_APP'', dr_AppProxyList := packages\<rparr>)"

definition dns_from_config :: "config \<Rightarrow> doc_dns" where
  "dns_from_config cfg = \<lparr>dd_RemoteDNS = dn_ProxyDNS (cf_DNS cfg), dd_DirectDNS = dn_DirectDNS (cf_DNS cfg),
     dd_BootstrapIP = dn_BootstrapIP (cf_DNS cfg), dd_IPv6Mode = to_upper (cf_IPv6_Mode cfg),
     dd_FakeDNS = dn_FakeIP (cf_DNS cfg)\<rparr>"

definition health_from_config :: "config \<Rightarrow> doc_health" where
  "health_from_config cfg =
     (let h = cf_Health cfg
      in \<lparr>dh_Enabled = hc_Enabled h, dh_IntervalSec = hc_IntervalSec h, dh_Threshold = hc_Threshold h,
          dh_CheckURL = hc_URL h, dh_TimeoutSec = hc_TimeoutSec h, dh_DNSProbeDomains = hc_DNSProbeDomains h,
          dh_EgressURLs = hc_EgressURLs h, dh_DNSIsHardReadiness = hc_DNSIsHardReadiness h\<rparr>)"

definition decode_inbounds :: "doc_codec \<Rightarrow> string \<Rightarrow> profile_inbounds" where
  "decode_inbounds dc raw = (dc_inbounds dc raw)\<lparr>pi_AllowLAN := False\<rparr>"

definition from_config :: "doc_codec \<Rightarrow> config \<Rightarrow> document" where
  "from_config dc cfg =
     (let panel = cf_Profile cfg
      in \<lparr>do_SchemaVersion = document_schema_version, do_ID = first_trimmed [pp_ID panel, ''default''],
          do_Name = first_trimmed [pp_Name panel, ''Default''], do_ActiveNodeID = pp_ActiveNodeID panel,
          do_Nodes = decoded (map (dc_node dc) (pp_Nodes panel)),
          do_Subscriptions = decoded (map (dc_subscription dc) (pp_Subscriptions panel)),
          do_Runtime = cf_RuntimeV2 cfg, do_Routing = routing_from_config cfg, do_DNS = dns_from_config cfg,
          do_Health = health_from_config cfg, do_Sharing = cf_Sharing cfg, do_Tun = dc_tun dc (pp_Tun panel),
          do_Inbounds = decode_inbounds dc (pp_Inbounds panel), do_Extra = pp_Extra panel\<rparr>)"

section \<open>To the configuration\<close>

definition panel_from_document :: "doc_codec \<Rightarrow> document \<Rightarrow> profile_projection" where
  "panel_from_document dc doc =
     \<lparr>pp_ID = do_ID doc, pp_Name = do_Name doc, pp_ActiveNodeID = do_ActiveNodeID doc,
      pp_Nodes = map (dc_put_node dc) (do_Nodes doc), pp_Subscriptions = map (dc_put_subscription dc) (do_Subscriptions doc),
      pp_Tun = dc_put_tun dc (do_Tun doc), pp_Inbounds = dc_put_inbounds dc (do_Inbounds doc), pp_Extra = do_Extra doc\<rparr>"

definition merge_routing_rule_inputs :: "string list \<Rightarrow> string list \<Rightarrow> string list" where
  "merge_routing_rule_inputs domains ips = rule_values domains @ rule_values ips"

text \<open>The modes of the routing and of the application list, and the list, for a mode of the document.\<close>

definition applied_mode :: "doc_routing \<Rightarrow> string \<times> string \<times> string list" where
  "applied_mode r =
     (let mode = dr_Mode r
      in if mode = ''PROXY_ALL'' then (''all'', ''all'', [])
         else if mode = ''PER_APP_BYPASS'' then (''blacklist'', ''blacklist'', dr_AppBypassList r)
         else if mode = ''DIRECT'' then (''direct'', ''off'', [])
         else if mode = ''RULES'' then (''rules'', ''all'', dr_AppProxyList r)
         else (''whitelist'', ''whitelist'', dr_AppProxyList r))"

definition apply_routing_to_config :: "doc_routing \<Rightarrow> config \<Rightarrow> config" where
  "apply_routing_to_config r cfg =
     (let (mode, app_mode, packages) = applied_mode r
      in cfg\<lparr>cf_Routing := (cf_Routing cfg)\<lparr>rt_Mode := mode,
               rt_CustomDirect := merge_routing_rule_inputs (dr_DirectDomains r) (dr_DirectIps r),
               rt_CustomProxy := merge_routing_rule_inputs (dr_ProxyDomains r) (dr_ProxyIps r),
               rt_CustomBlock := merge_routing_rule_inputs (dr_BlockDomains r) (dr_BlockIps r),
               rt_AlwaysDirectApps := dr_AlwaysDirectAppList r,
               rt_AlwaysDirectExcludedApps := dr_AlwaysDirectExcludedAppList r,
               rt_AlwaysDirectSystemApps := dr_AlwaysDirectSystemApps r, rt_BypassRussia := dr_BypassRussia r,
               rt_InactiveAppProxyList := dr_AppProxyList r, rt_InactiveAppBypassList := dr_AppBypassList r\<rparr>,
             cf_Apps := (cf_Apps cfg)\<lparr>ap_Mode := app_mode, ap_Packages := packages, ap_AppGroups := dr_AppGroupRoutes r\<rparr>\<rparr>)"

definition apply_dns_to_config :: "doc_dns \<Rightarrow> config \<Rightarrow> config" where
  "apply_dns_to_config d cfg =
     cfg\<lparr>cf_DNS := (cf_DNS cfg)\<lparr>dn_ProxyDNS := dd_RemoteDNS d, dn_DirectDNS := dd_DirectDNS d,
            dn_BootstrapIP := dd_BootstrapIP d, dn_FakeIP := dd_FakeDNS d\<rparr>,
         cf_IPv6_Mode := value_or_default (to_lower (dd_IPv6Mode d)) ''mirror''\<rparr>"

definition applied_health :: "doc_health \<Rightarrow> health_config" where
  "applied_health h = \<lparr>hc_Enabled = dh_Enabled h, hc_IntervalSec = dh_IntervalSec h, hc_Threshold = dh_Threshold h,
     hc_URL = first_trimmed [dh_CheckURL h, ''https://www.gstatic.com/generate_204''], hc_TimeoutSec = dh_TimeoutSec h,
     hc_DNSProbeDomains = dh_DNSProbeDomains h, hc_EgressURLs = dh_EgressURLs h,
     hc_DNSIsHardReadiness = dh_DNSIsHardReadiness h\<rparr>"

text \<open>The sections that the document sets, before the flat sections follow the active node.\<close>

definition draft_config :: "doc_codec \<Rightarrow> document \<Rightarrow> config \<Rightarrow> config" where
  "draft_config dc doc base =
     (let start = base\<lparr>cf_SchemaVersion := current_schema_version, cf_Profile := panel_from_document dc doc,
            cf_RuntimeV2 := \<lparr>rv_BackendKind = first_trimmed [rv_BackendKind (do_Runtime doc), ''ROOT_TPROXY''],
                            rv_FallbackPolicy = first_trimmed [rv_FallbackPolicy (do_Runtime doc), ''OFFER_RESET'']\<rparr>\<rparr>
      in (apply_dns_to_config (do_DNS doc) (apply_routing_to_config (do_Routing doc) start))\<lparr>
            cf_Health := applied_health (do_Health doc), cf_Sharing := do_Sharing doc\<rparr>)"

text \<open>The last checks: the configuration validates, and renders when it has a server.\<close>

definition check_draft :: "profile_env \<Rightarrow> config \<Rightarrow> go_error option" where
  "check_draft env cfg =
     (case validate_config (pe_codec env) cfg of
        Some e \<Rightarrow> Some e
      | None \<Rightarrow>
          (let profile = resolve_profile (pe_codec env) cfg
           in if np_Address profile = [] then None
              else (case render_singbox_config (pe_render env) (pe_codec env) cfg (pe_order env) profile [] of
                      Inl e \<Rightarrow> Some (WrapError ''render profile draft: '' e) | Inr _ \<Rightarrow> None)))"

definition apply_to_config ::
  "profile_env \<Rightarrow> config option \<Rightarrow> document \<Rightarrow> (go_error + config) \<times> profile_warning list" where
  "apply_to_config env base doc =
     (case normalize_document (pe_valid_json env) (pe_now env) doc of
        (Inl e, warnings) \<Rightarrow> (Inl e, warnings)
      | (Inr normalized, warnings) \<Rightarrow>
          (let draft = draft_config (pe_doc env) normalized
                         (case base of Some b \<Rightarrow> b | None \<Rightarrow> default_config)
           in case ensure_local_clash_api (pe_codec env) (pe_secret env)
                     (sync_from_projection (pe_codec env) True draft) of
                Inl e \<Rightarrow> (Inl e, warnings)
              | Inr (next_cfg, _) \<Rightarrow>
                  (case check_draft env next_cfg of
                     Some e \<Rightarrow> (Inl e, warnings) | None \<Rightarrow> (Inr next_cfg, warnings))))"

end
