(* ===== verification/ProfileRequests.thy ===== *)
theory ProfileRequests
  imports ProfileDoc
begin

text \<open>
  The parameters of the profile methods (\<^verbatim>\<open>control/profile_requests.go\<close>): which fields are required, what
  stands for a missing one, and the normalisation of imported nodes.  Decoding JSON into the struct of a method is the
  parameter \<^verbatim>\<open>request_codec\<close>; a missing \<^verbatim>\<open>reload\<close> is \<^verbatim>\<open>None\<close>.  A request without
  parameters is \<^verbatim>\<open>None\<close>.
\<close>

record request_codec =
  rq_object :: "string \<Rightarrow> go_error + (string \<rightharpoonup> string)"
  rq_apply :: "string \<Rightarrow> go_error + document option \<times> bool option"
  rq_document :: "string \<Rightarrow> go_error + document \<times> bool"
  rq_nodes :: "string \<Rightarrow> go_error + profile_node list \<times> bool option"
  rq_batch :: "string \<Rightarrow> go_error + string \<times> int \<times> profile_node list"
  rq_name :: "string \<Rightarrow> string \<Rightarrow> go_error + string \<times> bool option"
  rq_node :: "string \<Rightarrow> go_error + profile_node option \<times> bool option"
  rq_routing :: "string \<Rightarrow> go_error + doc_routing option \<times> bool option"
  rq_dns :: "string \<Rightarrow> go_error + doc_dns option \<times> bool option"
  rq_inbounds :: "string \<Rightarrow> go_error + profile_inbounds option \<times> bool option"
  rq_bool_value :: "bool \<Rightarrow> string \<Rightarrow> go_error + bool"
  rq_text_value :: "string \<Rightarrow> go_error + string"
  rq_routing_value :: "string \<Rightarrow> go_error + doc_routing"
  rq_dns_value :: "string \<Rightarrow> go_error + doc_dns"
  rq_inbounds_value :: "string \<Rightarrow> go_error + profile_inbounds"

definition sum_bind :: "go_error + 'a \<Rightarrow> ('a \<Rightarrow> go_error + 'b) \<Rightarrow> go_error + 'b" where
  "sum_bind r f = (case r of Inl e \<Rightarrow> Inl e | Inr x \<Rightarrow> f x)"

lemma sum_bind_simps [simp]: "sum_bind (Inl e) f = Inl e" "sum_bind (Inr x) f = f x"
  by (simp_all add: sum_bind_def)

definition wrapped :: "string \<Rightarrow> go_error + 'a \<Rightarrow> go_error + 'a" where
  "wrapped label r = (case r of Inl e \<Rightarrow> Inl (WrapError label e) | Inr x \<Rightarrow> Inr x)"

definition required :: "bool \<Rightarrow> string \<Rightarrow> (go_error + 'a) \<Rightarrow> go_error + 'a" where
  "required ok m r = (if ok then r else Inl (ErrorString m))"

definition with_params :: "string option \<Rightarrow> string \<Rightarrow> (string \<Rightarrow> go_error + 'a) \<Rightarrow> go_error + 'a" where
  "with_params params m f = (case params of None \<Rightarrow> Inl (ErrorString m) | Some raw \<Rightarrow> f raw)"

definition reload_or_true :: "bool option \<Rightarrow> bool" where
  "reload_or_true r = (r \<noteq> Some False)"

section \<open>Documents\<close>

text \<open>\<^verbatim>\<open>DecodeStrictDocument\<close>: one JSON object and nothing after it.\<close>

definition decode_strict_document :: "request_codec \<Rightarrow> string \<Rightarrow> go_error + document" where
  "decode_strict_document rq raw =
     sum_bind (rq_document rq raw) (\<lambda>(doc, at_end).
       required at_end ''profile document must contain a single JSON object'' (Inr doc))"

definition has_json_field :: "request_codec \<Rightarrow> string \<Rightarrow> string \<Rightarrow> bool" where
  "has_json_field rq raw key = (case rq_object rq raw of Inl _ \<Rightarrow> False | Inr m \<Rightarrow> m key \<noteq> None)"

definition decode_profile_apply_params :: "request_codec \<Rightarrow> string option \<Rightarrow> go_error + document \<times> bool" where
  "decode_profile_apply_params rq params =
     with_params params ''params required: profile document'' (\<lambda>raw.
       if has_json_field rq raw ''profile''
       then sum_bind (wrapped ''invalid profile.apply params: '' (rq_apply rq raw)) (\<lambda>(profile, reload).
              case profile of
                None \<Rightarrow> Inl (ErrorString ''profile is required'')
              | Some doc \<Rightarrow> Inr (doc, reload_or_true reload))
       else sum_bind (wrapped ''invalid profile: '' (decode_strict_document rq raw)) (\<lambda>doc. Inr (doc, True)))"

section \<open>Imports\<close>

definition manual_import :: "int \<Rightarrow> profile_node \<Rightarrow> profile_node" where
  "manual_import created n =
     n\<lparr>nd_Stale := False,
       nd_Source := \<lparr>so_Type = ''MANUAL'', so_URL = [], so_ProviderKey = [], so_LastSeenAt = 0\<rparr>,
       nd_CreatedAt := (if nd_CreatedAt n = 0 then created else nd_CreatedAt n)\<rparr>"

definition decode_import_nodes_params ::
  "request_codec \<Rightarrow> string option \<Rightarrow> int \<Rightarrow> go_error + profile_node list \<times> bool" where
  "decode_import_nodes_params rq params created =
     with_params params ''params required: {\"nodes\": [...]}'' (\<lambda>raw.
       sum_bind (wrapped ''invalid params: '' (rq_nodes rq raw)) (\<lambda>(nodes, reload).
         required (nodes \<noteq> []) ''nodes must not be empty''
           (Inr (map (manual_import created) nodes, reload_or_true reload))))"

definition decode_import_nodes_batch_params ::
  "request_codec \<Rightarrow> string option \<Rightarrow> int \<Rightarrow> go_error + string \<times> int \<times> profile_node list" where
  "decode_import_nodes_batch_params rq params created =
     with_params params ''params required: {\"batchId\": \"...\", \"totalBatches\": 1, \"nodes\": [...]}'' (\<lambda>raw.
       sum_bind (wrapped ''invalid params: '' (rq_batch rq raw)) (\<lambda>(batch_id, count, nodes).
         required (batch_id \<noteq> []) ''batchId is required''
        (required (0 < count) ''totalBatches must be positive''
        (required (nodes \<noteq> []) ''nodes must not be empty''
          (Inr (batch_id, count, map (manual_import created) nodes))))))"

section \<open>Names\<close>

definition decode_named ::
  "request_codec \<Rightarrow> string \<Rightarrow> string \<Rightarrow> string option \<Rightarrow> go_error + string \<times> bool option" where
  "decode_named rq key example params =
     with_params params (''params required: '' @ example) (\<lambda>raw.
       sum_bind (wrapped ''invalid params: '' (rq_name rq key raw)) (\<lambda>(name, reload).
         required (name \<noteq> []) (key @ '' is required'') (Inr (name, reload))))"

definition decode_commit_import_batch_params :: "request_codec \<Rightarrow> string option \<Rightarrow> go_error + string \<times> bool" where
  "decode_commit_import_batch_params rq params =
     sum_bind (decode_named rq ''batchId'' ''{\"batchId\": \"...\"}'' params) (\<lambda>(name, reload). Inr (name, reload_or_true reload))"

definition decode_set_active_node_params :: "request_codec \<Rightarrow> string option \<Rightarrow> go_error + string \<times> bool" where
  "decode_set_active_node_params rq params =
     sum_bind (decode_named rq ''nodeId'' ''{\"nodeId\": \"...\"}'' params) (\<lambda>(name, reload). Inr (name, reload_or_true reload))"

definition decode_node_remove_params :: "request_codec \<Rightarrow> string option \<Rightarrow> go_error + string \<times> bool" where
  "decode_node_remove_params rq params =
     sum_bind (decode_named rq ''nodeId'' ''{\"nodeId\": \"...\"}'' params) (\<lambda>(name, reload). Inr (name, reload_or_true reload))"

text \<open>A subscription's URL may be empty here; a preview's identifier is trimmed first.\<close>

definition decode_subscription_url_params :: "request_codec \<Rightarrow> string option \<Rightarrow> go_error + string \<times> bool option" where
  "decode_subscription_url_params rq params =
     with_params params ''params required: {\"url\": \"https://...\"}'' (\<lambda>raw.
       wrapped ''invalid params: '' (rq_name rq ''url'' raw))"

definition decode_commit_subscription_preview_params ::
  "request_codec \<Rightarrow> string option \<Rightarrow> go_error + string \<times> bool option" where
  "decode_commit_subscription_preview_params rq params =
     with_params params ''params required: {\"previewId\": \"...\"}'' (\<lambda>raw.
       sum_bind (wrapped ''invalid params: '' (rq_name rq ''previewId'' raw)) (\<lambda>(name, reload).
         required (trim_space name \<noteq> []) ''previewId is required'' (Inr (trim_space name, reload))))"

section \<open>Parts of the document\<close>

definition decode_part ::
  "(string \<Rightarrow> go_error + 'a option \<times> bool option) \<Rightarrow> string \<Rightarrow> string \<Rightarrow> string option \<Rightarrow> go_error + 'a \<times> bool" where
  "decode_part decoder key example params =
     with_params params (''params required: '' @ example) (\<lambda>raw.
       sum_bind (wrapped ''invalid params: '' (decoder raw)) (\<lambda>(part, reload).
         case part of
           None \<Rightarrow> Inl (ErrorString (key @ '' is required''))
         | Some x \<Rightarrow> Inr (x, reload_or_true reload)))"

definition decode_node_upsert_params :: "request_codec \<Rightarrow> string option \<Rightarrow> go_error + profile_node \<times> bool" where
  "decode_node_upsert_params rq = decode_part (rq_node rq) ''node'' ''{\"node\": {...}}''"

definition decode_routing_patch_params :: "request_codec \<Rightarrow> string option \<Rightarrow> go_error + doc_routing \<times> bool" where
  "decode_routing_patch_params rq = decode_part (rq_routing rq) ''routing'' ''{\"routing\": {...}}''"

definition decode_dns_patch_params :: "request_codec \<Rightarrow> string option \<Rightarrow> go_error + doc_dns \<times> bool" where
  "decode_dns_patch_params rq = decode_part (rq_dns rq) ''dns'' ''{\"dns\": {...}}''"

definition decode_inbound_patch_params :: "request_codec \<Rightarrow> string option \<Rightarrow> go_error + profile_inbounds \<times> bool" where
  "decode_inbound_patch_params rq = decode_part (rq_inbounds rq) ''inbounds'' ''{\"inbounds\": {...}}''"

record profile_patch =
  pt_Reload :: bool
  pt_HasActiveNodeID :: bool
  pt_ActiveNodeID :: string
  pt_Routing :: "doc_routing option"
  pt_DNS :: "doc_dns option"
  pt_Inbounds :: "profile_inbounds option"

text \<open>A field that is there is decoded; its error carries the field's name.\<close>

definition optional_field ::
  "(string \<rightharpoonup> string) \<Rightarrow> string \<Rightarrow> 'a \<Rightarrow> (string \<Rightarrow> go_error + 'a) \<Rightarrow> go_error + 'a" where
  "optional_field m key absent decoder =
     (case m key of None \<Rightarrow> Inr absent | Some raw \<Rightarrow> wrapped (''invalid '' @ key @ '': '') (decoder raw))"

definition some_of :: "(string \<Rightarrow> go_error + 'a) \<Rightarrow> string \<Rightarrow> go_error + 'a option" where
  "some_of decoder raw = (case decoder raw of Inl e \<Rightarrow> Inl e | Inr x \<Rightarrow> Inr (Some x))"

definition decode_profile_patch_params :: "request_codec \<Rightarrow> string option \<Rightarrow> go_error + profile_patch" where
  "decode_profile_patch_params rq params =
     with_params params ''params required: profile patch object'' (\<lambda>raw.
       sum_bind (wrapped ''invalid params: '' (rq_object rq raw)) (\<lambda>m.
       sum_bind (optional_field m ''reload'' True (rq_bool_value rq True)) (\<lambda>reload.
       sum_bind (optional_field m ''activeNodeId'' []
           (\<lambda>raw. if trim_space raw = ''null'' then Inr [] else rq_text_value rq raw)) (\<lambda>active.
       sum_bind (optional_field m ''routing'' None (some_of (rq_routing_value rq))) (\<lambda>routing.
       sum_bind (optional_field m ''dns'' None (some_of (rq_dns_value rq))) (\<lambda>dns.
       sum_bind (optional_field m ''inbounds'' None (some_of (rq_inbounds_value rq))) (\<lambda>inbounds.
         required (m ''activeNodeId'' \<noteq> None \<or> routing \<noteq> None \<or> dns \<noteq> None \<or> inbounds \<noteq> None)
           ''profile patch must include at least one supported field''
           (Inr \<lparr>pt_Reload = reload, pt_HasActiveNodeID = (m ''activeNodeId'' \<noteq> None), pt_ActiveNodeID = active,
                 pt_Routing = routing, pt_DNS = dns, pt_Inbounds = inbounds\<rparr>))))))))"

end
