(* ===== verification/SubscriptionParse.thy ===== *)
theory SubscriptionParse
  imports NodeLinks SubscriptionMerge
begin

text \<open>
  Reading a subscription (\<^verbatim>\<open>subscription/parse.go\<close>): the links of the body become profile nodes with an
  Xray outbound.  A step of Go code that dereferences a nil pointer panics, and nothing between the request's
  goroutine and the runtime recovers: such an outcome is \<^verbatim>\<open>Panics\<close>.
\<close>

datatype 'a outcome = Panics | Fails go_error | Returns 'a

record link_env = render_env +
  le_marshal :: "json_map \<Rightarrow> string"
  le_value :: "string \<Rightarrow> json option"

section \<open>Text\<close>

text \<open>\<^verbatim>\<open>url.ParseQuery\<close>, of which the code reads the first value of a key.\<close>

definition query_pair :: "string \<Rightarrow> (string \<times> string) list" where
  "query_pair part =
     (let key = takeWhile (\<lambda>c. c \<noteq> CHR ''='') part; v = drop (Suc (length key)) part
      in if part = [] \<or> CHR '';'' \<in> set part then []
         else (case (query_unescape key, query_unescape v) of (Some k, Some x) \<Rightarrow> [(k, x)] | _ \<Rightarrow> []))"

definition parse_query :: "string \<Rightarrow> env" where
  "parse_query s = map_of (concat (map query_pair (split_char (CHR ''&'') s)))"

definition unescaped :: "string \<Rightarrow> string" where
  "unescaped s = (case query_unescape s of None \<Rightarrow> [] | Some t \<Rightarrow> t)"

text \<open>\<^verbatim>\<open>shortStableSuffix\<close> and the same loop inside \<^verbatim>\<open>stableNodeID\<close>\<close>

definition short_stable_suffix :: "string \<Rightarrow> string" where
  "short_stable_suffix v = five_digits (foldl (\<lambda>sum r. (sum * 31 + r) mod 100000) 0 (runes v))"

definition id_rune :: "nat \<Rightarrow> char" where
  "id_rune r =
     (if (97 \<le> r \<and> r \<le> 122) \<or> (48 \<le> r \<and> r \<le> 57) \<or> r = 45 \<or> r = 95 then char_of r else CHR ''-'')"

definition stable_node_id :: "string \<Rightarrow> string \<Rightarrow> int \<Rightarrow> string \<Rightarrow> string" where
  "stable_node_id protocol host port secret =
     (let text = to_lower (trim_space (protocol @ ''-'' @ host @ ''-'' @ int_str port));
          clean = value_or_default (trim_set ''-'' (map id_rune (runes text))) ''node''
      in if secret \<noteq> [] then clean @ ''-'' @ short_stable_suffix secret else clean)"

definition normalize_link_protocol :: "string \<Rightarrow> string" where
  "normalize_link_protocol v =
     (let p = to_lower (trim_space v)
      in if p \<in> {''ss'', ''shadowsocks''} then ''shadowsocks''
         else if p \<in> {''socks4'', ''socks4a'', ''socks5''} then ''socks''
         else if p = ''hy2'' then ''hysteria2'' else if p = ''wg'' then ''wireguard'' else p)"

text \<open>\<^verbatim>\<open>decodeSubscriptionBody\<close>: the first decoding of the whole body that has a link in it.\<close>

definition decode_subscription_body :: "string \<Rightarrow> string" where
  "decode_subscription_body body =
     (let trimmed = trim_space body;
          good = (\<lambda>d. case d of None \<Rightarrow> False | Some t \<Rightarrow> str_contains t ''://'')
      in if str_contains trimmed ''://'' then trimmed
         else (case filter good [b64_decode False True trimmed, b64_decode False False trimmed,
                                 b64_decode True True trimmed, b64_decode True False trimmed] of
                 Some t # _ \<Rightarrow> t | _ \<Rightarrow> trimmed))"

section \<open>Outbounds\<close>

definition query_path :: "parsed_url \<Rightarrow> json_map" where
  "query_path u = [(''path'', JStr (value_or_default (trim_space (query_get u ''path'')) ''/''))]"

definition stream_security :: "parsed_url \<Rightarrow> string \<Rightarrow> json_map" where
  "stream_security u security =
     (let tls = tls_settings_from_link u
      in if security = ''reality''
         then [(''realitySettings'', JObj (tls @ query_field u [''pbk'', ''publicKey''] ''publicKey'' @
                 query_field u [''sid'', ''shortId''] ''shortId'' @ query_field u [''spx'', ''spiderX''] ''spiderX''))]
         else if security = ''tls'' then jwhen (tls \<noteq> []) [(''tlsSettings'', JObj tls)]
         else [])"

definition stream_network :: "link_env \<Rightarrow> parsed_url \<Rightarrow> string \<Rightarrow> json_map" where
  "stream_network e u network =
     (let plain = (\<lambda>key. query_field u [key] key); host = trim_space (query_get u ''host'');
          extra = trim_space (query_get u ''extra'')
      in if network = ''ws''
         then [(''wsSettings'', JObj (query_path u @ jwhen (host \<noteq> []) [(''headers'', JObj [(''Host'', JStr host)])]))]
         else if network = ''grpc''
         then [(''grpcSettings'', JObj (query_field u [''serviceName'', ''service_name''] ''serviceName'' @
                 plain ''mode'' @ plain ''authority''))]
         else if network = ''http'' \<or> network = ''h2''
         then [(''httpSettings'', JObj (query_path u @ jwhen (host \<noteq> []) [(''host'', jstrs (split_csv host))]))]
         else if network = ''httpupgrade''
         then [(''httpupgradeSettings'', JObj (query_path u @ plain ''host''))]
         else if network = ''xhttp''
         then [(''xhttpSettings'', JObj (query_path u @ plain ''host'' @ plain ''mode'' @
                 (if extra = [] then []
                  else (case le_value e extra of None \<Rightarrow> [] | Some v \<Rightarrow> [(''extra'', v)]))))]
         else [])"

definition build_stream_settings :: "link_env \<Rightarrow> parsed_url \<Rightarrow> json_map" where
  "build_stream_settings e u =
     (let network = to_lower (trim_space (query_get u ''type''));
          security = to_lower (trim_space (query_get u ''security''))
      in jtext ''network'' network @ jtext ''security'' security @ stream_security u security @ stream_network e u network)"

definition shadowsocks_server_settings ::
  "string \<Rightarrow> int \<Rightarrow> string \<Rightarrow> string \<Rightarrow> string \<Rightarrow> string \<Rightarrow> json_map" where
  "shadowsocks_server_settings host port method password plugin opts =
     [(''address'', JStr host), (''port'', JInt port), (''method'', JStr method), (''password'', JStr password)] @
     jtext ''plugin'' plugin @ jtext ''plugin_opts'' opts"

definition user_settings :: "profile_node \<Rightarrow> parsed_url \<Rightarrow> string \<Rightarrow> json_map" where
  "user_settings node u secret =
     (let user = [(''id'', JStr secret)] @
            jwhen (nd_Protocol node = ''vless'')
              [(''encryption'', JStr (value_or_default (trim_space (query_get u ''encryption'')) ''none''))] @
            jtext ''flow'' (query_get u ''flow'')
      in [(''vnext'', JList [JObj [(''address'', JStr (nd_Server node)), (''port'', JInt (nd_Port node)),
                                 (''users'', JList [JObj user])]])])"

definition socks_settings :: "profile_node \<Rightarrow> parsed_url \<Rightarrow> json_map" where
  "socks_settings node u =
     [(''address'', JStr (nd_Server node)), (''port'', JInt (nd_Port node)), (''version'', JStr ''5'')] @
     (case pu_User u of
        None \<Rightarrow> []
      | Some user \<Rightarrow> (''username'', JStr (uu_Name user)) #
          (case uu_Password user of None \<Rightarrow> [] | Some pw \<Rightarrow> [(''password'', JStr pw)]))"

text \<open>
  \<^verbatim>\<open>buildOutbound\<close>.  Its case for Shadowsocks is never reached, since those links are parsed apart; a
  protocol without a case has empty settings.
\<close>

definition link_outbound :: "link_env \<Rightarrow> profile_node \<Rightarrow> parsed_url \<Rightarrow> json_map" where
  "link_outbound e node u =
     (let secret = (case pu_User u of None \<Rightarrow> [] | Some user \<Rightarrow> uu_Name user); protocol = nd_Protocol node;
          settings = (if protocol = ''vless'' \<or> protocol = ''vmess'' then user_settings node u secret
                      else if protocol = ''trojan''
                      then [(''servers'', JList [JObj [(''address'', JStr (nd_Server node)), (''port'', JInt (nd_Port node)),
                                                     (''password'', JStr secret)]])]
                      else if protocol = ''socks'' then socks_settings node u
                      else []);
          stream = build_stream_settings e u
      in [(''protocol'', JStr protocol), (''settings'', JObj settings)] @ jwhen (stream \<noteq> []) [(''streamSettings'', JObj stream)])"

section \<open>Shadowsocks links\<close>

definition split_shadowsocks_method_password :: "string \<Rightarrow> (string \<times> string) option" where
  "split_shadowsocks_method_password v =
     (let before = takeWhile (\<lambda>c. c \<noteq> CHR '':'') v; method = normalize_shadowsocks_method before;
          password = drop (Suc (length before)) v
      in if method = [] \<or> password = [] then None else Some (method, password))"

definition split_supported_method_password :: "string \<Rightarrow> (string \<times> string) option" where
  "split_supported_method_password v =
     (case split_shadowsocks_method_password v of
        Some (method, password) \<Rightarrow> if is_supported_shadowsocks_method method then Some (method, password) else None
      | None \<Rightarrow> None)"

definition parse_shadowsocks_user_info :: "string \<Rightarrow> (string \<times> string) option" where
  "parse_shadowsocks_user_info user_info =
     (case split_supported_method_password (decode_shadowsocks_user_info user_info) of
        Some mp \<Rightarrow> Some mp
      | None \<Rightarrow> split_shadowsocks_method_password (unescaped user_info))"

definition split_shadowsocks_plugin :: "string \<Rightarrow> string \<times> string" where
  "split_shadowsocks_plugin raw =
     (let t = trim_space raw; plugin = takeWhile (\<lambda>c. c \<noteq> CHR '';'') t
      in (trim_space plugin, drop (Suc (length plugin)) t))"

definition checked_port :: "string \<Rightarrow> string \<Rightarrow> (string \<times> int) option" where
  "checked_port host text =
     (let (port, ok) = atoi text
      in if host \<noteq> [] \<and> ok \<and> 0 < port \<and> port \<le> 65535 then Some (host, port) else None)"

definition parse_shadowsocks_host_port :: "string \<Rightarrow> (string \<times> int) option" where
  "parse_shadowsocks_host_port raw =
     (let v = trim_space raw
      in if has_prefix v ''[''
         then (let host = takeWhile (\<lambda>c. c \<noteq> CHR '']'') (tl v); rest = drop (Suc (Suc (length host))) v
               in if CHR '']'' \<notin> set v then None
                  else checked_port host (if has_prefix rest '':'' then tl rest else rest))
         else (let host = takeWhile (\<lambda>c. c \<noteq> CHR '':'') v
               in if CHR '':'' \<notin> set v then None else checked_port host (drop (Suc (length host)) v)))"

record shadowsocks_parts =
  sp_Method :: string
  sp_Password :: string
  sp_Host :: string
  sp_Port :: int
  sp_Plugin :: string
  sp_Opts :: string

definition shadowsocks_credentials :: "string \<Rightarrow> env \<Rightarrow> (string \<times> string) option" where
  "shadowsocks_credentials user_info query =
     (case parse_shadowsocks_user_info user_info of
        Some mp \<Rightarrow> Some mp
      | None \<Rightarrow>
          (let method = value_or_default (normalize_shadowsocks_method (env_get query ''method'')) ''aes-128-gcm''
           in if unescaped user_info = [] then None else Some (method, unescaped user_info)))"

definition shadowsocks_at_parts :: "string \<Rightarrow> string \<Rightarrow> go_error + shadowsocks_parts" where
  "shadowsocks_at_parts user_info rest =
     (let before = takeWhile (\<lambda>c. c \<noteq> CHR ''?'') rest; query_text = drop (Suc (length before)) rest;
          query = (if CHR ''?'' \<in> set rest then parse_query query_text else Map.empty);
          (plugin, opts) = split_shadowsocks_plugin (env_get query ''plugin'');
          host_port = (if has_suffix before ''/'' then butlast before else before)
      in case parse_shadowsocks_host_port host_port of
           None \<Rightarrow> Inl (ErrorString ''missing host or port'')
         | Some (host, port) \<Rightarrow>
             (case shadowsocks_credentials user_info query of
                None \<Rightarrow> Inl (ErrorString ''invalid shadowsocks credentials'')
              | Some (method, password) \<Rightarrow>
                  Inr \<lparr>sp_Method = method, sp_Password = password, sp_Host = host, sp_Port = port,
                       sp_Plugin = plugin, sp_Opts = opts\<rparr>))"

definition shadowsocks_legacy_parts :: "string \<Rightarrow> go_error + shadowsocks_parts" where
  "shadowsocks_legacy_parts body =
     (let decoded = decode_shadowsocks_user_info (takeWhile (\<lambda>c. c \<noteq> CHR ''?'') body)
      in if decoded = [] then Inl (ErrorString ''invalid shadowsocks legacy credentials'')
         else (case split_last (CHR ''@'') decoded of
                 None \<Rightarrow> Inl (ErrorString ''invalid shadowsocks legacy endpoint'')
               | Some (user_info, rest) \<Rightarrow>
                   (case split_shadowsocks_method_password user_info of
                      None \<Rightarrow> Inl (ErrorString ''invalid shadowsocks legacy credentials'')
                    | Some (method, password) \<Rightarrow>
                        (case parse_shadowsocks_host_port rest of
                           None \<Rightarrow> Inl (ErrorString ''missing host or port'')
                         | Some (host, port) \<Rightarrow>
                             Inr \<lparr>sp_Method = method, sp_Password = password, sp_Host = host, sp_Port = port,
                                  sp_Plugin = [], sp_Opts = []\<rparr>))))"

definition imported_link_node :: "string \<Rightarrow> string \<Rightarrow> string \<Rightarrow> int \<Rightarrow> string \<Rightarrow> string \<Rightarrow> int \<Rightarrow> profile_node" where
  "imported_link_node node_id protocol host port raw fragment now =
     \<lparr>nd_ID = node_id, nd_Name = value_or_default (unescaped fragment) host, nd_Protocol = protocol,
      nd_Server = host, nd_Port = port, nd_Link = raw, nd_Outbound = [], nd_Group = ''Default'',
      nd_OwnerPackage = [], nd_LatencyMS = None, nd_ResponseMS = None, nd_ThroughputBps = None,
      nd_TestStatus = [], nd_CreatedAt = now, nd_Stale = False,
      nd_Source = \<lparr>so_Type = ''MANUAL'', so_URL = [], so_ProviderKey = [], so_LastSeenAt = 0\<rparr>, nd_Extra = []\<rparr>"

definition build_shadowsocks_outbound :: "shadowsocks_parts \<Rightarrow> json_map" where
  "build_shadowsocks_outbound p =
     [(''protocol'', JStr ''shadowsocks''),
      (''settings'', JObj [(''servers'', JList [JObj (shadowsocks_server_settings (sp_Host p) (sp_Port p)
         (sp_Method p) (sp_Password p) (sp_Plugin p) (sp_Opts p))])])]"

definition parse_shadowsocks_node :: "link_env \<Rightarrow> string \<Rightarrow> parsed_url \<Rightarrow> int \<Rightarrow> profile_node outcome" where
  "parse_shadowsocks_node e raw u now =
     (case after_first ''://'' raw of
        None \<Rightarrow> Fails (ErrorString ''unsupported shadowsocks uri'')
      | Some text \<Rightarrow>
          (let body = takeWhile (\<lambda>c. c \<noteq> CHR ''#'') text
           in case (case split_last (CHR ''@'') body of
                      Some (user_info, rest) \<Rightarrow> shadowsocks_at_parts user_info rest
                    | None \<Rightarrow> shadowsocks_legacy_parts body) of
                Inl err \<Rightarrow> Fails err
              | Inr p \<Rightarrow>
                  Returns ((imported_link_node
                       (stable_node_id ''shadowsocks'' (sp_Host p) (sp_Port p) (sp_Method p @ '':'' @ sp_Password p))
                       ''shadowsocks'' (sp_Host p) (sp_Port p) raw (pu_Fragment u) now)
                     \<lparr>nd_Outbound := le_marshal e (build_shadowsocks_outbound p)\<rparr>)))"

section \<open>Links\<close>

text \<open>\<^verbatim>\<open>url_error\<close> stands for the parser's message.  \<^verbatim>\<open>Userinfo.String\<close> reads the fields of its receiver.\<close>

definition parse_link :: "link_env \<Rightarrow> go_error \<Rightarrow> string \<Rightarrow> int \<Rightarrow> profile_node outcome" where
  "parse_link e url_error text now =
     (let raw = trim_space text
      in case re_url (render_env.truncate e) raw of
           None \<Rightarrow> Fails url_error
         | Some u \<Rightarrow>
             (let protocol = normalize_link_protocol (pu_Scheme u); host = url_hostname u; port = fst (atoi (url_port u))
              in if protocol = [] then Fails (ErrorString ''unsupported scheme'')
                 else if protocol = ''shadowsocks'' then parse_shadowsocks_node e raw u now
                 else if host = [] \<or> port \<le> 0 \<or> 65535 < port then Fails (ErrorString ''missing host or port'')
                 else (case pu_User u of
                         None \<Rightarrow> Panics
                       | Some user \<Rightarrow>
                           (let node = imported_link_node (stable_node_id protocol host port (uu_Text user))
                                         protocol host port raw (pu_Fragment u) now
                            in Returns (node\<lparr>nd_Outbound := le_marshal e (link_outbound e node u)\<rparr>)))))"

section \<open>Subscriptions\<close>

record subscription_info =
  si_UploadBytes :: int
  si_DownloadBytes :: int
  si_TotalBytes :: int
  si_ExpireTimestamp :: int

definition info_part :: "string \<Rightarrow> subscription_info \<Rightarrow> subscription_info" where
  "info_part part info =
     (let t = trim_space part; before = takeWhile (\<lambda>c. c \<noteq> CHR ''='') t;
          n = fst (atoi (trim_space (drop (Suc (length before)) t))); key = to_lower (trim_space before)
      in if CHR ''='' \<notin> set t then info
         else if key = ''upload'' then info\<lparr>si_UploadBytes := n\<rparr>
         else if key = ''download'' then info\<lparr>si_DownloadBytes := n\<rparr>
         else if key = ''total'' then info\<lparr>si_TotalBytes := n\<rparr>
         else if key = ''expire'' then info\<lparr>si_ExpireTimestamp := n\<rparr> else info)"

text \<open>\<^verbatim>\<open>order\<close> lists the keys of the headers as the range loop reads them.\<close>

definition subscription_info_from_headers :: "env \<Rightarrow> string list \<Rightarrow> subscription_info" where
  "subscription_info_from_headers headers order =
     fold info_part
       (concat (map (\<lambda>key. if equal_fold key ''subscription-userinfo''
                           then split_char (CHR '';'') (env_get headers key) else []) order))
       \<lparr>si_UploadBytes = 0, si_DownloadBytes = 0, si_TotalBytes = 0, si_ExpireTimestamp = 0\<rparr>"

definition provider_key_for :: "string \<Rightarrow> string" where
  "provider_key_for url = to_lower (trim_space url)"

definition parsed_node_seed :: "profile_node \<Rightarrow> string" where
  "parsed_node_seed n =
     str_join ''|'' [nd_Link n, nd_Name n, nd_Protocol n, nd_Server n, int_str (nd_Port n), nd_Outbound n]"

text \<open>A blank identifier is left alone, a new one is used as it is, a used one gets a suffix.\<close>

definition fresh_parsed_id :: "profile_node \<Rightarrow> string list \<Rightarrow> string" where
  "fresh_parsed_id n used =
     (let base = trim_space (nd_ID n); candidate = base @ ''-'' @ short_stable_suffix (parsed_node_seed n)
      in if base = [] \<or> base \<notin> set used then nd_ID n
         else if candidate \<notin> set used then candidate
         else first_free (candidate @ ''-'') used 2)"

fun uniquify_parsed :: "string list \<Rightarrow> profile_node list \<Rightarrow> profile_node list" where
  "uniquify_parsed used [] = []"
| "uniquify_parsed used (n # ns) =
     (let node_id = fresh_parsed_id n used
      in n\<lparr>nd_ID := node_id\<rparr> #
         uniquify_parsed (if trim_space (nd_ID n) = [] then used
                          else (if node_id = nd_ID n then trim_space node_id else node_id) # used) ns)"

definition rejected_of :: "string \<Rightarrow> profile_node \<Rightarrow> rejected_node" where
  "rejected_of line n =
     \<lparr>rj_Link = line, rj_Name = nd_Name n, rj_Protocol = nd_Protocol n, rj_Server = nd_Server n, rj_Port = nd_Port n,
      rj_Code = ''subscription_local_endpoint'',
      rj_Reason = ''subscription node '' @ nd_Server n @ '':'' @ int_str (nd_Port n) @
                  '' points to a local, private, or reserved endpoint''\<rparr>"

type_synonym parsed_lines = "profile_node list \<times> rejected_node list \<times> nat"

fun parse_lines :: "link_env \<Rightarrow> go_error \<Rightarrow> subscription_source \<Rightarrow> int \<Rightarrow> string list \<Rightarrow> parsed_lines outcome" where
  "parse_lines e url_error source now [] = Returns ([], [], 0)"
| "parse_lines e url_error source now (text # lines) =
     (let line = trim_space text
      in if line = [] then parse_lines e url_error source now lines
         else (case parse_link e url_error line now of
                 Panics \<Rightarrow> Panics
               | first \<Rightarrow>
                   (case parse_lines e url_error source now lines of
                      Returns (nodes, rejected, failures) \<Rightarrow>
                        Returns (case first of
                           Returns n \<Rightarrow>
                             (if is_disallowed_subscription_endpoint (nd_Server n)
                              then (nodes, rejected_of line n # rejected, failures)
                              else (n\<lparr>nd_Source := node_source_of source now\<rparr> # nodes, rejected, failures))
                         | _ \<Rightarrow> (nodes, rejected, Suc failures))
                    | r \<Rightarrow> r)))"

definition parsed_subscription ::
  "subscription_source \<Rightarrow> int \<Rightarrow> nat \<Rightarrow> subscription_info \<Rightarrow> nat \<Rightarrow> profile_subscription" where
  "parsed_subscription source now count info failures =
     \<lparr>su_ProviderKey = sn_ProviderKey source, su_URL = sn_URL source, su_Name = [], su_LastFetchedAt = now,
      su_LastSeenNodeCount = int count, su_StaleNodeCount = 0, su_UploadBytes = si_UploadBytes info,
      su_DownloadBytes = si_DownloadBytes info, su_TotalBytes = si_TotalBytes info,
      su_ExpireTimestamp = si_ExpireTimestamp info, su_ParseFailures = int failures\<rparr>"

record parsed_body =
  pb_Nodes :: "profile_node list"
  pb_Subscription :: profile_subscription
  pb_Failures :: nat
  pb_Rejected :: "rejected_node list"

definition parse_subscription ::
  "link_env \<Rightarrow> go_error \<Rightarrow> string \<Rightarrow> env \<Rightarrow> string list \<Rightarrow> subscription_source \<Rightarrow> int \<Rightarrow> parsed_body outcome" where
  "parse_subscription e url_error body headers order source0 now =
     (let source = (if sn_ProviderKey source0 = [] then source0\<lparr>sn_ProviderKey := provider_key_for (sn_URL source0)\<rparr>
                    else source0)
      in case parse_lines e url_error source now (split_char (char_of (10::nat)) (decode_subscription_body body)) of
           Panics \<Rightarrow> Panics
         | Fails err \<Rightarrow> Fails err
         | Returns (parsed, rejected, failures) \<Rightarrow>
             (let nodes = uniquify_parsed [] parsed
              in Returns \<lparr>pb_Nodes = nodes,
                   pb_Subscription = parsed_subscription source now (length nodes)
                     (subscription_info_from_headers headers order) failures,
                   pb_Failures = failures, pb_Rejected = rejected\<rparr>))"

end
