(* ===== verification/ControlStores.thy ===== *)
theory ControlStores
  imports MergeProperties
begin

text \<open>
  The two stores of the control plane that keep something between requests: the parts of a batched import
  (\<^verbatim>\<open>control/import_batch_store.go\<close>) and the previews of subscriptions
  (\<^verbatim>\<open>control/subscription_preview_cache.go\<close>).  Each method holds the store's mutex, so that it is one
  step.  Both drop what is too old on every call; that contract is a locale, interpreted on both.  \<^verbatim>\<open>clock\<close> is
  what \<^verbatim>\<open>time.Now\<close> says when the caller passes the zero time.
\<close>

section \<open>Stores whose entries expire\<close>

locale expiring_store =
  fixes touched :: "'e \<Rightarrow> gtime"
    and ttl :: duration
    and cleanup :: "gtime \<Rightarrow> (string \<rightharpoonup> 'e) \<Rightarrow> (string \<rightharpoonup> 'e)"
  assumes cleanup_apply:
    "cleanup now m k = (case m k of None \<Rightarrow> None | Some e \<Rightarrow> if ttl < time_sub now (touched e) then None else Some e)"
begin

lemma cleanup_keeps: "m k = Some e \<Longrightarrow> time_sub now (touched e) \<le> ttl \<Longrightarrow> cleanup now m k = Some e"
  by (simp add: cleanup_apply)

lemma cleanup_drops: "m k = Some e \<Longrightarrow> ttl < time_sub now (touched e) \<Longrightarrow> cleanup now m k = None"
  by (simp add: cleanup_apply)

lemma cleanup_None: "m k = None \<Longrightarrow> cleanup now m k = None"
  by (simp add: cleanup_apply)

lemma cleanup_SomeD: "cleanup now m k = Some e \<Longrightarrow> m k = Some e \<and> time_sub now (touched e) \<le> ttl"
  by (auto simp: cleanup_apply split: option.splits if_splits)

lemma cleanup_idem: "cleanup now (cleanup now m) = cleanup now m"
  by (rule ext) (auto simp: cleanup_apply split: option.splits)

lemma cleanup_later: "now \<le> later \<Longrightarrow> cleanup later (cleanup now m) = cleanup later m"
proof (rule ext)
  fix k
  assume "now \<le> later"
  then have "time_sub now t \<le> time_sub later t" for t by (rule time_sub_mono)
  then have "ttl < time_sub now t \<Longrightarrow> ttl < time_sub later t" for t by (meson less_le_trans)
  then show "cleanup later (cleanup now m) k = cleanup later m k" by (auto simp: cleanup_apply split: option.split)
qed

end

text \<open>A store from which an entry is taken once.\<close>

locale taking_store = expiring_store +
  fixes take_entry :: "string \<Rightarrow> gtime \<Rightarrow> (string \<rightharpoonup> 'e) \<Rightarrow> 'r option \<times> (string \<rightharpoonup> 'e)"
  assumes take_missing: "cleanup now m k = None \<Longrightarrow> take_entry k now m = (None, cleanup now m)"
    and take_removes: "take_entry k now m = (Some r, m') \<Longrightarrow> m' = (cleanup now m)(k := None)"
begin

lemma taken_once:
  assumes "take_entry k now m = (Some r, m')"
  shows "take_entry k later m' = (None, cleanup later m')"
  using take_removes [OF assms] by (intro take_missing) (simp add: cleanup_None)

lemma take_expired: "m k = Some e \<Longrightarrow> ttl < time_sub now (touched e) \<Longrightarrow> fst (take_entry k now m) = None"
  by (simp add: take_missing cleanup_drops)

lemma take_leaves_others:
  assumes "take_entry k now m = (Some r, m')" and "k' \<noteq> k"
  shows "m' k' = cleanup now m k'"
  using take_removes [OF assms(1)] assms(2) by simp

end

definition now_or :: "gtime \<Rightarrow> gtime \<Rightarrow> gtime" where
  "now_or clock now = (if time_is_zero now then clock else now)"

section \<open>Batched imports\<close>

definition import_batch_ttl :: duration where "import_batch_ttl = 30 * minute"

record import_batch =
  ib_TotalBatches :: int
  ib_Chunks :: "profile_node list list"
  ib_CreatedAt :: gtime
  ib_UpdatedAt :: gtime

record import_batch_state =
  bs_BatchID :: string
  bs_TotalBatches :: int
  bs_ReceivedBatches :: nat
  bs_ReceivedNodes :: nat
  bs_Ready :: bool

type_synonym import_batches = "string \<rightharpoonup> import_batch"

definition batch_touched :: "import_batch \<Rightarrow> gtime" where
  "batch_touched b = (if time_is_zero (ib_UpdatedAt b) then ib_CreatedAt b else ib_UpdatedAt b)"

definition import_cleanup :: "gtime \<Rightarrow> import_batches \<Rightarrow> import_batches" where
  "import_cleanup now m =
     (\<lambda>k. case m k of None \<Rightarrow> None
            | Some b \<Rightarrow> if import_batch_ttl < time_sub now (batch_touched b) then None else Some b)"

definition import_batch_state_of :: "string \<Rightarrow> import_batch \<Rightarrow> import_batch_state" where
  "import_batch_state_of batch_id b =
     \<lparr>bs_BatchID = batch_id, bs_TotalBatches = ib_TotalBatches b, bs_ReceivedBatches = length (ib_Chunks b),
      bs_ReceivedNodes = length (concat (ib_Chunks b)), bs_Ready = (int (length (ib_Chunks b)) = ib_TotalBatches b)\<rparr>"

definition import_add ::
  "gtime \<Rightarrow> string \<Rightarrow> int \<Rightarrow> profile_node list \<Rightarrow> gtime \<Rightarrow> import_batches
     \<Rightarrow> (go_error + import_batch_state) \<times> import_batches" where
  "import_add clock batch_id count nodes now0 m0 =
     (let now = now_or clock now0; m = import_cleanup now m0;
          new_batch = \<lparr>ib_TotalBatches = count, ib_Chunks = [], ib_CreatedAt = now, ib_UpdatedAt = zero_time\<rparr>;
          (b, m1) = (case m batch_id of Some b \<Rightarrow> (b, m) | None \<Rightarrow> (new_batch, m(batch_id \<mapsto> new_batch)))
      in if ib_TotalBatches b \<noteq> count
         then (Inl (ErrorString (''batch totalBatches mismatch: got '' @ int_str count @ '', expected '' @
                 int_str (ib_TotalBatches b))), m1)
         else if ib_TotalBatches b \<le> int (length (ib_Chunks b))
         then (Inl (ErrorString (''batch already has '' @ nat_str (length (ib_Chunks b)) @ ''/'' @
                 int_str (ib_TotalBatches b) @ '' chunks'')), m1)
         else (let b1 = b\<lparr>ib_Chunks := ib_Chunks b @ [nodes], ib_UpdatedAt := now\<rparr>
               in (Inr (import_batch_state_of batch_id b1), m1(batch_id \<mapsto> b1))))"

definition empty_batch_state :: import_batch_state where
  "empty_batch_state = \<lparr>bs_BatchID = [], bs_TotalBatches = 0, bs_ReceivedBatches = 0, bs_ReceivedNodes = 0,
     bs_Ready = False\<rparr>"

definition import_commit ::
  "gtime \<Rightarrow> string \<Rightarrow> gtime \<Rightarrow> import_batches
     \<Rightarrow> ((go_error + profile_node list) \<times> import_batch_state) \<times> import_batches" where
  "import_commit clock batch_id now0 m0 =
     (let m = import_cleanup (now_or clock now0) m0
      in case m batch_id of
           None \<Rightarrow> ((Inl (ErrorString ''batch not found''), empty_batch_state), m)
         | Some b \<Rightarrow>
             (let state = import_batch_state_of batch_id b
              in if \<not> bs_Ready state
                 then ((Inl (ErrorString (''batch is incomplete: received '' @ nat_str (bs_ReceivedBatches state) @
                          ''/'' @ int_str (bs_TotalBatches state))), state), m)
                 else ((Inr (concat (ib_Chunks b)), state), m(batch_id := None))))"

text \<open>The nodes that a commit at a given time takes out.\<close>

definition take_batch ::
  "string \<Rightarrow> gtime \<Rightarrow> import_batches \<Rightarrow> profile_node list option \<times> import_batches" where
  "take_batch batch_id now m =
     (let ((r, _), m') = import_commit now batch_id now m in (case r of Inl _ \<Rightarrow> None | Inr nodes \<Rightarrow> Some nodes, m'))"

interpretation batch_store: taking_store batch_touched import_batch_ttl import_cleanup take_batch
  by unfold_locales
    (auto simp: import_cleanup_def take_batch_def import_commit_def now_or_def Let_def split: option.splits if_splits)

section \<open>Previews\<close>

definition subscription_preview_ttl :: duration where "subscription_preview_ttl = 5 * minute"

record cached_preview =
  cp_preview :: preview_result
  cp_createdAt :: gtime

type_synonym preview_cache = "string \<rightharpoonup> cached_preview"

definition preview_cleanup :: "gtime \<Rightarrow> preview_cache \<Rightarrow> preview_cache" where
  "preview_cleanup now m =
     (\<lambda>k. case m k of None \<Rightarrow> None
            | Some c \<Rightarrow> if subscription_preview_ttl < time_sub now (cp_createdAt c) then None else Some c)"

text \<open>\<^verbatim>\<open>fresh_id\<close> is the outcome of drawing a random identifier.\<close>

definition preview_put ::
  "gtime \<Rightarrow> go_error + string \<Rightarrow> preview_result \<Rightarrow> gtime \<Rightarrow> preview_cache \<Rightarrow> (go_error + string) \<times> preview_cache" where
  "preview_put clock fresh_id preview now0 m =
     (let now = now_or clock now0
      in case fresh_id of
           Inl e \<Rightarrow> (Inl (WrapError ''generate subscription preview id: '' e), m)
         | Inr preview_id \<Rightarrow>
             (Inr preview_id,
              (preview_cleanup now m)(preview_id \<mapsto>
                 \<lparr>cp_preview = preview\<lparr>pr_PreviewID := preview_id\<rparr>, cp_createdAt = now\<rparr>)))"

definition preview_take ::
  "gtime \<Rightarrow> string \<Rightarrow> gtime \<Rightarrow> preview_cache \<Rightarrow> preview_result option \<times> preview_cache" where
  "preview_take clock raw_id now0 m0 =
     (let preview_id = trim_space raw_id; now = now_or clock now0; m = preview_cleanup now m0
      in if preview_id = [] then (None, m0)
         else (case m preview_id of
                 None \<Rightarrow> (None, m)
               | Some c \<Rightarrow>
                   (if subscription_preview_ttl < time_sub now (cp_createdAt c) then None else Some (cp_preview c),
                    m(preview_id := None))))"

text \<open>Taking under an identifier as the cache issues it: without spaces around it and not empty.\<close>

definition take_preview :: "string \<Rightarrow> gtime \<Rightarrow> preview_cache \<Rightarrow> preview_result option \<times> preview_cache" where
  "take_preview key now m =
     (if trim_space key = key \<and> key \<noteq> [] then preview_take now key now m else (None, preview_cleanup now m))"

interpretation preview_store:
  taking_store cp_createdAt subscription_preview_ttl preview_cleanup take_preview
  by unfold_locales
    (auto simp: preview_cleanup_def take_preview_def preview_take_def now_or_def Let_def split: option.splits if_splits)

section \<open>What a batched import returns\<close>

text \<open>Chunks that arrive one after the other, each within the time to live of the one before.\<close>

fun add_chunks ::
  "string \<Rightarrow> int \<Rightarrow> (gtime \<times> profile_node list) list \<Rightarrow> import_batches
     \<Rightarrow> (go_error + import_batch_state) list \<times> import_batches" where
  "add_chunks batch_id count [] m = ([], m)"
| "add_chunks batch_id count ((t, nodes) # rest) m =
     (let (r, m1) = import_add t batch_id count nodes t m; (rs, m2) = add_chunks batch_id count rest m1 in (r # rs, m2))"

fun paced :: "gtime \<Rightarrow> gtime list \<Rightarrow> bool" where
  "paced t [] = True"
| "paced t (u # us) = (\<not> time_is_zero u \<and> time_sub u t \<le> import_batch_ttl \<and> paced u us)"

definition collecting :: "import_batches \<Rightarrow> string \<Rightarrow> int \<Rightarrow> profile_node list list \<Rightarrow> gtime \<Rightarrow> bool" where
  "collecting m batch_id count chunks t \<longleftrightarrow>
     (\<exists>b. m batch_id = Some b \<and> ib_TotalBatches b = count \<and> ib_Chunks b = chunks \<and> ib_UpdatedAt b = t) \<and>
     \<not> time_is_zero t"

definition batch_progress :: "string \<Rightarrow> int \<Rightarrow> profile_node list list \<Rightarrow> import_batch_state" where
  "batch_progress batch_id count chunks =
     \<lparr>bs_BatchID = batch_id, bs_TotalBatches = count, bs_ReceivedBatches = length chunks,
      bs_ReceivedNodes = length (concat chunks), bs_Ready = (int (length chunks) = count)\<rparr>"

lemma collecting_cleanup:
  assumes "collecting m k count chunks t" and "time_sub now t \<le> import_batch_ttl"
  shows "collecting (import_cleanup now m) k count chunks t"
  using assms by (auto simp: collecting_def batch_touched_def intro!: batch_store.cleanup_keeps)

lemma add_collecting:
  assumes "collecting m k count chunks t" "int (length chunks) < count"
    and "\<not> time_is_zero u" "time_sub u t \<le> import_batch_ttl"
  shows "\<exists>m1. import_add u k count nodes u m = (Inr (batch_progress k count (chunks @ [nodes])), m1) \<and>
           collecting m1 k count (chunks @ [nodes]) u"
  using collecting_cleanup [OF assms(1,4)] assms(2,3)
  by (auto simp: collecting_def import_add_def now_or_def Let_def batch_progress_def import_batch_state_of_def)

lemma add_first:
  assumes "m k = None" "0 < count" "\<not> time_is_zero u"
  shows "\<exists>m1. import_add u k count nodes u m = (Inr (batch_progress k count [nodes]), m1) \<and>
           collecting m1 k count [nodes] u"
  using batch_store.cleanup_None [of m k u, OF assms(1)] assms(2,3)
  by (simp add: collecting_def import_add_def now_or_def Let_def batch_progress_def import_batch_state_of_def)

lemma add_chunks_collecting:
  assumes "collecting m k count chunks t" "int (length chunks + length parts) \<le> count" "paced t (map fst parts)"
  shows "\<exists>m1. add_chunks k count parts m =
            (map (\<lambda>i. Inr (batch_progress k count (chunks @ map snd (take (Suc i) parts)))) [0..<length parts], m1) \<and>
          collecting m1 k count (chunks @ map snd parts) (last (t # map fst parts))"
  using assms
proof (induction parts arbitrary: m chunks t)
  case (Cons p parts)
  obtain u nodes where p: "p = (u, nodes)" by (cases p)
  from add_collecting [OF Cons.prems(1), of u nodes] Cons.prems(2,3) p
  obtain m1 where m1: "import_add u k count nodes u m = (Inr (batch_progress k count (chunks @ [nodes])), m1)"
    "collecting m1 k count (chunks @ [nodes]) u" by auto
  from Cons.IH [OF m1(2)] Cons.prems(2,3) p
  obtain m2 where m2: "add_chunks k count parts m1 =
      (map (\<lambda>i. Inr (batch_progress k count ((chunks @ [nodes]) @ map snd (take (Suc i) parts)))) [0..<length parts], m2)"
    "collecting m2 k count ((chunks @ [nodes]) @ map snd parts) (last (u # map fst parts))" by auto
  have "[0..<length (p # parts)] = 0 # map Suc [0..<length parts]"
    by (simp add: map_Suc_upt upt_conv_Cons del: upt_Suc)
  with m1(1) m2 p show ?case by (auto simp: comp_def)
qed simp

lemma commit_collecting:
  assumes "collecting m k count chunks t" "\<not> time_is_zero u" "time_sub u t \<le> import_batch_ttl"
  shows "import_commit u k u m =
           ((if int (length chunks) = count then Inr (concat chunks)
             else Inl (ErrorString (''batch is incomplete: received '' @ nat_str (length chunks) @ ''/'' @ int_str count)),
             batch_progress k count chunks),
            if int (length chunks) = count then (import_cleanup u m)(k := None) else import_cleanup u m)"
  using collecting_cleanup [OF assms(1,3)] assms(2)
  by (auto simp: collecting_def import_commit_def now_or_def Let_def batch_progress_def import_batch_state_of_def)

text \<open>
  A batched import: parts that arrive within half an hour of each other, as many as announced, are each
  acknowledged with the progress so far; asking for the nodes too early says that the batch is incomplete and keeps
  it; once the last part is there, one commit returns the nodes of all parts in the order of arrival, and takes the
  batch out of the store for good.
\<close>

theorem import_batch_roundtrip:
  assumes absent: "m k = None" and parts: "parts = (t, nodes) # rest"
    and announced: "int (length parts) = count"
    and times: "\<not> time_is_zero t" "paced t (map fst rest)"
    and commit: "paced (last (map fst parts)) [u]"
  shows "\<exists>m1. add_chunks k count parts m =
            (map (\<lambda>i. Inr (batch_progress k count (map snd (take (Suc i) parts)))) [0..<length parts], m1) \<and>
          import_commit u k u m1 =
            ((Inr (concat (map snd parts)), batch_progress k count (map snd parts)), (import_cleanup u m1)(k := None)) \<and>
          (\<forall>n \<in> {1..<length parts}. \<forall>v. paced (last (map fst (take n parts))) [v] \<longrightarrow>
             (\<exists>m2 e s. snd (add_chunks k count (take n parts) m) = m2 \<and>
                import_commit v k v m2 = ((Inl e, s), import_cleanup v m2) \<and> \<not> bs_Ready s))"
proof -
  have positive: "0 < count" using announced parts by auto
  have collected: "\<exists>m1. add_chunks k count ((t, nodes) # some) m =
      (map (\<lambda>i. Inr (batch_progress k count (map snd (take (Suc i) ((t, nodes) # some))))) [0..<Suc (length some)], m1) \<and>
      collecting m1 k count (map snd ((t, nodes) # some)) (last (t # map fst some))"
    if some: "int (Suc (length some)) \<le> count" "paced t (map fst some)" for some
  proof -
    from add_first [of m k count t nodes, OF absent positive times(1)] obtain m1
      where m1: "import_add t k count nodes t m = (Inr (batch_progress k count [nodes]), m1)" "collecting m1 k count [nodes] t"
      by auto
    from add_chunks_collecting [OF m1(2), of some] some obtain m2
      where m2: "add_chunks k count some m1 =
          (map (\<lambda>i. Inr (batch_progress k count ([nodes] @ map snd (take (Suc i) some)))) [0..<length some], m2)"
        "collecting m2 k count ([nodes] @ map snd some) (last (t # map fst some))" by auto
    have "[0..<Suc (length some)] = 0 # map Suc [0..<length some]"
      by (simp add: map_Suc_upt upt_conv_Cons del: upt_Suc)
    with m1(1) m2 show ?thesis by (auto simp: comp_def)
  qed
  from collected [of rest] announced times(2) parts obtain m1
    where m1: "add_chunks k count parts m =
        (map (\<lambda>i. Inr (batch_progress k count (map snd (take (Suc i) parts)))) [0..<length parts], m1)"
      "collecting m1 k count (map snd parts) (last (map fst parts))" by auto
  have last_part: "import_commit u k u m1 =
      ((Inr (concat (map snd parts)), batch_progress k count (map snd parts)), (import_cleanup u m1)(k := None))"
    using commit_collecting [OF m1(2), of u] commit announced by simp
  have early: "\<exists>m2 e s. snd (add_chunks k count (take n parts) m) = m2 \<and>
      import_commit v k v m2 = ((Inl e, s), import_cleanup v m2) \<and> \<not> bs_Ready s"
    if n: "n \<in> {1..<length parts}" and v: "paced (last (map fst (take n parts))) [v]" for n v
  proof -
    obtain i where i: "n = Suc i" "i < length rest" using n parts by (cases n) auto
    have "paced t (map fst (take i rest))" using times(2)
      by (induction rest arbitrary: t i) (auto simp: take_Cons split: nat.split)
    with collected [of "take i rest"] i announced parts obtain m2
      where m2: "snd (add_chunks k count (take n parts) m) = m2"
        "collecting m2 k count (map snd (take n parts)) (last (map fst (take n parts)))" by auto
    have "int (length (map snd (take n parts))) \<noteq> count" using n announced by auto
    with commit_collecting [OF m2(2), of v] v m2(1) show ?thesis
      by (auto simp: batch_progress_def)
  qed
  from m1(1) last_part early show ?thesis by blast
qed

theorem import_batch_roundtrip_witness:
  "\<exists>m1. snd (add_chunks ''b'' 2 [(minute, [demo_manual ''a'' ''x'']), (2 * minute, [demo_manual ''b'' ''y''])] Map.empty) = m1 \<and>
     fst (fst (import_commit (3 * minute) ''b'' (3 * minute) m1)) = Inr [demo_manual ''a'' ''x'', demo_manual ''b'' ''y'']"
  using import_batch_roundtrip [where m = Map.empty and k = "''b''" and count = 2 and t = minute and nodes = "[demo_manual ''a'' ''x'']"
      and rest = "[(2 * minute, [demo_manual ''b'' ''y''])]" and u = "3 * minute", OF refl refl]
  by (simp add: time_is_zero_def time_sub_def import_batch_ttl_def) (elim exE conjE, simp)

end
