(* ===== verification/SubscriptionClient.thy ===== *)
theory SubscriptionClient
  imports SubscriptionParse ControlStores
begin

text \<open>
  Fetching a subscription (\<^verbatim>\<open>subscription/source.go\<close>, \<^verbatim>\<open>fetch.go\<close>) around a fetcher that is given: the
  check of its address, and the preview and refresh that merge what it returns.  A function of Go that returns a value
  beside an error returns both here.
\<close>

record client_env = link_env +
  le_url_string :: "parsed_url \<Rightarrow> string"
  le_url_error :: go_error

section \<open>Sources\<close>

definition lowered_url :: "parsed_url \<Rightarrow> parsed_url" where
  "lowered_url u = u\<lparr>pu_Scheme := to_lower (pu_Scheme u), pu_Host := to_lower (pu_Host u)\<rparr>"

definition new_subscription_source :: "client_env \<Rightarrow> string \<Rightarrow> go_error + subscription_source" where
  "new_subscription_source e raw =
     (let url = trim_space raw
      in if url = [] then Inl (ErrorString ''url is required'')
         else (case re_url (render_env.truncate e) url of
                 None \<Rightarrow> Inl (WrapError ''invalid URL: '' (le_url_error e))
               | Some parsed \<Rightarrow>
                   (let u = lowered_url parsed; host = trim_space (url_hostname u)
                    in if pu_Scheme u \<noteq> ''http'' \<and> pu_Scheme u \<noteq> ''https''
                       then Inl (ErrorString ''subscription URL scheme must be http or https'')
                       else if host = [] then Inl (ErrorString ''subscription URL host is required'')
                       else if is_disallowed_subscription_endpoint host
                       then Inl (ErrorString ''subscription URL host is local, private, or reserved'')
                       else Inr \<lparr>sn_ProviderKey = provider_key_for (le_url_string e u), sn_URL = le_url_string e u\<rparr>)))"

datatype error_kind = ErrorInvalidParams | ErrorConfig | ErrorInternal

definition classify_error :: "client_env \<Rightarrow> string \<Rightarrow> go_error \<Rightarrow> error_kind" where
  "classify_error e raw err =
     (case new_subscription_source e raw of
        Inl _ \<Rightarrow> ErrorInvalidParams
      | Inr _ \<Rightarrow> if err_no_supported_nodes \<in> set (error_chain err) then ErrorConfig else ErrorInternal)"

section \<open>Fetching\<close>

record fetch_result =
  fr_Status :: int
  fr_Body :: string
  fr_Headers :: env

definition no_fetch :: fetch_result where
  "no_fetch = \<lparr>fr_Status = 0, fr_Body = [], fr_Headers = Map.empty\<rparr>"

text \<open>
  The client: the fetcher, whether it takes a context itself, the error of the context, the clock in milliseconds, and
  the order in which the headers are read.
\<close>

record 'w client =
  cl_fetch :: "string \<Rightarrow> 'w \<Rightarrow> (fetch_result \<times> go_error option) \<times> 'w"
  cl_contextual :: bool
  cl_ctx_err :: "'w \<Rightarrow> go_error option \<times> 'w"
  cl_now_millis :: "'w \<Rightarrow> int \<times> 'w"
  cl_order :: "string list"

definition fetch_with_context :: "'w client \<Rightarrow> string \<Rightarrow> 'w \<Rightarrow> (fetch_result \<times> go_error option) \<times> 'w" where
  "fetch_with_context c url w =
     (case cl_ctx_err c w of
        (Some err, w1) \<Rightarrow> ((no_fetch, Some err), w1)
      | (None, w1) \<Rightarrow>
          (case cl_fetch c url w1 of
             ((r, Some err), w2) \<Rightarrow> ((r, Some err), w2)
           | ((r, None), w2) \<Rightarrow>
               if cl_contextual c then ((r, None), w2)
               else (let (err, w3) = cl_ctx_err c w2 in ((r, err), w3))))"

record parsed_fetch =
  pf_Source :: subscription_source
  pf_Parsed :: parsed_body
  pf_Fetch :: fetch_result

definition no_source :: subscription_source where
  "no_source = \<lparr>sn_ProviderKey = [], sn_URL = []\<rparr>"

text \<open>On an error: the source and what was fetched; otherwise the parsed body too.\<close>

definition fetch_and_parse ::
  "client_env \<Rightarrow> 'w client \<Rightarrow> string \<Rightarrow> 'w \<Rightarrow> ((subscription_source \<times> fetch_result \<times> go_error) + parsed_fetch) outcome \<times> 'w" where
  "fetch_and_parse e c raw w =
     (case new_subscription_source e raw of
        Inl err \<Rightarrow> (Returns (Inl (no_source, no_fetch, err)), w)
      | Inr source \<Rightarrow>
          (let (now, w1) = cl_now_millis c w
           in case fetch_with_context c (sn_URL source) w1 of
                ((fetched, Some err), w2) \<Rightarrow> (Returns (Inl (source, fetched, err)), w2)
              | ((fetched, None), w2) \<Rightarrow>
                  (case parse_subscription (link_env.truncate e) (le_url_error e) (fr_Body fetched) (fr_Headers fetched)
                           (cl_order c) source now of
                     Panics \<Rightarrow> (Panics, w2)
                   | Fails err \<Rightarrow> (Fails err, w2)
                   | Returns parsed \<Rightarrow>
                       (Returns (Inr \<lparr>pf_Source = source, pf_Parsed = parsed, pf_Fetch = fetched\<rparr>), w2))))"

section \<open>Preview and refresh\<close>

definition no_subscription :: profile_subscription where
  "no_subscription = \<lparr>su_ProviderKey = [], su_URL = [], su_Name = [], su_LastFetchedAt = 0, su_LastSeenNodeCount = 0,
     su_StaleNodeCount = 0, su_UploadBytes = 0, su_DownloadBytes = 0, su_TotalBytes = 0, su_ExpireTimestamp = 0,
     su_ParseFailures = 0\<rparr>"

definition failed_preview :: "subscription_source \<Rightarrow> fetch_result \<Rightarrow> preview_result" where
  "failed_preview source fetched =
     \<lparr>pr_PreviewID = [], pr_Source = source, pr_Subscription = no_subscription, pr_Nodes = [], pr_RejectedNodes = [],
      pr_Rejected = 0, pr_Added = 0, pr_Updated = 0, pr_Unchanged = 0, pr_Stale = 0, pr_ParseFailures = 0,
      pr_FetchStatus = fr_Status fetched, pr_FetchHeaders = fr_Headers fetched\<rparr>"

definition parsed_preview :: "parsed_fetch \<Rightarrow> profile_node list \<Rightarrow> merge_stats \<Rightarrow> preview_result" where
  "parsed_preview p nodes stats =
     \<lparr>pr_PreviewID = [], pr_Source = pf_Source p, pr_Subscription = pb_Subscription (pf_Parsed p), pr_Nodes = nodes,
      pr_RejectedNodes = pb_Rejected (pf_Parsed p), pr_Rejected = length (pb_Rejected (pf_Parsed p)),
      pr_Added = mst_added stats, pr_Updated = mst_updated stats, pr_Unchanged = mst_unchanged stats,
      pr_Stale = mst_stale stats, pr_ParseFailures = pb_Failures (pf_Parsed p),
      pr_FetchStatus = fr_Status (pf_Fetch p), pr_FetchHeaders = fr_Headers (pf_Fetch p)\<rparr>"

text \<open>The merge is done for its numbers; it also marks the incoming nodes as the provider's.\<close>

definition preview_context ::
  "client_env \<Rightarrow> 'w client \<Rightarrow> nat \<Rightarrow> string \<Rightarrow> document \<Rightarrow> 'w \<Rightarrow> (preview_result \<times> go_error option) outcome \<times> 'w" where
  "preview_context e c spare raw current w =
     (case fetch_and_parse e c raw w of
        (Panics, w1) \<Rightarrow> (Panics, w1)
      | (Fails err, w1) \<Rightarrow> (Fails err, w1)
      | (Returns (Inl (source, fetched, err)), w1) \<Rightarrow> (Returns (failed_preview source fetched, Some err), w1)
      | (Returns (Inr p), w1) \<Rightarrow>
          (let ((_, stats), _, incoming) = merge_subscription_nodes spare current
                 (pb_Subscription (pf_Parsed p)) (pb_Nodes (pf_Parsed p))
           in (Returns (parsed_preview p incoming stats, None), w1)))"

definition failed_refresh :: "preview_result \<Rightarrow> document \<Rightarrow> refresh_result" where
  "failed_refresh preview doc =
     \<lparr>rf_Source = pr_Source preview, rf_Profile = doc, rf_Subscription = pr_Subscription preview, rf_Nodes = [],
      rf_RejectedNodes = pr_RejectedNodes preview, rf_Merge = no_stats, rf_ParseFailures = pr_ParseFailures preview,
      rf_FetchStatus = pr_FetchStatus preview, rf_FetchHeaders = pr_FetchHeaders preview\<rparr>"

text \<open>
  A refresh and a committed preview: the result with the slice of nodes it shares with \<^verbatim>\<open>current\<close>, or an error
  with the fields that go into its reply.
\<close>

type_synonym refresh_outcome = "(refresh_result \<times> go_error) + (refresh_result \<times> profile_node shared)"

definition commit_preview :: "nat \<Rightarrow> document \<Rightarrow> preview_result \<Rightarrow> refresh_outcome" where
  "commit_preview spare current preview =
     (case apply_preview spare current preview of
        Inl err \<Rightarrow> Inl (failed_refresh preview current, err) | Inr r \<Rightarrow> Inr r)"

definition apply_refresh_context ::
  "client_env \<Rightarrow> 'w client \<Rightarrow> nat \<Rightarrow> string \<Rightarrow> document \<Rightarrow> 'w \<Rightarrow> refresh_outcome outcome \<times> 'w" where
  "apply_refresh_context e c spare raw current w =
     (case fetch_and_parse e c raw w of
        (Panics, w1) \<Rightarrow> (Panics, w1)
      | (Fails err, w1) \<Rightarrow> (Fails err, w1)
      | (Returns (Inl (source, fetched, err)), w1) \<Rightarrow>
          (Returns (Inl (failed_refresh (failed_preview source fetched) current, err)), w1)
      | (Returns (Inr p), w1) \<Rightarrow>
          (Returns (commit_preview spare current (parsed_preview p (pb_Nodes (pf_Parsed p)) no_stats)), w1))"

end
