(* ===== verification/ProfileHandlers.thy ===== *)
theory ProfileHandlers
  imports ProfileConfig ProfileRequests SubscriptionClient MutationEnvelope
begin

text \<open>
  The methods of the control plane that read and change the profile (\<^verbatim>\<open>control/profile_handlers.go\<close>).  A
  handler is a step on the state of the two stores and of the rest of the daemon; it is refused with an RPC error, it
  answers, or the panic of a function that it calls crashes it.  The callbacks of \<^verbatim>\<open>ProfileHandlers\<close>, which
  may be missing, are the fields of \<^verbatim>\<open>control\<close>; the wrappers without a context pass one that is never cancelled.
\<close>

section \<open>Handlers\<close>

datatype 'a answer = Crashed | Refused rpc_error | Answered 'a

record 'w control_state =
  cs_world :: 'w
  cs_batches :: import_batches
  cs_previews :: preview_cache

type_synonym ('w, 'a) handler = "'w control_state \<Rightarrow> 'a answer \<times> 'w control_state"

record 'w control =
  hd_current_config :: "('w \<Rightarrow> config option \<times> 'w) option"
  hd_persist :: "(config \<Rightarrow> bool \<Rightarrow> string \<Rightarrow> 'w \<Rightarrow> (transaction_result \<times> go_error option) \<times> 'w) option"
  hd_runtime_status :: "('w \<Rightarrow> (status \<times> bool) \<times> 'w) option"
  hd_ctx_err :: "'w \<Rightarrow> go_error option \<times> 'w"
  hd_now :: "'w \<Rightarrow> gtime \<times> 'w"
  hd_fresh_id :: "'w \<Rightarrow> (go_error + string) \<times> 'w"
  hd_manifest :: contract
  hd_requests :: request_codec
  hd_env :: profile_env
  hd_urls :: client_env
  hd_client :: "'w client"

definition hret :: "'a \<Rightarrow> ('w, 'a) handler" where
  "hret x s = (Answered x, s)"

definition hrefuse :: "rpc_error \<Rightarrow> ('w, 'a) handler" where
  "hrefuse e s = (Refused e, s)"

definition hbind :: "('w, 'a) handler \<Rightarrow> ('a \<Rightarrow> ('w, 'b) handler) \<Rightarrow> ('w, 'b) handler" where
  "hbind m f s =
     (case m s of (Crashed, s1) \<Rightarrow> (Crashed, s1) | (Refused e, s1) \<Rightarrow> (Refused e, s1) | (Answered x, s1) \<Rightarrow> f x s1)"

definition hworld :: "('w \<Rightarrow> 'a \<times> 'w) \<Rightarrow> ('w, 'a) handler" where
  "hworld call s = (let (x, w) = call (cs_world s) in (Answered x, s\<lparr>cs_world := w\<rparr>))"

text \<open>A decoded request, or the error of its parameters.\<close>

definition hparams :: "go_error + 'a \<Rightarrow> ('w, 'a) handler" where
  "hparams r = (case r of Inl e \<Rightarrow> hrefuse (rpc_error_of code_invalid_params (error_msg e)) | Inr x \<Rightarrow> hret x)"

definition rpc_error_from_context :: "'w control \<Rightarrow> ('w, unit) handler" where
  "rpc_error_from_context h =
     hbind (hworld (hd_ctx_err h)) (\<lambda>err.
       case err of
         None \<Rightarrow> hret ()
       | Some e \<Rightarrow> hrefuse (rpc_error_of code_internal_error (''request cancelled: '' @ error_msg e)))"

section \<open>The current profile\<close>

definition current_config :: "'w control \<Rightarrow> ('w, config) handler" where
  "current_config h =
     (case hd_current_config h of
        None \<Rightarrow> hrefuse (rpc_error_of code_internal_error ''config state provider is not configured'')
      | Some call \<Rightarrow>
          hbind (hworld call) (\<lambda>c.
            case c of
              None \<Rightarrow> hrefuse (rpc_error_of code_internal_error ''config state is not available'')
            | Some cfg \<Rightarrow> hret cfg))"

definition handler_runtime_status :: "'w control \<Rightarrow> ('w, status option) handler" where
  "handler_runtime_status h =
     (case hd_runtime_status h of
        None \<Rightarrow> hret None
      | Some call \<Rightarrow> hbind (hworld call) (\<lambda>(st, ok). hret (if ok then Some st else None)))"

text \<open>
  The document of the current configuration, and the capacity of its slice of nodes beyond their number:
  \<^verbatim>\<open>decodeNodes\<close> makes room for every stored node and leaves out those that do not decode.
\<close>

definition current_profile :: "'w control \<Rightarrow> ('w, document \<times> nat) handler" where
  "current_profile h =
     hbind (current_config h) (\<lambda>cfg.
       let doc = from_config (pe_doc (hd_env h)) cfg
       in hret (doc, length (pp_Nodes (cf_Profile cfg)) - length (do_Nodes doc)))"

definition persist_config_mutation ::
  "'w control \<Rightarrow> config \<Rightarrow> bool \<Rightarrow> string \<Rightarrow> ('w, transaction_result \<times> go_error option) handler" where
  "persist_config_mutation h cfg reload action =
     (case hd_persist h of
        None \<Rightarrow> hret (empty_transaction_result, Some (ErrorString ''profile mutation callback is not configured''))
      | Some call \<Rightarrow> hworld (call cfg reload action))"

definition status_provider_missing :: rpc_error where
  "status_provider_missing = rpc_error_of code_internal_error ''runtime status provider is not configured''"

section \<open>Applying a profile\<close>

definition apply_profile_context ::
  "'w control \<Rightarrow> document \<Rightarrow> bool \<Rightarrow> string \<Rightarrow> int \<Rightarrow> ('w, reply_map) handler" where
  "apply_profile_context h doc reload action updated =
     hbind (rpc_error_from_context h) (\<lambda>_.
     hbind (handler_runtime_status h) (\<lambda>before0.
     case before0 of
       None \<Rightarrow> hrefuse status_provider_missing
     | Some before \<Rightarrow>
         hbind (current_config h) (\<lambda>current.
         case apply_to_config (hd_env h) (Some current) doc of
           (Inl err, warnings) \<Rightarrow>
             hrefuse (profile_validation_rpc_error (hd_manifest h) action before err warnings updated)
         | (Inr next_cfg, warnings) \<Rightarrow>
             hbind (rpc_error_from_context h) (\<lambda>_.
             hbind (persist_config_mutation h next_cfg reload action) (\<lambda>(mutation, err).
             hbind (handler_runtime_status h) (\<lambda>after.
               let st = (case after of Some st \<Rightarrow> st | None \<Rightarrow> before)
               in case err of
                    Some e \<Rightarrow> hrefuse (profile_rpc_error (hd_manifest h) action e (tr_ConfigSaved mutation) st before
                                      warnings updated)
                  | None \<Rightarrow>
                      hret (put ''profile'' (RDocument (from_config (pe_doc (hd_env h)) next_cfg))
                        (profile_success (hd_manifest h) action reload (tr_RuntimeWasRunning mutation) st before
                           warnings updated mutation))))))))"

definition profile_noop :: "'w control \<Rightarrow> document \<Rightarrow> string \<Rightarrow> int \<Rightarrow> ('w, reply_map) handler" where
  "profile_noop h doc action updated =
     hbind (handler_runtime_status h) (\<lambda>st.
       case st of
         None \<Rightarrow> hrefuse status_provider_missing
       | Some st \<Rightarrow>
           (let gen = ap_generation (st_applied_state st)
            in hret (put ''profile'' (RDocument doc) (put ''runtimeStatus'' (RStatus st) (put ''ok'' (RBool True)
                 (profile_operation (hd_manifest h) action ''noop'' False False ''not_requested'' gen gen [] [] None []
                    updated))))))"

section \<open>Reading and replacing\<close>

definition profile_get :: "'w control \<Rightarrow> ('w, document) handler" where
  "profile_get h = hbind (current_profile h) (\<lambda>(doc, _). hret doc)"

definition profile_apply :: "'w control \<Rightarrow> string option \<Rightarrow> ('w, reply_map) handler" where
  "profile_apply h params =
     hbind (hparams (decode_profile_apply_params (hd_requests h) params)) (\<lambda>(doc, reload).
       apply_profile_context h doc reload ''profile.apply'' (-1))"

text \<open>What most methods start with: the request, the context, and the current profile.\<close>

definition with_profile ::
  "'w control \<Rightarrow> go_error + 'a \<Rightarrow> ('a \<Rightarrow> document \<Rightarrow> nat \<Rightarrow> ('w, 'b) handler) \<Rightarrow> ('w, 'b) handler" where
  "with_profile h request body =
     hbind (hparams request) (\<lambda>x.
     hbind (rpc_error_from_context h) (\<lambda>_.
     hbind (current_profile h) (\<lambda>(current, spare). body x current spare)))"

section \<open>Importing nodes\<close>

text \<open>Time in milliseconds for \<^verbatim>\<open>UnixMilli\<close>, which rounds towards the past.\<close>

definition unix_milli :: "gtime \<Rightarrow> int" where "unix_milli t = t div millisecond"

definition profile_import_nodes :: "'w control \<Rightarrow> string option \<Rightarrow> ('w, reply_map) handler" where
  "profile_import_nodes h params =
     hbind (hworld (hd_now h)) (\<lambda>now.
     with_profile h (decode_import_nodes_params (hd_requests h) params (unix_milli now)) (\<lambda>(nodes, reload) current spare.
       let ((next_doc, stats), _) = merge_nodes spare current nodes
       in hbind (apply_profile_context h next_doc reload ''profile.importNodes'' (int (length nodes))) (\<lambda>result.
            hret (put ''merge'' (RStats stats) (put ''imported'' (RInt (int (length nodes))) result)))))"

definition batch_state_reply :: "import_batch_state \<Rightarrow> reply_map" where
  "batch_state_reply st =
     [(''batchId'', RStr (bs_BatchID st)), (''totalBatches'', RInt (bs_TotalBatches st)),
      (''receivedBatches'', RInt (int (bs_ReceivedBatches st))), (''receivedNodes'', RInt (int (bs_ReceivedNodes st))),
      (''ready'', RBool (bs_Ready st))]"

definition profile_import_nodes_batch :: "'w control \<Rightarrow> string option \<Rightarrow> ('w, reply_map) handler" where
  "profile_import_nodes_batch h params =
     hbind (hworld (hd_now h)) (\<lambda>now.
     hbind (hparams (decode_import_nodes_batch_params (hd_requests h) params (unix_milli now))) (\<lambda>(batch_id, count, nodes).
     hbind (rpc_error_from_context h) (\<lambda>_.
     hbind (hworld (hd_now h)) (\<lambda>added_at s.
       let (r, batches) = import_add added_at batch_id count nodes added_at (cs_batches s)
       in hbind (hparams r) (\<lambda>st. hret (batch_state_reply st)) (s\<lparr>cs_batches := batches\<rparr>)))))"

definition profile_commit_import_batch :: "'w control \<Rightarrow> string option \<Rightarrow> ('w, reply_map) handler" where
  "profile_commit_import_batch h params =
     hbind (hparams (decode_commit_import_batch_params (hd_requests h) params)) (\<lambda>(batch_id, reload).
     hbind (rpc_error_from_context h) (\<lambda>_.
     hbind (hworld (hd_now h)) (\<lambda>now s.
       let ((r, st), batches) = import_commit now batch_id now (cs_batches s)
       in (case r of
             Inl e \<Rightarrow>
               hrefuse \<lparr>rpc_Code = code_invalid_params, rpc_Message = error_msg e,
                        rpc_Data = Some (RMap (batch_state_reply st))\<rparr>
           | Inr nodes \<Rightarrow>
               hbind (current_profile h) (\<lambda>(current, spare).
                 let ((next_doc, stats), _) = merge_nodes spare current nodes
                 in hbind (apply_profile_context h next_doc reload ''profile.commitImportBatch'' (int (length nodes)))
                      (\<lambda>result. hret (put ''merge'' (RStats stats) (put ''imported'' (RInt (int (length nodes)))
                         (put ''totalBatches'' (RInt (bs_TotalBatches st)) (put ''batchId'' (RStr (bs_BatchID st)) result)))))))
          (s\<lparr>cs_batches := batches\<rparr>))))"

section \<open>Changing the profile\<close>

definition profile_set_active_node :: "'w control \<Rightarrow> string option \<Rightarrow> ('w, reply_map) handler" where
  "profile_set_active_node h params =
     with_profile h (decode_set_active_node_params (hd_requests h) params) (\<lambda>(node_id, reload) current _.
       hbind (hparams (set_active_node current node_id)) (\<lambda>next_doc.
         if do_ActiveNodeID current = node_id then profile_noop h current ''profile.setActiveNode'' 0
         else apply_profile_context h next_doc reload ''profile.setActiveNode'' 1))"

definition patched :: "profile_patch \<Rightarrow> document \<Rightarrow> document" where
  "patched p doc =
     doc\<lparr>do_Routing := (case pt_Routing p of Some r \<Rightarrow> r | None \<Rightarrow> do_Routing doc),
         do_DNS := (case pt_DNS p of Some d \<Rightarrow> d | None \<Rightarrow> do_DNS doc),
         do_Inbounds := (case pt_Inbounds p of Some i \<Rightarrow> i | None \<Rightarrow> do_Inbounds doc)\<rparr>"

definition select_node :: "document \<Rightarrow> string \<Rightarrow> go_error + document" where
  "select_node doc node_id = (if node_id = [] then Inr (clear_active_node doc) else set_active_node doc node_id)"

definition handle_profile_patch :: "'w control \<Rightarrow> string option \<Rightarrow> ('w, reply_map) handler" where
  "handle_profile_patch h params =
     with_profile h (decode_profile_patch_params (hd_requests h) params) (\<lambda>p current _.
       let active_only = (pt_Routing p = None \<and> pt_DNS p = None \<and> pt_Inbounds p = None);
           same = (do_ActiveNodeID current = pt_ActiveNodeID p);
           apply_patch = (\<lambda>doc. apply_profile_context h (patched p doc) (pt_Reload p) ''profile.patch'' (-1))
       in if \<not> pt_HasActiveNodeID p then apply_patch current
          else hbind (hparams (select_node current (pt_ActiveNodeID p))) (\<lambda>selected.
                 if active_only \<and> same then profile_noop h current ''profile.patch'' 0 else apply_patch selected))"

text \<open>A node is removed, and the sections are replaced, the same way.\<close>

definition profile_node_remove :: "'w control \<Rightarrow> string option \<Rightarrow> ('w, reply_map) handler" where
  "profile_node_remove h params =
     with_profile h (decode_node_remove_params (hd_requests h) params) (\<lambda>(node_id, reload) current _.
       hbind (hparams (remove_node current node_id)) (\<lambda>next_doc.
         apply_profile_context h next_doc reload ''profile.node.remove'' 1))"

definition profile_routing_patch :: "'w control \<Rightarrow> string option \<Rightarrow> ('w, reply_map) handler" where
  "profile_routing_patch h params =
     with_profile h (decode_routing_patch_params (hd_requests h) params) (\<lambda>(routing, reload) current _.
       apply_profile_context h (current\<lparr>do_Routing := routing\<rparr>) reload ''profile.routing.patch'' (-1))"

definition profile_dns_patch :: "'w control \<Rightarrow> string option \<Rightarrow> ('w, reply_map) handler" where
  "profile_dns_patch h params =
     with_profile h (decode_dns_patch_params (hd_requests h) params) (\<lambda>(dns, reload) current _.
       apply_profile_context h (current\<lparr>do_DNS := dns\<rparr>) reload ''profile.dns.patch'' (-1))"

definition profile_inbound_patch :: "'w control \<Rightarrow> string option \<Rightarrow> ('w, reply_map) handler" where
  "profile_inbound_patch h params =
     with_profile h (decode_inbound_patch_params (hd_requests h) params) (\<lambda>(inbounds, reload) current _.
       apply_profile_context h (current\<lparr>do_Inbounds := inbounds\<rparr>) reload ''profile.inbound.patch'' (-1))"

section \<open>Adding or changing a node\<close>

definition profile_node_by_id :: "profile_node list \<Rightarrow> string \<Rightarrow> profile_node option" where
  "profile_node_by_id nodes node_id = find (\<lambda>n. trim_space (nd_ID n) = trim_space node_id) nodes"

definition same_node_runtime_projection :: "profile_node \<Rightarrow> profile_node \<Rightarrow> bool" where
  "same_node_runtime_projection a b \<longleftrightarrow>
     trim_space (nd_ID a) = trim_space (nd_ID b) \<and>
     equal_fold (trim_space (nd_Protocol a)) (trim_space (nd_Protocol b)) \<and>
     trim_space (nd_Server a) = trim_space (nd_Server b) \<and> nd_Port a = nd_Port b \<and>
     trim_space (nd_Link a) = trim_space (nd_Link b) \<and>
     trim_space (nd_OwnerPackage a) = trim_space (nd_OwnerPackage b) \<and>
     nd_Stale a = nd_Stale b \<and> nd_Outbound a = nd_Outbound b"

definition strip_node_non_runtime_metadata :: "profile_node \<Rightarrow> profile_node" where
  "strip_node_non_runtime_metadata n =
     n\<lparr>nd_Name := [], nd_Group := [], nd_LatencyMS := None, nd_ResponseMS := None, nd_ThroughputBps := None,
       nd_TestStatus := [], nd_CreatedAt := 0, nd_Source := (nd_Source n)\<lparr>so_LastSeenAt := 0\<rparr>\<rparr>"

text \<open>
  The loops over the nodes of the copies: a copy of a document shares its slice, so that stripping the nodes of one
  strips those of every document with the same array, the callers' included.
\<close>

definition strip_matching :: "string \<Rightarrow> profile_node \<Rightarrow> profile_node" where
  "strip_matching node_id n = (if nd_ID n = node_id then strip_node_non_runtime_metadata n else n)"

definition strip_shared :: "string \<Rightarrow> profile_node shared \<Rightarrow> profile_node shared" where
  "strip_shared node_id s =
     (let strip = strip_matching node_id; n = length (sh_caller s);
          items = (if sh_aliased s then map strip (take n (sh_items s)) @ drop n (sh_items s) else sh_items s);
          caller = map strip (sh_caller s)
      in s\<lparr>sh_items := map strip items,
           sh_caller := (if sh_aliased s then map strip caller else caller)\<rparr>)"

definition node_upsert_only_non_runtime_metadata_changed ::
  "document \<Rightarrow> document \<Rightarrow> string \<Rightarrow> profile_node shared \<Rightarrow> bool \<times> profile_node shared" where
  "node_upsert_only_non_runtime_metadata_changed current next_doc node_id s =
     (case (profile_node_by_id (sh_caller s) node_id, profile_node_by_id (sh_items s) node_id) of
        (Some a, Some b) \<Rightarrow>
          if \<not> same_node_runtime_projection a b then (False, s)
          else (let s1 = strip_shared node_id s
                in (current\<lparr>do_Nodes := sh_caller s1\<rparr> = next_doc\<lparr>do_Nodes := sh_items s1\<rparr>, s1))
      | _ \<Rightarrow> (False, s))"

definition profile_node_upsert :: "'w control \<Rightarrow> string option \<Rightarrow> ('w, reply_map) handler" where
  "profile_node_upsert h params =
     with_profile h (decode_node_upsert_params (hd_requests h) params) (\<lambda>(node, reload) current spare.
       hbind (hparams (upsert_node spare current node)) (\<lambda>(next_doc, buf).
         let (only_metadata, buf1) =
               (if reload then node_upsert_only_non_runtime_metadata_changed current next_doc (nd_ID node) buf
                else (False, buf))
         in apply_profile_context h (next_doc\<lparr>do_Nodes := sh_items buf1\<rparr>) (reload \<and> \<not> only_metadata)
              ''profile.node.upsert'' 1))"

section \<open>Subscriptions\<close>

text \<open>The headers and rejected nodes go into the reply as they are.\<close>

definition subscription_rpc_error ::
  "'w control \<Rightarrow> string \<Rightarrow> int \<Rightarrow> env \<Rightarrow> refresh_result option \<Rightarrow> go_error \<Rightarrow> rpc_error" where
  "subscription_rpc_error h url status headers refresh err =
     \<lparr>rpc_Code = (case classify_error (hd_urls h) url err of
                    ErrorInvalidParams \<Rightarrow> code_invalid_params
                  | ErrorConfig \<Rightarrow> code_config_error | ErrorInternal \<Rightarrow> code_internal_error),
      rpc_Message = error_msg err,
      rpc_Data = Some (RMap ([(''status'', RInt status), (''headers'', RStrings headers)] @
        (case refresh of None \<Rightarrow> []
         | Some r \<Rightarrow> [(''parseFailures'', RInt (int (rf_ParseFailures r))),
                      (''rejected'', RInt (int (length (rf_RejectedNodes r)))),
                      (''rejectedNodes'', RRejected (rf_RejectedNodes r)),
                      (''subscription'', RSubscription (rf_Subscription r)), (''source'', RSource (rf_Source r))])))\<rparr>"

definition houtcome :: "('w \<Rightarrow> 'a outcome \<times> 'w) \<Rightarrow> ('w, 'a) handler" where
  "houtcome call s =
     (let (r, w) = call (cs_world s); s1 = s\<lparr>cs_world := w\<rparr>
      in case r of
           Panics \<Rightarrow> (Crashed, s1)
         | Fails e \<Rightarrow> (Refused (rpc_error_of code_internal_error (error_msg e)), s1)
         | Returns x \<Rightarrow> (Answered x, s1))"

definition subscription_preview :: "'w control \<Rightarrow> string option \<Rightarrow> ('w, preview_result) handler" where
  "subscription_preview h params =
     with_profile h (decode_subscription_url_params (hd_requests h) params) (\<lambda>(url, _) current spare.
       hbind (houtcome (preview_context (hd_urls h) (hd_client h) spare url current)) (\<lambda>(preview, err).
         case err of
           Some e \<Rightarrow> hrefuse (subscription_rpc_error h url (pr_FetchStatus preview) (pr_FetchHeaders preview) None e)
         | None \<Rightarrow>
             hbind (rpc_error_from_context h) (\<lambda>_.
             hbind (hworld (hd_now h)) (\<lambda>now.
             hbind (hworld (hd_fresh_id h)) (\<lambda>fresh s.
               let (r, previews) = preview_put now fresh preview now (cs_previews s)
               in (case r of
                     Inl e \<Rightarrow> hrefuse (rpc_error_of code_internal_error (error_msg e))
                   | Inr preview_id \<Rightarrow> hret (preview\<lparr>pr_PreviewID := preview_id\<rparr>))
                  (s\<lparr>cs_previews := previews\<rparr>))))))"

definition subscription_refresh_reload_default :: "document \<Rightarrow> profile_node list \<Rightarrow> document \<Rightarrow> bool" where
  "subscription_refresh_reload_default current nodes next_doc =
     (let active = trim_space (do_ActiveNodeID current)
      in if active = [] \<or> trim_space (do_ActiveNodeID next_doc) \<noteq> active then True
         else (case (profile_node_by_id nodes active, profile_node_by_id (do_Nodes next_doc) active) of
                 (Some a, Some b) \<Rightarrow> \<not> same_node_runtime_projection a b
               | _ \<Rightarrow> True))"

definition refresh_fields :: "refresh_result \<Rightarrow> reply_map \<Rightarrow> reply_map" where
  "refresh_fields r result =
     put ''merge'' (RStats (rf_Merge r)) (put ''rejectedNodes'' (RRejected (rf_RejectedNodes r))
     (put ''rejected'' (RInt (int (length (rf_RejectedNodes r))))
     (put ''parseFailures'' (RInt (int (rf_ParseFailures r))) (put ''imported'' (RInt (int (length (rf_Nodes r))))
     (put ''subscription'' (RSubscription (rf_Subscription r)) (put ''source'' (RSource (rf_Source r)) result))))))"

definition apply_subscription_refresh_context ::
  "'w control \<Rightarrow> refresh_result \<Rightarrow> string \<Rightarrow> bool \<Rightarrow> ('w, reply_map) handler" where
  "apply_subscription_refresh_context h refresh action reload =
     hbind (apply_profile_context h (rf_Profile refresh) reload action (int (length (rf_Nodes refresh)))) (\<lambda>result.
       hret (refresh_fields refresh result))"

text \<open>
  The end of a refresh and of a commit.  The nodes of \<^verbatim>\<open>current\<close> are read after the merge has written into
  their array.
\<close>

definition finish_refresh ::
  "'w control \<Rightarrow> string \<Rightarrow> string \<Rightarrow> bool option \<Rightarrow> document \<Rightarrow> refresh_outcome \<Rightarrow> ('w, reply_map) handler" where
  "finish_refresh h url action reload current r =
     (case r of
        Inl (refresh, err) \<Rightarrow>
          hrefuse (subscription_rpc_error h url (rf_FetchStatus refresh) (rf_FetchHeaders refresh) (Some refresh) err)
      | Inr (refresh, buf) \<Rightarrow>
          hbind (rpc_error_from_context h) (\<lambda>_.
            apply_subscription_refresh_context h refresh action
              (case reload of
                 Some b \<Rightarrow> b
               | None \<Rightarrow> subscription_refresh_reload_default current (sh_caller buf) (rf_Profile refresh))))"

definition subscription_refresh :: "'w control \<Rightarrow> string option \<Rightarrow> ('w, reply_map) handler" where
  "subscription_refresh h params =
     with_profile h (decode_subscription_url_params (hd_requests h) params) (\<lambda>(url, reload) current spare.
       hbind (houtcome (apply_refresh_context (hd_urls h) (hd_client h) spare url current)) (\<lambda>r.
         finish_refresh h url ''subscription.refresh'' reload current r))"

definition subscription_commit_preview :: "'w control \<Rightarrow> string option \<Rightarrow> ('w, reply_map) handler" where
  "subscription_commit_preview h params =
     with_profile h (decode_commit_subscription_preview_params (hd_requests h) params) (\<lambda>(preview_id, reload) current spare.
       hbind (hworld (hd_now h)) (\<lambda>now s.
         let (taken, previews) = preview_take now preview_id now (cs_previews s)
         in (case taken of
               None \<Rightarrow> hrefuse (rpc_error_of code_invalid_params ''subscription preview is missing or expired'')
             | Some preview \<Rightarrow>
                 finish_refresh h (sn_URL (pr_Source preview)) ''subscription.commitPreview'' reload current
                   (commit_preview spare current preview))
            (s\<lparr>cs_previews := previews\<rparr>)))"

end
