(* ===== verification/RendererReferences.thy ===== *)
theory RendererReferences
  imports ProfileConfig
begin

text \<open>
  The references inside a rendered configuration.  sing-box refuses a configuration that names an outbound, a DNS
  server or a rule set that is not there; the code builds the names in one place and the definitions in another.
  The lemmas collect the names that each builder defines and the names to which it refers.
\<close>

section \<open>Names and references of a JSON value\<close>

definition objects :: "json_map \<Rightarrow> string \<Rightarrow> json_map list" where
  "objects m key =
     (case json_field m key of
        JList vs \<Rightarrow> concat (map (\<lambda>v. case v of JObj fs \<Rightarrow> [fs] | _ \<Rightarrow> []) vs)
      | _ \<Rightarrow> [])"

abbreviation tag_of :: "json_map \<Rightarrow> string" where
  "tag_of m \<equiv> json_string_from_map m ''tag''"

definition tags_of :: "json_map list \<Rightarrow> string set" where
  "tags_of ms = tag_of ` set ms"

definition refers :: "json_map \<Rightarrow> string \<Rightarrow> string set" where
  "refers m key = set (string_slice_from_map m key)"

definition refers_within :: "json_map list \<Rightarrow> string \<Rightarrow> string set \<Rightarrow> bool" where
  "refers_within ms key names \<longleftrightarrow> (\<forall>m\<in>set ms. refers m key \<subseteq> names)"

lemma tags_of_simps [simp]:
  "tags_of [] = {}" "tags_of (m # ms) = insert (tag_of m) (tags_of ms)" "tags_of (ms @ ns) = tags_of ms \<union> tags_of ns"
  by (auto simp: tags_of_def)

lemma refers_within_simps [simp]:
  "refers_within [] key names"
  "refers_within (m # ms) key names \<longleftrightarrow> refers m key \<subseteq> names \<and> refers_within ms key names"
  "refers_within (ms @ ns) key names \<longleftrightarrow> refers_within ms key names \<and> refers_within ns key names"
  by (auto simp: refers_within_def)

lemma refers_within_concat [simp]:
  "refers_within (concat mss) key names \<longleftrightarrow> (\<forall>ms\<in>set mss. refers_within ms key names)"
  by (auto simp: refers_within_def)

lemma refers_within_mono: "refers_within ms key names \<Longrightarrow> names \<subseteq> more_names \<Longrightarrow> refers_within ms key more_names"
  by (auto simp: refers_within_def)

lemma json_field_simps [simp]:
  "json_field [] key = JNull"
  "json_field ((k, v) # m) key = (if k = key then v else json_field m key)"
  by (simp_all add: json_field_def)

lemma json_field_append:
  "json_field (m @ n) key = (if key \<in> fst ` set m then json_field m key else json_field n key)"
  by (auto simp: json_field_def map_add_def dom_map_of_conv_image_fst[symmetric] split: option.split)

lemma json_field_absent: "key \<notin> fst ` set m \<Longrightarrow> json_field m key = JNull"
  by (simp add: json_field_def map_of_eq_None_iff[THEN iffD2])

lemma string_slice_jstrs: "json_field m key = jstrs xs \<Longrightarrow> set (string_slice_from_map m key) = set xs - {[]}"
  by (auto simp: string_slice_from_map_def jstrs_def slice_string_def)

lemma refers_list: "json_field m key = jstrs xs \<Longrightarrow> refers m key = set xs - {[]}"
  by (simp add: refers_def string_slice_jstrs)

lemma refers_text: "json_field m key = JStr s \<Longrightarrow> refers m key = {s} - {[]}"
  by (auto simp: refers_def string_slice_from_map_def json_string_from_map_def Let_def)

lemma refers_null: "json_field m key = JNull \<Longrightarrow> refers m key = {}"
  by (simp add: refers_def string_slice_from_map_def json_string_from_map_def Let_def)

lemma tag_of_Cons [simp]:
  "tag_of ((k, v) # m) =
     (if k = ''tag'' then (case v of JStr s \<Rightarrow> s | JInt i \<Rightarrow> int_str i | _ \<Rightarrow> []) else tag_of m)"
  by (simp add: json_string_from_map_def)

lemma objects_field: "json_field m key = JList (map JObj ms) \<Longrightarrow> objects m key = ms"
  by (simp add: objects_def comp_def)

lemma jwhen_keys: "fst ` set (jwhen b m) \<subseteq> fst ` set m"
  by (auto simp: jwhen_def)

section \<open>The outbounds of the nodes\<close>

text \<open>The keys that a builder of fields may set.\<close>

definition keys_in :: "(go_error + json_map) \<Rightarrow> string set \<Rightarrow> bool" where
  "keys_in r ks = (case r of Inl _ \<Rightarrow> True | Inr m \<Rightarrow> fst ` set m \<subseteq> ks)"

definition protocol_keys :: "string set" where
  "protocol_keys = {''type'', ''uuid'', ''flow'', ''packet_encoding'', ''tls'', ''password'', ''alter_id'', ''security'',
     ''method'', ''plugin'', ''plugin_opts'', ''version'', ''username'', ''network'', ''server_ports'', ''obfs'',
     ''congestion_control'', ''udp_relay_mode'', ''udp_over_stream'', ''zero_rtt_handshake'', ''heartbeat'',
     ''private_key'', ''peer_public_key'', ''local_address'', ''pre_shared_key'', ''mtu'', ''reserved''}"

lemma keys_of_optional_fields [simp]:
  "fst ` set (jwhen b m) \<subseteq> ks \<longleftrightarrow> \<not> b \<or> fst ` set m \<subseteq> ks"
  "fst ` set (jtext k v) \<subseteq> ks \<longleftrightarrow> v = [] \<or> k \<in> ks"
  "fst ` set (jslice k xs) \<subseteq> ks \<longleftrightarrow> xs = [] \<or> k \<in> ks"
  "fst ` set (tls_field p force) \<subseteq> ks \<longleftrightarrow> \<not> tls_enabled p force \<or> ''tls'' \<in> ks"
  by (auto simp: jwhen_def jtext_def jslice_def tls_field_def)

lemma keys_in_if [simp]: "keys_in (if b then x else y) ks \<longleftrightarrow> (if b then keys_in x ks else keys_in y ks)"
  by simp

lemma keys_in_simps [simp]: "keys_in (Inr m) ks \<longleftrightarrow> fst ` set m \<subseteq> ks" "keys_in (render_fail e) ks"
  by (simp_all add: keys_in_def render_fail_def)

lemma fields_keys:
  "keys_in (vless_fields p) protocol_keys" "keys_in (trojan_fields p) protocol_keys"
  "keys_in (vmess_fields p) protocol_keys" "keys_in (shadowsocks_fields p) protocol_keys"
  "keys_in (socks_fields p) protocol_keys" "keys_in (hysteria2_fields p) protocol_keys"
  "keys_in (tuic_fields p) protocol_keys" "keys_in (wireguard_fields p) protocol_keys"
  by (simp_all add: vless_fields_def trojan_fields_def vmess_fields_def shadowsocks_fields_def socks_fields_def
      hysteria2_fields_def tuic_fields_def wireguard_fields_def Let_def image_Un)
     (simp_all add: protocol_keys_def)

lemma protocol_fields_keys: "keys_in (protocol_fields p) protocol_keys"
  by (simp add: protocol_fields_def Let_def fields_keys)

lemma direct_proxy_outbound_fields:
  assumes "direct_proxy_outbound p = Inr out"
  shows "tag_of out = value_or_default (np_Tag p) ''proxy''"
    and "refers out ''domain_resolver'' \<subseteq> {''direct-dns''}"
    and "refers out ''outbounds'' = {}" and "refers out ''default'' = {}"
proof -
  obtain fs tp where fs: "protocol_fields p = Inr fs"
    and out: "out = [(''tag'', JStr (value_or_default (np_Tag p) ''proxy'')), (''server'', JStr (np_Address p)),
                    (''server_port'', JInt (np_Port p))] @
                   jwhen (is_domain_address (np_Address p)) [(''domain_resolver'', JStr ''direct-dns'')] @ fs @ tp"
    and tp: "fst ` set tp \<subseteq> {''transport''}"
    using assms unfolding direct_proxy_outbound_def Let_def
    by (auto split: sum.splits if_splits option.splits)
  have keys: "fst ` set fs \<subseteq> protocol_keys"
    using protocol_fields_keys [of p] by (simp add: fs keys_in_def)
  then have absent: "json_field fs key = JNull" if "key \<notin> protocol_keys" for key
    using that by (intro json_field_absent) auto
  have none: "json_field tp key = JNull" if "key \<noteq> ''transport''" for key
    using that tp by (intro json_field_absent) auto
  have rest: "json_field (fs @ tp) key = JNull" if "key \<notin> protocol_keys" "key \<noteq> ''transport''" for key
    using that by (simp add: json_field_append absent none)
  have "json_field (fs @ tp) ''domain_resolver'' = JNull" "json_field (fs @ tp) ''outbounds'' = JNull"
       "json_field (fs @ tp) ''default'' = JNull"
    by (rule rest; simp add: protocol_keys_def)+
  then show "tag_of out = value_or_default (np_Tag p) ''proxy''" "refers out ''domain_resolver'' \<subseteq> {''direct-dns''}"
    "refers out ''outbounds'' = {}" "refers out ''default'' = {}"
    by (simp_all add: out json_string_from_map_def jwhen_def refers_null refers_text)
qed

lemma build_proxy_outbound_fields:
  assumes "build_proxy_outbound p = Inr out"
  shows "tag_of out = value_or_default (np_Tag p) ''proxy''"
    and "refers out ''domain_resolver'' \<subseteq> {''direct-dns''}"
    and "refers out ''outbounds'' = {}" and "refers out ''default'' = {}"
  using direct_proxy_outbound_fields [OF assms[unfolded build_proxy_outbound_def]]
  by (simp_all add: sidecar_profile_def split: if_splits)

lemma render_all_map: "render_all f xs = Inr ys \<longleftrightarrow> map f xs = map Inr ys"
proof (induction xs arbitrary: ys)
  case (Cons x xs)
  show ?case
    by (cases ys; cases "f x"; cases "render_all f xs") (auto simp: Cons.IH [symmetric])
qed auto

lemma render_all_proxies:
  assumes "render_all build_proxy_outbound ps = Inr outs"
  shows "map tag_of outs = map (\<lambda>p. value_or_default (np_Tag p) ''proxy'') ps"
    and "refers_within outs ''domain_resolver'' {''direct-dns''}"
    and "refers_within outs ''outbounds'' names" and "refers_within outs ''default'' names"
proof -
  have len: "length outs = length ps" and nth: "\<And>i. i < length ps \<Longrightarrow> build_proxy_outbound (ps ! i) = Inr (outs ! i)"
    using assms by (auto simp: render_all_map list_eq_iff_nth_eq)
  show "map tag_of outs = map (\<lambda>p. value_or_default (np_Tag p) ''proxy'') ps"
    by (rule nth_equalityI) (simp_all add: len build_proxy_outbound_fields(1) [OF nth])
  show "refers_within outs ''domain_resolver'' {''direct-dns''}" "refers_within outs ''outbounds'' names"
       "refers_within outs ''default'' names"
    unfolding refers_within_def all_set_conv_all_nth len
    using build_proxy_outbound_fields(2-4) [OF nth] by auto
qed

section \<open>Groups and choices\<close>

lemma tag_nodes_tagged: "p \<in> set (tag_nodes ps) \<Longrightarrow> np_Tag p \<noteq> []"
  by (auto simp: tag_nodes_def split: if_splits)

lemma length_tag_nodes [simp]: "length (tag_nodes ps) = length ps"
  by (simp add: tag_nodes_def)

lemma index_of_SomeD: "index_of P xs = Some i \<Longrightarrow> i < length xs \<and> P (xs ! i)"
  by (induction xs arbitrary: i) (auto split: if_splits)

definition plan_ok :: "string set \<Rightarrow> group_plan \<Rightarrow> bool" where
  "plan_ok tags g \<longleftrightarrow> gp_tags g \<noteq> [] \<and> set (gp_tags g) \<subseteq> tags - {[]}"

lemma plan_node_ok:
  assumes "\<forall>g\<in>set plans. plan_ok tags g" "np_Tag p \<in> tags"
  shows "\<forall>g\<in>set (plan_node p plans). plan_ok tags g"
proof (cases "index_of (\<lambda>g. gp_name g = trim_space (np_Group p)) plans")
  case None
  then show ?thesis using assms by (auto simp: plan_node_def plan_ok_def Let_def split: if_splits)
next
  case (Some i)
  have "plan_ok tags ((plans ! i)\<lparr>gp_tags := gp_tags (plans ! i) @ [np_Tag p]\<rparr>)" if "np_Tag p \<noteq> []"
    using assms that index_of_SomeD [OF Some] by (auto simp: plan_ok_def)
  with Some assms show ?thesis
    by (auto simp: plan_node_def Let_def dest!: set_update_subset_insert[THEN subsetD])
qed

lemma build_group_outbound_plans_ok:
  assumes "\<forall>p\<in>set ps. np_Tag p \<in> tags"
  shows "\<forall>g\<in>set (build_group_outbound_plans ps). plan_ok tags g"
proof -
  have "\<forall>g\<in>set (fold plan_node ps plans). plan_ok tags g" if "\<forall>g\<in>set plans. plan_ok tags g" for plans
    using assms that
  proof (induction ps arbitrary: plans)
    case (Cons p ps)
    then show ?case using plan_node_ok [of plans tags p] by simp
  qed simp
  from this [of "[]"] show ?thesis by (simp add: build_group_outbound_plans_def)
qed

lemma choice_fields [simp]:
  "tag_of (urltest_outbound cfg t ms) = t" "tag_of (selector_outbound t ms c) = t"
  "refers (urltest_outbound cfg t ms) ''outbounds'' = set ms - {[]}"
  "refers (selector_outbound t ms c) ''outbounds'' = set ms - {[]}"
  "refers (urltest_outbound cfg t ms) ''default'' = {}"
  "refers (selector_outbound t ms c) ''default'' = {c} - {[]}"
  "refers (urltest_outbound cfg t ms) ''domain_resolver'' = {}"
  "refers (selector_outbound t ms c) ''domain_resolver'' = {}"
  by (simp_all add: urltest_outbound_def selector_outbound_def json_string_from_map_def refers_list refers_text refers_null)

lemma group_outbounds_refer:
  assumes "plan_ok tags g"
  shows "group_tag g \<in> tags_of (group_outbounds cfg g)"
    and "refers_within (group_outbounds cfg g) ''outbounds'' (tags \<union> tags_of (group_outbounds cfg g))"
    and "refers_within (group_outbounds cfg g) ''default'' (tags \<union> tags_of (group_outbounds cfg g))"
    and "refers_within (group_outbounds cfg g) ''domain_resolver'' {}"
  using assms by (cases "gp_tags g"; auto simp: plan_ok_def group_outbounds_def Let_def)+

lemma tags_of_concat: "tags_of (concat mss) = (\<Union>ms\<in>set mss. tags_of ms)"
  by (auto simp: tags_of_def)

lemma build_group_outbounds_refer:
  assumes "\<forall>g\<in>set plans. plan_ok tags g"
  shows "group_tag ` set plans \<subseteq> tags_of (build_group_outbounds cfg plans)"
    and "refers_within (build_group_outbounds cfg plans) ''outbounds'' (tags \<union> tags_of (build_group_outbounds cfg plans))"
    and "refers_within (build_group_outbounds cfg plans) ''default'' (tags \<union> tags_of (build_group_outbounds cfg plans))"
    and "refers_within (build_group_outbounds cfg plans) ''domain_resolver'' {}"
proof -
  have sub: "tags_of (group_outbounds cfg g) \<subseteq> tags_of (build_group_outbounds cfg plans)" if "g \<in> set plans" for g
    using that by (auto simp: build_group_outbounds_def tags_of_concat)
  show "group_tag ` set plans \<subseteq> tags_of (build_group_outbounds cfg plans)"
    using assms sub group_outbounds_refer(1) by blast
  have within: "refers_within (build_group_outbounds cfg plans) key names"
    if "\<And>g. g \<in> set plans \<Longrightarrow> refers_within (group_outbounds cfg g) key (local_names g)"
      and "\<And>g. g \<in> set plans \<Longrightarrow> local_names g \<subseteq> names" for key local_names names
    using that by (auto simp: build_group_outbounds_def intro: refers_within_mono)
  show "refers_within (build_group_outbounds cfg plans) ''outbounds'' (tags \<union> tags_of (build_group_outbounds cfg plans))"
       "refers_within (build_group_outbounds cfg plans) ''default'' (tags \<union> tags_of (build_group_outbounds cfg plans))"
    using assms sub by (auto intro!: within [where local_names = "\<lambda>g. tags \<union> tags_of (group_outbounds cfg g)"]
        group_outbounds_refer)
  show "refers_within (build_group_outbounds cfg plans) ''domain_resolver'' {}"
    using assms by (auto intro!: within [where local_names = "\<lambda>g. {}"] group_outbounds_refer)
qed

lemma active_profile_node_tag_in:
  "active_profile_node_tag cfg ps \<in> insert [] (np_Tag ` set ps)"
  by (auto simp: active_profile_node_tag_def Let_def find_Some_iff split: option.split)

lemma choice_outbounds_refer:
  fixes cfg ps
  assumes "group_tag ` set plans \<subseteq> groups"
  defines "outs \<equiv> choice_outbounds cfg ps plans"
  shows "refers_within outs ''outbounds'' (np_Tag ` set ps \<union> groups \<union> tags_of outs)"
    and "refers_within outs ''default'' (np_Tag ` set ps \<union> groups \<union> tags_of outs)"
    and "refers_within outs ''domain_resolver'' {}"
    and "1 < length ps \<Longrightarrow> ''proxy'' \<in> tags_of outs"
  using assms active_profile_node_tag_in [of cfg ps]
  by (auto simp: choice_outbounds_def Let_def value_or_default_def)

section \<open>All outbounds\<close>

text \<open>The parts of a successful \<^verbatim>\<open>buildOutbounds\<close>.\<close>

lemma selected_nodes_ne: "selected_nodes codec cfg profile = Inr ps \<Longrightarrow> ps \<noteq> []"
  by (auto simp: selected_nodes_def renderable_profile_nodes_def render_fail_def Let_def
      split: if_splits option.splits prod.splits)

lemma build_outbounds_parts:
  assumes "build_outbounds codec cfg profile = Inr outs"
  obtains selected nodes plans proxies where
    "selected_nodes codec cfg profile = Inr selected" "nodes = tag_nodes selected" "selected \<noteq> []"
    "plans = build_group_outbound_plans nodes" "render_all build_proxy_outbound nodes = Inr proxies"
    "tags_of proxies = np_Tag ` set nodes"
    "outs = proxies @ choice_outbounds cfg nodes plans @ build_group_outbounds cfg plans @
            [[(''type'', JStr ''direct''), (''tag'', JStr ''direct'')]]"
proof -
  from assms obtain selected proxies where parts: "selected_nodes codec cfg profile = Inr selected"
      "render_all build_proxy_outbound (tag_nodes selected) = Inr proxies"
      "outs = proxies @ choice_outbounds cfg (tag_nodes selected) (build_group_outbound_plans (tag_nodes selected)) @
              build_group_outbounds cfg (build_group_outbound_plans (tag_nodes selected)) @
              [[(''type'', JStr ''direct''), (''tag'', JStr ''direct'')]]"
    by (auto simp: build_outbounds_def Let_def split: sum.splits)
  have "map tag_of proxies = map np_Tag (tag_nodes selected)"
    using render_all_proxies(1) [OF parts(2)] tag_nodes_tagged [of _ selected] by (simp add: value_or_default_def)
  then have "tags_of proxies = np_Tag ` set (tag_nodes selected)"
    by (metis image_set tags_of_def)
  with parts that show thesis by (simp add: selected_nodes_ne [OF parts(1)])
qed

lemma build_outbounds_refer:
  assumes "build_outbounds codec cfg profile = Inr outs"
  shows "refers_within outs ''outbounds'' (tags_of outs)" "refers_within outs ''default'' (tags_of outs)"
    "refers_within outs ''domain_resolver'' {''direct-dns''}" "''proxy'' \<in> tags_of outs" "''direct'' \<in> tags_of outs"
proof -
  obtain selected nodes plans proxies where parts: "nodes = tag_nodes selected" "selected \<noteq> []" "plans = build_group_outbound_plans nodes"
      "render_all build_proxy_outbound nodes = Inr proxies" "tags_of proxies = np_Tag ` set nodes"
      "outs = proxies @ choice_outbounds cfg nodes plans @ build_group_outbounds cfg plans @
              [[(''type'', JStr ''direct''), (''tag'', JStr ''direct'')]]"
    using build_outbounds_parts [OF assms] by metis
  have ok: "\<forall>g\<in>set plans. plan_ok (np_Tag ` set nodes) g"
    unfolding parts(3) by (rule build_group_outbound_plans_ok) simp
  note groups = build_group_outbounds_refer [OF ok, of cfg]
  note choice = choice_outbounds_refer [OF groups(1), where cfg = cfg and ps = nodes]
  note proxies = render_all_proxies(2-4) [OF parts(4)]
  show "''direct'' \<in> tags_of outs"
    by (simp add: parts(6) json_string_from_map_def)
  show "refers_within outs ''outbounds'' (tags_of outs)" "refers_within outs ''default'' (tags_of outs)"
    using groups(2,3) choice(1,2) proxies(2,3) parts(5)
    by (auto simp: parts(6) refers_null intro: refers_within_mono)
  show "refers_within outs ''domain_resolver'' {''direct-dns''}"
    using groups(4) choice(3) proxies(1) by (auto simp: parts(6) refers_null intro: refers_within_mono)
  show "''proxy'' \<in> tags_of outs"
  proof (cases "1 < length nodes")
    case True
    then show ?thesis using choice(4) by (simp add: parts(6))
  next
    case False
    then obtain p where "selected = [p]" using parts(1,2) by (cases selected) (auto simp: length_Suc_conv)
    then show ?thesis by (simp add: parts(5,6)) (simp add: parts(1) tag_nodes_def)
  qed
qed

section \<open>The tags of stored nodes\<close>

lemma put_extra_tag [simp]: "np_Tag (put_extra k v p) = np_Tag p"
  by (simp add: put_extra_def)

lemma apply_tls_settings_tag [simp]: "np_Tag (apply_tls_settings tls p) = np_Tag p"
  by (simp add: apply_tls_settings_def Let_def)

lemma apply_reality_settings_tag [simp]: "np_Tag (apply_reality_settings r p) = np_Tag p"
  by (simp add: apply_reality_settings_def Let_def)

lemma apply_network_settings_tag [simp]: "np_Tag (apply_network_settings n stream p) = np_Tag p"
  by (simp add: apply_network_settings_def Let_def)

lemma apply_stream_settings_tag [simp]: "np_Tag (apply_stream_settings stream p) = np_Tag p"
  by (simp add: apply_stream_settings_def Let_def)

lemma fill_endpoint_tag [simp]: "np_Tag (fill_endpoint host port p) = np_Tag p"
  by (simp add: fill_endpoint_def)

lemma read_settings_tag [simp]: "np_Tag (read_settings settings p) = np_Tag p"
  by (simp add: read_settings_def read_user_def read_server_def read_socks_def read_hysteria2_def read_tuic_def
      read_wireguard_def endpoint_from_def Let_def)

lemma normalize_flow_tag [simp]: "np_Tag (normalize_vless_profile_flow p) = np_Tag p"
  by (simp add: normalize_vless_profile_flow_def Let_def)

lemma user_link_fallback_tag [simp]: "np_Tag (user_link_fallback u p) = np_Tag p"
  by (simp add: user_link_fallback_def Let_def split: prod.split option.split)

lemma link_fallback_tag [simp]: "np_Tag (apply_profile_link_fallback e raw p) = np_Tag p"
  by (simp add: apply_profile_link_fallback_def Let_def split: option.split)

lemma stored_profile_tag: "profile_from_stored_node e raw i = Inr p \<Longrightarrow> take 5 (np_Tag p) = ''node-''"
  by (auto simp: profile_from_stored_node_def stored_profile_def profile_outbound_tag_def Let_def split: sum.splits)

lemma classify_node_tag: "classify_node (renderer_codec e codec) i raw = Inl p \<Longrightarrow> take 5 (np_Tag p) = ''node-''"
  by (auto simp: classify_node_def renderer_codec_def dest: stored_profile_tag split: sum.splits if_splits)

lemma stored_nodes_tagged:
  assumes "p \<in> set (profiles_from_config_nodes (renderer_codec e codec) (Some cfg))"
  shows "take 5 (np_Tag p) = ''node-''" and "np_Tag p \<noteq> []"
proof -
  have "\<forall>p\<in>set (fst (usable_from (renderer_codec e codec) i raws)). take 5 (np_Tag p) = ''node-''" for i raws
  proof (induction raws arbitrary: i)
    case (Cons raw raws)
    obtain ps ks where rest: "usable_from (renderer_codec e codec) (Suc i) raws = (ps, ks)" by fastforce
    then have "\<forall>p\<in>set ps. take 5 (np_Tag p) = ''node-''" using Cons.IH [of "Suc i"] by simp
    then show ?case by (auto simp: rest classify_node_tag split: sum.splits)
  qed simp
  then show "take 5 (np_Tag p) = ''node-''"
    using assms by (simp add: profiles_from_config_nodes_def usable_profile_nodes_def)
  then show "np_Tag p \<noteq> []" by auto
qed

text \<open>The names and bases of the plans depend on the groups of tagged nodes only.\<close>

definition plan_names :: "group_plan list \<Rightarrow> (string \<times> string) list" where
  "plan_names plans = map (\<lambda>g. (gp_name g, gp_base g)) plans"

lemma index_of_map: "index_of P (map f xs) = index_of (\<lambda>x. P (f x)) xs"
  by (induction xs) simp_all

lemma plan_node_names:
  assumes "np_Tag p \<noteq> []"
  shows "plan_names (plan_node p plans) =
    (let grp = trim_space (np_Group p); ns = plan_names plans;
         base = value_or_default (sanitize_outbound_tag_suffix grp) ''default'';
         used = length (filter (\<lambda>n. snd n = base) ns)
     in if grp = [] \<or> grp \<in> fst ` set ns then ns
        else ns @ [(grp, if 0 < used then base @ ''-'' @ nat_str (used + 1) else base)])"
proof -
  let ?grp = "trim_space (np_Group p)"
  have none: "index_of (\<lambda>g. gp_name g = grp) plans = None \<longleftrightarrow> grp \<notin> fst ` set (plan_names plans)" for grp
    by (induction plans) (auto simp: plan_names_def)
  have used: "length (filter (\<lambda>g. gp_base g = b) plans) = length (filter (\<lambda>n. snd n = b) (plan_names plans))" for b
    by (simp add: plan_names_def filter_map comp_def)
  show ?thesis
  proof (cases "index_of (\<lambda>g. gp_name g = ?grp) plans")
    case None
    then show ?thesis
      using assms none [of ?grp] by (auto simp: plan_node_def group_base_def used Let_def) (auto simp: plan_names_def)
  next
    case (Some i)
    then have "plan_names (plans[i := (plans ! i)\<lparr>gp_tags := t\<rparr>]) = plan_names plans" for t
      using index_of_SomeD [OF Some] by (simp add: plan_names_def list_eq_iff_nth_eq nth_list_update)
    then show ?thesis
      using assms none [of ?grp] Some by (auto simp: plan_node_def Let_def)
  qed
qed

lemma plans_of_same_groups:
  assumes "map np_Group ps = map np_Group qs" "\<forall>p\<in>set ps \<union> set qs. np_Tag p \<noteq> []"
  shows "plan_names (build_group_outbound_plans ps) = plan_names (build_group_outbound_plans qs)"
proof -
  have "plan_names (fold plan_node ps as) = plan_names (fold plan_node qs bs)" if "plan_names as = plan_names bs" for as bs
    using assms that
  proof (induction ps qs arbitrary: as bs rule: list_induct2')
    case (4 p ps q qs)
    have "plan_names (plan_node p as) = plan_names (plan_node q bs)"
      using 4 by (simp add: plan_node_names)
    with 4 show ?case by simp
  qed auto
  from this [of "[]" "[]"] show ?thesis by (simp add: build_group_outbound_plans_def)
qed

lemma group_tags_of_names: "group_tag ` set plans = (\<lambda>n. ''group-'' @ snd n) ` set (plan_names plans)"
  by (simp add: group_tag_def plan_names_def image_image)

end
