(* ===== verification/ProfileProperties.thy ===== *)
theory ProfileProperties
  imports ProfileHandlers RendererReferences
begin

text \<open>
  Properties of the profile document and of the methods that change it: what becomes of the routing section on its
  way through the configuration, which configurations the methods save, what an upsert of a known node saves, and
  which links stop the daemon.
\<close>

section \<open>The routing section\<close>

text \<open>A routing section after a round trip: rules are sorted into names and networks by their slash.\<close>

definition names_of_rules :: "string list \<Rightarrow> string list \<Rightarrow> string list" where
  "names_of_rules domains ips = filter (\<lambda>v. CHR ''/'' \<notin> set v) (rule_values (domains @ ips))"

definition networks_of_rules :: "string list \<Rightarrow> string list \<Rightarrow> string list" where
  "networks_of_rules domains ips = filter (\<lambda>v. CHR ''/'' \<in> set v) (rule_values (domains @ ips))"

definition canonical_routing :: "doc_routing \<Rightarrow> doc_routing" where
  "canonical_routing r =
     r\<lparr>dr_Mode := (if dr_Mode r \<in> {''PROXY_ALL'', ''PER_APP_BYPASS'', ''DIRECT'', ''RULES''} then dr_Mode r else ''PER_APP''),
       dr_DirectDomains := names_of_rules (dr_DirectDomains r) (dr_DirectIps r),
       dr_DirectIps := networks_of_rules (dr_DirectDomains r) (dr_DirectIps r),
       dr_ProxyDomains := names_of_rules (dr_ProxyDomains r) (dr_ProxyIps r),
       dr_ProxyIps := networks_of_rules (dr_ProxyDomains r) (dr_ProxyIps r),
       dr_BlockDomains := names_of_rules (dr_BlockDomains r) (dr_BlockIps r),
       dr_BlockIps := networks_of_rules (dr_BlockDomains r) (dr_BlockIps r)\<rparr>"

lemma rule_values_append: "rule_values (xs @ ys) = rule_values xs @ rule_values ys"
  by (simp add: rule_values_def)

lemma rule_values_idem [simp]: "rule_values (rule_values xs) = rule_values xs"
proof -
  have "map trim_space (rule_values xs) = rule_values xs"
    by (rule map_idI) (auto simp: rule_values_def)
  moreover have "filter (\<lambda>v. v \<noteq> []) (rule_values xs) = rule_values xs"
    by (simp add: rule_values_def)
  ultimately show ?thesis by (simp add: rule_values_def [of "rule_values xs"])
qed

lemma merged_rules:
  "rule_domains (merge_routing_rule_inputs ds ips) = names_of_rules ds ips"
  "rule_cidrs (merge_routing_rule_inputs ds ips) = networks_of_rules ds ips"
  by (simp_all add: rule_domains_def rule_cidrs_def merge_routing_rule_inputs_def names_of_rules_def
      networks_of_rules_def rule_values_append)

lemma routing_canonical: "routing_from_config (apply_routing_to_config r cfg) = canonical_routing r"
proof -
  note defs = routing_from_config_def apply_routing_to_config_def applied_mode_def canonical_routing_def merged_rules Let_def
  consider "dr_Mode r = ''PROXY_ALL''" | "dr_Mode r = ''PER_APP_BYPASS''" | "dr_Mode r = ''DIRECT''" | "dr_Mode r = ''RULES''"
    | "dr_Mode r \<notin> {''PROXY_ALL'', ''PER_APP_BYPASS'', ''DIRECT'', ''RULES''}"
    by blast
  then show ?thesis by cases (simp_all add: defs)
qed

lemma filter_trimmed: "rule_values (filter P (rule_values xs)) = filter P (rule_values xs)"
proof -
  have "map trim_space (filter P (rule_values xs)) = filter P (rule_values xs)"
    by (rule map_idI) (auto simp: rule_values_def)
  moreover have "filter (\<lambda>v. v \<noteq> []) (filter P (rule_values xs)) = filter P (rule_values xs)"
    by (rule filter_True) (auto simp: rule_values_def)
  ultimately show ?thesis by (simp add: rule_values_def [of "filter P (rule_values xs)"])
qed

lemma rules_idem:
  "names_of_rules (names_of_rules ds ips) (networks_of_rules ds ips) = names_of_rules ds ips"
  "networks_of_rules (names_of_rules ds ips) (networks_of_rules ds ips) = networks_of_rules ds ips"
  by (simp_all add: names_of_rules_def networks_of_rules_def rule_values_append [of "filter _ _"] filter_trimmed)

text \<open>
  C37. A routing section written to the configuration and read back keeps its application lists, its group routes
  and its flags.  Its mode is kept when it is one of four known ones, any other becomes \<^verbatim>\<open>PER_APP\<close>.  For each of
  direct, proxy and block, the domains and the addresses are joined, trimmed, stripped of blanks and sorted anew: what has a
  slash becomes an address, everything else a domain, so that a bare address moves from the direct addresses to the
  direct domains.  A second round trip changes nothing.
\<close>

theorem routing_roundtrip:
  "routing_from_config (apply_routing_to_config r cfg) = canonical_routing r \<and>
   routing_from_config (apply_routing_to_config (canonical_routing r) cfg2) = canonical_routing r \<and>
   (ip \<in> set (dr_DirectIps r) \<and> trim_space ip \<noteq> [] \<and> CHR ''/'' \<notin> set (trim_space ip) \<longrightarrow>
      trim_space ip \<in> set (dr_DirectDomains (canonical_routing r)) \<and>
      trim_space ip \<notin> set (dr_DirectIps (canonical_routing r)))"
proof -
  have "canonical_routing (canonical_routing r) = canonical_routing r"
    by (simp add: canonical_routing_def rules_idem)
  moreover have "trim_space ip \<in> set (dr_DirectDomains (canonical_routing r)) \<and>
      trim_space ip \<notin> set (dr_DirectIps (canonical_routing r))"
    if "ip \<in> set (dr_DirectIps r)" "trim_space ip \<noteq> []" "CHR ''/'' \<notin> set (trim_space ip)"
    using that by (simp add: canonical_routing_def names_of_rules_def networks_of_rules_def rule_values_def)
  ultimately show ?thesis by (simp add: routing_canonical)
qed

lemma routing_roundtrip_witness:
  "''1.2.3.4'' \<in> set (dr_DirectDomains (routing_from_config (apply_routing_to_config
     ((routing_from_config default_config)\<lparr>dr_DirectIps := [''1.2.3.4'']\<rparr>) default_config)))"
proof -
  let ?r = "(routing_from_config default_config)\<lparr>dr_DirectIps := [''1.2.3.4'']\<rparr>"
  have trim: "trim_space ''1.2.3.4'' = ''1.2.3.4''" by code_simp
  from routing_roundtrip [of ?r default_config default_config "''1.2.3.4''"] show ?thesis
    by (simp add: trim)
qed

section \<open>Known nodes\<close>

lemma with_profile_answered:
  assumes "rpc_error_from_context h s = (Answered (), s1)" "current_profile h s1 = (Answered (current, spare), s2)"
  shows "with_profile h (Inr x) body s = body x current spare s2"
  using assms by (simp add: with_profile_def hparams_def hret_def hbind_def)

lemma slice_set_shared:
  "slice_set i x (share spare xs) = \<lparr>sh_items = xs[i := x], sh_caller = xs[i := x], sh_aliased = True, sh_spare = spare\<rparr>"
  by (simp add: slice_set_def share_def)

lemma same_node_refl: "same_node_runtime_projection n n"
  by (simp add: same_node_runtime_projection_def equal_fold_def)

lemma find_same: "x \<in> set xs \<Longrightarrow> P x \<Longrightarrow> \<exists>y. find P xs = Some y"
  by (induction xs) auto

text \<open>
  C38. Upserting a node that the profile already has, while a node is active, never reloads the runtime, whatever
  was asked: the upsert has written the node into the array of the current document too, so that the comparison
  finds no difference, and it saves the node without its name, group, measurements and creation time.
\<close>

theorem upsert_of_known_node_never_reloads:
  assumes "decode_node_upsert_params (hd_requests h) params = Inr (node, True)"
    and "rpc_error_from_context h s = (Answered (), s1)" "current_profile h s1 = (Answered (current, spare), s2)"
    and "index_of (\<lambda>n. nd_ID n = nd_ID node) (do_Nodes current) = Some i" "nd_ID node \<noteq> []"
    and "do_ActiveNodeID current \<noteq> []"
  shows "profile_node_upsert h params s =
    apply_profile_context h
      (current\<lparr>do_Nodes := map (strip_matching (nd_ID node)) ((do_Nodes current)[i := node])\<rparr>) False
      ''profile.node.upsert'' 1 s2"
proof -
  let ?nodes = "(do_Nodes current)[i := node]" and ?strip = "strip_matching (nd_ID node)"
  let ?buf = "slice_set i node (share spare (do_Nodes current))"
  have i: "i < length (do_Nodes current)"
    using index_of_SomeD [OF assms(4)] by blast
  have idem: "?strip (?strip n) = ?strip n" for n
    by (simp add: strip_matching_def strip_node_non_runtime_metadata_def)
  have upsert: "upsert_node spare current node = Inr (current\<lparr>do_Nodes := ?nodes\<rparr>, ?buf)"
    using assms(4-6) by (simp add: upsert_node_def)
  have "node \<in> set ?nodes" using i by (simp add: set_update_memI)
  from find_same [OF this, of "\<lambda>n. trim_space (nd_ID n) = trim_space (nd_ID node)"]
  obtain n where "profile_node_by_id ?nodes (nd_ID node) = Some n"
    by (auto simp: profile_node_by_id_def)
  then have only: "node_upsert_only_non_runtime_metadata_changed current
      (current\<lparr>do_Nodes := ?nodes\<rparr>) (nd_ID node) ?buf =
      (True, strip_shared (nd_ID node) ?buf)"
    by (simp add: node_upsert_only_non_runtime_metadata_changed_def slice_set_shared same_node_refl strip_shared_def
        idem comp_def Let_def)
  have items: "sh_items (strip_shared (nd_ID node) ?buf) = map ?strip ?nodes"
    by (simp add: strip_shared_def slice_set_shared idem comp_def Let_def)
  show ?thesis
    unfolding profile_node_upsert_def assms(1) with_profile_answered [OF assms(2,3)]
    by (simp add: upsert hparams_def hret_def hbind_def only items)
qed

text \<open>A node, a configuration that holds it, and a control plane that upserts it.\<close>

definition demo_profile_node :: profile_node where
  "demo_profile_node = imported_link_node ''a'' ''socks'' ''a.example'' 1080 ''socks://u@a.example:1080'' ''Home'' 5"

definition upserting :: "'w control \<Rightarrow> 'w control" where
  "upserting h = h\<lparr>hd_ctx_err := (\<lambda>w. (None, w)),
     hd_current_config := Some (\<lambda>w. (Some (default_config\<lparr>cf_Profile :=
       (cf_Profile default_config)\<lparr>pp_Nodes := [''a''], pp_ActiveNodeID := ''a''\<rparr>\<rparr>), w)),
     hd_requests := (hd_requests h)\<lparr>rq_node := (\<lambda>_. Inr (Some demo_profile_node, None))\<rparr>,
     hd_env := (hd_env h)\<lparr>pe_doc := (pe_doc (hd_env h))\<lparr>dc_node := (\<lambda>_. Inr demo_profile_node)\<rparr>\<rparr>\<rparr>"

lemma upsert_of_known_node_never_reloads_witness:
  "\<forall>h s. \<exists>doc. profile_node_upsert (upserting h) (Some ''{}'') s =
     apply_profile_context (upserting h) doc False ''profile.node.upsert'' 1 s \<and>
     map nd_Name (do_Nodes doc) = [[]] \<and> nd_Name demo_profile_node \<noteq> []"
proof (intro allI)
  fix h :: "'w control" and s
  let ?h = "upserting h"
  let ?cfg = "default_config\<lparr>cf_Profile := (cf_Profile default_config)\<lparr>pp_Nodes := [''a''], pp_ActiveNodeID := ''a''\<rparr>\<rparr>"
  let ?doc = "from_config (pe_doc (hd_env ?h)) ?cfg"
  have decode: "decode_node_upsert_params (hd_requests ?h) (Some ''{}'') = Inr (demo_profile_node, True)"
    by (simp add: upserting_def decode_node_upsert_params_def decode_part_def with_params_def wrapped_def reload_or_true_def)
  have ctx: "rpc_error_from_context ?h s = (Answered (), s)"
    by (simp add: rpc_error_from_context_def upserting_def hbind_def hworld_def hret_def)
  have nodes: "do_Nodes ?doc = [demo_profile_node]" "do_ActiveNodeID ?doc = ''a''"
    by (simp_all add: from_config_def upserting_def decoded_def Let_def)
  have current: "current_profile ?h s = (Answered (?doc, 0), s)"
    using nodes(1) by (simp add: current_profile_def current_config_def upserting_def hbind_def hworld_def hret_def Let_def)
  have ids: "nd_ID demo_profile_node = ''a''" "nd_Name demo_profile_node \<noteq> []"
    by code_simp+
  have "index_of (\<lambda>n. nd_ID n = nd_ID demo_profile_node) (do_Nodes ?doc) = Some 0" by (simp add: nodes)
  from upsert_of_known_node_never_reloads [OF decode ctx current this] ids nodes
  show "\<exists>doc. profile_node_upsert ?h (Some ''{}'') s = apply_profile_context ?h doc False ''profile.node.upsert'' 1 s \<and>
      map nd_Name (do_Nodes doc) = [[]] \<and> nd_Name demo_profile_node \<noteq> []"
    by (intro exI [of _ "?doc\<lparr>do_Nodes := map (strip_matching (nd_ID demo_profile_node)) ((do_Nodes ?doc)[0 := demo_profile_node])\<rparr>"])
       (simp add: strip_matching_def strip_node_non_runtime_metadata_def)
qed

section \<open>Saved configurations\<close>

text \<open>The methods that may save a configuration.\<close>

definition profile_methods :: "'w control \<Rightarrow> (string option \<Rightarrow> ('w, reply_map) handler) list" where
  "profile_methods h =
     [profile_apply h, profile_import_nodes h, profile_commit_import_batch h, profile_set_active_node h,
      handle_profile_patch h, profile_node_upsert h, profile_node_remove h, profile_routing_patch h, profile_dns_patch h,
      profile_inbound_patch h, subscription_refresh h, subscription_commit_preview h]"

lemma apply_to_config_checked:
  "apply_to_config env base doc = (Inr next_cfg, warnings) \<Longrightarrow> check_draft env next_cfg = None"
  by (auto simp: apply_to_config_def Let_def split: sum.splits prod.splits option.splits)

lemma persist_ignored [simp]:
  "rpc_error_from_context (h\<lparr>hd_persist := p\<rparr>) = rpc_error_from_context h"
  "handler_runtime_status (h\<lparr>hd_persist := p\<rparr>) = handler_runtime_status h"
  "current_config (h\<lparr>hd_persist := p\<rparr>) = current_config h"
  "current_profile (h\<lparr>hd_persist := p\<rparr>) = current_profile h"
  "with_profile (h\<lparr>hd_persist := p\<rparr>) = with_profile h"
  "profile_noop (h\<lparr>hd_persist := p\<rparr>) = profile_noop h"
  "subscription_rpc_error (h\<lparr>hd_persist := p\<rparr>) = subscription_rpc_error h"
proof -
  show [simp]: "rpc_error_from_context (h\<lparr>hd_persist := p\<rparr>) = rpc_error_from_context h"
      "handler_runtime_status (h\<lparr>hd_persist := p\<rparr>) = handler_runtime_status h"
      "current_config (h\<lparr>hd_persist := p\<rparr>) = current_config h"
    by (simp_all add: rpc_error_from_context_def handler_runtime_status_def current_config_def)
  show [simp]: "current_profile (h\<lparr>hd_persist := p\<rparr>) = current_profile h"
    by (simp add: current_profile_def)
  show "with_profile (h\<lparr>hd_persist := p\<rparr>) = with_profile h" "profile_noop (h\<lparr>hd_persist := p\<rparr>) = profile_noop h"
      "subscription_rpc_error (h\<lparr>hd_persist := p\<rparr>) = subscription_rpc_error h"
    by (intro ext; simp add: with_profile_def profile_noop_def subscription_rpc_error_def cong: option.case_cong)+
qed

lemma hbind_cong:
  assumes "\<And>x. f x = g x"
  shows "hbind m f = hbind m g"
proof -
  have "f = g" using assms by (rule ext)
  then show ?thesis by simp
qed

lemma apply_profile_context_persist:
  assumes "\<And>cfg reload action w. check_draft (hd_env h) cfg = None \<Longrightarrow> p cfg reload action w = q cfg reload action w"
  shows "apply_profile_context (h\<lparr>hd_persist := Some p\<rparr>) = apply_profile_context (h\<lparr>hd_persist := Some q\<rparr>)"
proof (intro ext)
  fix doc reload action updated s
  have fields: "hd_env (h\<lparr>hd_persist := x\<rparr>) = hd_env h" "hd_manifest (h\<lparr>hd_persist := x\<rparr>) = hd_manifest h" for x
    by simp_all
  have saved: "persist_config_mutation (h\<lparr>hd_persist := Some p\<rparr>) cfg reload action =
      persist_config_mutation (h\<lparr>hd_persist := Some q\<rparr>) cfg reload action" if "check_draft (hd_env h) cfg = None" for cfg
    using assms [OF that] by (simp add: persist_config_mutation_def fun_eq_iff hworld_def)
  show "apply_profile_context (h\<lparr>hd_persist := Some p\<rparr>) doc reload action updated s =
      apply_profile_context (h\<lparr>hd_persist := Some q\<rparr>) doc reload action updated s"
    unfolding apply_profile_context_def persist_ignored fields
    apply (rule fun_cong [where x = s])
    apply (intro hbind_cong option.case_cong [OF refl refl] prod.case_cong [OF refl] sum.case_cong [OF refl refl])
    apply (simp only: saved [OF apply_to_config_checked])
    done
qed

text \<open>
  C31. No method saves a configuration that does not validate or does not render: what the callback that
  persists would do with such a configuration never matters.
\<close>

theorem only_checked_configurations_saved:
  assumes "\<And>cfg reload action w. check_draft (hd_env h) cfg = None \<Longrightarrow> p cfg reload action w = q cfg reload action w"
  shows "profile_methods (h\<lparr>hd_persist := Some p\<rparr>) = profile_methods (h\<lparr>hd_persist := Some q\<rparr>)"
proof -
  have same: "apply_profile_context (h\<lparr>hd_persist := Some p\<rparr>) = apply_profile_context (h\<lparr>hd_persist := Some q\<rparr>)"
    by (rule apply_profile_context_persist) (rule assms)
  have refresh: "apply_subscription_refresh_context (h\<lparr>hd_persist := Some p\<rparr>) =
      apply_subscription_refresh_context (h\<lparr>hd_persist := Some q\<rparr>)"
    by (intro ext) (simp add: apply_subscription_refresh_context_def same)
  then have finish: "finish_refresh (h\<lparr>hd_persist := Some p\<rparr>) = finish_refresh (h\<lparr>hd_persist := Some q\<rparr>)"
    unfolding finish_refresh_def persist_ignored by simp
  have fields: "hd_requests (h\<lparr>hd_persist := x\<rparr>) = hd_requests h" "hd_now (h\<lparr>hd_persist := x\<rparr>) = hd_now h"
      "hd_urls (h\<lparr>hd_persist := x\<rparr>) = hd_urls h" "hd_client (h\<lparr>hd_persist := x\<rparr>) = hd_client h" for x
    by simp_all
  show ?thesis
    unfolding profile_methods_def profile_apply_def [abs_def] profile_import_nodes_def [abs_def]
      profile_commit_import_batch_def [abs_def] profile_set_active_node_def [abs_def] handle_profile_patch_def [abs_def]
      profile_node_upsert_def [abs_def] profile_node_remove_def [abs_def] profile_routing_patch_def [abs_def]
      profile_dns_patch_def [abs_def] profile_inbound_patch_def [abs_def] subscription_refresh_def [abs_def]
      subscription_commit_preview_def [abs_def] persist_ignored same finish fields
    by (rule refl)
qed

lemma only_checked_configurations_saved_witness:
  "\<forall>h. profile_methods (h\<lparr>hd_persist := Some (\<lambda>cfg reload action w. ((empty_transaction_result, None), w))\<rparr>) =
       profile_methods (h\<lparr>hd_persist := Some (\<lambda>cfg reload action w.
         if check_draft (hd_env h) cfg = None then ((empty_transaction_result, None), w)
         else ((empty_transaction_result, Some (ErrorString ''saved an invalid configuration'')), w))\<rparr>)"
  by (intro allI only_checked_configurations_saved) simp

section \<open>Links without user information\<close>

text \<open>
  A link that is parsed up to its identifier but has no user information; the schemes of Shadowsocks are read by
  another function.
\<close>

definition userless_link :: "link_env \<Rightarrow> string \<Rightarrow> bool" where
  "userless_link e text =
     (case re_url (render_env.truncate e) (trim_space text) of
        None \<Rightarrow> False
      | Some u \<Rightarrow>
          normalize_link_protocol (pu_Scheme u) \<notin> {[], ''shadowsocks''} \<and> url_hostname u \<noteq> [] \<and>
          0 < fst (atoi (url_port u)) \<and> fst (atoi (url_port u)) \<le> 65535 \<and> pu_User u = None)"

lemma shadowsocks_never_panics: "parse_shadowsocks_node e raw u now \<noteq> Panics"
  by (simp add: parse_shadowsocks_node_def Let_def split: option.split sum.split)

lemma parse_link_panics: "parse_link e url_error text now = Panics \<longleftrightarrow> userless_link e text"
  by (auto simp: parse_link_def userless_link_def Let_def shadowsocks_never_panics split: option.splits if_splits)

lemma userless_trim [simp]: "userless_link e (trim_space text) = userless_link e text"
  by (simp add: userless_link_def)

lemma parse_lines_panics:
  "parse_lines e url_error source now lines = Panics \<longleftrightarrow>
     (\<exists>line. line \<in> set lines \<and> trim_space line \<noteq> [] \<and> userless_link e line)"
proof (induction lines)
  case (Cons line lines)
  let ?rest = "parse_lines e url_error source now lines"
  show ?case
  proof (cases "trim_space line = []")
    case True
    then show ?thesis using Cons by auto
  next
    case False
    then have "parse_lines e url_error source now (line # lines) = Panics \<longleftrightarrow>
        parse_link e url_error (trim_space line) now = Panics \<or> ?rest = Panics"
      by (auto simp: Let_def split: outcome.splits)
    then show ?thesis using Cons False by (auto simp: parse_link_panics)
  qed
qed simp

text \<open>
  C32. Reading a subscription panics exactly when a line of the body is a link with a scheme other than those of
  Shadowsocks, a host and a port but no user information: its identifier is made from the text of a nil user.
\<close>

theorem userless_link_panics:
  "parse_subscription e url_error body headers order source now = Panics \<longleftrightarrow>
     (\<exists>line. line \<in> set (split_char (char_of (10::nat)) (decode_subscription_body body)) \<and>
        trim_space line \<noteq> [] \<and> userless_link e line)"
proof -
  let ?source = "if sn_ProviderKey source = [] then source\<lparr>sn_ProviderKey := provider_key_for (sn_URL source)\<rparr> else source"
  have "parse_subscription e url_error body headers order source now = Panics \<longleftrightarrow>
      parse_lines e url_error ?source now (split_char (char_of (10::nat)) (decode_subscription_body body)) = Panics"
    by (auto simp: parse_subscription_def Let_def split: outcome.splits)
  then show ?thesis by (simp only: parse_lines_panics)
qed

end
