(* ===== verification/RendererProperties.thy ===== *)
theory RendererProperties
  imports RendererReferences
begin

text \<open>
  What a rendered configuration guarantees (\<^verbatim>\<open>config/renderer.go\<close>): every name that it uses is
  defined, the servers of the proxies are reached directly, and which groups of nodes break these guarantees.
\<close>

section \<open>DNS\<close>

lemma map_from_map_obj: "json_field m key = JObj fs \<Longrightarrow> map_from_map m key = fs"
  by (simp add: map_from_map_def)

lemma json_field_optional [simp]:
  "json_field (jwhen b m) key = (if b then json_field m key else JNull)"
  "json_field (jtext k v) key = (if v \<noteq> [] \<and> k = key then JStr v else JNull)"
  by (simp_all add: jwhen_def jtext_def)

lemma refers_within_rule_when [simp]:
  "refers_within (rule_when b r) key names \<longleftrightarrow> \<not> b \<or> refers r key \<subseteq> names"
  by (simp add: rule_when_def)

lemma server_port_keys: "fst ` set (server_port u) \<subseteq> {''server_port''}"
  by (auto simp: server_port_def jwhen_def split: prod.split)

lemma server_port_field [simp]: "key \<noteq> ''server_port'' \<Longrightarrow> json_field (server_port u) key = JNull"
  using server_port_keys [of u] by (intro json_field_absent) auto

lemma build_dns_server_fields:
  "tag_of (build_dns_server e t address detour) = t"
  "refers (build_dns_server e t address detour) ''detour'' \<subseteq> {detour} - {''direct'', []}"
  "refers (build_dns_server e t address detour) ''domain_resolver'' \<subseteq> {''bootstrap-dns''}"
proof -
  let ?s = "build_dns_server e t address detour"
  have fields: "json_field ?s ''tag'' = JStr t"
      "json_field ?s ''detour'' = (if detour \<noteq> [] \<and> detour \<noteq> ''direct'' then JStr detour else JNull)"
      "json_field ?s ''domain_resolver'' \<in> {JNull, JStr ''bootstrap-dns''}"
    by (auto simp: build_dns_server_def Let_def json_field_append jwhen_def split: option.split)
  then show "tag_of ?s = t" by (simp add: json_string_from_map_def)
  show "refers ?s ''detour'' \<subseteq> {detour} - {''direct'', []}"
    using fields(2) by (cases "detour \<noteq> [] \<and> detour \<noteq> ''direct''") (auto simp: refers_text refers_null)
  show "refers ?s ''domain_resolver'' \<subseteq> {''bootstrap-dns''}"
    using fields(3) by (auto simp: refers_text refers_null)
qed

lemma dns_servers_refer:
  "tags_of (dns_servers e cfg profile) \<supseteq> {''remote-dns'', ''direct-dns'', ''bootstrap-dns''}"
  "dn_FakeIP (cf_DNS cfg) \<Longrightarrow> ''fakeip'' \<in> tags_of (dns_servers e cfg profile)"
  "refers_within (dns_servers e cfg profile) ''detour'' {''proxy''}"
  "refers_within (dns_servers e cfg profile) ''domain_resolver'' {''bootstrap-dns''}"
  using build_dns_server_fields(2,3) [of e]
  by (auto simp: dns_servers_def Let_def build_dns_server_fields(1) rule_when_def refers_null split: if_splits)

lemma dns_rule_fields [simp]:
  "key \<noteq> ''server'' \<Longrightarrow> key \<noteq> ''action'' \<Longrightarrow> refers (dns_route_rule key vs) ''server'' = {''direct-dns''}"
  "key \<noteq> ''server'' \<Longrightarrow> refers (dns_block_rule key vs) ''server'' = {}"
  "key \<noteq> ''rule_set'' \<Longrightarrow> refers (dns_route_rule key vs) ''rule_set'' = {}"
  "key \<noteq> ''rule_set'' \<Longrightarrow> refers (dns_block_rule key vs) ''rule_set'' = {}"
  "refers (dns_route_rule ''rule_set'' vs) ''rule_set'' = set vs - {[]}"
  "refers (dns_block_rule ''rule_set'' vs) ''rule_set'' = set vs - {[]}"
  by (auto simp: dns_route_rule_def dns_block_rule_def refers_text refers_null refers_list)

lemma rule_set_tags:
  "rt_BypassChina (cf_Routing cfg) \<Longrightarrow> {''geoip-cn'', ''geosite-cn''} \<subseteq> tags_of (build_rule_sets cfg)"
  "rt_BlockAds (cf_Routing cfg) \<Longrightarrow> ''geosite-category-ads-all'' \<in> tags_of (build_rule_sets cfg)"
  "refers_within (build_rule_sets cfg) ''download_detour'' {''direct''}"
  by (auto simp: build_rule_sets_def remote_rule_set_def rule_when_def refers_text)

lemma build_dns_fields:
  obtains rules where
    "objects (build_dns e codec cfg profile) ''servers'' = dns_servers e cfg profile"
    "objects (build_dns e codec cfg profile) ''rules'' = rules"
    "refers (build_dns e codec cfg profile) ''final'' = {''remote-dns''}"
    "refers_within rules ''server'' (tags_of (dns_servers e cfg profile))"
    "refers_within rules ''rule_set'' (tags_of (build_rule_sets cfg))"
proof -
  obtain strategy no_v6 where mode: "dns_ipv6_mode (cf_IPv6_Mode cfg) = (strategy, no_v6)" by fastforce
  let ?rules = "rule_when no_v6 (dns_block_rule ''query_type'' [''AAAA'']) @ dns_rules e codec cfg"
  have dns: "build_dns e codec cfg profile =
      [(''servers'', JList (map JObj (dns_servers e cfg profile))), (''rules'', JList (map JObj ?rules)),
       (''final'', JStr ''remote-dns'')] @ jtext ''strategy'' strategy"
    by (simp add: build_dns_def mode)
  have "refers_within ?rules ''server'' (tags_of (dns_servers e cfg profile))"
    using dns_servers_refer(1) [of e cfg profile] dns_servers_refer(2) [of cfg e profile]
    by (auto simp: dns_rules_def Let_def refers_text)
  moreover have "refers_within ?rules ''rule_set'' (tags_of (build_rule_sets cfg))"
    using rule_set_tags(1,2) [of cfg] by (auto simp: dns_rules_def Let_def refers_null)
  ultimately show thesis
    by (intro that [of ?rules]) (simp_all add: dns objects_field refers_text)
qed

section \<open>Route\<close>

lemma route_rule_fields [simp]:
  "key \<noteq> ''outbound'' \<Longrightarrow> refers (route_rule key v out) ''outbound'' = {out} - {[]}"
  "key \<noteq> ''rule_set'' \<Longrightarrow> refers (route_rule key v out) ''rule_set'' = {}"
  "refers (route_rule ''rule_set'' (jstrs vs) out) ''rule_set'' = set vs - {[]}"
  "key \<noteq> ''outbound'' \<Longrightarrow> refers (reject_rule key vs) ''outbound'' = {}"
  "key \<noteq> ''rule_set'' \<Longrightarrow> refers (reject_rule key vs) ''rule_set'' = {}"
  "refers (reject_rule ''rule_set'' vs) ''rule_set'' = set vs - {[]}"
  by (simp_all add: route_rule_def reject_rule_def refers_text refers_null refers_list)

lemma values_rule_refers [simp]:
  "key \<noteq> ''outbound'' \<Longrightarrow> refers_within (values_rule key vs out) ''outbound'' names \<longleftrightarrow> vs = [] \<or> out \<in> insert [] names"
  "key \<noteq> ''rule_set'' \<Longrightarrow> refers_within (values_rule key vs out) ''rule_set'' names"
  by (auto simp: values_rule_def)

text \<open>The outbounds of the groups that application rules may name, and of all other rules.\<close>

definition usable_groups :: "json_codec \<Rightarrow> config \<Rightarrow> string set" where
  "usable_groups codec cfg =
     group_tag ` set (build_group_outbound_plans (profiles_from_config_nodes codec (Some cfg)))"

lemma findSomeD: "find P xs = Some x \<Longrightarrow> x \<in> set xs"
  by (auto simp: find_Some_iff)

lemma plan_outbound_in: "plan_outbound plans grp \<noteq> [] \<Longrightarrow> plan_outbound plans grp \<in> group_tag ` set plans"
  unfolding plan_outbound_def by (auto split: option.splits dest!: findSomeD)

lemma group_rules_refer:
  "refers_within (build_app_group_route_rules codec cfg order) ''outbound'' (usable_groups codec cfg)"
  "refers_within (build_app_group_route_rules codec cfg order) ''rule_set'' {}"
proof -
  let ?plans = "build_group_outbound_plans (profiles_from_config_nodes codec (Some cfg))"
  have "snd r \<in> group_tag ` set ?plans" if "r \<in> set (routed_packages cfg ?plans order)" for r
    using that plan_outbound_in [of ?plans] by (auto simp: routed_packages_def)
  then show "refers_within (build_app_group_route_rules codec cfg order) ''outbound'' (usable_groups codec cfg)"
    by (auto simp: build_app_group_route_rules_def refers_within_def usable_groups_def Let_def)
  show "refers_within (build_app_group_route_rules codec cfg order) ''rule_set'' {}"
    by (auto simp: build_app_group_route_rules_def refers_within_def Let_def)
qed

lemma forced_rule_refers:
  "refers_within (build_forced_proxy_package_rule cfg order) ''outbound'' {''proxy''}"
  "refers_within (build_forced_proxy_package_rule cfg order) ''rule_set'' {}"
  by (auto simp: build_forced_proxy_package_rule_def Let_def)

lemma base_and_russian_rules:
  "refers_within base_rules ''outbound'' names" "refers_within base_rules ''rule_set'' names"
  "refers (russian_rule e) ''outbound'' = {''direct''}" "refers (russian_rule e) ''rule_set'' = {}"
  by (simp_all add: base_rules_def russian_rule_def refers_null refers_text)

lemma custom_rules_refer:
  "refers_within (custom_rules r) ''outbound'' {''direct'', ''proxy''}" "refers_within (custom_rules r) ''rule_set'' {}"
  by (auto simp: custom_rules_def)

lemma route_rules_refer:
  "refers_within (route_rules e codec cfg order) ''outbound'' ({''direct'', ''proxy''} \<union> usable_groups codec cfg)"
  "refers_within (route_rules e codec cfg order) ''rule_set'' (tags_of (build_rule_sets cfg))"
proof -
  obtain domains cidrs where servers: "proxy_endpoint_rules e codec cfg = (domains, cidrs)" by fastforce
  show "refers_within (route_rules e codec cfg order) ''outbound'' ({''direct'', ''proxy''} \<union> usable_groups codec cfg)"
    using group_rules_refer(1) [of codec cfg order] forced_rule_refers(1) [of cfg order]
      custom_rules_refer(1) [of "cf_Routing cfg"]
    by (auto simp: route_rules_def servers Let_def base_and_russian_rules intro: refers_within_mono)
  show "refers_within (route_rules e codec cfg order) ''rule_set'' (tags_of (build_rule_sets cfg))"
    using group_rules_refer(2) [of codec cfg order] forced_rule_refers(2) [of cfg order] rule_set_tags(1,2) [of cfg]
      custom_rules_refer(2) [of "cf_Routing cfg"]
    by (auto simp: route_rules_def servers Let_def base_and_russian_rules intro: refers_within_mono)
qed

section \<open>Every name is defined\<close>

text \<open>All references of a configuration but those of its route rules to outbounds.\<close>

definition references_resolve :: "json_map \<Rightarrow> bool" where
  "references_resolve sb =
     (let outs = objects sb ''outbounds''; out_tags = tags_of outs;
          dns = map_from_map sb ''dns''; servers = objects dns ''servers''; server_tags = tags_of servers;
          route = map_from_map sb ''route''; sets = objects route ''rule_set''; set_tags = tags_of sets
      in refers_within outs ''outbounds'' out_tags \<and> refers_within outs ''default'' out_tags \<and>
         refers_within outs ''domain_resolver'' server_tags \<and>
         refers_within servers ''detour'' out_tags \<and> refers_within servers ''domain_resolver'' server_tags \<and>
         refers_within (objects dns ''rules'') ''server'' server_tags \<and>
         refers_within (objects dns ''rules'') ''rule_set'' set_tags \<and>
         refers dns ''final'' \<subseteq> server_tags \<and>
         refers_within (objects route ''rules'') ''rule_set'' set_tags \<and>
         refers_within sets ''download_detour'' out_tags \<and>
         refers route ''final'' \<subseteq> out_tags \<and> refers route ''default_domain_resolver'' \<subseteq> server_tags)"

definition routes_resolve :: "json_map \<Rightarrow> bool" where
  "routes_resolve sb =
     refers_within (objects (map_from_map sb ''route'') ''rules'') ''outbound'' (tags_of (objects sb ''outbounds''))"

lemma rendered_parts:
  assumes "render_singbox_config e codec cfg order profile path = Inr sb"
  obtains outs where "build_outbounds codec cfg profile = Inr outs" "objects sb ''outbounds'' = outs"
    "map_from_map sb ''dns'' = build_dns e codec cfg profile" "map_from_map sb ''route'' = build_route e codec cfg order"
    "objects (map_from_map sb ''route'') ''rules'' = route_rules e codec cfg order"
    "objects (map_from_map sb ''route'') ''rule_set'' = build_rule_sets cfg"
proof -
  obtain outs where outs: "build_outbounds codec cfg profile = Inr outs"
    using assms by (auto simp: render_singbox_config_def render_fail_def Let_def split: if_splits sum.splits)
  have sb: "sb = [(''log'', JObj [(''level'', JStr ''info''), (''timestamp'', JBool True)]),
                         (''dns'', JObj (build_dns e codec cfg profile)),
                         (''inbounds'', JList (map JObj (build_inbounds codec cfg))),
                         (''route'', JObj (build_route e codec cfg order))] @
                        jwhen (cache_file cfg path @ clash_api cfg \<noteq> [])
                          [(''experimental'', JObj (cache_file cfg path @ clash_api cfg))] @
                        [(''outbounds'', JList (map JObj outs))]"
    using assms by (auto simp: render_singbox_config_def render_fail_def outs Let_def split: if_splits)
  have "objects (build_route e codec cfg order) ''rule_set'' = build_rule_sets cfg"
    by (cases "build_rule_sets cfg = []") (auto simp: build_route_def objects_field, simp_all add: objects_def)
  moreover have "objects (build_route e codec cfg order) ''rules'' = route_rules e codec cfg order"
    by (rule objects_field) (simp add: build_route_def)
  moreover have "objects sb ''outbounds'' = outs"
    by (rule objects_field) (simp add: sb json_field_append jwhen_def)
  moreover have "map_from_map sb ''dns'' = build_dns e codec cfg profile"
      "map_from_map sb ''route'' = build_route e codec cfg order"
    by (rule map_from_map_obj, simp add: sb)+
  ultimately show thesis using that outs by simp
qed

lemma rendered_references:
  assumes "render_singbox_config e codec cfg order profile path = Inr sb"
  shows "references_resolve sb"
proof -
  obtain outs where parts: "build_outbounds codec cfg profile = Inr outs" "objects sb ''outbounds'' = outs"
    "map_from_map sb ''dns'' = build_dns e codec cfg profile" "map_from_map sb ''route'' = build_route e codec cfg order"
    "objects (map_from_map sb ''route'') ''rules'' = route_rules e codec cfg order"
    "objects (map_from_map sb ''route'') ''rule_set'' = build_rule_sets cfg"
    using rendered_parts [OF assms] by metis
  obtain rules where dns: "objects (build_dns e codec cfg profile) ''servers'' = dns_servers e cfg profile"
    "objects (build_dns e codec cfg profile) ''rules'' = rules"
    "refers (build_dns e codec cfg profile) ''final'' = {''remote-dns''}"
    "refers_within rules ''server'' (tags_of (dns_servers e cfg profile))"
    "refers_within rules ''rule_set'' (tags_of (build_rule_sets cfg))"
    using build_dns_fields by blast
  have route: "refers (build_route e codec cfg order) ''final'' \<subseteq> {''direct'', ''proxy''}"
    "refers (build_route e codec cfg order) ''default_domain_resolver'' = {''direct-dns''}"
    by (auto simp: build_route_def refers_text)
  note outs = build_outbounds_refer [OF parts(1)]
  note servers = dns_servers_refer(1,3,4) [of e cfg profile]
  have "refers_within outs ''domain_resolver'' (tags_of (dns_servers e cfg profile))"
    "refers_within (dns_servers e cfg profile) ''detour'' (tags_of outs)"
    "refers_within (dns_servers e cfg profile) ''domain_resolver'' (tags_of (dns_servers e cfg profile))"
    "refers_within (build_rule_sets cfg) ''download_detour'' (tags_of outs)"
    using outs servers rule_set_tags(3) [of cfg] by (auto intro: refers_within_mono)
  moreover have "refers (build_dns e codec cfg profile) ''final'' \<subseteq> tags_of (dns_servers e cfg profile)"
    "refers (build_route e codec cfg order) ''final'' \<subseteq> tags_of outs"
    "refers (build_route e codec cfg order) ''default_domain_resolver'' \<subseteq> tags_of (dns_servers e cfg profile)"
    using outs(4,5) servers(1) route(1) by (auto simp: dns(3) route(2) simp del: tags_of_simps)
  ultimately show ?thesis
    unfolding references_resolve_def Let_def
    by (simp only: parts(2,5,6)) (simp only: parts(3,4) dns(1,2,4,5) outs(1,2) route_rules_refer(2) simp_thms)
qed

lemma tag_nodes_groups: "map np_Group (tag_nodes ps) = map np_Group ps"
proof -
  have "map np_Group (map (\<lambda>(i, p). if np_Tag p = [] then p\<lparr>np_Tag := ''node-'' @ nat_str (i + 1)\<rparr> else p)
          (List.enumerate n ps)) = map np_Group ps" for n
    by (induction ps arbitrary: n) simp_all
  then show ?thesis by (simp add: tag_nodes_def comp_def)
qed

lemma group_selectors_defined:
  assumes "build_outbounds codec cfg profile = Inr outs" "selected_nodes codec cfg profile = Inr selected"
  shows "group_tag ` set (build_group_outbound_plans (tag_nodes selected)) \<subseteq> tags_of outs"
proof -
  obtain nodes plans proxies where parts: "nodes = tag_nodes selected" "plans = build_group_outbound_plans nodes"
      "outs = proxies @ choice_outbounds cfg nodes plans @ build_group_outbounds cfg plans @
              [[(''type'', JStr ''direct''), (''tag'', JStr ''direct'')]]"
    using build_outbounds_parts [OF assms(1)] assms(2) by (metis sum.inject(2))
  have "\<forall>g\<in>set plans. plan_ok (np_Tag ` set nodes) g"
    unfolding parts(2) by (rule build_group_outbound_plans_ok) simp
  then show ?thesis
    using build_group_outbounds_refer(1) [of plans _ cfg] by (auto simp: parts)
qed

lemma all_renderable_routes:
  assumes "render_singbox_config e (renderer_codec e codec) cfg order profile path = Inr sb"
    and "renderable_profile_nodes (renderer_codec e codec) cfg (profiles_from_config_nodes (renderer_codec e codec) (Some cfg)) =
         Inr (profiles_from_config_nodes (renderer_codec e codec) (Some cfg))"
  shows "routes_resolve sb"
proof -
  let ?rc = "renderer_codec e codec"
  let ?stored = "profiles_from_config_nodes ?rc (Some cfg)"
  obtain outs where parts: "build_outbounds ?rc cfg profile = Inr outs" "objects sb ''outbounds'' = outs"
      "objects (map_from_map sb ''route'') ''rules'' = route_rules e ?rc cfg order"
    using rendered_parts [OF assms(1)] by metis
  have "usable_groups ?rc cfg \<subseteq> tags_of outs"
  proof (cases "?stored = []")
    case True
    then show ?thesis by (simp add: usable_groups_def build_group_outbound_plans_def)
  next
    case False
    then have "selected_nodes ?rc cfg profile = Inr ?stored"
      by (simp add: selected_nodes_def Let_def assms(2))
    moreover have "plan_names (build_group_outbound_plans (tag_nodes ?stored)) = plan_names (build_group_outbound_plans ?stored)"
      using tag_nodes_tagged stored_nodes_tagged by (intro plans_of_same_groups) (auto simp: tag_nodes_groups)
    ultimately show ?thesis
      using group_selectors_defined [OF parts(1)] by (simp add: usable_groups_def group_tags_of_names)
  qed
  then show ?thesis
    unfolding routes_resolve_def parts(2,3)
    using route_rules_refer(1) [of e ?rc cfg order] build_outbounds_refer(4,5) [OF parts(1)]
    by (elim refers_within_mono) simp
qed

text \<open>
  C30. In every configuration that the renderer produces, the members and the default of each selector and URL
  test, the detours and resolvers, the servers and rule sets of the rules and the final outbound are defined in that
  configuration; the outbounds of the route rules are too when every usable node can be rendered.
\<close>

theorem rendered_references_resolve:
  assumes "render_singbox_config e (renderer_codec e codec) cfg order profile path = Inr sb"
  shows "references_resolve sb \<and>
    (renderable_profile_nodes (renderer_codec e codec) cfg (profiles_from_config_nodes (renderer_codec e codec) (Some cfg)) =
       Inr (profiles_from_config_nodes (renderer_codec e codec) (Some cfg)) \<longrightarrow> routes_resolve sb)"
  using rendered_references [OF assms] all_renderable_routes [OF assms] by blast

text \<open>A configuration with the stored nodes \<^verbatim>\<open>raws\<close>, each in the group of its own name.\<close>

definition demo_node :: "string \<Rightarrow> stored_node" where
  "demo_node raw = \<lparr>sd_ID = raw, sd_Name = raw, sd_Group = raw,
     sd_Protocol = (if raw = ''x y'' then ''ftp'' else ''socks''), sd_Server = ''a.example'', sd_Port = 1080,
     sd_Link = [], sd_Outbound = [], sd_OwnerPackage = [], sd_Stale = False\<rparr>"

definition demo_env :: render_env where
  "demo_env = \<lparr>re_stored = (\<lambda>raw. Inr (demo_node raw)), re_object = (\<lambda>_. []), re_url = (\<lambda>_. None), re_direct_cidrs = []\<rparr>"

definition demo_codec :: json_codec where
  "demo_codec = renderer_codec demo_env \<lparr>jc_inbounds = (\<lambda>_. Inl (ErrorString [])), jc_subscription = (\<lambda>_. Inl (ErrorString [])),
     jc_node = (\<lambda>_. Inl (ErrorString [])), jc_stored_node = (\<lambda>_ _. Inl (ErrorString []))\<rparr>"

definition demo_config :: "string list \<Rightarrow> config" where
  "demo_config raws = default_config\<lparr>cf_Profile := (cf_Profile default_config)\<lparr>pp_Nodes := raws\<rparr>\<rparr>"

lemma demo_renders:
  assumes "isl (build_outbounds codec cfg profile) = False" "px_APIPort (cf_Proxy cfg) = 0"
  shows "\<exists>sb. render_singbox_config e codec cfg order profile path = Inr sb"
  using assms by (auto simp: render_singbox_config_def Let_def split: sum.split)

lemma demo_api_off: "px_APIPort (cf_Proxy (demo_config raws)) = 0"
  by (simp add: demo_config_def default_config_def default_proxy_def)

lemma demo_outbounds:
  "isl (build_outbounds demo_codec (demo_config [''a'', ''b'']) empty_profile) = False"
  "map np_Tag (profiles_from_config_nodes demo_codec (Some (demo_config [''a'', ''b'']))) = [''node-a'', ''node-b'']"
  by code_simp+

lemma renderable_all:
  "list_all (\<lambda>p. \<not> requires_xray_sidecar (Some p) \<and> \<not> isl (build_proxy_outbound p)) ps \<Longrightarrow>
     renderable_profile_nodes codec cfg ps = Inr ps"
proof -
  have "renderable_from a x i ps = (ps, [], None)"
    if "list_all (\<lambda>p. \<not> requires_xray_sidecar (Some p) \<and> \<not> isl (build_proxy_outbound p)) ps" for a x i
    using that by (induction ps arbitrary: i) (auto simp: keep_node_def Let_def split: sum.splits)
  then show "list_all (\<lambda>p. \<not> requires_xray_sidecar (Some p) \<and> \<not> isl (build_proxy_outbound p)) ps \<Longrightarrow> ?thesis"
    by (simp add: renderable_profile_nodes_def renderable_profile_nodes_with_skips_def)
qed

lemma demo_renderable:
  "list_all (\<lambda>p. \<not> requires_xray_sidecar (Some p) \<and> \<not> isl (build_proxy_outbound p))
     (profiles_from_config_nodes demo_codec (Some (demo_config [''a'', ''b''])))"
  by code_simp

lemma rendered_references_resolve_witness:
  "\<exists>sb. render_singbox_config demo_env demo_codec (demo_config [''a'', ''b'']) [] empty_profile [] = Inr sb \<and>
     references_resolve sb \<and> routes_resolve sb"
proof -
  obtain sb where sb: "render_singbox_config demo_env demo_codec (demo_config [''a'', ''b'']) [] empty_profile [] = Inr sb"
    using demo_renders [OF demo_outbounds(1) demo_api_off] by blast
  show ?thesis
    using rendered_references_resolve [OF sb [unfolded demo_codec_def]] renderable_all [OF demo_renderable] sb
    unfolding demo_codec_def by blast
qed

end
