(* ===== verification/RendererGroups.thy ===== *)
theory RendererGroups
  imports RendererProperties
begin

text \<open>
  The tags of the rendered outbounds, which sing-box wants distinct; the direct rules for the servers of the
  proxies; and the local API that the choice between several nodes needs.
\<close>

section \<open>Groups with equal bases\<close>

text \<open>
  C36. Of three groups whose names have the same sanitised form the second and the third get the same outbound
  tags: the counter of used bases is raised for the numbered base, not for the base itself.
\<close>

theorem third_group_shadows:
  assumes "map (\<lambda>p. trim_space (np_Group p)) [p, q, r] = [g1, g2, g3]" "distinct [[], g1, g2, g3]"
    and "map (\<lambda>g. value_or_default (sanitize_outbound_tag_suffix g) ''default'') [g1, g2, g3] = [b, b, b]"
    and "\<forall>n\<in>set [p, q, r]. np_Tag n \<noteq> []"
  shows "map gp_name (build_group_outbound_plans [p, q, r]) = [g1, g2, g3] \<and>
    map gp_base (build_group_outbound_plans [p, q, r]) = [b, b @ ''-2'', b @ ''-2''] \<and>
    \<not> distinct (map tag_of (build_group_outbounds cfg (build_group_outbound_plans [p, q, r])))"
proof -
  have two: "nat_str 2 = ''2''" by code_simp
  define one two' three where "one = plan_node p []" and "two' = plan_node q one" and "three = plan_node r two'"
  have groups: "trim_space (np_Group p) = g1" "trim_space (np_Group q) = g2" "trim_space (np_Group r) = g3"
    and bases: "value_or_default (sanitize_outbound_tag_suffix g1) ''default'' = b"
      "value_or_default (sanitize_outbound_tag_suffix g2) ''default'' = b"
      "value_or_default (sanitize_outbound_tag_suffix g3) ''default'' = b"
    and tags: "np_Tag p \<noteq> []" "np_Tag q \<noteq> []" "np_Tag r \<noteq> []" and ne: "g1 \<noteq> []" "g2 \<noteq> []" "g3 \<noteq> []"
    using assms by auto
  have "plan_names one = [(g1, b)]"
    unfolding one_def plan_node_names [OF tags(1)] groups bases Let_def using ne by (simp add: plan_names_def)
  then have "plan_names two' = [(g1, b), (g2, b @ ''-2'')]"
    unfolding two'_def plan_node_names [OF tags(2)] groups bases Let_def using ne assms(2) by (auto simp: two numeral_2_eq_2 [symmetric])
  then have "plan_names three = [(g1, b), (g2, b @ ''-2''), (g3, b @ ''-2'')]"
    unfolding three_def plan_node_names [OF tags(3)] groups bases Let_def using ne assms(2) by (auto simp: two numeral_2_eq_2 [symmetric])
  then have names: "plan_names (build_group_outbound_plans [p, q, r]) = [(g1, b), (g2, b @ ''-2''), (g3, b @ ''-2'')]"
    by (simp add: build_group_outbound_plans_def one_def two'_def three_def)
  have name: "map gp_name (build_group_outbound_plans [p, q, r]) = [g1, g2, g3]"
    using arg_cong [OF names, where f = "map fst"] by (simp add: plan_names_def comp_def)
  have base: "map gp_base (build_group_outbound_plans [p, q, r]) = [b, b @ ''-2'', b @ ''-2'']"
    using arg_cong [OF names, where f = "map snd"] by (simp add: plan_names_def comp_def)
  let ?plans = "build_group_outbound_plans [p, q, r]"
  have ok: "\<forall>g\<in>set ?plans. plan_ok (set (map np_Tag [p, q, r])) g"
    by (rule build_group_outbound_plans_ok) simp
  obtain x y z where plans: "?plans = [x, y, z]" and same: "gp_base y = b @ ''-2''" "gp_base z = b @ ''-2''"
    using names by (auto simp: plan_names_def)
  have "plan_ok (set (map np_Tag [p, q, r])) y" "plan_ok (set (map np_Tag [p, q, r])) z"
    using ok by (simp_all add: plans)
  then have "group_tag z \<in> tag_of ` set (group_outbounds cfg y)" "group_tag z \<in> tag_of ` set (group_outbounds cfg z)"
    using group_outbounds_refer(1) [of _ y cfg] group_outbounds_refer(1) [of _ z cfg]
    by (simp_all add: tags_of_def group_tag_def same)
  then have "\<not> distinct (map tag_of (build_group_outbounds cfg ?plans))"
    unfolding plans build_group_outbounds_def by auto
  with name base show ?thesis by blast
qed

definition grouped_node :: "string \<Rightarrow> node_profile" where
  "grouped_node g = empty_profile\<lparr>np_Tag := ''node-'' @ g, np_Group := g\<rparr>"

lemma third_group_shadows_witness:
  "\<not> distinct (map tag_of (build_group_outbounds default_config
       (build_group_outbound_plans [grouped_node ''a b'', grouped_node ''a+b'', grouped_node ''a.b''])))"
proof -
  have groups: "map (\<lambda>p. trim_space (np_Group p)) [grouped_node ''a b'', grouped_node ''a+b'', grouped_node ''a.b''] =
      [''a b'', ''a+b'', ''a.b'']"
    by code_simp
  have differ: "distinct [[], ''a b'', ''a+b'', ''a.b'']" by simp
  have bases: "map (\<lambda>g. value_or_default (sanitize_outbound_tag_suffix g) ''default'') [''a b'', ''a+b'', ''a.b''] =
      [''a-b'', ''a-b'', ''a-b'']"
    by code_simp
  have "\<forall>n\<in>set [grouped_node ''a b'', grouped_node ''a+b'', grouped_node ''a.b'']. np_Tag n \<noteq> []"
    by (simp add: grouped_node_def)
  from third_group_shadows [OF groups differ bases this, of default_config] show ?thesis by blast
qed

section \<open>The servers of the proxies\<close>

lemma endpoint_rules_cover:
  assumes "p \<in> set (profiles_from_config_nodes codec (Some cfg))" "endpoint_host e (np_Address p) = host" "host \<noteq> []"
    "proxy_endpoint_rules e codec cfg = (domains, cidrs)"
  shows "parse_ip host = None \<Longrightarrow> to_lower host \<in> set domains"
    and "parse_ip host = Some ip \<Longrightarrow>
           ip_string ip @ ''/'' @ (if is_mapped_v4 ip then ''32'' else ''128'') \<in> set cidrs"
proof -
  let ?hosts = "map (\<lambda>p. endpoint_host e (np_Address p)) (profiles_from_config_nodes codec (Some cfg))"
  let ?domains = "concat (map endpoint_domain ?hosts)" and ?cidrs = "concat (map endpoint_cidr ?hosts)"
  have host: "host \<in> set ?hosts" using assms(1,2) by auto
  have "endpoint_domain host \<noteq> [] \<or> endpoint_cidr host \<noteq> []"
    using assms(3) by (auto simp: endpoint_domain_def endpoint_cidr_def split: option.splits)
  with host have "?domains \<noteq> [] \<or> ?cidrs \<noteq> []" by auto
  then have "(sort (unique ?domains), sort (unique ?cidrs)) \<noteq> ([], [])"
    by (metis prod.inject set_empty set_sort unique_Nil_iff)
  then have "domains = sort (unique ?domains)" "cidrs = sort (unique ?cidrs)"
    using assms(4) unfolding proxy_endpoint_rules_def Let_def by (auto split: if_splits)
  then have sets: "set domains = set ?domains" "set cidrs = set ?cidrs" by simp_all
  show "parse_ip host = None \<Longrightarrow> to_lower host \<in> set domains"
    using host assms(3) unfolding sets by (force simp: endpoint_domain_def)
  show "parse_ip host = Some ip \<Longrightarrow> ip_string ip @ ''/'' @ (if is_mapped_v4 ip then ''32'' else ''128'') \<in> set cidrs"
    using host assms(3) unfolding sets by (force simp: endpoint_cidr_def)
qed

text \<open>
  C40. The server of every usable node is reached directly: a rule for its name or address that routes to
  \<^verbatim>\<open>direct\<close> comes before every rule that names another outbound, and its name is looked up by the direct
  DNS server before all other DNS rules but the AAAA one.
\<close>

theorem proxy_servers_bypass:
  assumes "p \<in> set (profiles_from_config_nodes codec (Some cfg))" "endpoint_host e (np_Address p) = host" "host \<noteq> []"
  shows "\<exists>direct rest rule. route_rules e codec cfg order = direct @ rest \<and> refers_within direct ''outbound'' {''direct''} \<and>
           rule \<in> set direct \<and> refers rule ''outbound'' = {''direct''} \<and>
           (case parse_ip host of
              Some ip \<Rightarrow> ip_string ip @ ''/'' @ (if is_mapped_v4 ip then ''32'' else ''128'') \<in> refers rule ''ip_cidr''
            | None \<Rightarrow> to_lower host \<in> refers rule ''domain'' \<and>
                to_lower host \<in> refers (hd (dns_rules e codec cfg)) ''domain'' \<and>
                refers (hd (dns_rules e codec cfg)) ''server'' = {''direct-dns''})"
proof -
  obtain domains cidrs where servers: "proxy_endpoint_rules e codec cfg = (domains, cidrs)" by fastforce
  let ?bypass = "values_rule ''domain'' domains ''direct'' @ values_rule ''ip_cidr'' cidrs ''direct''"
  note cover = endpoint_rules_cover [OF assms servers]
  obtain rest where split: "route_rules e codec cfg order = (base_rules @ ?bypass) @ rest"
    by (simp add: route_rules_def servers Let_def)
  have direct: "refers_within (base_rules @ ?bypass) ''outbound'' {''direct''}"
    by (simp add: base_and_russian_rules)
  show ?thesis
  proof (cases "parse_ip host")
    case None
    let ?rule = "route_rule ''domain'' (jstrs domains) ''direct''"
    have mem: "to_lower host \<in> set domains - {[]}"
      using cover(1) [OF None] assms(3) by (cases host) (auto simp: to_lower_def)
    then have "?rule \<in> set ?bypass" by (auto simp: values_rule_def rule_when_def)
    moreover have "refers ?rule ''domain'' = set domains - {[]}"
      by (simp add: route_rule_def refers_list)
    moreover have "hd (dns_rules e codec cfg) = dns_route_rule ''domain'' domains"
      using mem by (auto simp: dns_rules_def servers Let_def rule_when_def)
    moreover have "refers (dns_route_rule ''domain'' domains) ''domain'' = set domains - {[]}"
      by (simp add: dns_route_rule_def refers_list)
    ultimately show ?thesis
      using split direct mem None by (intro exI [of _ "base_rules @ ?bypass"] exI [of _ rest] exI [of _ ?rule]) simp
  next
    case (Some ip)
    let ?rule = "route_rule ''ip_cidr'' (jstrs cidrs) ''direct''"
    have mem: "ip_string ip @ ''/'' @ (if is_mapped_v4 ip then ''32'' else ''128'') \<in> set cidrs - {[]}"
      using cover(2) [OF Some] by simp
    then have "?rule \<in> set ?bypass" by (auto simp: values_rule_def rule_when_def)
    moreover have "refers ?rule ''ip_cidr'' = set cidrs - {[]}"
      by (simp add: route_rule_def refers_list)
    ultimately show ?thesis
      using split direct mem Some by (intro exI [of _ "base_rules @ ?bypass"] exI [of _ rest] exI [of _ ?rule]) simp
  qed
qed

lemma proxy_servers_bypass_witness:
  "\<exists>direct rest rule. route_rules demo_env demo_codec (demo_config [''a'', ''b'']) [] = direct @ rest \<and>
     refers_within direct ''outbound'' {''direct''} \<and> rule \<in> set direct \<and> ''a.example'' \<in> refers rule ''domain''"
proof -
  have "map np_Address (profiles_from_config_nodes demo_codec (Some (demo_config [''a'', ''b'']))) = [''a.example'', ''a.example'']"
    by code_simp
  then obtain p where p: "p \<in> set (profiles_from_config_nodes demo_codec (Some (demo_config [''a'', ''b''])))"
      "np_Address p = ''a.example''"
    by (cases "profiles_from_config_nodes demo_codec (Some (demo_config [''a'', ''b'']))") auto
  have host: "endpoint_host demo_env (np_Address p) = ''a.example''" "parse_ip ''a.example'' = None"
      "to_lower ''a.example'' = ''a.example''"
    unfolding p(2) by code_simp+
  show ?thesis
    using proxy_servers_bypass [OF p(1) host(1), of "[]"] host(2,3) by auto
qed

section \<open>Distinct tags\<close>

definition base_of :: "string \<Rightarrow> string" where
  "base_of grp = value_or_default (sanitize_outbound_tag_suffix grp) ''default''"

lemma plan_names_injective:
  assumes "inj_on base_of groups" "\<forall>p\<in>set ps. trim_space (np_Group p) \<in> insert [] groups \<and> np_Tag p \<noteq> []"
  shows "\<exists>gs. plan_names (build_group_outbound_plans ps) = map (\<lambda>g. (g, base_of g)) gs \<and> distinct gs \<and> set gs \<subseteq> groups"
proof -
  have "\<exists>gs. plan_names (fold plan_node ps plans) = map (\<lambda>g. (g, base_of g)) gs \<and> distinct gs \<and> set gs \<subseteq> groups"
    if "plan_names plans = map (\<lambda>g. (g, base_of g)) gs" "distinct gs" "set gs \<subseteq> groups" for plans gs
    using assms(2) that
  proof (induction ps arbitrary: plans gs)
    case (Cons p ps)
    let ?grp = "trim_space (np_Group p)"
    have fresh: "filter ((\<lambda>n. snd n = base_of ?grp) \<circ> (\<lambda>g. (g, base_of g))) gs = []" if "?grp \<in> groups" "?grp \<notin> set gs"
      using that Cons.prems(4) inj_onD [OF assms(1)] by (fastforce simp: filter_empty_conv)
    have "plan_names (plan_node p plans) =
        map (\<lambda>g. (g, base_of g)) (if ?grp = [] \<or> ?grp \<in> set gs then gs else gs @ [?grp])"
      using Cons.prems(1) fresh by (auto simp: plan_node_names Let_def base_of_def [symmetric] Cons.prems(2) image_image)
    with Cons.prems show ?case
      by (auto intro!: Cons.IH [of _ "if ?grp = [] \<or> ?grp \<in> set gs then gs else gs @ [?grp]"] split: if_splits)
  qed auto
  from this [of "[]" "[]"] show ?thesis by (simp add: build_group_outbound_plans_def plan_names_def)
qed

text \<open>The tags of the group outbounds.\<close>

definition group_tags :: "group_plan \<Rightarrow> string list" where
  "group_tags g = (if 1 < length (gp_tags g) then [group_tag g @ ''-auto''] else []) @ [group_tag g]"

lemma group_outbounds_tags: "gp_tags g \<noteq> [] \<Longrightarrow> map tag_of (group_outbounds cfg g) = group_tags g"
  by (simp add: group_outbounds_def group_tags_def Let_def)

lemma group_tags_disjoint:
  assumes "gp_base g \<noteq> gp_base h" "\<not> has_suffix (gp_base g) ''-auto''" "\<not> has_suffix (gp_base h) ''-auto''"
  shows "set (group_tags g) \<inter> set (group_tags h) = {}"
proof -
  have "gp_base g \<noteq> gp_base h @ ''-auto''" "gp_base h \<noteq> gp_base g @ ''-auto''"
    using assms(2,3) unfolding has_suffix_def suffix_def by metis+
  with assms(1) show ?thesis by (auto simp: group_tags_def group_tag_def)
qed

lemma distinct_group_tags:
  assumes "\<forall>g\<in>set plans. plan_ok tags g" "distinct (map gp_base plans)"
    and "\<forall>g\<in>set plans. \<not> has_suffix (gp_base g) ''-auto''"
  shows "distinct (map tag_of (build_group_outbounds cfg plans))"
proof -
  have "map tag_of (build_group_outbounds cfg plans) = concat (map group_tags plans)"
    using assms(1) unfolding build_group_outbounds_def
    by (induction plans) (simp_all add: group_outbounds_tags plan_ok_def)
  moreover have "distinct (concat (map group_tags plans))"
    using assms(2,3)
  proof (induction plans)
    case (Cons g plans)
    have "set (group_tags g) \<inter> set (group_tags h) = {}" if "h \<in> set plans" for h
      using that Cons.prems by (intro group_tags_disjoint) auto
    moreover have "distinct (group_tags g)" by (simp add: group_tags_def)
    ultimately show ?case using Cons by auto
  qed simp
  ultimately show ?thesis by simp
qed

lemma renderable_from_subset: "set (fst (renderable_from a x i ps)) \<subseteq> set ps"
proof (induction ps arbitrary: i)
  case (Cons p ps)
  obtain qs ks err where rest: "renderable_from a x (Suc i) ps = (qs, ks, err)" by (metis prod_cases3)
  then have "set qs \<subseteq> set ps" using Cons.IH [of "Suc i"] by simp
  then show ?case by (auto simp: rest keep_node_def skip_node_def Let_def split: sum.splits if_splits)
qed simp

lemma selected_stored:
  assumes "selected_nodes codec cfg profile = Inr ps" "length ps \<noteq> 1"
  shows "set ps \<subseteq> set (profiles_from_config_nodes codec (Some cfg))"
proof -
  have stored: "profiles_from_config_nodes codec (Some cfg) \<noteq> []"
    using assms by (auto simp: selected_nodes_def render_fail_def Let_def split: if_splits)
  then have "renderable_profile_nodes codec cfg (profiles_from_config_nodes codec (Some cfg)) = Inr ps"
    using assms(1) by (simp add: selected_nodes_def Let_def)
  then have "ps = fst (renderable_profile_nodes_with_skips codec cfg (profiles_from_config_nodes codec (Some cfg)))"
    by (auto simp: renderable_profile_nodes_def render_fail_def split: prod.splits option.splits if_splits)
  then show ?thesis by (simp add: renderable_profile_nodes_with_skips_def renderable_from_subset)
qed

lemma tag_nodes_id:
  assumes "length ps \<noteq> 1" "\<forall>p\<in>set ps. np_Tag p \<noteq> []"
  shows "tag_nodes ps = ps"
proof -
  have "map (\<lambda>(i, p). if np_Tag p = [] then p\<lparr>np_Tag := ''node-'' @ nat_str (i + 1)\<rparr> else p) (List.enumerate n ps) = ps"
    for n using assms(2) by (induction ps arbitrary: n) simp_all
  then show ?thesis using assms(1) by (simp add: tag_nodes_def)
qed

lemma node_tag_differs:
  assumes "take 5 t = ''node-''"
  shows "t \<noteq> ''auto''" "t \<noteq> ''proxy''" "t \<noteq> ''direct''" "t \<notin> set (group_tags g)"
  using assms by (auto simp: group_tags_def group_tag_def)

lemma group_tag_differs:
  "t \<in> set (group_tags g) \<Longrightarrow> t \<noteq> ''auto'' \<and> t \<noteq> ''proxy'' \<and> t \<noteq> ''direct''"
  by (auto simp: group_tags_def group_tag_def split: if_splits)

lemma selected_plans:
  assumes "\<forall>p\<in>set nodes. np_Tag p \<noteq> []" "nodes = tag_nodes selected"
    and "inj_on base_of ((\<lambda>p. trim_space (np_Group p)) ` set selected - {[]})"
    and "\<forall>p\<in>set selected. \<not> has_suffix (base_of (trim_space (np_Group p))) ''-auto''"
  shows "distinct (map gp_base (build_group_outbound_plans nodes))"
    and "\<forall>g\<in>set (build_group_outbound_plans nodes). \<not> has_suffix (gp_base g) ''-auto''"
proof -
  let ?groups = "(\<lambda>p. trim_space (np_Group p)) ` set selected - {[]}"
  have "np_Group ` set nodes = np_Group ` set selected"
    unfolding assms(2) by (metis image_set tag_nodes_groups)
  then have "\<forall>p\<in>set nodes. trim_space (np_Group p) \<in> insert [] ?groups \<and> np_Tag p \<noteq> []"
  proof (intro ballI conjI)
    fix p assume p: "p \<in> set nodes"
    then obtain q where "q \<in> set selected" "np_Group p = np_Group q"
      using \<open>np_Group ` set nodes = np_Group ` set selected\<close> by (metis imageE imageI)
    then show "trim_space (np_Group p) \<in> insert [] ?groups" by auto
    show "np_Tag p \<noteq> []" using assms(1) p by blast
  qed
  from plan_names_injective [OF assms(3) this] obtain gs
    where gs: "plan_names (build_group_outbound_plans nodes) = map (\<lambda>g. (g, base_of g)) gs" "distinct gs" "set gs \<subseteq> ?groups"
    by blast
  have bases: "map gp_base (build_group_outbound_plans nodes) = map base_of gs"
    using arg_cong [OF gs(1), where f = "map snd"] by (simp add: plan_names_def comp_def)
  show "distinct (map gp_base (build_group_outbound_plans nodes))"
    unfolding bases using gs(2,3) assms(3) by (simp add: distinct_map inj_on_subset)
  show "\<forall>g\<in>set (build_group_outbound_plans nodes). \<not> has_suffix (gp_base g) ''-auto''"
  proof
    fix g assume "g \<in> set (build_group_outbound_plans nodes)"
    then have "gp_base g \<in> base_of ` set gs" using bases by (metis image_eqI image_set)
    then show "\<not> has_suffix (gp_base g) ''-auto''" using gs(3) assms(4) by auto
  qed
qed

text \<open>
  C35. The tags of the rendered outbounds are distinct when the tags of the rendered nodes are, the sanitised names of
  their different groups differ, and no such name ends in \<^verbatim>\<open>-auto\<close>; no condition on reserved tags
  is needed, since every tag of a stored node begins with \<^verbatim>\<open>node-\<close>.
\<close>

theorem outbound_tags_distinct:
  assumes "build_outbounds (renderer_codec e codec) cfg profile = Inr outs"
    and "selected_nodes (renderer_codec e codec) cfg profile = Inr selected" "distinct (map np_Tag selected)"
    and "inj_on base_of ((\<lambda>p. trim_space (np_Group p)) ` set selected - {[]})"
    and "\<forall>p\<in>set selected. \<not> has_suffix (base_of (trim_space (np_Group p))) ''-auto''"
  shows "distinct (map tag_of outs)"
proof -
  obtain nodes plans proxies where parts: "nodes = tag_nodes selected" "plans = build_group_outbound_plans nodes"
      "render_all build_proxy_outbound nodes = Inr proxies" "selected \<noteq> []"
      "outs = proxies @ choice_outbounds cfg nodes plans @ build_group_outbounds cfg plans @
              [[(''type'', JStr ''direct''), (''tag'', JStr ''direct'')]]"
    using build_outbounds_parts [OF assms(1)] assms(2) by (metis sum.inject(2))
  have tagged: "\<forall>p\<in>set nodes. np_Tag p \<noteq> []" by (simp add: parts(1) tag_nodes_tagged)
  note plans = selected_plans [OF tagged parts(1) assms(4,5), folded parts(2)]
  have ok: "\<forall>g\<in>set plans. plan_ok (np_Tag ` set nodes) g"
    unfolding parts(2) by (rule build_group_outbound_plans_ok) simp
  have groups: "distinct (map tag_of (build_group_outbounds cfg plans))"
    by (rule distinct_group_tags [OF ok plans])
  have group_tags: "\<exists>g. t \<in> set (group_tags g)" if "t \<in> set (map tag_of (build_group_outbounds cfg plans))" for t
    using that ok group_outbounds_tags [of _ cfg]
    by (fastforce simp: build_group_outbounds_def plan_ok_def dest: arg_cong [where f = set])
  have proxies: "map tag_of proxies = map np_Tag nodes"
    using render_all_proxies(1) [OF parts(3)] tagged by (simp add: value_or_default_def)
  show ?thesis
  proof (cases "length selected = 1")
    case True
    then have "map np_Tag nodes = [''proxy'']" "choice_outbounds cfg nodes plans = []"
      by (auto simp: parts(1) tag_nodes_def length_Suc_conv choice_outbounds_def)
    with groups group_tags group_tag_differs show ?thesis
      by (auto simp: parts(5) proxies)
  next
    case False
    then have nodes: "\<forall>p\<in>set selected. take 5 (np_Tag p) = ''node-''"
      using selected_stored [OF assms(2)] stored_nodes_tagged(1) by blast
    then have "tag_nodes selected = selected"
      using False by (intro tag_nodes_id) auto
    then have tags: "map np_Tag nodes = map np_Tag selected" by (simp add: parts(1))
    have "1 < length nodes" using False parts(4) by (cases selected) (auto simp: parts(1))
    then have choice: "map tag_of (choice_outbounds cfg nodes plans) = [''auto'', ''proxy'']"
      by (simp add: choice_outbounds_def Let_def)
    have all: "map tag_of outs = map np_Tag selected @ [''auto'', ''proxy''] @
        map tag_of (build_group_outbounds cfg plans) @ [''direct'']"
      by (simp add: parts(5) proxies choice tags)
    have "set (map np_Tag selected) \<inter> set ([''auto'', ''proxy''] @ map tag_of (build_group_outbounds cfg plans) @ [''direct'']) = {}"
      using nodes group_tags node_tag_differs by fastforce
    moreover have "distinct ([''auto'', ''proxy''] @ map tag_of (build_group_outbounds cfg plans) @ [''direct''])"
      using groups group_tags group_tag_differs by (auto simp del: set_map)
    ultimately show ?thesis using assms(3) unfolding all distinct_append by blast
  qed
qed

lemma outbound_tags_distinct_witness:
  "distinct (map tag_of (projr (build_outbounds demo_codec (demo_config [''a'', ''b'']) empty_profile)))"
proof -
  let ?cfg = "demo_config [''a'', ''b'']"
  let ?ps = "profiles_from_config_nodes demo_codec (Some ?cfg)"
  have facts: "map np_Tag ?ps = [''node-a'', ''node-b'']" "map (\<lambda>p. trim_space (np_Group p)) ?ps = [''a'', ''b'']"
      "map base_of [''a'', ''b''] = [''a'', ''b'']"
    by code_simp+
  have "?ps \<noteq> []" using facts(1) by auto
  then have selected: "selected_nodes demo_codec ?cfg empty_profile = Inr ?ps"
    by (simp add: selected_nodes_def Let_def renderable_all [OF demo_renderable])
  obtain outs where outs: "build_outbounds demo_codec ?cfg empty_profile = Inr outs"
    using demo_outbounds(1) by (cases "build_outbounds demo_codec ?cfg empty_profile") simp_all
  have names: "(\<lambda>p. trim_space (np_Group p)) ` set ?ps = {''a'', ''b''}"
    using arg_cong [OF facts(2), where f = set] by simp
  have inj: "inj_on base_of ((\<lambda>p. trim_space (np_Group p)) ` set ?ps - {[]})"
    using facts(3) by (simp add: names inj_on_def)
  have suffixes: "\<not> has_suffix ''a'' ''-auto''" "\<not> has_suffix ''b'' ''-auto''" by code_simp+
  have plain: "\<forall>p\<in>set ?ps. \<not> has_suffix (base_of (trim_space (np_Group p))) ''-auto''"
  proof
    fix p assume "p \<in> set ?ps"
    then have "trim_space (np_Group p) \<in> {''a'', ''b''}" unfolding names [symmetric] by (rule imageI)
    then show "\<not> has_suffix (base_of (trim_space (np_Group p))) ''-auto''"
      using facts(3) suffixes by auto
  qed
  show ?thesis
    using outbound_tags_distinct [of demo_env, OF outs [unfolded demo_codec_def] selected [unfolded demo_codec_def]]
      facts(1) inj plain outs unfolding demo_codec_def by simp
qed

section \<open>Groups without an outbound\<close>










section \<open>The local API\<close>

lemma selection_ignores_proxy:
  "profiles_from_config_nodes codec (Some (cfg\<lparr>cf_Proxy := x\<rparr>)) = profiles_from_config_nodes codec (Some cfg)"
  "renderable_profile_nodes_with_skips codec (cfg\<lparr>cf_Proxy := x\<rparr>) ps = renderable_profile_nodes_with_skips codec cfg ps"
  by (simp_all add: profiles_from_config_nodes_def usable_profile_nodes_def renderable_profile_nodes_with_skips_def
      active_xhttp_id_def resolve_active_profile_def split: list.split)

text \<open>
  Once \<^verbatim>\<open>EnsureLocalClashAPIForMultiNode\<close> has succeeded with a random secret that is not blank, a
  configuration with several renderable nodes has an API port and a secret, so that its rendering can only fail for its
  outbounds; nothing but these two settings changes, the flag says whether they did, and a second call changes nothing.
\<close>

theorem local_clash_api_ensured:
  assumes "ensure_local_clash_api codec secret cfg = Inr (next_cfg, changed)"
    and "\<forall>s. secret = Inr s \<longrightarrow> trim_space s \<noteq> []"
  shows "(\<exists>port s. next_cfg = cfg\<lparr>cf_Proxy := (cf_Proxy cfg)\<lparr>px_APIPort := port, px_APISecret := s\<rparr>\<rparr>) \<and>
    (changed \<longleftrightarrow> next_cfg \<noteq> cfg) \<and>
    ensure_local_clash_api codec secret2 next_cfg = Inr (next_cfg, False) \<and>
    (\<forall>ps skipped. renderable_profile_nodes_with_skips codec cfg (profiles_from_config_nodes codec (Some cfg)) = (ps, skipped, None) \<and>
        1 < length ps \<longrightarrow>
      0 < px_APIPort (cf_Proxy next_cfg) \<and> trim_space (px_APISecret (cf_Proxy next_cfg)) \<noteq> [] \<and>
      (\<forall>err. render_singbox_config e codec next_cfg order profile path = Inl err \<longrightarrow>
         build_outbounds codec next_cfg profile = Inl err))"
proof -
  obtain ps skipped err where sel: "renderable_profile_nodes_with_skips codec cfg (profiles_from_config_nodes codec (Some cfg)) =
      (ps, skipped, err)"
    by (metis prod_cases3)
  have again: "renderable_profile_nodes_with_skips codec (cfg\<lparr>cf_Proxy := x\<rparr>)
      (profiles_from_config_nodes codec (Some (cfg\<lparr>cf_Proxy := x\<rparr>))) = (ps, skipped, err)" for x
    by (simp add: selection_ignores_proxy sel)
  let ?px = "cf_Proxy cfg"
  define port where "port = (if px_APIPort ?px \<le> 0 then default_clash_api_port else px_APIPort ?px)"
  have port: "0 < port" by (simp add: port_def default_clash_api_port_def)
  show ?thesis
  proof (cases "err \<noteq> None \<or> length ps \<le> 1")
    case True
    then have same: "next_cfg = cfg" "\<not> changed"
      using assms(1) by (auto simp: ensure_local_clash_api_def sel)
    have "cfg = cfg\<lparr>cf_Proxy := ?px\<lparr>px_APIPort := px_APIPort ?px, px_APISecret := px_APISecret ?px\<rparr>\<rparr>" by simp
    then have "\<exists>port s. cfg = cfg\<lparr>cf_Proxy := ?px\<lparr>px_APIPort := port, px_APISecret := s\<rparr>\<rparr>" by blast
    moreover have "ensure_local_clash_api codec secret2 cfg = Inr (cfg, False)"
      using True by (auto simp: ensure_local_clash_api_def sel)
    ultimately show ?thesis using True same sel by auto
  next
    case False
    obtain s where s: "next_cfg = cfg\<lparr>cf_Proxy := ?px\<lparr>px_APIPort := port, px_APISecret := s\<rparr>\<rparr>" "trim_space s \<noteq> []"
        "changed \<longleftrightarrow> port \<noteq> px_APIPort ?px \<or> s \<noteq> px_APISecret ?px"
    proof (cases "trim_space (px_APISecret ?px) = []")
      case True
      then obtain s where "secret = Inr s"
        using assms(1) False by (auto simp: ensure_local_clash_api_def sel Let_def split: sum.splits)
      with True assms False show ?thesis
        by (intro that [of s]) (auto simp: ensure_local_clash_api_def sel port_def Let_def)
    next
      case nonblank: False
      with assms False show ?thesis
        by (intro that [of "px_APISecret ?px"])
           (auto simp: ensure_local_clash_api_def sel port_def default_clash_api_port_def Let_def)
    qed
    have "changed \<longleftrightarrow> next_cfg \<noteq> cfg"
    proof -
      have "cfg\<lparr>cf_Proxy := x\<rparr> = cfg \<longleftrightarrow> x = ?px" for x by (cases cfg) auto
      moreover have "px\<lparr>px_APIPort := port, px_APISecret := s\<rparr> = px \<longleftrightarrow> port = px_APIPort px \<and> s = px_APISecret px" for px
        by (cases px) auto
      ultimately have "next_cfg = cfg \<longleftrightarrow> port = px_APIPort ?px \<and> s = px_APISecret ?px"
        by (simp add: s(1))
      then show ?thesis using s(3) by blast
    qed
    moreover have "ensure_local_clash_api codec secret2 next_cfg = Inr (next_cfg, False)"
      using False port s(2) by (auto simp: ensure_local_clash_api_def s(1) again Let_def)
    moreover have "build_outbounds codec next_cfg profile = Inl err"
      if "render_singbox_config e codec next_cfg order profile path = Inl err" for err
      using that s(2) by (auto simp: render_singbox_config_def s(1) Let_def split: sum.splits)
    ultimately show ?thesis using port s by auto
  qed
qed

lemma local_clash_api_ensured_witness:
  "\<exists>next_cfg. ensure_local_clash_api demo_codec (Inr ''s3cret'') (demo_config [''a'', ''b'']) = Inr (next_cfg, True) \<and>
     0 < px_APIPort (cf_Proxy next_cfg) \<and> trim_space (px_APISecret (cf_Proxy next_cfg)) \<noteq> []"
proof -
  let ?cfg = "demo_config [''a'', ''b'']"
  have two: "length (fst (renderable_profile_nodes_with_skips demo_codec ?cfg (profiles_from_config_nodes demo_codec (Some ?cfg)))) =
      Suc (Suc 0)"
      "snd (snd (renderable_profile_nodes_with_skips demo_codec ?cfg (profiles_from_config_nodes demo_codec (Some ?cfg)))) = None"
    by code_simp+
  then obtain ps skipped where ps: "renderable_profile_nodes_with_skips demo_codec ?cfg
      (profiles_from_config_nodes demo_codec (Some ?cfg)) = (ps, skipped, None)" "1 < length ps"
    by (metis One_nat_def eq_snd_iff fst_conv lessI less_Suc_eq snd_conv)
  have secret: "trim_space ''s3cret'' \<noteq> []" by code_simp
  have unset: "trim_space (px_APISecret (cf_Proxy ?cfg)) = []"
    by (simp add: demo_config_def default_config_def default_proxy_def)
  obtain next_cfg changed where ensured: "ensure_local_clash_api demo_codec (Inr ''s3cret'') ?cfg = Inr (next_cfg, changed)"
    using ps unset by (simp add: ensure_local_clash_api_def Let_def)
  have "changed"
    using ensured ps unset by (simp add: ensure_local_clash_api_def Let_def)
  moreover have "\<forall>s. Inr ''s3cret'' = (Inr s :: go_error + string) \<longrightarrow> trim_space s \<noteq> []"
    using secret by auto
  note props = local_clash_api_ensured [OF ensured this]
  have "0 < px_APIPort (cf_Proxy next_cfg) \<and> trim_space (px_APISecret (cf_Proxy next_cfg)) \<noteq> []"
    using props ps by metis
  ultimately show ?thesis using ensured by (intro exI [of _ next_cfg]) simp
qed

end
