(* ===== verification/LinkProperties.thy ===== *)
theory LinkProperties
  imports SubscriptionParse RendererReferences
begin

text \<open>
  From a share link to a sing-box outbound: \<^verbatim>\<open>ParseLink\<close> makes a profile node with an Xray outbound, the
  node is stored as JSON, and the renderer reads it back (\<^verbatim>\<open>profileFromStoredNode\<close>) and builds the outbound.
  \<^verbatim>\<open>encoding/json\<close> writes the keys of a map in their order, once each, and reads back what it wrote: the decoded
  outbound is the canonical form of the encoded one.  That is the hypothesis \<^verbatim>\<open>reads_back\<close>; the order of
  the keys in the model of a Go map has no meaning, and no marshaller is asked to keep it.
\<close>

definition stored_form :: "profile_node \<Rightarrow> stored_node" where
  "stored_form n =
     \<lparr>sd_ID = nd_ID n, sd_Name = nd_Name n, sd_Group = nd_Group n, sd_Protocol = nd_Protocol n, sd_Server = nd_Server n,
      sd_Port = nd_Port n, sd_Link = nd_Link n, sd_Outbound = nd_Outbound n, sd_OwnerPackage = nd_OwnerPackage n,
      sd_Stale = nd_Stale n\<rparr>"

text \<open>The canonical form: every key once, with the value a lookup finds, in the order of the keys, at every level.\<close>

definition sorted_fields :: "json_map \<Rightarrow> json_map" where
  "sorted_fields fs = map (\<lambda>k. (k, the (map_of fs k))) (sort (remdups (map fst fs)))"

primrec canonical :: "json \<Rightarrow> json" where
  "canonical JNull = JNull"
| "canonical (JBool b) = JBool b"
| "canonical (JInt i) = JInt i"
| "canonical (JStr s) = JStr s"
| "canonical (JList vs) = JList (map canonical vs)"
| "canonical (JObj fs) = JObj (sorted_fields (map (map_prod id canonical) fs))"

definition canonical_map :: "json_map \<Rightarrow> json_map" where
  "canonical_map fs = sorted_fields (map (map_prod id canonical) fs)"

lemma canonical_JObj [simp]: "canonical (JObj fs) = JObj (canonical_map fs)"
  by (simp add: canonical_map_def)

declare canonical.simps(6) [simp del]

lemma map_of_sorted_fields: "map_of (sorted_fields fs) = map_of fs"
proof
  fix k
  show "map_of (sorted_fields fs) k = map_of fs k"
  proof (cases "map_of fs k")
    case None
    then have "k \<notin> fst ` set fs" by (simp add: map_of_eq_None_iff)
    then show ?thesis using None by (simp add: sorted_fields_def map_of_map_restrict restrict_map_def)
  next
    case (Some v)
    then have "k \<in> fst ` set fs" by (metis domI dom_map_of_conv_image_fst)
    then show ?thesis using Some by (simp add: sorted_fields_def map_of_map_restrict restrict_map_def)
  qed
qed

lemma canonical_map_Nil [simp]: "canonical_map [] = []"
  by (simp add: canonical_map_def sorted_fields_def)

lemma json_field_canonical [simp]: "json_field (canonical_map m) k = canonical (json_field m k)"
proof -
  have "map_of (map (map_prod id canonical) m) k = map_option canonical (map_of m k)"
    by (induction m) auto
  then show ?thesis
    by (simp add: json_field_def canonical_map_def map_of_sorted_fields split: option.split)
qed

lemma read_canonical [simp]:
  "json_string_from_map (canonical_map m) k = json_string_from_map m k"
  "map_from_map (canonical_map m) k = canonical_map (map_from_map m k)"
  "first_map_from_array (canonical_map m) k = canonical_map (first_map_from_array m k)"
proof -
  show "json_string_from_map (canonical_map m) k = json_string_from_map m k"
    "map_from_map (canonical_map m) k = canonical_map (map_from_map m k)"
    by (cases "json_field m k"; simp add: json_string_from_map_def map_from_map_def)+
  show "first_map_from_array (canonical_map m) k = canonical_map (first_map_from_array m k)"
  proof (cases "json_field m k")
    case (JList vs)
    show ?thesis
    proof (cases vs)
      case (Cons v ws)
      then show ?thesis using JList by (cases v) (simp_all add: first_map_from_array_def)
    qed (simp add: first_map_from_array_def JList)
  qed (simp_all add: first_map_from_array_def)
qed

text \<open>The node whose outbound \<^verbatim>\<open>ParseLink\<close> encodes: the parsed one, still without an outbound.\<close>

definition parsed_link_node :: "parsed_url \<Rightarrow> string \<Rightarrow> int \<Rightarrow> profile_node" where
  "parsed_link_node u source now =
     (let protocol = normalize_link_protocol (pu_Scheme u); host = url_hostname u; port = fst (atoi (url_port u));
          user = (case pu_User u of None \<Rightarrow> [] | Some user \<Rightarrow> uu_Text user)
      in imported_link_node (stable_node_id protocol host port user) protocol host port (trim_space source) (pu_Fragment u) now)"

definition reads_back :: "link_env \<Rightarrow> string \<Rightarrow> profile_node \<Rightarrow> json_map \<Rightarrow> bool" where
  "reads_back e raw n m \<longleftrightarrow>
     re_stored (render_env.truncate e) raw = Inr (stored_form n) \<and> le_marshal e m \<noteq> [] \<and>
     re_object (render_env.truncate e) (le_marshal e m) = canonical_map m"

section \<open>What the readers leave alone\<close>

lemma put_extra_keeps [simp]:
  "np_Protocol (put_extra k v p) = np_Protocol p" "np_Address (put_extra k v p) = np_Address p"
  "np_Port (put_extra k v p) = np_Port p" "np_UUID (put_extra k v p) = np_UUID p"
  "np_Password (put_extra k v p) = np_Password p" "np_WGPrivateKey (put_extra k v p) = np_WGPrivateKey p"
  "np_Transport (put_extra k v p) = np_Transport p" "np_Extra (put_extra k v p) = (np_Extra p)(k \<mapsto> v)"
  by (simp_all add: put_extra_def)

text \<open>Identity, endpoint and secrets of a profile.\<close>

definition core_of :: "node_profile \<Rightarrow> string \<times> string \<times> int \<times> string \<times> string \<times> string" where
  "core_of p = (np_Protocol p, np_Address p, np_Port p, np_UUID p, np_Password p, np_WGPrivateKey p)"

lemma core_of_put_extra [simp]: "core_of (put_extra k v p) = core_of p"
  by (simp add: core_of_def)

lemma core_of_tls [simp]: "core_of (apply_tls_settings tls p) = core_of p"
  by (simp add: apply_tls_settings_def Let_def core_of_def)

lemma core_of_reality [simp]: "core_of (apply_reality_settings r p) = core_of p"
  by (simp add: apply_reality_settings_def Let_def) (simp add: core_of_def apply_tls_settings_def Let_def)

lemma core_of_network [simp]: "core_of (apply_network_settings n stream p) = core_of p"
  by (simp add: apply_network_settings_def Let_def)

lemma core_of_stream [simp]: "core_of (apply_stream_settings stream p) = core_of p"
  by (simp add: apply_stream_settings_def Let_def) (simp add: core_of_def)

lemma core_of_flow [simp]: "core_of (normalize_vless_profile_flow p) = core_of p"
  by (simp add: normalize_vless_profile_flow_def Let_def core_of_def)

lemma fill_endpoint_id [simp]: "np_Address p \<noteq> [] \<Longrightarrow> np_Port p \<noteq> 0 \<Longrightarrow> fill_endpoint host port p = p"
  by (simp add: fill_endpoint_def)

lemma user_fallback_id:
  assumes "np_Address p \<noteq> []" "np_Port p \<noteq> 0" "np_UUID p \<noteq> []"
  shows "user_link_fallback u p =
    (if np_Transport p = [] \<or> np_Transport p = ''tcp'' \<or> transport_extras_missing p
     then apply_stream_settings (stream_settings_from_link_query u) p else p)"
  using assms by (simp add: user_link_fallback_def Let_def split: prod.split option.split)

section \<open>Transports that sing-box has\<close>

definition plain_transport :: "node_profile \<Rightarrow> bool" where
  "plain_transport p \<longleftrightarrow>
     np_Transport p \<in> {''ws'', ''grpc'', ''http'', ''h2'', ''httpupgrade''} \<or>
     (np_Transport p = ''tcp'' \<and> env_get (np_Extra p) ''header_type'' = [])"

definition plain_networks :: "string set" where
  "plain_networks = {[], ''tcp'', ''ws'', ''grpc'', ''http'', ''h2'', ''httpupgrade''}"

lemma build_transport_plain: "plain_transport p \<Longrightarrow> \<exists>t. build_transport p = Inr t"
  unfolding plain_transport_def insert_iff empty_iff simp_thms
  by (elim disjE conjE) (simp_all add: build_transport_def Let_def)

lemma plain_not_sidecar: "plain_transport p \<Longrightarrow> \<not> requires_xray_sidecar (Some p)"
proof -
  have "\<not> equal_fold (trim_space t) ''xhttp''" if "t \<in> {''tcp'', ''ws'', ''grpc'', ''http'', ''h2'', ''httpupgrade''}" for t
  proof -
    have "list_all (\<lambda>t. \<not> equal_fold (trim_space t) ''xhttp'') [''tcp'', ''ws'', ''grpc'', ''http'', ''h2'', ''httpupgrade'']"
      by code_simp
    with that show ?thesis by (auto simp: list_all_iff)
  qed
  then show "plain_transport p \<Longrightarrow> \<not> requires_xray_sidecar (Some p)"
    by (auto simp: plain_transport_def requires_xray_sidecar_def)
qed

lemma tls_settings_keep [simp]:
  "np_Transport (apply_tls_settings tls p) = np_Transport p"
  "np_Transport (apply_reality_settings tls p) = np_Transport p"
  by (simp_all add: apply_tls_settings_def apply_reality_settings_def Let_def)

lemma apply_stream_plain:
  assumes "plain_transport p" "json_string_from_map stream ''network'' \<in> plain_networks"
    and "json_field stream ''tcpSettings'' = JNull"
  shows "plain_transport (apply_stream_settings stream p)"
proof (cases "stream = [] \<or> np_Protocol p = ''socks''")
  case True
  then show ?thesis using assms(1) by (auto simp: apply_stream_settings_def)
next
  case False
  let ?network = "value_or_default (json_string_from_map stream ''network'') ''tcp''"
  have tcp: "map_from_map stream ''tcpSettings'' = []"
    by (simp add: map_from_map_def assms(3))
  have transport: "np_Transport (apply_network_settings n stream q) = np_Transport q" for n q
    by (simp add: apply_network_settings_def Let_def)
  have header: "env_get (np_Extra (apply_network_settings ''tcp'' stream q)) ''header_type'' = []" for q
    by (simp add: apply_network_settings_def tcp env_get_def) (simp add: map_from_map_def json_string_from_map_def)
  have "plain_transport (apply_network_settings ?network stream q)" if "np_Transport q = ?network" for q
    using assms(2) that transport [of ?network q] header [of q]
    by (auto simp: plain_transport_def plain_networks_def value_or_default_def)
  moreover have "plain_transport (put_extra ''network'' n q) = plain_transport q" for n q
    by (simp add: plain_transport_def env_get_def)
  ultimately show ?thesis
    using False by (simp add: apply_stream_settings_def Let_def)
qed

lemma normalize_flow_plain [simp]: "plain_transport (normalize_vless_profile_flow p) = plain_transport p"
  by (simp add: normalize_vless_profile_flow_def Let_def plain_transport_def env_get_def)

section \<open>The outbound of a link\<close>

definition link_network :: "parsed_url \<Rightarrow> string" where
  "link_network u = to_lower (trim_space (query_get u ''type''))"

definition stream_keys :: "string set" where
  "stream_keys = {''security'', ''realitySettings'', ''tlsSettings'', ''wsSettings'', ''grpcSettings'', ''httpSettings'',
     ''httpupgradeSettings'', ''xhttpSettings''}"

lemma stream_part_keys:
  "fst ` set (stream_security u security) \<subseteq> stream_keys" "fst ` set (stream_network e u network) \<subseteq> stream_keys"
  "fst ` set (security_from_link u) \<subseteq> stream_keys" "fst ` set (network_from_link u network) \<subseteq> stream_keys"
  unfolding stream_security_def stream_network_def security_from_link_def network_from_link_def Let_def
  by (auto simp: stream_keys_def jwhen_def split: if_split_asm)

lemma absent_from_stream:
  assumes "fst ` set m \<subseteq> stream_keys" "key \<notin> stream_keys"
  shows "json_field m key = JNull"
  using assms by (intro json_field_absent) auto

lemma jtext_field: "json_field (jtext k v) key = (if v \<noteq> [] \<and> k = key then JStr v else JNull)"
  by (simp add: jtext_def jwhen_def)

lemma stream_fields:
  assumes "key \<notin> stream_keys"
  shows "json_field (build_stream_settings e u) key =
           (if key = ''network'' \<and> link_network u \<noteq> [] then JStr (link_network u) else JNull)"
    and "json_field (stream_settings_from_link_query u) key =
           (if key = ''network'' \<and> link_network u \<noteq> [] then JStr (link_network u) else JNull)"
proof -
  note absent = stream_part_keys [THEN absent_from_stream, OF assms]
  have "key \<noteq> ''security''" using assms by (auto simp: stream_keys_def)
  then show "json_field (build_stream_settings e u) key =
      (if key = ''network'' \<and> link_network u \<noteq> [] then JStr (link_network u) else JNull)"
    by (auto simp: build_stream_settings_def Let_def json_field_append jtext_field absent link_network_def [symmetric])
       (auto simp: jtext_def jwhen_def)
  show "json_field (stream_settings_from_link_query u) key =
      (if key = ''network'' \<and> link_network u \<noteq> [] then JStr (link_network u) else JNull)"
    by (auto simp: stream_settings_from_link_query_def Let_def json_field_append absent link_network_def [symmetric])
qed

lemma streams_plain:
  assumes "link_network u \<in> plain_networks" "plain_transport p"
  shows "plain_transport (apply_stream_settings (canonical_map (build_stream_settings e u)) p)"
    and "plain_transport (apply_stream_settings (stream_settings_from_link_query u) p)"
  using assms
  by (auto intro!: apply_stream_plain simp: stream_fields stream_keys_def json_string_from_map_def plain_networks_def)

lemma link_outbound_fields:
  "json_field (link_outbound e n u) ''protocol'' = JStr (nd_Protocol n)"
  "map_from_map (link_outbound e n u) ''streamSettings'' = build_stream_settings e u"
  by (simp_all add: link_outbound_def Let_def jwhen_def map_from_map_def)

lemma user_link_settings:
  assumes "nd_Protocol n = ''vless'' \<or> nd_Protocol n = ''vmess''"
  shows "map_from_map (link_outbound e n u) ''settings'' =
    user_settings n u (case pu_User u of None \<Rightarrow> [] | Some user \<Rightarrow> uu_Name user)"
  using assms by (simp add: link_outbound_def Let_def map_from_map_def)

lemma trojan_link_settings:
  assumes "nd_Protocol n = ''trojan''"
  shows "map_from_map (link_outbound e n u) ''settings'' =
    [(''servers'', JList [JObj [(''address'', JStr (nd_Server n)), (''port'', JInt (nd_Port n)),
       (''password'', JStr (case pu_User u of None \<Rightarrow> [] | Some user \<Rightarrow> uu_Name user))]])]"
  using assms by (simp add: link_outbound_def Let_def map_from_map_def)

lemma other_link_settings:
  assumes "nd_Protocol n \<in> {''hysteria2'', ''tuic'', ''wireguard''}"
  shows "map_from_map (link_outbound e n u) ''settings'' = []"
  using assms by (auto simp: link_outbound_def Let_def map_from_map_def)

section \<open>Parsed links\<close>

lemma parse_link_returns:
  assumes "parse_link e url_error source now = Returns n" "re_url (render_env.truncate e) (trim_space source) = Some u"
    and "normalize_link_protocol (pu_Scheme u) = protocol" "protocol \<noteq> ''shadowsocks''"
  obtains user where "pu_User u = Some user" "nd_Protocol n = protocol" "nd_Server n = url_hostname u"
    "nd_Port n = fst (atoi (url_port u))" "nd_Server n \<noteq> []" "0 < nd_Port n" "nd_Link n = trim_space source"
    "nd_Outbound n = le_marshal e (link_outbound e (parsed_link_node u source now) u)"
    "nd_Protocol (parsed_link_node u source now) = nd_Protocol n"
    "nd_Server (parsed_link_node u source now) = nd_Server n" "nd_Port (parsed_link_node u source now) = nd_Port n"
proof -
  obtain user where user: "pu_User u = Some user"
    using assms by (auto simp: parse_link_def Let_def split: option.splits if_splits)
  let ?m = "parsed_link_node u source now"
  have n: "n = ?m\<lparr>nd_Outbound := le_marshal e (link_outbound e ?m u)\<rparr>" "url_hostname u \<noteq> []" "0 < fst (atoi (url_port u))"
    using assms user by (auto simp: parse_link_def parsed_link_node_def Let_def split: if_splits)
  show thesis
    by (rule that [OF user]) (use n in \<open>simp_all add: parsed_link_node_def imported_link_node_def Let_def assms(3)\<close>)
qed

lemma stored_protocol_id:
  "protocol \<in> {''vless'', ''vmess'', ''trojan'', ''hysteria2'', ''tuic'', ''wireguard''} \<Longrightarrow> stored_protocol protocol = protocol"
proof -
  have "list_all (\<lambda>p. stored_protocol p = p) [''vless'', ''vmess'', ''trojan'', ''hysteria2'', ''tuic'', ''wireguard'']"
    by code_simp
  then show "protocol \<in> {''vless'', ''vmess'', ''trojan'', ''hysteria2'', ''tuic'', ''wireguard''} \<Longrightarrow> ?thesis"
    by (auto simp: list_all_iff)
qed

text \<open>The profile that the renderer makes of a parsed link, up to its link.\<close>

lemma profile_of_parsed_link:
  assumes "reads_back e raw n (link_outbound e m u)" "nd_Outbound n = le_marshal e (link_outbound e m u)"
    and "nd_Protocol m = nd_Protocol n"
    and "nd_Protocol n \<in> {''vless'', ''vmess'', ''trojan'', ''hysteria2'', ''tuic'', ''wireguard''}"
  obtains base where "np_Protocol base = nd_Protocol n" "np_Address base = nd_Server n" "np_Port base = nd_Port n"
    "np_UUID base = []" "np_Password base = []" "np_WGPrivateKey base = []" "np_Extra base = Map.empty" "np_Transport base = ''tcp''"
    "profile_from_stored_node (render_env.truncate e) raw i = Inr (apply_profile_link_fallback (render_env.truncate e) (nd_Link n)
       (normalize_vless_profile_flow (apply_stream_settings (canonical_map (build_stream_settings e u))
         (read_settings (canonical_map (map_from_map (link_outbound e m u) ''settings'')) base))))"
proof -
  have read: "re_stored (render_env.truncate e) raw = Inr (stored_form n)" "nd_Outbound n \<noteq> []"
      "re_object (render_env.truncate e) (nd_Outbound n) = canonical_map (link_outbound e m u)"
    using assms(1,2) by (auto simp: reads_back_def)
  let ?base = "stored_profile (stored_form n) (canonical_map (link_outbound e m u)) i"
  have "np_Protocol ?base = nd_Protocol n"
    using stored_protocol_id [OF assms(4)] assms(4) by (auto simp: stored_profile_def stored_form_def Let_def)
  then show thesis
    by (rule that [of ?base])
       (simp_all add: stored_profile_def stored_form_def Let_def empty_profile_def profile_from_stored_node_def
          read [unfolded stored_form_def] link_outbound_fields)
qed

section \<open>Links that render\<close>

lemma simple_protocol_renders:
  assumes "plain_transport p" "np_Protocol p = ''vless'' \<or> np_Protocol p = ''vmess''" "np_UUID p \<noteq> []"
  shows "\<exists>out. build_proxy_outbound p = Inr out \<and> json_field out ''type'' = JStr (np_Protocol p) \<and>
    json_field out ''server'' = JStr (np_Address p) \<and> json_field out ''server_port'' = JInt (np_Port p) \<and>
    json_field out ''uuid'' = JStr (np_UUID p)"
proof -
  obtain t where t: "build_transport p = Inr t" using build_transport_plain [OF assms(1)] by blast
  have "\<exists>fs. protocol_fields p = Inr ((''type'', JStr (np_Protocol p)) # (''uuid'', JStr (np_UUID p)) # fs)"
    using assms(2,3) by (auto simp: protocol_fields_def vless_fields_def vmess_fields_def)
  then obtain fs where fs: "protocol_fields p = Inr ((''type'', JStr (np_Protocol p)) # (''uuid'', JStr (np_UUID p)) # fs)" ..
  show ?thesis
    using assms(2) by (auto simp: build_proxy_outbound_def plain_not_sidecar [OF assms(1)] direct_proxy_outbound_def fs t
        Let_def jwhen_def split: option.split)
qed

lemma trojan_renders:
  assumes "plain_transport p" "np_Protocol p = ''trojan''" "np_Password p \<noteq> []"
  shows "\<exists>out. build_proxy_outbound p = Inr out \<and> json_field out ''type'' = JStr ''trojan'' \<and>
    json_field out ''server'' = JStr (np_Address p) \<and> json_field out ''server_port'' = JInt (np_Port p) \<and>
    json_field out ''password'' = JStr (np_Password p)"
proof -
  obtain t where t: "build_transport p = Inr t" using build_transport_plain [OF assms(1)] by blast
  show ?thesis
    using assms(2,3) by (auto simp: build_proxy_outbound_def plain_not_sidecar [OF assms(1)] direct_proxy_outbound_def t
        protocol_fields_def trojan_fields_def password_or_uuid_def value_or_default_def Let_def jwhen_def split: option.split)
qed

text \<open>The fallback to the link leaves a complete profile as it is, but for its transport.\<close>

lemma link_fallback_complete:
  assumes "np_Address p \<noteq> []" "np_Port p \<noteq> 0" "np_UUID p \<noteq> []" "np_Password p \<noteq> [] \<or> np_Protocol p \<noteq> ''trojan''"
    and "np_Protocol p \<in> {''vless'', ''vmess'', ''trojan''}" "plain_transport p"
    and "re_url e (trim_space link) = Some u" "link_network u \<in> plain_networks"
  shows "core_of (apply_profile_link_fallback e link p) = core_of p"
    and "plain_transport (apply_profile_link_fallback e link p)"
proof -
  have "apply_profile_link_fallback e link p \<in> {p, apply_stream_settings (stream_settings_from_link_query u) p}"
  proof (cases "trim_space link = []")
    case True
    then show ?thesis by (simp add: apply_profile_link_fallback_def)
  next
    case False
    consider "np_Protocol p = ''vless'' \<or> np_Protocol p = ''vmess''" | "np_Protocol p = ''trojan''"
      using assms(5) by blast
    then show ?thesis
    proof cases
      case 1
      then show ?thesis
        unfolding apply_profile_link_fallback_def Let_def assms(7)
        by (simp add: False user_fallback_id [OF assms(1-3)])
    next
      case 2
      then have "apply_profile_link_fallback e link p = p"
        unfolding apply_profile_link_fallback_def Let_def using assms(1-4)
        by (simp add: False split: option.split prod.split)
      then show ?thesis by simp
    qed
  qed
  then show "core_of (apply_profile_link_fallback e link p) = core_of p"
    "plain_transport (apply_profile_link_fallback e link p)"
    using assms(6) streams_plain(2) [OF assms(8,6)] by auto
qed

text \<open>Reading a user, a server and no settings at all.\<close>

lemma read_user_link:
  assumes "np_Address p \<noteq> []" "np_Port p \<noteq> 0"
  shows "core_of (read_user (canonical_map (user_settings m u name)) p) =
      (np_Protocol p, np_Address p, np_Port p, name, np_Password p, np_WGPrivateKey p)"
    and "np_Transport (read_user (canonical_map (user_settings m u name)) p) = np_Transport p"
    and "env_get (np_Extra (read_user (canonical_map (user_settings m u name)) p)) ''header_type'' =
      env_get (np_Extra p) ''header_type''"
proof -
  have id: "json_string_from_map (first_map_from_array (first_map_from_array (user_settings m u name) ''vnext'') ''users'') ''id'' = name"
    by (simp add: user_settings_def Let_def first_map_from_array_def json_string_from_map_def jwhen_def jtext_def)
  show "core_of (read_user (canonical_map (user_settings m u name)) p) =
      (np_Protocol p, np_Address p, np_Port p, name, np_Password p, np_WGPrivateKey p)"
    using assms by (simp add: read_user_def Let_def endpoint_from_def id core_of_def)
  show "np_Transport (read_user (canonical_map (user_settings m u name)) p) = np_Transport p"
    using assms by (simp add: read_user_def Let_def endpoint_from_def)
  show "env_get (np_Extra (read_user (canonical_map (user_settings m u name)) p)) ''header_type'' =
      env_get (np_Extra p) ''header_type''"
    using assms by (simp add: read_user_def Let_def endpoint_from_def copy_string_extra_def env_get_def)
qed

lemma read_server_link:
  assumes "np_Address p \<noteq> []" "np_Port p \<noteq> 0" "np_Protocol p = ''trojan''"
    and "json_field settings ''servers'' = JList [JObj server]" "json_field server ''password'' = JStr name"
  shows "core_of (read_server settings p) = (np_Protocol p, np_Address p, np_Port p, name, name, np_WGPrivateKey p)"
    and "np_Transport (read_server settings p) = np_Transport p" "np_Extra (read_server settings p) = np_Extra p"
proof -
  have server: "first_map_from_array settings ''servers'' = server" by (simp add: first_map_from_array_def assms(4))
  have name: "json_string_from_map server ''password'' = name" by (simp add: json_string_from_map_def assms(5))
  show "core_of (read_server settings p) = (np_Protocol p, np_Address p, np_Port p, name, name, np_WGPrivateKey p)"
    using assms(1-3) by (simp add: read_server_def Let_def endpoint_from_def server name core_of_def)
  show "np_Transport (read_server settings p) = np_Transport p" "np_Extra (read_server settings p) = np_Extra p"
    using assms(1-3) by (simp_all add: read_server_def Let_def endpoint_from_def server)
qed

lemma read_nothing:
  assumes "np_Address p \<noteq> []" "np_Port p \<noteq> 0" "np_Protocol p \<in> {''hysteria2'', ''tuic'', ''wireguard''}"
  shows "core_of (read_settings [] p) =
    (np_Protocol p, np_Address p, np_Port p, if np_Protocol p = ''wireguard'' then np_UUID p else [],
     if np_Protocol p = ''wireguard'' then np_Password p else [], if np_Protocol p = ''wireguard'' then [] else np_WGPrivateKey p)"
proof -
  have string: "json_string_from_map [] k = []" for k by (simp add: json_string_from_map_def)
  consider "np_Protocol p = ''hysteria2''" | "np_Protocol p = ''tuic''" | "np_Protocol p = ''wireguard''" using assms(3) by blast
  then show ?thesis
    using assms(1,2)
    by cases (simp_all add: read_settings_def read_hysteria2_def read_tuic_def read_wireguard_def Let_def endpoint_from_def
        string core_of_def)
qed

lemma read_link_settings:
  fixes e
  assumes "np_Protocol base = nd_Protocol n" "np_Address base = nd_Server n" "np_Port base = nd_Port n"
    and "np_UUID base = []" "np_Password base = []" "np_WGPrivateKey base = []" "np_Extra base = Map.empty"
    and "nd_Server n \<noteq> []" "0 < nd_Port n" "nd_Protocol m = nd_Protocol n" "pu_User u = Some user"
  defines "settings \<equiv> canonical_map (map_from_map (link_outbound e m u) ''settings'')"
  shows "nd_Protocol n \<in> {''vless'', ''vmess'', ''trojan''} \<Longrightarrow>
      core_of (read_settings settings base) = (nd_Protocol n, nd_Server n, nd_Port n, uu_Name user,
        if nd_Protocol n = ''trojan'' then uu_Name user else [], []) \<and>
      np_Transport (read_settings settings base) = np_Transport base \<and>
      env_get (np_Extra (read_settings settings base)) ''header_type'' = []" (is "_ \<Longrightarrow> ?read")
    and "nd_Protocol n \<in> {''hysteria2'', ''tuic'', ''wireguard''} \<Longrightarrow>
      core_of (read_settings settings base) = (nd_Protocol n, nd_Server n, nd_Port n, [], [], [])"
proof -
  have endpoint: "np_Address base \<noteq> []" "np_Port base \<noteq> 0" using assms(2,3,8,9) by simp_all
  have no_header: "env_get (np_Extra base) ''header_type'' = []" by (simp add: assms(7) env_get_def)
  show ?read if kind: "nd_Protocol n \<in> {''vless'', ''vmess'', ''trojan''}"
  proof -
    consider (user) "nd_Protocol n = ''vless'' \<or> nd_Protocol n = ''vmess''" | (trojan) "nd_Protocol n = ''trojan''"
      using kind by blast
    then show ?thesis
    proof cases
      case user
      have settings: "settings = canonical_map (user_settings m u (uu_Name user))"
        using user_link_settings [of m e u] user by (simp add: settings_def assms(10,11))
      have "read_settings settings base = read_user settings base" "nd_Protocol n \<noteq> ''trojan''"
        using user by (auto simp: read_settings_def assms(1))
      then show ?thesis
        unfolding settings using read_user_link [OF endpoint, of m u "uu_Name user"] no_header
        by (simp add: assms(1-3,5,6))
    next
      case trojan
      let ?server = "canonical_map [(''address'', JStr (nd_Server m)), (''port'', JInt (nd_Port m)),
          (''password'', JStr (uu_Name user))]"
      have settings: "json_field settings ''servers'' = JList [JObj ?server]"
        using trojan_link_settings [of m e u] trojan by (simp add: settings_def assms(10,11))
      have "read_settings settings base = read_server settings base" by (simp add: read_settings_def assms(1) trojan)
      then show ?thesis
        using read_server_link [OF endpoint _ settings] no_header trojan by (simp add: assms(1-3,6))
    qed
  qed
  show "core_of (read_settings settings base) = (nd_Protocol n, nd_Server n, nd_Port n, [], [], [])"
    if "nd_Protocol n \<in> {''hysteria2'', ''tuic'', ''wireguard''}"
  proof -
    have "settings = []" using other_link_settings [of m e u] that by (simp add: settings_def assms(10))
    moreover have "np_Protocol base \<in> {''hysteria2'', ''tuic'', ''wireguard''}" using that assms(1) by simp
    ultimately show ?thesis using read_nothing [OF endpoint] by (simp add: assms(1-6))
  qed
qed

section \<open>A link to try\<close>

definition demo_link :: "string \<Rightarrow> string" where
  "demo_link scheme = scheme @ ''://secret@a.example:8#name''"

definition demo_url :: "string \<Rightarrow> parsed_url" where
  "demo_url scheme = \<lparr>pu_Scheme = scheme, pu_Host = ''a.example:8'', pu_Path = [],
     pu_User = Some \<lparr>uu_Name = ''secret'', uu_Password = None, uu_Text = ''secret''\<rparr>, pu_Query = Map.empty,
     pu_Fragment = ''name''\<rparr>"

definition demo_imported :: "string \<Rightarrow> profile_node" where
  "demo_imported scheme =
     imported_link_node (stable_node_id scheme ''a.example'' 8 ''secret'') scheme ''a.example'' 8 (demo_link scheme) ''name'' 0"

definition demo_marshal_env :: "link_env" where
  "demo_marshal_env = \<lparr>re_stored = (\<lambda>_. Inl (ErrorString [])), re_object = (\<lambda>_. []), re_url = (\<lambda>_. None), re_direct_cidrs = [],
     le_marshal = (\<lambda>_. []), le_value = (\<lambda>_. None)\<rparr>"

definition demo_link_outbound :: "string \<Rightarrow> json_map" where
  "demo_link_outbound scheme = link_outbound demo_marshal_env (demo_imported scheme) (demo_url scheme)"

definition demo_link_node :: "string \<Rightarrow> profile_node" where
  "demo_link_node scheme = (demo_imported scheme)\<lparr>nd_Outbound := ''{}''\<rparr>"

definition demo_link_env :: "string \<Rightarrow> link_env" where
  "demo_link_env scheme = \<lparr>re_stored = (\<lambda>_. Inr (stored_form (demo_link_node scheme))),
     re_object = (\<lambda>_. canonical_map (demo_link_outbound scheme)),
     re_url = (\<lambda>s. if s = demo_link scheme then Some (demo_url scheme) else None), re_direct_cidrs = [],
     le_marshal = (\<lambda>m. if canonical_map m = canonical_map (demo_link_outbound scheme) then ''{}'' else ''?''),
     le_value = (\<lambda>_. None)\<rparr>"

lemma demo_link_parts:
  "trim_space (demo_link ''vless'') = demo_link ''vless''" "trim_space (demo_link ''tuic'') = demo_link ''tuic''"
  "normalize_link_protocol ''vless'' = ''vless''" "normalize_link_protocol ''tuic'' = ''tuic''"
  "url_hostname (demo_url scheme) = ''a.example''" "url_port (demo_url scheme) = ''8''"
  "query_get (demo_url scheme) key = []" "link_network (demo_url scheme) = []" "fst (atoi ''8'') = 8"
proof -
  show "trim_space (demo_link ''vless'') = demo_link ''vless''" "trim_space (demo_link ''tuic'') = demo_link ''tuic''"
    "normalize_link_protocol ''vless'' = ''vless''" "normalize_link_protocol ''tuic'' = ''tuic''"
    by code_simp+
  have split: "url_split ''a.example:8'' = (''a.example'', ''8'')" by code_simp
  show "url_hostname (demo_url scheme) = ''a.example''" "url_port (demo_url scheme) = ''8''"
    by (simp_all add: demo_url_def url_hostname_def url_port_def split Let_def) (simp add: has_prefix_def)
  show query: "query_get (demo_url scheme) key = []" for key by (simp add: query_get_def demo_url_def env_get_def)
  have "to_lower (trim_space []) = []" by code_simp
  then show "link_network (demo_url scheme) = []" by (simp add: link_network_def query)
  have "int_str 8 = ''8''" by (simp add: int_str_def nat_str.simps digit_char_def) code_simp
  then show "fst (atoi ''8'') = 8" using atoi_int_str [of 8] by simp
qed

lemma demo_link_outbound_env: "link_outbound e (demo_imported scheme) (demo_url scheme) = demo_link_outbound scheme"
  by (simp add: demo_link_outbound_def link_outbound_def build_stream_settings_def stream_network_def demo_link_parts Let_def)

lemma demo_link_reads_back:
  assumes "trim_space (demo_link scheme) = demo_link scheme" "normalize_link_protocol scheme = scheme"
  shows "reads_back (demo_link_env scheme) raw (demo_link_node scheme)
    (link_outbound (demo_link_env scheme) (parsed_link_node (demo_url scheme) (demo_link scheme) 0) (demo_url scheme))"
proof -
  have "pu_Scheme (demo_url scheme) = scheme" "pu_Fragment (demo_url scheme) = ''name''"
      "pu_User (demo_url scheme) = Some \<lparr>uu_Name = ''secret'', uu_Password = None, uu_Text = ''secret''\<rparr>"
    by (simp_all add: demo_url_def)
  then have "parsed_link_node (demo_url scheme) (demo_link scheme) 0 = demo_imported scheme"
    using assms by (simp add: parsed_link_node_def demo_imported_def demo_link_parts Let_def)
  then show ?thesis
    by (simp add: reads_back_def demo_link_outbound_env) (simp add: demo_link_env_def render_env.truncate_def)
qed

lemma demo_link_parses:
  assumes "trim_space (demo_link scheme) = demo_link scheme" "normalize_link_protocol scheme = scheme"
    and "scheme \<noteq> []" "scheme \<noteq> ''shadowsocks''"
  shows "parse_link (demo_link_env scheme) url_error (demo_link scheme) 0 = Returns (demo_link_node scheme)"
proof -
  have url: "re_url (render_env.truncate (demo_link_env scheme)) (demo_link scheme) = Some (demo_url scheme)"
    by (simp add: demo_link_env_def render_env.truncate_def)
  have "pu_Scheme (demo_url scheme) = scheme" "pu_Fragment (demo_url scheme) = ''name''"
      "pu_User (demo_url scheme) = Some \<lparr>uu_Name = ''secret'', uu_Password = None, uu_Text = ''secret''\<rparr>"
    by (simp_all add: demo_url_def)
  moreover have "le_marshal (demo_link_env scheme) (demo_link_outbound scheme) = ''{}''" by (simp add: demo_link_env_def)
  ultimately show ?thesis
    using assms unfolding parse_link_def Let_def assms(1) url
    by (simp add: demo_link_parts demo_link_outbound_env demo_imported_def [symmetric] demo_link_node_def)
qed

text \<open>
  C33. A VLESS, VMess or Trojan link with user information and a transport that sing-box has, once it is imported
  and stored, renders to an outbound with the protocol, host, port and secret of the link.
\<close>

theorem imported_link_renders:
  assumes "parse_link e url_error source now = Returns n" "re_url (render_env.truncate e) (trim_space source) = Some u"
    and "reads_back e raw n (link_outbound e (parsed_link_node u source now) u)" "pu_User u = Some user" "uu_Name user \<noteq> []"
    and "normalize_link_protocol (pu_Scheme u) = protocol" "protocol \<in> {''vless'', ''vmess'', ''trojan''}"
    and "link_network u \<in> plain_networks"
  shows "\<exists>p out. profile_from_stored_node (render_env.truncate e) raw i = Inr p \<and> build_proxy_outbound p = Inr out \<and>
    json_field out ''type'' = JStr protocol \<and> json_field out ''server'' = JStr (url_hostname u) \<and>
    json_field out ''server_port'' = JInt (fst (atoi (url_port u))) \<and>
    json_field out (if protocol = ''trojan'' then ''password'' else ''uuid'') = JStr (uu_Name user)"
proof -
  let ?e = "render_env.truncate e"
  have "protocol \<noteq> ''shadowsocks''" using assms(7) by auto
  let ?m = "parsed_link_node u source now"
  obtain user' where n: "pu_User u = Some user'" "nd_Protocol n = protocol" "nd_Server n = url_hostname u"
      "nd_Port n = fst (atoi (url_port u))" "nd_Server n \<noteq> []" "0 < nd_Port n" "nd_Link n = trim_space source"
      "nd_Outbound n = le_marshal e (link_outbound e ?m u)" "nd_Protocol ?m = nd_Protocol n"
      "nd_Server ?m = nd_Server n" "nd_Port ?m = nd_Port n"
    using parse_link_returns [OF assms(1,2,6) \<open>protocol \<noteq> _\<close>] by metis
  have kind: "nd_Protocol n \<in> {''vless'', ''vmess'', ''trojan'', ''hysteria2'', ''tuic'', ''wireguard''}"
    using assms(7) n(2) by auto
  let ?settings = "canonical_map (map_from_map (link_outbound e ?m u) ''settings'')"
  obtain base where base: "np_Protocol base = nd_Protocol n" "np_Address base = nd_Server n" "np_Port base = nd_Port n"
      "np_UUID base = []" "np_Password base = []" "np_WGPrivateKey base = []" "np_Extra base = Map.empty"
      "np_Transport base = ''tcp''"
    and stored: "profile_from_stored_node ?e raw i = Inr (apply_profile_link_fallback ?e (nd_Link n)
       (normalize_vless_profile_flow (apply_stream_settings (canonical_map (build_stream_settings e u)) (read_settings ?settings base))))"
    using profile_of_parsed_link [OF assms(3) n(8,9) kind, of i] by metis
  note reads = read_link_settings [OF base(1-7) n(5,6,9) assms(4), where e = e]
  define P where "P = normalize_vless_profile_flow (apply_stream_settings (canonical_map (build_stream_settings e u)) (read_settings ?settings base))"
  let ?q = "apply_profile_link_fallback ?e (nd_Link n) P"
  have "plain_transport (read_settings ?settings base)"
    using reads(1) assms(7) n(2) base(8) by (simp add: plain_transport_def)
  then have plain: "plain_transport P" using streams_plain(1) [OF assms(8)] by (simp add: P_def)
  define secret where "secret = (if protocol = ''trojan'' then uu_Name user else [])"
  have core: "core_of P = (protocol, url_hostname u, fst (atoi (url_port u)), uu_Name user, secret, [])"
    using reads(1) assms(7) n(2-4) by (simp add: P_def secret_def)
  then have p: "np_Protocol P = protocol" "np_Address P = url_hostname u" "np_Port P = fst (atoi (url_port u))"
      "np_UUID P = uu_Name user" "np_Password P = secret"
    by (simp_all add: core_of_def)
  have link: "re_url ?e (trim_space (nd_Link n)) = Some u" by (simp add: n(7) assms(2))
  have complete: "np_Address P \<noteq> []" "np_Port P \<noteq> 0" "np_UUID P \<noteq> []" "np_Password P \<noteq> [] \<or> np_Protocol P \<noteq> ''trojan''"
      "np_Protocol P \<in> {''vless'', ''vmess'', ''trojan''}"
    using p assms(5,7) n(3-6) by (simp_all add: secret_def)
  note fallback = link_fallback_complete [OF complete plain link assms(8)]
  have q: "np_Protocol ?q = protocol" "np_Address ?q = url_hostname u" "np_Port ?q = fst (atoi (url_port u))"
      "np_UUID ?q = uu_Name user" "np_Password ?q = secret"
    using fallback(1) unfolding core by (simp_all add: core_of_def)
  show ?thesis
  proof (cases "protocol = ''trojan''")
    case True
    then show ?thesis
      using trojan_renders [OF fallback(2)] q assms(5) stored by (simp add: secret_def P_def [symmetric])
  next
    case False
    then have "np_Protocol ?q = ''vless'' \<or> np_Protocol ?q = ''vmess''" using assms(7) q(1) by auto
    from simple_protocol_renders [OF fallback(2) this] False q assms(5) stored show ?thesis by (simp add: P_def [symmetric])
  qed
qed

lemma imported_link_renders_witness:
  "\<exists>p out. profile_from_stored_node (render_env.truncate (demo_link_env ''vless'')) ''raw'' 0 = Inr p \<and>
     build_proxy_outbound p = Inr out \<and> json_field out ''type'' = JStr ''vless'' \<and>
     json_field out ''server'' = JStr ''a.example'' \<and> json_field out ''server_port'' = JInt 8 \<and>
     json_field out ''uuid'' = JStr ''secret''"
proof -
  have url: "re_url (render_env.truncate (demo_link_env ''vless'')) (trim_space (demo_link ''vless'')) = Some (demo_url ''vless'')"
    by (simp add: demo_link_parts demo_link_env_def render_env.truncate_def)
  have parsed: "parse_link (demo_link_env ''vless'') (ErrorString []) (demo_link ''vless'') 0 = Returns (demo_link_node ''vless'')"
    by (rule demo_link_parses) (simp_all add: demo_link_parts)
  have user: "pu_User (demo_url ''vless'') = Some \<lparr>uu_Name = ''secret'', uu_Password = None, uu_Text = ''secret''\<rparr>"
    by (simp add: demo_url_def)
  have read: "reads_back (demo_link_env ''vless'') ''raw'' (demo_link_node ''vless'')
      (link_outbound (demo_link_env ''vless'') (parsed_link_node (demo_url ''vless'') (demo_link ''vless'') 0) (demo_url ''vless''))"
    by (rule demo_link_reads_back) (simp_all add: demo_link_parts)
  from imported_link_renders [OF parsed url read user, of "''vless''" 0]
  show ?thesis
    by (simp add: demo_link_parts plain_networks_def) (simp add: demo_url_def demo_link_parts)
qed

text \<open>
  C34. A Hysteria2, TUIC or WireGuard link is imported, but its node can never be rendered: the outbound that is
  stored has no settings for these protocols, and the renderer takes nothing from their links.
\<close>

theorem imported_link_never_renders:
  assumes "parse_link e url_error source now = Returns n" "re_url (render_env.truncate e) (trim_space source) = Some u"
    and "reads_back e raw n (link_outbound e (parsed_link_node u source now) u)"
    and "normalize_link_protocol (pu_Scheme u) \<in> {''hysteria2'', ''tuic'', ''wireguard''}"
  shows "\<exists>p err. profile_from_stored_node (render_env.truncate e) raw i = Inr p \<and> build_proxy_outbound p = Inl err"
proof -
  let ?e = "render_env.truncate e"
  define protocol where "protocol = normalize_link_protocol (pu_Scheme u)"
  have "protocol \<noteq> ''shadowsocks''" using assms(4) by (auto simp: protocol_def)
  let ?m = "parsed_link_node u source now"
  obtain user where n: "pu_User u = Some user" "nd_Protocol n = protocol" "nd_Server n = url_hostname u"
      "nd_Port n = fst (atoi (url_port u))" "nd_Server n \<noteq> []" "0 < nd_Port n"
      "nd_Outbound n = le_marshal e (link_outbound e ?m u)" "nd_Protocol ?m = nd_Protocol n"
    using parse_link_returns [OF assms(1,2) protocol_def [symmetric] \<open>protocol \<noteq> _\<close>] by metis
  have kind: "nd_Protocol n \<in> {''hysteria2'', ''tuic'', ''wireguard''}"
    using assms(4) n(2) by (simp add: protocol_def)
  let ?settings = "canonical_map (map_from_map (link_outbound e ?m u) ''settings'')"
  obtain base where base: "np_Protocol base = nd_Protocol n" "np_Address base = nd_Server n" "np_Port base = nd_Port n"
      "np_UUID base = []" "np_Password base = []" "np_WGPrivateKey base = []" "np_Extra base = Map.empty"
    and stored: "profile_from_stored_node ?e raw i = Inr (apply_profile_link_fallback ?e (nd_Link n)
       (normalize_vless_profile_flow (apply_stream_settings (canonical_map (build_stream_settings e u)) (read_settings ?settings base))))"
    using profile_of_parsed_link [OF assms(3) n(7,8), of i] kind by (metis insert_iff)
  define P where "P = normalize_vless_profile_flow (apply_stream_settings (canonical_map (build_stream_settings e u)) (read_settings ?settings base))"
  have core: "core_of P = (nd_Protocol n, nd_Server n, nd_Port n, [], [], [])"
    using read_link_settings(2) [OF base n(5,6,8,1) kind, where e = e] by (simp add: P_def)
  then have p: "np_Protocol P = nd_Protocol n" "np_UUID P = []" "np_Password P = []" "np_WGPrivateKey P = []"
    by (simp_all add: core_of_def)
  have same: "apply_profile_link_fallback ?e (nd_Link n) P = P"
    using kind unfolding apply_profile_link_fallback_def Let_def p(1) by auto
  have "\<not> requires_xray_sidecar (Some P)"
  proof -
    have "list_all (\<lambda>t. \<not> equal_fold (trim_space t) ''vless'') [''hysteria2'', ''tuic'', ''wireguard'']" by code_simp
    then show ?thesis using kind by (auto simp: requires_xray_sidecar_def p(1) list_all_iff)
  qed
  moreover have "\<exists>err. protocol_fields P = Inl err"
    using kind p(1) by (auto simp: protocol_fields_def hysteria2_fields_def tuic_fields_def wireguard_fields_def
        password_or_uuid_def value_or_default_def p(2-4) render_fail_def)
  ultimately have "\<exists>err. build_proxy_outbound P = Inl err"
    by (auto simp: build_proxy_outbound_def direct_proxy_outbound_def Let_def)
  then show ?thesis using stored same by (simp add: P_def [symmetric])
qed

lemma imported_link_never_renders_witness:
  "\<exists>p err. profile_from_stored_node (render_env.truncate (demo_link_env ''tuic'')) ''raw'' 0 = Inr p \<and>
     build_proxy_outbound p = Inl err"
proof -
  have url: "re_url (render_env.truncate (demo_link_env ''tuic'')) (trim_space (demo_link ''tuic'')) = Some (demo_url ''tuic'')"
    by (simp add: demo_link_parts demo_link_env_def render_env.truncate_def)
  have parsed: "parse_link (demo_link_env ''tuic'') (ErrorString []) (demo_link ''tuic'') 0 = Returns (demo_link_node ''tuic'')"
    by (rule demo_link_parses) (simp_all add: demo_link_parts)
  have read: "reads_back (demo_link_env ''tuic'') ''raw'' (demo_link_node ''tuic'')
      (link_outbound (demo_link_env ''tuic'') (parsed_link_node (demo_url ''tuic'') (demo_link ''tuic'') 0) (demo_url ''tuic''))"
    by (rule demo_link_reads_back) (simp_all add: demo_link_parts)
  show ?thesis
    by (rule imported_link_never_renders [OF parsed url read]) (simp add: demo_url_def demo_link_parts)
qed

end
