(* ===== verification/DeviceFiles.thy ===== *)
theory DeviceFiles
  imports FileSystem GoLists
begin

text \<open>
  The file tree that the updater works on: regular files with their bytes and mode, directories and symbolic links,
  as an association list from cleaned absolute paths.  A computation threads the tree and ends with an error or a
  value.  Every system call has a number, and \<^verbatim>\<open>dv_fault\<close> says which calls fail for an outside reason (a full
  disk, an I/O error): a failing copy has then written the first \<^verbatim>\<open>dv_cut\<close> bytes, a failing \<^verbatim>\<open>RemoveAll\<close> has
  removed the first \<^verbatim>\<open>dv_cut\<close> entries.  The last component of a path is followed when it is a link, those before
  are directories; the umask is 0.
\<close>

section \<open>Computations\<close>

definition io_return :: "'a \<Rightarrow> 'd \<Rightarrow> ('e + 'a) \<times> 'd" where
  "io_return x d = (Inr x, d)"

definition io_fail :: "'e \<Rightarrow> 'd \<Rightarrow> ('e + 'a) \<times> 'd" where
  "io_fail e d = (Inl e, d)"

definition io_bind ::
  "('d \<Rightarrow> ('e + 'a) \<times> 'd) \<Rightarrow> ('a \<Rightarrow> 'd \<Rightarrow> ('e + 'b) \<times> 'd) \<Rightarrow> 'd \<Rightarrow> ('e + 'b) \<times> 'd" where
  "io_bind m f d = (case m d of (Inl e, d1) \<Rightarrow> (Inl e, d1) | (Inr x, d1) \<Rightarrow> f x d1)"

text \<open>The result of a call whose error the code looks at, or drops.\<close>

definition io_try :: "('d \<Rightarrow> ('e + 'a) \<times> 'd) \<Rightarrow> 'd \<Rightarrow> ('f + ('e + 'a)) \<times> 'd" where
  "io_try m d = (case m d of (r, d1) \<Rightarrow> (Inr r, d1))"

definition io_error :: "('e \<Rightarrow> 'f) \<Rightarrow> ('d \<Rightarrow> ('e + 'a) \<times> 'd) \<Rightarrow> 'd \<Rightarrow> ('f + 'a) \<times> 'd" where
  "io_error f m d = (case m d of (Inl e, d1) \<Rightarrow> (Inl (f e), d1) | (Inr x, d1) \<Rightarrow> (Inr x, d1))"

text \<open>\<^verbatim>\<open>defer\<close>: the clean-up runs after the body, whatever its result; \<^verbatim>\<open>io_on_error\<close>: only after an error.\<close>

definition io_finally ::
  "('d \<Rightarrow> ('e + 'a) \<times> 'd) \<Rightarrow> ('d \<Rightarrow> ('f + 'b) \<times> 'd) \<Rightarrow> 'd \<Rightarrow> ('e + 'a) \<times> 'd" where
  "io_finally m cleanup d = (case m d of (r, d1) \<Rightarrow> (r, snd (cleanup d1)))"

definition io_on_error ::
  "('d \<Rightarrow> ('e + 'a) \<times> 'd) \<Rightarrow> ('d \<Rightarrow> ('f + 'b) \<times> 'd) \<Rightarrow> 'd \<Rightarrow> ('e + 'a) \<times> 'd" where
  "io_on_error m cleanup d =
     (case m d of (Inl e, d1) \<Rightarrow> (Inl e, snd (cleanup d1)) | (Inr x, d1) \<Rightarrow> (Inr x, d1))"

fun io_each :: "('a \<Rightarrow> 'd \<Rightarrow> ('e + unit) \<times> 'd) \<Rightarrow> 'a list \<Rightarrow> 'd \<Rightarrow> ('e + unit) \<times> 'd" where
  "io_each f [] d = (Inr (), d)"
| "io_each f (x # xs) d = io_bind (f x) (\<lambda>_. io_each f xs) d"

definition io_check :: "bool \<Rightarrow> 'e \<Rightarrow> 'd \<Rightarrow> ('e + unit) \<times> 'd" where
  "io_check ok e d = (if ok then Inr () else Inl e, d)"

lemma io_bind_Inr [simp]:
  "io_bind m f d = (Inr y, d2) \<longleftrightarrow> (\<exists>x d1. m d = (Inr x, d1) \<and> f x d1 = (Inr y, d2))"
  by (auto simp: io_bind_def split: prod.split sum.split)

lemma io_bind_Inl:
  "io_bind m f d = (Inl e, d2) \<longleftrightarrow> m d = (Inl e, d2) \<or> (\<exists>x d1. m d = (Inr x, d1) \<and> f x d1 = (Inl e, d2))"
  by (auto simp: io_bind_def split: prod.split sum.split)

lemma io_error_Inr [simp]: "io_error f m d = (Inr x, d1) \<longleftrightarrow> m d = (Inr x, d1)"
  by (auto simp: io_error_def split: prod.split sum.split)

lemma io_try_Inr [simp]: "io_try m d = (Inr r, d1) \<longleftrightarrow> m d = (r, d1)"
  by (auto simp: io_try_def split: prod.split)

lemma io_try_Inl [simp]: "io_try m d \<noteq> (Inl e, d1)"
  by (auto simp: io_try_def split: prod.split)

lemma io_check_Inr [simp]: "io_check ok e d = (Inr u, d1) \<longleftrightarrow> ok \<and> d1 = d"
  by (auto simp: io_check_def)

lemma io_return_iff [simp]: "io_return x d = (r, d1) \<longleftrightarrow> r = Inr x \<and> d1 = d"
  by (auto simp: io_return_def)

lemma io_fail_iff [simp]: "io_fail x d = (r, d1) \<longleftrightarrow> r = Inl x \<and> d1 = d"
  by (auto simp: io_fail_def)

lemma io_finally_Inr: "io_finally m c d = (Inr x, d1) \<longleftrightarrow> (\<exists>d2. m d = (Inr x, d2) \<and> d1 = snd (c d2))"
  by (auto simp: io_finally_def split: prod.split)

lemma io_on_error_Inr [simp]: "io_on_error m c d = (Inr x, d1) \<longleftrightarrow> m d = (Inr x, d1)"
  by (auto simp: io_on_error_def split: prod.split sum.split)

section \<open>The tree\<close>

datatype file_node = RegularFile (rf_data: string) (rf_mode: nat) | Folder nat | SymbolicLink string

record device =
  dv_nodes :: "(string \<times> file_node) list"
  dv_calls :: nat
  dv_fault :: "nat \<Rightarrow> string option"
  dv_cut :: "nat \<Rightarrow> nat"
  dv_random :: "nat \<Rightarrow> string"
  dv_clock :: "nat \<Rightarrow> gtime"

type_synonym ('w, 'a) call = "'w device_scheme \<Rightarrow> (fs_error + 'a) \<times> 'w device_scheme"
type_synonym ('w, 'a) update = "'w device_scheme \<Rightarrow> (go_error + 'a) \<times> 'w device_scheme"

definition node_at :: "'w device_scheme \<Rightarrow> string \<Rightarrow> file_node option" where
  "node_at d p = map_of (dv_nodes d) p"

definition put_node :: "string \<Rightarrow> file_node \<Rightarrow> 'w device_scheme \<Rightarrow> 'w device_scheme" where
  "put_node p n d = d\<lparr>dv_nodes := AList.update p n (dv_nodes d)\<rparr>"

definition drop_node :: "string \<Rightarrow> 'w device_scheme \<Rightarrow> 'w device_scheme" where
  "drop_node p d = d\<lparr>dv_nodes := AList.delete p (dv_nodes d)\<rparr>"

definition beneath :: "string \<Rightarrow> string \<Rightarrow> bool" where
  "beneath dir p \<longleftrightarrow> prefix (dir @ ''/'') p"

definition in_subtree :: "string \<Rightarrow> string \<Rightarrow> bool" where
  "in_subtree dir p \<longleftrightarrow> p = dir \<or> beneath dir p"

lemma node_at_put [simp]: "node_at (put_node p n d) = (node_at d)(p \<mapsto> n)"
  by (simp add: fun_eq_iff node_at_def put_node_def update_conv)

lemma node_at_drop [simp]: "node_at (drop_node p d) = (node_at d)(p := None)"
  by (simp add: fun_eq_iff node_at_def drop_node_def delete_conv)

lemma node_at_calls [simp]: "node_at (d\<lparr>dv_calls := n\<rparr>) = node_at d"
  by (simp add: fun_eq_iff node_at_def)

text \<open>Symbolic links are followed forty times, as Linux does.\<close>

fun follow :: "nat \<Rightarrow> 'w device_scheme \<Rightarrow> string \<Rightarrow> string" where
  "follow 0 d p = p"
| "follow (Suc n) d p =
     (case node_at d p of Some (SymbolicLink target) \<Rightarrow> follow n d target | _ \<Rightarrow> p)"

definition resolved :: "'w device_scheme \<Rightarrow> string \<Rightarrow> string" where
  "resolved d p = follow 40 d p"

definition is_folder :: "'w device_scheme \<Rightarrow> string \<Rightarrow> bool" where
  "is_folder d p \<longleftrightarrow> p = ''/'' \<or> (case node_at d (resolved d p) of Some (Folder m) \<Rightarrow> True | _ \<Rightarrow> False)"

definition executable_mode :: "nat \<Rightarrow> bool" where
  "executable_mode m \<longleftrightarrow> odd (m div 64) \<or> odd (m div 8) \<or> odd m"

lemma follow_plain: "(\<And>target. node_at d p \<noteq> Some (SymbolicLink target)) \<Longrightarrow> follow n d p = p"
  by (cases n) (auto split: option.split file_node.split)

lemma resolved_plain [simp]:
  "node_at d p = None \<Longrightarrow> resolved d p = p"
  "node_at d p = Some (RegularFile data m) \<Longrightarrow> resolved d p = p"
  "node_at d p = Some (Folder m) \<Longrightarrow> resolved d p = p"
  by (simp_all add: resolved_def follow_plain)

section \<open>System calls\<close>

definition io_call :: "('w device_scheme \<Rightarrow> 'w device_scheme) \<Rightarrow> ('w, 'a) call \<Rightarrow> ('w, 'a) call" where
  "io_call broken f d =
     (let n = dv_calls d; d1 = d\<lparr>dv_calls := Suc n\<rparr>
      in case dv_fault d n of Some m \<Rightarrow> (Inl (IoFault m), broken d1) | None \<Rightarrow> f d1)"

definition file_stat :: "string \<Rightarrow> ('w, file_node) call" where
  "file_stat p = io_call id (\<lambda>d.
     case node_at d (resolved d p) of
       None \<Rightarrow> (Inl (NotExist p), d)
     | Some (SymbolicLink t) \<Rightarrow> (Inl (IoFault ''too many levels of symbolic links''), d)
     | Some n \<Rightarrow> (Inr n, d))"

definition file_lstat :: "string \<Rightarrow> ('w, file_node) call" where
  "file_lstat p = io_call id (\<lambda>d. case node_at d p of None \<Rightarrow> (Inl (NotExist p), d) | Some n \<Rightarrow> (Inr n, d))"

definition node_is_folder :: "file_node \<Rightarrow> bool" where
  "node_is_folder n = (case n of Folder m \<Rightarrow> True | _ \<Rightarrow> False)"

definition read_file :: "string \<Rightarrow> ('w, string) call" where
  "read_file p = io_call id (\<lambda>d.
     case node_at d (resolved d p) of
       None \<Rightarrow> (Inl (NotExist p), d)
     | Some (RegularFile data m) \<Rightarrow> (Inr data, d)
     | Some _ \<Rightarrow> (Inl (IoFault ''is a directory''), d))"

text \<open>The directories on the way to a path, and \<^verbatim>\<open>os.MkdirAll\<close>.\<close>

fun path_prefixes :: "string \<Rightarrow> string \<Rightarrow> string list" where
  "path_prefixes done_part [] = [done_part]"
| "path_prefixes done_part (c # s) =
     (if c = CHR ''/'' \<and> done_part \<noteq> [] then done_part # path_prefixes (done_part @ [c]) s
      else path_prefixes (done_part @ [c]) s)"

fun make_folders :: "nat \<Rightarrow> string list \<Rightarrow> ('w, unit) call" where
  "make_folders mode [] d = (Inr (), d)"
| "make_folders mode (p # ps) d =
     (case node_at d (resolved d p) of
        None \<Rightarrow> make_folders mode ps (put_node (resolved d p) (Folder mode) d)
      | Some (Folder m) \<Rightarrow> make_folders mode ps d
      | Some _ \<Rightarrow> (Inl (IoFault ''not a directory''), d))"

definition make_dir_all :: "string \<Rightarrow> nat \<Rightarrow> ('w, unit) call" where
  "make_dir_all p mode = io_call id (make_folders mode (path_prefixes [] p))"

text \<open>\<^verbatim>\<open>OpenFile\<close> with \<^verbatim>\<open>O_CREATE|O_TRUNC\<close>: a file that exists keeps its mode.\<close>

definition create_file :: "string \<Rightarrow> nat \<Rightarrow> ('w, unit) call" where
  "create_file p mode = io_call id (\<lambda>d.
     let q = resolved d p
     in case node_at d q of
          Some (RegularFile data m) \<Rightarrow> (Inr (), put_node q (RegularFile [] m) d)
        | Some _ \<Rightarrow> (Inl (IoFault ''is a directory''), d)
        | None \<Rightarrow> if is_folder d (path_dir q) then (Inr (), put_node q (RegularFile [] mode) d)
                  else (Inl (NotExist p), d))"

definition append_bytes :: "string \<Rightarrow> string \<Rightarrow> 'w device_scheme \<Rightarrow> 'w device_scheme" where
  "append_bytes p bytes d =
     (case node_at d (resolved d p) of
        Some (RegularFile data m) \<Rightarrow> put_node (resolved d p) (RegularFile (data @ bytes) m) d
      | _ \<Rightarrow> d)"

definition write_bytes :: "string \<Rightarrow> string \<Rightarrow> ('w, unit) call" where
  "write_bytes p bytes =
     io_call (\<lambda>d. append_bytes p (take (dv_cut d (dv_calls d)) bytes) d) (\<lambda>d. (Inr (), append_bytes p bytes d))"

definition write_file :: "string \<Rightarrow> string \<Rightarrow> nat \<Rightarrow> ('w, unit) call" where
  "write_file p bytes mode = io_bind (create_file p mode) (\<lambda>_. write_bytes p bytes)"

definition change_mode :: "string \<Rightarrow> nat \<Rightarrow> ('w, unit) call" where
  "change_mode p mode = io_call id (\<lambda>d.
     case node_at d (resolved d p) of
       None \<Rightarrow> (Inl (NotExist p), d)
     | Some (RegularFile data m) \<Rightarrow> (Inr (), put_node (resolved d p) (RegularFile data mode) d)
     | Some (Folder m) \<Rightarrow> (Inr (), put_node (resolved d p) (Folder mode) d)
     | Some (SymbolicLink t) \<Rightarrow> (Inl (IoFault ''too many levels of symbolic links''), d))"

definition sync_file :: "('w, unit) call" where
  "sync_file = io_call id (\<lambda>d. (Inr (), d))"

definition remove_file :: "string \<Rightarrow> ('w, unit) call" where
  "remove_file p = io_call id (\<lambda>d.
     case node_at d p of
       None \<Rightarrow> (Inl (NotExist p), d)
     | Some n \<Rightarrow> if node_is_folder n \<and> list_ex (\<lambda>(q, _). beneath p q) (dv_nodes d)
                 then (Inl (IoFault ''directory not empty''), d) else (Inr (), drop_node p d))"

definition remove_tree :: "string \<Rightarrow> ('w, unit) call" where
  "remove_tree p =
     io_call (\<lambda>d. d\<lparr>dv_nodes := (let gone = take (dv_cut d (dv_calls d)) (filter (in_subtree p) (map fst (dv_nodes d)))
                                 in filter (\<lambda>(q, _). q \<notin> set gone) (dv_nodes d))\<rparr>)
             (\<lambda>d. (Inr (), d\<lparr>dv_nodes := filter (\<lambda>(q, _). \<not> in_subtree p q) (dv_nodes d)\<rparr>))"

definition move_path :: "string \<Rightarrow> string \<Rightarrow> string \<Rightarrow> string" where
  "move_path src dst p = (if in_subtree src p then dst @ drop (length src) p else p)"

definition moved_node :: "string \<Rightarrow> string \<Rightarrow> file_node \<Rightarrow> 'w device_scheme \<Rightarrow> 'w device_scheme" where
  "moved_node src dst n d =
     (if node_is_folder n
      then d\<lparr>dv_nodes := map (\<lambda>(p, n). (move_path src dst p, n)) (AList.delete dst (dv_nodes d))\<rparr>
      else put_node dst n (drop_node src d))"

definition rename_path :: "string \<Rightarrow> string \<Rightarrow> ('w, unit) call" where
  "rename_path src dst = io_call id (\<lambda>d.
     case node_at d src of
       None \<Rightarrow> (Inl (NotExist src), d)
     | Some n \<Rightarrow>
         if src = dst then (Inr (), d)
         else if \<not> is_folder d (path_dir dst) then (Inl (NotExist dst), d)
         else if beneath src dst then (Inl (IoFault ''invalid argument''), d)
         else (case node_at d dst of
                 None \<Rightarrow> (Inr (), moved_node src dst n d)
               | Some (Folder m) \<Rightarrow>
                   if \<not> node_is_folder n then (Inl (IoFault ''file exists''), d)
                   else if list_ex (\<lambda>(q, _). beneath dst q) (dv_nodes d)
                   then (Inl (IoFault ''directory not empty''), d) else (Inr (), moved_node src dst n d)
               | Some _ \<Rightarrow> if node_is_folder n then (Inl (IoFault ''not a directory''), d)
                           else (Inr (), moved_node src dst n d)))"

definition make_link :: "string \<Rightarrow> string \<Rightarrow> ('w, unit) call" where
  "make_link target p = io_call id (\<lambda>d.
     if node_at d p \<noteq> None then (Inl (IoFault ''file exists''), d)
     else if is_folder d (path_dir p) then (Inr (), put_node p (SymbolicLink target) d) else (Inl (NotExist p), d))"

text \<open>\<^verbatim>\<open>MkdirTemp\<close> and \<^verbatim>\<open>CreateTemp\<close> try ten thousand random names.\<close>

fun fresh_name :: "nat \<Rightarrow> nat \<Rightarrow> string \<Rightarrow> 'w device_scheme \<Rightarrow> string option" where
  "fresh_name 0 k p d = None"
| "fresh_name (Suc n) k p d =
     (if node_at d (p @ dv_random d k) = None then Some (p @ dv_random d k) else fresh_name n (Suc k) p d)"

definition make_temp :: "file_node \<Rightarrow> string \<Rightarrow> string \<Rightarrow> ('w, string) call" where
  "make_temp n dir name = io_call id (\<lambda>d.
     if \<not> is_folder d dir then (Inl (NotExist dir), d)
     else (case fresh_name 10000 (dv_calls d) (path_join [dir, name]) d of
             None \<Rightarrow> (Inl (IoFault ''file exists''), d)
           | Some p \<Rightarrow> (Inr p, put_node p n d)))"

text \<open>\<^verbatim>\<open>filepath.Walk\<close>: the paths of a tree in the order of their components; every entry is read with a call.\<close>

definition tree_paths :: "'w device_scheme \<Rightarrow> string \<Rightarrow> string list" where
  "tree_paths d root =
     sort_key (split_char (CHR ''/'')) (filter (in_subtree root) (map fst (dv_nodes d)))"

definition walk_tree :: "string \<Rightarrow> (string \<Rightarrow> fs_error + file_node \<Rightarrow> ('w, unit) update) \<Rightarrow> ('w, unit) update" where
  "walk_tree root visit d =
     (if node_at d root = None then io_bind (io_try (file_lstat root)) (visit root) d
      else io_each (\<lambda>p. io_bind (io_try (file_lstat p)) (visit p)) (tree_paths d root) d)"

definition fresh_now :: "('w, gtime) update" where
  "fresh_now d = (Inr (dv_clock d (dv_calls d)), d\<lparr>dv_calls := Suc (dv_calls d)\<rparr>)"

definition go_errors :: "('w, 'a) call \<Rightarrow> ('w, 'a) update" where
  "go_errors m = io_error go_fs_error m"

definition wrapping :: "string \<Rightarrow> ('w, 'a) call \<Rightarrow> ('w, 'a) update" where
  "wrapping p m = io_error (\<lambda>e. WrapError p (go_fs_error e)) m"

section \<open>Copies\<close>

text \<open>\<^verbatim>\<open>copyFile\<close>, \<^verbatim>\<open>atomicCopyFile\<close>, \<^verbatim>\<open>copyDir\<close>, \<^verbatim>\<open>replaceDirFromSource\<close>, \<^verbatim>\<open>findSubdir\<close> and \<^verbatim>\<open>setPerms\<close>.\<close>

definition copy_file :: "string \<Rightarrow> string \<Rightarrow> nat \<Rightarrow> ('w, unit) update" where
  "copy_file src dst mode =
     io_bind (go_errors (read_file src)) (\<lambda>bytes.
     io_bind (go_errors (create_file dst mode)) (\<lambda>_.
     io_bind (go_errors (write_bytes dst bytes)) (\<lambda>_. go_errors (change_mode dst mode))))"

definition atomic_copy_file :: "string \<Rightarrow> string \<Rightarrow> nat \<Rightarrow> ('w, unit) update" where
  "atomic_copy_file src dst mode =
     io_bind (wrapping ''create temp: '' (make_temp (RegularFile [] 384) (path_dir dst) ''.update-'')) (\<lambda>tmp.
     io_on_error
       (io_bind (go_errors (read_file src)) (\<lambda>bytes.
        io_bind (go_errors (write_bytes tmp bytes)) (\<lambda>_.
        io_bind (go_errors (change_mode tmp mode)) (\<lambda>_.
        io_bind (go_errors sync_file) (\<lambda>_.
        wrapping (''rename '' @ tmp @ '' -> '' @ dst @ '': '') (rename_path tmp dst))))))
       (remove_file tmp))"

definition relative_path :: "string \<Rightarrow> string \<Rightarrow> string" where
  "relative_path root p = (if p = root then ''.'' else drop (length root + 1) p)"

definition copy_dir :: "string \<Rightarrow> string \<Rightarrow> nat \<Rightarrow> ('w, unit) update" where
  "copy_dir src dst mode =
     walk_tree src (\<lambda>p found.
       case found of
         Inl e \<Rightarrow> io_fail (go_fs_error e)
       | Inr n \<Rightarrow> (let target = path_join [dst, relative_path src p]
                   in if node_is_folder n then go_errors (make_dir_all target 493) else copy_file p target mode))"

definition publish_dir :: "string \<Rightarrow> string \<Rightarrow> string \<Rightarrow> ('w, unit) update" where
  "publish_dir tmp dst old =
     io_bind (io_try (file_lstat dst)) (\<lambda>found.
     io_bind (case found of
                Inr _ \<Rightarrow> io_bind (go_errors (rename_path dst old)) (\<lambda>_. io_return True)
              | Inl e \<Rightarrow> if is_not_exist e then io_return False else io_fail (go_fs_error e)) (\<lambda>old_exists.
     io_bind (io_on_error (go_errors (rename_path tmp dst))
                (\<lambda>d. if old_exists then rename_path old dst d else (Inr (), d))) (\<lambda>_.
     if old_exists then io_bind (io_try (remove_tree old)) (\<lambda>_. io_return ()) else io_return ())))"

definition replace_dir_from_source :: "string \<Rightarrow> string \<Rightarrow> nat \<Rightarrow> ('w, unit) update" where
  "replace_dir_from_source src dst mode =
     (let parent = path_dir dst; base = path_base dst
      in io_bind (go_errors (make_dir_all parent 493)) (\<lambda>_.
         io_bind (go_errors (make_temp (Folder 448) parent (''.'' @ base @ ''-new-''))) (\<lambda>tmp.
         io_on_error
           (io_bind (copy_dir src tmp mode) (\<lambda>_.
            io_bind fresh_now (\<lambda>now.
            publish_dir tmp dst (path_join [parent, ''.'' @ base @ ''-old-'' @ int_str now]))))
           (remove_tree tmp))))"

definition find_subdir :: "string \<Rightarrow> string list \<Rightarrow> ('w, string) update" where
  "find_subdir base parts =
     (let p = foldl (\<lambda>p part. path_join [p, part]) base parts
      in io_bind (io_try (file_stat p)) (\<lambda>found.
         io_return (case found of Inr n \<Rightarrow> (if node_is_folder n then p else []) | Inl _ \<Rightarrow> [])))"

definition set_perms :: "string \<Rightarrow> nat \<Rightarrow> ('w, unit) update" where
  "set_perms dir mode =
     walk_tree dir (\<lambda>p found.
       case found of
         Inr n \<Rightarrow> if node_is_folder n then io_return ()
                  else io_bind (io_try (change_mode p mode)) (\<lambda>_. io_return ())
       | Inl _ \<Rightarrow> io_return ())"

end
