(* ===== verification/UpdateDownload.thy ===== *)
theory UpdateDownload
  imports DeviceFiles ModulePaths
begin

text \<open>
  Downloading an update and verifying it (\<^verbatim>\<open>updater/updater.go\<close>): the files of the update directory are
  \<^verbatim>\<open>module.zip\<close>, \<^verbatim>\<open>panel.apk\<close>, \<^verbatim>\<open>SHA256SUMS.txt\<close> and the manifest that the daemon writes.
\<close>

section \<open>Looking for an update\<close>

text \<open>
  Looking for an update (\<^verbatim>\<open>updater/updater.go\<close>, \<^verbatim>\<open>updater/check_state.go\<close>): the version tags, the assets of the latest
  release and the persisted state of the last check.  The HTTP client, the JSON encoding, SHA-256, the context and
  the commands are the fields of \<^verbatim>\<open>update_env\<close>.
\<close>

section \<open>Releases\<close>

record gh_asset =
  ga_Name :: string
  ga_BrowserDownloadURL :: string
  ga_Size :: int

record gh_release =
  gr_TagName :: string
  gr_Body :: string
  gr_Assets :: "gh_asset list"

record update_info =
  ui_CurrentVersion :: string
  ui_LatestVersion :: string
  ui_HasUpdate :: bool
  ui_Changelog :: string
  ui_ModuleURL :: string
  ui_ApkURL :: string
  ui_ChecksumURL :: string
  ui_ModuleSize :: int
  ui_ApkSize :: int

record verified_manifest =
  vm_ManifestVersion :: int
  vm_CurrentVersion :: string
  vm_LatestVersion :: string
  vm_ModuleSHA256 :: string
  vm_ApkSHA256 :: string
  vm_ChecksumsSHA256 :: string
  vm_VerifiedAt :: gtime

record check_state =
  ck_LastCheckedAt :: gtime
  ck_CurrentVersion :: string
  ck_LatestVersion :: string
  ck_HasUpdate :: bool
  ck_Changelog :: string
  ck_ModuleSize :: int
  ck_ApkSize :: int
  ck_Error :: string

text \<open>The response to a download: status, announced length and the reads of the body.\<close>

record http_body =
  hb_StatusCode :: int
  hb_ContentLength :: int
  hb_Reads :: "string list"
  hb_End :: "go_error option"

text \<open>How a command ends: in time with its output, with an exit status, killed by a signal, not started, or too late.\<close>

datatype command_end = CommandOk string | CommandExit string go_error | CommandSignaled string int | CommandNotRun go_error
  | CommandTimedOut string

record 'w update_env =
  ue_ctx :: "nat \<Rightarrow> go_error option"
  ue_latest_release :: "('w, int \<times> (go_error + gh_release)) update"
  ue_get :: "string \<Rightarrow> ('w, http_body) update"
  ue_sha256 :: "string \<Rightarrow> string"
  ue_manifest_text :: "verified_manifest \<Rightarrow> string"
  ue_manifest :: "string \<Rightarrow> go_error + verified_manifest"
  ue_check_text :: "check_state \<Rightarrow> string"
  ue_check :: "string \<Rightarrow> go_error + check_state"
  ue_range :: "string list \<Rightarrow> string list"
  ue_run :: "string list \<Rightarrow> string list \<Rightarrow> 'w device_scheme \<Rightarrow> command_end \<times> 'w device_scheme"

definition ctx_err :: "'w update_env \<Rightarrow> ('w, unit) update" where
  "ctx_err e d =
     (let n = dv_calls d
      in (case ue_ctx e n of None \<Rightarrow> Inr () | Some err \<Rightarrow> Inl err, d\<lparr>dv_calls := Suc n\<rparr>))"

section \<open>Version tags\<close>

definition trim_left_set :: "string \<Rightarrow> string \<Rightarrow> string" where
  "trim_left_set cutset s = dropWhile (\<lambda>c. c \<in> set cutset) s"

definition normalize_version_tag :: "string \<Rightarrow> string" where
  "normalize_version_tag version =
     (let trimmed = trim_left_set ''vV'' (trim_space version)
      in if trimmed = [] then ''v0.0.0'' else CHR ''v'' # trimmed)"

text \<open>\<^verbatim>\<open>strings.SplitN\<close> with a positive count.\<close>

definition split_n :: "nat \<Rightarrow> char \<Rightarrow> string \<Rightarrow> string list" where
  "split_n n c s =
     (let parts = split_char c s
      in if length parts \<le> n then parts else take (n - 1) parts @ [str_join [c] (drop (n - 1) parts)])"

definition parse_semver :: "string \<Rightarrow> int list" where
  "parse_semver v =
     (let v1 = (if has_prefix v ''v'' then tl v else v); v2 = takeWhile (\<lambda>c. c \<noteq> CHR ''-'') v1;
          ns = map (\<lambda>p. fst (atoi p)) (take 3 (split_n 3 (CHR ''.'') v2))
      in ns @ replicate (3 - length ns) 0)"

fun newer_parts :: "int list \<Rightarrow> int list \<Rightarrow> bool" where
  "newer_parts (c # cur) (l # lat) = (if c < l then True else if l < c then False else newer_parts cur lat)"
| "newer_parts _ _ = False"

definition compare_semver :: "string \<Rightarrow> string \<Rightarrow> bool" where
  "compare_semver current latest =
     newer_parts (parse_semver (normalize_version_tag current)) (parse_semver (normalize_version_tag latest))"

section \<open>The check\<close>

text \<open>Which of the two artifacts a release asset or a line of checksums names.\<close>

definition asset_is_module :: "string \<Rightarrow> bool" where
  "asset_is_module lower \<longleftrightarrow> str_contains lower ''module'' \<and> has_suffix lower ''.zip''"

definition asset_is_panel :: "string \<Rightarrow> bool" where
  "asset_is_panel lower \<longleftrightarrow> str_contains lower ''panel'' \<and> has_suffix lower ''.apk''"

definition locate_asset :: "gh_asset \<Rightarrow> update_info \<Rightarrow> update_info" where
  "locate_asset a info =
     (let lower = to_lower (ga_Name a)
      in if asset_is_module lower then info\<lparr>ui_ModuleURL := ga_BrowserDownloadURL a, ui_ModuleSize := ga_Size a\<rparr>
         else if asset_is_panel lower then info\<lparr>ui_ApkURL := ga_BrowserDownloadURL a, ui_ApkSize := ga_Size a\<rparr>
         else if lower = ''sha256sums.txt'' then info\<lparr>ui_ChecksumURL := ga_BrowserDownloadURL a\<rparr>
         else info)"

definition info_of_release :: "string \<Rightarrow> gh_release \<Rightarrow> update_info" where
  "info_of_release current release =
     (fold locate_asset (gr_Assets release)
        \<lparr>ui_CurrentVersion = current, ui_LatestVersion = gr_TagName release, ui_HasUpdate = False,
         ui_Changelog = gr_Body release, ui_ModuleURL = [], ui_ApkURL = [], ui_ChecksumURL = [], ui_ModuleSize = 0,
         ui_ApkSize = 0\<rparr>)
     \<lparr>ui_HasUpdate := compare_semver current (gr_TagName release)\<rparr>"

definition check_for_update :: "'w update_env \<Rightarrow> string \<Rightarrow> ('w, update_info) update" where
  "check_for_update e current =
     io_bind (ctx_err e) (\<lambda>_.
     io_bind (io_error (WrapError ''updater: fetch release: '') (ue_latest_release e)) (\<lambda>(status, release).
     io_bind (io_check (status = 200) (ErrorString (''updater: github returned '' @ int_str status))) (\<lambda>_.
     case release of
       Inl err \<Rightarrow> io_fail (WrapError ''updater: decode release: '' err)
     | Inr r \<Rightarrow> io_return (info_of_release (normalize_version_tag current) r))))"

section \<open>The state of the last check\<close>

definition default_state_dir :: string where "default_state_dir = ''/data/adb/rknnovpn-data''"

definition update_check_min_interval :: duration where "update_check_min_interval = 24 * 60 * minute"

definition update_check_state_path :: "string \<Rightarrow> string" where
  "update_check_state_path data_dir =
     (let clean = path_clean (trim_space data_dir); module_dir = path_clean default_module_dir
      in if clean = ''.'' \<or> clean = [] \<or> clean = module_dir \<or> has_prefix clean (module_dir @ ''/'')
         then path_join [default_state_dir, ''update-check-state.json'']
         else path_join [clean, ''data'', ''update-check-state.json''])"

definition read_update_check_state :: "'w update_env \<Rightarrow> string \<Rightarrow> ('w, check_state option) update" where
  "read_update_check_state e data_dir =
     io_bind (io_try (read_file (update_check_state_path data_dir))) (\<lambda>r.
     case r of
       Inl err \<Rightarrow> if is_not_exist err then io_return None
                  else io_fail (WrapError ''updater: read update check state: '' (go_fs_error err))
     | Inr text \<Rightarrow>
         (case ue_check e text of
            Inl err \<Rightarrow> io_fail (WrapError ''updater: parse update check state: '' err)
          | Inr state \<Rightarrow> io_return (Some state)))"

definition write_update_check_state :: "'w update_env \<Rightarrow> string \<Rightarrow> check_state option \<Rightarrow> ('w, unit) update" where
  "write_update_check_state e data_dir state =
     (case state of
        None \<Rightarrow> io_return ()
      | Some st \<Rightarrow>
          (let path = update_check_state_path data_dir; tmp = path @ ''.tmp''
           in io_bind (wrapping ''updater: mkdir update check state dir: '' (make_dir_all (path_dir path) 448)) (\<lambda>_.
              io_bind (wrapping ''updater: write update check state: ''
                         (write_file tmp (ue_check_text e st @ [char_of (10::nat)]) 384)) (\<lambda>_.
              io_on_error (wrapping ''updater: replace update check state: '' (rename_path tmp path)) (remove_file tmp)))))"

definition check_state_from_result :: "string \<Rightarrow> gtime \<Rightarrow> go_error + update_info \<Rightarrow> check_state" where
  "check_state_from_result current now r =
     (let state = \<lparr>ck_LastCheckedAt = now, ck_CurrentVersion = normalize_version_tag current, ck_LatestVersion = [],
                   ck_HasUpdate = False, ck_Changelog = [], ck_ModuleSize = 0, ck_ApkSize = 0, ck_Error = []\<rparr>
      in case r of
           Inl err \<Rightarrow> state\<lparr>ck_Error := error_msg err\<rparr>
         | Inr info \<Rightarrow> state\<lparr>ck_CurrentVersion := ui_CurrentVersion info, ck_LatestVersion := ui_LatestVersion info,
                       ck_HasUpdate := ui_HasUpdate info, ck_Changelog := ui_Changelog info,
                       ck_ModuleSize := ui_ModuleSize info, ck_ApkSize := ui_ApkSize info\<rparr>)"

text \<open>Checking and storing the outcome: an error of the check hides one of the store.\<close>

definition check_and_store ::
  "'w update_env \<Rightarrow> string \<Rightarrow> string \<Rightarrow> ('w, (go_error + update_info) \<times> check_state \<times> go_error option) update" where
  "check_and_store e data_dir current =
     io_bind (io_try (check_for_update e current)) (\<lambda>r.
     io_bind fresh_now (\<lambda>now.
     let state = check_state_from_result current now r
     in io_bind (io_try (write_update_check_state e data_dir (Some state))) (\<lambda>stored.
        io_return (r, state,
          case r of Inl err \<Rightarrow> Some err | Inr _ \<Rightarrow> (case stored of Inl err \<Rightarrow> Some err | Inr _ \<Rightarrow> None)))))"

definition check_for_update_and_persist ::
  "'w update_env \<Rightarrow> string \<Rightarrow> string \<Rightarrow> ('w, update_info option \<times> go_error option) update" where
  "check_for_update_and_persist e data_dir current =
     io_bind (check_and_store e data_dir current) (\<lambda>(r, state, err).
     io_return (case r of Inl _ \<Rightarrow> None | Inr info \<Rightarrow> Some info, err))"

text \<open>The state, whether the network was asked, and the error.\<close>

definition maybe_check_for_update ::
  "'w update_env \<Rightarrow> string \<Rightarrow> string \<Rightarrow> gtime \<Rightarrow> ('w, check_state option \<times> bool \<times> go_error option) update" where
  "maybe_check_for_update e data_dir current now =
     io_bind (io_try (read_update_check_state e data_dir)) (\<lambda>r.
     case r of
       Inl err \<Rightarrow> io_return (None, False, Some err)
     | Inr state \<Rightarrow>
         (case state of
            Some st \<Rightarrow>
              if normalize_version_tag (ck_CurrentVersion st) = normalize_version_tag current \<and>
                 \<not> time_is_zero (ck_LastCheckedAt st) \<and>
                 time_sub now (ck_LastCheckedAt st) < update_check_min_interval
              then io_return (Some st, False, None)
              else io_bind (check_and_store e data_dir current) (\<lambda>(r, st, err). io_return (Some st, True, err))
          | None \<Rightarrow> io_bind (check_and_store e data_dir current) (\<lambda>(r, st, err). io_return (Some st, True, err))))"

section \<open>The order of versions\<close>

definition version_text :: "nat \<Rightarrow> nat \<Rightarrow> nat \<Rightarrow> string" where
  "version_text a b c = CHR ''v'' # nat_str a @ ''.'' @ nat_str b @ ''.'' @ nat_str c"

lemma trim_space_ascii:
  assumes "s \<noteq> []" "\<not> space1 (hd s)" "byte (hd s) < 128" "\<not> space1 (last s)" "byte (last s) < 128"
  shows "trim_space s = s"
proof -
  have "\<not> starts_space space1 space2 space3 s"
    using assms by (cases "(space1, space2, space3, s)" rule: starts_space.cases) (auto simp: space2_def space3_def)
  then have left: "trim_left s = s" by (simp add: trim_left_def trim_by_id)
  have "rev s \<noteq> []" "hd (rev s) = last s" using assms(1) by (simp_all add: hd_rev)
  then have "\<not> starts_space space1 (\<lambda>a b. space2 b a) (\<lambda>a b c. space3 c b a) (rev s)"
    using assms(4,5) by (cases "(space1, space2, space3, rev s)" rule: starts_space.cases) (auto simp: space2_def space3_def)
  then show ?thesis by (simp add: trim_space_def left trim_right_def trim_by_id)
qed

lemma digit_char_text:
  assumes "is_digit c"
  shows "c \<noteq> CHR ''.''" "c \<noteq> CHR ''-''" "c \<noteq> CHR ''v''" "c \<noteq> CHR ''V''" "\<not> space1 c" "byte c < 128"
  using assms by (auto simp: is_digit_def space1_def)

lemma nat_str_text: "c \<in> set (nat_str n) \<Longrightarrow> is_digit c"
  using nat_str_digits by (simp add: list_all_iff)

lemma normalize_version_text: "normalize_version_tag (version_text a b c) = version_text a b c"
proof -
  have ends: "hd (version_text a b c) = CHR ''v''" "last (version_text a b c) = last (nat_str c)"
    by (simp_all add: version_text_def)
  have "is_digit (last (nat_str c))" by (rule nat_str_text [OF last_in_set [OF nat_str_ne]])
  then have "trim_space (version_text a b c) = version_text a b c"
    by (intro trim_space_ascii) (simp_all add: ends digit_char_text, simp_all add: version_text_def space1_def)
  moreover obtain x xs where x: "nat_str a = x # xs" by (cases "nat_str a") auto
  then have "x \<noteq> CHR ''v''" "x \<noteq> CHR ''V''" using nat_str_text [of x a] digit_char_text by auto
  ultimately show ?thesis by (simp add: normalize_version_tag_def trim_left_set_def version_text_def x)
qed

lemma parse_version_text:
  assumes "int a < 2 ^ 63" "int b < 2 ^ 63" "int c < 2 ^ 63"
  shows "parse_semver (version_text a b c) = [int a, int b, int c]"
proof -
  have dots: "CHR ''.'' \<notin> set (nat_str n)" "CHR ''-'' \<notin> set (nat_str n)" for n
    using nat_str_text digit_char_text by blast+
  have part: "takeWhile (\<lambda>c. c \<noteq> CHR ''-'') (nat_str a @ CHR ''.'' # nat_str b @ CHR ''.'' # nat_str c) =
      nat_str a @ CHR ''.'' # nat_str b @ CHR ''.'' # nat_str c"
    using dots(2) by (subst takeWhile_eq_all_conv) auto
  have "split_char (CHR ''.'') (nat_str a @ ''.'' @ nat_str b @ ''.'' @ nat_str c) = [nat_str a, nat_str b, nat_str c]"
    using dots(1) by (simp add: split_char_append split_char_plain)
  moreover have "fst (atoi (nat_str n)) = int n" if "int n < 2 ^ 63" for n
    using atoi_int_str [of "int n"] that by (simp add: int_str_def)
  ultimately show ?thesis
    using assms by (simp add: parse_semver_def version_text_def has_prefix_def split_n_def Let_def part)
qed

text \<open>
  Of two versions that are written as \<^verbatim>\<open>vX.Y.Z\<close> the second is an update exactly when it is greater in the
  lexicographic order of the three numbers.
\<close>

theorem semver_order:
  assumes "int a < 2 ^ 63" "int b < 2 ^ 63" "int c < 2 ^ 63" "int x < 2 ^ 63" "int y < 2 ^ 63" "int z < 2 ^ 63"
  shows "compare_semver (version_text a b c) (version_text x y z) \<longleftrightarrow> a < x \<or> a = x \<and> (b < y \<or> b = y \<and> c < z)"
  using assms by (auto simp: compare_semver_def normalize_version_text parse_version_text)

lemma semver_order_witness: "compare_semver (version_text 1 9 9) (version_text 1 10 0)"
  using semver_order [of 1 9 9 1 10 0] by simp

definition max_module_download_bytes :: int where "max_module_download_bytes = 200 * 1024 * 1024"
definition max_apk_download_bytes :: int where "max_apk_download_bytes = 100 * 1024 * 1024"
definition max_checksum_download_bytes :: int where "max_checksum_download_bytes = 1024 * 1024"

record downloaded_update =
  du_ModulePath :: string
  du_ApkPath :: string
  du_ManifestPath :: string
  du_Checksums :: bool

definition fail_text :: "string \<Rightarrow> ('w, 'a) update" where
  "fail_text m = io_fail (ErrorString m)"

section \<open>One file\<close>

text \<open>\<^verbatim>\<open>os.Remove\<close> where a missing file is no error.\<close>

definition remove_if_there :: "string \<Rightarrow> ('w, unit) call" where
  "remove_if_there p =
     io_bind (io_try (remove_file p)) (\<lambda>r.
     case r of Inr _ \<Rightarrow> io_return () | Inl e \<Rightarrow> if is_not_exist e then io_return () else io_fail e)"

text \<open>\<^verbatim>\<open>progress\<close> gets the number of bytes written so far; its errors are dropped.\<close>

fun download_reads ::
  "'w update_env \<Rightarrow> string \<Rightarrow> int \<Rightarrow> (int \<Rightarrow> ('w, unit) update) \<Rightarrow> string list \<Rightarrow> int \<Rightarrow> ('w, int) update" where
  "download_reads e tmp max_size progress [] written d = io_bind (ctx_err e) (\<lambda>_. io_return written) d"
| "download_reads e tmp max_size progress (chunk # chunks) written d =
     (let written1 = written + int (length chunk)
      in io_bind (ctx_err e) (\<lambda>_.
         if chunk = [] then download_reads e tmp max_size progress chunks written
         else io_bind (io_check (written1 \<le> max_size)
                         (ErrorString (''download exceeded '' @ int_str max_size @ '' bytes''))) (\<lambda>_.
              io_bind (go_errors (write_bytes tmp chunk)) (\<lambda>_.
              io_bind (io_try (progress written1)) (\<lambda>_.
              download_reads e tmp max_size progress chunks written1)))) d)"

definition check_response :: "string \<Rightarrow> string \<Rightarrow> int \<Rightarrow> int \<Rightarrow> http_body \<Rightarrow> ('w, unit) update" where
  "check_response url dest expected max_size body =
     (if hb_StatusCode body \<noteq> 200 then fail_text (''HTTP '' @ int_str (hb_StatusCode body) @ '' for '' @ url)
      else if max_size \<le> 0 then fail_text (''invalid download size limit for '' @ dest)
      else if max_size < hb_ContentLength body
      then fail_text (''content length '' @ int_str (hb_ContentLength body) @ '' exceeds '' @ int_str max_size @ '' bytes'')
      else if 0 < expected \<and> 0 < hb_ContentLength body \<and> hb_ContentLength body \<noteq> expected
      then fail_text (''content length '' @ int_str (hb_ContentLength body) @ '' does not match release metadata size '' @
                      int_str expected)
      else io_return ())"

definition download_file ::
  "'w update_env \<Rightarrow> string \<Rightarrow> string \<Rightarrow> int \<Rightarrow> int \<Rightarrow> (int \<Rightarrow> ('w, unit) update) \<Rightarrow> ('w, unit) update" where
  "download_file e url dest expected max_size progress =
     (let tmp = dest @ ''.tmp''
      in io_bind (ctx_err e) (\<lambda>_.
         io_bind (ue_get e url) (\<lambda>body.
         io_bind (check_response url dest expected max_size body) (\<lambda>_.
         io_bind (go_errors (remove_if_there tmp)) (\<lambda>_.
         io_bind (go_errors (create_file tmp 384)) (\<lambda>_.
         io_on_error
           (io_bind (download_reads e tmp max_size progress (hb_Reads body) 0) (\<lambda>written.
            io_bind (case hb_End body of Some err \<Rightarrow> io_fail err | None \<Rightarrow> io_return ()) (\<lambda>_.
            io_bind (io_check (\<not> (0 < expected \<and> written \<noteq> expected))
                       (ErrorString (''downloaded '' @ int_str written @ '' bytes; release metadata expected '' @
                                     int_str expected))) (\<lambda>_.
            io_bind (ctx_err e) (\<lambda>_.
            io_bind (go_errors sync_file) (\<lambda>_.
            io_bind (ctx_err e) (\<lambda>_.
            go_errors (rename_path tmp dest))))))))
           (remove_file tmp)))))))"

section \<open>Checksums and the manifest\<close>

definition sha256_file :: "'w update_env \<Rightarrow> string \<Rightarrow> ('w, string) update" where
  "sha256_file e p = io_bind (go_errors (read_file p)) (\<lambda>bytes. io_return (ue_sha256 e bytes))"

definition in_dir :: "string \<Rightarrow> string \<Rightarrow> string" where
  "in_dir dir name = path_join [dir, name]"

definition artifact_names :: "string list" where
  "artifact_names = [''module.zip'', ''panel.apk'']"

text \<open>The artifacts that are there, none of them matched yet.\<close>

fun required_artifacts :: "string \<Rightarrow> string list \<Rightarrow> ('w, (string \<times> bool) list) update" where
  "required_artifacts dir [] d = (Inr [], d)"
| "required_artifacts dir (name # names) d =
     io_bind (io_try (file_stat (in_dir dir name))) (\<lambda>r.
     case r of
       Inr _ \<Rightarrow> io_bind (required_artifacts dir names) (\<lambda>req. io_return ((name, False) # req))
     | Inl err \<Rightarrow>
         if is_not_exist err then required_artifacts dir names
         else io_fail (WrapError (''stat '' @ name @ '': '') (go_fs_error err))) d"

text \<open>The digest and the local file of a line of checksums.\<close>

definition is_hex_text :: "string \<Rightarrow> bool" where
  "is_hex_text s \<longleftrightarrow> list_all (\<lambda>c. hex_value c \<noteq> None) s"

definition local_artifact :: "string \<Rightarrow> string option" where
  "local_artifact asset =
     (let lower = to_lower asset
      in if asset_is_module lower then Some ''module.zip''
         else if asset_is_panel lower then Some ''panel.apk'' else None)"

definition checksum_line :: "string \<Rightarrow> (string \<times> string) option" where
  "checksum_line text =
     (let line = trim_space text
      in if line = [] then None
         else (case split_n 2 (CHR '' '') line of
                 [first, rest] \<Rightarrow>
                   (let hash = trim_space first
                    in if length hash \<noteq> 64 \<or> \<not> is_hex_text hash then None
                       else map_option (Pair hash) (local_artifact (path_base (trim_left_set '' *'' rest))))
               | _ \<Rightarrow> None))"

fun check_lines ::
  "'w update_env \<Rightarrow> string \<Rightarrow> string list \<Rightarrow> (string \<times> bool) list \<Rightarrow> ('w, (string \<times> bool) list) update" where
  "check_lines e dir [] required d = (Inr required, d)"
| "check_lines e dir (line # lines) required d =
     (case checksum_line line of
        None \<Rightarrow> check_lines e dir lines required d
      | Some (expected, name) \<Rightarrow>
          io_bind (io_try (file_stat (in_dir dir name))) (\<lambda>found.
          if (case found of Inl err \<Rightarrow> is_not_exist err | Inr _ \<Rightarrow> False) then check_lines e dir lines required
          else if map_of required name = Some True then fail_text (name @ '': duplicate checksum entry'')
          else io_bind (io_error (WrapError (''hash '' @ name @ '': '')) (sha256_file e (in_dir dir name))) (\<lambda>actual.
               if \<not> equal_fold actual expected
               then fail_text (name @ '': expected '' @ expected @ '', got '' @ actual)
               else check_lines e dir lines
                      (if map_of required name \<noteq> None then AList.update name True required else required))) d)"

definition verify_checksums :: "'w update_env \<Rightarrow> string \<Rightarrow> string \<Rightarrow> ('w, unit) update" where
  "verify_checksums e sum_file dir =
     io_bind (go_errors (read_file sum_file)) (\<lambda>text.
     io_bind (required_artifacts dir artifact_names) (\<lambda>required.
     io_bind (io_check (required \<noteq> []) (ErrorString ''no downloaded update artifacts to verify'')) (\<lambda>_.
     io_bind (check_lines e dir (split_char (char_of (10::nat)) (trim_space text)) required) (\<lambda>matched.
     let missing = map fst (filter (\<lambda>(name, ok). \<not> ok) matched)
     in io_check (missing = [])
          (ErrorString (''missing checksum entries for '' @ str_join '', '' (ue_range e missing)))))))"

definition require_regular_artifact :: "string \<Rightarrow> string \<Rightarrow> ('w, unit) update" where
  "require_regular_artifact p label =
     io_bind (io_try (file_lstat p)) (\<lambda>found.
     case found of
       Inl err \<Rightarrow> if is_not_exist err then fail_text (''missing '' @ label)
                  else io_fail (WrapError (''stat '' @ label @ '': '') (go_fs_error err))
     | Inr (SymbolicLink t) \<Rightarrow> fail_text (label @ '' must not be a symlink'')
     | Inr (Folder m) \<Rightarrow> fail_text (label @ '' must be a regular file'')
     | Inr (RegularFile b m) \<Rightarrow> io_return ())"

definition read_verified_manifest :: "'w update_env \<Rightarrow> string \<Rightarrow> ('w, verified_manifest) update" where
  "read_verified_manifest e dir =
     (let p = in_dir dir ''update-manifest.json''
      in io_bind (io_error (\<lambda>err. if str_contains (error_msg err) ''missing verified update manifest'' then err
                                  else WrapError ''stat verified update manifest: '' err)
                   (require_regular_artifact p ''verified update manifest'')) (\<lambda>_.
         io_bind (io_error (\<lambda>err. if is_not_exist err then ErrorString ''missing verified update manifest''
                                  else WrapError ''read verified update manifest: '' (go_fs_error err))
                   (read_file p)) (\<lambda>text.
         case ue_manifest e text of
           Inl err \<Rightarrow> io_fail (WrapError ''parse verified update manifest: '' err)
         | Inr m \<Rightarrow>
             if vm_ManifestVersion m \<noteq> 1
             then fail_text (''unsupported verified update manifest version '' @ int_str (vm_ManifestVersion m))
             else if vm_LatestVersion m = [] \<or> vm_ModuleSHA256 m = [] \<or> vm_ApkSHA256 m = [] \<or> vm_ChecksumsSHA256 m = []
             then fail_text ''verified update manifest is incomplete'' else io_return m)))"

definition write_verified_manifest :: "'w update_env \<Rightarrow> update_info \<Rightarrow> string \<Rightarrow> ('w, string) update" where
  "write_verified_manifest e info dir =
     (let p = in_dir dir ''update-manifest.json''; tmp = p @ ''.tmp''
      in io_bind (io_error (WrapError ''updater: hash module.zip: '') (sha256_file e (in_dir dir ''module.zip''))) (\<lambda>module_hash.
         io_bind (io_error (WrapError ''updater: hash panel.apk: '') (sha256_file e (in_dir dir ''panel.apk''))) (\<lambda>apk_hash.
         io_bind (io_error (WrapError ''updater: hash SHA256SUMS.txt: '') (sha256_file e (in_dir dir ''SHA256SUMS.txt''))) (\<lambda>sums_hash.
         io_bind fresh_now (\<lambda>now.
         io_bind (wrapping ''updater: write verified update manifest: ''
                    (write_file tmp (ue_manifest_text e
                       \<lparr>vm_ManifestVersion = 1, vm_CurrentVersion = normalize_version_tag (ui_CurrentVersion info),
                        vm_LatestVersion = normalize_version_tag (ui_LatestVersion info), vm_ModuleSHA256 = module_hash,
                        vm_ApkSHA256 = apk_hash, vm_ChecksumsSHA256 = sums_hash, vm_VerifiedAt = now\<rparr>
                       @ [char_of (10::nat)]) 416)) (\<lambda>_.
         io_bind (io_on_error (wrapping ''updater: publish verified update manifest: '' (rename_path tmp p))
                    (remove_file tmp)) (\<lambda>_.
         io_return p)))))))"

section \<open>The download\<close>

definition validate_asset_size :: "string \<Rightarrow> int \<Rightarrow> int \<Rightarrow> ('w, unit) update" where
  "validate_asset_size label n max_size =
     (if n \<le> 0 then fail_text (''updater: release metadata has invalid '' @ label @ '' size '' @ int_str n)
      else if max_size < n
      then fail_text (''updater: '' @ label @ '' size '' @ int_str n @ '' exceeds '' @ int_str max_size @ '' bytes'')
      else io_return ())"

definition cleanup_downloaded :: "string \<Rightarrow> ('w, unit) update" where
  "cleanup_downloaded dir =
     io_each (\<lambda>name. let p = in_dir dir name
        in io_bind (wrapping (''updater: remove stale '' @ name @ '': '') (remove_if_there p)) (\<lambda>_.
           wrapping (''updater: remove stale '' @ name @ ''.tmp: '') (remove_if_there (p @ ''.tmp''))))
       [''module.zip'', ''panel.apk'', ''SHA256SUMS.txt'', ''update-manifest.json'']"

definition check_release_assets :: "update_info \<Rightarrow> ('w, unit) update" where
  "check_release_assets info =
     (if ui_ModuleURL info = [] \<or> ui_ApkURL info = []
      then fail_text ''updater: release is missing required module or APK artifact''
      else if ui_ChecksumURL info = [] then fail_text ''updater: release is missing sha256sums.txt''
      else io_bind (validate_asset_size ''module.zip'' (ui_ModuleSize info) max_module_download_bytes) (\<lambda>_.
           validate_asset_size ''panel.apk'' (ui_ApkSize info) max_apk_download_bytes))"

text \<open>\<^verbatim>\<open>progress\<close> gets the downloaded bytes of both artifacts and their size.\<close>

definition download_update ::
  "'w update_env \<Rightarrow> update_info \<Rightarrow> string \<Rightarrow> (int \<Rightarrow> int \<Rightarrow> ('w, unit) update) \<Rightarrow> ('w, downloaded_update) update" where
  "download_update e info dir progress =
     (let total = ui_ModuleSize info + ui_ApkSize info; module = in_dir dir ''module.zip''; apk = in_dir dir ''panel.apk'';
          sums = in_dir dir ''SHA256SUMS.txt''
      in io_bind (ctx_err e) (\<lambda>_.
         io_bind (wrapping (''updater: mkdir '' @ dir @ '': '') (make_dir_all dir 488)) (\<lambda>_.
         io_bind (check_release_assets info) (\<lambda>_.
         io_bind (cleanup_downloaded dir) (\<lambda>_.
         io_bind (io_error (WrapError ''updater: download module: '')
                    (download_file e (ui_ModuleURL info) module (ui_ModuleSize info) max_module_download_bytes
                       (\<lambda>n. progress n total))) (\<lambda>_.
         io_bind (io_error (WrapError ''updater: download apk: '')
                    (download_file e (ui_ApkURL info) apk (ui_ApkSize info) max_apk_download_bytes
                       (\<lambda>n. progress (ui_ModuleSize info + n) total))) (\<lambda>_.
         io_bind (io_error (WrapError ''updater: download checksums: '')
                    (download_file e (ui_ChecksumURL info) sums 0 max_checksum_download_bytes (\<lambda>n. io_return ()))) (\<lambda>_.
         io_bind (io_error (WrapError ''updater: verify checksums: '') (verify_checksums e sums dir)) (\<lambda>_.
         io_bind (write_verified_manifest e info dir) (\<lambda>manifest.
         io_return \<lparr>du_ModulePath = module, du_ApkPath = apk, du_ManifestPath = manifest, du_Checksums = True\<rparr>))))))))))"

section \<open>Verification before the installation\<close>

definition require_digest :: "'w update_env \<Rightarrow> string \<Rightarrow> string \<Rightarrow> string \<Rightarrow> ('w, unit) update" where
  "require_digest e p name digest =
     io_bind (io_error (WrapError (''hash '' @ name @ '': '')) (sha256_file e p)) (\<lambda>actual.
     io_check (equal_fold actual digest) (ErrorString (name @ '' does not match verified manifest'')))"

definition verify_downloaded_update :: "'w update_env \<Rightarrow> string \<Rightarrow> string \<Rightarrow> ('w, unit) update" where
  "verify_downloaded_update e module apk =
     (let dir = path_dir module; sums = in_dir dir ''SHA256SUMS.txt''
      in io_bind (io_check (module \<noteq> [] \<and> apk \<noteq> []) (ErrorString ''both module and APK paths are required'')) (\<lambda>_.
         io_bind (io_check (dir = path_dir apk)
                    (ErrorString ''module and APK must be in the same verified update directory'')) (\<lambda>_.
         io_bind (io_check (path_base module = ''module.zip'' \<and> path_base apk = ''panel.apk'')
                    (ErrorString ''update artifacts must be the verified module.zip and panel.apk files'')) (\<lambda>_.
         io_bind (require_regular_artifact module ''module.zip'') (\<lambda>_.
         io_bind (require_regular_artifact apk ''panel.apk'') (\<lambda>_.
         io_bind (io_error (\<lambda>err. if str_contains (error_msg err) ''missing SHA256SUMS.txt''
                                  then ErrorString ''missing SHA256SUMS.txt for downloaded update'' else err)
                   (require_regular_artifact sums ''SHA256SUMS.txt'')) (\<lambda>_.
         io_bind (verify_checksums e sums dir) (\<lambda>_.
         io_bind (read_verified_manifest e dir) (\<lambda>manifest.
         io_bind (require_digest e module ''module.zip'' (vm_ModuleSHA256 manifest)) (\<lambda>_.
         io_bind (require_digest e apk ''panel.apk'' (vm_ApkSHA256 manifest)) (\<lambda>_.
         require_digest e sums ''SHA256SUMS.txt'' (vm_ChecksumsSHA256 manifest))))))))))))"

section \<open>What a verification says\<close>

text \<open>What a successful verification of a downloaded update says of the files.\<close>

section \<open>Reading leaves the tree as it is\<close>

definition same_tree :: "'w device_scheme \<Rightarrow> 'w device_scheme \<Rightarrow> bool" where
  "same_tree d d' \<longleftrightarrow> dv_nodes d' = dv_nodes d"

definition file_bytes :: "'w device_scheme \<Rightarrow> string \<Rightarrow> string option" where
  "file_bytes d p = (case node_at d (resolved d p) of Some (RegularFile b m) \<Rightarrow> Some b | _ \<Rightarrow> None)"

lemma same_tree_node: "same_tree d d' \<Longrightarrow> node_at d' = node_at d"
  by (simp add: same_tree_def node_at_def fun_eq_iff)

lemma follow_same: "node_at d' = node_at d \<Longrightarrow> follow n d' p = follow n d p"
  by (induction n arbitrary: p) (auto split: option.split file_node.split)

lemma same_tree_bytes: "same_tree d d' \<Longrightarrow> file_bytes d' = file_bytes d"
  using same_tree_node [of d d'] follow_same [of d' d] by (simp add: file_bytes_def fun_eq_iff resolved_def)

lemma same_tree_refl [simp]: "same_tree d d"
  by (simp add: same_tree_def)

lemma same_tree_trans: "same_tree d d1 \<Longrightarrow> same_tree d1 d2 \<Longrightarrow> same_tree d d2"
  by (simp add: same_tree_def)

lemma same_tree_calls [simp]: "same_tree d (d'\<lparr>dv_calls := n\<rparr>) = same_tree d d'"
  by (simp add: same_tree_def)

lemma resolved_calls [simp]: "resolved (d\<lparr>dv_calls := n\<rparr>) p = resolved d p"
  using follow_same [OF node_at_calls] by (simp add: resolved_def)

lemma file_stat_tree: "file_stat p d = (r, d') \<Longrightarrow> same_tree d d'"
  by (auto simp: file_stat_def io_call_def Let_def split: option.splits file_node.splits)

lemma file_lstat_tree: "file_lstat p d = (r, d') \<Longrightarrow> same_tree d d'"
  by (auto simp: file_lstat_def io_call_def Let_def split: option.splits)

lemma file_lstat_Inr: "file_lstat p d = (Inr n, d') \<Longrightarrow> node_at d p = Some n"
  by (auto simp: file_lstat_def io_call_def Let_def split: option.splits)

lemma file_stat_missing:
  "file_stat p d = (Inl err, d') \<Longrightarrow> is_not_exist err \<Longrightarrow> node_at d (resolved d p) = None"
  by (auto simp: file_stat_def io_call_def Let_def split: option.splits file_node.splits)

lemma read_file_Inr: "read_file p d = (Inr b, d') \<Longrightarrow> same_tree d d' \<and> file_bytes d p = Some b"
  by (auto simp: read_file_def io_call_def Let_def file_bytes_def split: option.splits file_node.splits)

lemma sha256_file_Inr:
  "sha256_file e p d = (Inr h, d') \<Longrightarrow> \<exists>b. same_tree d d' \<and> file_bytes d p = Some b \<and> h = ue_sha256 e b"
  by (auto simp: sha256_file_def go_errors_def dest: read_file_Inr)

lemma require_regular_Inr:
  "require_regular_artifact p label d = (Inr u, d') \<Longrightarrow>
     same_tree d d' \<and> (\<exists>b m. node_at d p = Some (RegularFile b m) \<and> file_bytes d p = Some b)"
proof -
  assume regular: "require_regular_artifact p label d = (Inr u, d')"
  obtain r d1 where r: "file_lstat p d = (r, d1)" by fastforce
  obtain b m where "r = Inr (RegularFile b m)" "d1 = d'"
    using regular r by (cases r) (auto simp: require_regular_artifact_def fail_text_def split: file_node.splits if_splits)
  then show ?thesis using file_lstat_tree [OF r] file_lstat_Inr [of p d _ d1] r by (simp add: file_bytes_def)
qed

section \<open>Checksums\<close>

definition listed_digest :: "'w update_env \<Rightarrow> 'w device_scheme \<Rightarrow> string list \<Rightarrow> string \<Rightarrow> string \<Rightarrow> bool" where
  "listed_digest e d lines dir name \<longleftrightarrow>
     (\<exists>line\<in>set lines. \<exists>h b. checksum_line line = Some (h, name) \<and> file_bytes d (in_dir dir name) = Some b \<and>
        equal_fold (ue_sha256 e b) h)"

lemma listed_digest_same: "same_tree d d' \<Longrightarrow> listed_digest e d' lines dir name = listed_digest e d lines dir name"
  by (simp add: listed_digest_def same_tree_bytes)

lemma listed_digest_Cons: "listed_digest e d lines dir name \<Longrightarrow> listed_digest e d (line # lines) dir name"
  by (auto simp: listed_digest_def)

lemma required_artifacts_Inr:
  "required_artifacts dir names d = (Inr required, d') \<Longrightarrow>
     same_tree d d' \<and> set required \<subseteq> set names \<times> {False} \<and>
     (\<forall>name\<in>set names. node_at d (resolved d (in_dir dir name)) \<noteq> None \<longrightarrow> (name, False) \<in> set required)"
proof (induction names arbitrary: required d)
  case (Cons name names)
  obtain r d1 where stat: "file_stat (in_dir dir name) d = (r, d1)" by fastforce
  have same: "same_tree d d1" by (rule file_stat_tree [OF stat])
  have nodes: "node_at d1 (resolved d1 p) = node_at d (resolved d p)" for p
    using same_tree_node [OF same] follow_same [of d1 d] by (simp add: resolved_def)
  show ?case
  proof (cases r)
    case (Inr n)
    then obtain req where "required_artifacts dir names d1 = (Inr req, d')" "required = (name, False) # req"
      using Cons.prems stat by auto
    then show ?thesis using Cons.IH [of d1 req] same same_tree_trans nodes by fastforce
  next
    case (Inl err)
    then have "required_artifacts dir names d1 = (Inr required, d')" "is_not_exist err"
      using Cons.prems stat by (auto split: if_splits)
    moreover have "node_at d (resolved d (in_dir dir name)) = None"
      using file_stat_missing stat Inl \<open>is_not_exist err\<close> by blast
    ultimately show ?thesis using Cons.IH [of d1 required] same same_tree_trans nodes by fastforce
  qed
qed simp

lemma check_lines_Inr:
  "check_lines e dir lines required d = (Inr matched, d') \<Longrightarrow>
     same_tree d d' \<and> map fst matched = map fst required \<and>
     (\<forall>name. map_of matched name = Some True \<longrightarrow> map_of required name = Some True \<or> listed_digest e d lines dir name)"
proof (induction lines arbitrary: required d)
  case (Cons line lines)
  show ?case
  proof (cases "checksum_line line")
    case None
    then have "check_lines e dir lines required d = (Inr matched, d')" using Cons.prems by simp
    from Cons.IH [OF this] show ?thesis using listed_digest_Cons [of e d lines dir _ line] by blast
  next
    case (Some entry)
    then obtain expected name where entry: "checksum_line line = Some (expected, name)" by (cases entry) simp
    obtain found d1 where stat: "file_stat (in_dir dir name) d = (found, d1)" by fastforce
    have same: "same_tree d d1" by (rule file_stat_tree [OF stat])
    note listed = listed_digest_same [OF same] listed_digest_Cons [of e d lines dir _ line]
    show ?thesis
    proof (cases "case found of Inl err \<Rightarrow> is_not_exist err | Inr n \<Rightarrow> False")
      case True
      then have "check_lines e dir lines required d1 = (Inr matched, d')" using Cons.prems entry stat by simp
      from Cons.IH [OF this] show ?thesis using listed same same_tree_trans by metis
    next
      case False
      define required1 where "required1 = (if map_of required name \<noteq> None then AList.update name True required else required)"
      obtain actual d2 where hash: "sha256_file e (in_dir dir name) d1 = (Inr actual, d2)"
        and rest: "check_lines e dir lines required1 d2 = (Inr matched, d')" and equal: "equal_fold actual expected"
        using Cons.prems entry stat False
        by (auto simp: fail_text_def required1_def split: if_splits)
      obtain b where b: "same_tree d1 d2" "file_bytes d1 (in_dir dir name) = Some b" "actual = ue_sha256 e b"
        using sha256_file_Inr [OF hash] by blast
      have same2: "same_tree d d2" using same_tree_trans [OF same b(1)] .
      have this_line: "listed_digest e d (line # lines) dir name"
        using entry equal b(2,3) same_tree_bytes [OF same] by (auto simp: listed_digest_def)
      have keys: "map fst required1 = map fst required"
        by (auto simp: required1_def update_keys map_of_eq_None_iff)
      have old: "map_of required n = Some True \<or> n = name" if "map_of required1 n = Some True" for n
        using that by (auto simp: required1_def update_conv split: if_splits)
      from Cons.IH [OF rest] keys have IH: "same_tree d2 d'" "map fst matched = map fst required"
        "\<And>n. map_of matched n = Some True \<Longrightarrow> map_of required1 n = Some True \<or> listed_digest e d2 lines dir n"
        by simp_all
      show ?thesis
        using IH same_tree_trans [OF same2 IH(1)] old this_line listed_digest_same [OF same2, of e lines dir]
          listed_digest_Cons [of e d lines dir _ line] by metis
    qed
  qed
qed simp

lemma verify_checksums_Inr:
  assumes "verify_checksums e sums dir d = (Inr u, d')" "name \<in> set artifact_names"
    and "node_at d (resolved d (in_dir dir name)) \<noteq> None"
  shows "same_tree d d' \<and>
    (\<exists>body. file_bytes d sums = Some body \<and> listed_digest e d (split_char (char_of (10::nat)) (trim_space body)) dir name)"
proof -
  obtain body required matched d1 d2 where read: "read_file sums d = (Inr body, d1)"
    and required: "required_artifacts dir artifact_names d1 = (Inr required, d2)"
    and lines: "check_lines e dir (split_char (char_of (10::nat)) (trim_space body)) required d2 = (Inr matched, d')"
    and all: "\<forall>x\<in>set matched. snd x"
    using assms(1) by (auto simp: verify_checksums_def go_errors_def Let_def filter_empty_conv split_beta)
  have same1: "same_tree d d1" and bytes: "file_bytes d sums = Some body" using read_file_Inr [OF read] by simp_all
  have nodes: "node_at d1 (resolved d1 p) = node_at d (resolved d p)" for p
    using same_tree_node [OF same1] follow_same [of d1 d] by (simp add: resolved_def)
  note req = required_artifacts_Inr [OF required] and chk = check_lines_Inr [OF lines]
  have "name \<in> fst ` set required" using req assms(2,3) nodes by force
  then have "name \<in> set (map fst matched)" using chk by simp
  then obtain v where v: "map_of matched name = Some v" by (cases "map_of matched name") (auto simp: map_of_eq_None_iff)
  then have "map_of matched name = Some True" using all map_of_SomeD [OF v] by force
  moreover have "map_of required name \<noteq> Some True" using req by (auto dest: map_of_SomeD)
  ultimately have "listed_digest e d2 (split_char (char_of (10::nat)) (trim_space body)) dir name" using chk by blast
  moreover have same2: "same_tree d d2" using req same_tree_trans [OF same1] by blast
  ultimately show ?thesis
    using bytes listed_digest_same [OF same2] chk same_tree_trans [OF same2] by metis
qed

section \<open>The verified update\<close>

lemma require_digest_Inr:
  "require_digest e p name digest d = (Inr u, d') \<Longrightarrow>
     \<exists>b. same_tree d d' \<and> file_bytes d p = Some b \<and> equal_fold (ue_sha256 e b) digest"
  by (auto simp: require_digest_def dest: sha256_file_Inr)

lemma read_manifest_Inr:
  "read_verified_manifest e dir d = (Inr m, d') \<Longrightarrow>
     same_tree d d' \<and> (\<exists>body. file_bytes d (in_dir dir ''update-manifest.json'') = Some body \<and> ue_manifest e body = Inr m)"
proof -
  assume "read_verified_manifest e dir d = (Inr m, d')"
  then obtain d1 body d2 where regular: "require_regular_artifact (in_dir dir ''update-manifest.json'') ''verified update manifest'' d = (Inr (), d1)"
    and read: "read_file (in_dir dir ''update-manifest.json'') d1 = (Inr body, d2)"
    and parsed: "(case ue_manifest e body of Inl err \<Rightarrow> io_fail (WrapError ''parse verified update manifest: '' err)
      | Inr m \<Rightarrow> if vm_ManifestVersion m \<noteq> 1
          then fail_text (''unsupported verified update manifest version '' @ int_str (vm_ManifestVersion m))
          else if vm_LatestVersion m = [] \<or> vm_ModuleSHA256 m = [] \<or> vm_ApkSHA256 m = [] \<or> vm_ChecksumsSHA256 m = []
          then fail_text ''verified update manifest is incomplete'' else io_return m) d2 = (Inr m, d')"
    unfolding read_verified_manifest_def Let_def io_bind_Inr io_error_Inr by auto
  have m: "ue_manifest e body = Inr m" and "d2 = d'"
    using parsed by (cases "ue_manifest e body"; auto simp: fail_text_def split: if_splits)+
  with read have read: "read_file (in_dir dir ''update-manifest.json'') d1 = (Inr body, d')" by simp
  have same: "same_tree d d1" using require_regular_Inr [OF regular] by blast
  show ?thesis using read_file_Inr [OF read] m same_tree_bytes [OF same] same_tree_trans [OF same] by simp
qed

text \<open>
  An update that verifies has a module and an application package that are regular files in one directory; the
  digest of each is that of a line of the checksum file there and that of the manifest, which also has the digest
  of the checksum file.
\<close>

theorem verified_update_sound:
  assumes "verify_downloaded_update e module apk d = (Inr u, d')"
  shows "\<exists>b a sums m body. let dir = path_dir module in
    path_dir apk = dir \<and> path_base module = ''module.zip'' \<and> path_base apk = ''panel.apk'' \<and>
    (\<exists>n. node_at d module = Some (RegularFile b n)) \<and> (\<exists>n. node_at d apk = Some (RegularFile a n)) \<and>
    file_bytes d (in_dir dir ''SHA256SUMS.txt'') = Some sums \<and>
    file_bytes d (in_dir dir ''update-manifest.json'') = Some body \<and> ue_manifest e body = Inr m \<and>
    equal_fold (ue_sha256 e b) (vm_ModuleSHA256 m) \<and> equal_fold (ue_sha256 e a) (vm_ApkSHA256 m) \<and>
    equal_fold (ue_sha256 e sums) (vm_ChecksumsSHA256 m) \<and>
    (\<forall>name. name \<in> set artifact_names \<longrightarrow> node_at d (resolved d (in_dir dir name)) \<noteq> None \<longrightarrow>
       listed_digest e d (split_char (char_of (10::nat)) (trim_space sums)) dir name) \<and>
    same_tree d d'"
proof -
  let ?dir = "path_dir module" and ?sums = "in_dir (path_dir module) ''SHA256SUMS.txt''"
  obtain d1 d2 d3 d4 d5 d6 d7 m where
    dirs: "path_dir apk = ?dir" "path_base module = ''module.zip''" "path_base apk = ''panel.apk''"
    and module: "require_regular_artifact module ''module.zip'' d = (Inr (), d1)"
    and apk: "require_regular_artifact apk ''panel.apk'' d1 = (Inr (), d2)"
    and sums: "require_regular_artifact ?sums ''SHA256SUMS.txt'' d2 = (Inr (), d3)"
    and checked: "verify_checksums e ?sums ?dir d3 = (Inr (), d4)"
    and manifest: "read_verified_manifest e ?dir d4 = (Inr m, d5)"
    and digests: "require_digest e module ''module.zip'' (vm_ModuleSHA256 m) d5 = (Inr (), d6)"
      "require_digest e apk ''panel.apk'' (vm_ApkSHA256 m) d6 = (Inr (), d7)"
      "require_digest e ?sums ''SHA256SUMS.txt'' (vm_ChecksumsSHA256 m) d7 = (Inr (), d')"
    using assms by (auto simp: verify_downloaded_update_def Let_def)
  have t1: "same_tree d d1" using require_regular_Inr [OF module] by blast
  have t2: "same_tree d d2" using require_regular_Inr [OF apk] same_tree_trans [OF t1] by blast
  have t3: "same_tree d d3" using require_regular_Inr [OF sums] same_tree_trans [OF t2] by blast
  obtain b n where b: "node_at d module = Some (RegularFile b n)" using require_regular_Inr [OF module] by blast
  obtain a n' where a: "node_at d apk = Some (RegularFile a n')"
    using require_regular_Inr [OF apk] same_tree_node [OF t1] by metis
  obtain s where s: "file_bytes d ?sums = Some s"
    using require_regular_Inr [OF sums] same_tree_bytes [OF t2] by metis
  have bytes: "file_bytes d module = Some b" "file_bytes d apk = Some a" using a b by (simp_all add: file_bytes_def)
  have resolved3: "resolved d3 p = resolved d p" for p
    using follow_same [OF same_tree_node [OF t3]] by (simp add: resolved_def)
  have listed: "listed_digest e d (split_char (char_of (10::nat)) (trim_space s)) ?dir name"
    if "name \<in> set artifact_names" "node_at d (resolved d (in_dir ?dir name)) \<noteq> None" for name
    using verify_checksums_Inr [OF checked that(1)] that(2) same_tree_node [OF t3] same_tree_bytes [OF t3] s
      listed_digest_same [OF t3] by (simp add: resolved3)
  have "same_tree d3 d4"
    using checked by (auto simp: verify_checksums_def go_errors_def Let_def dest!: read_file_Inr required_artifacts_Inr check_lines_Inr
        intro: same_tree_trans)
  then have t4: "same_tree d d4" by (rule same_tree_trans [OF t3])
  obtain body where body: "file_bytes d (in_dir ?dir ''update-manifest.json'') = Some body" "ue_manifest e body = Inr m"
    and t5: "same_tree d d5"
    using read_manifest_Inr [OF manifest] same_tree_bytes [OF t4] same_tree_trans [OF t4] by metis
  have m: "equal_fold (ue_sha256 e b) (vm_ModuleSHA256 m)" and t6: "same_tree d d6"
    using require_digest_Inr [OF digests(1)] same_tree_bytes [OF t5] same_tree_trans [OF t5] bytes(1) by auto
  have ap: "equal_fold (ue_sha256 e a) (vm_ApkSHA256 m)" and t7: "same_tree d d7"
    using require_digest_Inr [OF digests(2)] same_tree_bytes [OF t6] same_tree_trans [OF t6] bytes(2) by auto
  have sm: "equal_fold (ue_sha256 e s) (vm_ChecksumsSHA256 m)" and t8: "same_tree d d'"
    using require_digest_Inr [OF digests(3)] same_tree_bytes [OF t7] same_tree_trans [OF t7] s by auto
  show ?thesis
    unfolding Let_def using dirs a b s body m ap sm listed t8 by blast
qed

section \<open>An update to try\<close>

definition demo_digest :: string where "demo_digest = replicate 64 (CHR ''a'')"

definition verified_demo :: device where
  "verified_demo = \<lparr>dv_nodes = [(''/u/module.zip'', RegularFile ''m'' 384), (''/u/panel.apk'', RegularFile ''p'' 384),
       (''/u/SHA256SUMS.txt'', RegularFile (demo_digest @ ''  x-module.zip'' @ [char_of (10::nat)] @ demo_digest @ ''  panel.apk'') 384),
       (''/u/update-manifest.json'', RegularFile ''{}'' 416)],
     dv_calls = 0, dv_fault = Map.empty, dv_cut = (\<lambda>_. 0), dv_random = (\<lambda>_. []), dv_clock = (\<lambda>_. 0)\<rparr>"

definition verified_env :: "unit update_env" where
  "verified_env = \<lparr>ue_ctx = Map.empty, ue_latest_release = io_fail (ErrorString []), ue_get = (\<lambda>_. io_fail (ErrorString [])),
     ue_sha256 = (\<lambda>_. demo_digest), ue_manifest_text = (\<lambda>_. []),
     ue_manifest = (\<lambda>_. Inr \<lparr>vm_ManifestVersion = 1, vm_CurrentVersion = ''v1'', vm_LatestVersion = ''v2'',
        vm_ModuleSHA256 = demo_digest, vm_ApkSHA256 = demo_digest, vm_ChecksumsSHA256 = demo_digest, vm_VerifiedAt = 0\<rparr>),
     ue_check_text = (\<lambda>_. []), ue_check = (\<lambda>_. Inl (ErrorString [])), ue_range = (\<lambda>xs. xs),
     ue_run = (\<lambda>_ _ d. (CommandOk [], d))\<rparr>"

lemma verified_demo_passes: "fst (verify_downloaded_update verified_env ''/u/module.zip'' ''/u/panel.apk'' verified_demo) = Inr ()"
  by code_simp

lemma verified_update_sound_witness:
  "\<exists>b n. node_at verified_demo ''/u/module.zip'' = Some (RegularFile b n) \<and> path_dir ''/u/panel.apk'' = path_dir ''/u/module.zip''"
proof -
  obtain d' where "verify_downloaded_update verified_env ''/u/module.zip'' ''/u/panel.apk'' verified_demo = (Inr (), d')"
    using verified_demo_passes by (metis prod.collapse)
  from verified_update_sound [OF this] show ?thesis unfolding Let_def by blast
qed

end
