(* ===== verification/UpdateArchive.thy ===== *)
theory UpdateArchive
  imports GoText DeviceFiles
begin

text \<open>
  Unpacking a module archive (\<^verbatim>\<open>extractZip\<close> in \<^verbatim>\<open>updater/installer.go\<close>).  The archive reader is a library: an
  archive is the list of its entries, and opening an entry gives an error or the bytes that its reader returns and
  the error that ends them, if it is not the end of the file.
\<close>

section \<open>Rooted paths\<close>

text \<open>
  Rooted paths that \<^verbatim>\<open>filepath.Clean\<close> leaves alone: plain names after slashes.  Cleaning gives such a path, and the
  directory of one is one again.
\<close>

definition rooted_path :: "string list \<Rightarrow> string" where
  "rooted_path es = ''/'' @ str_join ''/'' es"

lemma split_slash_acc: "split_slash w s = (w @ hd (split_slash [] s)) # tl (split_slash [] s)"
proof (induction s arbitrary: w)
  case (Cons c s)
  have "split_slash [c] s = (c # hd (split_slash [] s)) # tl (split_slash [] s)" using Cons [of "[c]"] by simp
  then show ?case using Cons [of "w @ [c]"] by simp
qed simp

lemma split_slash_Cons: "split_slash [] (CHR ''/'' # s) = [] # split_slash [] s"
  by simp

lemma split_slash_append: "CHR ''/'' \<notin> set e \<Longrightarrow> split_slash w (e @ CHR ''/'' # s) = (w @ e) # split_slash [] s"
  by (induction e arbitrary: w) auto

lemma split_slash_join:
  "es \<noteq> [] \<Longrightarrow> list_all (\<lambda>e. CHR ''/'' \<notin> set e) es \<Longrightarrow> split_slash [] (str_join ''/'' es) = es"
proof (induction es)
  case (Cons e es)
  then show ?case by (cases es) (simp_all add: split_slash_plain split_slash_append)
qed simp

lemma split_slash_no_slash: "CHR ''/'' \<notin> set w \<Longrightarrow> e \<in> set (split_slash w s) \<Longrightarrow> CHR ''/'' \<notin> set e"
  by (induction w s rule: split_slash.induct) (auto split: if_splits)

lemma clean_steps_plain: "list_all plain_name es \<Longrightarrow> foldl (clean_step r) stack es = rev es @ stack"
  by (induction es arbitrary: stack) (auto simp: plain_name_def)

lemma clean_steps_rooted:
  "list_all plain_name stack \<Longrightarrow> \<forall>e\<in>set es. CHR ''/'' \<notin> set e \<Longrightarrow> list_all plain_name (foldl (clean_step True) stack es)"
proof (induction es arbitrary: stack)
  case (Cons e es)
  have "list_all plain_name (clean_step True stack e)"
    using Cons.prems by (cases stack) (auto simp: plain_name_def [of e])
  then show ?case using Cons by simp
qed simp

lemma path_clean_rooted:
  assumes "p \<noteq> []" "hd p = CHR ''/''"
  obtains es where "path_clean p = rooted_path es" "list_all plain_name es"
proof
  let ?es = "rev (foldl (clean_step True) [] (split_slash [] p))"
  show "path_clean p = rooted_path ?es" using assms by (simp add: path_clean_def rooted_path_def)
  show "list_all plain_name ?es"
    using clean_steps_rooted [of "[]" "split_slash [] p"] split_slash_no_slash [of "[]" _ p] by (simp add: list_all_iff)
qed

lemma path_clean_id [simp]: "list_all plain_name es \<Longrightarrow> path_clean (rooted_path es) = rooted_path es"
proof -
  assume plain: "list_all plain_name es"
  have steps: "foldl (clean_step True) [] (split_slash [] (str_join ''/'' es)) = rev es"
  proof (cases "es = []")
    case False
    have "list_all (\<lambda>e. CHR ''/'' \<notin> set e) es" using plain by (auto simp: list_all_iff plain_name_def)
    with False show ?thesis by (simp add: split_slash_join clean_steps_plain plain)
  qed simp
  show ?thesis by (simp add: path_clean_def rooted_path_def steps)
qed

lemma path_clean_slash: "list_all plain_name es \<Longrightarrow> path_clean (rooted_path es @ ''/'') = rooted_path es"
proof (cases "es = []")
  case True
  then show ?thesis by (simp add: path_clean_def rooted_path_def)
next
  case False
  assume plain: "list_all plain_name es"
  have "split_slash w (s @ ''/'') = split_slash w s @ [[]]" for w s
    by (induction w s rule: split_slash.induct) auto
  moreover have "list_all (\<lambda>e. CHR ''/'' \<notin> set e) es" using plain by (auto simp: list_all_iff plain_name_def)
  ultimately have "split_slash [] (str_join ''/'' es @ ''/'') = es @ [[]]" using False by (simp add: split_slash_join)
  then show ?thesis by (simp add: path_clean_def rooted_path_def clean_steps_plain plain)
qed

lemma str_join_snoc: "str_join sep (xs @ [x]) = (if xs = [] then x else str_join sep xs @ sep @ x)"
  by (induction sep xs rule: str_join.induct) auto

lemma path_dir_rooted:
  assumes "list_all plain_name (es @ [e])"
  shows "path_dir (rooted_path (es @ [e])) = rooted_path es"
proof -
  have plain: "list_all plain_name es" "CHR ''/'' \<notin> set e" using assms by (simp_all add: plain_name_def)
  have "rooted_path (es @ [e]) = (if es = [] then [] else rooted_path es) @ CHR ''/'' # e"
    by (simp add: rooted_path_def str_join_snoc)
  then have "split_last (CHR ''/'') (rooted_path (es @ [e])) = Some (if es = [] then [] else rooted_path es, e)"
    using plain(2) split_last_append by metis
  then show ?thesis
    using path_clean_slash [OF plain(1)] by (simp add: path_dir_def) (simp add: path_clean_def rooted_path_def)
qed

text \<open>The directory of a clean path under another one is that one or lies under it.\<close>

lemma path_dir_under:
  assumes "list_all plain_name es" "prefix (dir @ ''/'') (rooted_path es)" "dir \<noteq> []"
  shows "path_dir (rooted_path es) = dir \<or> prefix (dir @ ''/'') (path_dir (rooted_path es))"
proof -
  obtain rest where rest: "rooted_path es = dir @ CHR ''/'' # rest" using assms(2) by (auto elim: prefixE)
  have "es \<noteq> []" using rest assms(3) by (cases dir) (auto simp: rooted_path_def)
  then obtain es' e where es: "es = es' @ [e]" by (metis rev_exhaust)
  have "es' \<noteq> []"
  proof
    assume "es' = []"
    then have "rooted_path es = CHR ''/'' # e" "CHR ''/'' \<notin> set e"
      using assms(1) by (simp_all add: es rooted_path_def plain_name_def)
    then show False using rest assms(3) by (cases dir) auto
  qed
  then have whole: "rooted_path es = rooted_path es' @ CHR ''/'' # e" "CHR ''/'' \<notin> set e"
    using assms(1) by (simp_all add: es rooted_path_def str_join_snoc plain_name_def)
  have "rooted_path es' @ CHR ''/'' # e = dir @ CHR ''/'' # rest" using whole(1) rest by simp
  then have "rooted_path es' = dir \<or> prefix (dir @ ''/'') (rooted_path es')"
  proof (elim append_eq_append_conv2 [THEN iffD1, elim_format] exE disjE conjE)
    fix us
    assume "rooted_path es' = dir @ us" "us @ CHR ''/'' # e = CHR ''/'' # rest"
    then show ?thesis by (cases us) auto
  next
    fix us
    assume "rooted_path es' @ us = dir" "CHR ''/'' # e = us @ CHR ''/'' # rest"
    then show ?thesis using whole(2) by (cases us) auto
  qed
  then show ?thesis using path_dir_rooted assms(1) by (simp add: es)
qed

record zip_entry =
  ze_Name :: string
  ze_IsDir :: bool
  ze_Mode :: nat
  ze_UncompressedSize64 :: "64 word"
  ze_Open :: "fs_error + (string \<times> fs_error option)"

definition max_extracted_zip_bytes :: nat where "max_extracted_zip_bytes = 300 * 1024 * 1024"
definition max_extracted_zip_files :: nat where "max_extracted_zip_files = 1024"
definition max_extracted_path_depth :: nat where "max_extracted_path_depth = 32"

definition path_is_abs :: "string \<Rightarrow> bool" where
  "path_is_abs p \<longleftrightarrow> has_prefix p ''/''"

definition unsafe_zip_name :: "string \<Rightarrow> bool" where
  "unsafe_zip_name clean \<longleftrightarrow>
     clean = ''.'' \<or> path_is_abs clean \<or> has_prefix clean ''../'' \<or> str_contains clean ''/../''"

definition zip_path_depth :: "string \<Rightarrow> nat" where
  "zip_path_depth clean = length (split_char (CHR ''/'') (trim_set ''/'' clean))"

text \<open>\<^verbatim>\<open>io.Copy\<close> from a \<^verbatim>\<open>LimitReader\<close>: the reader's own error is not seen once the limit is reached.\<close>

definition limited_read :: "int \<Rightarrow> string \<times> fs_error option \<Rightarrow> string \<times> fs_error option" where
  "limited_read limit r =
     (if int (length (fst r)) < limit then r else (take (nat limit) (fst r), None))"

definition zip_size_error :: go_error where
  "zip_size_error = ErrorString (''zip uncompressed size exceeds '' @ nat_str max_extracted_zip_bytes @ '' bytes'')"

definition zip_path_error :: "string \<Rightarrow> go_error" where
  "zip_path_error name = ErrorString (''zip contains unsafe path '' @ go_quote name)"

text \<open>The bytes of one file: \<^verbatim>\<open>extracted\<close> counts the declared sizes in 64 bits, this file included.\<close>

definition extract_file :: "string \<Rightarrow> 64 word \<Rightarrow> zip_entry \<Rightarrow> ('w, unit) update" where
  "extract_file target extracted f =
     io_bind (go_errors (make_dir_all (path_dir target) 493)) (\<lambda>_.
     io_bind (go_errors (create_file target (ze_Mode f))) (\<lambda>_.
     case ze_Open f of
       Inl e \<Rightarrow> io_fail (go_fs_error e)
     | Inr r \<Rightarrow>
         (let remaining = sint (of_nat max_extracted_zip_bytes - (extracted - ze_UncompressedSize64 f));
              (bytes, err) = limited_read (sint (word_of_int (remaining + 1) :: 64 word)) r
          in io_bind (go_errors (write_bytes target bytes)) (\<lambda>_.
             case err of
               Some e \<Rightarrow> io_fail (go_fs_error e)
             | None \<Rightarrow> io_check (int (length bytes) \<le> remaining) zip_size_error))))"

fun extract_entries :: "string \<Rightarrow> zip_entry list \<Rightarrow> 64 word \<Rightarrow> nat \<Rightarrow> ('w, unit) update" where
  "extract_entries dest [] extracted files d = (Inr (), d)"
| "extract_entries dest (f # fs) extracted files d =
     (let clean = path_clean (ze_Name f); target = path_join [dest, ze_Name f];
          extracted1 = extracted + ze_UncompressedSize64 f
      in if unsafe_zip_name clean then (Inl (zip_path_error (ze_Name f)), d)
         else if max_extracted_path_depth < zip_path_depth clean
         then (Inl (ErrorString (''zip path '' @ go_quote (ze_Name f) @ '' exceeds maximum depth '' @
                                  nat_str max_extracted_path_depth)), d)
         else if \<not> has_prefix (path_clean target) (path_clean dest @ ''/'') then (Inl (zip_path_error (ze_Name f)), d)
         else if ze_IsDir f
         then io_bind (io_try (make_dir_all target 493)) (\<lambda>_. extract_entries dest fs extracted files) d
         else if max_extracted_zip_files < Suc files
         then (Inl (ErrorString (''zip file count exceeds '' @ nat_str max_extracted_zip_files)), d)
         else if of_nat max_extracted_zip_bytes < extracted1 then (Inl zip_size_error, d)
         else io_bind (extract_file target extracted1 f) (\<lambda>_. extract_entries dest fs extracted1 (Suc files)) d)"

definition extract_zip :: "fs_error + zip_entry list \<Rightarrow> string \<Rightarrow> ('w, unit) update" where
  "extract_zip archive dest =
     (case archive of Inl e \<Rightarrow> io_fail (go_fs_error e) | Inr entries \<Rightarrow> extract_entries dest entries 0 0)"

section \<open>Nothing outside the destination changes\<close>

text \<open>A directory that exists, with those above it, and no symbolic link beneath it.\<close>

definition staging_tree :: "string \<Rightarrow> 'w device_scheme \<Rightarrow> bool" where
  "staging_tree dir d \<longleftrightarrow>
     (\<forall>q\<in>set (path_prefixes [] dir). \<exists>m. node_at d q = Some (Folder m)) \<and>
     (\<forall>p target. beneath dir p \<longrightarrow> node_at d p \<noteq> Some (SymbolicLink target))"

definition confined :: "string \<Rightarrow> 'w device_scheme \<Rightarrow> 'w device_scheme \<Rightarrow> bool" where
  "confined dir d d' \<longleftrightarrow> (\<forall>p. \<not> beneath dir p \<longrightarrow> node_at d' p = node_at d p) \<and> staging_tree dir d'"

lemma confined_refl [simp]: "confined dir d d \<longleftrightarrow> staging_tree dir d"
  by (simp add: confined_def)

lemma confined_trans: "confined dir d d1 \<Longrightarrow> confined dir d1 d2 \<Longrightarrow> confined dir d d2"
  by (simp add: confined_def)

lemma staging_calls [simp]: "staging_tree dir (d\<lparr>dv_calls := n\<rparr>) = staging_tree dir d"
  by (simp add: staging_tree_def)

lemma confined_calls [simp]: "confined dir d (d'\<lparr>dv_calls := n\<rparr>) = confined dir d d'"
  by (simp add: confined_def)

lemma confined_staging: "confined dir d d' \<Longrightarrow> staging_tree dir d'"
  by (simp add: confined_def)

lemma path_prefixes_prefix: "q \<in> set (path_prefixes acc s) \<Longrightarrow> prefix q (acc @ s)"
  by (induction acc s rule: path_prefixes.induct) (auto split: if_splits)

lemma beneath_shorter: "beneath dir p \<Longrightarrow> length dir < length p"
  by (auto simp: beneath_def dest: prefix_length_le)

lemma prefixes_not_beneath: "q \<in> set (path_prefixes [] dir) \<Longrightarrow> \<not> beneath dir q"
  using path_prefixes_prefix [of q "[]" dir] beneath_shorter [of dir q] by (auto dest: prefix_length_le)

lemma confined_put:
  assumes "beneath dir p" "staging_tree dir d" "\<And>target. n \<noteq> SymbolicLink target"
  shows "confined dir d (put_node p n d)"
  using assms prefixes_not_beneath [of p dir] by (auto simp: confined_def staging_tree_def)

lemma resolved_beneath: "staging_tree dir d \<Longrightarrow> beneath dir p \<Longrightarrow> resolved d p = p"
  by (auto simp: resolved_def staging_tree_def intro!: follow_plain)

text \<open>A computation that changes nothing but what is beneath a directory.\<close>

definition stays_beneath :: "string \<Rightarrow> ('w device_scheme \<Rightarrow> ('e + 'a) \<times> 'w device_scheme) \<Rightarrow> bool" where
  "stays_beneath dir m \<longleftrightarrow> (\<forall>d. staging_tree dir d \<longrightarrow> confined dir d (snd (m d)))"

lemma stays_beneathD: "stays_beneath dir m \<Longrightarrow> staging_tree dir d \<Longrightarrow> m d = (r, d') \<Longrightarrow> confined dir d d'"
  by (force simp: stays_beneath_def)

lemma stays_bind:
  assumes "stays_beneath dir m" "\<And>x. stays_beneath dir (f x)"
  shows "stays_beneath dir (io_bind m f)"
  unfolding stays_beneath_def
proof (intro allI impI)
  fix d :: "'a device_scheme"
  assume start: "staging_tree dir d"
  show "confined dir d (snd (io_bind m f d))"
  proof (cases "m d")
    case (Pair r d1)
    then have first: "confined dir d d1" using stays_beneathD [OF assms(1) start] by blast
    show ?thesis
    proof (cases r)
      case (Inl e)
      then show ?thesis using first Pair by (simp add: io_bind_def)
    next
      case (Inr x)
      have "confined dir d1 (snd (f x d1))"
        using assms(2) [of x] confined_staging [OF first] by (simp add: stays_beneath_def)
      then show ?thesis using Pair Inr confined_trans [OF first] by (simp add: io_bind_def)
    qed
  qed
qed

lemma stays_pure [simp]:
  "stays_beneath dir (io_return x)" "stays_beneath dir (io_fail e)" "stays_beneath dir (io_check ok e)"
  by (simp_all add: stays_beneath_def io_return_def io_fail_def io_check_def)

lemma snd_io_error [simp]: "snd (io_error f m d) = snd (m d)"
  by (simp add: io_error_def split: prod.split sum.split)

lemma stays_error [simp]: "stays_beneath dir (io_error f m) = stays_beneath dir m"
  by (simp add: stays_beneath_def)

lemma stays_try [simp]: "stays_beneath dir (io_try m) = stays_beneath dir m"
  unfolding stays_beneath_def io_try_def by (simp add: split_beta)

lemma stays_go_errors [simp]: "stays_beneath dir (go_errors m) = stays_beneath dir m"
  by (simp add: go_errors_def)

lemma stays_call:
  assumes "\<And>d. staging_tree dir d \<Longrightarrow> confined dir d (snd (f d))"
    and "\<And>d. staging_tree dir d \<Longrightarrow> confined dir d (broken d)"
  shows "stays_beneath dir (io_call broken f)"
proof -
  have "confined dir d (snd (io_call broken f d))" if "staging_tree dir d" for d
  proof -
    let ?d = "d\<lparr>dv_calls := Suc (dv_calls d)\<rparr>"
    have start: "staging_tree dir ?d" "confined dir d ?d" using that by simp_all
    show ?thesis
      using confined_trans [OF start(2) assms(1) [OF start(1)]] confined_trans [OF start(2) assms(2) [OF start(1)]]
      by (simp add: io_call_def Let_def split: option.split)
  qed
  then show ?thesis by (simp add: stays_beneath_def)
qed

lemma create_stays: "beneath dir p \<Longrightarrow> stays_beneath dir (create_file p mode)"
  unfolding create_file_def
  by (rule stays_call) (auto simp: Let_def resolved_beneath intro: confined_put split: option.split file_node.split)

lemma append_confined: "beneath dir p \<Longrightarrow> staging_tree dir d \<Longrightarrow> confined dir d (append_bytes p bytes d)"
  by (auto simp: append_bytes_def resolved_beneath intro: confined_put split: option.split file_node.split)

lemma write_stays: "beneath dir p \<Longrightarrow> stays_beneath dir (write_bytes p bytes)"
  unfolding write_bytes_def by (rule stays_call) (simp_all add: append_confined)

text \<open>The directories on the way to a path beneath a directory are those of the directory or beneath it.\<close>

lemma path_prefixes_extend: "q \<in> set (path_prefixes acc s) \<Longrightarrow> prefix acc q"
  by (induction acc s rule: path_prefixes.induct) (auto split: if_splits dest: append_prefixD)

lemma path_prefixes_append:
  "q \<in> set (path_prefixes acc (s @ CHR ''/'' # t)) \<Longrightarrow> acc @ s \<noteq> [] \<Longrightarrow>
     q \<in> set (path_prefixes acc s) \<or> prefix (acc @ s @ ''/'') q"
proof (induction acc s rule: path_prefixes.induct)
  case (1 acc)
  then show ?case by (auto dest: path_prefixes_extend)
next
  case (2 acc c s)
  then show ?case by (auto split: if_splits)
qed

lemma make_folders_confined:
  assumes "\<forall>q\<in>set ps. q \<in> set (path_prefixes [] dir) \<or> beneath dir q" "staging_tree dir d"
  shows "confined dir d (snd (make_folders mode ps d))"
  using assms
proof (induction ps arbitrary: d)
  case (Cons p ps)
  show ?case
  proof (cases "beneath dir p")
    case True
    then have plain: "resolved d p = p" using Cons.prems(2) by (simp add: resolved_beneath)
    have made: "confined dir d (put_node p (Folder mode) d)" using True Cons.prems(2) by (simp add: confined_put)
    show ?thesis
      using Cons plain made confined_trans [OF made Cons.IH] confined_staging [OF made]
      by (auto split: option.split file_node.split)
  next
    case False
    then obtain m where "node_at d p = Some (Folder m)" using Cons.prems by (auto simp: staging_tree_def)
    then show ?thesis using Cons by simp
  qed
qed simp

lemma make_dir_stays:
  assumes "p = dir \<or> beneath dir p" "dir \<noteq> []"
  shows "stays_beneath dir (make_dir_all p mode)"
proof -
  have "q \<in> set (path_prefixes [] dir) \<or> beneath dir q" if "q \<in> set (path_prefixes [] p)" for q
    using assms that path_prefixes_append [of q "[]" dir] by (auto simp: beneath_def elim!: prefixE)
  then show ?thesis
    unfolding make_dir_all_def by (intro stays_call) (simp_all add: make_folders_confined)
qed

lemma extract_file_stays:
  assumes "beneath dest (rooted_path es)" "list_all plain_name es" "dest \<noteq> []"
  shows "stays_beneath dest (extract_file (rooted_path es) extracted f)"
proof -
  have "path_dir (rooted_path es) = dest \<or> beneath dest (path_dir (rooted_path es))"
    using path_dir_under [OF assms(2) _ assms(3)] assms(1) by (simp add: beneath_def)
  then have dirs: "stays_beneath dest (make_dir_all (path_dir (rooted_path es)) 493)"
    using assms(3) by (rule make_dir_stays)
  show ?thesis
    unfolding extract_file_def Let_def
    by (auto intro!: stays_bind simp: dirs create_stays [OF assms(1)] write_stays [OF assms(1)] split: sum.split option.split prod.split)
qed

lemma rooted_target:
  assumes "has_prefix dest ''/''"
  obtains es where "path_join [dest, name] = rooted_path es" "list_all plain_name es"
proof -
  have "dest \<noteq> []" "hd dest = CHR ''/''" using assms by (auto simp: has_prefix_def elim: prefixE)
  then have join: "path_join [dest, name] = path_clean (dest @ ''/'' @ name)" "hd (dest @ ''/'' @ name) = CHR ''/''"
    by (simp_all add: path_join_def)
  obtain es where "path_clean (dest @ ''/'' @ name) = rooted_path es" "list_all plain_name es"
    using path_clean_rooted [OF _ join(2)] by auto
  then show thesis using that join(1) by simp
qed

lemma extract_entries_confined:
  fixes d :: "'w device_scheme"
  assumes "has_prefix dest ''/''" "path_clean dest = dest" "staging_tree dest d"
  shows "confined dest d (snd (extract_entries dest entries extracted files d))"
  using assms(3)
proof (induction entries arbitrary: extracted files d)
  case (Cons f entries)
  have ne: "dest \<noteq> []" using assms(1) by (auto simp: has_prefix_def)
  let ?target = "path_join [dest, ze_Name f]"
  obtain es where es: "?target = rooted_path es" "list_all plain_name es" using rooted_target [OF assms(1)] by metis
  have rest: "stays_beneath dest (\<lambda>d :: 'w device_scheme. extract_entries dest entries n k d)" for n k
    using Cons.IH by (simp add: stays_beneath_def)
  show ?case
  proof (cases "beneath dest ?target")
    case True
    have "stays_beneath dest (io_bind (io_try (make_dir_all ?target 493)) (\<lambda>_ (d :: 'w device_scheme). extract_entries dest entries n k d))" for n k
      using make_dir_stays [of ?target] True ne by (intro stays_bind) (auto simp: rest)
    moreover have "stays_beneath dest (io_bind (extract_file ?target m f) (\<lambda>_ (d :: 'w device_scheme). extract_entries dest entries n k d))" for m n k
      using extract_file_stays [OF _ es(2) ne] True es(1) by (intro stays_bind) (auto simp: rest)
    ultimately show ?thesis
      using Cons.prems by (simp add: Let_def stays_beneath_def)
  next
    case False
    then have "\<not> has_prefix (path_clean ?target) (path_clean dest @ ''/'')"
      by (simp add: es assms(2) has_prefix_def beneath_def)
    then show ?thesis using Cons.prems by (simp add: Let_def)
  qed
qed simp

text \<open>
  Unpacking an archive, whatever its entries are called and whichever calls fail, changes nothing outside of the
  directory that it is unpacked into.
\<close>

theorem extraction_confined:
  assumes "has_prefix dest ''/''" "path_clean dest = dest" "staging_tree dest d" "\<not> beneath dest p"
  shows "node_at (snd (extract_zip archive dest d)) p = node_at d p"
proof (cases archive)
  case (Inl e)
  then show ?thesis by (simp add: extract_zip_def io_fail_def)
next
  case (Inr entries)
  then show ?thesis
    using extract_entries_confined [OF assms(1-3), of entries 0 0] assms(4) by (simp add: extract_zip_def confined_def)
qed

definition staging_demo :: "nat \<Rightarrow> device" where
  "staging_demo k = \<lparr>dv_nodes = [(''/d'', Folder 493), (''/d/s'', Folder 448), (''/d/keep'', RegularFile ''old'' 420)], dv_calls = 0,
     dv_fault = (\<lambda>_. None), dv_cut = (\<lambda>_. k), dv_random = (\<lambda>_. ''1''), dv_clock = (\<lambda>_. 0)\<rparr>"

lemma staging_demo_tree: "staging_tree ''/d/s'' (staging_demo k)"
proof -
  have "path_prefixes [] ''/d/s'' = [''/d'', ''/d/s'']" by code_simp
  then show ?thesis by (auto simp: staging_tree_def staging_demo_def node_at_def beneath_def)
qed

definition slip_entry :: zip_entry where
  "slip_entry = \<lparr>ze_Name = ''x/../../keep'', ze_IsDir = False, ze_Mode = 420, ze_UncompressedSize64 = 3,
     ze_Open = Inr (''new'', None)\<rparr>"

lemma extraction_confined_witness:
  "node_at (snd (extract_zip (Inr [slip_entry]) ''/d/s'' (staging_demo 0))) ''/d/keep'' = Some (RegularFile ''old'' 420)"
proof -
  have outside: "\<not> beneath ''/d/s'' ''/d/keep''" "has_prefix ''/d/s'' ''/''" "path_clean ''/d/s'' = ''/d/s''" by code_simp+
  show ?thesis
    using extraction_confined [OF outside(2,3) staging_demo_tree outside(1)] by (simp add: staging_demo_def node_at_def)
qed

section \<open>The size of what is unpacked\<close>

definition zip_content :: "zip_entry \<Rightarrow> string" where
  "zip_content f = (case ze_Open f of Inl e \<Rightarrow> [] | Inr (bytes, err) \<Rightarrow> bytes)"

definition zip_files :: "zip_entry list \<Rightarrow> zip_entry list" where
  "zip_files entries = filter (\<lambda>f. \<not> ze_IsDir f) entries"

text \<open>\<^verbatim>\<open>archive/zip\<close>: a reader that ends without an error has returned as many bytes as the entry declares.\<close>

definition sizes_checked :: "zip_entry list \<Rightarrow> bool" where
  "sizes_checked entries \<longleftrightarrow>
     list_all (\<lambda>f. case ze_Open f of Inr (bytes, None) \<Rightarrow> length bytes = unat (ze_UncompressedSize64 f) | _ \<Rightarrow> True) entries"

lemma max_bytes_word: "unat (of_nat max_extracted_zip_bytes :: 64 word) = max_extracted_zip_bytes"
  by (simp add: max_extracted_zip_bytes_def)

lemma remaining_bytes:
  assumes "unat extracted \<le> max_extracted_zip_bytes"
  shows "sint (of_nat max_extracted_zip_bytes - extracted :: 64 word) = int (max_extracted_zip_bytes - unat extracted)"
    and "sint (word_of_int (int (max_extracted_zip_bytes - unat extracted) + 1) :: 64 word) =
      int (max_extracted_zip_bytes - unat extracted) + 1"
proof -
  have small: "max_extracted_zip_bytes < 2 ^ 62" by (simp add: max_extracted_zip_bytes_def)
  have sint: "sint (of_nat n :: 64 word) = int n" if "n < 2 ^ 63" for n
  proof -
    have "sint (word_of_int (int n) :: 64 word) = int n"
      using that by (subst sint_sbintrunc') (simp add: signed_take_bit_int_eq_self)
    then show ?thesis by simp
  qed
  have "extracted \<le> of_nat max_extracted_zip_bytes" using assms by (simp add: word_le_nat_alt max_bytes_word)
  then have "unat (of_nat max_extracted_zip_bytes - extracted) = max_extracted_zip_bytes - unat extracted"
    by (simp add: unat_sub max_bytes_word)
  then have "of_nat max_extracted_zip_bytes - extracted = (of_nat (max_extracted_zip_bytes - unat extracted) :: 64 word)"
    by (metis of_nat_unat ucast_id)
  then show "sint (of_nat max_extracted_zip_bytes - extracted :: 64 word) = int (max_extracted_zip_bytes - unat extracted)"
    using sint [of "max_extracted_zip_bytes - unat extracted"] small by simp
  show "sint (word_of_int (int (max_extracted_zip_bytes - unat extracted) + 1) :: 64 word) =
      int (max_extracted_zip_bytes - unat extracted) + 1"
    using sint [of "Suc (max_extracted_zip_bytes - unat extracted)"] small by (simp add: add.commute)
qed

lemma extract_file_size:
  assumes "extract_file target (extracted + ze_UncompressedSize64 f) f d = (Inr (), d')"
    and "unat extracted \<le> max_extracted_zip_bytes"
  shows "\<exists>bytes. ze_Open f = Inr (bytes, None) \<and> length bytes \<le> max_extracted_zip_bytes - unat extracted"
proof -
  obtain r where r: "ze_Open f = Inr r"
    using assms(1) by (auto simp: extract_file_def split: sum.splits)
  define room where "room = max_extracted_zip_bytes - unat extracted"
  have ok: "snd (limited_read (int room + 1) r) = None \<and> length (fst (limited_read (int room + 1) r)) \<le> room"
    using assms(1) remaining_bytes [OF assms(2)]
    by (auto simp: extract_file_def r Let_def room_def [symmetric] split: prod.splits option.splits)
  have "int (length (fst r)) < int room + 1"
  proof (rule ccontr)
    assume "\<not> int (length (fst r)) < int room + 1"
    then show False using ok by (simp add: limited_read_def)
  qed
  then show ?thesis using ok r by (cases r) (simp add: limited_read_def room_def)
qed

lemma extract_entries_size:
  assumes "extract_entries dest entries extracted files d = (Inr (), d')" "sizes_checked entries"
    and "unat extracted \<le> max_extracted_zip_bytes" "files \<le> max_extracted_zip_files"
  shows "unat extracted + sum_list (map (length \<circ> zip_content) (zip_files entries)) \<le> max_extracted_zip_bytes \<and>
    files + length (zip_files entries) \<le> max_extracted_zip_files"
  using assms
proof (induction entries arbitrary: extracted files d)
  case Nil
  then show ?case by (simp add: zip_files_def)
next
  case (Cons f entries)
  show ?case
  proof (cases "ze_IsDir f")
    case True
    then obtain d1 where "extract_entries dest entries extracted files d1 = (Inr (), d')"
      using Cons.prems(1) by (auto simp: Let_def split: if_splits)
    then show ?thesis using Cons True by (simp add: zip_files_def sizes_checked_def)
  next
    case False
    let ?next = "extracted + ze_UncompressedSize64 f"
    obtain d1 where step: "extract_file (path_join [dest, ze_Name f]) ?next f d = (Inr (), d1)"
      and rest: "extract_entries dest entries ?next (Suc files) d1 = (Inr (), d')"
      and bounds: "\<not> max_extracted_zip_files < Suc files" "\<not> of_nat max_extracted_zip_bytes < ?next"
      using Cons.prems(1) False by (auto simp: Let_def split: if_splits)
    obtain bytes where bytes: "ze_Open f = Inr (bytes, None)" "length bytes \<le> max_extracted_zip_bytes - unat extracted"
      using extract_file_size [OF step Cons.prems(3)] by blast
    have size: "length bytes = unat (ze_UncompressedSize64 f)"
      using Cons.prems(2) bytes(1) by (simp add: sizes_checked_def)
    have small: "max_extracted_zip_bytes < 2 ^ 63" by (simp add: max_extracted_zip_bytes_def)
    have sum: "unat ?next = unat extracted + length bytes"
      using bytes(2) Cons.prems(3) small by (simp add: size unat_word_ariths)
    have "unat ?next + sum_list (map (length \<circ> zip_content) (zip_files entries)) \<le> max_extracted_zip_bytes \<and>
        Suc files + length (zip_files entries) \<le> max_extracted_zip_files"
      using Cons.prems(2-4) bounds(1) bytes(2) sum by (intro Cons.IH [OF rest]) (simp_all add: sizes_checked_def)
    moreover have "zip_content f = bytes" by (simp add: zip_content_def bytes(1))
    ultimately show ?thesis using False by (simp add: zip_files_def sum comp_def)
  qed
qed

text \<open>
  An archive that is unpacked without an error has at most 1024 files with at most 300 MiB in all, although the
  declared sizes are added up in 64 bits that may wrap.
\<close>

theorem extraction_bounded:
  assumes "extract_zip (Inr entries) dest d = (Inr (), d')" "sizes_checked entries"
  shows "sum_list (map (length \<circ> zip_content) (zip_files entries)) \<le> max_extracted_zip_bytes \<and>
    length (zip_files entries) \<le> max_extracted_zip_files"
  using extract_entries_size [of dest entries 0 0 d d'] assms by (simp add: extract_zip_def)

definition plain_entry :: zip_entry where
  "plain_entry = slip_entry\<lparr>ze_Name := ''x''\<rparr>"

lemma extraction_bounded_witness:
  "sum_list (map (length \<circ> zip_content) (zip_files [plain_entry])) \<le> max_extracted_zip_bytes \<and>
    length (zip_files [plain_entry]) \<le> max_extracted_zip_files"
proof -
  have names: "path_clean ''x'' = ''x''" "path_join [''/d/s'', ''x''] = ''/d/s/x''" "path_clean ''/d/s/x'' = ''/d/s/x''"
      "path_dir ''/d/s/x'' = ''/d/s''" "path_clean ''/d/s'' = ''/d/s''" "\<not> unsafe_zip_name ''x''" "zip_path_depth ''x'' = 1"
      "path_prefixes [] ''/d/s'' = [''/d'', ''/d/s'']"
    by code_simp+
  let ?d = "staging_demo 0" and ?created = "put_node ''/d/s/x'' (RegularFile [] 420) ((staging_demo 0)\<lparr>dv_calls := 2\<rparr>)"
  have nodes: "node_at ?d ''/d'' = Some (Folder 493)" "node_at ?d ''/d/s'' = Some (Folder 448)" "node_at ?d ''/d/s/x'' = None"
      "dv_fault ?d = (\<lambda>_. None)" "dv_calls ?d = 0"
    by (simp_all add: staging_demo_def node_at_def)
  have put: "dv_fault (put_node p n e) = dv_fault e" "dv_calls (put_node p n e) = dv_calls e" for p n and e :: device
    by (simp_all add: put_node_def)
  have dirs: "make_dir_all ''/d/s'' 493 ?d = (Inr (), ?d\<lparr>dv_calls := Suc 0\<rparr>)"
    by (simp add: make_dir_all_def io_call_def names nodes)
  have create: "create_file ''/d/s/x'' 420 (?d\<lparr>dv_calls := Suc 0\<rparr>) = (Inr (), ?created)"
    by (simp add: create_file_def io_call_def nodes names is_folder_def numeral_2_eq_2)
  obtain w where "write_bytes ''/d/s/x'' ''new'' ?created = (Inr (), w)"
    by (simp add: write_bytes_def io_call_def put nodes)
  moreover have "sint (of_nat max_extracted_zip_bytes :: 64 word) = int max_extracted_zip_bytes"
      "sint (word_of_int (int max_extracted_zip_bytes + 1) :: 64 word) = int max_extracted_zip_bytes + 1"
    using remaining_bytes [of 0] by simp_all
  moreover have "(3::nat) \<le> max_extracted_zip_bytes" "3 < max_extracted_zip_bytes + 1" by (simp_all add: max_extracted_zip_bytes_def)
  ultimately have "fst (extract_file ''/d/s/x'' (0 + 3) plain_entry ?d) = Inr ()"
    by (simp add: extract_file_def names io_bind_def go_errors_def io_error_def dirs create plain_entry_def slip_entry_def Let_def
        limited_read_def io_check_def)
  then obtain w2 where "extract_file ''/d/s/x'' (0 + 3) plain_entry ?d = (Inr (), w2)" by (metis prod.collapse)
  then have "fst (extract_zip (Inr [plain_entry]) ''/d/s'' (staging_demo 0)) = Inr ()"
    by (simp add: extract_zip_def Let_def plain_entry_def slip_entry_def names has_prefix_def max_extracted_path_depth_def
        max_extracted_zip_files_def max_extracted_zip_bytes_def io_bind_def)
  then obtain d' where d': "extract_zip (Inr [plain_entry]) ''/d/s'' (staging_demo 0) = (Inr (), d')" by (metis prod.collapse)
  show ?thesis by (rule extraction_bounded [OF d']) (simp add: sizes_checked_def plain_entry_def slip_entry_def)
qed

end
