(* ===== verification/UpdateInstaller.thy ===== *)
theory UpdateInstaller
  imports UpdateDownload UpdateArchive SharedSlice ModulePaths
begin

text \<open>
  Installing a module release without a reboot (\<^verbatim>\<open>InstallModuleUpdate\<close> in \<^verbatim>\<open>updater/installer.go\<close>): the canonical
  clean-up of the runtime, the backup of the binaries, their replacement, scripts, module files and permissions,
  the \<^verbatim>\<open>current\<close> link, the check of the new daemon and its launch, with the rollback of the binaries on every
  failure after the backup.  Starting a process and the self exit are hooks on the device.
\<close>

section \<open>Staging a release\<close>

text \<open>
  Staging a module release (\<^verbatim>\<open>updater/installer.go\<close>): unpacking the archive, finding the binaries of the device,
  validating the required files, and the versioned copy under \<^verbatim>\<open>releases\<close> with its manifest.
\<close>

record release_manifest =
  rm_Version :: string
  rm_InstalledAt :: gtime
  rm_Files :: "(string \<times> string) list"

record 'w install_env = "'w update_env" +
  ie_zip :: "string \<Rightarrow> fs_error + zip_entry list"
  ie_release_text :: "release_manifest \<Rightarrow> string"
  ie_goarch :: string
  ie_environ :: "string list"
  ie_profile_override :: string
  ie_dial :: "string \<Rightarrow> 'w device_scheme \<Rightarrow> bool \<times> 'w device_scheme"

definition open_zip :: "'w install_env \<Rightarrow> string \<Rightarrow> ('w, fs_error + zip_entry list) update" where
  "open_zip e p = io_bind (io_try (read_file p)) (\<lambda>r.
     io_return (case r of Inl err \<Rightarrow> Inl err | Inr bytes \<Rightarrow> ie_zip e bytes))"

definition unpack :: "'w install_env \<Rightarrow> string \<Rightarrow> string \<Rightarrow> ('w, unit) update" where
  "unpack e zip_path staging = io_bind (open_zip e zip_path) (\<lambda>archive. extract_zip archive staging)"

definition release_binaries :: "string list" where
  "release_binaries = [''sing-box'', ''xray'', ''daemon'', ''daemonctl'']"

section \<open>The binaries of the device\<close>

definition runtime_binary_arch :: "string \<Rightarrow> string" where
  "runtime_binary_arch goarch = (if goarch = ''arm64'' then ''arm64'' else if goarch = ''arm'' then ''armv7'' else goarch)"

definition binary_arch_candidates :: "string \<Rightarrow> string list" where
  "binary_arch_candidates arch =
     (if arch = ''arm64'' then [''arm64'', ''arm64-v8a'']
      else if arch = ''armv7'' then [''armv7'', ''armeabi-v7a'', ''arm''] else [arch])"

fun first_subdir :: "string \<Rightarrow> string list \<Rightarrow> ('w, string) update" where
  "first_subdir staging [] d = (Inr [], d)"
| "first_subdir staging (c # cs) d =
     io_bind (find_subdir staging [''binaries'', c]) (\<lambda>p. if p \<noteq> [] then io_return p else first_subdir staging cs) d"

definition staged_binary_dir :: "'w install_env \<Rightarrow> string \<Rightarrow> ('w, string) update" where
  "staged_binary_dir e staging =
     (let root = in_dir staging ''binaries''; arch = runtime_binary_arch (ie_goarch e)
      in io_bind (io_try (file_stat root)) (\<lambda>found.
         case found of
           Inl err \<Rightarrow> if is_not_exist err then io_return []
                      else io_fail (WrapError ''stat binaries dir: '' (go_fs_error err))
         | Inr n \<Rightarrow>
             if \<not> node_is_folder n then fail_text (root @ '' is not a directory'')
             else io_bind (first_subdir staging (binary_arch_candidates arch)) (\<lambda>p.
                  if p \<noteq> [] then io_return p
                  else fail_text (''module update does not contain binaries for '' @ arch))))"

section \<open>Validation\<close>

text \<open>The lines of \<^verbatim>\<open>module.prop\<close>: a later line replaces an earlier one.\<close>

definition prop_line :: "string \<Rightarrow> env \<Rightarrow> env" where
  "prop_line text props =
     (let line = trim_space text; key = takeWhile (\<lambda>c. c \<noteq> CHR ''='') line
      in if line = [] \<or> has_prefix line ''#'' \<or> CHR ''='' \<notin> set line then props
         else props(trim_space key \<mapsto> trim_space (drop (Suc (length key)) line)))"

definition parse_module_prop :: "string \<Rightarrow> env" where
  "parse_module_prop data = fold prop_line (split_char (char_of (10::nat)) data) Map.empty"

definition read_module_prop :: "string \<Rightarrow> ('w, env) update" where
  "read_module_prop p =
     io_bind (wrapping ''read module.prop: '' (read_file p)) (\<lambda>data. io_return (parse_module_prop data))"

definition validate_module_prop :: "string \<Rightarrow> ('w, unit) update" where
  "validate_module_prop p =
     io_bind (read_module_prop p) (\<lambda>props.
     io_bind (io_each (\<lambda>key. io_check (env_get props key \<noteq> []) (ErrorString (''module.prop missing required '' @ key)))
                [''id'', ''version'', ''versionCode'']) (\<lambda>_.
     io_check (env_get props ''id'' = ''rknnovpn'')
       (ErrorString (''module.prop has unexpected id '' @ go_quote (env_get props ''id'')))))"

definition required_node :: "string \<Rightarrow> string \<Rightarrow> string \<Rightarrow> string \<Rightarrow> ('w, file_node) update" where
  "required_node p missing_text stat_text dir_text =
     io_bind (io_error (\<lambda>err. if is_not_exist err then ErrorString missing_text else WrapError stat_text (go_fs_error err))
                (file_stat p)) (\<lambda>n.
     if node_is_folder n then fail_text dir_text else io_return n)"

definition required_binary :: "string \<Rightarrow> string \<Rightarrow> ('w, unit) update" where
  "required_binary dir name =
     io_bind (required_node (in_dir dir name) (''release bundle missing required binary '' @ name)
                (''stat staged binary '' @ name @ '': '') (''staged binary '' @ name @ '' is a directory'')) (\<lambda>n.
     io_check (case n of RegularFile b mode \<Rightarrow> executable_mode mode | _ \<Rightarrow> False)
       (ErrorString (''staged binary '' @ name @ '' is not executable'')))"

definition required_release_files :: "string list" where
  "required_release_files =
     [''OWNERSHIP.md'', ''module.prop'', ''service.sh'', ''post-fs-data.sh'', ''uninstall.sh'', ''customize.sh'',
      ''scripts/dns.sh'', ''scripts/iptables.sh'', ''scripts/privacy_guard.sh'', ''scripts/rescue_reset.sh'',
      ''scripts/routing.sh'', ''scripts/lib/rknnovpn_env.sh'', ''scripts/lib/rknnovpn_install.sh'',
      ''scripts/lib/rknnovpn_installer_flow.sh'', ''scripts/lib/rknnovpn_netstack.sh'',
      ''scripts/lib/rknnovpn_iptables_rules.sh'', ''defaults/config.json'']"

definition validate_module_staging :: "string \<Rightarrow> string \<Rightarrow> ('w, unit) update" where
  "validate_module_staging staging bin =
     (let dir = (if bin = [] then staging else bin)
      in io_bind (io_each (required_binary dir) release_binaries) (\<lambda>_.
         io_bind (io_each (\<lambda>p.
             io_bind (required_node (in_dir staging p) (''release bundle missing required file '' @ p)
                        (''stat staged file '' @ p @ '': '') (''staged file '' @ p @ '' is a directory'')) (\<lambda>_.
             io_return ())) required_release_files) (\<lambda>_.
         validate_module_prop (in_dir staging ''module.prop''))))"

text \<open>The staged release: the directory of its binaries and the properties of the module.\<close>

definition stage_release :: "'w install_env \<Rightarrow> string \<Rightarrow> string \<Rightarrow> string \<Rightarrow> ('w, string \<times> env) update" where
  "stage_release e zip_error zip_path staging =
     io_bind (io_error (WrapError zip_error) (unpack e zip_path staging)) (\<lambda>_.
     io_bind (staged_binary_dir e staging) (\<lambda>found.
     let bin = (if found = [] then staging else found)
     in io_bind (validate_module_staging staging bin) (\<lambda>_.
        io_bind (read_module_prop (in_dir staging ''module.prop'')) (\<lambda>props. io_return (bin, props)))))"

definition preflight_module_update :: "'w install_env \<Rightarrow> string \<Rightarrow> string \<Rightarrow> ('w, string \<times> string) update" where
  "preflight_module_update e zip_path data_dir =
     (let dir = (if data_dir = [] then default_module_dir else data_dir)
      in io_bind (wrapping ''create preflight staging dir: '' (make_temp (Folder 448) dir ''update-preflight-'')) (\<lambda>staging.
         io_finally
           (io_bind (stage_release e ''preflight extract zip: '' zip_path staging) (\<lambda>(bin, props).
            io_return (normalize_version_tag (env_get props ''version''), env_get props ''versionCode'')))
           (remove_tree staging)))"

section \<open>Versioned releases\<close>

definition release_rune :: "nat \<Rightarrow> bool" where
  "release_rune r \<longleftrightarrow>
     (97 \<le> r \<and> r \<le> 122) \<or> (65 \<le> r \<and> r \<le> 90) \<or> (48 \<le> r \<and> r \<le> 57) \<or> r = 45 \<or> r = 46 \<or> r = 95"

definition safe_release_dir_name :: "string \<Rightarrow> string" where
  "safe_release_dir_name version =
     trim_set ''._-'' (map (\<lambda>r. if release_rune r then char_of r else CHR ''_'') (runes version))"

text \<open>
  The first free name.  The loop of the code has no bound; it gets as many candidates as the tree has entries and one
  more, which are enough unless calls keep failing, and then running out stands for a loop that goes on.
\<close>

fun free_release :: "nat \<Rightarrow> nat \<Rightarrow> string \<Rightarrow> ('w, string) update" where
  "free_release 0 i base d = (Inl (ErrorString []), d)"
| "free_release (Suc n) i base d =
     (let candidate = (if i = 1 then base else base @ ''-'' @ nat_str i)
      in io_bind (io_try (file_stat candidate)) (\<lambda>found.
         if (case found of Inl err \<Rightarrow> is_not_exist err | Inr _ \<Rightarrow> False) then io_return candidate
         else free_release n (Suc i) base) d)"

definition next_release_dir :: "string \<Rightarrow> string \<Rightarrow> nat \<Rightarrow> ('w, string) update" where
  "next_release_dir root version fuel =
     (let base = safe_release_dir_name (normalize_version_tag version);
          name = (if base = [] \<or> base = ''v0.0.0'' then ''unknown'' else base)
      in free_release fuel 1 (in_dir root name))"

definition module_files :: "string list" where
  "module_files = [''OWNERSHIP.md'', ''module.prop'', ''service.sh'', ''post-fs-data.sh'', ''uninstall.sh'', ''customize.sh'',
     ''sepolicy.rule'']"

definition file_perm :: "string \<Rightarrow> nat" where
  "file_perm name = (if has_suffix name ''.sh'' then 493 else 420)"

definition copy_release_file :: "string \<Rightarrow> string \<Rightarrow> string \<Rightarrow> ('w, unit) update" where
  "copy_release_file staging dir name =
     io_bind (io_try (file_stat (in_dir staging name))) (\<lambda>found.
     case found of
       Inl err \<Rightarrow> if is_not_exist err \<and> name = ''sepolicy.rule'' then io_return ()
                  else io_fail (WrapError (''stat release module file '' @ name @ '': '') (go_fs_error err))
     | Inr _ \<Rightarrow> io_error (WrapError (''copy release module file '' @ name @ '': ''))
                  (copy_file (in_dir staging name) (in_dir dir name) (file_perm name)))"

definition staged_folder :: "string \<Rightarrow> ('w, bool) update" where
  "staged_folder p = io_bind (io_try (file_stat p)) (\<lambda>found.
     io_return (case found of Inr n \<Rightarrow> node_is_folder n | Inl _ \<Rightarrow> False))"

text \<open>The digests of the files of a release; the walk visits one file after the other.\<close>

fun release_digests :: "'w install_env \<Rightarrow> string \<Rightarrow> string list \<Rightarrow> ('w, (string \<times> string) list) update" where
  "release_digests e root [] d = (Inr [], d)"
| "release_digests e root (p # ps) d =
     io_bind (go_errors (file_lstat p)) (\<lambda>n.
     if node_is_folder n \<or> path_base p = ''install-manifest.json'' then release_digests e root ps
     else io_bind (io_bind (go_errors (read_file p)) (\<lambda>bytes. io_return (ue_sha256 e bytes))) (\<lambda>h.
          io_bind (release_digests e root ps) (\<lambda>rest. io_return ((relative_path root p, h) # rest)))) d"

definition write_release_manifest :: "'w install_env \<Rightarrow> string \<Rightarrow> string \<Rightarrow> ('w, unit) update" where
  "write_release_manifest e dir version =
     io_bind (io_error (WrapError ''build release manifest: '') (\<lambda>d. release_digests e dir (tree_paths d dir) d)) (\<lambda>digests.
     io_bind fresh_now (\<lambda>now.
     wrapping ''write release manifest: ''
       (write_file (in_dir dir ''install-manifest.json'')
          (ie_release_text e \<lparr>rm_Version = normalize_version_tag version, rm_InstalledAt = now, rm_Files = digests\<rparr>
             @ [char_of (10::nat)]) 416)))"

definition prepare_versioned_release ::
  "'w install_env \<Rightarrow> string \<Rightarrow> string \<Rightarrow> string \<Rightarrow> string \<Rightarrow> ('w, string) update" where
  "prepare_versioned_release e staging bin data_dir version =
     (let root = in_dir data_dir ''releases''
      in io_bind (wrapping ''mkdir releases: '' (make_dir_all root 488)) (\<lambda>_.
         io_bind (wrapping ''create release staging: '' (make_temp (Folder 448) root ''.staging-'')) (\<lambda>tmp.
         io_on_error
           (io_bind (wrapping ''mkdir release bin: '' (make_dir_all (in_dir tmp ''bin'') 488)) (\<lambda>_.
            io_bind (io_each (\<lambda>name. io_error (WrapError (''copy release binary '' @ name @ '': ''))
                       (copy_file (in_dir bin name) (in_dir (in_dir tmp ''bin'') name) 488)) release_binaries) (\<lambda>_.
            io_bind (wrapping ''mkdir release module: '' (make_dir_all (in_dir tmp ''module'') 493)) (\<lambda>_.
            io_bind (io_each (copy_release_file staging (in_dir tmp ''module'')) module_files) (\<lambda>_.
            io_bind (io_each (\<lambda>dir. io_bind (staged_folder (in_dir staging dir)) (\<lambda>there.
                       if there then io_error (WrapError (''copy release '' @ dir @ '': ''))
                                       (copy_dir (in_dir staging dir) (in_dir (in_dir tmp ''module'') dir)
                                          (if dir = ''scripts'' then 493 else 420))
                       else io_return ())) [''scripts'', ''defaults'']) (\<lambda>_.
            io_bind (\<lambda>d. next_release_dir root version (Suc (length (dv_nodes d))) d) (\<lambda>release.
            io_bind (wrapping ''publish release dir: '' (rename_path tmp release)) (\<lambda>_.
            io_bind (io_on_error (write_release_manifest e release version) (remove_tree release)) (\<lambda>_.
            io_return release)))))))))
           (remove_tree tmp))))"

record 'w launcher =
  la_spawn :: "string list \<Rightarrow> 'w device_scheme \<Rightarrow> go_error option \<times> 'w device_scheme"
  la_schedule_self_exit :: "'w device_scheme \<Rightarrow> 'w device_scheme"

section \<open>Commands\<close>

definition getenv :: "string list \<Rightarrow> string \<Rightarrow> string" where
  "getenv environ key =
     (case find (\<lambda>v. has_prefix v (key @ ''='')) environ of None \<Rightarrow> [] | Some v \<Rightarrow> drop (Suc (length key)) v)"

definition output_with_timeout :: "'w install_env \<Rightarrow> string list \<Rightarrow> string list \<Rightarrow> ('w, command_end) update" where
  "output_with_timeout e args env d = (case ue_run e args env d of (r, d1) \<Rightarrow> (Inr r, d1))"

definition exec_script_with_env :: "'w install_env \<Rightarrow> string \<Rightarrow> string \<Rightarrow> string list \<Rightarrow> ('w, unit) update" where
  "exec_script_with_env e script action env =
     io_bind (io_error (\<lambda>err. if is_not_exist err then ErrorString (''required script missing: '' @ script)
                              else WrapError (''stat script '' @ script @ '': '') (go_fs_error err))
                (file_stat script)) (\<lambda>_.
     io_bind (io_try (file_stat ''/system/bin/sh'')) (\<lambda>found.
     let shell = (case found of Inr _ \<Rightarrow> ''/system/bin/sh'' | Inl _ \<Rightarrow> ''/bin/sh'');
         failed = (\<lambda>out err. io_fail (WrapError (script @ '' '' @ action @ '': '' @ out @ '': '') err))
     in io_bind (output_with_timeout e [shell, script, action] (ie_environ e @ env)) (\<lambda>r.
        case r of
          CommandOk out \<Rightarrow> io_return ()
        | CommandExit out err \<Rightarrow> failed out err
        | CommandSignaled out n \<Rightarrow> failed out (ErrorString (''signal: '' @ int_str n))
        | CommandNotRun err \<Rightarrow> failed [] err
        | CommandTimedOut out \<Rightarrow> failed out (ErrorString (shell @ '' timed out after 2m0s'')))))"

definition stop_current_proxy :: "'w install_env \<Rightarrow> string \<Rightarrow> ('w, unit) update" where
  "stop_current_proxy e dir =
     exec_script_with_env e (rescue_reset_script dir) ''update-clean''
       [''RKNNOVPN_DIR='' @ paths_dir dir, ''RUN_DIR='' @ run_dir dir, ''CONFIG_DIR='' @ config_dir dir,
        ''SCRIPTS_DIR='' @ scripts_dir dir, ''PATH='' @ getenv (ie_environ e) ''PATH'']"

definition verify_binary :: "'w install_env \<Rightarrow> string \<Rightarrow> ('w, unit) update" where
  "verify_binary e bin =
     io_bind (output_with_timeout e [bin, ''--version''] []) (\<lambda>r.
     case r of
       CommandOk out \<Rightarrow> io_return ()
     | CommandExit out err \<Rightarrow> io_return ()
     | CommandSignaled out n \<Rightarrow> fail_text (''binary crashed with signal '' @ int_str n)
     | CommandNotRun err \<Rightarrow> io_fail (WrapError ''exec failed: '' err)
     | CommandTimedOut out \<Rightarrow> io_fail (WrapError ''exec failed: '' (ErrorString (bin @ '' timed out after 5s''))))"

definition install_apk_update :: "'w install_env \<Rightarrow> string \<Rightarrow> ('w, unit) update" where
  "install_apk_update e apk =
     io_bind (output_with_timeout e [''pm'', ''install'', ''-r'', apk] []) (\<lambda>r.
     let failed = (\<lambda>out err. io_fail (WrapError (''pm install: '' @ out @ '': '') err))
     in case r of
          CommandOk out \<Rightarrow> io_return ()
        | CommandExit out err \<Rightarrow> failed out err
        | CommandSignaled out n \<Rightarrow> failed out (ErrorString (''signal: '' @ int_str n))
        | CommandNotRun err \<Rightarrow> failed [] err
        | CommandTimedOut out \<Rightarrow> failed out (ErrorString ''pm timed out after 5m0s''))"

section \<open>Launching the daemon\<close>

text \<open>The dials of ten seconds, half a second apart: twenty rounds are enough for a clock that goes on while sleeping.\<close>

fun wait_for_socket :: "'w install_env \<Rightarrow> nat \<Rightarrow> gtime \<Rightarrow> string \<Rightarrow> ('w, bool) update" where
  "wait_for_socket e 0 deadline sock d = (Inr False, d)"
| "wait_for_socket e (Suc n) deadline sock d =
     io_bind fresh_now (\<lambda>now.
     if deadline \<le> now then io_return False
     else (\<lambda>d. case ie_dial e sock d of
                 (True, d1) \<Rightarrow> (Inr True, d1) | (False, d1) \<Rightarrow> wait_for_socket e n deadline sock d1)) d"

definition relaunch_daemon :: "'w install_env \<Rightarrow> 'w launcher \<Rightarrow> string \<Rightarrow> ('w, unit) update" where
  "relaunch_daemon e la dir =
     (let daemon = in_dir (bin_dir dir) ''daemon''; config = in_dir (config_dir dir) ''config.json'';
          log = in_dir (log_dir dir) ''daemon.log''; sock = daemon_socket dir
      in io_bind (io_try (make_dir_all (log_dir dir) 448)) (\<lambda>_.
         io_bind (io_try (\<lambda>d. if node_at d (resolved d log) = None then create_file log 384 d
                              else io_bind (file_stat log) (\<lambda>_. io_return ()) d)) (\<lambda>_.
         io_bind (io_try (make_dir_all (run_dir dir) 488)) (\<lambda>_.
         io_bind (io_try (remove_file sock)) (\<lambda>_.
         io_bind (\<lambda>d. case la_spawn la [daemon, ''-config'', config, ''-data-dir'', dir, ''-log-file'', log,
                                        ''-pid-file'', daemon_pid_file dir] d of
                        (Some err, d1) \<Rightarrow> (Inl (WrapError ''spawn new daemon: '' err), d1)
                      | (None, d1) \<Rightarrow> (Inr (), d1)) (\<lambda>_.
         io_bind fresh_now (\<lambda>now.
         io_bind (wait_for_socket e 20 (now + 10 * second) sock) (\<lambda>listening.
         io_check listening
           (ErrorString (''new daemon did not start listening on '' @ sock @ '' within 10s''))))))))))"

section \<open>Backup and rollback of the binaries\<close>

definition backup_binaries :: "string \<Rightarrow> string \<Rightarrow> ('w, unit) update" where
  "backup_binaries bin backup =
     io_each (\<lambda>name. io_bind (io_try (file_stat (in_dir bin name))) (\<lambda>found.
        case found of
          Inl _ \<Rightarrow> io_return ()
        | Inr _ \<Rightarrow> io_bind (io_try (copy_file (in_dir bin name) (in_dir backup name) 488)) (\<lambda>_. io_return ())))
       release_binaries"

definition rollback_binaries :: "string \<Rightarrow> string \<Rightarrow> ('w, unit) update" where
  "rollback_binaries bin backup =
     io_each (\<lambda>name. io_bind (io_try (file_stat (in_dir backup name))) (\<lambda>found.
        case found of
          Inl _ \<Rightarrow> io_return ()
        | Inr _ \<Rightarrow> io_bind (io_try (atomic_copy_file (in_dir backup name) (in_dir bin name) 488)) (\<lambda>_. io_return ())))
       release_binaries"

section \<open>The steps\<close>

definition install_binary :: "string \<Rightarrow> string \<Rightarrow> string \<Rightarrow> ('w, unit) update" where
  "install_binary staged bin name =
     io_bind (io_try (file_stat (in_dir staged name))) (\<lambda>found.
     if (case found of Inl err \<Rightarrow> is_not_exist err | Inr _ \<Rightarrow> False)
     then fail_text (''release bundle missing required binary '' @ name)
     else io_error (WrapError (''install '' @ name @ '': '')) (atomic_copy_file (in_dir staged name) (in_dir bin name) 488))"

definition install_module_file :: "string \<Rightarrow> string \<Rightarrow> string \<Rightarrow> ('w, unit) update" where
  "install_module_file staging module_dir name =
     io_bind (io_try (file_stat (in_dir staging name))) (\<lambda>found.
     if (case found of Inl err \<Rightarrow> is_not_exist err | Inr _ \<Rightarrow> False)
     then io_bind (io_try (remove_file (in_dir module_dir name))) (\<lambda>_. io_return ())
     else io_bind (io_try (copy_file (in_dir staging name) (in_dir module_dir name) (file_perm name))) (\<lambda>_. io_return ()))"

definition update_current_symlink :: "string \<Rightarrow> string \<Rightarrow> ('w, unit) update" where
  "update_current_symlink dir release =
     (let current = in_dir dir ''current''
      in io_bind (wrapping ''create current temp path: '' (make_temp (RegularFile [] 384) dir ''.current-'')) (\<lambda>tmp.
         io_bind (wrapping ''remove current temp file: '' (remove_file tmp)) (\<lambda>_.
         io_bind (wrapping ''create current symlink: '' (make_link release tmp)) (\<lambda>_.
         io_bind (io_try (file_lstat current)) (\<lambda>found.
         io_on_error
           (io_bind (case found of
                       Inr (Folder m) \<Rightarrow>
                         io_bind (wrapping ''create current release backup dir: '' (make_dir_all (in_dir dir ''releases'') 448)) (\<lambda>_.
                         io_bind fresh_now (\<lambda>now.
                         wrapping ''move non-symlink current release aside: ''
                           (rename_path current (in_dir (in_dir dir ''releases'') (''current.pre-'' @ int_str now)))))
                     | Inr _ \<Rightarrow> io_return ()
                     | Inl err \<Rightarrow> if is_not_exist err then io_return ()
                                  else io_fail (WrapError ''stat current release path: '' (go_fs_error err))) (\<lambda>_.
            wrapping ''rename current symlink: '' (rename_path tmp current)))
           (remove_file tmp))))))"

definition mark_manual_start_required :: "string \<Rightarrow> ('w, unit) update" where
  "mark_manual_start_required dir =
     io_bind (wrapping ''mkdir config: '' (make_dir_all (config_dir dir) 448)) (\<lambda>_.
     io_bind (wrapping ''mkdir run: '' (make_dir_all (run_dir dir) 488)) (\<lambda>_.
     io_bind (wrapping ''write manual flag: ''
                (write_file (manual_flag dir) (''module update'' @ [char_of (10::nat)]) 384)) (\<lambda>_.
     wrapping ''remove active marker: '' (remove_if_there (active_file dir)))))"

text \<open>\<^verbatim>\<open>profile.Path\<close> and \<^verbatim>\<open>profile.LegacyPath\<close>.\<close>

definition profile_path :: "string \<Rightarrow> string \<Rightarrow> string" where
  "profile_path override config =
     (let clean = path_clean config
      in if override \<noteq> [] then override
         else if clean = path_join [default_module_dir, ''config'', ''config.json''] \<or>
                 has_prefix clean (path_clean default_module_dir @ ''/'')
         then path_join [default_state_dir, ''profile.json'']
         else path_join [path_dir config, ''profile.json''])"

definition legacy_profile_path :: "string \<Rightarrow> string" where
  "legacy_profile_path config = path_join [path_dir config, ''profile.json'']"

definition ensure_persistent_profile :: "'w install_env \<Rightarrow> string \<Rightarrow> ('w, unit) update" where
  "ensure_persistent_profile e dir =
     (let config = in_dir (config_dir dir) ''config.json''; profile = profile_path (ie_profile_override e) config;
          legacy = legacy_profile_path config
      in if profile = legacy then io_return ()
         else io_bind (io_try (file_stat profile)) (\<lambda>found.
              case found of
                Inr _ \<Rightarrow> io_return ()
              | Inl err \<Rightarrow>
                  if \<not> is_not_exist err then io_fail (WrapError ''stat profile: '' (go_fs_error err))
                  else io_bind (io_try (file_stat legacy)) (\<lambda>old.
                       case old of
                         Inl err \<Rightarrow> if is_not_exist err then io_return ()
                                    else io_fail (WrapError ''stat module profile: '' (go_fs_error err))
                       | Inr _ \<Rightarrow>
                           io_bind (wrapping ''mkdir profile state: '' (make_dir_all (path_dir profile) 448)) (\<lambda>_.
                           copy_file legacy profile 384))))"

text \<open>Steps 5 to 9 of the installation, each of which is rolled back when it fails.\<close>

definition replace_runtime ::
  "'w install_env \<Rightarrow> string \<Rightarrow> string \<Rightarrow> string \<Rightarrow> string \<Rightarrow> string \<Rightarrow> ('w, unit) update" where
  "replace_runtime e staging staged dir module_dir release =
     (let bin = bin_dir dir; scripts = scripts_dir dir; staged_scripts = in_dir staging ''scripts'';
          staged_defaults = in_dir staging ''defaults''
      in io_bind (io_each (install_binary staged bin) release_binaries) (\<lambda>_.
         io_bind (wrapping ''mkdir scripts: '' (make_dir_all scripts 493)) (\<lambda>_.
         io_bind (staged_folder staged_scripts) (\<lambda>there.
         io_bind (if there then io_error (WrapError ''copy scripts: '') (replace_dir_from_source staged_scripts scripts 493)
                  else io_return ()) (\<lambda>_.
         io_bind (staged_folder staged_scripts) (\<lambda>there.
         io_bind (if there then io_bind (io_try (replace_dir_from_source staged_scripts (scripts_dir module_dir) 493))
                                  (\<lambda>_. io_return ())
                  else io_return ()) (\<lambda>_.
         io_bind (io_each (install_module_file staging module_dir) module_files) (\<lambda>_.
         io_bind (staged_folder staged_defaults) (\<lambda>there.
         io_bind (if there then io_bind (io_try (replace_dir_from_source staged_defaults (in_dir module_dir ''defaults'') 420))
                                  (\<lambda>_. io_return ())
                  else io_return ()) (\<lambda>_.
         io_bind (set_perms bin 488) (\<lambda>_.
         io_bind (set_perms scripts 493) (\<lambda>_.
         io_bind (io_error (WrapError ''post-copy runtime cleanup: '') (stop_current_proxy e dir)) (\<lambda>_.
         io_bind (io_error (WrapError ''mark manual start required: '') (mark_manual_start_required dir)) (\<lambda>_.
         io_bind (io_error (WrapError ''preserve profile state: '') (ensure_persistent_profile e dir)) (\<lambda>_.
         io_bind (io_error (WrapError ''update current release symlink: '') (update_current_symlink dir release)) (\<lambda>_.
         io_bind (io_try (file_stat (in_dir bin ''daemon''))) (\<lambda>found.
         case found of
           Inl _ \<Rightarrow> io_return ()
         | Inr _ \<Rightarrow> io_error (WrapError ''new daemon verification failed: '')
                      (verify_binary e (in_dir bin ''daemon'')))))))))))))))))))"

definition install_release ::
  "'w install_env \<Rightarrow> 'w launcher \<Rightarrow> string \<Rightarrow> string \<Rightarrow> string \<Rightarrow> string \<Rightarrow> string \<Rightarrow> ('w, unit) update" where
  "install_release e la staging staged dir module_dir release =
     (let bin = bin_dir dir; backup = path_join [path_join [paths_dir dir, ''backup''], ''bin-pre-update'']
      in io_bind (wrapping ''mkdir bin: '' (make_dir_all bin 488)) (\<lambda>_.
         io_bind (io_try (remove_tree backup)) (\<lambda>_.
         io_bind (wrapping ''mkdir backup: '' (make_dir_all backup 488)) (\<lambda>_.
         io_bind (backup_binaries bin backup) (\<lambda>_.
         io_bind (io_on_error (replace_runtime e staging staged dir module_dir release) (rollback_binaries bin backup)) (\<lambda>_.
         io_bind (io_try (io_on_error (relaunch_daemon e la dir) (rollback_binaries bin backup))) (\<lambda>launched.
         case launched of
           Inr _ \<Rightarrow> io_return ()
         | Inl err \<Rightarrow>
             io_bind (io_try (relaunch_daemon e la dir)) (\<lambda>recovered.
             case recovered of
               Inl err2 \<Rightarrow> io_fail (WrapSuffix (WrapError ''relaunch daemon: '' err)
                                     (''; recovery relaunch failed: '' @ error_msg err2))
             | Inr _ \<Rightarrow> (\<lambda>d. (Inl (WrapSuffix (WrapError ''relaunch daemon: '' err) ''; previous daemon restored''),
                                 la_schedule_self_exit la d))))))))))"

definition install_module_update ::
  "'w install_env \<Rightarrow> 'w launcher \<Rightarrow> string \<Rightarrow> string \<Rightarrow> string \<Rightarrow> ('w, unit) update" where
  "install_module_update e la zip_path data_dir0 module_dir0 =
     (let data_dir = (if data_dir0 = [] then default_module_dir else data_dir0);
          module_dir = (if module_dir0 = [] then default_module_dir else module_dir0)
      in io_bind (wrapping ''create staging dir: '' (make_temp (Folder 448) data_dir ''update-staging-'')) (\<lambda>staging.
         io_finally
           (io_bind (stage_release e ''extract zip: '' zip_path staging) (\<lambda>(staged, props).
            io_bind (prepare_versioned_release e staging staged data_dir (env_get props ''version'')) (\<lambda>release.
            io_bind (io_error (WrapError ''runtime cleanup before module update: '') (stop_current_proxy e data_dir)) (\<lambda>_.
            install_release e la staging staged data_dir module_dir release))))
           (remove_tree staging)))"

end
