(* ===== verification/Spec2Isabelle.thy ===== *)
theory Spec2Isabelle
  imports
    OrchestratorProperties RoutingProperties NetstackProperties ResetProperties RootReloadProperties CoreFindings
    ConfigProperties RecoveryLoop SubscriptionProperties EnvelopeProperties ProfileProperties RendererProperties
    RendererGroups LinkProperties UpdateDownload UpdateInstaller
begin

text \<open>
  \<^bold>\<open>RKNnoVPN\<close> is a transparent proxy for rooted Android devices.  This development models its daemon, the Go
  code under \<^verbatim>\<open>daemon/internal\<close> and the parts of \<^verbatim>\<open>daemon/cmd/daemon\<close> that connect it.

  \<^bold>\<open>The program.\<close>  A client on a socket (\<^verbatim>\<open>ipc\<close>, \<^verbatim>\<open>control\<close>) asks to change the profile or to start and
  stop the runtime.  The runtime orchestrator (\<^verbatim>\<open>runtimev2\<close>) admits one operation at a time and runs it in a
  goroutine on the root backend (\<^verbatim>\<open>runtime/root\<close>), which drives the core manager (\<^verbatim>\<open>core\<close>): it renders the
  sing-box configuration (\<^verbatim>\<open>config\<close>), spawns sing-box and the Xray sidecar, waits for their listeners and has the
  network stack (\<^verbatim>\<open>netstack\<close>) run the firewall scripts.  A health monitor and a rescue manager
  (\<^verbatim>\<open>health\<close>, \<^verbatim>\<open>rescue\<close>) watch the core and recover it; the reset controller (\<^verbatim>\<open>resetcontroller\<close>) tears
  everything down under a lock.  Profiles live in a document (\<^verbatim>\<open>profile\<close>) that subscriptions (\<^verbatim>\<open>subscription\<close>)
  are merged into and that a transaction (\<^verbatim>\<open>apply\<close>) saves and applies.  The updater (\<^verbatim>\<open>updater\<close>) replaces
  the module.

  \<^bold>\<open>Theories, in the order of the layers.\<close>
  \<^item> \<^verbatim>\<open>Prelude\<close>, \<^verbatim>\<open>GoText\<close>, \<^verbatim>\<open>GoLists\<close>, \<^verbatim>\<open>IpAddress\<close>, \<^verbatim>\<open>Json\<close>, \<^verbatim>\<open>SharedSlice\<close>,
    \<^verbatim>\<open>Stages\<close>, \<^verbatim>\<open>Errors\<close>: what the code uses of Go: byte strings, numbers in text, time, paths, Base64, addresses,
    decoded JSON, slices that share an array, sequences of fallible steps and error chains (\<^verbatim>\<open>runtimeerr\<close>).
  \<^item> \<^verbatim>\<open>FileSystem\<close>, \<^verbatim>\<open>Processes\<close>, \<^verbatim>\<open>DeviceFiles\<close>: the operating system.  The first two are files, processes, a clock
    and ports under an arbitrary plan of the environment, for the core and the reset; the third is a tree with
    directories and links whose calls can fail, for the updater.
  \<^item> \<^verbatim>\<open>RuntimeTypes\<close>, \<^verbatim>\<open>StatusModel\<close>, \<^verbatim>\<open>Orchestrator\<close>, \<^verbatim>\<open>OperationRun\<close>, \<^verbatim>\<open>OrchestratorSteps\<close>,
    \<^verbatim>\<open>OrchestratorProperties\<close>: the orchestrator.  Each critical section is a function on \<^verbatim>\<open>orchestrator\<close>; the
    interleavings of all callers and goroutines are the relation \<^verbatim>\<open>orch_step\<close>.  The slot discipline is the
    locale \<^verbatim>\<open>single_flight\<close>, interpreted on the code's own functions, and a refinement to an idle/busy coordinator.
  \<^item> \<^verbatim>\<open>ModulePaths\<close>, \<^verbatim>\<open>Netstack\<close>, \<^verbatim>\<open>ResetController\<close>, \<^verbatim>\<open>StageReport\<close>, \<^verbatim>\<open>RootBackend\<close>, \<^verbatim>\<open>RootReload\<close> and their
    \<^verbatim>\<open>Properties\<close>: the backend, stated over arbitrary dependencies whose calls are recorded, so that the sequences
    of calls on every path can be named.
  \<^item> \<^verbatim>\<open>Config\<close>, \<^verbatim>\<open>ConfigRules\<close>, \<^verbatim>\<open>ConfigProperties\<close>: the configuration, its validation and the stored profile projection.
  \<^item> \<^verbatim>\<open>Packages\<close>, \<^verbatim>\<open>LocalProxy\<close>, \<^verbatim>\<open>Ports\<close>, \<^verbatim>\<open>ScriptEnv\<close>, \<^verbatim>\<open>RoutingProperties\<close>: package and UID
    resolution and the environments of the scripts (\<^verbatim>\<open>core/scripts.go\<close>, \<^verbatim>\<open>core/local_proxy.go\<close>).
  \<^item> \<^verbatim>\<open>CoreProcess\<close>, \<^verbatim>\<open>CoreManager\<close>, \<^verbatim>\<open>CoreHotSwap\<close>: \<^verbatim>\<open>core/manager.go\<close> and \<^verbatim>\<open>xray_sidecar.go\<close>, one definition per
    stage, run in order by \<^verbatim>\<open>run_stages\<close>.  \<^verbatim>\<open>CoreFrames\<close> holds what the helpers leave alone, \<^verbatim>\<open>CoreStart\<close>,
    \<^verbatim>\<open>CoreSwap\<close>, \<^verbatim>\<open>CoreInvariant\<close> and \<^verbatim>\<open>CoreStop\<close> one lemma per stage, \<^verbatim>\<open>CoreProperties\<close> the outcomes of whole
    operations and \<^verbatim>\<open>CoreFindings\<close> what goes wrong.
  \<^item> \<^verbatim>\<open>HealthMonitor\<close>, \<^verbatim>\<open>Rescue\<close>, \<^verbatim>\<open>HealthProperties\<close>, \<^verbatim>\<open>RescueProperties\<close>, \<^verbatim>\<open>RecoveryLoop\<close>: the monitor, the rescue,
    the daemon's gate and callbacks, and the loop they form.
  \<^item> \<^verbatim>\<open>StoredNode\<close>, \<^verbatim>\<open>NodeLinks\<close>, \<^verbatim>\<open>ProxyOutbound\<close>, \<^verbatim>\<open>Outbounds\<close>, \<^verbatim>\<open>Renderer\<close>: the sing-box renderer
    (\<^verbatim>\<open>config/renderer.go\<close>).  \<^verbatim>\<open>RendererReferences\<close>, \<^verbatim>\<open>RendererProperties\<close> and \<^verbatim>\<open>RendererGroups\<close> show which references of
    a rendered configuration are defined, when tags are distinct and what bypasses the proxy.
  \<^item> \<^verbatim>\<open>ProfileDoc\<close>, \<^verbatim>\<open>ProfileNodes\<close>, \<^verbatim>\<open>ProfileConfig\<close>, \<^verbatim>\<open>MergeProperties\<close>: the profile document, the operations on its nodes and
    the conversion to the configuration and back.
  \<^item> \<^verbatim>\<open>SubscriptionParse\<close>, \<^verbatim>\<open>SubscriptionMerge\<close>, \<^verbatim>\<open>SubscriptionClient\<close>, \<^verbatim>\<open>SubscriptionProperties\<close>, \<^verbatim>\<open>LinkProperties\<close>:
    reading, previewing and merging subscriptions, and the way of a share link into a rendered outbound.
  \<^item> \<^verbatim>\<open>Contract\<close>, \<^verbatim>\<open>ConfigTransaction\<close>, \<^verbatim>\<open>MutationEnvelope\<close>, \<^verbatim>\<open>ControlStores\<close>, \<^verbatim>\<open>ProfileRequests\<close>, \<^verbatim>\<open>ProfileHandlers\<close>,
    \<^verbatim>\<open>EnvelopeProperties\<close>, \<^verbatim>\<open>ProfileProperties\<close>: the contract of the socket, the transaction, the replies, the
    two stores (locales \<^verbatim>\<open>expiring_store\<close> and \<^verbatim>\<open>taking_store\<close>, interpreted on both) and the profile methods.
  \<^item> \<^verbatim>\<open>UpdateDownload\<close>, \<^verbatim>\<open>UpdateArchive\<close>, \<^verbatim>\<open>UpdateInstaller\<close>: the updater.  What a verification says of the files, and that
    unpacking stays beneath its directory and within its size limit, are lemmas of these theories.

  \<^bold>\<open>How state and effects are modelled.\<close>  A Go struct is a record with the same fields behind a prefix.  A method that
  changes its receiver is a function that returns the changed record; one that also calls the system threads a pair of
  manager and device.  An error return is an option or the left of a sum, a panic a constructor of its own.  A mutex
  makes a critical section one function, except in the orchestrator, where the goroutines interleave.  64-bit integers whose
  overflow matters (generations, epochs, the declared sizes of an archive) are words.  A Go map whose iteration order can be
  seen takes that order as an argument.  A slice that two documents share is a \<^verbatim>\<open>shared\<close> list, as the findings about
  upserts and refreshes depend on it.  Strings are byte lists; case folding is done for ASCII only.

  \<^bold>\<open>Parameters.\<close>  JSON and URL decoding, random identifiers, the HTTP client, script and command execution, the archive
  reader and SHA-256 are functions given to the definitions.  Properties hold for all of them.  The only
  law asked of one is in \<^verbatim>\<open>LinkProperties\<close>: a stored outbound is decoded to its canonical form, each key once and the keys
  in order, as \<^verbatim>\<open>encoding/json\<close> does.  Cloning a configuration through JSON is the identity but for the field that
  has no JSON name.

  \<^bold>\<open>Bounds.\<close>  Loops of the code that poll a clock get a number of rounds from their timeout and period, and are
  shown to end within it for every clock (\<^verbatim>\<open>wait_for_port_bounded\<close>).  Following links stops at forty, as in Linux; temporary
  names are tried ten thousand times, as in Go; the search for a free release name gets one candidate more than the tree
  has entries.  The numbering of operations is stated below \<^verbatim>\<open>2^63\<close> of them.

  \<^bold>\<open>Simplifications.\<close>  An accepted operation has its goroutine from the critical section on that accepts it, not from the
  \<^verbatim>\<open>go\<close> statement after the unlock.  A write that fails leaves the file of \<^verbatim>\<open>FileSystem\<close> as it was.  Tracked processes are
  killed in one order.  The texts of logs are left out.

  \<^bold>\<open>Not modelled.\<close>  Socket and netlink I/O, JSON framing, the network watcher, probes of the root health check,
  diagnostics and audit reports, the runtime methods of the control plane, reading and writing the configuration and profile
  files, the records of a running update, the wiring in \<^verbatim>\<open>main.go\<close>, shell scripts and the Android application: they are input and
  output around the modelled parts, or report what these hold.
\<close>

end
